(* ===== verification/JS_Prelude.thy ===== *)
theory JS_Prelude
  imports Main "HOL-Library.Sublist" "HOL-Library.Char_ord"
begin

text \<open>
  The part of the JavaScript language and of its standard library that the two single page
  applications (the payment page under ui-payment/ and the merchant dashboard under ui-dashboard/)
  use on strings, optional values and arrays, with the lemmas that the component theories share.

  A JavaScript string is a list of characters. Text outside ASCII that the code only stores,
  compares or concatenates (currency symbols, dashes) is spelled as its UTF-8 bytes; the slicing and
  splitting operations below are applied by the code to identifiers, amounts and addresses, whose
  characters are single code units. \<open>undefined\<close> and \<open>null\<close> are \<^term>\<open>None\<close>.
\<close>

named_theorems js_defs \<open>definitions of the JavaScript library operations\<close>

text \<open>The long dash of the texts that the pages show.\<close>

definition em_dash :: string where
  "em_dash = map char_of [226, 128, 148 :: nat]"

section \<open>Truthiness and default operators\<close>

text \<open>A string that may be missing is falsy when it is \<open>undefined\<close>, \<open>null\<close> or empty.\<close>

fun truthy :: "string option \<Rightarrow> bool" where
  "truthy None = False"
| "truthy (Some s) = (s \<noteq> [])"

text \<open>The operator \<open>a || b\<close> on a string that may be missing and a default.\<close>

definition or_else :: "string option \<Rightarrow> string \<Rightarrow> string" where
  "or_else a b = (case a of None \<Rightarrow> b | Some s \<Rightarrow> if s = [] then b else s)"

text \<open>The operator \<open>a || b\<close> where both sides may be missing.\<close>

definition or_opt :: "string option \<Rightarrow> string option \<Rightarrow> string option" where
  "or_opt a b = (if truthy a then a else b)"

text \<open>What a template literal prints for a value that may be missing.\<close>

definition template :: "string option \<Rightarrow> string" where
  "template a = (case a of None \<Rightarrow> ''undefined'' | Some s \<Rightarrow> s)"

lemma truthy_iff: "truthy a \<longleftrightarrow> (\<exists>s. a = Some s \<and> s \<noteq> [])"
  by (cases a) auto

lemma truthy_alt: "truthy a \<longleftrightarrow> a \<noteq> None \<and> a \<noteq> Some []"
  by (cases a) auto

lemma or_else_simps [simp]:
  "or_else None b = b"
  "or_else (Some []) b = b"
  "s \<noteq> [] \<Longrightarrow> or_else (Some s) b = s"
  by (auto simp: or_else_def)

lemma or_else_nonempty: "b \<noteq> [] \<Longrightarrow> or_else a b \<noteq> []"
  by (auto simp: or_else_def split: option.split)

lemma or_opt_simps [simp]:
  "or_opt None b = b"
  "or_opt (Some []) b = b"
  "s \<noteq> [] \<Longrightarrow> or_opt (Some s) b = Some s"
  by (auto simp: or_opt_def)

section \<open>Slices\<close>

text \<open>
  \<open>xs.slice(a)\<close> and \<open>xs.slice(a, b)\<close>: a negative index counts from the end, and both
  are clamped to the bounds of the sequence.
\<close>

definition clamp_index :: "nat \<Rightarrow> int \<Rightarrow> nat" where
  "clamp_index n i = (if i < 0 then nat (int n + i) else min n (nat i))"

definition slice_from :: "'a list \<Rightarrow> int \<Rightarrow> 'a list" where
  "slice_from xs a = drop (clamp_index (length xs) a) xs"

definition slice :: "'a list \<Rightarrow> int \<Rightarrow> int \<Rightarrow> 'a list" where
  "slice xs a b = drop (clamp_index (length xs) a) (take (clamp_index (length xs) b) xs)"

lemma clamp_index_le: "clamp_index n i \<le> n"
  by (auto simp: clamp_index_def)

lemma slice_0: "0 \<le> k \<Longrightarrow> slice xs 0 k = take (nat k) xs"
  by (simp add: slice_def clamp_index_def min_def)

lemma clamp_index_neg: "0 < k \<Longrightarrow> clamp_index n (- k) = n - nat k"
  by (simp add: clamp_index_def)

lemma slice_from_neg:
  "0 < k \<Longrightarrow> slice_from xs (- k) = drop (length xs - nat k) xs"
  by (simp add: slice_from_def clamp_index_neg)

lemma length_slice_0: "0 \<le> k \<Longrightarrow> length (slice xs 0 k) = min (length xs) (nat k)"
  by (simp add: slice_0)

lemma length_slice_from_neg:
  "0 < k \<Longrightarrow> length (slice_from xs (- k)) = min (length xs) (nat k)"
  by (auto simp: slice_from_neg)

section \<open>Splitting, searching, case\<close>

text \<open>\<open>s.split(c)\<close> for a separator of one character; the result is never empty.\<close>

fun split_on :: "char \<Rightarrow> string \<Rightarrow> string list" where
  "split_on c [] = [[]]"
| "split_on c (x # xs) =
     (if x = c then [] # split_on c xs
      else (case split_on c xs of [] \<Rightarrow> [[x]] | p # ps \<Rightarrow> (x # p) # ps))"

fun join_with :: "string \<Rightarrow> string list \<Rightarrow> string" where
  "join_with sep [] = []"
| "join_with sep [p] = p"
| "join_with sep (p # q # ps) = p @ sep @ join_with sep (q # ps)"

definition starts_with :: "string \<Rightarrow> string \<Rightarrow> bool" where
  "starts_with s p \<longleftrightarrow> take (length p) s = p"

definition ends_with :: "string \<Rightarrow> string \<Rightarrow> bool" where
  "ends_with s p \<longleftrightarrow> length p \<le> length s \<and> drop (length s - length p) s = p"

fun str_includes :: "string \<Rightarrow> string \<Rightarrow> bool" where
  "str_includes [] p = (p = [])"
| "str_includes (x # xs) p = (starts_with (x # xs) p \<or> str_includes xs p)"

text \<open>
  \<open>toLowerCase\<close> and \<open>toUpperCase\<close> on ASCII letters; the code applies them to tickers
  and to the values of build-time switches.
\<close>

definition lower_char :: "char \<Rightarrow> char" where
  "lower_char c =
     (let n = of_char c :: nat in if 65 \<le> n \<and> n \<le> 90 then char_of (n + 32) else c)"

definition upper_char :: "char \<Rightarrow> char" where
  "upper_char c =
     (let n = of_char c :: nat in if 97 \<le> n \<and> n \<le> 122 then char_of (n - 32) else c)"

definition to_lower :: "string \<Rightarrow> string" where
  "to_lower = map lower_char"

definition to_upper :: "string \<Rightarrow> string" where
  "to_upper = map upper_char"

lemma split_on_nonempty [simp]: "split_on c s \<noteq> []"
  by (induction s) (auto split: list.split)

lemma split_on_Cons: "\<exists>p ps. split_on c s = p # ps"
  using split_on_nonempty by (metis list.exhaust)

lemma split_on_no_sep: "c \<notin> set s \<Longrightarrow> split_on c s = [s]"
  by (induction s) auto

lemma split_on_pieces: "\<forall>p \<in> set (split_on c s). c \<notin> set p"
  by (induction s) (auto split: list.splits)

lemma join_split: "join_with [c] (split_on c s) = s"
proof (induction s)
  case Nil
  then show ?case by simp
next
  case (Cons x s)
  obtain p ps where ps: "split_on c s = p # ps"
    using split_on_Cons by blast
  then show ?case using Cons by (cases ps) auto
qed

lemma split_on_append_sep:
  "c \<notin> set a \<Longrightarrow> split_on c (a @ c # b) = a # split_on c b"
  by (induction a) auto

lemma sep_unique:
  "a @ c # r = b @ c # r' \<Longrightarrow> c \<notin> set a \<Longrightarrow> c \<notin> set b \<Longrightarrow> a = b \<and> r = r'"
proof (induction a arbitrary: b)
  case Nil
  then show ?case by (cases b) auto
next
  case (Cons x a)
  then show ?case by (cases b) auto
qed

lemma length_split_on: "length (split_on c s) = Suc (count_list s c)"
proof (induction s)
  case Nil
  then show ?case by simp
next
  case (Cons x s)
  obtain p ps where "split_on c s = p # ps"
    using split_on_Cons by blast
  then show ?case using Cons by auto
qed

lemma starts_with_append [simp]: "starts_with (p @ s) p"
  by (simp add: starts_with_def)

lemma starts_with_iff: "starts_with s p \<longleftrightarrow> (\<exists>r. s = p @ r)"
  by (metis starts_with_def append_eq_conv_conj)

lemma includes_iff: "str_includes s p \<longleftrightarrow> (\<exists>a b. s = a @ p @ b)"
proof (induction s)
  case Nil
  then show ?case by auto
next
  case (Cons x s)
  show ?case
  proof
    assume "str_includes (x # s) p"
    then consider "starts_with (x # s) p" | "str_includes s p" by auto
    then show "\<exists>a b. x # s = a @ p @ b"
    proof cases
      case 1
      then obtain r where "x # s = p @ r" by (auto simp: starts_with_iff)
      then have "x # s = [] @ p @ r" by simp
      then show ?thesis by blast
    next
      case 2
      then obtain a b where "s = a @ p @ b" using Cons.IH by blast
      then have "x # s = (x # a) @ p @ b" by simp
      then show ?thesis by blast
    qed
  next
    assume "\<exists>a b. x # s = a @ p @ b"
    then obtain a b where ab: "x # s = a @ p @ b" by blast
    show "str_includes (x # s) p"
    proof (cases a)
      case Nil
      with ab have "starts_with (x # s) p" by (auto simp: starts_with_iff)
      then show ?thesis by simp
    next
      case (Cons y a')
      with ab have "s = a' @ p @ b" by simp
      then show ?thesis using Cons.IH by auto
    qed
  qed
qed

lemma includes_single: "str_includes s [c] \<longleftrightarrow> c \<in> set s"
  by (auto simp: includes_iff in_set_conv_decomp)

section \<open>Decimal numerals\<close>

definition digit_char :: "nat \<Rightarrow> char" where
  "digit_char d = ''0123456789'' ! d"

fun show_nat :: "nat \<Rightarrow> string" where
  "show_nat n = (if n < 10 then [digit_char n] else show_nat (n div 10) @ [digit_char (n mod 10)])"

declare show_nat.simps [simp del]

lemma show_nat_small: "n < 10 \<Longrightarrow> show_nat n = [digit_char n]"
  by (simp add: show_nat.simps)

lemma show_nat_large: "\<not> n < 10 \<Longrightarrow> show_nat n = show_nat (n div 10) @ [digit_char (n mod 10)]"
  by (simp add: show_nat.simps [of n])

lemmas show_nat_eval = show_nat_small show_nat_large digit_char_def

definition show_int :: "int \<Rightarrow> string" where
  "show_int i = (if i < 0 then CHR ''-'' # show_nat (nat (- i)) else show_nat (nat i))"

definition is_digit :: "char \<Rightarrow> bool" where
  "is_digit c \<longleftrightarrow> 48 \<le> (of_char c :: nat) \<and> (of_char c :: nat) \<le> 57"

definition digit_val :: "char \<Rightarrow> nat" where
  "digit_val c = of_char c - 48"

definition nat_of_digits :: "string \<Rightarrow> nat" where
  "nat_of_digits = foldl (\<lambda>acc c. 10 * acc + digit_val c) 0"

lemma of_char_digit_char:
  assumes "d < 10"
  shows "of_char (digit_char d) = (48 + d :: nat)"
proof -
  from assms have "d \<in> {0, 1, 2, 3, 4, 5, 6, 7, 8, 9}" by auto
  then show ?thesis by (auto simp: digit_char_def)
qed

lemma is_digit_digit_char [simp]: "d < 10 \<Longrightarrow> is_digit (digit_char d)"
  by (simp add: is_digit_def of_char_digit_char)

lemma digit_val_digit_char [simp]: "d < 10 \<Longrightarrow> digit_val (digit_char d) = d"
  by (simp add: digit_val_def of_char_digit_char)

lemma show_nat_nonempty [simp]: "show_nat n \<noteq> []"
  by (subst show_nat.simps) simp

lemma show_nat_digits: "\<forall>c \<in> set (show_nat n). is_digit c"
proof (induction n rule: show_nat.induct)
  case (1 n)
  then show ?case by (subst show_nat.simps) auto
qed

lemma nat_of_digits_append:
  "nat_of_digits (xs @ [c]) = 10 * nat_of_digits xs + digit_val c"
  by (simp add: nat_of_digits_def)

lemma nat_of_digits_show_nat [simp]: "nat_of_digits (show_nat n) = n"
proof (induction n rule: show_nat.induct)
  case (1 n)
  show ?case
  proof (cases "n < 10")
    case True
    then show ?thesis by (subst show_nat.simps) (simp add: nat_of_digits_def)
  next
    case False
    with 1 have "nat_of_digits (show_nat (n div 10)) = n div 10" by simp
    with False show ?thesis
      by (subst show_nat.simps) (simp add: nat_of_digits_append)
  qed
qed

lemma show_nat_inj [simp]: "show_nat a = show_nat b \<longleftrightarrow> a = b"
  by (metis nat_of_digits_show_nat)

section \<open>Arrays\<close>

text \<open>\<open>xs.find(p)\<close>, \<open>xs[0]\<close> and \<open>xs[1]\<close> give \<open>undefined\<close> when there is no such element.\<close>

definition find_first :: "('a \<Rightarrow> bool) \<Rightarrow> 'a list \<Rightarrow> 'a option" where
  "find_first p xs = List.find p xs"

definition elem_at :: "'a list \<Rightarrow> nat \<Rightarrow> 'a option" where
  "elem_at xs i = (if i < length xs then Some (xs ! i) else None)"

text \<open>\<open>cond && element\<close> in a list of children: the element is there only when the condition holds.\<close>

definition when_ui :: "bool \<Rightarrow> 'a list \<Rightarrow> 'a list" where
  "when_ui b xs = (if b then xs else [])"

lemma when_ui_simps [simp]:
  "when_ui True xs = xs"
  "when_ui False xs = []"
  "when_ui b xs = [] \<longleftrightarrow> \<not> b \<or> xs = []"
  "length (when_ui b xs) = (if b then length xs else 0)"
  by (simp_all add: when_ui_def)

lemma set_when_ui [simp]: "x \<in> set (when_ui b xs) \<longleftrightarrow> b \<and> x \<in> set xs"
  by (simp add: when_ui_def)

lemma find_first_Some: "find_first p xs = Some x \<Longrightarrow> x \<in> set xs \<and> p x"
  by (auto simp: find_first_def find_Some_iff)

lemma find_first_None: "find_first p xs = None \<longleftrightarrow> (\<forall>x \<in> set xs. \<not> p x)"
  by (auto simp: find_first_def find_None_iff)

lemma at_Some: "elem_at xs i = Some x \<longleftrightarrow> i < length xs \<and> xs ! i = x"
  by (auto simp: elem_at_def)

lemmas string_defs = slice_def slice_from_def clamp_index_def starts_with_def ends_with_def
  to_lower_def to_upper_def lower_char_def upper_char_def

declare string_defs [js_defs] or_else_def [js_defs] or_opt_def [js_defs] template_def [js_defs]
  find_first_def [js_defs] elem_at_def [js_defs]

end
