(* ===== verification/Async.thy ===== *)
theory Async
  imports JS_Prelude
begin

text \<open>
  How a React component runs. Its code is cut at every \<open>await\<close> and every
  \<open>setTimeout\<close>: what runs between two of them is atomic in JavaScript and is one function
  from the state to the new state and a list of commands. A command starts a request and names the
  continuation that will get its answer, starts a timer and names what it will run, or is an effect
  on the outside (a navigation, a notification). Continuations are values of a datatype of the
  component, with the variables that the JavaScript closure captured as arguments: a closure made in
  an earlier render carries the state of that render.

  The world of a component is its state, the requests under way, the timers and the effects so far.
  Answers arrive and timers fire in any order. After each atomic piece React renders and runs the
  component's effects, which is \<open>c_effect\<close> on the states before and after.
\<close>

datatype ('q, 'k, 'e) cmd = Await 'q 'k | After nat 'k | Emit 'e

type_synonym ('s, 'q, 'k, 'e) outcome = "'s \<times> ('q, 'k, 'e) cmd list"

text \<open>The answer to a request: the promise is fulfilled or rejected.\<close>

datatype ('r, 'x) reply = Resolved 'r | Rejected 'x

record ('s, 'q, 'k, 'e) world =
  wst :: 's
  pending :: "('q \<times> 'k) list"
  timers :: "(nat \<times> 'k) list"
  trace :: "'e list"

record ('s, 'q, 'k, 'e, 'r, 'v) component =
  c_mount :: "'s \<Rightarrow> ('s, 'q, 'k, 'e) outcome"
  c_event :: "'v \<Rightarrow> 's \<Rightarrow> ('s, 'q, 'k, 'e) outcome"
  c_resume :: "'k \<Rightarrow> 'r \<Rightarrow> 's \<Rightarrow> ('s, 'q, 'k, 'e) outcome"
  c_timer :: "'k \<Rightarrow> 's \<Rightarrow> ('s, 'q, 'k, 'e) outcome"
  c_effect :: "'s \<Rightarrow> 's \<Rightarrow> ('s, 'q, 'k, 'e) outcome"
  c_fits :: "'q \<Rightarrow> 'r \<Rightarrow> bool"

section \<open>Commands\<close>

fun issue :: "('q, 'k, 'e) cmd list \<Rightarrow> ('s, 'q, 'k, 'e) world \<Rightarrow> ('s, 'q, 'k, 'e) world" where
  "issue [] w = w"
| "issue (Await q k # cs) w = issue cs (w\<lparr>pending := pending w @ [(q, k)]\<rparr>)"
| "issue (After t k # cs) w = issue cs (w\<lparr>timers := timers w @ [(t, k)]\<rparr>)"
| "issue (Emit e # cs) w = issue cs (w\<lparr>trace := trace w @ [e]\<rparr>)"

text \<open>The commands of two pieces of code run one after the other.\<close>

definition andThen ::
    "('s, 'q, 'k, 'e) outcome \<Rightarrow> ('s \<Rightarrow> ('s, 'q, 'k, 'e) outcome) \<Rightarrow> ('s, 'q, 'k, 'e) outcome" where
  "andThen o1 f = (case o1 of (s, cs) \<Rightarrow> case f s of (s', cs') \<Rightarrow> (s', cs @ cs'))"

definition idle :: "'s \<Rightarrow> ('s, 'q, 'k, 'e) outcome" where
  "idle s = (s, [])"

lemma andThen_simps [simp]:
  "andThen (s, cs) f = (fst (f s), cs @ snd (f s))"
  by (simp add: andThen_def split: prod.split)

lemma issue_wst [simp]: "wst (issue cs w) = wst w"
  by (induction cs w rule: issue.induct) auto

lemma set_pending_issue:
  "set (pending (issue cs w)) = set (pending w) \<union> {(q, k). Await q k \<in> set cs}"
  by (induction cs w rule: issue.induct) auto

lemma set_timers_issue:
  "set (timers (issue cs w)) = set (timers w) \<union> {(t, k). After t k \<in> set cs}"
  by (induction cs w rule: issue.induct) auto

lemma set_trace_issue:
  "set (trace (issue cs w)) = set (trace w) \<union> {e. Emit e \<in> set cs}"
  by (induction cs w rule: issue.induct) auto

lemma trace_issue_prefix: "\<exists>es. trace (issue cs w) = trace w @ es"
  by (induction cs w rule: issue.induct) auto

section \<open>Steps\<close>

text \<open>One atomic piece of code, from the old state, followed by the effects.\<close>

definition commit ::
    "('s, 'q, 'k, 'e, 'r, 'v) component \<Rightarrow> 's \<Rightarrow> ('s, 'q, 'k, 'e) outcome \<Rightarrow>
     ('s, 'q, 'k, 'e) world \<Rightarrow> ('s, 'q, 'k, 'e) world" where
  "commit c old oc w =
     (let (s, cs) = andThen oc (c_effect c old) in issue cs (w\<lparr>wst := s\<rparr>))"

definition drop_nth :: "nat \<Rightarrow> 'a list \<Rightarrow> 'a list" where
  "drop_nth i xs = take i xs @ drop (Suc i) xs"

definition do_event where
  "do_event c v w = commit c (wst w) (c_event c v (wst w)) w"

definition do_reply where
  "do_reply c i r w =
     commit c (wst w) (c_resume c (snd (pending w ! i)) r (wst w))
       (w\<lparr>pending := drop_nth i (pending w)\<rparr>)"

definition do_timer where
  "do_timer c i w =
     commit c (wst w) (c_timer c (snd (timers w ! i)) (wst w))
       (w\<lparr>timers := drop_nth i (timers w)\<rparr>)"

definition initial ::
    "('s, 'q, 'k, 'e, 'r, 'v) component \<Rightarrow> 's \<Rightarrow> ('s, 'q, 'k, 'e) world" where
  "initial c s =
     (let (s', cs) = c_mount c s
      in issue cs \<lparr>wst = s', pending = [], timers = [], trace = []\<rparr>)"

inductive astep ::
    "('s, 'q, 'k, 'e, 'r, 'v) component \<Rightarrow> ('s, 'q, 'k, 'e) world \<Rightarrow>
     ('s, 'q, 'k, 'e) world \<Rightarrow> bool" for c where
  event: "astep c w (do_event c v w)"
| reply: "i < length (pending w) \<Longrightarrow> c_fits c (fst (pending w ! i)) r \<Longrightarrow>
     astep c w (do_reply c i r w)"
| timer: "i < length (timers w) \<Longrightarrow> astep c w (do_timer c i w)"

inductive areach ::
    "('s, 'q, 'k, 'e, 'r, 'v) component \<Rightarrow> ('s \<Rightarrow> bool) \<Rightarrow> ('s, 'q, 'k, 'e) world \<Rightarrow> bool"
  for c S where
  start: "S s \<Longrightarrow> areach c S (initial c s)"
| step: "areach c S w \<Longrightarrow> astep c w w' \<Longrightarrow> areach c S w'"

inductive_cases astepE: "astep c w w'"

lemma set_drop_nth: "set (drop_nth i xs) \<subseteq> set xs"
  by (auto simp: drop_nth_def dest: in_set_takeD in_set_dropD)

lemma nth_or_drop_nth: "x \<in> set xs \<Longrightarrow> i < length xs \<Longrightarrow> x = xs ! i \<or> x \<in> set (drop_nth i xs)"
  by (metis UnE drop_nth_def id_take_nth_drop set_ConsD set_append Un_iff)

lemma commit_wst: "wst (commit c old oc w) = fst (andThen oc (c_effect c old))"
  by (simp add: commit_def split: prod.split)

lemmas commit_simps = commit_def Let_def split_def set_pending_issue set_timers_issue
  set_trace_issue

text \<open>A request that is under way after a step and was not before was made by one of its pieces.\<close>

lemma pending_commit:
  "(q, k) \<in> set (pending (commit c old oc w)) \<longleftrightarrow>
     (q, k) \<in> set (pending w) \<or> Await q k \<in> set (snd oc)
     \<or> Await q k \<in> set (snd (c_effect c old (fst oc)))"
  by (cases oc) (auto simp: commit_simps)

lemma new_request:
  assumes "astep c w w'" and "(q, k) \<in> set (pending w')" and "(q, k) \<notin> set (pending w)"
  obtains (event) v where "w' = do_event c v w" "Await q k \<in> set (snd (c_event c v (wst w)))"
  | (reply) i r where "w' = do_reply c i r w" "i < length (pending w)" "c_fits c (fst (pending w ! i)) r"
      "Await q k \<in> set (snd (c_resume c (snd (pending w ! i)) r (wst w)))"
  | (timer) i where "w' = do_timer c i w" "i < length (timers w)"
      "Await q k \<in> set (snd (c_timer c (snd (timers w ! i)) (wst w)))"
  | (effect) old s where "Await q k \<in> set (snd (c_effect c old s))"
  using assms
proof (cases rule: astep.cases)
  case (event v)
  then show ?thesis
    using assms(2,3) that(1,4) by (auto simp: do_event_def pending_commit)
next
  case (reply i r)
  then show ?thesis
    using assms(2,3) that(2,4) set_drop_nth [of i "pending w"]
    by (auto simp: do_reply_def pending_commit)
next
  case (timer i)
  then show ?thesis
    using assms(2,3) that(3,4) by (auto simp: do_timer_def pending_commit)
qed

section \<open>Safety of a component\<close>

text \<open>
  What a client promises of its code: the state invariant \<open>I\<close> is kept by every piece, and the
  requests, timers and effects it starts satisfy \<open>K\<close>, \<open>T\<close> and \<open>E\<close>. Then they
  hold in every reachable world.
\<close>

definition ok_cmd ::
    "('q \<Rightarrow> 'k \<Rightarrow> bool) \<Rightarrow> ('k \<Rightarrow> bool) \<Rightarrow> ('e \<Rightarrow> bool) \<Rightarrow> ('q, 'k, 'e) cmd \<Rightarrow> bool" where
  "ok_cmd K T E c =
     (case c of Await q k \<Rightarrow> K q k | After t k \<Rightarrow> T k | Emit e \<Rightarrow> E e)"

definition ok_outcome where
  "ok_outcome I K T E oc \<longleftrightarrow> I (fst oc) \<and> (\<forall>c \<in> set (snd oc). ok_cmd K T E c)"

lemma ok_cmd_simps [simp]:
  "ok_cmd K T E (Await q k) = K q k"
  "ok_cmd K T E (After t k) = T k"
  "ok_cmd K T E (Emit e) = E e"
  by (simp_all add: ok_cmd_def)

lemma ok_outcome_pair [simp]:
  "ok_outcome I K T E (s, cs) \<longleftrightarrow> I s \<and> (\<forall>c \<in> set cs. ok_cmd K T E c)"
  by (simp add: ok_outcome_def)

definition ok_world where
  "ok_world I K T E w \<longleftrightarrow>
     I (wst w) \<and> (\<forall>(q, k) \<in> set (pending w). K q k) \<and> (\<forall>(t, k) \<in> set (timers w). T k)
     \<and> (\<forall>e \<in> set (trace w). E e)"

lemma ok_issue:
  assumes w: "ok_world I K T E w" and cs: "\<forall>c \<in> set cs. ok_cmd K T E c"
  shows "ok_world I K T E (issue cs w)"
proof -
  have "K q k" if "Await q k \<in> set cs" for q k using cs that by fastforce
  moreover have "T k" if "After t k \<in> set cs" for t k using cs that by fastforce
  moreover have "E e" if "Emit e \<in> set cs" for e using cs that by fastforce
  ultimately show ?thesis
    using w by (auto simp: ok_world_def set_pending_issue set_timers_issue set_trace_issue)
qed

locale safe_component =
  fixes c :: "('s, 'q, 'k, 'e, 'r, 'v) component"
    and I :: "'s \<Rightarrow> bool" and K :: "'q \<Rightarrow> 'k \<Rightarrow> bool" and T :: "'k \<Rightarrow> bool" and E :: "'e \<Rightarrow> bool"
  assumes mount_ok: "I s \<Longrightarrow> ok_outcome I K T E (c_mount c s)"
    and event_ok: "I s \<Longrightarrow> ok_outcome I K T E (c_event c v s)"
    and resume_ok: "I s \<Longrightarrow> K q k \<Longrightarrow> c_fits c q r \<Longrightarrow> ok_outcome I K T E (c_resume c k r s)"
    and timer_ok: "I s \<Longrightarrow> T k \<Longrightarrow> ok_outcome I K T E (c_timer c k s)"
    and effect_ok: "I s \<Longrightarrow> I s' \<Longrightarrow> ok_outcome I K T E (c_effect c s s')"
begin

lemma commit_ok:
  assumes "ok_outcome I K T E oc" and "I old" and "ok_world I K T E w"
  shows "ok_world I K T E (commit c old oc w)"
proof -
  obtain s cs where oc: "oc = (s, cs)" by (cases oc)
  with assms(1) have s: "I s" and cs: "\<forall>c \<in> set cs. ok_cmd K T E c" by auto
  obtain s' cs' where e: "c_effect c old s = (s', cs')" by (cases "c_effect c old s")
  with effect_ok [OF assms(2) s] have e': "I s'" "\<forall>c \<in> set cs'. ok_cmd K T E c" by auto
  have w: "ok_world I K T E (w\<lparr>wst := s'\<rparr>)" using assms(3) e'(1) by (simp add: ok_world_def)
  have "ok_world I K T E (issue (cs @ cs') (w\<lparr>wst := s'\<rparr>))"
    by (rule ok_issue [OF w]) (use cs e'(2) in auto)
  then show ?thesis by (simp add: commit_def oc e)
qed

lemma step_ok: "astep c w w' \<Longrightarrow> ok_world I K T E w \<Longrightarrow> ok_world I K T E w'"
proof (induction rule: astep.induct)
  case (event w v)
  then show ?case
    unfolding do_event_def by (intro commit_ok event_ok) (auto simp: ok_world_def)
next
  case (reply i w r)
  then have "pending w ! i \<in> set (pending w)" by simp
  with reply have "K (fst (pending w ! i)) (snd (pending w ! i))"
    by (auto simp: ok_world_def split_def)
  with reply show ?case
    unfolding do_reply_def
    by (intro commit_ok resume_ok) (use set_drop_nth in \<open>fastforce simp: ok_world_def\<close>)+
next
  case (timer i w)
  then have "timers w ! i \<in> set (timers w)" by simp
  with timer have "T (snd (timers w ! i))" by (auto simp: ok_world_def split_def)
  with timer show ?case
    unfolding do_timer_def
    by (intro commit_ok timer_ok) (use set_drop_nth in \<open>fastforce simp: ok_world_def\<close>)+
qed

lemma initial_ok:
  assumes "I s"
  shows "ok_world I K T E (initial c s)"
proof -
  obtain s' cs where m: "c_mount c s = (s', cs)" by (metis surj_pair)
  with mount_ok [OF assms] have "I s'" and cs: "\<forall>c \<in> set cs. ok_cmd K T E c" by auto
  then have w: "ok_world I K T E \<lparr>wst = s', pending = [], timers = [], trace = []\<rparr>"
    by (simp add: ok_world_def)
  show ?thesis
    using ok_issue [OF w cs] by (simp add: initial_def m)
qed

lemma reachable_ok: "areach c S w \<Longrightarrow> (\<And>s. S s \<Longrightarrow> I s) \<Longrightarrow> ok_world I K T E w"
  by (induction rule: areach.induct) (auto intro: initial_ok step_ok)

end

section \<open>Liveness of a component\<close>

text \<open>
  A component that must not go to sleep while \<open>L\<close> holds of its state (a page that polls) keeps
  at least one task under way that will wake it: a request with \<open>A\<close> or a timer with \<open>B\<close>.
  It is enough that a piece that consumes such a task starts another or leaves \<open>L\<close>, and that
  no piece enters \<open>L\<close> without starting one.
\<close>

definition wakes :: "('k \<Rightarrow> bool) \<Rightarrow> ('k \<Rightarrow> bool) \<Rightarrow> ('q, 'k, 'e) cmd list \<Rightarrow> bool" where
  "wakes A B cs \<longleftrightarrow> (\<exists>q k. Await q k \<in> set cs \<and> A k) \<or> (\<exists>t k. After t k \<in> set cs \<and> B k)"

lemma wakes_simps:
  "wakes A B [] = False" "wakes A B (Await q k # cs) = (A k \<or> wakes A B cs)"
  "wakes A B (After t k # cs) = (B k \<or> wakes A B cs)" "wakes A B (Emit e # cs) = wakes A B cs"
  "wakes A B (cs @ ds) = (wakes A B cs \<or> wakes A B ds)"
  by (auto simp: wakes_def)

definition awake where
  "awake L A B w \<longleftrightarrow>
     (L (wst w) \<longrightarrow> (\<exists>(q, k) \<in> set (pending w). A k) \<or> (\<exists>(t, k) \<in> set (timers w). B k))"

locale live_component = safe_component +
  fixes L :: "'a \<Rightarrow> bool" and A :: "'c \<Rightarrow> bool" and B :: "'c \<Rightarrow> bool"
  assumes mount_live: "I s \<Longrightarrow> c_mount c s = (s', cs) \<Longrightarrow> L s' \<Longrightarrow> wakes A B cs"
    and event_live:
      "I s \<Longrightarrow> andThen (c_event c v s) (c_effect c s) = (s', cs) \<Longrightarrow> L s' \<Longrightarrow> wakes A B cs \<or> L s"
    and resume_live:
      "I s \<Longrightarrow> K q k \<Longrightarrow> c_fits c q r \<Longrightarrow> andThen (c_resume c k r s) (c_effect c s) = (s', cs)
        \<Longrightarrow> L s' \<Longrightarrow> wakes A B cs \<or> (L s \<and> \<not> A k)"
    and timer_live:
      "I s \<Longrightarrow> T k \<Longrightarrow> andThen (c_timer c k s) (c_effect c s) = (s', cs) \<Longrightarrow> L s' \<Longrightarrow>
        wakes A B cs \<or> (L s \<and> \<not> B k)"
begin

lemma awake_issue:
  assumes "L s \<Longrightarrow> wakes A B cs \<or> awake L A B (w\<lparr>wst := s\<rparr>)"
  shows "awake L A B (issue cs (w\<lparr>wst := s\<rparr>))"
  using assms unfolding awake_def wakes_def by (auto simp: set_pending_issue set_timers_issue)

lemma step_awake:
  "astep c w w' \<Longrightarrow> ok_world I K T E w \<Longrightarrow> awake L A B w \<Longrightarrow> awake L A B w'"
proof (induction rule: astep.induct)
  case (event w v)
  obtain s cs where o: "andThen (c_event c v (wst w)) (c_effect c (wst w)) = (s, cs)"
    by (metis surj_pair)
  have "I (wst w)" using event(1) by (simp add: ok_world_def)
  then show ?case
    unfolding do_event_def commit_def o prod.case Let_def
    by (intro awake_issue) (use event_live [OF _ o] event in \<open>auto simp: awake_def\<close>)
next
  case (reply i w r)
  let ?k = "snd (pending w ! i)"
  obtain s cs where o: "andThen (c_resume c ?k r (wst w)) (c_effect c (wst w)) = (s, cs)"
    by (metis surj_pair)
  have "pending w ! i \<in> set (pending w)" using reply(1) by simp
  with reply(3) have ok: "I (wst w)" "K (fst (pending w ! i)) ?k"
    by (auto simp: ok_world_def split_def)
  have "wakes A B cs \<or> awake L A B (w\<lparr>pending := drop_nth i (pending w), wst := s\<rparr>)" if "L s"
    using resume_live [OF ok reply(2) o that]
  proof (elim disjE conjE)
    assume "L (wst w)" and k: "\<not> A ?k"
    with reply(4) consider (p) x where "x \<in> set (pending w)" "A (snd x)"
      | (t) x where "x \<in> set (timers w)" "B (snd x)"
      by (auto simp: awake_def split_def)
    then show ?thesis
    proof cases
      case p
      then have "x \<in> set (drop_nth i (pending w))"
        using nth_or_drop_nth [OF p(1) reply(1)] k by auto
      then show ?thesis using p(2) by (auto simp: awake_def split_def)
    next
      case t
      then show ?thesis by (auto simp: awake_def split_def)
    qed
  qed simp
  then show ?case
    unfolding do_reply_def commit_def o prod.case Let_def by (intro awake_issue) simp
next
  case (timer i w)
  let ?k = "snd (timers w ! i)"
  obtain s cs where o: "andThen (c_timer c ?k (wst w)) (c_effect c (wst w)) = (s, cs)"
    by (metis surj_pair)
  have "timers w ! i \<in> set (timers w)" using timer(1) by simp
  with timer(2) have ok: "I (wst w)" "T ?k" by (auto simp: ok_world_def split_def)
  have "wakes A B cs \<or> awake L A B (w\<lparr>timers := drop_nth i (timers w), wst := s\<rparr>)" if "L s"
    using timer_live [OF ok o that]
  proof (elim disjE conjE)
    assume "L (wst w)" and k: "\<not> B ?k"
    with timer(3) consider (p) x where "x \<in> set (pending w)" "A (snd x)"
      | (t) x where "x \<in> set (timers w)" "B (snd x)"
      by (auto simp: awake_def split_def)
    then show ?thesis
    proof cases
      case p
      then show ?thesis by (auto simp: awake_def split_def)
    next
      case t
      then have "x \<in> set (drop_nth i (timers w))"
        using nth_or_drop_nth [OF t(1) timer(1)] k by auto
      then show ?thesis using t(2) by (auto simp: awake_def split_def)
    qed
  qed simp
  then show ?case
    unfolding do_timer_def commit_def o prod.case Let_def by (intro awake_issue) simp
qed

lemma initial_awake:
  assumes "I s"
  shows "awake L A B (initial c s)"
proof -
  obtain s' cs where m: "c_mount c s = (s', cs)" by (metis surj_pair)
  show ?thesis
    using mount_live [OF assms m] unfolding initial_def m
    by (auto simp: awake_def wakes_def set_pending_issue set_timers_issue)
qed

lemma reachable_awake: "areach c S w \<Longrightarrow> (\<And>s. S s \<Longrightarrow> I s) \<Longrightarrow> awake L A B w"
proof (induction rule: areach.induct)
  case (start s)
  then show ?case by (intro initial_awake) blast
next
  case (step w w')
  then show ?case using step_awake reachable_ok by blast
qed

end

end
