(* ===== verification/JS_Number.thy ===== *)
theory JS_Number
  imports Complex_Main JS_Prelude
begin

text \<open>
  JavaScript numbers. A finite number is the rational it denotes; a rational that is not a double is
  rounded by \<open>fl\<close> to the nearest one, ties to the even significand, as IEEE 754 and
  ECMAScript prescribe. The sign of zero is not kept: no operation the code applies shows it.
  \<open>to_fixed\<close>, \<open>num_str\<close>, \<open>to_number\<close> and \<open>parse_float\<close> are
  \<open>Number.prototype.toFixed\<close>, \<open>String(x)\<close>, \<open>Number(s)\<close> and \<open>parseFloat\<close>.
\<close>

datatype jsnum = NaN | PosInf | NegInf | Fin rat

definition is_nan :: "jsnum \<Rightarrow> bool" where
  "is_nan x \<longleftrightarrow> x = NaN"

definition is_finite :: "jsnum \<Rightarrow> bool" where
  "is_finite x \<longleftrightarrow> (\<exists>r. x = Fin r)"

lemma is_finite_code [simp, code]:
  "is_finite (Fin r) = True" "is_finite NaN = False"
  "is_finite PosInf = False" "is_finite NegInf = False"
  by (simp_all add: is_finite_def)

text \<open>The comparison \<open>x > 0\<close>.\<close>

fun positive :: "jsnum \<Rightarrow> bool" where
  "positive NaN = False"
| "positive PosInf = True"
| "positive NegInf = False"
| "positive (Fin r) = (0 < r)"

section \<open>Rounding to a double\<close>

definition pow2 :: "int \<Rightarrow> rat" where
  "pow2 e = 2 powi e"

definition pow10 :: "int \<Rightarrow> rat" where
  "pow10 e = 10 powi e"

fun bit_count :: "nat \<Rightarrow> nat" where
  "bit_count n = (if n = 0 then 0 else Suc (bit_count (n div 2)))"

declare bit_count.simps [simp del]

definition ilog2 :: "rat \<Rightarrow> int" where
  "ilog2 x =
     (let (p, q) = quotient_of x;
          k = int (bit_count (nat p)) - int (bit_count (nat q))
      in if pow2 k \<le> x then k else k - 1)"

definition round_even :: "rat \<Rightarrow> int" where
  "round_even x =
     (let f = \<lfloor>x\<rfloor>; r = x - of_int f
      in if r < 1/2 then f else if 1/2 < r then f + 1 else if even f then f else f + 1)"

definition fl :: "rat \<Rightarrow> jsnum" where
  "fl x =
     (if x = 0 then Fin 0
      else let a = \<bar>x\<bar>; e = max (- 1074) (ilog2 a - 52);
               v = of_int (round_even (a / pow2 e)) * pow2 e
           in if 2 ^ 1024 \<le> v then (if x < 0 then NegInf else PosInf)
              else Fin (if x < 0 then - v else v))"

text \<open>Addition of two doubles.\<close>

fun js_add :: "jsnum \<Rightarrow> jsnum \<Rightarrow> jsnum" where
  "js_add (Fin a) (Fin b) = fl (a + b)"
| "js_add NaN _ = NaN"
| "js_add _ NaN = NaN"
| "js_add PosInf NegInf = NaN"
| "js_add NegInf PosInf = NaN"
| "js_add PosInf _ = PosInf"
| "js_add _ PosInf = PosInf"
| "js_add NegInf _ = NegInf"
| "js_add _ NegInf = NegInf"

lemma pow2_pos [simp]: "0 < pow2 e"
  by (simp add: pow2_def)

lemma pow10_pos [simp]: "0 < pow10 e"
  by (simp add: pow10_def)

lemma floor_rat_numeral [simp]:
  "\<lfloor>numeral a / numeral b :: rat\<rfloor> = numeral a div numeral b"
  "\<lfloor>1 / numeral b :: rat\<rfloor> = 1 div numeral b"
  using floor_divide_of_int_eq [of "numeral a" "numeral b", where 'a = rat]
    floor_divide_of_int_eq [of 1 "numeral b", where 'a = rat] by simp_all

lemma pow10_neg_nat: "pow10 (- int n) = 1 / 10 ^ n"
  by (simp add: pow10_def power_int_minus divide_inverse)

lemma pow2_neg_nat: "pow2 (- int n) = 1 / 2 ^ n"
  by (simp add: pow2_def power_int_minus divide_inverse)

lemma round_even_of_int [simp]: "round_even (of_int i) = i"
  by (simp add: round_even_def)

lemma fl_0 [simp]: "fl 0 = Fin 0"
  by (simp add: fl_def)

lemma bit_count_le: "n < 2 ^ k \<Longrightarrow> bit_count n \<le> k"
proof (induction k arbitrary: n)
  case 0
  then have "n = 0" by simp
  then show ?case by (simp add: bit_count.simps [of 0])
next
  case (Suc k)
  then have "n div 2 < 2 ^ k" by (simp add: less_mult_imp_div_less mult.commute)
  then have "bit_count (n div 2) \<le> k" by (rule Suc.IH)
  then show ?case by (simp add: bit_count.simps [of n])
qed

lemma bit_count_bounds: "0 < n \<Longrightarrow> 2 ^ bit_count n \<le> 2 * n \<and> n < 2 ^ bit_count n"
proof (induction n rule: bit_count.induct)
  case (1 n)
  show ?case
  proof (cases "n = 1")
    case True
    then show ?thesis by (simp add: bit_count.simps)
  next
    case False
    with 1 have "2 ^ bit_count (n div 2) \<le> 2 * (n div 2)" "n div 2 < 2 ^ bit_count (n div 2)"
      by auto
    then have "2 ^ bit_count (n div 2) \<le> n" "n < 2 * 2 ^ bit_count (n div 2)" by linarith+
    with 1 show ?thesis by (simp add: bit_count.simps [of n])
  qed
qed

text \<open>\<open>ilog2 x\<close> is the exponent of the binade that holds \<open>x\<close>.\<close>

lemma ilog2_bounds:
  assumes "0 < x"
  shows "pow2 (ilog2 x) \<le> x" and "x < pow2 (ilog2 x + 1)"
proof -
  obtain p q where pq: "quotient_of x = (p, q)" by (cases "quotient_of x")
  then have q: "0 < q" and x: "x = of_int p / of_int q"
    by (auto simp: quotient_of_denom_pos quotient_of_div)
  then have p: "0 < p" using assms by (simp add: zero_less_divide_iff)
  define a b where "a = bit_count (nat p)" and "b = bit_count (nat q)"
  define k where "k = int a - int b"
  have "(2::nat) ^ a \<le> 2 * nat p" "nat p < 2 ^ a" "(2::nat) ^ b \<le> 2 * nat q" "nat q < 2 ^ b"
    using bit_count_bounds [of "nat p"] bit_count_bounds [of "nat q"] p q
    by (auto simp: a_def b_def)
  then have "(2::int) ^ a \<le> 2 * p" "p < 2 ^ a" "(2::int) ^ b \<le> 2 * q" "q < 2 ^ b"
    using p q by (simp_all add: nat_less_iff flip: of_nat_le_iff [where 'a = int])
  then have "(of_int (2 ^ a) :: rat) \<le> of_int (2 * p)" "(of_int p :: rat) < of_int (2 ^ a)"
    "(of_int (2 ^ b) :: rat) \<le> of_int (2 * q)" "(of_int q :: rat) < of_int (2 ^ b)"
    by (simp_all only: of_int_le_iff of_int_less_iff)
  then have r: "(2::rat) ^ a \<le> 2 * of_int p" "(of_int p :: rat) < 2 ^ a"
    "(2::rat) ^ b \<le> 2 * of_int q" "(of_int q :: rat) < 2 ^ b"
    by simp_all
  have k: "pow2 k = 2 ^ a / 2 ^ b" by (simp add: k_def pow2_def power_int_diff)
  have k1: "pow2 (k + 1) = 2 * (2 ^ a / 2 ^ b)" "pow2 (k - 1) = 2 ^ a / 2 ^ b / 2"
    by (simp_all add: pow2_def power_int_add power_int_diff k_def)
  have q': "(0::rat) < of_int q" using q by simp
  have "of_int p * 2 ^ b < (2::rat) ^ a * (2 * of_int q)"
    by (rule mult_less_le_imp_less) (use r p in auto)
  then have hi: "x < pow2 (k + 1)"
    using q' unfolding x k1 by (simp add: field_simps)
  have "(2::rat) ^ a * of_int q \<le> (2 * of_int p) * 2 ^ b"
    by (rule mult_mono) (use r p q in auto)
  then have lo: "pow2 (k - 1) \<le> x"
    using q' unfolding x k1 by (simp add: field_simps)
  have l: "ilog2 x = (if pow2 k \<le> x then k else k - 1)"
    by (simp add: ilog2_def pq k_def a_def b_def)
  show "pow2 (ilog2 x) \<le> x" "x < pow2 (ilog2 x + 1)"
    using hi lo by (auto simp: l)
qed

lemma pow2_less_iff [simp]: "pow2 a < pow2 b \<longleftrightarrow> a < b"
proof -
  have m: "i < j \<Longrightarrow> pow2 i < pow2 j" for i j
    by (simp add: pow2_def power_int_strict_increasing)
  show ?thesis using m [of a b] m [of b a] by (cases a b rule: linorder_cases) auto
qed

lemma ilog2_unique:
  assumes "pow2 k \<le> x" and "x < pow2 (k + 1)"
  shows "ilog2 x = k"
proof -
  have "0 < x" using pow2_pos [of k] assms(1) by linarith
  note b = ilog2_bounds [OF this]
  have "pow2 k < pow2 (ilog2 x + 1)" "pow2 (ilog2 x) < pow2 (k + 1)"
    using assms b by linarith+
  then show ?thesis by simp
qed

lemma round_even_eq: "\<bar>y - of_int m\<bar> < 1/2 \<Longrightarrow> round_even y = m"
proof -
  assume y: "\<bar>y - of_int m\<bar> < 1/2"
  show ?thesis
  proof (cases "of_int m \<le> y")
    case True
    with y have "\<lfloor>y\<rfloor> = m" by (intro floor_unique) linarith+
    with y True show ?thesis by (simp add: round_even_def)
  next
    case False
    with y have "\<lfloor>y\<rfloor> = m - 1" by (intro floor_unique) auto
    with y False show ?thesis by (simp add: round_even_def)
  qed
qed

text \<open>A closed form: the double with significand \<open>m\<close> in the binade \<open>k\<close>.\<close>

lemma fl_eqI:
  assumes "pow2 k \<le> x" "x < pow2 (k + 1)" "- 1022 \<le> k" "k < 1000"
    and "\<bar>x / pow2 (k - 52) - of_int m\<bar> < 1/2" "v = of_int m * pow2 (k - 52)" "v < 2 ^ 1024"
  shows "fl x = Fin v"
proof -
  have "0 < x" using pow2_pos [of k] assms(1) by linarith
  moreover have "ilog2 x = k" by (rule ilog2_unique) (rule assms)+
  moreover have "round_even (x / pow2 (k - 52)) = m" by (rule round_even_eq) (rule assms)
  ultimately show ?thesis using assms(3,6,7) by (simp add: fl_def Let_def)
qed

lemma ilog2_int_le:
  assumes "0 < n" and "n < 2 ^ 53"
  shows "ilog2 (of_int n) \<le> 52"
proof -
  have "nat n < 2 ^ 53" using assms by (simp add: nat_less_iff)
  then have "bit_count (nat n) \<le> 53" by (rule bit_count_le)
  moreover have "bit_count 1 = 1" by (simp add: bit_count.simps)
  ultimately show ?thesis by (auto simp: ilog2_def quotient_of_int Let_def)
qed

text \<open>Integers below two to the power of 53 are doubles.\<close>

lemma fl_of_int:
  assumes "\<bar>n\<bar> < 2 ^ 53"
  shows "fl (of_int n) = Fin (of_int n)"
proof (cases "n = 0")
  case True
  then show ?thesis by simp
next
  case False
  define a where "a = \<bar>n\<bar>"
  define e where "e = max (- 1074) (ilog2 (of_int a) - 52)"
  have a: "0 < a" "a < 2 ^ 53" using False assms by (auto simp: a_def)
  then have "e \<le> 0" using ilog2_int_le by (simp add: e_def)
  then obtain j where j: "e = - int j" by (metis nonpos_int_cases)
  have p: "pow2 e = 1 / 2 ^ j" by (simp add: j pow2_neg_nat)
  have "of_int a / pow2 e = (of_int (a * 2 ^ j) :: rat)" by (simp add: p)
  then have r: "of_int (round_even (of_int a / pow2 e)) * pow2 e = (of_int a :: rat)"
    by (metis round_even_of_int p nonzero_mult_div_cancel_right of_int_mult of_int_numeral
        of_int_power power_not_zero times_divide_eq_right mult.right_neutral zero_neq_numeral)
  have "(of_int a :: rat) < of_int (2 ^ 1024)"
    using a(2) by (subst of_int_less_iff) (rule less_trans, assumption, simp)
  then have "\<not> (2 ^ 1024 \<le> (of_int a :: rat))" by simp
  then show ?thesis using r False
    by (auto simp: fl_def Let_def e_def a_def)
qed

corollary fl_of_nat: "n < 2 ^ 53 \<Longrightarrow> fl (of_nat n) = Fin (of_nat n)"
  using fl_of_int [of "int n"] by simp

section \<open>Printing with a fixed number of decimals\<close>

definition pad_zeros :: "nat \<Rightarrow> string \<Rightarrow> string" where
  "pad_zeros k s = replicate (k - length s) CHR ''0'' @ s"

text \<open>The digits of \<open>n\<close> with a point before the last \<open>d\<close> of them.\<close>

definition point_at :: "nat \<Rightarrow> nat \<Rightarrow> string" where
  "point_at d n =
     (if d = 0 then show_nat n
      else let s = pad_zeros (Suc d) (show_nat n); k = length s - d
           in take k s @ ''.'' @ drop k s)"

definition dec_exp :: "rat \<Rightarrow> int" where
  "dec_exp x =
     (let (p, q) = quotient_of x;
          n = int (length (show_nat (nat p))) - int (length (show_nat (nat q)))
      in if pow10 n \<le> x then n + 1 else n)"

text \<open>
  The shortest decimal that rounds to \<open>x\<close>: the least number \<open>k\<close> of digits for which
  a \<open>k\<close>-digit decimal next to \<open>x\<close> is read back as \<open>x\<close>, the closer of the two
  when both are. Seventeen digits always do for a double.
\<close>

definition candidate :: "rat \<Rightarrow> int \<Rightarrow> nat \<Rightarrow> int option" where
  "candidate x n k =
     (let u = pow10 (n - int k); s = \<lfloor>x / u\<rfloor>;
          lo = (fl (of_int s * u) = Fin x); hi = (fl (of_int (s + 1) * u) = Fin x);
          d = x / u - of_int s
      in if lo \<and> (\<not> hi \<or> d < 1/2 \<or> (d = 1/2 \<and> even s)) then Some s
         else if hi then Some (s + 1) else None)"

fun shortest_from :: "nat \<Rightarrow> nat \<Rightarrow> rat \<Rightarrow> int \<Rightarrow> int \<times> nat" where
  "shortest_from 0 k x n = (\<lfloor>x / pow10 (n - int k)\<rfloor>, k)"
| "shortest_from (Suc f) k x n =
     (case candidate x n k of Some s \<Rightarrow> (s, k) | None \<Rightarrow> shortest_from f (Suc k) x n)"

definition format_digits :: "string \<Rightarrow> int \<Rightarrow> string" where
  "format_digits ds n =
     (let k = int (length ds) in
      if k \<le> n \<and> n \<le> 21 then ds @ replicate (nat (n - k)) CHR ''0''
      else if 0 < n \<and> n \<le> 21 then take (nat n) ds @ ''.'' @ drop (nat n) ds
      else if - 6 < n \<and> n \<le> 0 then ''0.'' @ replicate (nat (- n)) CHR ''0'' @ ds
      else take 1 ds @ (if k = 1 then [] else ''.'' @ drop 1 ds) @ ''e'' @
           (if n - 1 < 0 then ''-'' else ''+'') @ show_nat (nat \<bar>n - 1\<bar>))"

definition pos_str :: "rat \<Rightarrow> string" where
  "pos_str x =
     (let n = dec_exp x; (s, k) = shortest_from 16 1 x n in
      if s = 10 ^ k then format_digits ''1'' (n + 1)
      else format_digits (show_nat (nat s)) n)"

fun num_str :: "jsnum \<Rightarrow> string" where
  "num_str NaN = ''NaN''"
| "num_str PosInf = ''Infinity''"
| "num_str NegInf = ''-Infinity''"
| "num_str (Fin x) =
     (if x = 0 then ''0'' else if x < 0 then ''-'' @ pos_str (- x) else pos_str x)"

definition fixed_units :: "nat \<Rightarrow> rat \<Rightarrow> nat" where
  "fixed_units d x = nat \<lfloor>x * 10 ^ d + 1/2\<rfloor>"

fun to_fixed :: "nat \<Rightarrow> jsnum \<Rightarrow> string" where
  "to_fixed d (Fin x) =
     (if 10 ^ 21 \<le> \<bar>x\<bar> then num_str (Fin x)
      else (if x < 0 then ''-'' else []) @ point_at d (fixed_units d \<bar>x\<bar>))"
| "to_fixed d x = num_str x"

text \<open>The rounding of \<open>toFixed\<close>: within half a unit of the last decimal.\<close>

lemma fixed_units_bounds:
  assumes "0 \<le> x"
  shows "\<bar>of_nat (fixed_units d x) / 10 ^ d - x\<bar> \<le> 1 / (2 * 10 ^ d)"
proof -
  define y where "y = x * 10 ^ d"
  have y: "0 \<le> y" using assms by (simp add: y_def)
  have f: "of_nat (fixed_units d x) = (of_int \<lfloor>y + 1/2\<rfloor> :: rat)"
    using y by (simp add: fixed_units_def y_def)
  have "of_int \<lfloor>y + 1/2\<rfloor> \<le> y + 1/2" "y + 1/2 < of_int \<lfloor>y + 1/2\<rfloor> + 1"
    by linarith+
  then have "\<bar>of_nat (fixed_units d x) - y\<bar> \<le> 1/2" unfolding f by linarith
  then have "\<bar>of_nat (fixed_units d x) - y\<bar> / 10 ^ d \<le> 1/2 / 10 ^ d"
    by (rule divide_right_mono) simp
  moreover have "\<bar>of_nat (fixed_units d x) - y\<bar> / 10 ^ d
      = \<bar>of_nat (fixed_units d x) / 10 ^ d - x\<bar>"
    by (simp add: y_def field_simps abs_if)
  ultimately show ?thesis by simp
qed

lemma length_pad_zeros: "length (pad_zeros k s) = max k (length s)"
  by (simp add: pad_zeros_def)

lemma nat_of_digits_replicate0:
  "nat_of_digits (replicate k CHR ''0'' @ s) = nat_of_digits s"
proof (induction k)
  case (Suc k)
  then show ?case by (simp add: nat_of_digits_def digit_val_def)
qed simp

lemma pad_zeros_digits: "\<forall>c \<in> set s. is_digit c \<Longrightarrow> \<forall>c \<in> set (pad_zeros k s). is_digit c"
  by (auto simp: pad_zeros_def is_digit_def)

text \<open>Every fixed-point rendering is an integer part, a point and exactly \<open>d\<close> decimals.\<close>

lemma point_at_shape:
  assumes "0 < d"
  obtains i f where "point_at d n = i @ ''.'' @ f" "length f = d" "i \<noteq> []"
    "\<forall>c \<in> set (i @ f). is_digit c" "nat_of_digits (i @ f) = n"
proof -
  define s where "s = pad_zeros (Suc d) (show_nat n)"
  define k where "k = length s - d"
  have len: "Suc d \<le> length s" by (simp add: s_def length_pad_zeros)
  have dig: "\<forall>c \<in> set s. is_digit c"
    unfolding s_def by (rule pad_zeros_digits) (rule show_nat_digits)
  have val: "nat_of_digits s = n"
    by (simp add: s_def pad_zeros_def nat_of_digits_replicate0)
  show thesis
  proof (rule that)
    show "point_at d n = take k s @ ''.'' @ drop k s"
      using assms by (simp add: point_at_def s_def k_def Let_def)
    show "length (drop k s) = d" "take k s \<noteq> []" using len by (auto simp: k_def)
    show "\<forall>c \<in> set (take k s @ drop k s). is_digit c"
      "nat_of_digits (take k s @ drop k s) = n"
      using dig val by simp_all
  qed
qed

section \<open>Reading numbers\<close>

definition is_space :: "char \<Rightarrow> bool" where
  "is_space c \<longleftrightarrow> (of_char c :: nat) \<in> {9, 10, 11, 12, 13, 32, 160}"

definition js_trim :: "string \<Rightarrow> string" where
  "js_trim s = rev (dropWhile is_space (rev (dropWhile is_space s)))"

definition sign_of :: "string \<Rightarrow> bool \<times> string" where
  "sign_of s =
     (case s of [] \<Rightarrow> (False, [])
      | c # r \<Rightarrow> if c = CHR ''-'' then (True, r) else if c = CHR ''+'' then (False, r) else (False, s))"

text \<open>An exponent part: its value and what follows; \<open>0\<close> when there is none.\<close>

definition exponent_part :: "string \<Rightarrow> int \<times> string" where
  "exponent_part s =
     (case s of [] \<Rightarrow> (0, s)
      | c # r \<Rightarrow>
          if c = CHR ''e'' \<or> c = CHR ''E'' then
            (let (neg, r') = sign_of r; ds = takeWhile is_digit r'
             in if ds = [] then (0, s)
                else (if neg then - int (nat_of_digits ds) else int (nat_of_digits ds),
                      dropWhile is_digit r'))
          else (0, s))"

text \<open>
  The longest prefix that is a decimal literal, with what follows it: digits with an optional
  fraction and exponent, or the word Infinity, after an optional sign.
\<close>

definition decimal_prefix :: "string \<Rightarrow> (jsnum \<times> string) option" where
  "decimal_prefix s0 =
     (let (neg, s) = sign_of s0 in
      if starts_with s ''Infinity'' then Some (if neg then NegInf else PosInf, drop 8 s)
      else
        let i = takeWhile is_digit s; r = dropWhile is_digit s;
            f = (if starts_with r ''.'' then takeWhile is_digit (tl r) else []);
            r' = (if starts_with r ''.'' then dropWhile is_digit (tl r) else r)
        in if i = [] \<and> f = [] then None
           else let (e, rest) = exponent_part r';
                    v = of_nat (nat_of_digits (i @ f)) * pow10 (e - int (length f))
                in Some (fl (if neg then - v else v), rest))"

definition parse_float :: "string \<Rightarrow> jsnum" where
  "parse_float s =
     (case decimal_prefix (dropWhile is_space s) of None \<Rightarrow> NaN | Some (v, _) \<Rightarrow> v)"

text \<open>The value of a digit in a base above ten, for the prefixed literals of \<open>Number\<close>.\<close>

definition radix_digit :: "char \<Rightarrow> nat" where
  "radix_digit c =
     (let n = of_char c :: nat in
      if 48 \<le> n \<and> n \<le> 57 then n - 48
      else if 97 \<le> n \<and> n \<le> 102 then n - 87
      else if 65 \<le> n \<and> n \<le> 70 then n - 55 else 16)"

definition radix_literal :: "nat \<Rightarrow> string \<Rightarrow> jsnum" where
  "radix_literal b ds =
     (if ds \<noteq> [] \<and> list_all (\<lambda>c. radix_digit c < b) ds
      then fl (of_nat (foldl (\<lambda>acc c. b * acc + radix_digit c) 0 ds)) else NaN)"

definition to_number :: "string \<Rightarrow> jsnum" where
  "to_number s =
     (let t = js_trim s; p = to_lower (take 2 t) in
      if t = [] then Fin 0
      else if p = ''0x'' then radix_literal 16 (drop 2 t)
      else if p = ''0o'' then radix_literal 8 (drop 2 t)
      else if p = ''0b'' then radix_literal 2 (drop 2 t)
      else case decimal_prefix t of
             Some (v, rest) \<Rightarrow> if rest = [] then v else NaN
           | None \<Rightarrow> NaN)"

subsection \<open>Plain decimals\<close>

text \<open>A plain decimal: digits, a point, digits, with at least one digit before the point.\<close>

definition plain_decimal :: "string \<Rightarrow> string \<Rightarrow> bool" where
  "plain_decimal i f \<longleftrightarrow> i \<noteq> [] \<and> (\<forall>c \<in> set (i @ f). is_digit c)"

lemma digit_not_special:
  "is_digit c \<Longrightarrow> \<not> is_space c \<and> c \<noteq> CHR ''-'' \<and> c \<noteq> CHR ''+'' \<and> c \<noteq> CHR ''I'' \<and> c \<noteq> CHR ''.''
     \<and> c \<noteq> CHR ''e'' \<and> c \<noteq> CHR ''E''"
  by (auto simp: is_digit_def is_space_def)

lemma takeWhile_digits:
  "\<forall>c \<in> set ds. is_digit c \<Longrightarrow> \<not> is_digit x \<Longrightarrow>
     takeWhile is_digit (ds @ x # r) = ds \<and> dropWhile is_digit (ds @ x # r) = x # r"
  by (simp add: takeWhile_append2 dropWhile_append2)

lemma takeWhile_all_digits:
  "\<forall>c \<in> set ds. is_digit c \<Longrightarrow> takeWhile is_digit ds = ds \<and> dropWhile is_digit ds = []"
  by (simp add: takeWhile_eq_all_conv dropWhile_eq_Nil_conv)

lemma decimal_prefix_point:
  assumes "sign_of s = (False, s)" and "\<not> starts_with s ''Infinity''"
    and "takeWhile is_digit s = i" and "dropWhile is_digit s = CHR ''.'' # f"
    and "i \<noteq> []" and "takeWhile is_digit f = f" and "dropWhile is_digit f = []"
  shows "decimal_prefix s = Some (fl (of_nat (nat_of_digits (i @ f)) / 10 ^ length f), [])"
proof -
  have e: "exponent_part [] = (0, [])" by (simp add: exponent_part_def)
  have d: "starts_with (CHR ''.'' # f) ''.''" by (simp add: starts_with_def)
  have "pow10 (0 - int (length f)) = 1 / 10 ^ length f" using pow10_neg_nat by simp
  then show ?thesis
    by (simp add: decimal_prefix_def assms e d Let_def)
qed

lemma decimal_prefix_plain:
  assumes "plain_decimal i f"
  shows "decimal_prefix (i @ ''.'' @ f)
    = Some (fl (of_nat (nat_of_digits (i @ f)) / 10 ^ length f), [])"
proof (rule decimal_prefix_point)
  from assms obtain c i' where i: "i = c # i'" and c: "is_digit c"
    by (cases i) (auto simp: plain_decimal_def)
  show "sign_of (i @ ''.'' @ f) = (False, i @ ''.'' @ f)"
    using digit_not_special [OF c] by (simp add: sign_of_def i)
  show "\<not> starts_with (i @ ''.'' @ f) ''Infinity''"
    using digit_not_special [OF c] by (simp add: starts_with_def i)
  have dot: "\<not> is_digit CHR ''.''" by (simp add: is_digit_def)
  show "takeWhile is_digit (i @ ''.'' @ f) = i"
    "dropWhile is_digit (i @ ''.'' @ f) = CHR ''.'' # f"
    using takeWhile_digits [of i "CHR ''.''" f] dot assms by (auto simp: plain_decimal_def)
  show "takeWhile is_digit f = f" "dropWhile is_digit f = []"
    using takeWhile_all_digits [of f] assms by (auto simp: plain_decimal_def)
  show "i \<noteq> []" by (simp add: i)
qed

lemma parse_float_plain:
  assumes "plain_decimal i f"
  shows "parse_float (i @ ''.'' @ f) = fl (of_nat (nat_of_digits (i @ f)) / 10 ^ length f)"
proof -
  from assms obtain c i' where "i = c # i'" and "is_digit c"
    by (cases i) (auto simp: plain_decimal_def)
  then have "dropWhile is_space (i @ ''.'' @ f) = i @ ''.'' @ f"
    using digit_not_special by simp
  then show ?thesis
    using decimal_prefix_plain [OF assms] by (simp add: parse_float_def)
qed

lemma js_trim_id:
  assumes "s \<noteq> []" and "\<not> is_space (hd s)" and "\<not> is_space (last s)"
  shows "js_trim s = s"
proof -
  have a: "dropWhile is_space s = s" using assms by (cases s) auto
  have "rev s \<noteq> []" "hd (rev s) = last s" using assms by (auto simp: hd_rev)
  then have "dropWhile is_space (rev s) = rev s"
    using assms(3) by (metis dropWhile_eq_self_iff)
  with a show ?thesis by (simp add: js_trim_def)
qed

lemma to_number_plain:
  assumes "plain_decimal i f"
  shows "to_number (i @ ''.'' @ f) = fl (of_nat (nat_of_digits (i @ f)) / 10 ^ length f)"
proof -
  from assms obtain c i' where i: "i = c # i'" and c: "is_digit c"
    by (cases i) (auto simp: plain_decimal_def)
  let ?s = "i @ ''.'' @ f"
  have "\<not> is_space (last ?s)"
  proof (cases "f = []")
    case True
    then show ?thesis by (simp add: is_space_def)
  next
    case False
    then have "last ?s = last f" "is_digit (last f)"
      using assms by (auto simp: plain_decimal_def)
    then show ?thesis using digit_not_special by simp
  qed
  then have t: "js_trim ?s = ?s"
    using digit_not_special [OF c] by (intro js_trim_id) (auto simp: i)
  have p: "to_lower (take 2 ?s) \<notin> {''0x'', ''0o'', ''0b''}"
  proof -
    obtain d r where d: "?s = c # d # r" "is_digit d \<or> d = CHR ''.''"
      using assms by (cases i') (auto simp: i plain_decimal_def)
    then have "lower_char d = d"
      by (auto simp: lower_char_def is_digit_def Let_def)
    with d show ?thesis by (auto simp: to_lower_def is_digit_def)
  qed
  show ?thesis
    unfolding to_number_def t using p decimal_prefix_plain [OF assms] i by (auto simp: Let_def)
qed

end
