(* ===== verification/Fiat.thy ===== *)
theory Fiat
  imports JS_Number "HOL-Library.List_Lexorder"
begin

text \<open>
  Amounts on screen: the fiat currency tables and formatters of both applications
  (ui-dashboard/src/utils/format-fiat.ts, ui-dashboard/src/hooks/use-merchant-currency.ts,
  ui-payment/src/utils/renderCurrency.ts) and the renderer of crypto amounts
  (ui-payment/src/utils/renderConvertedResult.ts). The tables are association lists in the order of
  the source. They are plain objects, so that a lookup also finds the names that every object inherits: what
  \<open>formatFiat\<close> then reads of them is undefined, and \<open>renderCurrency\<close> prints them. The thousands
  separators of \<open>toLocaleString\<close> depend on the visitor's locale, which is the parameter \<open>loc\<close>.
\<close>

definition bytes :: "nat list \<Rightarrow> string" where
  "bytes ns = map char_of ns"

section \<open>Currency tables\<close>

(* src: ui-dashboard/src/utils/format-fiat.ts 6-10 FiatCurrencyInfo *)
record fiat_info =
  fiat_code :: string
  fiat_symbol :: string
  fiat_name :: string

(* src: ui-dashboard/src/utils/format-fiat.ts 12-39 FIAT_CURRENCIES *)
definition FIAT_CURRENCIES :: "(string \<times> fiat_info) list" where
  "FIAT_CURRENCIES =
  [(''USD'', \<lparr>fiat_code = ''USD'', fiat_symbol = ''$'', fiat_name = ''US Dollar''\<rparr>),
   (''EUR'', \<lparr>fiat_code = ''EUR'', fiat_symbol = bytes [226, 130, 172], fiat_name = ''Euro''\<rparr>),
   (''GBP'', \<lparr>fiat_code = ''GBP'', fiat_symbol = bytes [194, 163], fiat_name = ''British Pound''\<rparr>),
   (''CAD'', \<lparr>fiat_code = ''CAD'', fiat_symbol = ''C$'', fiat_name = ''Canadian Dollar''\<rparr>),
   (''AUD'', \<lparr>fiat_code = ''AUD'', fiat_symbol = ''A$'', fiat_name = ''Australian Dollar''\<rparr>),
   (''CHF'', \<lparr>fiat_code = ''CHF'', fiat_symbol = ''Fr'', fiat_name = ''Swiss Franc''\<rparr>),
   (''JPY'', \<lparr>fiat_code = ''JPY'', fiat_symbol = bytes [194, 165], fiat_name = ''Japanese Yen''\<rparr>),
   (''CNY'', \<lparr>fiat_code = ''CNY'', fiat_symbol = bytes [194, 165], fiat_name = ''Chinese Yuan''\<rparr>),
   (''INR'', \<lparr>fiat_code = ''INR'', fiat_symbol = bytes [226, 130, 185], fiat_name = ''Indian Rupee''\<rparr>),
   (''BRL'', \<lparr>fiat_code = ''BRL'', fiat_symbol = ''R$'', fiat_name = ''Brazilian Real''\<rparr>),
   (''MXN'', \<lparr>fiat_code = ''MXN'', fiat_symbol = ''MX$'', fiat_name = ''Mexican Peso''\<rparr>),
   (''KRW'', \<lparr>fiat_code = ''KRW'', fiat_symbol = bytes [226, 130, 169], fiat_name = ''Korean Won''\<rparr>),
   (''SGD'', \<lparr>fiat_code = ''SGD'', fiat_symbol = ''S$'', fiat_name = ''Singapore Dollar''\<rparr>),
   (''HKD'', \<lparr>fiat_code = ''HKD'', fiat_symbol = ''HK$'', fiat_name = ''Hong Kong Dollar''\<rparr>),
   (''SEK'', \<lparr>fiat_code = ''SEK'', fiat_symbol = ''kr'', fiat_name = ''Swedish Krona''\<rparr>),
   (''NOK'', \<lparr>fiat_code = ''NOK'', fiat_symbol = ''kr'', fiat_name = ''Norwegian Krone''\<rparr>),
   (''DKK'', \<lparr>fiat_code = ''DKK'', fiat_symbol = ''kr'', fiat_name = ''Danish Krone''\<rparr>),
   (''PLN'', \<lparr>fiat_code = ''PLN'', fiat_symbol = ''z'' @ bytes [197, 130], fiat_name = ''Polish Zloty''\<rparr>),
   (''CZK'', \<lparr>fiat_code = ''CZK'', fiat_symbol = ''K'' @ bytes [196, 141], fiat_name = ''Czech Koruna''\<rparr>),
   (''TRY'', \<lparr>fiat_code = ''TRY'', fiat_symbol = bytes [226, 130, 186], fiat_name = ''Turkish Lira''\<rparr>),
   (''ZAR'', \<lparr>fiat_code = ''ZAR'', fiat_symbol = ''R'', fiat_name = ''South African Rand''\<rparr>),
   (''NZD'', \<lparr>fiat_code = ''NZD'', fiat_symbol = ''NZ$'', fiat_name = ''New Zealand Dollar''\<rparr>),
   (''THB'', \<lparr>fiat_code = ''THB'', fiat_symbol = bytes [224, 184, 191], fiat_name = ''Thai Baht''\<rparr>),
   (''AED'', \<lparr>fiat_code = ''AED'', fiat_symbol = bytes [216, 175] @ ''.'' @ bytes [216, 165], fiat_name = ''UAE Dirham''\<rparr>),
   (''SAR'', \<lparr>fiat_code = ''SAR'', fiat_symbol = bytes [239, 183, 188], fiat_name = ''Saudi Riyal''\<rparr>),
   (''RUB'', \<lparr>fiat_code = ''RUB'', fiat_symbol = bytes [226, 130, 189], fiat_name = ''Russian Ruble''\<rparr>)]"

(* src: ui-dashboard/src/utils/format-fiat.ts 41-42 FIAT_CURRENCY_CODES *)
definition FIAT_CURRENCY_CODES :: "string list" where
  "FIAT_CURRENCY_CODES = map fst FIAT_CURRENCIES"

text \<open>
  The options of the currency selectors, sorted by code. The codes are upper-case ASCII, on which
  \<open>localeCompare\<close> is the lexicographic order. The separator is a long dash.
\<close>

(* src: ui-dashboard/src/utils/format-fiat.ts 44-47 FIAT_CURRENCY_OPTIONS *)
definition FIAT_CURRENCY_OPTIONS :: "(string \<times> string) list" where
  "FIAT_CURRENCY_OPTIONS =
     map (\<lambda>c. (fiat_code c @ '' '' @ bytes [226, 128, 148] @ '' '' @ fiat_name c, fiat_code c))
       (sort_key fiat_code (map snd FIAT_CURRENCIES))"

(* src: ui-payment/src/utils/renderCurrency.ts 5-11 FIAT_SYMBOLS *)
definition FIAT_SYMBOLS :: "(string \<times> string) list" where
  "FIAT_SYMBOLS =
  [(''USD'', ''$''),
   (''EUR'', bytes [226, 130, 172]),
   (''GBP'', bytes [194, 163]),
   (''CAD'', ''C$''),
   (''AUD'', ''A$''),
   (''CHF'', ''Fr''),
   (''JPY'', bytes [194, 165]),
   (''CNY'', bytes [194, 165]),
   (''INR'', bytes [226, 130, 185]),
   (''BRL'', ''R$''),
   (''MXN'', ''MX$''),
   (''KRW'', bytes [226, 130, 169]),
   (''SGD'', ''S$''),
   (''HKD'', ''HK$''),
   (''SEK'', ''kr''),
   (''NOK'', ''kr''),
   (''DKK'', ''kr''),
   (''PLN'', ''z'' @ bytes [197, 130]),
   (''CZK'', ''K'' @ bytes [196, 141]),
   (''TRY'', bytes [226, 130, 186]),
   (''ZAR'', ''R''),
   (''NZD'', ''NZ$''),
   (''THB'', bytes [224, 184, 191]),
   (''AED'', bytes [216, 175] @ ''.'' @ bytes [216, 165]),
   (''SAR'', bytes [239, 183, 188]),
   (''RUB'', bytes [226, 130, 189])]"

(* src: ui-payment/src/types/index.ts 24-28 CURRENCY *)
definition PAYMENT_CURRENCY :: "string list" where
  "PAYMENT_CURRENCY =
    [''USD'', ''EUR'', ''GBP'', ''CAD'', ''AUD'', ''CHF'', ''JPY'', ''CNY'', ''INR'', ''BRL'',
     ''MXN'', ''KRW'', ''SGD'', ''HKD'', ''SEK'', ''NOK'', ''DKK'', ''PLN'', ''CZK'', ''TRY'',
     ''ZAR'', ''NZD'', ''THB'', ''AED'', ''SAR'', ''RUB'']"

(* src: ui-dashboard/src/types/index.ts 111-115 CURRENCY *)
definition DASHBOARD_CURRENCY :: "string list" where
  "DASHBOARD_CURRENCY =
    [''USD'', ''EUR'', ''GBP'', ''CAD'', ''AUD'', ''CHF'', ''JPY'', ''CNY'', ''INR'', ''BRL'',
     ''MXN'', ''KRW'', ''SGD'', ''HKD'', ''SEK'', ''NOK'', ''DKK'', ''PLN'', ''CZK'', ''TRY'',
     ''ZAR'', ''NZD'', ''THB'', ''AED'', ''SAR'', ''RUB'']"

(* src: ui-dashboard/src/types/index.ts 25-44 BLOCKCHAIN_TICKER *)
definition BLOCKCHAIN_TICKER :: "string list" where
  "BLOCKCHAIN_TICKER =
    [''ETH'', ''ETH_USDT'', ''ETH_USDC'', ''MATIC'', ''MATIC_USDT'', ''MATIC_USDC'', ''TRON'',
     ''TRON_USDT'', ''BNB'', ''BSC_USDT'', ''ARB'', ''ARBITRUM_USDT'', ''ARBITRUM_USDC'',
     ''AVAX'', ''AVAX_USDT'', ''AVAX_USDC'']"

text \<open>
  The spread of the fiat symbols followed by one empty symbol per ticker; a later key would win, so
  the lookup is written from the back.
\<close>

(* src: ui-dashboard/src/types/index.ts 121-129 CURRENCY_SYMBOL *)
definition CURRENCY_SYMBOL :: "string \<Rightarrow> string option" where
  "CURRENCY_SYMBOL k =
     map_of (map (\<lambda>t. (t, []))
       [''ETH'', ''ETH_USDT'', ''ETH_USDC'', ''MATIC'', ''MATIC_USDT'', ''MATIC_USDC'',
        ''TRON'', ''TRON_USDT'', ''BNB'', ''BSC_USDT'', ''ARB'', ''ARBITRUM_USDT'',
        ''ARBITRUM_USDC'', ''AVAX'', ''AVAX_USDT'', ''AVAX_USDC'']
       @ map (\<lambda>(c, i). (c, fiat_symbol i)) FIAT_CURRENCIES) k"

section \<open>Formatters\<close>

text \<open>The argument \<open>number | string | undefined | null\<close>.\<close>

datatype amount = NoAmount | AmountText string | AmountNum jsnum

(* src: ui-dashboard/src/utils/format-fiat.ts 58-78 formatFiat *)
definition formatFiat ::
    "(jsnum \<Rightarrow> string) \<Rightarrow> amount \<Rightarrow> string option \<Rightarrow> bool \<Rightarrow> string" where
  "formatFiat loc amount currencyCode useLocale =
     (let code = or_else currencyCode ''USD'';
          info = map_of FIAT_CURRENCIES code;
          symbol = or_else (map_option fiat_symbol info) code;
          render = (\<lambda>num. if is_nan num then symbol @ ''0.00''
                       else symbol @ (if useLocale then loc num else to_fixed 2 num))
      in case amount of
           NoAmount \<Rightarrow> symbol @ ''0.00''
         | AmountText s \<Rightarrow> if s = [] then symbol @ ''0.00'' else render (parse_float s)
         | AmountNum n \<Rightarrow> render n)"

(* src: ui-dashboard/src/utils/format-fiat.ts 83-86 fiatSymbol *)
definition fiatSymbol :: "string option \<Rightarrow> string" where
  "fiatSymbol currencyCode =
     (case currencyCode of
        None \<Rightarrow> ''$''
      | Some c \<Rightarrow> if c = [] then ''$''
                  else or_else (map_option fiat_symbol (map_of FIAT_CURRENCIES c)) c)"

text \<open>The functions that a plain object inherits, with their names.\<close>

definition INHERITED_NAMES :: "(string \<times> string) list" where
  "INHERITED_NAMES = (''constructor'', ''Object'') # map (\<lambda>k. (k, k))
     [''toString'', ''toLocaleString'', ''valueOf'', ''hasOwnProperty'', ''isPrototypeOf'', ''propertyIsEnumerable'',
      ''__defineGetter__'', ''__defineSetter__'', ''__lookupGetter__'', ''__lookupSetter__'']"

text \<open>The merchant's fields that the currency hook reads.\<close>

record merchant_fiat =
  fiatCurrency :: string
  fiatCurrencySymbol :: string

record merchant_currency =
  currencyCode :: string
  currencySymbol :: string
  currencyName :: string

(* src: ui-dashboard/src/hooks/use-merchant-currency.ts 8-25 useMerchantCurrency *)
definition useMerchantCurrency :: "merchant_fiat option \<Rightarrow> merchant_currency" where
  "useMerchantCurrency merchant =
     (let code = or_else (map_option fiatCurrency merchant) ''USD'' in
      \<lparr>currencyCode = code,
       currencySymbol = or_else (map_option fiatCurrencySymbol merchant) (fiatSymbol (Some code)),
       currencyName = or_else (case map_of FIAT_CURRENCIES code of Some i \<Rightarrow> Some (fiat_name i)
           | None \<Rightarrow> map_of INHERITED_NAMES code) code\<rparr>)"

(* src: ui-dashboard/src/hooks/use-merchant-currency.ts 15-17 fmt *)
definition merchant_fmt ::
    "(jsnum \<Rightarrow> string) \<Rightarrow> merchant_fiat option \<Rightarrow> amount \<Rightarrow> bool \<Rightarrow> string" where
  "merchant_fmt loc merchant a useLocale =
     formatFiat loc a (Some (currencyCode (useMerchantCurrency merchant))) useLocale"

text \<open>What a template literal prints for the properties that a plain object inherits: ten functions, and the
  prototype itself. The layout of a native function's text is that of V8.\<close>

definition inherited_text :: "string \<Rightarrow> string option" where
  "inherited_text k = (if k = ''__proto__'' then Some ''[object Object]''
     else map_option (\<lambda>n. ''function '' @ n @ ''() { [native code] }'') (map_of INHERITED_NAMES k))"

(* src: ui-payment/src/utils/renderCurrency.ts 13-24 renderCurrency *)
definition renderCurrency :: "string option \<Rightarrow> jsnum option \<Rightarrow> string option" where
  "renderCurrency currency price =
     (case (currency, price) of
        (Some c, Some p) \<Rightarrow>
          (let symbol = (case map_of FIAT_SYMBOLS c of Some s \<Rightarrow> Some s | None \<Rightarrow> inherited_text c) in
           if truthy symbol then Some (the symbol @ to_fixed 2 p)
           else Some (to_fixed 2 p @ '' '' @ c))
      | _ \<Rightarrow> None)"

(* src: ui-payment/src/utils/renderConvertedResult.ts 1-1 MAX_DISPLAY_DECIMALS *)
definition MAX_DISPLAY_DECIMALS :: nat where
  "MAX_DISPLAY_DECIMALS = 8"

text \<open>\<open>s.replace(/0+$/, "")\<close> and \<open>s.replace(/\.$/, "")\<close>.\<close>

definition strip_zeros :: "string \<Rightarrow> string" where
  "strip_zeros s = rev (dropWhile (\<lambda>c. c = CHR ''0'') (rev s))"

definition strip_point :: "string \<Rightarrow> string" where
  "strip_point s = (if s \<noteq> [] \<and> last s = CHR ''.'' then butlast s else s)"

(* src: ui-payment/src/utils/renderConvertedResult.ts 3-22 renderConvertedResult *)
definition renderConvertedResult :: "string option \<Rightarrow> string option \<Rightarrow> string option" where
  "renderConvertedResult amountFormatted ticker =
     (if truthy amountFormatted \<and> truthy ticker then
        (let s = the amountFormatted; t = the ticker;
             sliceRes = split_on CHR ''.'' s;
             amount = to_number s;
             frac = elem_at sliceRes 1
         in if is_nan amount then None
            else if \<not> truthy frac \<or> length (the frac) \<le> MAX_DISPLAY_DECIMALS
              then Some (s @ '' '' @ t)
            else Some (strip_point (strip_zeros (to_fixed MAX_DISPLAY_DECIMALS amount))
                       @ '' '' @ t))
      else None)"

(* src: ui-dashboard/src/utils/render-stripped-str.ts 1-3 renderStrippedStr *)
definition renderStrippedStr :: "string \<Rightarrow> int \<Rightarrow> int \<Rightarrow> string" where
  "renderStrippedStr url leftLen rightLen =
     slice url 0 leftLen @ ''...'' @ slice_from url rightLen"

section \<open>Lemmas\<close>

lemmas fiat_tables = FIAT_CURRENCIES_def FIAT_SYMBOLS_def bytes_def

lemma fiat_codes: "FIAT_CURRENCY_CODES = map fst FIAT_SYMBOLS"
  by (simp add: FIAT_CURRENCY_CODES_def fiat_tables)

lemma fiat_tables_eq:
  "map (\<lambda>(c, i). (c, fiat_symbol i)) FIAT_CURRENCIES = FIAT_SYMBOLS"
  by (simp add: fiat_tables)

lemma fiat_self_keyed: "list_all (\<lambda>(c, i). c = fiat_code i) FIAT_CURRENCIES"
  by (simp add: FIAT_CURRENCIES_def)

lemma fiat_codes_distinct: "distinct FIAT_CURRENCY_CODES"
  by (simp add: FIAT_CURRENCY_CODES_def FIAT_CURRENCIES_def)

lemma fiat_symbols_nonempty: "list_all (\<lambda>(c, s). s \<noteq> []) FIAT_SYMBOLS"
  by (simp add: FIAT_SYMBOLS_def bytes_def)

lemma fiat_symbol_lookup:
  "map_option fiat_symbol (map_of FIAT_CURRENCIES c) = map_of FIAT_SYMBOLS c"
proof -
  have "map_of (map (\<lambda>(c, i). (c, fiat_symbol i)) xs) c = map_option fiat_symbol (map_of xs c)"
    for xs :: "(string \<times> fiat_info) list"
    by (induction xs) auto
  then show ?thesis by (metis fiat_tables_eq)
qed

lemma fiat_symbol_nonempty: "map_of FIAT_SYMBOLS c = Some s \<Longrightarrow> s \<noteq> []"
  using fiat_symbols_nonempty by (auto simp: list_all_iff dest!: map_of_SomeD)

lemma formatFiat_symbol:
  "formatFiat loc a code u
    = or_else (map_of FIAT_SYMBOLS (or_else code ''USD'')) (or_else code ''USD'')
      @ (case a of NoAmount \<Rightarrow> ''0.00''
         | AmountText s \<Rightarrow>
             if s = [] \<or> is_nan (parse_float s) then ''0.00''
             else if u then loc (parse_float s) else to_fixed 2 (parse_float s)
         | AmountNum n \<Rightarrow> if is_nan n then ''0.00'' else if u then loc n else to_fixed 2 n)"
  by (auto simp: formatFiat_def Let_def fiat_symbol_lookup split: amount.split)

lemma to_fixed_nonneg:
  "0 \<le> x \<Longrightarrow> x < 10 ^ 21 \<Longrightarrow> to_fixed d (Fin x) = point_at d (fixed_units d x)"
  by simp

lemma trailing_zeros_split:
  "\<exists>p m. f = p @ replicate m CHR ''0'' \<and> (p = [] \<or> last p \<noteq> CHR ''0'')"
proof (induction f rule: rev_induct)
  case Nil
  show ?case by simp
next
  case (snoc c f)
  then obtain p m where pm: "f = p @ replicate m CHR ''0''" "p = [] \<or> last p \<noteq> CHR ''0''"
    by blast
  show ?case
  proof (cases "c = CHR ''0''")
    case True
    then have "f @ [c] = p @ replicate (Suc m) CHR ''0''"
      using pm(1) by (simp add: replicate_append_same)
    with pm(2) show ?thesis by blast
  next
    case False
    then have "f @ [c] = (f @ [c]) @ replicate 0 CHR ''0'' \<and> last (f @ [c]) \<noteq> CHR ''0''" by simp
    then show ?thesis by blast
  qed
qed

lemma strip_zeros_split:
  "p \<noteq> [] \<Longrightarrow> last p \<noteq> CHR ''0'' \<Longrightarrow> strip_zeros (p @ replicate m CHR ''0'') = p"
proof -
  assume p: "p \<noteq> []" "last p \<noteq> CHR ''0''"
  then obtain c q where "rev p = c # q" "c \<noteq> CHR ''0''"
    by (cases "rev p") (auto simp: last_rev [of "rev p", simplified])
  then have "dropWhile (\<lambda>c. c = CHR ''0'') (replicate m CHR ''0'' @ rev p) = rev p"
    by (induction m) auto
  then show ?thesis by (simp add: strip_zeros_def)
qed

lemma strip_fraction:
  assumes "\<forall>c \<in> set f. is_digit c"
  obtains p m where "f = p @ replicate m CHR ''0''" "p = [] \<or> last p \<noteq> CHR ''0''"
    "strip_point (strip_zeros (i @ ''.'' @ f)) = (if p = [] then i else i @ ''.'' @ p)"
proof -
  obtain p m where pm: "f = p @ replicate m CHR ''0''" "p = [] \<or> last p \<noteq> CHR ''0''"
    using trailing_zeros_split by blast
  have dig: "p \<noteq> [] \<Longrightarrow> last p \<noteq> CHR ''.''"
    using assms pm(1) digit_not_special by fastforce
  have "strip_zeros (i @ ''.'' @ f) = i @ ''.'' @ p"
  proof (cases "p = []")
    case True
    then show ?thesis
      using strip_zeros_split [of "i @ ''.''" m] by (simp add: pm(1))
  next
    case False
    then show ?thesis
      using strip_zeros_split [of "i @ ''.'' @ p" m] pm by simp
  qed
  then have "strip_point (strip_zeros (i @ ''.'' @ f)) = (if p = [] then i else i @ ''.'' @ p)"
    using dig by (auto simp: strip_point_def butlast_append)
  with pm that show thesis by blast
qed

section \<open>Properties\<close>

text \<open>C17. Both applications show a fiat price the same way: for every currency of the payment
  page's currency type and every price that is a number, the payment page's \<open>renderCurrency\<close>
  prints exactly what the dashboard's \<open>formatFiat\<close> prints without separators. Outside the
  table they differ: the payment page puts the code behind the amount, or prints what an object inherits under
  that name before it; the dashboard puts the code before the amount, and takes an empty code for the dollar.\<close>

theorem price_rendering_agrees:
  assumes "\<not> is_nan p"
  shows "(if c \<in> set PAYMENT_CURRENCY
     then renderCurrency (Some c) (Some p) = Some (formatFiat loc (AmountNum p) (Some c) False)
     else renderCurrency (Some c) (Some p)
         = Some (case inherited_text c of Some t \<Rightarrow> t @ to_fixed 2 p | None \<Rightarrow> to_fixed 2 p @ '' '' @ c)
       \<and> formatFiat loc (AmountNum p) (Some c) False = (if c = [] then ''$'' else c) @ to_fixed 2 p)"
proof -
  have cur: "PAYMENT_CURRENCY = map fst FIAT_SYMBOLS"
    by (simp add: PAYMENT_CURRENCY_def FIAT_SYMBOLS_def)
  show ?thesis
  proof (cases "map_of FIAT_SYMBOLS c")
    case None
    then have "c \<notin> set PAYMENT_CURRENCY" by (simp add: cur map_of_eq_None_iff)
    moreover have "map_of FIAT_SYMBOLS ''USD'' = Some ''$''" by (simp add: FIAT_SYMBOLS_def)
    ultimately show ?thesis using None assms
      by (auto simp: renderCurrency_def formatFiat_symbol inherited_text_def split: option.split)
  next
    case (Some s)
    then have c: "c \<in> set PAYMENT_CURRENCY" by (metis cur map_of_eq_None_iff option.discI set_map)
    then have "c \<noteq> []" by (auto simp: PAYMENT_CURRENCY_def)
    with Some c assms fiat_symbol_nonempty [OF Some] show ?thesis
      by (simp add: renderCurrency_def formatFiat_symbol)
  qed
qed

theorem price_rendering_agrees_witness:
  "renderCurrency (Some ''GBP'') (Some (Fin (21/2)))
    = Some (formatFiat (\<lambda>_. []) (AmountNum (Fin (21/2))) (Some ''GBP'') False)
   \<and> renderCurrency (Some ''XAU'') (Some (Fin (21/2))) = Some ''10.50 XAU''
   \<and> formatFiat (\<lambda>_. []) (AmountNum (Fin (21/2))) (Some ''XAU'') False = ''XAU10.50''
   \<and> renderCurrency (Some ''valueOf'') (Some (Fin (21/2))) = Some ''function valueOf() { [native code] }10.50''"
  using price_rendering_agrees [of "Fin (21/2)" "''GBP''" "\<lambda>_. []"]
    price_rendering_agrees [of "Fin (21/2)" "''XAU''" "\<lambda>_. []"]
    price_rendering_agrees [of "Fin (21/2)" "''valueOf''" "\<lambda>_. []"]
  by (simp add: is_nan_def PAYMENT_CURRENCY_def fixed_units_def point_at_def pad_zeros_def
      show_nat_eval inherited_text_def INHERITED_NAMES_def)

text \<open>C20. \<open>formatFiat\<close> on an ordinary amount (not negative, below ten to the 21), called without
  \<open>useLocale\<close>, prints the currency symbol, an integer part of digits alone (hence without separators), a
  point and exactly two decimals, and the printed value is within half a cent of the amount; called with
  \<open>useLocale\<close> it prints the symbol and what the locale makes of the amount.\<close>

theorem formatFiat_cents:
  assumes "0 \<le> x" and "x < 10 ^ 21"
  shows "(\<exists>i f. formatFiat loc (AmountNum (Fin x)) code False
      = or_else (map_of FIAT_SYMBOLS (or_else code ''USD'')) (or_else code ''USD'') @ i @ ''.'' @ f
    \<and> i \<noteq> [] \<and> length f = 2 \<and> (\<forall>c \<in> set (i @ f). is_digit c)
    \<and> \<bar>of_nat (nat_of_digits (i @ f)) / 100 - x\<bar> \<le> 1 / 200)
    \<and> formatFiat loc (AmountNum (Fin x)) code True
      = or_else (map_of FIAT_SYMBOLS (or_else code ''USD'')) (or_else code ''USD'') @ loc (Fin x)"
proof
  obtain i f where p: "point_at 2 (fixed_units 2 x) = i @ ''.'' @ f" "length f = 2" "i \<noteq> []"
      "\<forall>c \<in> set (i @ f). is_digit c" "nat_of_digits (i @ f) = fixed_units 2 x"
    using point_at_shape [of 2 "fixed_units 2 x"] by auto
  have "\<bar>of_nat (nat_of_digits (i @ f)) / 100 - x\<bar> \<le> 1 / 200"
    using fixed_units_bounds [OF assms(1), of 2] p(5) by simp
  moreover have "formatFiat loc (AmountNum (Fin x)) code False
      = or_else (map_of FIAT_SYMBOLS (or_else code ''USD'')) (or_else code ''USD'') @ i @ ''.'' @ f"
    using p(1) to_fixed_nonneg [OF assms] by (simp add: formatFiat_symbol is_nan_def)
  ultimately show "\<exists>i f. formatFiat loc (AmountNum (Fin x)) code False
      = or_else (map_of FIAT_SYMBOLS (or_else code ''USD'')) (or_else code ''USD'') @ i @ ''.'' @ f
    \<and> i \<noteq> [] \<and> length f = 2 \<and> (\<forall>c \<in> set (i @ f). is_digit c)
    \<and> \<bar>of_nat (nat_of_digits (i @ f)) / 100 - x\<bar> \<le> 1 / 200"
    using p by blast
qed (simp add: formatFiat_symbol is_nan_def)

theorem formatFiat_cents_witness:
  "(\<exists>i f. formatFiat (\<lambda>_. ''1,50'') (AmountNum (Fin (3/2))) None False = ''$'' @ i @ ''.'' @ f
    \<and> length f = 2 \<and> \<bar>of_nat (nat_of_digits (i @ f)) / 100 - (3/2 :: rat)\<bar> \<le> 1 / 200)
    \<and> formatFiat (\<lambda>_. ''1,50'') (AmountNum (Fin (3/2))) None True = ''$1,50''"
proof -
  have "map_of FIAT_SYMBOLS ''USD'' = Some ''$''" by (simp add: FIAT_SYMBOLS_def)
  then show ?thesis using formatFiat_cents [of "3/2" "\<lambda>_. ''1,50''" None] by auto
qed

text \<open>The comment of the function documents a separator for this call, which the code does not print.\<close>

lemma documented_separator_missing:
  "formatFiat loc (AmountNum (Fin 1500)) (Some ''GBP'') False = bytes [194, 163] @ ''1500.00''"
  by (simp add: formatFiat_def FIAT_CURRENCIES_def bytes_def is_nan_def fixed_units_def point_at_def pad_zeros_def show_nat_eval)

text \<open>\<open>renderConvertedResult\<close> on a decimal amount with at most eight decimals shows it
  verbatim, followed by a space and the ticker; with more decimals it shows a number with at most
  eight decimals, never a trailing zero or point, within half a unit of the eighth decimal of the
  amount it read.\<close>

lemma converted_result:
  assumes "plain_decimal i f" and "t \<noteq> []"
    and "to_number (i @ ''.'' @ f) = Fin x" and "0 \<le> x" and "x < 10 ^ 21"
  shows "if length f \<le> 8
    then renderConvertedResult (Some (i @ ''.'' @ f)) (Some t) = Some (i @ ''.'' @ f @ '' '' @ t)
    else \<exists>j g m. renderConvertedResult (Some (i @ ''.'' @ f)) (Some t)
           = Some ((if g = [] then j else j @ ''.'' @ g) @ '' '' @ t)
         \<and> (g = [] \<or> last g \<noteq> CHR ''0'') \<and> length (g @ replicate m CHR ''0'') = 8
         \<and> \<bar>of_nat (nat_of_digits (j @ g @ replicate m CHR ''0'')) / 10 ^ 8 - x\<bar> \<le> 1 / (2 * 10 ^ 8)"
proof -
  let ?s = "i @ ''.'' @ f"
  have nodot: "CHR ''.'' \<notin> set i" "CHR ''.'' \<notin> set f"
    using assms(1) digit_not_special by (auto simp: plain_decimal_def)
  have split: "split_on CHR ''.'' ?s = [i, f]"
    using split_on_append_sep [OF nodot(1), of f] split_on_no_sep [OF nodot(2)] by simp
  have frac: "elem_at (split_on CHR ''.'' ?s) 1 = Some f"
    by (simp only: split) (simp add: elem_at_def)
  have render: "renderConvertedResult (Some ?s) (Some t)
      = (if length f \<le> 8 then Some (?s @ '' '' @ t)
         else Some (strip_point (strip_zeros (to_fixed 8 (Fin x))) @ '' '' @ t))"
    using assms(2) unfolding renderConvertedResult_def Let_def option.sel frac assms(3)
    by (auto simp: is_nan_def MAX_DISPLAY_DECIMALS_def)
  obtain j g' where p: "point_at 8 (fixed_units 8 x) = j @ ''.'' @ g'" "length g' = 8"
      "\<forall>c \<in> set (j @ g'). is_digit c" "nat_of_digits (j @ g') = fixed_units 8 x"
    by (rule point_at_shape [of 8 "fixed_units 8 x"]) simp_all
  obtain g m where g: "g' = g @ replicate m CHR ''0''" "g = [] \<or> last g \<noteq> CHR ''0''"
      "strip_point (strip_zeros (j @ ''.'' @ g')) = (if g = [] then j else j @ ''.'' @ g)"
    using strip_fraction [of g' j] p(3) by auto
  have b: "\<bar>of_nat (nat_of_digits (j @ g @ replicate m CHR ''0'')) / 10 ^ 8 - x\<bar> \<le> 1 / (2 * 10 ^ 8)"
    using fixed_units_bounds [OF assms(4), of 8] p(4) g(1) by simp
  have tf: "to_fixed 8 (Fin x) = j @ ''.'' @ g'"
    using p(1) to_fixed_nonneg [OF assms(4,5)] by simp
  show ?thesis
  proof (cases "length f \<le> 8")
    case True
    then show ?thesis using render by simp
  next
    case False
    then have r: "renderConvertedResult (Some ?s) (Some t)
        = Some ((if g = [] then j else j @ ''.'' @ g) @ '' '' @ t)"
      using render g(3) by (simp only: tf if_False)
    show ?thesis
      by (simp only: False if_False) (intro exI conjI, rule r, rule g(2), use g(1) p(2) in simp, rule b)
  qed
qed

lemma converted_result_example:
  "renderConvertedResult (Some ''0.5'') (Some ''ETH'') = Some ''0.5 ETH''
   \<and> (\<exists>j g. renderConvertedResult (Some ''3.000000001'') (Some ''ETH'')
        = Some ((if g = [] then j else j @ ''.'' @ g) @ '' ETH'') \<and> length g \<le> 8)"
proof
  have "fl (1/2) = Fin (1/2)"
    by (rule fl_eqI [where k = "- 1" and m = 4503599627370496]) (simp_all add: pow2_def)
  then have h: "to_number (''0'' @ ''.'' @ ''5'') = Fin (1/2)"
    by (subst to_number_plain) (simp_all add: plain_decimal_def is_digit_def nat_of_digits_def digit_val_def)
  show "renderConvertedResult (Some ''0.5'') (Some ''ETH'') = Some ''0.5 ETH''"
    using converted_result [OF _ _ h, of "''ETH''"] by (simp add: plain_decimal_def is_digit_def)
  have "fl (3000000001 / 10 ^ 9) = Fin (6755399443307544 / 2 ^ 51)"
    by (rule fl_eqI [where k = 1 and m = 6755399443307544]) (simp_all add: pow2_def)
  then have h: "to_number (''3'' @ ''.'' @ ''000000001'') = Fin (6755399443307544 / 2 ^ 51)"
    by (subst to_number_plain) (simp_all add: plain_decimal_def is_digit_def nat_of_digits_def digit_val_def)
  show "\<exists>j g. renderConvertedResult (Some ''3.000000001'') (Some ''ETH'')
      = Some ((if g = [] then j else j @ ''.'' @ g) @ '' ETH'') \<and> length g \<le> 8"
    using converted_result [OF _ _ h, of "''ETH''"]
    by (auto simp: plain_decimal_def is_digit_def)
qed

end
