(* ===== verification/Http.thy ===== *)
theory Http
  imports JS_Number
begin

text \<open>
  Requests and answers of the HTTP client both applications use. A request is what the provider
  objects hand to axios: the method, the path, the query parameters and the body. A JSON value is
  the tree the code builds or reads. An answer is what axios delivers: a status with its data and the
  CSRF header, or no answer at all.
\<close>

datatype http_method = GET | POST | PUT | DELETE

datatype jval = JNull | JBool bool | JNum jsnum | JStr string | JArr "jval list"
  | JObj "(string \<times> jval) list"

record http_request =
  req_method :: http_method
  req_url :: string
  req_params :: "(string \<times> string) list"
  req_body :: "jval option"
  req_csrf :: "string option"
  req_silent :: bool

definition request :: "http_method \<Rightarrow> string \<Rightarrow> http_request" where
  "request m u = \<lparr>req_method = m, req_url = u, req_params = [], req_body = None,
     req_csrf = None, req_silent = False\<rparr>"

definition with_body :: "http_request \<Rightarrow> (string \<times> jval) list \<Rightarrow> http_request" where
  "with_body r fs = r\<lparr>req_body := Some (JObj fs)\<rparr>"

definition with_params :: "http_request \<Rightarrow> (string \<times> string) list \<Rightarrow> http_request" where
  "with_params r ps = r\<lparr>req_params := ps\<rparr>"

text \<open>An optional field of an object literal: JSON leaves \<open>undefined\<close> out.\<close>

definition opt_field :: "string \<Rightarrow> string option \<Rightarrow> (string \<times> jval) list" where
  "opt_field k v = (case v of None \<Rightarrow> [] | Some s \<Rightarrow> [(k, JStr s)])"

definition opt_param :: "string \<Rightarrow> string option \<Rightarrow> (string \<times> string) list" where
  "opt_param k v = (case v of None \<Rightarrow> [] | Some s \<Rightarrow> [(k, s)])"

(* src: ui-dashboard/src/types/index.ts 246-249 ErrorResponseItem *)
record error_item =
  ei_field :: string
  ei_message :: string

text \<open>The body of an error answer, when the server sent one of the shape \<open>ErrorResponse\<close>.\<close>

(* src: ui-dashboard/src/types/index.ts 251-255 ErrorResponse *)
record error_response =
  er_errors :: "error_item list option"
  er_message :: string
  er_status :: string

record http_response =
  status :: nat
  rdata :: jval
  rerror :: "error_response option"
  rcsrf :: "string option"

datatype transport = Answer http_response | NoAnswer string

definition success_status :: "nat \<Rightarrow> bool" where
  "success_status n \<longleftrightarrow> 200 \<le> n \<and> n < 300"

lemma request_simps [simp]:
  "req_method (request m u) = m" "req_url (request m u) = u" "req_params (request m u) = []"
  "req_body (request m u) = None" "req_silent (request m u) = False"
  "req_csrf (request m u) = None"
  by (simp_all add: request_def)

lemma with_body_simps [simp]:
  "req_url (with_body r fs) = req_url r" "req_method (with_body r fs) = req_method r"
  "req_params (with_body r fs) = req_params r" "req_silent (with_body r fs) = req_silent r"
  "req_body (with_body r fs) = Some (JObj fs)"
  by (simp_all add: with_body_def)

lemma with_params_simps [simp]:
  "req_url (with_params r ps) = req_url r" "req_method (with_params r ps) = req_method r"
  "req_params (with_params r ps) = ps" "req_silent (with_params r ps) = req_silent r"
  "req_body (with_params r ps) = req_body r"
  by (simp_all add: with_params_def)

end
