(* ===== verification/Payment_Types.thy ===== *)
theory Payment_Types
  imports Fiat Http
begin

text \<open>
  The data of the payment page (ui-payment/src/types/index.ts) and the requests of its provider
  (ui-payment/src/providers/paymentProvider.ts). A string union type is a datatype, an optional
  field an option. A request of the provider is a value of \<open>pay_request\<close>; \<open>pay_http\<close>
  is the HTTP request it makes.
\<close>

section \<open>Types\<close>

(* src: ui-payment/src/types/index.ts 1-9 CurrencyConvertResult *)
record convert_result =
  cryptoAmount :: string
  cryptoCurrency :: string
  cr_displayName :: string
  exchangeRate :: jsnum
  fiatAmount :: jsnum
  cr_fiatCurrency :: string
  network :: string

(* src: ui-payment/src/types/index.ts 11-17 PaymentMethod *)
record payment_method =
  pm_blockchain :: string
  pm_blockchainName :: string
  pm_displayName :: string
  pm_name :: string
  pm_ticker :: string

(* src: ui-payment/src/types/index.ts 19-22 Customer *)
record customer =
  cust_email :: string
  cust_id :: string

(* src: ui-payment/src/types/index.ts 31-31 PaymentStatus *)
datatype payment_status = StPending | StPartial | StInProgress | StSuccess | StFailed | StUnderpaid

(* src: ui-payment/src/types/index.ts 32-32 PaymentAction *)
datatype payment_action = Redirect | ShowMessage

(* src: ui-payment/src/types/index.ts 34-49 PaymentInfo *)
record payment_info =
  pi_amount :: string
  amountFormatted :: string
  factAmountFormatted :: "string option"
  receivedAmount :: "string option"
  remainingAmount :: "string option"
  remainingPaymentLink :: "string option"
  recipientAddress :: string
  pi_status :: payment_status
  successUrl :: "string option"
  expiresAt :: string
  expirationDurationMin :: jsnum
  successAction :: "payment_action option"
  successMessage :: "string option"
  pi_paymentLink :: string

(* src: ui-payment/src/types/index.ts 51-62 Payment *)
record payment =
  pay_currency :: string
  pay_customer :: "customer option"
  pay_description :: "string option"
  pay_id :: string
  isLocked :: bool
  pay_merchantName :: string
  paymentInfo :: "payment_info option"
  pay_method :: "payment_method option"
  pay_price :: jsnum
  feePercent :: "jsnum option"

(* src: ui-payment/src/types/index.ts 64-69 PaymentLink *)
record payment_link =
  pl_currency :: string
  pl_description :: "string option"
  pl_merchantName :: string
  pl_price :: jsnum

text \<open>The status of a payment, when it carries payment information: \<open>payment.paymentInfo?.status\<close>.\<close>

definition status_of :: "payment \<Rightarrow> payment_status option" where
  "status_of p = map_option pi_status (paymentInfo p)"

section \<open>The provider\<close>

datatype pay_request =
    CurrencyConvert string string string "string option"
  | SetPaymentMethod string payment_method
  | GetSupportedMethods string
  | GetPayment string
  | GetPaymentLink string
  | CreatePaymentFromLink string
  | PutPayment string
  | SetCustomer string string bool bool
  | GetCSRFCookie

(* src: ui-payment/src/providers/paymentProvider.ts 11-11 PAYMENT_BASE_PATH *)
definition PAYMENT_BASE_PATH :: string where
  "PAYMENT_BASE_PATH = ''/api/payment/v1''"

text \<open>The body of the method selection is the whole method object the page holds.\<close>

definition method_fields :: "payment_method \<Rightarrow> (string \<times> jval) list" where
  "method_fields m =
     [(''blockchain'', JStr (pm_blockchain m)), (''blockchainName'', JStr (pm_blockchainName m)),
      (''displayName'', JStr (pm_displayName m)), (''name'', JStr (pm_name m)),
      (''ticker'', JStr (pm_ticker m))]"

(* src: ui-payment/src/providers/paymentProvider.ts 13-61 paymentProvider *)
fun pay_http :: "pay_request \<Rightarrow> http_request" where
  "pay_http (CurrencyConvert fiat amt crypto pid) =
     with_params (request GET (PAYMENT_BASE_PATH @ ''/currency-convert''))
       ([(''fiatCurrency'', fiat), (''fiatAmount'', amt), (''cryptoCurrency'', crypto)]
        @ opt_param ''paymentId'' pid)"
| "pay_http (SetPaymentMethod i m) =
     with_body (request POST (PAYMENT_BASE_PATH @ ''/payment/'' @ i @ ''/method'')) (method_fields m)"
| "pay_http (GetSupportedMethods i) =
     request GET (PAYMENT_BASE_PATH @ ''/payment/'' @ i @ ''/supported-method'')"
| "pay_http (GetPayment i) = request GET (PAYMENT_BASE_PATH @ ''/payment/'' @ i)"
| "pay_http (GetPaymentLink i) = request GET (PAYMENT_BASE_PATH @ ''/payment-link/'' @ i)"
| "pay_http (CreatePaymentFromLink i) =
     request POST (PAYMENT_BASE_PATH @ ''/payment-link/'' @ i @ ''/payment'')"
| "pay_http (PutPayment i) = request PUT (PAYMENT_BASE_PATH @ ''/payment/'' @ i)"
| "pay_http (SetCustomer i e consent terms) =
     with_body (request POST (PAYMENT_BASE_PATH @ ''/payment/'' @ i @ ''/customer''))
       [(''email'', JStr e), (''marketingConsent'', JBool consent), (''termsAccepted'', JBool terms)]"
| "pay_http GetCSRFCookie = request GET (PAYMENT_BASE_PATH @ ''/csrf-cookie'')"

end
