(* ===== verification/Payment_Page.thy ===== *)
theory Payment_Page
  imports Async Payment_Types
begin

text \<open>
  The payment page (ui-payment/src/pages/PaymentPage.tsx): what it does when the payment changes,
  when the customer chooses a method, fills the form and submits it, and how it polls.

  The state \<open>page\<close> has the hooks of the component (the shared payment of \<open>usePayment\<close>
  included) and the part of the form the page reads. React compares the payment by identity: the
  stored payment carries a number that is new for every object the page stores, so that storing the
  same object again changes nothing and does not run the effect. A continuation carries the payment
  that its closure captured. The form library is outside the repository: the check of an email
  address is the parameter \<open>ve\<close>, and the validation it makes after a change is done at once.
\<close>

section \<open>State\<close>

type_synonym pay_ref = "nat \<times> payment"

(* src: ui-payment/src/pages/PaymentPage.tsx 24-28 EmailForm *)
record email_form =
  f_email :: string
  f_marketingConsent :: bool
  f_termsAccepted :: bool

(* src: ui-payment/src/pages/PaymentPage.tsx 30-38 PaymentPage *)
record page =
  pg_payment :: "pay_ref option"
  fresh_ref :: nat
  paymentProcessError :: bool
  emailFilled :: bool
  currencyChosen :: bool
  paymentMethod :: "payment_method option"
  convertResult :: "convert_result option"
  availableMethods :: "payment_method list"
  form :: email_form
  err_email :: bool
  err_terms :: bool
  touched_terms :: bool

definition empty_form :: email_form where
  "empty_form = \<lparr>f_email = [], f_marketingConsent = False, f_termsAccepted = False\<rparr>"

definition fresh_page :: "pay_ref option \<Rightarrow> page" where
  "fresh_page p = \<lparr>pg_payment = p, fresh_ref = (case p of None \<Rightarrow> 0 | Some (n, _) \<Rightarrow> Suc n),
     paymentProcessError = False, emailFilled = False, currencyChosen = False,
     paymentMethod = None, convertResult = None, availableMethods = [], form = empty_form,
     err_email = False, err_terms = False, touched_terms = False\<rparr>"

text \<open>What the page navigates to, with the payment it hands to the next page.\<close>

datatype page_effect = Goto string payment

text \<open>Where a continuation resumes. \<open>CvMethods\<close> and \<open>CvSelect\<close> follow the conversion
  of \<open>getCryptoCurrencyConvert\<close> in its two callers.\<close>

datatype page_cont =
    PollReply pay_ref
  | UpdatePayment pay_ref
  | SubmitReply pay_ref
  | CvMethods pay_ref
  | CvSelect pay_ref "payment_method option"
  | MethodsReply pay_ref
  | SetMethodReply
  | CustomerReply

datatype page_answer =
    RPayment payment | RConvert convert_result | RMethods "payment_method list"
  | RMethod payment_method | RCustomer customer

type_synonym page_reply = "(page_answer, string) reply"
type_synonym page_outcome = "(page, pay_request, page_cont, page_effect) outcome"

text \<open>What the user does, and the payment that the application loads and shares.\<close>

datatype page_event =
    PaymentLoaded payment
  | ChangeEmail string
  | ChangeConsent bool
  | ChangeTerms bool
  | BlurEmail
  | SelectMethod string
  | Submit

text \<open>The setter of the shared payment, with a new object and with one the page has. The counter
  stays above every number in use.\<close>

definition set_new_payment :: "payment \<Rightarrow> page \<Rightarrow> page" where
  "set_new_payment p s = s\<lparr>pg_payment := Some (fresh_ref s, p), fresh_ref := Suc (fresh_ref s)\<rparr>"

definition set_payment_ref :: "pay_ref \<Rightarrow> page \<Rightarrow> page" where
  "set_payment_ref r s =
     s\<lparr>pg_payment := Some r, fresh_ref := max (fresh_ref s) (Suc (fst r))\<rparr>"

section \<open>Form\<close>

text \<open>The two rules of the schema that can fail.\<close>

(* src: ui-payment/src/pages/PaymentPage.tsx 18-22 schema *)
definition schema_errors :: "(string \<Rightarrow> bool) \<Rightarrow> email_form \<Rightarrow> bool \<times> bool" where
  "schema_errors ve f = (f_email f = [] \<or> \<not> ve (f_email f), \<not> f_termsAccepted f)"

definition schema_valid :: "(string \<Rightarrow> bool) \<Rightarrow> email_form \<Rightarrow> bool" where
  "schema_valid ve f \<longleftrightarrow> schema_errors ve f = (False, False)"

definition validate_form :: "(string \<Rightarrow> bool) \<Rightarrow> page \<Rightarrow> page" where
  "validate_form ve s =
     s\<lparr>err_email := fst (schema_errors ve (form s)), err_terms := snd (schema_errors ve (form s))\<rparr>"

definition reset_form :: "email_form \<Rightarrow> page \<Rightarrow> page" where
  "reset_form f s = s\<lparr>form := f, err_email := False, err_terms := False, touched_terms := False\<rparr>"

section \<open>Operations\<close>

(* src: ui-payment/src/pages/PaymentPage.tsx 40-54 updatePayment *)
fun updatePayment :: "pay_ref \<Rightarrow> page \<Rightarrow> page_outcome" where
  "updatePayment (n, p) s =
     (if pay_id p = [] then idle s else (s, [Await (GetPayment (pay_id p)) (PollReply (n, p))]))"

(* src: ui-payment/src/pages/PaymentPage.tsx 45-53 updatePayment *)
fun pollReply :: "pay_ref \<Rightarrow> page_reply \<Rightarrow> page \<Rightarrow> page_outcome" where
  "pollReply r (Resolved (RPayment p)) s = (set_new_payment p s, [])"
| "pollReply r (Resolved _) s = idle s"
| "pollReply r (Rejected e) s = (s, [After 3000 (UpdatePayment r)])"

(* src: ui-payment/src/pages/PaymentPage.tsx 62-73 onSubmit *)
definition onSubmit :: "page \<Rightarrow> page_outcome" where
  "onSubmit s =
     (case (pg_payment s, paymentMethod s) of
        (Some r, Some m) \<Rightarrow>
          if \<not> emailFilled s \<or> \<not> currencyChosen s then idle s
          else (s, [Await (PutPayment (pay_id (snd r))) (SubmitReply r)])
      | _ \<Rightarrow> idle s)"

fun submitReply :: "pay_ref \<Rightarrow> page_reply \<Rightarrow> page \<Rightarrow> page_outcome" where
  "submitReply r (Resolved _) s = updatePayment r s"
| "submitReply r (Rejected e) s = idle s"

text \<open>The form library marks every field as touched, validates, and calls \<open>onSubmit\<close> when
  there is no error.\<close>

(* src: ui-payment/src/pages/PaymentPage.tsx 56-75 formikConfig *)
definition handleSubmit :: "(string \<Rightarrow> bool) \<Rightarrow> page \<Rightarrow> page_outcome" where
  "handleSubmit ve s =
     (let s' = (validate_form ve s)\<lparr>touched_terms := True\<rparr>
      in if schema_valid ve (form s) then onSubmit s' else idle s')"

(* src: ui-payment/src/pages/PaymentPage.tsx 77-94 getCryptoCurrencyConvert *)
definition getCryptoCurrencyConvert ::
    "payment \<Rightarrow> string \<Rightarrow> page_cont \<Rightarrow> page \<Rightarrow> page_outcome" where
  "getCryptoCurrencyConvert p ticker k s =
     (s, [Await (CurrencyConvert (pay_currency p) (num_str (pay_price p)) ticker (Some (pay_id p))) k])"

fun convertDone :: "page_reply \<Rightarrow> page \<Rightarrow> page" where
  "convertDone (Resolved (RConvert c)) s = s\<lparr>convertResult := Some c\<rparr>"
| "convertDone _ s = s"

text \<open>The second half of \<open>getSupportedMethods\<close>, after the conversion.\<close>

(* src: ui-payment/src/pages/PaymentPage.tsx 113-119 getSupportedMethods *)
fun prefillCustomer :: "pay_ref \<Rightarrow> page \<Rightarrow> page_outcome" where
  "prefillCustomer (n, p) s =
     (let s' = (case pay_customer p of
          None \<Rightarrow> s
        | Some c \<Rightarrow> (reset_form \<lparr>f_email = cust_email c, f_marketingConsent = True,
            f_termsAccepted = True\<rparr> s)\<lparr>emailFilled := True\<rparr>)
      in (s', [Await (GetSupportedMethods (pay_id p)) (MethodsReply (n, p))]))"

(* src: ui-payment/src/pages/PaymentPage.tsx 96-111 getSupportedMethods *)
fun getSupportedMethods :: "pay_ref \<Rightarrow> page \<Rightarrow> page_outcome" where
  "getSupportedMethods (n, p) s =
     (if pay_id p = [] \<or> availableMethods s \<noteq> [] then idle s
      else case pay_method p of
        Some m \<Rightarrow>
          getCryptoCurrencyConvert p (pm_ticker m) (CvMethods (n, p)) (s\<lparr>paymentMethod := Some m\<rparr>)
      | None \<Rightarrow> prefillCustomer (n, p) s)"

(* src: ui-payment/src/pages/PaymentPage.tsx 118-126 getSupportedMethods *)
fun methodsReply :: "pay_ref \<Rightarrow> page_reply \<Rightarrow> page \<Rightarrow> page_outcome" where
  "methodsReply r (Resolved (RMethods ms)) s =
     (set_payment_ref r (s\<lparr>availableMethods := ms\<rparr>), [])"
| "methodsReply r (Resolved _) s = idle s"
| "methodsReply r (Rejected e) s = (s\<lparr>currencyChosen := False, emailFilled := False\<rparr>, [])"

(* src: ui-payment/src/pages/PaymentPage.tsx 129-167 useEffect *)
definition payment_effect :: "page \<Rightarrow> page_outcome" where
  "payment_effect s = (case pg_payment s of None \<Rightarrow> idle s | Some (n, p) \<Rightarrow>
     if pay_id p = [] then idle s
     else if status_of p = Some StFailed then (s, [Emit (Goto (''/error/'' @ pay_id p) p)])
     else if status_of p = Some StUnderpaid then (s, [Emit (Goto (''/underpaid/'' @ pay_id p) p)])
     else if isLocked p \<and> status_of p \<in> {Some StPending, Some StPartial, Some StInProgress}
     then (s, [After 2000 (UpdatePayment (n, p))])
     else if isLocked p \<and> status_of p = Some StSuccess
     then (s, [Emit (Goto (''/success/'' @ pay_id p) p)])
     else getSupportedMethods (n, p) s)"

(* src: ui-payment/src/pages/PaymentPage.tsx 169-180 onSelectPaymentMethod *)
definition onSelectPaymentMethod :: "string \<Rightarrow> page \<Rightarrow> page_outcome" where
  "onSelectPaymentMethod c s = (case pg_payment s of None \<Rightarrow> idle s | Some (n, p) \<Rightarrow>
     if map_option pm_name (paymentMethod s) = Some c
       \<or> (paymentMethod s = None \<and> map_option pm_ticker (pay_method p) = Some c)
     then idle s
     else let sel = find_first (\<lambda>m. pm_ticker m = c) (availableMethods s)
       in getCryptoCurrencyConvert p c (CvSelect (n, p) sel) (s\<lparr>paymentMethod := sel\<rparr>))"

(* src: ui-payment/src/pages/PaymentPage.tsx 178-187 selectedMethod *)
fun sendMethod :: "pay_ref \<Rightarrow> payment_method option \<Rightarrow> page \<Rightarrow> page_outcome" where
  "sendMethod (n, p) None s = idle s"
| "sendMethod (n, p) (Some m) s = (s, [Await (SetPaymentMethod (pay_id p) m) SetMethodReply])"

(* src: ui-payment/src/pages/PaymentPage.tsx 195-202 submitCustomer *)
definition submitCustomer :: "string \<Rightarrow> bool \<Rightarrow> bool \<Rightarrow> page \<Rightarrow> page_outcome" where
  "submitCustomer e terms consent s = (case pg_payment s of
       None \<Rightarrow> (s\<lparr>emailFilled := False\<rparr>, [])
     | Some (n, p) \<Rightarrow>
         if pay_id p = [] \<or> e = [] \<or> \<not> terms then (s\<lparr>emailFilled := False\<rparr>, [])
         else (s, [Await (SetCustomer (pay_id p) e consent terms) CustomerReply]))"

text \<open>The blur handler reads the errors and values of the render it belongs to, before the
  validation that the blur itself starts.\<close>

(* src: ui-payment/src/pages/PaymentPage.tsx 210-218 checkCustomer *)
definition checkCustomer :: "(string \<Rightarrow> bool) \<Rightarrow> page \<Rightarrow> page_outcome" where
  "checkCustomer ve s =
     (let s' = validate_form ve s
      in if err_email s then (s'\<lparr>emailFilled := False\<rparr>, [])
         else submitCustomer (f_email (form s)) (f_termsAccepted (form s))
           (f_marketingConsent (form s)) s')"

(* src: ui-payment/src/pages/PaymentPage.tsx 481-491 onChange *)
definition changeTerms :: "(string \<Rightarrow> bool) \<Rightarrow> bool \<Rightarrow> page \<Rightarrow> page_outcome" where
  "changeTerms ve b s =
     (let s' = validate_form ve (s\<lparr>form := (form s)\<lparr>f_termsAccepted := b\<rparr>\<rparr>)
      in if b then
           if f_email (form s) \<noteq> [] \<and> \<not> err_email s
           then submitCustomer (f_email (form s)) True (f_marketingConsent (form s)) s'
           else idle s'
         else (s'\<lparr>emailFilled := False\<rparr>, []))"

(* src: ui-payment/src/pages/PaymentPage.tsx 271-278 submitButtonDisabled *)
definition submitButtonDisabled :: "page \<Rightarrow> bool" where
  "submitButtonDisabled s \<longleftrightarrow>
     err_email s \<or> f_email (form s) = [] \<or> \<not> f_termsAccepted (form s) \<or> paymentMethod s = None
     \<or> \<not> emailFilled s \<or> \<not> currencyChosen s"

section \<open>The component\<close>

fun page_on :: "(string \<Rightarrow> bool) \<Rightarrow> page_event \<Rightarrow> page \<Rightarrow> page_outcome" where
  "page_on ve (PaymentLoaded p) s = (set_new_payment p s, [])"
| "page_on ve (ChangeEmail e) s =
     (validate_form ve (s\<lparr>form := (form s)\<lparr>f_email := e\<rparr>\<rparr>), [])"
| "page_on ve (ChangeConsent b) s =
     (validate_form ve (s\<lparr>form := (form s)\<lparr>f_marketingConsent := b\<rparr>\<rparr>), [])"
| "page_on ve (ChangeTerms b) s = changeTerms ve b s"
| "page_on ve BlurEmail s = checkCustomer ve s"
| "page_on ve (SelectMethod c) s = onSelectPaymentMethod c s"
| "page_on ve Submit s = handleSubmit ve s"

fun page_resume :: "page_cont \<Rightarrow> page_reply \<Rightarrow> page \<Rightarrow> page_outcome" where
  "page_resume (PollReply r) a s = pollReply r a s"
| "page_resume (SubmitReply r) a s = submitReply r a s"
| "page_resume (CvMethods r) a s =
     prefillCustomer r ((convertDone a s)\<lparr>currencyChosen := True\<rparr>)"
| "page_resume (CvSelect r m) a s = sendMethod r m (convertDone a s)"
| "page_resume (MethodsReply r) a s = methodsReply r a s"
| "page_resume SetMethodReply a s =
     (s\<lparr>currencyChosen := (case a of Resolved _ \<Rightarrow> True | Rejected _ \<Rightarrow> False)\<rparr>, [])"
| "page_resume CustomerReply a s =
     (s\<lparr>emailFilled := (case a of Resolved _ \<Rightarrow> True | Rejected _ \<Rightarrow> False)\<rparr>, [])"
| "page_resume (UpdatePayment r) a s = idle s"

fun page_timer :: "page_cont \<Rightarrow> page \<Rightarrow> page_outcome" where
  "page_timer (UpdatePayment r) s = updatePayment r s"
| "page_timer _ s = idle s"

text \<open>The effect runs when the stored payment is another object than before.\<close>

definition page_effects :: "page \<Rightarrow> page \<Rightarrow> page_outcome" where
  "page_effects old s =
     (if pg_payment s = pg_payment old then idle s
      else payment_effect s)"

fun page_fits :: "pay_request \<Rightarrow> page_reply \<Rightarrow> bool" where
  "page_fits q (Rejected e) = True"
| "page_fits (GetPayment i) (Resolved a) = (\<exists>p. a = RPayment p)"
| "page_fits (PutPayment i) (Resolved a) = (\<exists>p. a = RPayment p)"
| "page_fits (CurrencyConvert f n c i) (Resolved a) = (\<exists>r. a = RConvert r)"
| "page_fits (GetSupportedMethods i) (Resolved a) = (\<exists>ms. a = RMethods ms)"
| "page_fits (SetPaymentMethod i m) (Resolved a) = (\<exists>x. a = RMethod x)"
| "page_fits (SetCustomer i e m t) (Resolved a) = (\<exists>c. a = RCustomer c)"
| "page_fits GetCSRFCookie (Resolved a) = False"
| "page_fits (GetPaymentLink i) (Resolved a) = False"
| "page_fits (CreatePaymentFromLink i) (Resolved a) = False"

definition payment_page where
  "payment_page ve = \<lparr>c_mount = payment_effect, c_event = page_on ve, c_resume = page_resume,
     c_timer = page_timer, c_effect = page_effects, c_fits = page_fits\<rparr>"

lemma payment_page_simps [simp]:
  "c_mount (payment_page ve) = payment_effect" "c_event (payment_page ve) = page_on ve"
  "c_resume (payment_page ve) = page_resume" "c_timer (payment_page ve) = page_timer"
  "c_effect (payment_page ve) = page_effects" "c_fits (payment_page ve) = page_fits"
  by (simp_all add: payment_page_def)

section \<open>What the page asks, keeps and does\<close>

text \<open>Each request comes with the continuation that fits it and speaks of the payment its closure
  captured; a customer is only sent with an email and the accepted terms.\<close>

fun page_request_ok :: "pay_request \<Rightarrow> page_cont \<Rightarrow> bool" where
  "page_request_ok (GetPayment i) k = (\<exists>r. k = PollReply r \<and> i = pay_id (snd r) \<and> i \<noteq> [])"
| "page_request_ok (PutPayment i) k = (\<exists>r. k = SubmitReply r \<and> i = pay_id (snd r))"
| "page_request_ok (CurrencyConvert f a c i) k =
     (\<exists>r. f = pay_currency (snd r) \<and> a = num_str (pay_price (snd r)) \<and> i = Some (pay_id (snd r))
        \<and> (k = CvMethods r \<or> (\<exists>m. k = CvSelect r m \<and> (\<forall>x. m = Some x \<longrightarrow> pm_ticker x = c))))"
| "page_request_ok (GetSupportedMethods i) k = (\<exists>r. k = MethodsReply r \<and> i = pay_id (snd r))"
| "page_request_ok (SetPaymentMethod i m) k = (k = SetMethodReply)"
| "page_request_ok (SetCustomer i e consent terms) k = (k = CustomerReply \<and> terms \<and> e \<noteq> [])"
| "page_request_ok GetCSRFCookie k = False"
| "page_request_ok (GetPaymentLink i) k = False"
| "page_request_ok (CreatePaymentFromLink i) k = False"

fun is_update :: "page_cont \<Rightarrow> bool" where
  "is_update (UpdatePayment r) = (pay_id (snd r) \<noteq> [])"
| "is_update k = False"

fun goto_ok :: "page_effect \<Rightarrow> bool" where
  "goto_ok (Goto path p) =
     ((path = ''/success/'' @ pay_id p \<and> isLocked p \<and> status_of p = Some StSuccess)
      \<or> (path = ''/error/'' @ pay_id p \<and> status_of p = Some StFailed)
      \<or> (path = ''/underpaid/'' @ pay_id p \<and> status_of p = Some StUnderpaid))"

definition page_inv :: "page \<Rightarrow> bool" where
  "page_inv s \<longleftrightarrow> \<not> paymentProcessError s \<and> (\<forall>n p. pg_payment s = Some (n, p) \<longrightarrow> n < fresh_ref s)"

lemma page_inv_keep [simp]:
  "page_inv (validate_form ve s) = page_inv s" "page_inv (reset_form f s) = page_inv s"
  "page_inv (s\<lparr>emailFilled := b\<rparr>) = page_inv s" "page_inv (s\<lparr>currencyChosen := b\<rparr>) = page_inv s"
  "page_inv (s\<lparr>paymentMethod := m\<rparr>) = page_inv s" "page_inv (s\<lparr>form := f\<rparr>) = page_inv s"
  "page_inv (s\<lparr>availableMethods := ms\<rparr>) = page_inv s"
  "page_inv (s\<lparr>touched_terms := b\<rparr>) = page_inv s"
  by (simp_all add: page_inv_def validate_form_def reset_form_def)

lemma page_inv_payment [simp]:
  "page_inv s \<Longrightarrow> page_inv (set_new_payment p s)"
  "page_inv s \<Longrightarrow> page_inv (set_payment_ref r s)"
  by (auto simp: page_inv_def set_new_payment_def set_payment_ref_def)

lemma page_inv_convert [simp]: "page_inv (convertDone a s) = page_inv s"
  by (induction a s rule: convertDone.induct) (simp_all add: page_inv_def)

abbreviation "page_ok \<equiv> ok_outcome page_inv page_request_ok is_update goto_ok"

lemma ok_prefill: "page_inv s \<Longrightarrow> page_ok (prefillCustomer r s)"
  by (cases r) (simp add: Let_def split: option.split)

lemma ok_getSupported: "page_inv s \<Longrightarrow> page_ok (getSupportedMethods r s)"
  by (cases r) (auto simp: idle_def getCryptoCurrencyConvert_def ok_prefill
      simp del: prefillCustomer.simps split: option.split)

lemma ok_updatePayment: "page_inv s \<Longrightarrow> page_ok (updatePayment r s)"
  by (cases r) (simp add: idle_def)

lemma ok_effect: "page_inv s \<Longrightarrow> page_ok (payment_effect s)"
  by (auto simp: payment_effect_def idle_def ok_getSupported simp del: getSupportedMethods.simps
      split: option.split prod.split)

lemma ok_submitCustomer: "page_inv s \<Longrightarrow> page_ok (submitCustomer e t c s)"
  by (auto simp: submitCustomer_def split: option.split prod.split)

lemma ok_on: "page_inv s \<Longrightarrow> page_ok (page_on ve v s)"
proof (cases v)
  case (SelectMethod c)
  assume "page_inv s"
  then show ?thesis
    using SelectMethod find_first_Some [of "\<lambda>m. pm_ticker m = c" "availableMethods s"]
    by (auto simp: onSelectPaymentMethod_def idle_def getCryptoCurrencyConvert_def Let_def
        split: option.split prod.split)
next
  case Submit
  assume "page_inv s"
  then show ?thesis
    using Submit by (auto simp: handleSubmit_def onSubmit_def idle_def Let_def split: option.split)
qed (auto simp: idle_def ok_submitCustomer changeTerms_def checkCustomer_def Let_def)

lemma ok_resume:
  "page_inv s \<Longrightarrow> page_request_ok q k \<Longrightarrow> page_ok (page_resume k a s)"
proof (cases k)
  case (PollReply r)
  assume s: "page_inv s" and q: "page_request_ok q k"
  then have "pay_id (snd r) \<noteq> []" using PollReply by (cases q) auto
  with s show ?thesis using PollReply
    by (induction r a s rule: pollReply.induct) (auto simp: idle_def)
next
  case (SubmitReply r)
  assume "page_inv s" then show ?thesis using SubmitReply
    by (cases a) (auto simp: idle_def ok_updatePayment simp del: updatePayment.simps)
next
  case (CvMethods r)
  assume "page_inv s" then show ?thesis using CvMethods
    by (simp add: ok_prefill del: prefillCustomer.simps)
next
  case (CvSelect r m)
  assume "page_inv s" then show ?thesis using CvSelect
    by (cases r; cases m) (auto simp: idle_def)
next
  case (MethodsReply r)
  assume "page_inv s" then show ?thesis using MethodsReply
    by (induction r a s rule: methodsReply.induct) (auto simp: idle_def)
qed (auto simp: idle_def)

lemma ok_timer: "page_inv s \<Longrightarrow> page_ok (page_timer k s)"
  by (cases k) (auto simp: idle_def ok_updatePayment simp del: updatePayment.simps)

interpretation pg: safe_component "payment_page ve" page_inv page_request_ok is_update goto_ok
  by unfold_locales
    (auto simp: ok_effect ok_on ok_resume ok_timer page_effects_def idle_def simp del: page_on.simps)

definition page_start :: "page \<Rightarrow> bool" where
  "page_start s \<longleftrightarrow> (\<exists>p. s = fresh_page p)"

lemma page_reachable_ok:
  "areach (payment_page ve) page_start w \<Longrightarrow> ok_world page_inv page_request_ok is_update goto_ok w"
  by (erule pg.reachable_ok) (auto simp: page_start_def page_inv_def fresh_page_def)

section \<open>Polling\<close>

text \<open>The payment with identifier \<open>i\<close> is locked and not settled yet; the polling tasks for it.\<close>

definition waiting :: "string \<Rightarrow> page \<Rightarrow> bool" where
  "waiting i s \<longleftrightarrow> (\<exists>n p. pg_payment s = Some (n, p) \<and> pay_id p = i \<and> i \<noteq> [] \<and> isLocked p
     \<and> status_of p \<in> {Some StPending, Some StPartial, Some StInProgress})"

fun polls :: "string \<Rightarrow> page_cont \<Rightarrow> bool" where
  "polls i (PollReply r) = (pay_id (snd r) = i \<and> i \<noteq> [])"
| "polls i k = False"

fun will_poll :: "string \<Rightarrow> page_cont \<Rightarrow> bool" where
  "will_poll i (UpdatePayment r) = (pay_id (snd r) = i \<and> i \<noteq> [])"
| "will_poll i k = False"

lemma waiting_payment: "waiting i s' \<longleftrightarrow> waiting i s" if "pg_payment s' = pg_payment s"
  using that by (simp add: waiting_def)

lemma effect_wakes:
  "waiting i s \<Longrightarrow> \<exists>r. payment_effect s = (s, [After 2000 (UpdatePayment r)]) \<and> pay_id (snd r) = i \<and> i \<noteq> []"
  by (auto simp: waiting_def payment_effect_def)

lemma getSupported_payment: "pg_payment (fst (getSupportedMethods r s)) = pg_payment s"
  by (cases r) (auto simp: idle_def getCryptoCurrencyConvert_def reset_form_def Let_def
      split: option.split)

lemma effect_payment: "pg_payment (fst (payment_effect s)) = pg_payment s"
  by (auto simp: payment_effect_def idle_def getSupported_payment
      simp del: getSupportedMethods.simps split: option.split prod.split)

lemma effects_payment: "pg_payment (fst (page_effects old s)) = pg_payment s"
  by (simp add: page_effects_def idle_def effect_payment)


lemma on_payment:
  "pg_payment (fst (page_on ve v s)) = pg_payment s \<or> (\<exists>p. v = PaymentLoaded p)"
  by (cases v) (auto simp: idle_def changeTerms_def checkCustomer_def submitCustomer_def Let_def
      onSelectPaymentMethod_def getCryptoCurrencyConvert_def handleSubmit_def onSubmit_def
      validate_form_def split: option.split)

lemma piece_wakes:
  assumes "waiting i (fst oc)" and "pg_payment (fst oc) \<noteq> pg_payment old"
  shows "\<exists>r. andThen oc (page_effects old) = (fst oc, snd oc @ [After 2000 (UpdatePayment r)])
    \<and> pay_id (snd r) = i \<and> i \<noteq> []"
  using effect_wakes [OF assms(1)] assms(2) by (cases oc) (auto simp: page_effects_def)

lemma wakes_after:
  "pay_id (snd r) = i \<Longrightarrow> i \<noteq> [] \<Longrightarrow> wakes (polls i) (will_poll i) (cs @ [After t (UpdatePayment r)])"
  unfolding wakes_def by force

lemma piece_live:
  assumes "andThen oc (page_effects s) = (s', cs)" and "waiting i s'"
    and "pg_payment (fst oc) = pg_payment s \<Longrightarrow> waiting i s \<Longrightarrow> wakes (polls i) (will_poll i) (snd oc) \<or> ok"
  shows "wakes (polls i) (will_poll i) cs \<or> (waiting i s \<and> ok)"
proof -
  obtain t ds where oc: "oc = (t, ds)" by (cases oc)
  with assms(1) have s': "s' = fst (page_effects s t)" and cs: "cs = ds @ snd (page_effects s t)"
    by (auto simp: prod_eq_iff)
  have w: "waiting i t" using assms(2) waiting_payment effects_payment s' by metis
  show ?thesis
  proof (cases "pg_payment t = pg_payment s")
    case True
    then have "waiting i s" using w waiting_payment by metis
    with assms(3) True show ?thesis by (auto simp: oc cs wakes_def)
  next
    case False
    then show ?thesis using piece_wakes [of i oc s] w assms(1) wakes_after by (fastforce simp: oc)
  qed
qed

lemma new_payment_changes: "page_inv s \<Longrightarrow> pg_payment (set_new_payment p s) \<noteq> pg_payment s"
proof
  assume "page_inv s" and "pg_payment (set_new_payment p s) = pg_payment s"
  then have "pg_payment s = Some (fresh_ref s, p)" by (simp add: set_new_payment_def)
  with \<open>page_inv s\<close> show False unfolding page_inv_def by blast
qed

lemma resume_payment:
  assumes "pg_payment (fst (page_resume k a s)) = pg_payment s" "page_inv s" "page_request_ok q k"
    "page_fits q a" "polls i k"
  shows "wakes (polls i) (will_poll i) (snd (page_resume k a s))"
proof -
  obtain r where k: "k = PollReply r" "pay_id (snd r) = i" "i \<noteq> []"
    using assms(5) by (cases k) auto
  then obtain j where q: "q = GetPayment j" using assms(3) by (cases q) auto
  show ?thesis
  proof (cases a)
    case (Rejected e)
    then show ?thesis using k by (auto simp: wakes_def)
  next
    case (Resolved x)
    then obtain p where "x = RPayment p" using assms(4) q by (cases x) auto
    then show ?thesis using assms(1) new_payment_changes [OF assms(2)] Resolved k by simp
  qed
qed

lemma timer_payment:
  assumes "will_poll i k"
  shows "wakes (polls i) (will_poll i) (snd (page_timer k s))"
  using assms by (cases k) (auto simp: wakes_def)

interpretation pgl: live_component "payment_page ve" page_inv page_request_ok is_update goto_ok
    "waiting i" "polls i" "will_poll i"
proof unfold_locales
  fix s s' cs
  assume "c_mount (payment_page ve) s = (s', cs)" "waiting i s'"
  then show "wakes (polls i) (will_poll i) cs"
    using effect_wakes [of i s] waiting_payment effect_payment wakes_after [where cs = "[]"]
    by (metis append_Nil fst_conv payment_page_simps(1) snd_conv)
next
  fix s v s' cs
  assume "andThen (c_event (payment_page ve) v s) (c_effect (payment_page ve) s) = (s', cs)"
    "waiting i s'"
  then show "wakes (polls i) (will_poll i) cs \<or> waiting i s"
    using piece_live [of "page_on ve v s" s s' cs i True] by auto
next
  fix s q k a s' cs
  assume "page_inv s" "page_request_ok q k" "c_fits (payment_page ve) q a"
    "andThen (c_resume (payment_page ve) k a s) (c_effect (payment_page ve) s) = (s', cs)"
    "waiting i s'"
  then show "wakes (polls i) (will_poll i) cs \<or> (waiting i s \<and> \<not> polls i k)"
    using piece_live [of "page_resume k a s" s s' cs i] resume_payment [of k a s q i] by auto
next
  fix s k s' cs
  assume "andThen (c_timer (payment_page ve) k s) (c_effect (payment_page ve) s) = (s', cs)"
    "waiting i s'"
  then show "wakes (polls i) (will_poll i) cs \<or> (waiting i s \<and> \<not> will_poll i k)"
    using piece_live [of "page_timer k s" s s' cs i] timer_payment [of i k s] by auto
qed

lemma page_reachable_awake:
  "areach (payment_page ve) page_start w \<Longrightarrow> awake (waiting i) (polls i) (will_poll i) w"
  by (erule pgl.reachable_awake) (auto simp: page_start_def page_inv_def fresh_page_def)

section \<open>Who may confirm a payment\<close>

lemma no_put_supported: "Await (PutPayment i) k \<notin> set (snd (getSupportedMethods r s))"
  by (cases r) (auto simp: idle_def getCryptoCurrencyConvert_def Let_def split: option.split)

lemma no_put_effect: "Await (PutPayment i) k \<notin> set (snd (page_effects old s))"
  by (auto simp: page_effects_def payment_effect_def idle_def no_put_supported
      simp del: getSupportedMethods.simps split: option.split prod.split)

lemma no_put_update: "Await (PutPayment i) k \<notin> set (snd (updatePayment r s))"
  by (cases r) (simp add: idle_def)

lemma no_put_timer: "Await (PutPayment i) k \<notin> set (snd (page_timer j s))"
  by (cases j) (auto simp: idle_def no_put_update simp del: updatePayment.simps)

lemma no_put_resume: "Await (PutPayment i) k \<notin> set (snd (page_resume j a s))"
proof (cases j)
  case (PollReply r)
  then show ?thesis by (induction r a s rule: pollReply.induct) (auto simp: idle_def)
next
  case (SubmitReply r)
  then show ?thesis
    by (cases a) (auto simp: idle_def no_put_update simp del: updatePayment.simps)
next
  case (CvMethods r)
  then show ?thesis by (cases r) (auto simp: Let_def)
next
  case (CvSelect r m)
  then show ?thesis by (cases r; cases m) (auto simp: idle_def)
next
  case (MethodsReply r)
  then show ?thesis by (induction r a s rule: methodsReply.induct) (auto simp: idle_def)
qed (auto simp: idle_def)

lemma put_on:
  assumes "Await (PutPayment i) k \<in> set (snd (page_on ve v s))"
  shows "v = Submit \<and> schema_valid ve (form s) \<and> (\<exists>n p. pg_payment s = Some (n, p) \<and> pay_id p = i)
    \<and> paymentMethod s \<noteq> None \<and> emailFilled s \<and> currencyChosen s"
  using assms
  by (cases v) (auto simp: idle_def changeTerms_def checkCustomer_def submitCustomer_def Let_def
      onSelectPaymentMethod_def getCryptoCurrencyConvert_def handleSubmit_def onSubmit_def
      validate_form_def split: option.splits prod.splits if_splits)

section \<open>Properties\<close>

text \<open>A payment for the concrete instances.\<close>

definition sample_info :: "payment_status \<Rightarrow> payment_info" where
  "sample_info st = \<lparr>pi_amount = ''1000'', amountFormatted = ''0.001'', factAmountFormatted = None,
     receivedAmount = None, remainingAmount = None, remainingPaymentLink = None,
     recipientAddress = ''0xabc'', pi_status = st, successUrl = None, expiresAt = [],
     expirationDurationMin = Fin 1440, successAction = None, successMessage = None,
     pi_paymentLink = ''ethereum:0xabc''\<rparr>"

definition sample_payment :: "bool \<Rightarrow> payment_status \<Rightarrow> payment" where
  "sample_payment locked st = \<lparr>pay_currency = ''USD'', pay_customer = None, pay_description = None,
     pay_id = ''p1'', isLocked = locked, pay_merchantName = ''Shop'',
     paymentInfo = Some (sample_info st), pay_method = None, pay_price = Fin 10, feePercent = None\<rparr>"

definition sample_method :: "string \<Rightarrow> string \<Rightarrow> payment_method" where
  "sample_method n t = \<lparr>pm_blockchain = n, pm_blockchainName = n, pm_displayName = n,
     pm_name = n, pm_ticker = t\<rparr>"

lemmas sample_defs = sample_info_def sample_payment_def sample_method_def status_of_def

text \<open>C2. The page never stops watching: in every run, while the payment it shows is locked and
  pending, partially paid or waiting for confirmations, a request for that payment is under way or a
  timer is set that will make one. A failed request does not end the polling.\<close>

theorem polling_never_stops:
  assumes "areach (payment_page ve) page_start w"
    and "pg_payment (wst w) = Some (n, p)" "pay_id p \<noteq> []" "isLocked p"
    and "status_of p \<in> {Some StPending, Some StPartial, Some StInProgress}"
  shows "(\<exists>r. (GetPayment (pay_id p), PollReply r) \<in> set (pending w) \<and> pay_id (snd r) = pay_id p)
    \<or> (\<exists>t r. (t, UpdatePayment r) \<in> set (timers w) \<and> pay_id (snd r) = pay_id p)"
proof -
  have "waiting (pay_id p) (wst w)" using assms(2-5) by (auto simp: waiting_def)
  with page_reachable_awake [OF assms(1), where i = "pay_id p"]
  consider (a) q k where "(q, k) \<in> set (pending w)" "polls (pay_id p) k"
    | (b) t k where "(t, k) \<in> set (timers w)" "will_poll (pay_id p) k"
    by (auto simp: awake_def)
  then show ?thesis
  proof cases
    case a
    then obtain r where r: "k = PollReply r" "pay_id (snd r) = pay_id p" by (cases k) auto
    moreover have "page_request_ok q k"
      using page_reachable_ok [OF assms(1)] a(1) by (auto simp: ok_world_def)
    ultimately have "q = GetPayment (pay_id p)" by (cases q) auto
    with a r show ?thesis by blast
  next
    case b
    then show ?thesis by (cases k) auto
  qed
qed

theorem polling_never_stops_witness:
  "\<exists>w. areach (payment_page (\<lambda>_. True)) page_start w
     \<and> (\<exists>t r. (t, UpdatePayment r) \<in> set (timers w) \<and> pay_id (snd r) = ''p1'')"
proof -
  let ?p = "sample_payment True StInProgress"
  let ?w = "initial (payment_page (\<lambda>_. True)) (fresh_page (Some (0, ?p)))"
  have r: "areach (payment_page (\<lambda>_. True)) page_start ?w"
    by (rule areach.start) (auto simp: page_start_def)
  have s: "pg_payment (wst ?w) = Some (0, ?p)" "pending ?w = []"
    by (simp_all add: initial_def payment_effect_def fresh_page_def sample_defs)
  show ?thesis
    using polling_never_stops [OF r s(1)] s(2) r by (fastforce simp: sample_defs)
qed

text \<open>A page on which the button is enabled, for the concrete instances.\<close>

definition ready_page :: "payment_method \<Rightarrow> payment_method list \<Rightarrow> page" where
  "ready_page m ms = (fresh_page (Some (0, sample_payment False StPending)))
     \<lparr>emailFilled := True, currencyChosen := True, paymentMethod := Some m, availableMethods := ms,
      form := \<lparr>f_email = ''a@b.co'', f_marketingConsent = False, f_termsAccepted = True\<rparr>\<rparr>"

definition world_of :: "page \<Rightarrow> (page, pay_request, page_cont, page_effect) world" where
  "world_of s = \<lparr>wst = s, pending = [], timers = [], trace = []\<rparr>"

lemmas ready_defs = ready_page_def world_of_def fresh_page_def sample_defs

text \<open>C4. The customer's address is never sent without consent: in every run, each request that
  names a customer carries a non-empty email and the accepted terms, whatever the order of ticking,
  editing and answers.\<close>

theorem customer_needs_terms:
  assumes "areach (payment_page ve) page_start w"
    and "(SetCustomer i e consent terms, k) \<in> set (pending w)"
  shows "terms \<and> e \<noteq> []"
proof -
  have "page_request_ok (SetCustomer i e consent terms) k"
    using page_reachable_ok [OF assms(1)] assms(2) by (auto simp: ok_world_def)
  then show ?thesis by (cases k) auto
qed

text \<open>A page that has just got an unlocked payment, with the form filled by two events.\<close>

theorem customer_needs_terms_witness:
  "\<exists>w k. areach (payment_page (\<lambda>_. True)) page_start w
     \<and> (SetCustomer ''p1'' ''a@b.co'' False True, k) \<in> set (pending w) \<and> ''a@b.co'' \<noteq> []"
proof -
  let ?c = "payment_page (\<lambda>_. True)"
  let ?w0 = "initial ?c (fresh_page (Some (0, sample_payment False StPending)))"
  let ?w = "do_event ?c (ChangeTerms True) (do_event ?c (ChangeEmail ''a@b.co'') ?w0)"
  have r: "areach ?c page_start ?w"
    by (intro areach.step [OF _ astep.event] areach.start) (auto simp: page_start_def)
  have k: "(SetCustomer ''p1'' ''a@b.co'' False True, CustomerReply) \<in> set (pending ?w)"
    by (simp add: do_event_def pending_commit commit_wst initial_def payment_effect_def
        page_effects_def idle_def changeTerms_def submitCustomer_def validate_form_def
        schema_errors_def empty_form_def fresh_page_def sample_defs Let_def)
  show ?thesis
    using customer_needs_terms [OF r k] r k by blast
qed

text \<open>C23. The button tells the truth: submitting the form puts the confirming request on the wire
  exactly when the page has a payment and the button is enabled once the form has been
  validated. The guard of the submit handler never silently drops a submission that the button
  offers, and never lets one through that it does not.\<close>

theorem submit_iff_button:
  "(\<exists>i k. Await (PutPayment i) k \<in> set (snd (handleSubmit ve s))) \<longleftrightarrow>
     pg_payment s \<noteq> None \<and> \<not> err_terms (validate_form ve s) \<and> \<not> submitButtonDisabled (validate_form ve s)"
  by (auto simp: handleSubmit_def onSubmit_def submitButtonDisabled_def schema_valid_def
      schema_errors_def validate_form_def idle_def Let_def split: option.split)

text \<open>A selection can be lost: when the chosen currency's ticker is the name of the method
  already selected, the page treats it as a repeated choice and does nothing, so the payment keeps
  the other network's method although the list now shows the new one.\<close>

lemma selection_lost:
  assumes "paymentMethod s = Some old" and "pm_name old = pm_ticker new"
    and "new \<in> set (availableMethods s)" and "pm_ticker old \<noteq> pm_ticker new"
  shows "onSelectPaymentMethod (pm_ticker new) s = (s, [])"
  using assms by (auto simp: onSelectPaymentMethod_def idle_def split: option.split prod.split)

lemma selection_lost_example:
  "onSelectPaymentMethod ''ETH''
      (ready_page (sample_method ''ETH'' ''ARB'') [sample_method ''ETH'' ''ARB'', sample_method ''ETH'' ''ETH''])
    = (ready_page (sample_method ''ETH'' ''ARB'') [sample_method ''ETH'' ''ARB'', sample_method ''ETH'' ''ETH''], [])"
  using selection_lost [of "ready_page (sample_method ''ETH'' ''ARB'')
      [sample_method ''ETH'' ''ARB'', sample_method ''ETH'' ''ETH'']" "sample_method ''ETH'' ''ARB''"
      "sample_method ''ETH'' ''ETH''"]
  by (simp add: ready_page_def sample_defs)

text \<open>A confirmation can overtake the choice of the method: on a page whose button is enabled,
  choosing another method leaves the button enabled, so that a submission right after the
  conversion sends the confirming request while the request that would set the method is
  unanswered.\<close>

lemma confirmation_overtakes_method:
  assumes "pg_payment s = Some (n, p)"
    and "schema_valid ve (form s)" "emailFilled s" "currencyChosen s"
    and "paymentMethod s = Some old" "pm_name old \<noteq> t"
    and "find_first (\<lambda>m. pm_ticker m = t) (availableMethods s) = Some m"
  shows "set (pending (do_event (payment_page ve) Submit
      (do_reply (payment_page ve) 0 (Resolved (RConvert c))
        (do_event (payment_page ve) (SelectMethod t) (world_of s)))))
    = {(SetPaymentMethod (pay_id p) m, SetMethodReply), (PutPayment (pay_id p), SubmitReply (n, p))}"
proof -
  let ?c = "payment_page ve"
  let ?s1 = "s\<lparr>paymentMethod := Some m\<rparr>"
  have w1: "do_event ?c (SelectMethod t) (world_of s) = (world_of ?s1)\<lparr>pending :=
      [(CurrencyConvert (pay_currency p) (num_str (pay_price p)) t (Some (pay_id p)),
        CvSelect (n, p) (Some m))]\<rparr>"
    using assms by (simp add: do_event_def commit_def onSelectPaymentMethod_def idle_def
        getCryptoCurrencyConvert_def page_effects_def world_of_def Let_def)
  have w2: "do_reply ?c 0 (Resolved (RConvert c)) (do_event ?c (SelectMethod t) (world_of s))
      = (world_of (?s1\<lparr>convertResult := Some c\<rparr>))\<lparr>pending :=
          [(SetPaymentMethod (pay_id p) m, SetMethodReply)]\<rparr>"
    unfolding w1 by (simp add: do_reply_def commit_def drop_nth_def page_effects_def idle_def
        world_of_def)
  show ?thesis
    unfolding w2 using assms
    by (auto simp: do_event_def commit_simps handleSubmit_def onSubmit_def validate_form_def
        page_effects_def idle_def world_of_def)
qed

definition sample_convert :: convert_result where
  "sample_convert = \<lparr>cryptoAmount = ''0.0002'', cryptoCurrency = ''BTC'', cr_displayName = ''BTC'',
     exchangeRate = Fin 50000, fiatAmount = Fin 10, cr_fiatCurrency = ''USD'', network = ''BTC''\<rparr>"

lemma confirmation_overtakes_method_example:
  "(PutPayment ''p1'', SubmitReply (0, sample_payment False StPending)) \<in> set (pending
     (do_event (payment_page (\<lambda>_. True)) Submit
      (do_reply (payment_page (\<lambda>_. True)) 0 (Resolved (RConvert sample_convert))
        (do_event (payment_page (\<lambda>_. True)) (SelectMethod ''BTC'')
          (world_of (ready_page (sample_method ''ETH'' ''ETH'') [sample_method ''BTC'' ''BTC'']))))))"
proof -
  let ?s = "ready_page (sample_method ''ETH'' ''ETH'') [sample_method ''BTC'' ''BTC'']"
  show ?thesis
    using confirmation_overtakes_method [of ?s 0 "sample_payment False StPending" "\<lambda>_. True"
        "sample_method ''ETH'' ''ETH''" "''BTC''" "sample_method ''BTC'' ''BTC''" sample_convert]
    by (simp add: ready_page_def fresh_page_def sample_defs schema_valid_def schema_errors_def
        find_first_def)
qed

end
