(* ===== verification/Markup.thy ===== *)
theory Markup
  imports JS_Number
begin

text \<open>
  What a React component renders: text and elements with a tag (an HTML tag or the name of a
  component), the attributes that depend on data, the handlers of the user's actions and the
  children. Constant class names, which only style, are left out, and so are the elements that
  only carry them, where a view says so. A condition \<open>cond && element\<close> gives no child when it is
  false, as React skips \<open>false\<close> and \<open>undefined\<close> children.

  Handlers are values of a type \<open>'h\<close> of the component, one for each function the code passes.
\<close>

datatype 'h ui =
    Txt string
  | El string "(string \<times> string) list" "(string \<times> 'h) list" "'h ui list"

abbreviation leaf :: "string \<Rightarrow> string \<Rightarrow> 'h ui" where
  "leaf tag s \<equiv> El tag [] [] [Txt s]"

abbreviation comp :: "string \<Rightarrow> (string \<times> string) list \<Rightarrow> 'h ui" where
  "comp tag attrs \<equiv> El tag attrs [] []"

abbreviation wrap :: "string \<Rightarrow> 'h ui list \<Rightarrow> 'h ui" where
  "wrap tag children \<equiv> El tag [] [] children"

text \<open>The value of an attribute that React writes for a boolean.\<close>

definition bool_attr :: "bool \<Rightarrow> string" where
  "bool_attr b = (if b then ''true'' else ''false'')"

text \<open>A string that may be missing, as a list of attributes.\<close>

definition opt_attr :: "string \<Rightarrow> string option \<Rightarrow> (string \<times> string) list" where
  "opt_attr k v = (case v of None \<Rightarrow> [] | Some s \<Rightarrow> [(k, s)])"

section \<open>Reading a rendered view\<close>

text \<open>All elements of a view, the texts in it, and the handlers a user can reach.\<close>

fun ui_nodes :: "'h ui \<Rightarrow> 'h ui list" where
  "ui_nodes (Txt s) = [Txt s]"
| "ui_nodes (El t a h cs) = El t a h cs # concat (map ui_nodes cs)"

fun ui_texts :: "'h ui \<Rightarrow> string list" where
  "ui_texts (Txt s) = [s]"
| "ui_texts (El t a h cs) = concat (map ui_texts cs)"

fun ui_handlers :: "'h ui \<Rightarrow> 'h list" where
  "ui_handlers (Txt s) = []"
| "ui_handlers (El t a h cs) = map snd h @ concat (map ui_handlers cs)"

fun ui_tags :: "'h ui \<Rightarrow> string list" where
  "ui_tags (Txt s) = []"
| "ui_tags (El t a h cs) = t # concat (map ui_tags cs)"

abbreviation "shows_text us s \<equiv> \<exists>u \<in> set us. s \<in> set (ui_texts u)"

definition texts_of :: "'h ui list \<Rightarrow> string list" where
  "texts_of us = concat (map ui_texts us)"

definition tags_of :: "'h ui list \<Rightarrow> string list" where
  "tags_of us = concat (map ui_tags us)"

definition handlers_of :: "'h ui list \<Rightarrow> 'h list" where
  "handlers_of us = concat (map ui_handlers us)"

lemma ui_of_simps [simp]:
  "texts_of [] = []" "tags_of [] = []" "handlers_of [] = []"
  "texts_of (u # us) = ui_texts u @ texts_of us"
  "tags_of (u # us) = ui_tags u @ tags_of us"
  "handlers_of (u # us) = ui_handlers u @ handlers_of us"
  "texts_of (us @ vs) = texts_of us @ texts_of vs"
  "tags_of (us @ vs) = tags_of us @ tags_of vs"
  "handlers_of (us @ vs) = handlers_of us @ handlers_of vs"
  by (simp_all add: texts_of_def tags_of_def handlers_of_def)

lemma ui_of_when [simp]:
  "texts_of (when_ui b us) = when_ui b (texts_of us)"
  "tags_of (when_ui b us) = when_ui b (tags_of us)"
  "handlers_of (when_ui b us) = when_ui b (handlers_of us)"
  by (simp_all add: when_ui_def)

end
