(* ===== verification/Payment_View.thy ===== *)
theory Payment_View
  imports Payment_Page Markup
begin

text \<open>
  What the payment page shows (the JSX of ui-payment/src/pages/PaymentPage.tsx), as a function of its
  state, in the sections the code has: the placeholder while the payment loads, the error panel, the
  payment instructions of a locked payment and the form of an open one. Class names that depend on
  the state are kept as attributes.
\<close>

section \<open>Helpers\<close>

text \<open>The handlers that the view hands to its controls.\<close>

datatype page_handler = HSelectMethod | HChange | HBlurEmail | HChangeTerms | HSubmit

(* src: ui-payment/src/pages/PaymentPage.tsx 220-224 getPrice *)
definition getPrice :: "page \<Rightarrow> string option" where
  "getPrice s = (case pg_payment s of None \<Rightarrow> None
     | Some (n, p) \<Rightarrow> renderCurrency (Some (pay_currency p)) (Some (pay_price p)))"

(* src: ui-payment/src/pages/PaymentPage.tsx 226-231 getCryptoIconName *)
definition getCryptoIconName :: "string \<Rightarrow> string" where
  "getCryptoIconName name =
     (let lowered = to_lower name
      in if str_includes lowered ''_'' then split_on CHR ''_'' lowered ! 1 else lowered)"

(* src: ui-payment/src/pages/PaymentPage.tsx 233-239 getCurCryptoIconName *)
definition getCurCryptoIconName :: "page \<Rightarrow> string" where
  "getCurCryptoIconName s =
     (case (paymentMethod s, pg_payment s) of
        (Some m, Some p) \<Rightarrow> getCryptoIconName (pm_name m)
      | _ \<Rightarrow> ''error'')"

(* src: ui-payment/src/components/DropDown.tsx 4-8 DropDownItem *)
record dropdown_item =
  dd_value :: string
  dd_key :: string
  dd_displayName :: string

(* src: ui-payment/src/pages/PaymentPage.tsx 241-257 genDropDownList *)
definition genDropDownList :: "page \<Rightarrow> dropdown_item list" where
  "genDropDownList s =
     when_ui (pg_payment s = None \<or> pay_method (snd (the (pg_payment s))) = None)
       [\<lparr>dd_value = ''empty value'', dd_key = ''emptyValue'', dd_displayName = ''Select crypto currency''\<rparr>]
     @ map (\<lambda>m. \<lparr>dd_value = pm_ticker m, dd_key = pm_ticker m, dd_displayName = pm_displayName m\<rparr>)
         (availableMethods s)"

(* src: ui-payment/src/pages/PaymentPage.tsx 259-269 getCurDropDownItem *)
definition getCurDropDownItem :: "page \<Rightarrow> dropdown_item option" where
  "getCurDropDownItem s =
     (case pg_payment s of None \<Rightarrow> None
      | Some (n, p) \<Rightarrow> map_option (\<lambda>m. \<lparr>dd_value = pm_ticker m, dd_key = pm_ticker m,
          dd_displayName = pm_displayName m\<rparr>) (pay_method p))"

text \<open>An amount with its ticker, or the raw text when it is no number.\<close>

(* src: ui-payment/src/pages/PaymentPage.tsx 320-325 renderConvertedResult *)
definition amount_display :: "string option \<Rightarrow> string \<Rightarrow> string" where
  "amount_display a ticker =
     or_else (renderConvertedResult a (Some ticker)) (template a @ '' '' @ ticker)"

section \<open>Sections of the page\<close>

definition loading_lines :: "nat \<Rightarrow> 'h ui list" where
  "loading_lines n = replicate n (comp ''LoadingTextIcon'' [(''marginBottom'', ''2'')])
     @ [comp ''LoadingTextIcon'' []]"

(* src: ui-payment/src/pages/PaymentPage.tsx 284-292 LoadingTextIcon *)
definition loading_section :: "page \<Rightarrow> page_handler ui list" where
  "loading_section s = when_ui (pg_payment s = None) (loading_lines 4)"

definition progress_circle :: "payment_info \<Rightarrow> bool \<Rightarrow> 'h ui" where
  "progress_circle i e = comp ''ProgressCircle'' [(''expiresAt'', expiresAt i),
     (''minutesCount'', num_str (expirationDurationMin i)), (''error'', bool_attr e)]"

text \<open>The panels of a locked payment need its payment information and its method.\<close>

definition locked_parts :: "page \<Rightarrow> (payment \<times> payment_info \<times> payment_method) option" where
  "locked_parts s = (case pg_payment s of None \<Rightarrow> None | Some (n, p) \<Rightarrow>
     (case (paymentInfo p, pay_method p) of
        (Some i, Some m) \<Rightarrow> if isLocked p then Some (p, i, m) else None
      | _ \<Rightarrow> None))"

(* src: ui-payment/src/pages/PaymentPage.tsx 294-305 paymentProcessError *)
definition error_section :: "page \<Rightarrow> page_handler ui list" where
  "error_section s = (case locked_parts s of None \<Rightarrow> [] | Some (p, i, m) \<Rightarrow>
     when_ui (paymentProcessError s)
       [progress_circle i True, leaf ''h2'' ''Error occurred while processing your payment.''])"

text \<open>What the customer is asked to send: the remaining amount after a partial payment.\<close>

(* src: ui-payment/src/pages/PaymentPage.tsx 308-316 amountToCopy *)
definition qrValue :: "payment_info \<Rightarrow> string" where
  "qrValue i = (if pi_status i = StPartial \<and> truthy (remainingPaymentLink i)
     then the (remainingPaymentLink i) else pi_paymentLink i)"

(* src: ui-payment/src/pages/PaymentPage.tsx 314-316 amountToCopy *)
definition amountToCopy :: "payment_info \<Rightarrow> string" where
  "amountToCopy i = (if pi_status i = StPartial \<and> truthy (remainingAmount i)
     then the (remainingAmount i) else amountFormatted i)"

(* src: ui-payment/src/pages/PaymentPage.tsx 334-355 isPartial *)
definition status_notice :: "payment_info \<Rightarrow> string \<Rightarrow> page_handler ui list" where
  "status_notice i ticker =
     when_ui (pi_status i = StPartial)
       [wrap ''div''
         [leaf ''p'' ''Partial payment received'',
          wrap ''p'' [Txt ''We received '', leaf ''strong'' (amount_display (receivedAmount i) ticker), Txt ''.''],
          wrap ''p'' [Txt ''Send the remaining '', leaf ''strong'' (amount_display (remainingAmount i) ticker),
            Txt '' to the same address before the timer ends.'']]]
     @ when_ui (pi_status i = StInProgress)
       [wrap ''div''
         [leaf ''p'' ''Payment detected'',
          leaf ''p'' (''Waiting for blockchain confirmation. Do not send again '' @ em_dash
            @ '' this page will update automatically once your payment clears.'')]]"

(* src: ui-payment/src/pages/PaymentPage.tsx 357-366 isPartial *)
definition send_hint :: "payment_info \<Rightarrow> page_handler ui list" where
  "send_hint i =
     [leaf ''h2'' (if pi_status i = StPartial
        then ''Top up the missing amount. Scan the QR or copy the address below.''
        else ''Waiting for payment. Scan the QR code in your app or enter payment information manually''),
      leaf ''h2'' (if pi_status i = StPartial
        then ''Send the remaining amount to the address below.''
        else ''Waiting for payment. Please send required crypto amount to specified address below.'')]"

(* src: ui-payment/src/pages/PaymentPage.tsx 367-383 blockchainName *)
definition network_warning :: "string \<Rightarrow> string \<Rightarrow> page_handler ui" where
  "network_warning ticker chain =
     wrap ''div''
       [wrap ''p'' [Txt ''Send '', Txt ticker, Txt '' on '', Txt chain, Txt '' only''],
        wrap ''p'' [Txt ''This address accepts '', leaf ''strong'' ticker, Txt '' on the'', Txt '' '',
          leaf ''strong'' chain, Txt '' network. Sending '', Txt ticker,
          Txt '' over any other network will permanently lose your funds.'']]"

definition copy_button :: "string \<Rightarrow> string \<Rightarrow> 'h ui" where
  "copy_button t d = comp ''CopyButton'' [(''textToCopy'', t), (''displayText'', d)]"

(* src: ui-payment/src/pages/PaymentPage.tsx 307-421 paymentProcessError *)
definition locked_section :: "page \<Rightarrow> page_handler ui list" where
  "locked_section s = (case locked_parts s of None \<Rightarrow> [] | Some (p, i, m) \<Rightarrow>
     when_ui (\<not> paymentProcessError s)
      (let ticker = pm_displayName m;
           icon = comp ''Icon'' [(''name'', getCryptoIconName (pm_ticker m)), (''dir'', ''crypto'')]
       in [progress_circle i False, leaf ''span'' (or_else (getPrice s) [])]
          @ status_notice i ticker @ send_hint i
          @ [network_warning ticker (pm_blockchainName m),
             wrap ''div'' [comp ''QRCodeSVG'' [(''value'', qrValue i)], icon],
             leaf ''span'' ''or'',
             wrap ''div'' [icon],
             copy_button (recipientAddress i) (recipientAddress i),
             copy_button (amountToCopy i) (amount_display (Some (amountToCopy i)) ticker)]
          @ (case feePercent p of None \<Rightarrow> [] | Some f \<Rightarrow>
               when_ui (positive f)
                 [wrap ''p'' [Txt ''Includes '', Txt (num_str f), Txt ''% volatility fees set by merchant'']])))"

text \<open>The head that several pages share: the merchant and the description.\<close>

(* src: ui-payment/src/pages/PaymentPage.tsx 425-439 merchantName *)
definition merchant_head :: "string \<Rightarrow> string option \<Rightarrow> 'h ui list" where
  "merchant_head name desc =
     [comp ''Icon'' [(''name'', ''store'')],
      El ''span'' [(''className'', if truthy desc then ''mb-1'' else ''mb-5'')] [] [Txt name],
      wrap ''span'' [if truthy desc then Txt (the desc) else leaf ''i'' ''No description provided'']]"

(* src: ui-payment/src/pages/PaymentPage.tsx 454-464 Input *)
definition email_input :: "page \<Rightarrow> page_handler ui" where
  "email_input s = El ''Input''
     [(''id'', ''email''), (''hasConvertedResult'', bool_attr (convertResult s \<noteq> None)),
      (''curValue'', f_email (form s)), (''error'', bool_attr (err_email s)), (''value'', f_email (form s))]
     [(''handleChange'', HChange), (''handleBlur'', HBlurEmail)] []"

(* src: ui-payment/src/pages/PaymentPage.tsx 465-508 termsAccepted *)
definition consent_boxes :: "page \<Rightarrow> page_handler ui list" where
  "consent_boxes s =
     [wrap ''label''
       [El ''input'' [(''type'', ''checkbox''), (''name'', ''marketingConsent''),
          (''checked'', bool_attr (f_marketingConsent (form s)))] [(''onChange'', HChange)] [],
        leaf ''span'' ''I agree to receive marketing communications from CryptoLink''],
      wrap ''label''
       [El ''input'' [(''type'', ''checkbox''), (''name'', ''termsAccepted''),
          (''checked'', bool_attr (f_termsAccepted (form s)))] [(''onChange'', HChangeTerms)] [],
        wrap ''span'' [Txt ''I accept the'', Txt '' '',
          El ''a'' [(''href'', ''https://cryptolink.cc/terms'')] [] [Txt ''Terms of Service''],
          Txt '' '', Txt ''and'', Txt '' '',
          El ''a'' [(''href'', ''https://cryptolink.cc/privacy'')] [] [Txt ''Privacy Policy'']]]]
     @ when_ui (touched_terms s \<and> err_terms s)
        [leaf ''p'' ''You must accept the Terms of Service'']"

definition dropdown_attrs :: "dropdown_item \<Rightarrow> (string \<times> string) list" where
  "dropdown_attrs d = [(''value'', dd_value d), (''key'', dd_key d), (''displayName'', dd_displayName d)]"

(* src: ui-payment/src/pages/PaymentPage.tsx 423-529 handleSubmit *)
definition form_section :: "page \<Rightarrow> page_handler ui list" where
  "form_section s = (case pg_payment s of None \<Rightarrow> [] | Some (n, p) \<Rightarrow>
     when_ui (\<not> isLocked p)
      (merchant_head (pay_merchantName p) (pay_description p)
       @ [El ''form'' [] [(''onSubmit'', HSubmit)]
           ([wrap ''div''
              (when_ui (paymentMethod s \<noteq> None)
                 [comp ''Icon'' [(''name'', getCurCryptoIconName s), (''dir'', ''crypto'')]]
               @ [El ''DropDown'' (case getCurDropDownItem s of None \<Rightarrow> [] | Some d \<Rightarrow> dropdown_attrs d)
                   [(''onChange'', HSelectMethod)]
                   (map (\<lambda>d. comp ''item'' (dropdown_attrs d)) (genDropDownList s))]),
             email_input s]
            @ consent_boxes s
            @ [leaf ''span'' (or_else (getPrice s) []),
               El ''button'' [(''type'', ''submit''),
                   (''className'', if submitButtonDisabled s then ''opacity-50'' else []),
                   (''disabled'', bool_attr (submitButtonDisabled s))] []
                 [Txt ''Next'', comp ''Icon'' [(''name'', ''arrow_right_white'')]]])]))"

(* src: ui-payment/src/pages/PaymentPage.tsx 282-531 return *)
definition payment_view :: "page \<Rightarrow> page_handler ui" where
  "payment_view s = wrap ''div''
     (loading_section s @ error_section s @ locked_section s @ form_section s)"

section \<open>Lemmas\<close>

lemma progress_tags [simp]: "ui_tags (progress_circle i e) = [''ProgressCircle'']"
  by (simp add: progress_circle_def)

lemma split_underscore: "str_includes s ''_'' \<Longrightarrow> 1 < length (split_on CHR ''_'' s)"
  using count_list_0_iff [of s "CHR ''_''"] by (simp add: includes_single length_split_on)

lemma locked_parts_Some:
  "locked_parts s = Some (p, i, m) \<longleftrightarrow>
     (\<exists>n. pg_payment s = Some (n, p)) \<and> isLocked p \<and> paymentInfo p = Some i \<and> pay_method p = Some m"
  by (auto simp: locked_parts_def split: option.splits)

lemma section_empty:
  "loading_section s = [] \<longleftrightarrow> pg_payment s \<noteq> None"
  "\<not> paymentProcessError s \<Longrightarrow> error_section s = []"
  "locked_section s = [] \<longleftrightarrow> paymentProcessError s \<or> locked_parts s = None"
  "form_section s = [] \<longleftrightarrow> (\<forall>n p. pg_payment s = Some (n, p) \<longrightarrow> isLocked p)"
proof -
  show "loading_section s = [] \<longleftrightarrow> pg_payment s \<noteq> None"
    by (simp add: loading_section_def loading_lines_def)
  show "error_section s = []" if "\<not> paymentProcessError s"
    using that by (simp add: error_section_def split: option.split)
  show "locked_section s = [] \<longleftrightarrow> paymentProcessError s \<or> locked_parts s = None"
    by (simp add: locked_section_def Let_def split: option.split)
  show "form_section s = [] \<longleftrightarrow> (\<forall>n p. pg_payment s = Some (n, p) \<longrightarrow> isLocked p)"
  proof (cases "pg_payment s")
    case (Some r)
    then show ?thesis by (cases r) (simp add: form_section_def)
  qed (simp add: form_section_def)
qed

section \<open>Properties\<close>

text \<open>The panel "Error occurred while processing your payment" is dead code: in every run of the
  page the flag that shows it stays false, so a failure is only ever shown by the error page.\<close>

lemma error_panel_dead:
  assumes "areach (payment_page ve) page_start w"
  shows "error_section (wst w) = []"
  using page_reachable_ok [OF assms]
  by (simp add: ok_world_def page_inv_def error_section_def split: option.split prod.split)

lemma error_panel_dead_example:
  "\<exists>w. areach (payment_page (\<lambda>_. True)) page_start w \<and> error_section (wst w) = []"
proof -
  have r: "areach (payment_page (\<lambda>_. True)) page_start
      (initial (payment_page (\<lambda>_. True)) (fresh_page (Some (0, sample_payment True StPending))))"
    by (rule areach.start) (auto simp: page_start_def)
  show ?thesis using error_panel_dead [OF r] r by blast
qed

text \<open>What the page asks a customer to send. For a locked payment it shows the network warning
  with the method's display name and network, offers the recipient address for copying, and asks
  for the remaining amount exactly after a partial payment whose remainder is known, for the full
  amount otherwise; the QR code follows its own link and asks for the full amount when a remainder
  comes without a link.\<close>

lemma locked_view_asks:
  assumes "pg_payment s = Some (n, p)" "isLocked p" "paymentInfo p = Some i" "pay_method p = Some m"
    and "\<not> paymentProcessError s"
  shows "network_warning (pm_displayName m) (pm_blockchainName m) \<in> set (locked_section s)
    \<and> copy_button (recipientAddress i) (recipientAddress i) \<in> set (locked_section s)
    \<and> (\<exists>d. copy_button (amountToCopy i) d \<in> set (locked_section s))
    \<and> (\<exists>icon. wrap ''div'' [comp ''QRCodeSVG'' [(''value'', qrValue i)], icon] \<in> set (locked_section s))
    \<and> (amountToCopy i = (if pi_status i = StPartial \<and> remainingAmount i \<notin> {None, Some []}
         then the (remainingAmount i) else amountFormatted i))
    \<and> (remainingPaymentLink i \<in> {None, Some []} \<longrightarrow> qrValue i = pi_paymentLink i)"
proof -
  have "locked_parts s = Some (p, i, m)" using assms by (auto simp: locked_parts_Some)
  then show ?thesis
    using assms(5) by (auto simp: locked_section_def Let_def amountToCopy_def qrValue_def truthy_iff
        copy_button_def)
qed

lemma locked_view_asks_example:
  "qrValue ((sample_info StPartial)\<lparr>remainingAmount := Some ''0.0005''\<rparr>) = ''ethereum:0xabc''
   \<and> amountToCopy ((sample_info StPartial)\<lparr>remainingAmount := Some ''0.0005''\<rparr>) = ''0.0005''"
proof -
  let ?i = "(sample_info StPartial)\<lparr>remainingAmount := Some ''0.0005''\<rparr>"
  let ?p = "(sample_payment True StPartial)\<lparr>paymentInfo := Some ?i,
      pay_method := Some (sample_method ''ETH'' ''ETH'')\<rparr>"
  show ?thesis
    using locked_view_asks [of "fresh_page (Some (0, ?p))" 0 ?p ?i "sample_method ''ETH'' ''ETH''"]
    by (simp add: fresh_page_def sample_payment_def sample_info_def)
qed

text \<open>What is on the screen, when the error flag is down: the placeholder exactly while there is
  no payment, the instructions exactly for a locked payment with information and method, the form
  exactly for an open payment; so the page is empty exactly for a locked payment that lacks its
  information or its method.\<close>

lemma view_sections:
  assumes "\<not> paymentProcessError s"
  shows "(loading_section s \<noteq> [] \<longleftrightarrow> pg_payment s = None)
    \<and> (locked_section s \<noteq> [] \<longleftrightarrow> locked_parts s \<noteq> None)
    \<and> (form_section s \<noteq> [] \<longleftrightarrow> (\<exists>n p. pg_payment s = Some (n, p) \<and> \<not> isLocked p))
    \<and> (payment_view s = wrap ''div'' [] \<longleftrightarrow>
         (\<exists>n p. pg_payment s = Some (n, p) \<and> isLocked p \<and> (paymentInfo p = None \<or> pay_method p = None)))"
  using assms
  by (auto simp: payment_view_def section_empty locked_parts_def split: option.splits)

lemma view_sections_example:
  "payment_view (fresh_page (Some (0, sample_payment True StPending))) = wrap ''div'' []"
  using view_sections [of "fresh_page (Some (0, sample_payment True StPending))"]
  by (simp add: fresh_page_def sample_payment_def)

text \<open>The icon of a currency never reads past the parts of its ticker: a ticker with an
  underscore names the icon of its token, without the network, in lower case.\<close>

lemma icon_of_token:
  assumes "CHR ''_'' \<notin> set (to_lower net)" and "CHR ''_'' \<notin> set (to_lower tok)"
  shows "getCryptoIconName (net @ ''_'' @ tok) = to_lower tok
    \<and> getCryptoIconName tok = to_lower tok"
proof -
  have "to_lower (net @ ''_'' @ tok) = to_lower net @ CHR ''_'' # to_lower tok"
    by (simp add: to_lower_def lower_char_def)
  moreover have "str_includes (to_lower net @ CHR ''_'' # to_lower tok) ''_''"
    by (simp add: includes_single)
  ultimately show ?thesis
    using assms by (simp add: getCryptoIconName_def Let_def split_on_append_sep split_on_no_sep
        includes_single)
qed

lemma icon_of_token_example: "getCryptoIconName ''ARBITRUM_USDT'' = ''usdt''"
proof -
  have "CHR ''_'' \<notin> set (to_lower ''ARBITRUM'')" "CHR ''_'' \<notin> set (to_lower ''USDT'')"
      "to_lower ''USDT'' = ''usdt''"
    by code_simp+
  then show ?thesis using icon_of_token [of "''ARBITRUM''" "''USDT''"] by simp
qed

end
