(* ===== verification/Payment_Parts.thy ===== *)
theory Payment_Parts
  imports Payment_View
begin

text \<open>
  The components that the payment page is made of (ui-payment/src/components/): the countdown, the
  icon with its cache, the drop-down list, the copy button, the email input and the error alert, and
  the small hooks and providers beside them. A component's state is a record or a value, and each
  handler or effect a function on it.
\<close>

section \<open>ProgressCircle.tsx\<close>

text \<open>The time left in milliseconds; \<open>None\<close> is the \<open>NaN\<close> that \<open>Date.parse\<close>
  gives for a text that is no date. The remainder of JavaScript has the sign of the dividend.\<close>

definition js_rem :: "int \<Rightarrow> int \<Rightarrow> int" where
  "js_rem a b = sgn a * (\<bar>a\<bar> mod \<bar>b\<bar>)"

definition int_text :: "int option \<Rightarrow> string" where
  "int_text v = (case v of None \<Rightarrow> ''NaN'' | Some i \<Rightarrow> show_int i)"

(* src: ui-payment/src/components/ProgressCircle.tsx 40-46 addZerosToNumber *)
definition addZerosToNumber :: "int option \<Rightarrow> string" where
  "addZerosToNumber v =
     (if (case v of None \<Rightarrow> False | Some i \<Rightarrow> i \<le> 0) then ''00''
      else slice_from (''0'' @ int_text v) (- 2))"

(* src: ui-payment/src/components/ProgressCircle.tsx 48-57 getAvailableTimeString *)
definition getAvailableTimeString :: "int option \<Rightarrow> string \<times> bool" where
  "getAvailableTimeString availableTime =
     (let minutesCount = map_option (\<lambda>t. js_rem (t div 60000) 60) availableTime;
          secondsCount = map_option (\<lambda>t. js_rem (t div 1000) 60) availableTime
      in (addZerosToNumber minutesCount @ '':'' @ addZerosToNumber secondsCount,
          (case (minutesCount, secondsCount) of
             (Some m, Some s) \<Rightarrow> m < 0 \<and> s < 0 | _ \<Rightarrow> False)))"

text \<open>One tick: the new time, and whether another tick is due in a second.\<close>

(* src: ui-payment/src/components/ProgressCircle.tsx 17-24 updateAvailableTime *)
definition updateAvailableTime :: "int option \<Rightarrow> int \<Rightarrow> int option \<times> bool" where
  "updateAvailableTime expires now =
     (let t = map_option (\<lambda>e. e - now) expires
      in (t, (case t of None \<Rightarrow> False | Some x \<Rightarrow> 0 < x)))"

text \<open>Mounting runs the first tick, then the effect on the error flag puts the time back to zero.\<close>

(* src: ui-payment/src/components/ProgressCircle.tsx 26-40 useMount *)
definition circle_mount :: "int option \<Rightarrow> int \<Rightarrow> int option \<times> bool" where
  "circle_mount expires now = (Some 0, snd (updateAvailableTime expires now))"

lemma addZeros_pos:
  assumes "0 \<le> n" "n < 60"
  shows "addZerosToNumber (Some n) = [digit_char (nat n div 10), digit_char (nat n mod 10)]"
proof (cases "n < 10")
  case True
  have "show_nat (nat n) = [digit_char (nat n)]" using True by (simp add: show_nat_small)
  moreover have "''00'' = [digit_char 0, digit_char 0]" "''0'' = [digit_char 0]"
    by (simp_all add: digit_char_def)
  ultimately show ?thesis
    using assms True by (auto simp: addZerosToNumber_def int_text_def show_int_def slice_from_neg)
next
  case False
  then have "show_nat (nat n) = [digit_char (nat n div 10), digit_char (nat n mod 10)]"
    using assms by (simp add: show_nat_large show_nat_small)
  then show ?thesis
    using assms False by (simp add: addZerosToNumber_def int_text_def show_int_def slice_from_neg)
qed

lemma js_rem_nonneg: "0 \<le> a \<Longrightarrow> js_rem a 60 = a mod 60"
  by (cases "a = 0") (auto simp: js_rem_def)

definition two_digits :: "int \<Rightarrow> string" where
  "two_digits n = [digit_char (nat n div 10), digit_char (nat n mod 10)]"

lemma time_string:
  assumes "0 \<le> t"
  shows "getAvailableTimeString (Some t) =
    (two_digits (t div 60000 mod 60) @ '':'' @ two_digits (t div 1000 mod 60), False)"
  using assms
  by (simp add: getAvailableTimeString_def js_rem_nonneg pos_imp_zdiv_nonneg_iff addZeros_pos
      two_digits_def)

section \<open>Icon.tsx\<close>

text \<open>The cache of the module: the file that was loaded for a name. The component remembers only
  that it has loaded.\<close>

type_synonym icon_cache = "string \<Rightarrow> string option"

(* src: ui-payment/src/components/Icon.tsx 12-13 Icon *)
definition icon_mount :: "icon_cache \<Rightarrow> string \<Rightarrow> bool" where
  "icon_mount cache name = (cache name \<noteq> None)"

(* src: ui-payment/src/components/Icon.tsx 14-16 loadIcon *)
definition icon_path :: "string option \<Rightarrow> string \<Rightarrow> string" where
  "icon_path dir name = (if truthy dir then the dir @ ''/'' @ name else name)"

text \<open>The effect on the name: the file to load, if any; and the file's arrival.\<close>

(* src: ui-payment/src/components/Icon.tsx 20-28 useEffect *)
definition icon_effect :: "bool \<Rightarrow> string option \<Rightarrow> string \<Rightarrow> string option" where
  "icon_effect loaded dir name = (if \<not> loaded then Some (icon_path dir name) else None)"

(* src: ui-payment/src/components/Icon.tsx 14-18 loadIcon *)
definition icon_loaded :: "icon_cache \<Rightarrow> string \<Rightarrow> string \<Rightarrow> icon_cache \<times> bool" where
  "icon_loaded cache name path = (cache(name \<mapsto> path), True)"

(* src: ui-payment/src/components/Icon.tsx 30-35 CurrentIcon *)
definition icon_view :: "icon_cache \<Rightarrow> bool \<Rightarrow> string \<Rightarrow> 'h ui" where
  "icon_view cache loaded name =
     (case cache name of
        Some path \<Rightarrow> if loaded then comp path [] else comp ''LoadingCircleIcon'' [(''position'', ''left'')]
      | None \<Rightarrow> comp ''LoadingCircleIcon'' [(''position'', ''left'')])"

section \<open>DropDown.tsx\<close>

record dropdown =
  isFocused :: bool
  selectedItem :: dropdown_item

text \<open>\<open>props.firstSelectedItem || props.items[0]\<close>, which the component reads without a check.\<close>

(* src: ui-payment/src/components/DropDown.tsx 17-19 selectedItem *)
definition dropdown_first :: "dropdown_item option \<Rightarrow> dropdown_item list \<Rightarrow> dropdown_item option" where
  "dropdown_first first items = (case first of Some d \<Rightarrow> Some d | None \<Rightarrow> elem_at items 0)"

text \<open>The effect on the selected item: the value to report and the closed list.\<close>

(* src: ui-payment/src/components/DropDown.tsx 21-27 useEffect *)
definition dropdown_effect :: "dropdown \<Rightarrow> dropdown \<times> string option" where
  "dropdown_effect d = (d\<lparr>isFocused := False\<rparr>,
     (if dd_key (selectedItem d) \<noteq> ''emptyValue'' then Some (dd_value (selectedItem d)) else None))"

text \<open>A click on an item is a click on the button around it as well.\<close>

(* src: ui-payment/src/components/DropDown.tsx 37-70 onClick *)
definition dropdown_pick :: "dropdown_item \<Rightarrow> dropdown \<Rightarrow> dropdown \<times> string option" where
  "dropdown_pick child d =
     dropdown_effect (d\<lparr>selectedItem := child, isFocused := \<not> isFocused d\<rparr>)"

(* src: ui-payment/src/components/DropDown.tsx 29-33 checkOutsideClick *)
definition checkOutsideClick :: "bool \<Rightarrow> dropdown \<Rightarrow> dropdown" where
  "checkOutsideClick same_target d = (if same_target then d\<lparr>isFocused := False\<rparr> else d)"

datatype dropdown_handler = DToggle | DBlur | DPick dropdown_item

definition dd_icon :: "(string \<Rightarrow> string) \<Rightarrow> string option \<Rightarrow> string \<Rightarrow> dropdown_handler ui" where
  "dd_icon getIconName dir v =
     comp ''Icon'' ((''name'', getIconName v) # opt_attr ''dir'' dir)"

(* src: ui-payment/src/components/DropDown.tsx 63-87 selectedItem *)
definition dropdown_li ::
    "(string \<Rightarrow> string) \<Rightarrow> string option \<Rightarrow> dropdown \<Rightarrow> dropdown_item \<Rightarrow> dropdown_handler ui" where
  "dropdown_li getIconName dir d child =
     El ''li''
       [(''className'', (if dd_key child \<noteq> ''emptyValue'' then ''pl-8'' else [])
          @ (if dd_key child = ''emptyValue'' \<and> dd_key (selectedItem d) \<noteq> ''emptyValue''
             then ''hidden'' else [])),
        (''key'', dd_key child)]
       [(''onClick'', DPick child)]
       (leaf ''span'' (dd_displayName child)
        # when_ui (dd_key child \<noteq> ''emptyValue'') [dd_icon getIconName dir (dd_value child)]
        @ when_ui (dd_key (selectedItem d) = dd_key child) [comp ''Icon'' [(''name'', ''ok'')]])"

(* src: ui-payment/src/components/DropDown.tsx 35-93 return *)
definition dropdown_view ::
    "(string \<Rightarrow> string) \<Rightarrow> string option \<Rightarrow> dropdown_item list \<Rightarrow> dropdown \<Rightarrow> dropdown_handler ui" where
  "dropdown_view getIconName dir items d =
     El ''button'' [(''type'', ''button''), (''id'', ''currency_list''),
         (''className'', if dd_key (selectedItem d) \<noteq> ''emptyValue'' then ''pl-12'' else [])]
       [(''onClick'', DToggle), (''onBlur'', DBlur)]
       (leaf ''span'' (dd_displayName (selectedItem d))
        # when_ui (dd_key (selectedItem d) \<noteq> ''emptyValue'')
            [dd_icon getIconName dir (dd_value (selectedItem d))]
        @ when_ui (\<not> isFocused d) [comp ''Icon'' [(''name'', ''arrow_drop_down_down'')]]
        @ when_ui (isFocused d)
            [comp ''Icon'' [(''name'', ''arrow_drop_down_up'')],
             wrap ''ul'' (map (dropdown_li getIconName dir d) items)])"

section \<open>CopyButton.tsx\<close>

(* src: ui-payment/src/components/CopyButton.tsx 30-46 stripAddress *)
definition stripAddress :: "nat option \<Rightarrow> string \<Rightarrow> string option" where
  "stripAddress width displayText = (case width of None \<Rightarrow> None | Some w \<Rightarrow>
     if w = 0 then None
     else if w \<le> 370 then Some (slice displayText 0 10 @ ''...'' @ slice_from displayText (- 10))
     else if 30 < length displayText
       then Some (slice displayText 0 15 @ ''...'' @ slice_from displayText (- 15))
     else Some displayText)"

text \<open>A click writes to the clipboard; when that succeeds the button says so for a second.\<close>

datatype copy_event = CopyDone | CopyFailed | CopyTimeout

(* src: ui-payment/src/components/CopyButton.tsx 14-28 copyToClipboard *)
fun copy_step :: "copy_event \<Rightarrow> bool \<Rightarrow> bool" where
  "copy_step CopyDone copied = True"
| "copy_step CopyFailed copied = copied"
| "copy_step CopyTimeout copied = False"

(* src: ui-payment/src/components/CopyButton.tsx 48-65 strippedAddress *)
definition copy_view :: "nat option \<Rightarrow> string \<Rightarrow> bool \<Rightarrow> unit ui" where
  "copy_view width displayText copied =
     El ''button''
       [(''className'', if copied then ''bg-main-green-3 text-center'' else []),
        (''disabled'', bool_attr (\<not> truthy (stripAddress width displayText)))]
       [(''onClick'', ())]
       [comp ''Icon'' [(''name'', ''copy_smth'')],
        Txt (if copied then ''Copied'' else or_else (stripAddress width displayText) [])]"

section \<open>Input.tsx\<close>

text \<open>The error that is shown follows the error of the form after 700 ms without a change: a change
  of the value or of the error restarts the timer.\<close>

record email_input_state =
  shownError :: bool
  errTimer :: "bool option"

(* src: ui-payment/src/components/Input.tsx 16-20 useEffect *)
definition input_changed :: "bool \<Rightarrow> email_input_state \<Rightarrow> email_input_state" where
  "input_changed err s = s\<lparr>errTimer := Some err\<rparr>"

(* src: ui-payment/src/components/Input.tsx 14-17 changeError *)
definition input_timeout :: "email_input_state \<Rightarrow> email_input_state" where
  "input_timeout s = (case errTimer s of None \<Rightarrow> s
     | Some e \<Rightarrow> s\<lparr>shownError := e, errTimer := None\<rparr>)"

(* src: ui-payment/src/components/Input.tsx 22-51 return *)
definition input_view :: "email_input_state \<Rightarrow> string \<Rightarrow> string \<Rightarrow> page_handler ui" where
  "input_view s curValue v = wrap ''div''
     (El ''input''
        [(''className'', (if shownError s then ''border-main-error'' else [])
           @ (if \<not> shownError s \<and> curValue \<noteq> [] then ''border-main-green-1'' else [])),
         (''id'', ''email''), (''type'', ''email''), (''placeholder'', ''Email''), (''value'', v)]
        [(''onChange'', HChange), (''onBlur'', HBlurEmail)] []
      # when_ui (\<not> shownError s \<and> curValue \<noteq> []) [comp ''Icon'' [(''name'', ''ok'')]]
      @ (if shownError s
         then [comp ''Icon'' [(''name'', ''red_cross'')], leaf ''span'' ''Invalid E-mail provided'']
         else []))"

section \<open>ErrorAlert.tsx\<close>

text \<open>The alert is one root for the whole page: what it shows and when it will be cleared.\<close>

record alert =
  alertText :: "string option"
  alertUntil :: "nat option"

(* src: ui-payment/src/components/ErrorAlert.tsx 12-16 errorDescription *)
definition alert_description :: "string \<Rightarrow> string option \<Rightarrow> string" where
  "alert_description support errorText =
     (if truthy errorText then the errorText else ''Please contact the support at '' @ support)"

(* src: ui-payment/src/components/ErrorAlert.tsx 36-41 RenderErrorAlert *)
definition RenderErrorAlert :: "string \<Rightarrow> nat \<Rightarrow> string option \<Rightarrow> alert \<Rightarrow> alert" where
  "RenderErrorAlert support now errorText a =
     a\<lparr>alertText := Some (alert_description support errorText), alertUntil := Some (now + 10000)\<rparr>"

(* src: ui-payment/src/components/ErrorAlert.tsx 40-40 render *)
definition alert_tick :: "nat \<Rightarrow> alert \<Rightarrow> alert" where
  "alert_tick now a = (if alertUntil a = Some now then a\<lparr>alertText := None, alertUntil := None\<rparr> else a)"

(* src: ui-payment/src/components/ErrorAlert.tsx 18-33 return *)
definition alert_view :: "alert \<Rightarrow> unit ui list" where
  "alert_view a = (case alertText a of None \<Rightarrow> []
     | Some t \<Rightarrow> [wrap ''div'' [leaf ''span'' ''Something went wrong'', leaf ''span'' t]])"

section \<open>Providers and hooks\<close>

(* src: ui-payment/src/providers/toggles.ts 11-13 castBool *)
definition castBool :: "string \<Rightarrow> bool" where
  "castBool v = (to_lower v \<in> {''true'', ''t'', ''1'', ''yes''})"

(* src: ui-payment/src/providers/toggles.ts 1-9 toggled *)
definition toggled :: "string option \<Rightarrow> string \<Rightarrow> bool" where
  "toggled show_branding key =
     (key = ''show_branding'' \<and> castBool (case show_branding of None \<Rightarrow> [] | Some v \<Rightarrow> v))"

(* src: ui-payment/src/main.tsx 17-29 determineBasename *)
definition determineBasename :: "string \<Rightarrow> string" where
  "determineBasename rootPath =
     (if rootPath = [] \<or> rootPath = ''/'' then ''/''
      else if ends_with rootPath ''/'' then slice rootPath 0 (-1)
      else rootPath)"

text \<open>The window size is unknown until the first effect has read it.\<close>

(* src: ui-payment/src/hooks/useWindowSize.ts 8-27 useWindowSize *)
definition handleResize :: "nat \<Rightarrow> nat \<Rightarrow> (nat option \<times> nat option) \<Rightarrow> nat option \<times> nat option" where
  "handleResize innerWidth innerHeight old = (Some innerWidth, Some innerHeight)"

section \<open>Properties\<close>

text \<open>The countdown loses the hours: for every time left the text is the minutes within the hour
  and the seconds within the minute, two digits each, so a payment that expires in a day reads the
  same as one that expires at once.\<close>

lemma countdown_text:
  assumes "0 \<le> t"
  shows "fst (getAvailableTimeString (Some t)) = two_digits (t div 60000 mod 60) @ '':'' @ two_digits (t div 1000 mod 60)
    \<and> fst (getAvailableTimeString (Some (t + 3600000))) = fst (getAvailableTimeString (Some t))"
proof -
  have "(t + 3600000) div 60000 = t div 60000 + 60" "(t + 3600000) div 1000 = t div 1000 + 3600"
    using div_mult_self1 [of 60000 t 60] div_mult_self1 [of 1000 t 3600] by simp_all
  moreover have "(x + 60) mod 60 = x mod 60" "(x + 3600) mod 60 = x mod 60" for x :: int
    using mod_mult_self1 [of x 60 60] by simp_all
  moreover have "0 \<le> t + 3600000" using assms by simp
  ultimately show ?thesis unfolding time_string [OF assms] time_string [OF \<open>0 \<le> t + 3600000\<close>] by (simp only: fst_conv simp_thms)
qed

lemma countdown_text_example:
  "fst (getAvailableTimeString (Some (86400000 - 1000))) = ''59:59''"
  using countdown_text [of "86400000 - 1000"] by (simp add: two_digits_def digit_char_def)

text \<open>On a narrow screen the copy button garbles short texts: where a long address keeps its
  first and last ten characters, an amount of at most ten characters is shown twice.\<close>

lemma narrow_copy_text:
  assumes "0 < w" "w \<le> 370"
  shows "(length d \<le> 10 \<longrightarrow> stripAddress (Some w) d = Some (d @ ''...'' @ d))
    \<and> (20 < length d \<longrightarrow> stripAddress (Some w) d = Some (take 10 d @ ''...'' @ drop (length d - 10) d))"
  using assms by (simp add: stripAddress_def slice_0 slice_from_neg)

lemma narrow_copy_text_example: "stripAddress (Some 360) ''0.05 ETH'' = Some ''0.05 ETH...0.05 ETH''"
  using narrow_copy_text [of 360 "''0.05 ETH''"] by simp

text \<open>The drop-down list of the payment page always has a selected item to read: when the payment
  has no method the list begins with the empty choice, otherwise the method itself is selected.\<close>

lemma dropdown_has_item:
  "\<exists>d. dropdown_first (getCurDropDownItem s) (genDropDownList s) = Some d
    \<and> (snd (dropdown_effect \<lparr>isFocused = b, selectedItem = d\<rparr>) = None
       \<or> (\<exists>n p m. pg_payment s = Some (n, p) \<and> pay_method p = Some m
            \<and> snd (dropdown_effect \<lparr>isFocused = b, selectedItem = d\<rparr>) = Some (pm_ticker m)))"
proof (cases "getCurDropDownItem s")
  case None
  then have "pg_payment s = None \<or> pay_method (snd (the (pg_payment s))) = None"
    by (auto simp: getCurDropDownItem_def split: option.splits)
  then have "dropdown_first (getCurDropDownItem s) (genDropDownList s)
      = Some \<lparr>dd_value = ''empty value'', dd_key = ''emptyValue'', dd_displayName = ''Select crypto currency''\<rparr>"
    using None by (auto simp: dropdown_first_def genDropDownList_def elem_at_def)
  then show ?thesis by (simp add: dropdown_effect_def)
next
  case (Some d)
  then obtain n p m where m: "pg_payment s = Some (n, p)" "pay_method p = Some m" "dd_value d = pm_ticker m"
    by (auto simp: getCurDropDownItem_def split: option.splits)
  then show ?thesis using Some by (auto simp: dropdown_first_def dropdown_effect_def)
qed

end
