(* ===== verification/Payment_App.thy ===== *)
theory Payment_App
  imports Payment_Parts
begin

text \<open>
  The payment application around the payment page (ui-payment/src/App.tsx and the other pages of
  ui-payment/src/pages/): how it loads a payment or a payment link, the routes, and the pages that
  show an outcome. A page that is entered with a payment in the navigation state shows it, and
  without one sends the visitor to the not-found page.
\<close>

section \<open>Routes\<close>

text \<open>The identifier is what follows the last slash of the path, when that is not empty.\<close>

(* src: ui-payment/src/App.tsx 24-24 id *)
definition path_id :: "string \<Rightarrow> string option" where
  "path_id path =
     (let parts = split_on CHR ''/'' path
      in if 1 < length parts \<and> last parts \<noteq> [] then Some (last parts) else None)"

datatype route = NotFoundPage | SuccessPage | UnderpaidPage | PaymentPage | ErrorPage | SupportPage
  | LinkPage

text \<open>The table of routes on the parts of a path after the first slash.\<close>

(* src: ui-payment/src/App.tsx 94-103 Routes *)
fun route_of :: "string list \<Rightarrow> route" where
  "route_of [seg, i] =
     (if i = [] then if seg = ''support'' then SupportPage else NotFoundPage
      else if seg = ''not-found'' then NotFoundPage
      else if seg = ''success'' then SuccessPage
      else if seg = ''underpaid'' then UnderpaidPage
      else if seg = ''pay'' then PaymentPage
      else if seg = ''error'' then ErrorPage
      else if seg = ''link'' then LinkPage
      else NotFoundPage)"
| "route_of [seg] = (if seg = ''support'' then SupportPage else NotFoundPage)"
| "route_of _ = NotFoundPage"

section \<open>App.tsx\<close>

(* src: ui-payment/src/App.tsx 21-27 App *)
record app_state =
  app_payment :: "payment option"
  app_link :: "payment_link option"
  app_title :: "string option"

text \<open>A navigation with the payment of its state; the path the application was opened on is an
  argument of the model.\<close>

datatype app_effect = AppGoto string "payment option"

datatype app_cont = CsrfReply | AppPaymentReply string "payment option" | AppLinkReply

datatype app_answer = RVoid | RAppPayment payment | RAppLink payment_link

type_synonym app_outcome = "(app_state, pay_request, app_cont, app_effect) outcome"

text \<open>The closure of the mounting render carries the payment of that render.\<close>

(* src: ui-payment/src/App.tsx 29-34 getPayment *)
definition app_getPayment :: "string option \<Rightarrow> payment option \<Rightarrow> app_state \<Rightarrow> app_outcome" where
  "app_getPayment i captured s = (case i of None \<Rightarrow> idle s
     | Some x \<Rightarrow> if x = [] \<or> x = ''not-found'' then idle s
         else (s, [Await (GetPayment x) (AppPaymentReply x captured)]))"

(* src: ui-payment/src/App.tsx 45-50 getPaymentLink *)
definition app_getPaymentLink :: "string option \<Rightarrow> app_state \<Rightarrow> app_outcome" where
  "app_getPaymentLink i s = (case i of None \<Rightarrow> idle s
     | Some x \<Rightarrow> if x = [] \<or> x = ''not-found'' then idle s
         else (s, [Await (GetPaymentLink x) AppLinkReply]))"

(* src: ui-payment/src/App.tsx 57-59 useMount *)
definition app_mount :: "app_state \<Rightarrow> app_outcome" where
  "app_mount s = (s, [Await GetCSRFCookie CsrfReply])"

(* src: ui-payment/src/App.tsx 33-69 useMount *)
fun app_resume :: "string \<Rightarrow> app_cont \<Rightarrow> (app_answer, string) reply \<Rightarrow> app_state \<Rightarrow> app_outcome" where
  "app_resume path CsrfReply (Resolved x) s =
     (if starts_with path ''/link/'' then app_getPaymentLink (path_id path) s
      else app_getPayment (path_id path) None s)"
| "app_resume path CsrfReply (Rejected e) s = idle s"
| "app_resume path (AppPaymentReply i captured) (Resolved (RAppPayment p)) s =
     (s\<lparr>app_payment := Some p\<rparr>, [])"
| "app_resume path (AppPaymentReply i captured) (Rejected e) s =
     (s, [Emit (AppGoto (''/error/'' @ i) captured)])"
| "app_resume path AppLinkReply (Resolved (RAppLink l)) s = (s\<lparr>app_link := Some l\<rparr>, [])"
| "app_resume path AppLinkReply (Rejected e) s = (s, [Emit (AppGoto ''/not-found'' None)])"
| "app_resume path _ _ s = idle s"

text \<open>The title of the document follows the payment and the link.\<close>

(* src: ui-payment/src/App.tsx 71-81 useEffect *)
definition app_titles :: "app_state \<Rightarrow> app_state \<Rightarrow> app_outcome" where
  "app_titles old s =
     (let s1 = (if app_payment s = app_payment old then s
                else case app_payment s of None \<Rightarrow> s
                  | Some p \<Rightarrow> s\<lparr>app_title := Some (''CryptoLink Payment: '' @ pay_merchantName p)\<rparr>)
      in (if app_link s = app_link old then s1
          else case app_link s of None \<Rightarrow> s1
            | Some l \<Rightarrow> s1\<lparr>app_title := Some (''CryptoLink Payment Link: '' @ pl_merchantName l)\<rparr>, []))"

fun app_fits :: "pay_request \<Rightarrow> (app_answer, string) reply \<Rightarrow> bool" where
  "app_fits q (Rejected e) = True"
| "app_fits GetCSRFCookie (Resolved RVoid) = True"
| "app_fits (GetPayment i) (Resolved (RAppPayment p)) = True"
| "app_fits (GetPaymentLink i) (Resolved (RAppLink l)) = True"
| "app_fits _ _ = False"

text \<open>The pages below the application share its payment: they set it.\<close>

definition app_component where
  "app_component path = \<lparr>c_mount = app_mount,
     c_event = (\<lambda>p s. (s\<lparr>app_payment := Some p\<rparr>, [])),
     c_resume = app_resume path, c_timer = (\<lambda>k s. idle s), c_effect = app_titles,
     c_fits = app_fits\<rparr>"

definition app_start :: "app_state \<Rightarrow> bool" where
  "app_start s \<longleftrightarrow> s = \<lparr>app_payment = None, app_link = None, app_title = None\<rparr>"

section \<open>Pages with an outcome\<close>

text \<open>Entering a page: the payment it keeps, or where it navigates.\<close>

(* src: ui-payment/src/pages/ErrorPage.tsx 16-22 useEffect *)
definition enter_page :: "payment option \<Rightarrow> payment option \<times> string option" where
  "enter_page state = (case state of Some p \<Rightarrow> (Some p, None) | None \<Rightarrow> (None, Some ''/not-found''))"

datatype outcome_handler = HSupport | HShowMessage | HCreate

(* src: ui-payment/src/pages/ErrorPage.tsx 24-79 return *)
definition error_view :: "payment option \<Rightarrow> outcome_handler ui list" where
  "error_view payment =
     when_ui (payment = None) (loading_lines 2)
     @ (case payment of None \<Rightarrow> [] | Some p \<Rightarrow>
          merchant_head (pay_merchantName p) (pay_description p)
          @ [comp ''Icon'' [(''name'', ''error'')],
             wrap ''span'' [Txt ''Something went '', comp ''br'' [], Txt '' wrong''],
             wrap ''span'' [Txt ''Payment ID '', comp ''br'' [], Txt '' '', Txt (pay_id p)],
             El ''button'' [] [(''onClick'', HSupport)]
               [Txt ''Contact Support'', comp ''Icon'' [(''name'', ''arrow_right_black'')]]])"

text \<open>The success page with its message switch.\<close>

(* src: ui-payment/src/pages/SuccessPage.tsx 28-34 showMerchantMsg *)
definition showMerchantMsg :: "payment option \<Rightarrow> bool \<Rightarrow> bool" where
  "showMerchantMsg payment visible =
     (case Option.bind payment paymentInfo of None \<Rightarrow> visible
      | Some i \<Rightarrow> if truthy (successMessage i) then True else visible)"

(* src: ui-payment/src/pages/SuccessPage.tsx 36-37 successLink *)
definition successLink :: "payment option \<Rightarrow> string" where
  "successLink payment = or_else (Option.bind (Option.bind payment paymentInfo) successUrl) ''#''"

(* src: ui-payment/src/pages/SuccessPage.tsx 53-90 payment *)
definition success_receipt :: "payment \<Rightarrow> payment_info \<Rightarrow> payment_method \<Rightarrow> outcome_handler ui list" where
  "success_receipt p i m =
     merchant_head (pay_merchantName p) (pay_description p)
     @ [wrap ''div''
         [leaf ''span'' ''Payment successful!'',
          leaf ''span'' (or_else (renderCurrency (Some (pay_currency p)) (Some (pay_price p))) []),
          leaf ''span'' (or_else (renderConvertedResult (Some (amountFormatted i)) (Some (pm_ticker m)))
            ''loading..'')]]"

(* src: ui-payment/src/pages/SuccessPage.tsx 43-141 return *)
definition success_view :: "payment option \<Rightarrow> bool \<Rightarrow> outcome_handler ui list" where
  "success_view payment visible =
     when_ui (payment = None) (loading_lines 2)
     @ (case payment of None \<Rightarrow> [] | Some p \<Rightarrow>
          (case (pay_customer p, paymentInfo p, pay_method p) of
             (Some c, Some i, Some m) \<Rightarrow> when_ui (\<not> visible) (success_receipt p i m)
           | _ \<Rightarrow> [])
          @ (case paymentInfo p of None \<Rightarrow> [] | Some i \<Rightarrow>
               (case successAction i of None \<Rightarrow> [] | Some a \<Rightarrow>
                  when_ui (\<not> visible)
                    [if a = Redirect
                     then El ''a'' [(''href'', successLink payment)] []
                       [Txt ''Back to site'', comp ''Icon'' [(''name'', ''arrow_right_white'')]]
                     else El ''button'' [] [(''onClick'', HShowMessage)]
                       [Txt ''See message'', comp ''Icon'' [(''name'', ''arrow_right_white'')]]])
               @ when_ui (visible \<and> truthy (successMessage i))
                   [comp ''Icon'' [(''name'', ''store'')],
                    El ''span'' [(''className'', if truthy (pay_description p) then ''mb-1'' else ''mb-5'')] []
                      [Txt ''Message from '', comp ''br'' [], Txt '' '', Txt (pay_merchantName p), Txt '':''],
                    leaf ''span'' (the (successMessage i))]))"

text \<open>The amounts of an underpaid invoice: required, received and remaining, with the link to pay the rest.\<close>

(* src: ui-payment/src/pages/UnderpaidPage.tsx 27-43 remainingAmount *)
definition underpaid_amounts :: "payment_info \<Rightarrow> string \<Rightarrow> string \<times> string \<times> string" where
  "underpaid_amounts i ticker =
     (let received = or_else (or_opt (receivedAmount i) (factAmountFormatted i)) ''0'';
          remaining = or_else (remainingAmount i) []
      in (amount_display (Some (amountFormatted i)) ticker,
          amount_display (Some received) ticker,
          if remaining \<noteq> [] then amount_display (Some remaining) ticker else []))"

(* src: ui-payment/src/pages/UnderpaidPage.tsx 62-85 remainingDisplay *)
definition underpaid_summary :: "string option \<Rightarrow> string \<Rightarrow> string \<Rightarrow> string \<Rightarrow> outcome_handler ui list" where
  "underpaid_summary fiatPrice required received remaining =
     [wrap ''p'' ([Txt ''Your invoice of '', leaf ''strong'' (or_else fiatPrice []), Txt '' is short by'', Txt '' '']
        @ when_ui (remaining \<noteq> []) [leaf ''strong'' remaining]
        @ [Txt ''. The original 24-hour payment window has expired.'']),
      wrap ''div''
        ([wrap ''div'' [leaf ''span'' ''Required'', leaf ''span'' required],
          wrap ''div'' [leaf ''span'' ''Received'', leaf ''span'' received]]
         @ when_ui (remaining \<noteq> [])
            [wrap ''div'' [leaf ''span'' ''Remaining'', leaf ''span'' remaining]])]"

(* src: ui-payment/src/pages/UnderpaidPage.tsx 87-132 remainingAmount *)
definition underpaid_topup :: "payment_info \<Rightarrow> payment_method \<Rightarrow> string \<Rightarrow> outcome_handler ui list" where
  "underpaid_topup i m remaining =
     (let icon = comp ''Icon'' [(''name'', getCryptoIconName (pm_ticker m)), (''dir'', ''crypto'')];
          link = or_else (remainingPaymentLink i) (pi_paymentLink i);
          amt = or_else (remainingAmount i) []
      in when_ui (amt \<noteq> [])
          [wrap ''div''
            [leaf ''p'' ''Want to complete this invoice?'',
             wrap ''p'' [Txt ''Send the remaining'', Txt '' '', leaf ''strong'' remaining,
               Txt '' to the address below. Because the original window has closed, the merchant must '',
               leaf ''strong'' ''manually approve'', Txt '' '',
               Txt (''your top-up '' @ em_dash @ '' contact them before sending to confirm the rate is still honored.'')]],
           wrap ''div'' [comp ''QRCodeSVG'' [(''value'', link)], icon],
           leaf ''span'' ''or'',
           wrap ''div'' [icon],
           copy_button (recipientAddress i) (recipientAddress i),
           copy_button amt remaining])"

(* src: ui-payment/src/pages/UnderpaidPage.tsx 10-140 UnderpaidPage *)
definition underpaid_view :: "payment option \<Rightarrow> outcome_handler ui list" where
  "underpaid_view payment = (case payment of None \<Rightarrow> [] | Some p \<Rightarrow>
     (case (paymentInfo p, pay_method p) of
        (Some i, Some m) \<Rightarrow>
          (let ticker = pm_displayName m;
               (required, received, remaining) = underpaid_amounts i ticker
           in [comp ''Icon'' [(''name'', ''error'')], leaf ''span'' ''Payment Window Closed'']
              @ underpaid_summary (renderCurrency (Some (pay_currency p)) (Some (pay_price p)))
                  required received remaining
              @ underpaid_topup i m remaining
              @ [leaf ''p'' (''Funds you have already sent are safe at the recipient address. If you need help,''
                  @ '' contact the merchant directly with this invoice URL.'')])
      | _ \<Rightarrow> []))"

section \<open>LinkPage.tsx\<close>

text \<open>Creating a payment from a link: the identifier may be missing from the answer.\<close>

datatype link_cont = CreateReply | LinkPaymentReply

datatype link_answer = RCreated "string option" | RLinkPayment payment

datatype link_effect = LinkGoto string | LinkSetPayment payment

type_synonym link_outcome = "(unit, pay_request, link_cont, link_effect) outcome"

(* src: ui-payment/src/pages/LinkPage.tsx 17-23 createLink *)
definition createLink :: "payment_link option \<Rightarrow> string option \<Rightarrow> link_outcome" where
  "createLink paymentLink i =
     (case (paymentLink, i) of
        (Some l, Some x) \<Rightarrow> if x = [] then idle () else ((), [Await (CreatePaymentFromLink x) CreateReply])
      | _ \<Rightarrow> idle ())"

(* src: ui-payment/src/pages/LinkPage.tsx 22-30 createPaymentFromLink *)
fun link_resume :: "link_cont \<Rightarrow> (link_answer, string) reply \<Rightarrow> unit \<Rightarrow> link_outcome" where
  "link_resume CreateReply (Resolved (RCreated i)) s =
     (s, [Emit (LinkGoto (''/pay/'' @ template i)), Await (GetPayment (template i)) LinkPaymentReply])"
| "link_resume LinkPaymentReply (Resolved (RLinkPayment p)) s = (s, [Emit (LinkSetPayment p)])"
| "link_resume k (Rejected e) s = (s, [Emit (LinkGoto ''/not-found'')])"
| "link_resume _ _ s = idle s"

(* src: ui-payment/src/pages/LinkPage.tsx 32-70 return *)
definition link_view :: "payment_link option \<Rightarrow> outcome_handler ui list" where
  "link_view paymentLink = (case paymentLink of
       Some l \<Rightarrow>
         [wrap ''div''
           (merchant_head (pl_merchantName l) (pl_description l)
            @ [leaf ''span'' (or_else (renderCurrency (Some (pl_currency l)) (Some (pl_price l))) []),
               El ''button'' [] [(''onClick'', HCreate)]
                 [Txt ''Pay with crypto'', comp ''Icon'' [(''name'', ''arrow_right_white'')]]])]
     | None \<Rightarrow> loading_lines 2)"

section \<open>SupportPage.tsx and NotFoundPage.tsx\<close>

(* src: ui-payment/src/pages/NotFoundPage.tsx 4-22 NotFoundPage *)
definition not_found_view :: "outcome_handler ui" where
  "not_found_view = wrap ''div''
     [comp ''Icon'' [(''name'', ''not-found'')], leaf ''span'' ''Not Found'',
      leaf ''p'' ''The page you are looking for not found'']"

(* src: ui-payment/src/pages/SupportPage.tsx 5-16 SupportPage *)
record support_state =
  sp_name :: string
  sp_email :: string
  sp_message :: string
  sp_submitted :: bool

text \<open>A text and the identifier or address in it; line breaks are the character 10.\<close>

definition newline :: string where
  "newline = [char_of (10 :: nat)]"

(* src: ui-payment/src/pages/SupportPage.tsx 13-16 useState *)
definition support_start :: "string option \<Rightarrow> support_state" where
  "support_start paymentId = \<lparr>sp_name = [], sp_email = [], sp_message =
     (if truthy paymentId
      then ''Payment ID: '' @ the paymentId @ newline @ newline @ ''Describe your issue:'' @ newline
      else []), sp_submitted = False\<rparr>"

text \<open>\<open>encodeURIComponent\<close> on the bytes of a text: letters, digits and the marks stay, every
  other byte becomes a percent sign and two hexadecimal digits.\<close>

definition hex_digit :: "nat \<Rightarrow> char" where
  "hex_digit d = ''0123456789ABCDEF'' ! d"

definition unreserved :: "char \<Rightarrow> bool" where
  "unreserved c \<longleftrightarrow> (let n = of_char c :: nat in (48 \<le> n \<and> n \<le> 57) \<or> (65 \<le> n \<and> n \<le> 90)
     \<or> (97 \<le> n \<and> n \<le> 122) \<or> n \<in> {45, 95, 46, 33, 126, 42, 39, 40, 41})"

definition encode_char :: "char \<Rightarrow> string" where
  "encode_char c = (if unreserved c then [c]
     else [CHR ''%'', hex_digit (of_char c div 16), hex_digit (of_char c mod 16)])"

definition encodeURIComponent :: "string \<Rightarrow> string" where
  "encodeURIComponent s = concat (map encode_char s)"

(* src: ui-payment/src/pages/SupportPage.tsx 20-20 subject *)
definition support_subject :: "string option \<Rightarrow> string" where
  "support_subject paymentId =
     (if truthy paymentId then ''Support: Payment '' @ the paymentId else ''Support Request'')"

(* src: ui-payment/src/pages/SupportPage.tsx 21-21 body *)
definition support_body :: "support_state \<Rightarrow> string" where
  "support_body s =
     ''Name: '' @ sp_name s @ newline @ ''Email: '' @ sp_email s @ newline @ newline @ sp_message s"

(* src: ui-payment/src/pages/SupportPage.tsx 18-24 handleSubmit *)
definition support_submit :: "string \<Rightarrow> string option \<Rightarrow> support_state \<Rightarrow> support_state \<times> string" where
  "support_submit supportEmail paymentId s =
     (s\<lparr>sp_submitted := True\<rparr>,
      ''mailto:'' @ supportEmail @ ''?subject='' @ encodeURIComponent (support_subject paymentId)
        @ ''&body='' @ encodeURIComponent (support_body s))"

datatype support_handler = HSubmitMail | HName | HMail | HMessage | HAgain

definition support_field ::
    "string \<Rightarrow> string \<Rightarrow> string \<Rightarrow> string \<Rightarrow> support_handler \<Rightarrow> string \<Rightarrow> support_handler ui" where
  "support_field tag typ label v h placeholder = wrap ''div''
     [leaf ''label'' label,
      El tag [(''type'', typ), (''value'', v), (''required'', ''true''), (''placeholder'', placeholder)]
        [(''onChange'', h)] []]"

definition mail_anchor :: "string \<Rightarrow> 'h ui" where
  "mail_anchor m = El ''a'' [(''href'', ''mailto:'' @ m)] [] [Txt m]"

(* src: ui-payment/src/pages/SupportPage.tsx 26-123 return *)
definition support_view :: "string \<Rightarrow> string option \<Rightarrow> support_state \<Rightarrow> support_handler ui list" where
  "support_view supportEmail paymentId s =
     [comp ''Icon'' [(''name'', ''store'')], leaf ''span'' ''Contact Support'']
     @ (if \<not> sp_submitted s
        then [wrap ''p'' [Txt ''Need help with a payment? Fill out the form below or email us directly at'',
                Txt '' '', mail_anchor supportEmail]]
          @ when_ui (truthy paymentId)
             [wrap ''div'' [leaf ''span'' ''Payment ID'', leaf ''p'' (the paymentId)]]
          @ [El ''form'' [] [(''onSubmit'', HSubmitMail)]
              [support_field ''input'' ''text'' ''Name'' (sp_name s) HName ''Your name'',
               support_field ''input'' ''email'' ''Email'' (sp_email s) HMail ''your@email.com'',
               support_field ''textarea'' [] ''Message'' (sp_message s) HMessage ''Describe your issue...'',
               El ''button'' [(''type'', ''submit'')] []
                 [Txt ''Send Message'', comp ''Icon'' [(''name'', ''arrow_right_white'')]]]]
        else [wrap ''div''
          [comp ''Icon'' [(''name'', ''ok'')], leaf ''p'' ''Email client opened!'',
           wrap ''p'' [Txt (''If your email client didn'' @ [CHR 0x27] @ ''t open, you can email us directly at''),
             Txt '' '', mail_anchor supportEmail],
           El ''button'' [] [(''onClick'', HAgain)] [Txt ''Try again'']]])"

section \<open>Lemmas\<close>

lemma app_component_simps [simp]:
  "c_mount (app_component path) = app_mount" "c_resume (app_component path) = app_resume path"
  "c_timer (app_component path) = (\<lambda>k s. idle s)" "c_effect (app_component path) = app_titles"
  "c_fits (app_component path) = app_fits"
  "c_event (app_component path) = (\<lambda>p s. (s\<lparr>app_payment := Some p\<rparr>, []))"
  by (simp_all add: app_component_def)

fun app_request_ok :: "string \<Rightarrow> pay_request \<Rightarrow> app_cont \<Rightarrow> bool" where
  "app_request_ok path GetCSRFCookie CsrfReply = True"
| "app_request_ok path (GetPayment i) (AppPaymentReply j captured) =
     (i = j \<and> captured = None \<and> path_id path = Some i)"
| "app_request_ok path (GetPaymentLink i) AppLinkReply = (path_id path = Some i)"
| "app_request_ok path q k = False"

fun app_goto_ok :: "string \<Rightarrow> app_effect \<Rightarrow> bool" where
  "app_goto_ok path (AppGoto to p) \<longleftrightarrow> p = None
     \<and> (to = ''/not-found'' \<or> (\<exists>i. path_id path = Some i \<and> to = ''/error/'' @ i))"

lemma app_resume_ok:
  "app_request_ok path q k \<Longrightarrow>
    ok_outcome (\<lambda>s. True) (app_request_ok path) (\<lambda>k. False) (app_goto_ok path) (app_resume path k a s)"
  by (induction path k a s rule: app_resume.induct; cases q)
    (auto simp: idle_def app_getPayment_def app_getPaymentLink_def split: option.split)

interpretation app: safe_component "app_component path" "\<lambda>s. True" "app_request_ok path"
    "\<lambda>k. False" "app_goto_ok path"
  by unfold_locales (auto simp: app_mount_def app_titles_def Let_def idle_def app_resume_ok)

lemma app_reachable_ok:
  "areach (app_component path) app_start w \<Longrightarrow>
    ok_world (\<lambda>s. True) (app_request_ok path) (\<lambda>k. False) (app_goto_ok path) w"
  by (erule app.reachable_ok) simp

lemma hex_digit_inj: "a < 16 \<Longrightarrow> b < 16 \<Longrightarrow> hex_digit a = hex_digit b \<longleftrightarrow> a = b"
proof -
  have "distinct ''0123456789ABCDEF''" "length ''0123456789ABCDEF'' = 16" by simp_all
  then show "a < 16 \<Longrightarrow> b < 16 \<Longrightarrow> hex_digit a = hex_digit b \<longleftrightarrow> a = b"
    unfolding hex_digit_def by (metis nth_eq_iff_index_eq)
qed

lemma percent_reserved: "\<not> unreserved CHR ''%''"
  by (simp add: unreserved_def)

lemma of_char_16: "of_char c div 16 < (16 :: nat)" "of_char c mod 16 < (16 :: nat)"
proof -
  have "(of_char c :: nat) < 16 * 16" using nat_of_char_less_256 [of c] by simp
  then show "of_char c div 16 < (16 :: nat)" by (rule less_mult_imp_div_less)
  show "of_char c mod 16 < (16 :: nat)" by simp
qed

lemma encode_char_append:
  assumes "encode_char c @ r = encode_char d @ r'"
  shows "c = d \<and> r = r'"
proof (cases "unreserved c")
  case True
  show ?thesis
  proof (cases "unreserved d")
    case True
    with \<open>unreserved c\<close> show ?thesis using assms by (simp add: encode_char_def)
  next
    case False
    then have "c = CHR ''%''" using assms \<open>unreserved c\<close> by (simp add: encode_char_def)
    with True percent_reserved show ?thesis by simp
  qed
next
  case False
  then have "\<not> unreserved d" using assms percent_reserved by (auto simp: encode_char_def split: if_splits)
  with False assms have "of_char c div 16 = (of_char d div 16 :: nat)" "of_char c mod 16 = (of_char d mod 16 :: nat)"
      and r: "r = r'"
    by (simp_all add: encode_char_def hex_digit_inj of_char_16)
  then have "of_char c = (of_char d :: nat)" by (metis div_mult_mod_eq)
  with r show ?thesis by simp
qed

lemma encode_char_nonempty: "encode_char c \<noteq> []"
  by (simp add: encode_char_def)

lemma encode_inj: "encodeURIComponent a = encodeURIComponent b \<Longrightarrow> a = b"
proof (induction a arbitrary: b)
  case Nil
  then show ?case by (cases b) (auto simp: encodeURIComponent_def encode_char_nonempty)
next
  case (Cons c a)
  then show ?case
    by (cases b) (auto simp: encodeURIComponent_def encode_char_nonempty dest: encode_char_append)
qed

lemma length_hex: "length ''0123456789ABCDEF'' = 16"
  by simp

lemma hex_digit_unreserved: "d < 16 \<Longrightarrow> unreserved (hex_digit d)"
proof -
  assume d: "d < 16"
  have "list_all unreserved ''0123456789ABCDEF''" by (simp add: unreserved_def Let_def)
  then show ?thesis unfolding hex_digit_def using d by (metis list_all_length length_hex)
qed

lemma encode_chars: "c \<in> set (encodeURIComponent s) \<Longrightarrow> unreserved c \<or> c = CHR ''%''"
  by (auto simp: encodeURIComponent_def encode_char_def hex_digit_unreserved of_char_16 split: if_splits)

lemma encode_free: "\<not> unreserved c \<Longrightarrow> c \<noteq> CHR ''%'' \<Longrightarrow> c \<notin> set (encodeURIComponent s)"
  using encode_chars by blast

section \<open>Properties\<close>

text \<open>A payment that cannot be loaded never reaches the error page: in every run the application
  navigates without a payment, so the page it names finds none and sends the visitor on to the
  not-found page.\<close>

lemma load_failure_not_found:
  assumes "areach (app_component path) app_start w" and "AppGoto to p \<in> set (trace w)"
  shows "enter_page p = (None, Some ''/not-found'')
    \<and> (to = ''/not-found'' \<or> (\<exists>i. path_id path = Some i \<and> to = ''/error/'' @ i))"
  using app_reachable_ok [OF assms(1)] assms(2)
  unfolding ok_world_def enter_page_def by fastforce

lemma load_failure_not_found_example:
  "\<exists>w. areach (app_component ''/pay/p1'') app_start w \<and> AppGoto ''/error/p1'' None \<in> set (trace w)
     \<and> enter_page None = (None, Some ''/not-found'')"
proof -
  let ?c = "app_component ''/pay/p1''"
  let ?s = "\<lparr>app_payment = None, app_link = None, app_title = None\<rparr>"
  let ?w0 = "initial ?c ?s"
  let ?w1 = "do_reply ?c 0 (Resolved RVoid) ?w0"
  let ?w2 = "do_reply ?c 0 (Rejected ''404'') ?w1"
  have id: "path_id ''/pay/p1'' = Some ''p1''" "\<not> starts_with ''/pay/p1'' ''/link/''"
    by code_simp+
  have w0: "?w0 = \<lparr>wst = ?s, pending = [(GetCSRFCookie, CsrfReply)], timers = [], trace = []\<rparr>"
    by (simp add: initial_def app_mount_def)
  have w1: "?w1 = \<lparr>wst = ?s, pending = [(GetPayment ''p1'', AppPaymentReply ''p1'' None)], timers = [], trace = []\<rparr>"
    unfolding w0 by (simp add: do_reply_def commit_def drop_nth_def id app_getPayment_def app_titles_def)
  have t: "AppGoto ''/error/p1'' None \<in> set (trace ?w2)"
    unfolding w1 by (simp add: do_reply_def commit_def drop_nth_def app_titles_def)
  have r0: "areach ?c app_start ?w0" by (rule areach.start) (simp add: app_start_def)
  have r1: "areach ?c app_start ?w1"
    by (rule areach.step [OF r0 astep.reply]) (simp_all add: w0)
  have r2: "areach ?c app_start ?w2"
    by (rule areach.step [OF r1 astep.reply]) (simp_all add: w1)
  show ?thesis using load_failure_not_found [OF r2 t] r2 t by blast
qed

text \<open>The support mail carries the customer's words unaltered: two submissions make the same
  mail link only when their subjects and their bodies are the same, whatever was typed, because no
  separator of the link survives the encoding of either.\<close>

lemma support_mail_faithful:
  "snd (support_submit m i s) = snd (support_submit m j t) \<longleftrightarrow>
     support_subject i = support_subject j \<and> support_body s = support_body t"
proof -
  have a: "CHR ''&'' \<notin> set (encodeURIComponent x)" for x
    by (rule encode_free) (simp_all add: unreserved_def Let_def)
  show ?thesis
    using encode_inj by (auto simp: support_submit_def dest!: sep_unique [OF _ a a])
qed

end
