(* ===== verification/Async_History.thy ===== *)
theory Async_History
  imports Async "HOL-Library.Sublist"
begin

text \<open>
  Runs of a component with their history: a list, the newest first, of what happened, each answer
  with the request and the continuation it was given to, each event with the state it found. A run with
  its history is a run of Async. What a world holds can then be traced back to what the user did and
  what was answered: \<open>traced_component\<close> is the contract, in which a condition on the state, the
  requests, the timers and the effects may speak of the history.
\<close>

datatype ('s, 'q, 'k, 'r, 'v) happening =
  Began 's | Acted 's 'v | Answered 'q 'k 'r | Fired 'k

type_synonym ('s, 'q, 'k, 'r, 'v) history = "('s, 'q, 'k, 'r, 'v) happening list"

inductive arun ::
    "('s, 'q, 'k, 'e, 'r, 'v) component \<Rightarrow> ('s \<Rightarrow> bool) \<Rightarrow> ('s, 'q, 'k, 'r, 'v) history \<Rightarrow>
     ('s, 'q, 'k, 'e) world \<Rightarrow> bool" for c S where
  start: "S s \<Longrightarrow> arun c S [Began s] (initial c s)"
| event: "arun c S h w \<Longrightarrow> arun c S (Acted (wst w) v # h) (do_event c v w)"
| reply: "arun c S h w \<Longrightarrow> i < length (pending w) \<Longrightarrow> c_fits c (fst (pending w ! i)) r \<Longrightarrow>
     arun c S (Answered (fst (pending w ! i)) (snd (pending w ! i)) r # h) (do_reply c i r w)"
| timer: "arun c S h w \<Longrightarrow> i < length (timers w) \<Longrightarrow>
     arun c S (Fired (snd (timers w ! i)) # h) (do_timer c i w)"

text \<open>The histories cover exactly the reachable worlds.\<close>

lemma arun_areach: "arun c S h w \<Longrightarrow> areach c S w"
proof (induction rule: arun.induct)
  case (start s)
  then show ?case by (rule areach.start)
next
  case (event h w v)
  from areach.step [OF event.IH astep.event] show ?case .
next
  case (reply h w i r)
  from areach.step [OF reply.IH astep.reply [OF reply.hyps(2,3)]] show ?case .
next
  case (timer h w i)
  from areach.step [OF timer.IH astep.timer [OF timer.hyps(2)]] show ?case .
qed

lemma areach_arun: "areach c S w \<Longrightarrow> \<exists>h. arun c S h w"
proof (induction rule: areach.induct)
  case (start s)
  from arun.start [of S s c, OF start] show ?case by (rule exI)
next
  case (step w w')
  then obtain h where h: "arun c S h w" by blast
  from step(2) show ?case
  proof cases
    case (event v)
    from arun.event [OF h] show ?thesis unfolding event by (rule exI)
  next
    case (reply i r)
    from arun.reply [OF h reply(2,3)] show ?thesis unfolding reply(1) by (rule exI)
  next
    case (timer i)
    from arun.timer [OF h timer(2)] show ?thesis unfolding timer(1) by (rule exI)
  qed
qed

text \<open>What happened in some order has happened, and stays so.\<close>

lemma subseq_later: "subseq xs h \<Longrightarrow> subseq xs (x # h)"
  by (rule list_emb_Cons)

lemma subseq_happened: "subseq xs h \<Longrightarrow> x \<in> set xs \<Longrightarrow> x \<in> set h"
  by (induction rule: list_emb.induct) auto

text \<open>A world without its state is enough for the requests, timers and effects.\<close>

lemma ok_world_weaken:
  "ok_world I K T E w \<Longrightarrow> (\<And>q k. K q k \<Longrightarrow> K' q k) \<Longrightarrow> (\<And>k. T k \<Longrightarrow> T' k) \<Longrightarrow> (\<And>e. E e \<Longrightarrow> E' e)
    \<Longrightarrow> I' s \<Longrightarrow> ok_world I' K' T' E' (w\<lparr>wst := s\<rparr>)"
  unfolding ok_world_def by auto

locale traced_component =
  fixes c :: "('s, 'q, 'k, 'e, 'r, 'v) component"
    and S :: "'s \<Rightarrow> bool"
    and I :: "('s, 'q, 'k, 'r, 'v) history \<Rightarrow> 's \<Rightarrow> bool"
    and K :: "('s, 'q, 'k, 'r, 'v) history \<Rightarrow> 'q \<Rightarrow> 'k \<Rightarrow> bool"
    and T :: "('s, 'q, 'k, 'r, 'v) history \<Rightarrow> 'k \<Rightarrow> bool"
    and E :: "('s, 'q, 'k, 'r, 'v) history \<Rightarrow> 'e \<Rightarrow> bool"
  assumes K_later: "K h q k \<Longrightarrow> K (x # h) q k"
    and T_later: "T h k \<Longrightarrow> T (x # h) k"
    and E_later: "E h e \<Longrightarrow> E (x # h) e"
    and mount_traced: "S s \<Longrightarrow> h = [Began s] \<Longrightarrow> ok_outcome (I h) (K h) (T h) (E h) (c_mount c s)"
    and event_traced: "I h s \<Longrightarrow> h' = Acted s v # h \<Longrightarrow> ok_outcome (I h') (K h') (T h') (E h') (c_event c v s)"
    and resume_traced: "I h s \<Longrightarrow> K h q k \<Longrightarrow> c_fits c q r \<Longrightarrow> h' = Answered q k r # h \<Longrightarrow>
      ok_outcome (I h') (K h') (T h') (E h') (c_resume c k r s)"
    and timer_traced: "I h s \<Longrightarrow> T h k \<Longrightarrow> h' = Fired k # h \<Longrightarrow>
      ok_outcome (I h') (K h') (T h') (E h') (c_timer c k s)"
    and effect_traced: "I h s' \<Longrightarrow> ok_outcome (I h) (K h) (T h) (E h) (c_effect c s s')"
begin

lemma commit_traced:
  assumes oc: "ok_outcome (I (x # h)) (K (x # h)) (T (x # h)) (E (x # h)) oc"
    and w: "ok_world (I h) (K h) (T h) (E h) (w\<lparr>wst := old\<rparr>)"
  shows "ok_world (I (x # h)) (K (x # h)) (T (x # h)) (E (x # h)) (commit c old oc w)"
proof -
  let ?h = "x # h"
  obtain s cs where o: "oc = (s, cs)" by (cases oc)
  with oc have s: "I ?h s" and cs: "\<forall>d \<in> set cs. ok_cmd (K ?h) (T ?h) (E ?h) d" by auto
  obtain s' cs' where e: "c_effect c old s = (s', cs')" by (cases "c_effect c old s")
  with effect_traced [OF s, of old] have e': "I ?h s'" "\<forall>d \<in> set cs'. ok_cmd (K ?h) (T ?h) (E ?h) d" by auto
  have "ok_world (I ?h) (K ?h) (T ?h) (E ?h) (w\<lparr>wst := old, wst := s'\<rparr>)"
    by (rule ok_world_weaken [OF w]) (use e' K_later T_later E_later in auto)
  then have "ok_world (I ?h) (K ?h) (T ?h) (E ?h) (w\<lparr>wst := s'\<rparr>)" by simp
  then have "ok_world (I ?h) (K ?h) (T ?h) (E ?h) (issue (cs @ cs') (w\<lparr>wst := s'\<rparr>))"
    by (rule ok_issue) (use cs e'(2) in auto)
  then show ?thesis by (simp add: commit_def o e)
qed

lemma run_traced: "arun c S h w \<Longrightarrow> ok_world (I h) (K h) (T h) (E h) w"
proof (induction rule: arun.induct)
  case (start s)
  obtain s' cs where m: "c_mount c s = (s', cs)" by (metis surj_pair)
  with mount_traced [OF start refl] have "I [Began s] s'"
    and cs: "\<forall>d \<in> set cs. ok_cmd (K [Began s]) (T [Began s]) (E [Began s]) d" by auto
  then have "ok_world (I [Began s]) (K [Began s]) (T [Began s]) (E [Began s])
      \<lparr>wst = s', pending = [], timers = [], trace = []\<rparr>"
    by (simp add: ok_world_def)
  from ok_issue [OF this cs] show ?case by (simp add: initial_def m)
next
  case (event h w v)
  then show ?case unfolding do_event_def
    by (intro commit_traced event_traced [OF _ refl]) (auto simp: ok_world_def)
next
  case (reply h w i r)
  then have "pending w ! i \<in> set (pending w)" by simp
  with reply.IH have "K h (fst (pending w ! i)) (snd (pending w ! i))"
    by (auto simp: ok_world_def split_def)
  with reply show ?case unfolding do_reply_def
    by (intro commit_traced resume_traced [OF _ _ _ refl])
      (use set_drop_nth in \<open>fastforce simp: ok_world_def\<close>)+
next
  case (timer h w i)
  then have "timers w ! i \<in> set (timers w)" by simp
  with timer.IH have "T h (snd (timers w ! i))" by (auto simp: ok_world_def split_def)
  with timer show ?case unfolding do_timer_def
    by (intro commit_traced timer_traced [OF _ _ refl])
      (use set_drop_nth in \<open>fastforce simp: ok_world_def\<close>)+
qed

lemma traced:
  assumes "arun c S h w"
  shows "I h (wst w)" and "(q, k) \<in> set (pending w) \<Longrightarrow> K h q k"
    and "(t, k) \<in> set (timers w) \<Longrightarrow> T h k" and "e \<in> set (trace w) \<Longrightarrow> E h e"
  using run_traced [OF assms] by (auto simp: ok_world_def)

end

end
