(* ===== verification/Payment_Site.thy ===== *)
theory Payment_Site
  imports Payment_App Async_History
begin

text \<open>
  The payment application with its payment page (ui-payment/src/App.tsx and
  ui-payment/src/pages/PaymentPage.tsx), as one component: they share the payment through a context
  (\<open>usePayment\<close>), which the application sets when it has loaded the payment that the path names, and the
  page when it has polled. The requests, continuations, answers and effects of the two are told
  apart by a constructor. The visitor acts on the page alone. A payment that the link page creates is not
  part of this composition: there the application loads a link.
\<close>

section \<open>State and composition\<close>

record site =
  st_app :: app_state
  st_page :: page

datatype site_request = AppQ pay_request | PageQ pay_request

datatype site_cont = AppK app_cont | PageK page_cont

datatype site_answer = AppR "(app_answer, string) reply" | PageR page_reply

datatype site_effect = AppE app_effect | PageE page_effect

type_synonym site_outcome = "(site, site_request, site_cont, site_effect) outcome"

type_synonym site_history = "(site, site_request, site_cont, site_answer, page_event) history"

text \<open>What a piece of the page does to the site: the application sees the payment that the page has stored.\<close>

definition share :: "page \<Rightarrow> site \<Rightarrow> site" where
  "share p s = s\<lparr>st_page := p, st_app := (st_app s)\<lparr>app_payment := map_option snd (pg_payment p)\<rparr>\<rparr>"

definition page_piece :: "page_outcome \<Rightarrow> site \<Rightarrow> site_outcome" where
  "page_piece oc s = (share (fst oc) s, map (map_cmd PageQ PageK PageE) (snd oc))"

definition app_piece :: "app_outcome \<Rightarrow> site \<Rightarrow> site_outcome" where
  "app_piece oc s = (s\<lparr>st_app := fst oc\<rparr>, map (map_cmd AppQ AppK AppE) (snd oc))"

text \<open>The page renders with the payment that the application sets.\<close>

(* src: ui-payment/src/App.tsx 83-84 PaymentContext *)
fun site_resume :: "string \<Rightarrow> site_cont \<Rightarrow> site_answer \<Rightarrow> site \<Rightarrow> site_outcome" where
  "site_resume path (AppK (AppPaymentReply i c)) (AppR (Resolved (RAppPayment p))) s =
     app_piece (app_resume path (AppPaymentReply i c) (Resolved (RAppPayment p)) (st_app s))
       (s\<lparr>st_page := set_new_payment p (st_page s)\<rparr>)"
| "site_resume path (AppK k) (AppR a) s = app_piece (app_resume path k a (st_app s)) s"
| "site_resume path (PageK k) (PageR a) s = page_piece (page_resume k a (st_page s)) s"
| "site_resume path k a s = idle s"

text \<open>The payment comes from the application, not from the visitor.\<close>

fun site_on :: "(string \<Rightarrow> bool) \<Rightarrow> page_event \<Rightarrow> site \<Rightarrow> site_outcome" where
  "site_on ve (PaymentLoaded p) s = idle s"
| "site_on ve v s = page_piece (page_on ve v (st_page s)) s"

fun site_timer :: "site_cont \<Rightarrow> site \<Rightarrow> site_outcome" where
  "site_timer (PageK k) s = page_piece (page_timer k (st_page s)) s"
| "site_timer k s = idle s"

text \<open>The effects of the page run before those of the application around it.\<close>

definition site_effects :: "site \<Rightarrow> site \<Rightarrow> site_outcome" where
  "site_effects old s = andThen (page_piece (page_effects (st_page old) (st_page s)) s)
     (\<lambda>t. app_piece (app_titles (st_app old) (st_app t)) t)"

fun site_fits :: "site_request \<Rightarrow> site_answer \<Rightarrow> bool" where
  "site_fits (AppQ q) (AppR a) = app_fits q a"
| "site_fits (PageQ q) (PageR a) = page_fits q a"
| "site_fits q a = False"

definition fresh_site :: site where
  "fresh_site = \<lparr>st_app = \<lparr>app_payment = None, app_link = None, app_title = None\<rparr>, st_page = fresh_page None\<rparr>"

definition site_mount :: "site \<Rightarrow> site_outcome" where
  "site_mount s = andThen (page_piece (payment_effect (st_page s)) s) (\<lambda>t. app_piece (app_mount (st_app t)) t)"

definition payment_site where
  "payment_site path ve = \<lparr>c_mount = site_mount, c_event = site_on ve, c_resume = site_resume path,
     c_timer = site_timer, c_effect = site_effects, c_fits = site_fits\<rparr>"

lemma payment_site_simps [simp]:
  "c_mount (payment_site path ve) = site_mount" "c_event (payment_site path ve) = site_on ve"
  "c_resume (payment_site path ve) = site_resume path" "c_timer (payment_site path ve) = site_timer"
  "c_effect (payment_site path ve) = site_effects" "c_fits (payment_site path ve) = site_fits"
  by (simp_all add: payment_site_def)

abbreviation site_start :: "site \<Rightarrow> bool" where
  "site_start \<equiv> (\<lambda>s. s = fresh_site)"

lemma map_cmd_await:
  "Await q k = map_cmd f g e c \<longleftrightarrow> (\<exists>q' k'. c = Await q' k' \<and> q = f q' \<and> k = g k')"
  by (cases c) auto

lemma snd_andThen: "snd (andThen oc f) = snd oc @ snd (f (fst oc))"
  by (cases oc) simp

section \<open>What the server has said\<close>

text \<open>The server has answered a request for a payment with \<open>p\<close>.\<close>

definition reported :: "site_history \<Rightarrow> payment \<Rightarrow> bool" where
  "reported h p \<longleftrightarrow>
     (\<exists>i k. Answered (AppQ (GetPayment i)) k (AppR (Resolved (RAppPayment p))) \<in> set h
        \<or> Answered (PageQ (GetPayment i)) k (PageR (Resolved (RPayment p))) \<in> set h)"

text \<open>The server has stored a customer, with an address and the accepted terms, or has reported a payment
  that has one; and the same of a method.\<close>

definition customer_known :: "site_history \<Rightarrow> bool" where
  "customer_known h \<longleftrightarrow>
     (\<exists>p e consent k x. reported h p \<and> e \<noteq> []
        \<and> Answered (PageQ (SetCustomer (pay_id p) e consent True)) k (PageR (Resolved x)) \<in> set h)
     \<or> (\<exists>p. reported h p \<and> pay_customer p \<noteq> None)"

definition method_known :: "site_history \<Rightarrow> bool" where
  "method_known h \<longleftrightarrow>
     (\<exists>p m k x. reported h p \<and> Answered (PageQ (SetPaymentMethod (pay_id p) m)) k (PageR (Resolved x)) \<in> set h)
     \<or> (\<exists>p. reported h p \<and> pay_method p \<noteq> None)"

lemma reported_later: "reported h p \<Longrightarrow> reported (x # h) p"
  unfolding reported_def by (meson list.set_intros(2))

lemma known_later: "customer_known h \<Longrightarrow> customer_known (x # h)" "method_known h \<Longrightarrow> method_known (x # h)"
  unfolding customer_known_def method_known_def by (meson list.set_intros(2) reported_later)+

section \<open>What the page holds comes from the server\<close>

text \<open>The conditions on the pieces of the page, for any set \<open>R\<close> of payments that are reported, and whether a
  customer and a method are known.\<close>

definition page_known :: "(payment \<Rightarrow> bool) \<Rightarrow> bool \<Rightarrow> bool \<Rightarrow> page \<Rightarrow> bool" where
  "page_known R C M s \<longleftrightarrow> (\<forall>n p. pg_payment s = Some (n, p) \<longrightarrow> R p) \<and> (emailFilled s \<longrightarrow> C) \<and> (currencyChosen s \<longrightarrow> M)"

fun cont_known :: "(payment \<Rightarrow> bool) \<Rightarrow> page_cont \<Rightarrow> bool" where
  "cont_known R (PollReply r) = R (snd r)"
| "cont_known R (UpdatePayment r) = R (snd r)"
| "cont_known R (SubmitReply r) = R (snd r)"
| "cont_known R (CvMethods r) = (R (snd r) \<and> pay_method (snd r) \<noteq> None)"
| "cont_known R (CvSelect r m) = R (snd r)"
| "cont_known R (MethodsReply r) = R (snd r)"
| "cont_known R SetMethodReply = True"
| "cont_known R CustomerReply = True"

fun subject_known :: "(payment \<Rightarrow> bool) \<Rightarrow> pay_request \<Rightarrow> bool" where
  "subject_known R (SetCustomer i e consent terms) = (terms \<and> e \<noteq> [] \<and> (\<exists>p. R p \<and> pay_id p = i))"
| "subject_known R (SetPaymentMethod i m) = (\<exists>p. R p \<and> pay_id p = i)"
| "subject_known R q = True"

definition request_known :: "(payment \<Rightarrow> bool) \<Rightarrow> pay_request \<Rightarrow> page_cont \<Rightarrow> bool" where
  "request_known R q k \<longleftrightarrow> page_request_ok q k \<and> cont_known R k \<and> subject_known R q"

fun goto_known :: "(payment \<Rightarrow> bool) \<Rightarrow> page_effect \<Rightarrow> bool" where
  "goto_known R (Goto to p) = (R p \<and> goto_ok (Goto to p))"

abbreviation "page_piece_ok R C M \<equiv> ok_outcome (page_known R C M) (request_known R) (cont_known R) (goto_known R)"

definition knows :: "(payment \<Rightarrow> bool) \<Rightarrow> bool \<Rightarrow> bool \<Rightarrow> bool" where
  "knows R C M \<longleftrightarrow> (\<forall>p. R p \<longrightarrow> (pay_customer p \<noteq> None \<longrightarrow> C) \<and> (pay_method p \<noteq> None \<longrightarrow> M))"

lemma knowsD: "knows R C M \<Longrightarrow> R p \<Longrightarrow> pay_customer p = Some c \<Longrightarrow> C" "knows R C M \<Longrightarrow> R p \<Longrightarrow> pay_method p = Some m \<Longrightarrow> M"
  by (auto simp: knows_def)

lemma page_known_keep [simp]:
  "page_known R C M (validate_form ve s) = page_known R C M s" "page_known R C M (reset_form f s) = page_known R C M s"
  "page_known R C M (s\<lparr>paymentMethod := m\<rparr>) = page_known R C M s" "page_known R C M (s\<lparr>form := f\<rparr>) = page_known R C M s"
  "page_known R C M (s\<lparr>availableMethods := ms\<rparr>) = page_known R C M s" "page_known R C M (s\<lparr>touched_terms := b\<rparr>) = page_known R C M s"
  "page_known R C M (convertDone a s) = page_known R C M s"
  by (simp_all add: page_known_def validate_form_def reset_form_def)
    (induction a s rule: convertDone.induct, simp_all)

lemma page_known_set [simp]:
  "page_known R C M s \<Longrightarrow> R p \<Longrightarrow> page_known R C M (set_new_payment p s)"
  "page_known R C M s \<Longrightarrow> R (snd r) \<Longrightarrow> page_known R C M (set_payment_ref r s)"
  "page_known R C M s \<Longrightarrow> (b \<Longrightarrow> C) \<Longrightarrow> page_known R C M (s\<lparr>emailFilled := b\<rparr>)"
  "page_known R C M s \<Longrightarrow> (b \<Longrightarrow> M) \<Longrightarrow> page_known R C M (s\<lparr>currencyChosen := b\<rparr>)"
  by (auto simp: page_known_def set_new_payment_def set_payment_ref_def)

lemma known_prefill: "knows R C M \<Longrightarrow> R (snd r) \<Longrightarrow> page_known R C M s \<Longrightarrow> page_piece_ok R C M (prefillCustomer r s)"
  by (cases r) (auto simp: Let_def request_known_def dest: knowsD split: option.split)

lemma known_supported: "knows R C M \<Longrightarrow> R (snd r) \<Longrightarrow> page_known R C M s \<Longrightarrow> page_piece_ok R C M (getSupportedMethods r s)"
  by (cases r) (auto simp: idle_def getCryptoCurrencyConvert_def known_prefill request_known_def
      simp del: prefillCustomer.simps split: option.split)

lemma known_update: "R (snd r) \<Longrightarrow> page_known R C M s \<Longrightarrow> page_piece_ok R C M (updatePayment r s)"
  by (cases r) (auto simp: idle_def request_known_def)

lemma known_effect: "knows R C M \<Longrightarrow> page_known R C M s \<Longrightarrow> page_piece_ok R C M (payment_effect s)"
  by (auto simp: payment_effect_def idle_def known_supported page_known_def simp del: getSupportedMethods.simps
      split: option.split)

lemma known_submitCustomer: "page_known R C M s \<Longrightarrow> page_piece_ok R C M (submitCustomer e t c s)"
  by (auto simp: submitCustomer_def request_known_def page_known_def split: option.split)

lemma known_on:
  assumes "page_known R C M s" and "\<forall>p. v \<noteq> PaymentLoaded p"
  shows "page_piece_ok R C M (page_on ve v s)"
proof (cases v)
  case (SelectMethod c)
  then show ?thesis
    using assms find_first_Some [of "\<lambda>m. pm_ticker m = c" "availableMethods s"]
    by (auto simp: onSelectPaymentMethod_def idle_def getCryptoCurrencyConvert_def Let_def request_known_def page_known_def
        split: option.split)
next
  case Submit
  then show ?thesis
    using assms by (auto simp: handleSubmit_def onSubmit_def idle_def Let_def request_known_def page_known_def
        validate_form_def split: option.split)
qed (use assms known_submitCustomer in \<open>auto simp: idle_def changeTerms_def checkCustomer_def Let_def\<close>)

lemma known_resume:
  assumes kn: "knows R C M" and s: "page_known R C M s" and q: "request_known R q k" and a: "page_fits q a"
    and get: "\<And>i p. q = GetPayment i \<Longrightarrow> a = Resolved (RPayment p) \<Longrightarrow> R p"
    and cust: "\<And>i e c x. q = SetCustomer i e c True \<Longrightarrow> e \<noteq> [] \<Longrightarrow> \<exists>p. R p \<and> pay_id p = i \<Longrightarrow> a = Resolved x \<Longrightarrow> C"
    and meth: "\<And>i m x. q = SetPaymentMethod i m \<Longrightarrow> \<exists>p. R p \<and> pay_id p = i \<Longrightarrow> a = Resolved x \<Longrightarrow> M"
  shows "page_piece_ok R C M (page_resume k a s)"
proof (cases k)
  case (PollReply r)
  then obtain i where "q = GetPayment i" "R (snd r)" "i = pay_id (snd r)" "i \<noteq> []"
    using q by (cases q) (auto simp: request_known_def)
  then show ?thesis using PollReply s a get
    by (cases a) (auto simp: idle_def)
next
  case (SubmitReply r)
  then show ?thesis using q s by (cases a) (auto simp: idle_def request_known_def known_update simp del: updatePayment.simps)
next
  case (CvMethods r)
  then have r: "R (snd r)" "M" using q kn by (auto simp: request_known_def dest: knowsD)
  then show ?thesis using CvMethods s kn by (simp add: known_prefill del: prefillCustomer.simps)
next
  case (CvSelect r m)
  then show ?thesis using q s by (cases r; cases m) (auto simp: idle_def request_known_def)
next
  case (MethodsReply r)
  then show ?thesis using q s
    by (induction r a s rule: methodsReply.induct) (auto simp: idle_def request_known_def)
next
  case SetMethodReply
  then show ?thesis using q s meth by (cases q; cases a) (auto simp: request_known_def)
next
  case CustomerReply
  then show ?thesis using q s cust by (cases q; cases a) (auto simp: request_known_def)
qed (use s in \<open>simp add: idle_def\<close>)

lemma known_timer: "cont_known R k \<Longrightarrow> page_known R C M s \<Longrightarrow> page_piece_ok R C M (page_timer k s)"
  by (cases k) (auto simp: idle_def known_update simp del: updatePayment.simps)

section \<open>The site\<close>

text \<open>The conditions for the whole site, on a history.\<close>

definition site_known :: "site_history \<Rightarrow> site \<Rightarrow> bool" where
  "site_known h s \<longleftrightarrow> page_known (reported h) (customer_known h) (method_known h) (st_page s)"

fun site_request_known :: "site_history \<Rightarrow> site_request \<Rightarrow> site_cont \<Rightarrow> bool" where
  "site_request_known h (PageQ q) (PageK k) = request_known (reported h) q k"
| "site_request_known h (AppQ q) (AppK k) = (\<forall>i c. k = AppPaymentReply i c \<longrightarrow> q = GetPayment i)"
| "site_request_known h q k = False"

fun site_cont_known :: "site_history \<Rightarrow> site_cont \<Rightarrow> bool" where
  "site_cont_known h (PageK k) = cont_known (reported h) k"
| "site_cont_known h (AppK k) = False"

fun site_effect_known :: "site_history \<Rightarrow> site_effect \<Rightarrow> bool" where
  "site_effect_known h (PageE e) = goto_known (reported h) e"
| "site_effect_known h (AppE e) = True"

abbreviation "site_ok h \<equiv> ok_outcome (site_known h) (site_request_known h) (site_cont_known h) (site_effect_known h)"

lemma knows_history: "knows (reported h) (customer_known h) (method_known h)"
  unfolding knows_def customer_known_def method_known_def by blast

lemma known_mono:
  assumes "\<And>p. R p \<Longrightarrow> R' p"
  shows "cont_known R k \<Longrightarrow> cont_known R' k" "subject_known R q \<Longrightarrow> subject_known R' q" "goto_known R e \<Longrightarrow> goto_known R' e"
proof -
  show "cont_known R k \<Longrightarrow> cont_known R' k" using assms by (cases k) auto
  show "subject_known R q \<Longrightarrow> subject_known R' q" using assms by (cases q) auto
  show "goto_known R e \<Longrightarrow> goto_known R' e" using assms by (cases e) auto
qed

lemma request_known_later: "request_known (reported h) q k \<Longrightarrow> request_known (reported (x # h)) q k"
  using known_mono(1,2) [of "reported h" "reported (x # h)"] reported_later unfolding request_known_def by blast

lemma site_later:
  "site_request_known h q k \<Longrightarrow> site_request_known (x # h) q k" "site_cont_known h k \<Longrightarrow> site_cont_known (x # h) k"
  "site_effect_known h e \<Longrightarrow> site_effect_known (x # h) e" "site_known h s \<Longrightarrow> site_known (x # h) s"
proof -
  show "site_request_known h q k \<Longrightarrow> site_request_known (x # h) q k"
    by (cases "(h, q, k)" rule: site_request_known.cases) (simp_all add: request_known_later)
  show "site_cont_known h k \<Longrightarrow> site_cont_known (x # h) k"
  proof (cases k)
    case (PageK j)
    then show "site_cont_known h k \<Longrightarrow> site_cont_known (x # h) k"
      using known_mono(1) [of "reported h" "reported (x # h)"] reported_later by auto
  qed simp
  show "site_effect_known h e \<Longrightarrow> site_effect_known (x # h) e"
  proof (cases e)
    case (PageE g)
    then show "site_effect_known h e \<Longrightarrow> site_effect_known (x # h) e"
      using known_mono(3) [of "reported h" "reported (x # h)"] reported_later by (auto simp del: goto_known.simps)
  qed simp
  show "site_known h s \<Longrightarrow> site_known (x # h) s"
    using reported_later known_later unfolding site_known_def page_known_def by blast
qed

text \<open>A piece of the page, and a piece of the application, on the site.\<close>

lemma page_piece_known:
  assumes "page_piece_ok (reported h) (customer_known h) (method_known h) oc"
  shows "site_ok h (page_piece oc s)"
proof -
  have "ok_cmd (site_request_known h) (site_cont_known h) (site_effect_known h) (map_cmd PageQ PageK PageE c)"
    if "c \<in> set (snd oc)" for c
    using assms that by (cases c) (auto simp: ok_outcome_def)
  then show ?thesis using assms by (auto simp: page_piece_def ok_outcome_def site_known_def share_def)
qed

lemma app_piece_known:
  assumes "site_known h s"
    and "\<forall>c \<in> set (snd oc). ok_cmd (\<lambda>q k. \<forall>i c. k = AppPaymentReply i c \<longrightarrow> q = GetPayment i) (\<lambda>k. False) (\<lambda>e. True) c"
  shows "site_ok h (app_piece oc s)"
proof -
  have "ok_cmd (site_request_known h) (site_cont_known h) (site_effect_known h) (map_cmd AppQ AppK AppE c)"
    if "c \<in> set (snd oc)" for c
    using assms(2) that by (cases c) auto
  then show ?thesis using assms(1) by (auto simp: app_piece_def ok_outcome_def site_known_def)
qed

lemma site_andThen:
  assumes "site_ok h oc" and "\<And>t. site_known h t \<Longrightarrow> site_ok h (f t)"
  shows "site_ok h (andThen oc f)"
proof -
  have "site_known h (fst oc)" using assms(1) by (simp add: ok_outcome_def)
  from assms(2) [OF this] assms(1) show ?thesis by (cases oc) (auto simp: ok_outcome_def)
qed

lemma app_resume_cmds:
  "\<forall>c \<in> set (snd (app_resume path k a s)).
     ok_cmd (\<lambda>q k. \<forall>i c. k = AppPaymentReply i c \<longrightarrow> q = GetPayment i) (\<lambda>k. False) (\<lambda>e. True) c"
  by (induction path k a s rule: app_resume.induct)
    (auto simp: app_getPayment_def app_getPaymentLink_def idle_def split: option.split)

lemma site_resume_known:
  assumes s: "site_known h s" and q: "site_request_known h q k" and a: "site_fits q a" and h': "h' = Answered q k a # h"
  shows "site_ok h' (site_resume path k a s)"
proof (cases k)
  case (PageK j)
  then obtain r where r: "q = PageQ r" "request_known (reported h) r j" using q by (cases q) auto
  then obtain b where b: "a = PageR b" "page_fits r b" using a by (cases a) auto
  have "page_piece_ok (reported h') (customer_known h') (method_known h') (page_resume j b (st_page s))"
  proof (rule known_resume [OF knows_history _ _ b(2)])
    show "page_known (reported h') (customer_known h') (method_known h') (st_page s)"
      using site_later(4) [OF s] by (simp add: h' site_known_def)
    show "request_known (reported h') r j" using request_known_later [OF r(2)] by (simp add: h')
  next
    fix i p assume "r = GetPayment i" "b = Resolved (RPayment p)"
    then show "reported h' p" by (auto simp: h' r(1) b(1) reported_def)
  next
    fix i e c x assume "r = SetCustomer i e c True" "e \<noteq> []" "\<exists>p. reported h' p \<and> pay_id p = i" "b = Resolved x"
    moreover from this have "Answered (PageQ (SetCustomer i e c True)) k (PageR (Resolved x)) \<in> set h'"
      by (simp add: h' r(1) b(1))
    ultimately show "customer_known h'" unfolding customer_known_def by blast
  next
    fix i m x assume "r = SetPaymentMethod i m" "\<exists>p. reported h' p \<and> pay_id p = i" "b = Resolved x"
    moreover from this have "Answered (PageQ (SetPaymentMethod i m)) k (PageR (Resolved x)) \<in> set h'"
      by (simp add: h' r(1) b(1))
    ultimately show "method_known h'" unfolding method_known_def by blast
  qed
  then show ?thesis using PageK b(1) by (simp add: page_piece_known)
next
  case (AppK j)
  have s': "site_known h' s" using site_later(4) [OF s] by (simp add: h')
  obtain r where r: "q = AppQ r" using q AppK by (cases q) auto
  then obtain b where b: "a = AppR b" using a by (cases a) auto
  show ?thesis
  proof (cases "\<exists>i c p. j = AppPaymentReply i c \<and> b = Resolved (RAppPayment p)")
    case True
    then obtain i c p where j: "j = AppPaymentReply i c" "b = Resolved (RAppPayment p)" by blast
    then have "q = AppQ (GetPayment i)" using q AppK r by simp
    then have "reported h' p" unfolding reported_def using j b AppK by (auto simp: h')
    then have "site_known h' (s\<lparr>st_page := set_new_payment p (st_page s)\<rparr>)"
      using s' by (simp add: site_known_def)
    then show ?thesis using j b AppK app_resume_cmds
      by (auto intro: app_piece_known simp del: app_resume.simps)
  next
    case False
    then have "site_resume path k a s = app_piece (app_resume path j b (st_app s)) s"
      using AppK b by (cases "(path, AppK j, AppR b, s)" rule: site_resume.cases) (auto simp del: app_resume.simps)
    then show ?thesis using s' app_resume_cmds by (auto intro: app_piece_known)
  qed
qed

lemma site_effects_known:
  assumes "site_known h s"
  shows "site_ok h (site_effects old s)"
  unfolding site_effects_def
proof (rule site_andThen)
  have "page_piece_ok (reported h) (customer_known h) (method_known h) (page_effects (st_page old) (st_page s))"
    using assms known_effect [OF knows_history] by (auto simp: page_effects_def idle_def site_known_def)
  then show "site_ok h (page_piece (page_effects (st_page old) (st_page s)) s)" by (rule page_piece_known)
qed (rule app_piece_known, simp_all add: app_titles_def Let_def)

lemma site_on_known:
  assumes "site_known h s"
  shows "site_ok h (site_on ve v s)"
proof (cases "\<exists>p. v = PaymentLoaded p")
  case True
  then show ?thesis using assms by (auto simp: idle_def)
next
  case False
  then have "site_on ve v s = page_piece (page_on ve v (st_page s)) s" by (cases v) auto
  then show ?thesis using known_on [of "reported h" "customer_known h" "method_known h" "st_page s" v ve] False assms
    by (auto simp: site_known_def intro: page_piece_known)
qed

interpretation site: traced_component "payment_site path ve" site_start site_known site_request_known
    site_cont_known site_effect_known
proof unfold_locales
  fix s :: site and h :: site_history
  assume s: "s = fresh_site"
  then have "site_known h s" by (simp add: site_known_def page_known_def fresh_site_def fresh_page_def)
  then show "site_ok h (c_mount (payment_site path ve) s)"
    using known_effect [OF knows_history, of h "st_page s"]
    by (auto simp: site_mount_def app_mount_def site_known_def intro!: site_andThen page_piece_known app_piece_known)
next
  fix s and h h' :: site_history and v
  assume "site_known h s" "h' = Acted s v # h"
  then show "site_ok h' (c_event (payment_site path ve) v s)" by (simp add: site_on_known site_later(4) del: site_on.simps)
next
  fix s and h h' :: site_history and k
  assume s: "site_known h s" and k: "site_cont_known h k" and h': "h' = Fired k # h"
  obtain j where j: "k = PageK j" using k by (cases k) auto
  have "cont_known (reported h') j" using site_later(2) [OF k] by (simp add: j h')
  then show "site_ok h' (c_timer (payment_site path ve) k s)"
    using site_later(4) [OF s] by (auto simp: j h' site_known_def intro: page_piece_known known_timer)
qed (simp_all add: site_later site_resume_known site_effects_known del: site_resume.simps)

section \<open>Properties\<close>

text \<open>C1. The page claims an outcome only when the server reported it: in every run of the site, from the moment it
  is opened, a navigation of the payment page hands on a payment exactly as the server has answered it to a
  request for a payment, and leads to the success page of a payment so reported that is locked with the status
  success, to the error page of a failed one, to the underpaid page of an underpaid one, and nowhere else.\<close>

theorem navigation_safe:
  assumes "arun (payment_site path ve) site_start h w" and "PageE (Goto to p) \<in> set (trace w)"
  shows "reported h p
    \<and> ((to = ''/success/'' @ pay_id p \<and> isLocked p \<and> status_of p = Some StSuccess)
       \<or> (to = ''/error/'' @ pay_id p \<and> status_of p = Some StFailed)
       \<or> (to = ''/underpaid/'' @ pay_id p \<and> status_of p = Some StUnderpaid))"
  using site.traced(4) [OF assms] by simp

text \<open>The site opened on the path of a payment, up to the answer with that payment.\<close>

definition opened_site :: "(string \<Rightarrow> bool) \<Rightarrow> payment \<Rightarrow> (site, site_request, site_cont, site_effect) world" where
  "opened_site ve p =
     (let c = payment_site ''/pay/p1'' ve
      in do_reply c 0 (AppR (Resolved (RAppPayment p))) (do_reply c 0 (AppR (Resolved RVoid)) (initial c fresh_site)))"

lemma path_p1: "path_id ''/pay/p1'' = Some ''p1''" "\<not> starts_with ''/pay/p1'' ''/link/''"
  by code_simp+

lemmas site_pieces = site_mount_def site_effects_def page_piece_def app_piece_def share_def page_effects_def app_titles_def
  app_mount_def idle_def fresh_site_def fresh_page_def payment_effect_def set_new_payment_def

lemma site_asks:
  "initial (payment_site path ve) fresh_site
     = \<lparr>wst = fresh_site, pending = [(AppQ GetCSRFCookie, AppK CsrfReply)], timers = [], trace = []\<rparr>"
  "do_reply (payment_site ''/pay/p1'' ve) 0 (AppR (Resolved RVoid))
      \<lparr>wst = fresh_site, pending = [(AppQ GetCSRFCookie, AppK CsrfReply)], timers = [], trace = []\<rparr>
     = \<lparr>wst = fresh_site, pending = [(AppQ (GetPayment ''p1''), AppK (AppPaymentReply ''p1'' None))], timers = [], trace = []\<rparr>"
  by (simp add: initial_def site_pieces)
    (simp add: do_reply_def commit_def drop_nth_def path_p1 app_getPayment_def site_pieces)

lemma opened_site_reach: "areach (payment_site ''/pay/p1'' ve) site_start (opened_site ve p)"
proof -
  let ?c = "payment_site ''/pay/p1'' ve"
  have 0: "areach ?c site_start (initial ?c fresh_site)" by (rule areach.start) simp
  have 1: "areach ?c site_start (do_reply ?c 0 (AppR (Resolved RVoid)) (initial ?c fresh_site))"
    by (rule areach.step [OF 0 astep.reply]) (simp_all add: site_asks)
  show ?thesis unfolding opened_site_def Let_def
    by (rule areach.step [OF 1 astep.reply]) (simp_all add: site_asks)
qed

theorem navigation_safe_witness:
  "\<exists>h w. arun (payment_site ''/pay/p1'' (\<lambda>_. True)) site_start h w
     \<and> PageE (Goto ''/success/p1'' (sample_payment True StSuccess)) \<in> set (trace w)
     \<and> reported h (sample_payment True StSuccess)"
proof -
  let ?p = "sample_payment True StSuccess"
  let ?w = "opened_site (\<lambda>_. True) ?p"
  obtain h where r: "arun (payment_site ''/pay/p1'' (\<lambda>_. True)) site_start h ?w"
    using areach_arun [OF opened_site_reach] by blast
  have t: "PageE (Goto ''/success/p1'' ?p) \<in> set (trace ?w)"
    unfolding opened_site_def Let_def site_asks
    by (simp add: do_reply_def commit_def drop_nth_def site_pieces sample_defs)
  show ?thesis using navigation_safe [OF r t] r t by blast
qed

text \<open>C3. A payment is confirmed only by the customer and only when it is complete: a step that puts the confirming
  request on the wire is a submission of the form, on a page that shows that payment as the server has reported it
  and has a chosen method, an address and the accepted terms; and before it the server has stored a customer, with
  an address and the accepted terms, for a payment that it had reported, or has reported a payment that has a
  customer, and the same of a method.\<close>

theorem confirmation_guarded:
  assumes "arun (payment_site path ve) site_start h w" and "astep (payment_site path ve) w w'"
    and "(PageQ (PutPayment i), k) \<in> set (pending w')" and "(PageQ (PutPayment i), k) \<notin> set (pending w)"
  shows "w' = do_event (payment_site path ve) Submit w
    \<and> (\<exists>n p. pg_payment (st_page (wst w)) = Some (n, p) \<and> pay_id p = i \<and> reported h p)
    \<and> paymentMethod (st_page (wst w)) \<noteq> None
    \<and> f_email (form (st_page (wst w))) \<noteq> [] \<and> f_termsAccepted (form (st_page (wst w)))
    \<and> ((\<exists>p e consent k x. reported h p \<and> e \<noteq> []
          \<and> Answered (PageQ (SetCustomer (pay_id p) e consent True)) k (PageR (Resolved x)) \<in> set h)
       \<or> (\<exists>p. reported h p \<and> pay_customer p \<noteq> None))
    \<and> ((\<exists>p m k x. reported h p \<and> Answered (PageQ (SetPaymentMethod (pay_id p) m)) k (PageR (Resolved x)) \<in> set h)
       \<or> (\<exists>p. reported h p \<and> pay_method p \<noteq> None))"
proof -
  have known: "page_known (reported h) (customer_known h) (method_known h) (st_page (wst w))"
    using site.traced(1) [OF assms(1)] by (simp add: site_known_def)
  have page: "Await (PageQ (PutPayment i)) k \<notin> set (snd (page_piece oc s))"
    if "\<And>j. Await (PutPayment i) j \<notin> set (snd oc)" for oc s
    using that by (auto simp: page_piece_def map_cmd_await)
  have app: "Await (PageQ (PutPayment i)) k \<notin> set (snd (app_piece oc s))" for oc s
    by (auto simp: app_piece_def map_cmd_await)
  have "w' = do_event (payment_site path ve) Submit w \<and> (\<exists>j. Await (PutPayment i) j \<in> set (snd (page_on ve Submit (st_page (wst w)))))"
    using assms(2-4)
  proof (cases rule: new_request)
    case (event v)
    then have "Await (PageQ (PutPayment i)) k \<in> set (snd (site_on ve v (wst w)))" by simp
    then have "v \<noteq> PaymentLoaded p" for p by (auto simp: idle_def)
    then have "site_on ve v (wst w) = page_piece (page_on ve v (st_page (wst w))) (wst w)" by (cases v) auto
    then have "\<exists>j. Await (PutPayment i) j \<in> set (snd (page_on ve v (st_page (wst w))))"
      using event(2) page [of "page_on ve v (st_page (wst w))" "wst w"] by (auto simp del: page_on.simps)
    then obtain j where j: "Await (PutPayment i) j \<in> set (snd (page_on ve v (st_page (wst w))))" ..
    then show ?thesis using put_on event(1) by blast
  next
    case (reply j r)
    have "Await (PageQ (PutPayment i)) k \<notin> set (snd (site_resume path k' r s))" for k' s
      by (cases "(path, k', r, s)" rule: site_resume.cases) (auto simp: app page no_put_resume idle_def
          simp del: app_resume.simps page_resume.simps)
    then show ?thesis using reply(4) by simp
  next
    case (timer j)
    have "Await (PageQ (PutPayment i)) k \<notin> set (snd (site_timer k' s))" for k' s
      by (cases k') (auto simp: page no_put_timer idle_def simp del: page_timer.simps)
    then show ?thesis using timer(3) by simp
  next
    case (effect old s)
    have "Await (PageQ (PutPayment i)) k \<notin> set (snd (site_effects old s))"
      using page [OF no_put_effect] by (simp add: site_effects_def snd_andThen app)
    then show ?thesis using effect by simp
  qed
  then obtain j where w': "w' = do_event (payment_site path ve) Submit w"
    and "Await (PutPayment i) j \<in> set (snd (page_on ve Submit (st_page (wst w))))" by blast
  from put_on [OF this(2)] obtain n p where s: "schema_valid ve (form (st_page (wst w)))"
    "pg_payment (st_page (wst w)) = Some (n, p)" "pay_id p = i" "paymentMethod (st_page (wst w)) \<noteq> None"
    "emailFilled (st_page (wst w))" "currencyChosen (st_page (wst w))"
    by blast
  have "reported h p" "customer_known h" "method_known h" using known s by (auto simp: page_known_def)
  moreover have "f_email (form (st_page (wst w))) \<noteq> []" "f_termsAccepted (form (st_page (wst w)))"
    using s(1) by (auto simp: schema_valid_def schema_errors_def)
  ultimately show ?thesis
    using w' s by (intro conjI exI [of _ n] exI [of _ p]) (simp_all only: customer_known_def [symmetric] method_known_def [symmetric] not_False_eq_True)
qed

text \<open>A run of the site to its confirmation: a payment without a method and a customer, the address and the terms,
  the choice of a method, and the button. A piece that leaves the payment alone runs no effect.\<close>

definition in_step :: "site \<Rightarrow> bool" where
  "in_step s \<longleftrightarrow> app_payment (st_app s) = map_option snd (pg_payment (st_page s))"

lemma quiet_commit:
  assumes "in_step (wst w)" and "pg_payment p = pg_payment (st_page (wst w))"
  shows "commit (payment_site path ve) (wst w) (page_piece (p, cs) (wst w)) w'
    = issue (map (map_cmd PageQ PageK PageE) cs) (w'\<lparr>wst := (wst w)\<lparr>st_page := p\<rparr>\<rparr>)"
proof -
  have "share p (wst w) = (wst w)\<lparr>st_page := p\<rparr>" "share p ((wst w)\<lparr>st_page := p\<rparr>) = (wst w)\<lparr>st_page := p\<rparr>"
    using assms by (simp_all add: share_def in_step_def)
  moreover from this have "site_effects (wst w) ((wst w)\<lparr>st_page := p\<rparr>) = ((wst w)\<lparr>st_page := p\<rparr>, [])"
    using assms by (simp add: site_effects_def page_effects_def idle_def page_piece_def app_piece_def app_titles_def Let_def)
  ultimately show ?thesis by (simp add: commit_def page_piece_def)
qed

lemma quiet_event:
  assumes "in_step (wst w)" and "page_on ve v (st_page (wst w)) = (p, cs)" and "pg_payment p = pg_payment (st_page (wst w))"
    and "\<forall>x. v \<noteq> PaymentLoaded x"
  shows "do_event (payment_site path ve) v w = issue (map (map_cmd PageQ PageK PageE) cs) (w\<lparr>wst := (wst w)\<lparr>st_page := p\<rparr>\<rparr>)"
proof -
  have "site_on ve v (wst w) = page_piece (p, cs) (wst w)" using assms(2,4) by (cases v) auto
  then show ?thesis using quiet_commit [OF assms(1,3)] by (simp add: do_event_def)
qed

lemma quiet_reply:
  assumes "in_step (wst w)" and "pending w = [(PageQ q, PageK k)]" and "page_resume k a (st_page (wst w)) = (p, cs)"
    and "pg_payment p = pg_payment (st_page (wst w))"
  shows "do_reply (payment_site path ve) 0 (PageR a) w
    = issue (map (map_cmd PageQ PageK PageE) cs) (w\<lparr>pending := [], wst := (wst w)\<lparr>st_page := p\<rparr>\<rparr>)"
  using quiet_commit [OF assms(1,4)] assms(2,3) by (simp add: do_reply_def drop_nth_def)

text \<open>The states of that run: the page, with what is under way.\<close>

abbreviation "unpaid \<equiv> sample_payment False StPending"

abbreviation "eth \<equiv> sample_method ''ETH'' ''ETH''"

definition site_at :: "page \<Rightarrow> (site_request \<times> site_cont) list \<Rightarrow> (site, site_request, site_cont, site_effect) world" where
  "site_at p qs = \<lparr>wst = \<lparr>st_app = \<lparr>app_payment = Some unpaid, app_link = None,
       app_title = Some ''CryptoLink Payment: Shop''\<rparr>, st_page = p\<rparr>, pending = qs, timers = [], trace = []\<rparr>"

abbreviation "site_asked p q k \<equiv> site_at p [(PageQ q, PageK k)]"

lemma site_at_step:
  assumes "page_on ve v p = (p', cs)" and "pg_payment p = Some (0, unpaid)" and "pg_payment p' = Some (0, unpaid)"
    and "\<forall>x. v \<noteq> PaymentLoaded x"
  shows "astep (payment_site path ve) (site_at p []) (issue (map (map_cmd PageQ PageK PageE) cs) (site_at p' []))"
  using astep.event [of "payment_site path ve" "site_at p []" v] quiet_event [of "site_at p []" ve v p' cs path] assms
  by (simp add: site_at_def in_step_def)

lemma site_at_answer:
  assumes "page_resume k a p = (p', cs)" and "page_fits q a" and "pg_payment p = Some (0, unpaid)"
    and "pg_payment p' = Some (0, unpaid)"
  shows "astep (payment_site path ve) (site_asked p q k) (issue (map (map_cmd PageQ PageK PageE) cs) (site_at p' []))"
  using astep.reply [of 0 "site_asked p q k" "payment_site path ve" "PageR a"]
    quiet_reply [of "site_asked p q k" q k a p' cs path ve] assms
  by (simp add: site_at_def in_step_def)

definition shown_page :: "bool \<Rightarrow> bool \<Rightarrow> page" where
  "shown_page e m = (fresh_page (Some (0, unpaid)))
     \<lparr>form := \<lparr>f_email = ''a@b.co'', f_marketingConsent = False, f_termsAccepted = True\<rparr>,
      availableMethods := [eth], emailFilled := e, paymentMethod := (if m then Some eth else None)\<rparr>"

definition converted_page :: "bool \<Rightarrow> page" where
  "converted_page m = (shown_page True True)\<lparr>convertResult := Some sample_convert, currencyChosen := m\<rparr>"

lemmas run_defs = shown_page_def converted_page_def fresh_page_def sample_defs

lemma site_opened: "opened_site ve unpaid = site_asked (fresh_page (Some (0, unpaid))) (GetSupportedMethods ''p1'') (MethodsReply (0, unpaid))"
  unfolding opened_site_def Let_def site_asks
  by (simp add: do_reply_def commit_def drop_nth_def site_pieces site_at_def sample_defs)

text \<open>The steps of the run: the methods, the address, the terms, the customer, the method, its conversion, the
  method's answer.\<close>

lemma confirm_run:
  defines "ve \<equiv> \<lambda>_. True" and "path \<equiv> ''/pay/p1''"
  shows "areach (payment_site path ve) site_start (site_at (converted_page True) [])"
proof -
  let ?s = "astep (payment_site path ve)"
  let ?p0 = "fresh_page (Some (0, unpaid))"
  let ?p1 = "?p0\<lparr>availableMethods := [eth]\<rparr>"
  let ?p2 = "validate_form ve (?p1\<lparr>form := empty_form\<lparr>f_email := ''a@b.co''\<rparr>\<rparr>)"
  have 0: "areach (payment_site path ve) site_start (opened_site ve unpaid)"
    unfolding path_def by (rule opened_site_reach)
  have 1: "?s (opened_site ve unpaid) (site_at ?p1 [])"
    unfolding site_opened
    using site_at_answer [of "MethodsReply (0, unpaid)" "Resolved (RMethods [eth])" ?p0 ?p1 "[]"]
    by (simp add: set_payment_ref_def fresh_page_def)
  have 2: "?s (site_at ?p1 []) (site_at ?p2 [])"
    using site_at_step [of ve "ChangeEmail ''a@b.co''" ?p1 ?p2 "[]"] by (simp add: fresh_page_def validate_form_def)
  have 3: "?s (site_at ?p2 []) (site_asked (shown_page False False) (SetCustomer ''p1'' ''a@b.co'' False True) CustomerReply)"
    using site_at_step [of ve "ChangeTerms True" ?p2 "shown_page False False"
        "[Await (SetCustomer ''p1'' ''a@b.co'' False True) CustomerReply]"]
    by (simp add: run_defs site_at_def changeTerms_def submitCustomer_def validate_form_def schema_errors_def
        empty_form_def ve_def)
  have 4: "?s (site_asked (shown_page False False) (SetCustomer ''p1'' ''a@b.co'' False True) CustomerReply)
      (site_at (shown_page True False) [])"
    using site_at_answer [of CustomerReply "Resolved (RCustomer \<lparr>cust_email = ''a@b.co'', cust_id = ''c1''\<rparr>)"
        "shown_page False False" "shown_page True False" "[]"]
    by (simp add: run_defs)
  have 5: "?s (site_at (shown_page True False) [])
      (site_asked (shown_page True True) (CurrencyConvert ''USD'' (num_str (Fin 10)) ''ETH'' (Some ''p1'')) (CvSelect (0, unpaid) (Some eth)))"
    using site_at_step [of ve "SelectMethod ''ETH''" "shown_page True False" "shown_page True True"
        "[Await (CurrencyConvert ''USD'' (num_str (Fin 10)) ''ETH'' (Some ''p1'')) (CvSelect (0, unpaid) (Some eth))]"]
    by (simp add: run_defs site_at_def onSelectPaymentMethod_def getCryptoCurrencyConvert_def find_first_def Let_def)
  have 6: "?s (site_asked (shown_page True True) (CurrencyConvert ''USD'' (num_str (Fin 10)) ''ETH'' (Some ''p1'')) (CvSelect (0, unpaid) (Some eth)))
      (site_asked (converted_page False) (SetPaymentMethod ''p1'' eth) SetMethodReply)"
    using site_at_answer [of "CvSelect (0, unpaid) (Some eth)" "Resolved (RConvert sample_convert)" "shown_page True True"
        "converted_page False" "[Await (SetPaymentMethod ''p1'' eth) SetMethodReply]"]
    by (simp add: run_defs site_at_def)
  have 7: "?s (site_asked (converted_page False) (SetPaymentMethod ''p1'' eth) SetMethodReply) (site_at (converted_page True) [])"
    using site_at_answer [of SetMethodReply "Resolved (RMethod eth)" "converted_page False" "converted_page True" "[]"]
    by (simp add: run_defs)
  show ?thesis
    by (rule areach.step [OF areach.step [OF areach.step [OF areach.step [OF areach.step [OF areach.step [OF
      areach.step [OF 0 1] 2] 3] 4] 5] 6] 7])
qed

theorem confirmation_guarded_witness:
  "\<exists>h w. arun (payment_site ''/pay/p1'' (\<lambda>_. True)) site_start h w \<and> pending w = []
     \<and> (PageQ (PutPayment ''p1''), PageK (SubmitReply (0, unpaid)))
         \<in> set (pending (do_event (payment_site ''/pay/p1'' (\<lambda>_. True)) Submit w))
     \<and> reported h unpaid \<and> pay_customer unpaid = None \<and> pay_method unpaid = None"
proof -
  let ?c = "payment_site ''/pay/p1'' (\<lambda>_. True)" and ?w = "site_at (converted_page True) []"
  obtain h where r: "arun ?c site_start h ?w" using areach_arun [OF confirm_run] by blast
  have a: "astep ?c ?w (do_event ?c Submit ?w)" by (rule astep.event)
  have b: "(PageQ (PutPayment ''p1''), PageK (SubmitReply (0, unpaid))) \<in> set (pending (do_event ?c Submit ?w))"
    using quiet_event [of ?w "\<lambda>_. True" Submit "(validate_form (\<lambda>_. True) (converted_page True))\<lparr>touched_terms := True\<rparr>"
        "[Await (PutPayment ''p1'') (SubmitReply (0, unpaid))]" "''/pay/p1''"]
    by (simp add: in_step_def site_at_def run_defs handleSubmit_def onSubmit_def schema_valid_def
        schema_errors_def validate_form_def)
  have c: "pending ?w = []" by (simp add: site_at_def)
  have "reported h unpaid"
    using confirmation_guarded [OF r a b] c by (auto simp: site_at_def run_defs)
  moreover have "pay_customer unpaid = None" "pay_method unpaid = None" by (simp_all add: sample_payment_def)
  ultimately show ?thesis using r b c by blast
qed

end
