(* ===== verification/Dashboard_Types.thy ===== *)
theory Dashboard_Types
  imports Fiat Http
begin

text \<open>
  The data of the merchant dashboard (ui-dashboard/src/types/index.ts) and of its providers
  (the interfaces exported by ui-dashboard/src/providers/). An interface is a record, an optional or
  nullable field an option, a union of string literals a datatype when the code branches on it and
  a string otherwise.
\<close>

section \<open>Merchants and users\<close>

(* src: ui-dashboard/src/types/index.ts 3-6 MerchantBase *)
record merchant_base =
  mb_name :: string
  mb_website :: string

(* src: ui-dashboard/src/types/index.ts 17-20 WebhookSettings *)
record webhook_settings =
  wh_secret :: "string option"
  wh_url :: string

(* src: ui-dashboard/src/types/index.ts 22-23 BLOCKCHAIN *)
definition BLOCKCHAIN :: "string list" where
  "BLOCKCHAIN = [''ETH'', ''TRON'', ''MATIC'', ''BSC'', ''ARBITRUM'', ''AVAX'']"

(* src: ui-dashboard/src/types/index.ts 46-53 PaymentMethod *)
record dash_method =
  dm_blockchain :: string
  dm_blockchainName :: string
  dm_displayName :: string
  dm_enabled :: bool
  dm_name :: string
  dm_ticker :: string

(* src: ui-dashboard/src/types/index.ts 8-15 Merchant *)
record merchant = merchant_base +
  m_id :: string
  m_settings :: string
  m_fiatCurrency :: string
  m_fiatCurrencySymbol :: string
  m_webhookSettings :: webhook_settings
  supportedPaymentMethods :: "dash_method list"

(* src: ui-dashboard/src/types/index.ts 55-60 MerchantToken *)
record merchant_token =
  tok_name :: string
  tok_token :: string
  tok_id :: string
  tok_createdAt :: string

(* src: ui-dashboard/src/types/index.ts 62-74 User *)
record user =
  u_email :: string
  u_name :: string
  profileImageUrl :: string
  u_uuid :: string
  isSuperAdmin :: bool
  u_companyName :: "string option"
  u_address :: "string option"
  u_website :: "string option"
  u_phone :: "string option"
  emailVerified :: "bool option"
  u_marketingConsent :: "bool option"

(* src: ui-dashboard/src/types/index.ts 76-78 AuthProvider *)
record auth_provider =
  ap_name :: string

(* src: ui-dashboard/src/types/index.ts 80-90 UserCreateForm *)
record user_form =
  uf_email :: string
  uf_password :: string
  uf_name :: "string option"
  uf_companyName :: "string option"
  uf_address :: "string option"
  uf_website :: "string option"
  uf_phone :: "string option"
  uf_marketingConsent :: "bool option"
  uf_termsAccepted :: "bool option"

section \<open>Balances and withdrawals\<close>

(* src: ui-dashboard/src/types/index.ts 92-103 MerchantBalance *)
record merchant_balance =
  bal_amount :: string
  usdAmount :: string
  bal_blockchain :: string
  bal_blockchainName :: string
  bal_currency :: string
  bal_id :: string
  bal_isTest :: bool
  minimalWithdrawalAmountUSD :: string
  bal_name :: string
  bal_ticker :: string

(* src: ui-dashboard/src/types/index.ts 105-109 Withdrawal *)
record withdrawal =
  wd_addressId :: string
  wd_amount :: string
  wd_balanceId :: string

(* src: ui-dashboard/src/types/index.ts 135-142 ServiceFee *)
record service_fee =
  sf_blockchain :: string
  calculatedAt :: string
  sf_currency :: string
  currencyFee :: string
  sf_isTest :: bool
  usdFee :: string

(* src: ui-dashboard/src/types/index.ts 294-298 ConvertParams *)
record convert_params =
  cv_from :: string
  cv_amount :: string
  cv_to :: string

(* src: ui-dashboard/src/types/index.ts 300-305 ConvertResult *)
record dash_convert_result =
  convertedAmount :: string
  dc_exchangeRate :: jsnum
  dc_from :: string
  dc_to :: string

section \<open>Payments\<close>

(* src: ui-dashboard/src/types/index.ts 131-131 PaymentType *)
datatype payment_type = TPayment | TWithdrawal

(* src: ui-dashboard/src/types/index.ts 133-133 PaymentStatus *)
datatype dash_status = DPending | DInProgress | DSuccess | DFailed | DUnderpaid

(* src: ui-dashboard/src/types/index.ts 144-152 PaymentParams *)
record payment_params =
  pp_id :: string
  pp_orderId :: "jsnum option"
  pp_price :: jsnum
  pp_currency :: string
  pp_redirectUrl :: "string option"
  pp_isTest :: "bool option"
  pp_description :: "string option"

(* src: ui-dashboard/src/types/index.ts 154-164 AdditionalPaymentInfo *)
record additional_payment =
  customerEmail :: string
  selectedCurrency :: string
  ap_serviceFee :: string
  transactionHash :: "string option"
  explorerLink :: "string option"
  senderAddress :: "string option"
  networkFee :: "string option"
  ap_cryptoAmount :: "string option"
  cryptoTicker :: "string option"

(* src: ui-dashboard/src/types/index.ts 166-172 AdditionalWithdrawalInfo *)
record additional_withdrawal =
  aw_addressId :: string
  aw_balanceId :: string
  aw_explorerLink :: "string option"
  aw_serviceFee :: string
  aw_transactionHash :: "string option"

(* src: ui-dashboard/src/types/index.ts 174-177 AdditionalInfo *)
record additional_info =
  ai_payment :: "additional_payment option"
  ai_withdrawal :: "additional_withdrawal option"

(* src: ui-dashboard/src/types/index.ts 179-192 Payment *)
record dash_payment =
  additionalInfo :: "additional_info option"
  dp_id :: string
  orderId :: "string option"
  dp_type :: payment_type
  dp_status :: dash_status
  dp_createdAt :: string
  dp_currency :: string
  dp_price :: string
  redirectUrl :: "string option"
  paymentUrl :: "string option"
  dp_description :: "string option"
  isTest :: bool

(* src: ui-dashboard/src/types/index.ts 208-213 ListPaymentParams *)
record list_payment_params =
  lp_limit :: "nat option"
  lp_cursor :: "string option"
  lp_reverseOrder :: "bool option"
  lp_type :: "payment_type option"

(* src: ui-dashboard/src/types/index.ts 240-244 PaymentsPagination *)
record payments_page =
  pgn_limit :: nat
  pgn_cursor :: string
  pgn_results :: "dash_payment list"

section \<open>Addresses, links, customers\<close>

(* src: ui-dashboard/src/types/index.ts 202-206 MerchantAddressParams *)
record address_params =
  ma_address :: string
  ma_blockchain :: string
  ma_name :: string

(* src: ui-dashboard/src/types/index.ts 194-200 MerchantAddress *)
record merchant_address = address_params +
  ma_blockchainName :: string
  ma_id :: string

(* src: ui-dashboard/src/types/index.ts 215-215 PaymentLinkAction *)
datatype link_action = LRedirect | LShowMessage

(* src: ui-dashboard/src/types/index.ts 217-225 PaymentLinkParams *)
record link_params =
  lk_currency :: string
  lk_description :: "string option"
  lk_name :: string
  lk_price :: jsnum
  lk_redirectUrl :: "string option"
  lk_successAction :: link_action
  lk_successMessage :: "string option"

(* src: ui-dashboard/src/types/index.ts 227-238 PaymentLink *)
record dash_link = link_params +
  lk_createdAt :: string
  lk_id :: string
  lk_url :: string

(* src: ui-dashboard/src/types/index.ts 257-260 SupportMessage *)
record support_message =
  sm_topic :: string
  sm_message :: string

(* src: ui-dashboard/src/types/index.ts 262-268 CustomerPayment *)
record customer_payment =
  cp_createdAt :: string
  cp_currency :: string
  cp_id :: string
  cp_price :: string
  cp_status :: dash_status

(* src: ui-dashboard/src/types/index.ts 270-273 CustomerDetails *)
record customer_details =
  cd_payments :: "customer_payment list"
  successfulPayments :: nat

(* src: ui-dashboard/src/types/index.ts 275-280 Customer *)
record dash_customer =
  cu_createdAt :: string
  cu_details :: "customer_details option"
  cu_email :: string
  cu_id :: string

(* src: ui-dashboard/src/types/index.ts 282-286 CustomerPagination *)
record customers_page =
  cpg_cursor :: string
  cpg_limit :: nat
  cpg_results :: "dash_customer list"

(* src: ui-dashboard/src/types/index.ts 288-292 ListCustomersParams *)
record list_customers_params =
  lc_limit :: "nat option"
  lc_cursor :: "string option"
  lc_reverseOrder :: "bool option"

section \<open>Types of the providers\<close>

(* src: ui-dashboard/src/providers/subscription-provider.ts 4-15 SubscriptionPlan *)
record subscription_plan =
  sp_id :: string
  plan_name :: string
  plan_description :: string
  price_usd :: string
  billing_period :: string
  max_payments_monthly :: "int option"
  max_merchants :: int
  max_api_calls_monthly :: "int option"
  max_volume_monthly_usd :: "string option"
  features :: jval

(* src: ui-dashboard/src/providers/subscription-provider.ts 17-25 SubscriptionInfo *)
record subscription_info =
  si_uuid :: string
  si_plan_id :: string
  si_status :: string
  current_period_start :: string
  current_period_end :: string
  auto_renew :: bool
  si_plan :: "subscription_plan option"

(* src: ui-dashboard/src/providers/subscription-provider.ts 27-33 UsageInfo *)
record usage_info =
  payment_count :: nat
  payment_volume_usd :: string
  api_calls_count :: nat
  period_start :: string
  period_end :: string

(* src: ui-dashboard/src/providers/subscription-provider.ts 35-38 CurrentSubscription *)
record current_subscription =
  cs_subscription :: "subscription_info option"
  cs_usage :: "usage_info option"

(* src: ui-dashboard/src/providers/xpub-provider.ts 4-10 XpubWallet *)
record xpub_wallet =
  xw_uuid :: string
  xw_blockchain :: string
  derivationPath :: string
  lastDerivedIndex :: nat
  xw_createdAt :: string

(* src: ui-dashboard/src/providers/xpub-provider.ts 21-25 CreateXpubWalletRequest *)
record create_xpub =
  cx_blockchain :: string
  cx_xpub :: string
  cx_derivationPath :: "string option"

(* src: ui-dashboard/src/providers/evm-collector-provider.ts 4-13 EvmCollector *)
record evm_collector =
  ec_uuid :: string
  ec_blockchain :: string
  ec_chainId :: nat
  contractAddress :: string
  ownerAddress :: string
  factoryAddress :: string
  isActive :: bool
  ec_createdAt :: string

(* src: ui-dashboard/src/providers/evm-collector-provider.ts 15-21 SetupCollectorRequest *)
record setup_collector =
  sc_blockchain :: string
  sc_ownerAddress :: string
  sc_contractAddress :: string
  sc_chainId :: nat
  sc_factoryAddress :: string

(* src: ui-dashboard/src/providers/evm-collector-provider.ts 23-28 TokenBalance *)
record token_balance =
  tb_contract :: string
  tb_ticker :: string
  tb_amount :: string
  tb_usdAmount :: string

(* src: ui-dashboard/src/providers/evm-collector-provider.ts 30-37 CollectorBalance *)
record collector_balance =
  native_amount :: string
  native_ticker :: string
  native_usdAmount :: string
  cb_tokens :: "token_balance list"

(* src: ui-dashboard/src/providers/admin-provider.ts 9-21 CreatePlanParams *)
record create_plan_params =
  cpp_id :: string
  cpp_name :: string
  cpp_description :: string
  cpp_price_usd :: jsnum
  cpp_billing_period :: string
  cpp_max_payments_monthly :: "jsnum option"
  cpp_max_merchants :: jsnum
  cpp_max_api_calls_monthly :: "jsnum option"
  cpp_max_volume_monthly_usd :: "jsnum option"
  cpp_features :: "(string \<times> jval) list"
  cpp_is_active :: bool

(* src: ui-dashboard/src/providers/admin-provider.ts 54-65 EmailSettingsUpdate *)
record email_settings =
  smtp_host :: string
  smtp_port :: jsnum
  smtp_user :: string
  from_name :: string
  from_email :: string
  es_is_active :: bool
  smtp_pass :: string

text \<open>A step of a new marketing sequence, and the sequence.\<close>

record sequence_step =
  ss_template_id :: string
  ss_offset_hours :: jsnum
  ss_subject_override :: "string option"

(* src: ui-dashboard/src/providers/admin-provider.ts 126-132 CreateSequenceParams *)
record create_sequence_params =
  csp_name :: string
  csp_audience :: string
  csp_skip_if_converted :: bool
  csp_start_at :: "string option"
  csp_steps :: "sequence_step list"

end
