(* ===== verification/Api_Client.thy ===== *)
theory Api_Client
  imports Http
begin

text \<open>
  The dashboard's HTTP client (ui-dashboard/src/utils/api-request.ts): the request interceptor that
  blocks URLs with a null or undefined segment, and the response interceptor that turns failures
  into notifications, swallows some of them and retries once after refreshing the CSRF token
  (\<open>getCookie\<close> of ui-dashboard/src/providers/auth-provider.ts, which goes through the same
  client). At the end, the payment page's client (ui-payment/src/utils/apiRequest.ts).

  The network is a parameter: what it answers to the n-th request sent. axios runs a rejection of
  the request interceptor through the response interceptor, as its documentation says, so a blocked
  request reaches the handler as an error without a response. The recursion through \<open>getCookie\<close>
  has fuel; \<open>None\<close> is a call that has not returned.
\<close>

section \<open>The request guard\<close>

text \<open>
  The regular expression: somewhere a slash and the word null or undefined, followed by a slash or
  the end of the URL.
\<close>

definition guard_here :: "string \<Rightarrow> string \<Rightarrow> bool" where
  "guard_here w s \<longleftrightarrow> starts_with s (''/'' @ w @ ''/'') \<or> s = ''/'' @ w"

fun guard_from :: "string \<Rightarrow> string \<Rightarrow> bool" where
  "guard_from w [] = guard_here w []"
| "guard_from w (c # s) = (guard_here w (c # s) \<or> guard_from w s)"

(* src: ui-dashboard/src/utils/api-request.ts 26-32 interceptors.request *)
definition blocked_url :: "string \<Rightarrow> bool" where
  "blocked_url url \<longleftrightarrow> url \<noteq> [] \<and> (guard_from ''null'' url \<or> guard_from ''undefined'' url)"

section \<open>The response interceptor\<close>

record notification =
  note_message :: string
  note_description :: string

datatype api_error = HttpError http_response | NetworkError string | Canceled string

text \<open>How the promise of a call settles: with a response, with \<open>undefined\<close>, or rejected.\<close>

datatype api_result = Got http_response | GotUndefined | Failed api_error

record api_state =
  csrf_default :: "string option"
  toasts :: "notification list"
  sent :: "http_request list"

type_synonym network = "nat \<Rightarrow> http_request \<Rightarrow> transport"

definition notify :: "string \<Rightarrow> string \<Rightarrow> api_state \<Rightarrow> api_state" where
  "notify m d st = st\<lparr>toasts := toasts st @ [\<lparr>note_message = m, note_description = d\<rparr>]\<rparr>"

text \<open>Putting a request on the wire, with the default CSRF header.\<close>

definition transmit :: "network \<Rightarrow> http_request \<Rightarrow> api_state \<Rightarrow> transport \<times> api_state" where
  "transmit net r st =
     (let r' = (case req_csrf r of
                  None \<Rightarrow> r\<lparr>req_csrf := csrf_default st\<rparr> | Some _ \<Rightarrow> r)
      in (net (length (sent st)) r', st\<lparr>sent := sent st @ [r']\<rparr>))"

text \<open>The notification of a 400 answer: the messages of its items, joined.\<close>

(* src: ui-dashboard/src/utils/api-request.ts 41-71 errors *)
definition notify_400 :: "bool \<Rightarrow> error_response \<Rightarrow> error_item list \<Rightarrow> api_state \<Rightarrow> api_state" where
  "notify_400 silent response items st =
     (let errors = (if length items \<noteq> 0 then join_with '', '' (map ei_message items) else []) in
      if silent then st
      else if er_status response = ''validation_error'' then
        notify (er_message response)
          (if errors = [] then ''Validation error'' else ''Validation error: '' @ errors @ ''.'') st
      else
        notify (er_message response)
          (if errors = [] then ''Validation error''
           else ''Got the following errors: '' @ errors @ ''.'') st)"

definition csrf_url :: string where
  "csrf_url = ''/api/dashboard/v1/auth/csrf-cookie''"

text \<open>
  The retry is \<open>axios.request\<close>, not the client: no interceptor sees its answer.
\<close>

definition plain_send :: "network \<Rightarrow> http_request \<Rightarrow> api_state \<Rightarrow> api_result \<times> api_state" where
  "plain_send net r st =
     (case transmit net r st of
        (NoAnswer m, st') \<Rightarrow> (Failed (NetworkError m), st')
      | (Answer a, st') \<Rightarrow>
          (if success_status (status a) then Got a else Failed (HttpError a), st'))"

text \<open>
  \<open>getCookie\<close> on the answer of its own request: it stores the header as the new default and
  returns it, and throws where the client delivered \<open>undefined\<close> or rejected.
\<close>

(* src: ui-dashboard/src/providers/auth-provider.ts 6-12 getCookie *)
fun getCookie_result :: "api_result \<times> api_state \<Rightarrow> string option \<times> api_state" where
  "getCookie_result (Got a, st) =
     (Some (case rcsrf a of None \<Rightarrow> [] | Some t \<Rightarrow> t), st\<lparr>csrf_default := rcsrf a\<rparr>)"
| "getCookie_result (GotUndefined, st) = (None, st)"
| "getCookie_result (Failed _, st) = (None, st)"

(* src: ui-dashboard/src/utils/api-request.ts 17-94 apiRequest *)
fun api_call :: "nat \<Rightarrow> network \<Rightarrow> http_request \<Rightarrow> api_state \<Rightarrow> (api_result \<times> api_state) option" where
  "api_call 0 net r st = None"
| "api_call (Suc n) net r st =
     (if blocked_url (req_url r) then Some (GotUndefined, st)
      else case transmit net r st of
        (NoAnswer m, st1) \<Rightarrow> Some (GotUndefined, st1)
      | (Answer a, st1) \<Rightarrow>
          if success_status (status a) then Some (Got a, st1)
          else if status a = 400 then
            (case rerror a of
               None \<Rightarrow> Some (GotUndefined, st1)
             | Some e \<Rightarrow>
                 (case er_errors e of
                    None \<Rightarrow> Some (GotUndefined, st1)
                  | Some items \<Rightarrow>
                      Some (Failed (HttpError a), notify_400 (req_silent r) e items st1)))
          else if status a = 404 then Some (Failed (HttpError a), st1)
          else if status a = 403 then
            (case api_call n net (request GET csrf_url) st1 of
               None \<Rightarrow> None
             | Some res \<Rightarrow>
                 (case getCookie_result res of
                    (None, st2) \<Rightarrow> Some (Failed (HttpError a), st2)
                  | (Some newToken, st2) \<Rightarrow>
                      if length newToken \<noteq> 0
                      then Some (plain_send net (r\<lparr>req_csrf := Some newToken\<rparr>) st2)
                      else Some (Failed (HttpError a), st2)))
          else if status a \<noteq> 401 \<and> \<not> req_silent r then
            Some (Failed (HttpError a), notify ''Something went wrong''
              (''Request failed with status code '' @ show_nat (status a)) st1)
          else Some (Failed (HttpError a), st1))"

section \<open>The payment page's client\<close>

text \<open>
  Every rejection goes on to the caller; the ones without a response also raise the alert box with
  the error's message.
\<close>

(* src: ui-payment/src/utils/apiRequest.ts 14-20 interceptors.response *)
definition payment_interceptor :: "api_error \<Rightarrow> string option \<times> api_error" where
  "payment_interceptor e =
     (case e of
        HttpError a \<Rightarrow> (None, e)
      | NetworkError m \<Rightarrow> (Some m, e)
      | Canceled m \<Rightarrow> (Some m, e))"

section \<open>Lemmas\<close>

lemma guard_here_iff:
  "guard_here w s \<longleftrightarrow> (\<exists>r. s = ''/'' @ w @ r \<and> (r = [] \<or> hd r = CHR ''/''))"
proof
  assume "guard_here w s"
  then consider r where "s = ''/'' @ w @ ''/'' @ r" | "s = ''/'' @ w @ []"
    by (auto simp: guard_here_def starts_with_iff)
  then show "\<exists>r. s = ''/'' @ w @ r \<and> (r = [] \<or> hd r = CHR ''/'')"
    by cases (metis append_Cons list.sel(1), blast)
next
  assume "\<exists>r. s = ''/'' @ w @ r \<and> (r = [] \<or> hd r = CHR ''/'')"
  then obtain r where r: "s = ''/'' @ w @ r" "r = [] \<or> hd r = CHR ''/''" by blast
  show "guard_here w s"
  proof (cases r)
    case Nil
    with r show ?thesis by (simp add: guard_here_def)
  next
    case (Cons c r')
    with r have "s = (''/'' @ w @ ''/'') @ r'" by simp
    then have "starts_with s (''/'' @ w @ ''/'')" unfolding starts_with_iff by blast
    then show ?thesis by (simp add: guard_here_def)
  qed
qed

lemma split_first:
  "CHR ''/'' \<notin> set w \<Longrightarrow>
     (\<exists>r. s = w @ r \<and> (r = [] \<or> hd r = CHR ''/'')) \<longleftrightarrow> hd (split_on CHR ''/'' s) = w"
proof (induction s arbitrary: w)
  case Nil
  then show ?case by auto
next
  case (Cons c s)
  obtain p ps where p: "split_on CHR ''/'' s = p # ps" using split_on_Cons by blast
  show ?case
  proof (cases "c = CHR ''/''")
    case True
    with Cons.prems show ?thesis by (cases w) auto
  next
    case False
    show ?thesis
    proof (cases w)
      case Nil
      with False p show ?thesis by auto
    next
      case (Cons d w')
      then show ?thesis using False p Cons.prems Cons.IH [of w'] by auto
    qed
  qed
qed

text \<open>The guard looks for a whole path segment, the first one excepted.\<close>

lemma guard_from_segment:
  assumes w: "CHR ''/'' \<notin> set w"
  shows "guard_from w s \<longleftrightarrow> w \<in> set (tl (split_on CHR ''/'' s))"
proof (induction s)
  case Nil
  then show ?case by (simp add: guard_here_def starts_with_def)
next
  case (Cons c s)
  obtain p ps where p: "split_on CHR ''/'' s = p # ps" using split_on_Cons by blast
  show ?case
  proof (cases "c = CHR ''/''")
    case True
    then have "guard_here w (c # s) \<longleftrightarrow> (\<exists>r. s = w @ r \<and> (r = [] \<or> hd r = CHR ''/''))"
      by (auto simp: guard_here_iff)
    also have "\<dots> \<longleftrightarrow> p = w" using split_first [OF w, of s] p by simp
    finally show ?thesis using True Cons p by auto
  next
    case False
    then have "\<not> guard_here w (c # s)" by (auto simp: guard_here_iff)
    with False Cons p show ?thesis by simp
  qed
qed

lemma transmit_sent: "transmit net r st = (t, st') \<Longrightarrow> length (sent st') = Suc (length (sent st))"
  by (auto simp: transmit_def Let_def)

lemma transmit_frame:
  "transmit net r st = (t, st') \<Longrightarrow> toasts st' = toasts st \<and> csrf_default st' = csrf_default st"
  by (auto simp: transmit_def Let_def)

lemma plain_send_frame:
  "plain_send net r st = (x, st') \<Longrightarrow>
     toasts st' = toasts st \<and> length (sent st') = Suc (length (sent st))"
  by (auto simp: plain_send_def transmit_def Let_def split: transport.splits prod.splits)

lemma notify_frame [simp]:
  "sent (notify m d st) = sent st" "csrf_default (notify m d st) = csrf_default st"
  "sent (notify_400 b e i st) = sent st" "csrf_default (notify_400 b e i st) = csrf_default st"
  by (simp_all add: notify_def notify_400_def Let_def)

lemma notify_400_silent [simp]: "notify_400 True e i st = st"
  by (simp add: notify_400_def)

lemma getCookie_frame:
  "getCookie_result (res, st) = (t, st') \<Longrightarrow> sent st' = sent st \<and> toasts st' = toasts st"
  by (cases res) auto

lemma csrf_not_blocked: "\<not> blocked_url csrf_url"
proof -
  have "split_on CHR ''/'' csrf_url
      = [[], ''api'', ''dashboard'', ''v1'', ''auth'', ''csrf-cookie'']"
    by (simp add: csrf_url_def)
  then show ?thesis by (simp add: blocked_url_def guard_from_segment)
qed

lemma fst_transmit: "fst (transmit net r st) = net (length (sent st))
    (case req_csrf r of None \<Rightarrow> r\<lparr>req_csrf := csrf_default st\<rparr> | Some _ \<Rightarrow> r)"
  by (simp add: transmit_def Let_def)

lemma transmit_net:
  "transmit net r st = (t, st') \<Longrightarrow> \<exists>k r'. req_url r' = req_url r \<and> t = net k r'"
proof -
  define r' where "r' = (case req_csrf r of None \<Rightarrow> r\<lparr>req_csrf := csrf_default st\<rparr> | Some _ \<Rightarrow> r)"
  assume "transmit net r st = (t, st')"
  then have "t = net (length (sent st)) r'" by (simp add: transmit_def Let_def r'_def)
  moreover have "req_url r' = req_url r" by (simp add: r'_def split: option.split)
  ultimately show ?thesis by blast
qed

text \<open>An answer without data and a client that has sent nothing yet, for the concrete instances.\<close>

definition bare_answer :: "nat \<Rightarrow> http_response" where
  "bare_answer c = \<lparr>status = c, rdata = JNull, rerror = None, rcsrf = None\<rparr>"

definition fresh_api :: api_state where
  "fresh_api = \<lparr>csrf_default = None, toasts = [], sent = []\<rparr>"

lemma status_bare [simp]: "status (bare_answer c) = c" "rerror (bare_answer c) = None"
  by (simp_all add: bare_answer_def)

text \<open>What is assumed of the server's answers to the CSRF cookie request.\<close>

definition csrf_always :: "nat \<Rightarrow> network \<Rightarrow> bool" where
  "csrf_always c net \<longleftrightarrow>
     (\<forall>k r'. req_url r' = csrf_url \<longrightarrow> (\<exists>a. net k r' = Answer a \<and> status a = c))"

definition csrf_never :: "nat \<Rightarrow> network \<Rightarrow> bool" where
  "csrf_never c net \<longleftrightarrow>
     (\<forall>k r' a. req_url r' = csrf_url \<longrightarrow> net k r' = Answer a \<longrightarrow> status a \<noteq> c)"

lemma csrf_transmit:
  assumes "transmit net (request GET csrf_url) st = (t, st')"
  shows "csrf_always c net \<Longrightarrow> \<exists>a. t = Answer a \<and> status a = c"
    and "csrf_never c net \<Longrightarrow> t = Answer a \<Longrightarrow> status a \<noteq> c"
proof -
  obtain k r' where "req_url r' = csrf_url" "t = net k r'"
    using transmit_net [OF assms] by auto
  then show "csrf_always c net \<Longrightarrow> \<exists>a. t = Answer a \<and> status a = c"
    and "csrf_never c net \<Longrightarrow> t = Answer a \<Longrightarrow> status a \<noteq> c"
    unfolding csrf_always_def csrf_never_def by metis+
qed

lemma plain_send_not_undefined: "fst (plain_send net r st) \<noteq> GotUndefined"
  by (auto simp: plain_send_def split: prod.split transport.split)

text \<open>The call for the CSRF cookie, when the server does not answer it with 403.\<close>

lemma csrf_call_returns:
  assumes "csrf_never 403 net"
  shows "\<exists>res st'. api_call (Suc n) net (request GET csrf_url) st = Some (res, st')
    \<and> length (sent st') = Suc (length (sent st))"
proof -
  obtain t st1 where t: "transmit net (request GET csrf_url) st = (t, st1)" by (metis surj_pair)
  note l = transmit_sent [OF t]
  have "status a \<noteq> 403" if "t = Answer a" for a
    using csrf_transmit(2) [OF t assms that] .
  then show ?thesis
    using csrf_not_blocked l
    by (cases t) (auto simp: t split: option.split)
qed

lemma first_silent:
  assumes "req_silent r" and "api_call (Suc n) net r st = Some (res, st')"
    and "\<And>a. fst (transmit net r st) = Answer a \<Longrightarrow> status a \<noteq> 403"
  shows "toasts st' = toasts st"
proof (cases "blocked_url (req_url r)")
  case True
  with assms(2) show ?thesis by simp
next
  case False
  obtain t st1 where t: "transmit net r st = (t, st1)" by (metis surj_pair)
  note fr = transmit_frame [OF t]
  show ?thesis
    using assms fr False by (cases t) (auto simp: t split: if_splits option.splits)
qed

section \<open>Properties\<close>

text \<open>The request guard blocks a URL exactly when a path segment after the first is the word
  null or undefined: the regular expression never blocks an identifier that merely contains the
  word, and never lets such a segment through in the middle or at the end of the path.\<close>

lemma blocked_segments:
  "blocked_url url \<longleftrightarrow>
     (''null'' \<in> set (tl (split_on CHR ''/'' url)) \<or> ''undefined'' \<in> set (tl (split_on CHR ''/'' url)))"
  by (cases url) (simp_all add: blocked_url_def guard_from_segment del: guard_from.simps)

text \<open>C26. When a call of the HTTP client settles without a response object and without an error:
  exactly for a blocked URL, for a request the network never answered, and for a 400 answer without a
  list of errors. In these cases the failure is swallowed and the caller continues as after a
  success.\<close>

theorem swallowed_iff:
  "(\<exists>st'. api_call (Suc n) net r st = Some (GotUndefined, st')) \<longleftrightarrow>
     blocked_url (req_url r)
     \<or> (\<exists>m. fst (transmit net r st) = NoAnswer m)
     \<or> (\<exists>a. fst (transmit net r st) = Answer a \<and> status a = 400
           \<and> Option.bind (rerror a) er_errors = None)"
proof (cases "blocked_url (req_url r)")
  case True
  then show ?thesis by simp
next
  case False
  obtain t st1 where t: "transmit net r st = (t, st1)" by (metis surj_pair)
  show ?thesis
  proof (cases t)
    case (NoAnswer m)
    with False show ?thesis by (simp add: t)
  next
    case (Answer a)
    have p: "plain_send net r' s \<noteq> (GotUndefined, s')" for r' s s'
      using plain_send_not_undefined [of net r' s] by auto
    show ?thesis
      using False Answer
      by (auto simp: t p success_status_def bind_eq_None_conv split: option.splits prod.splits)
  qed
qed

text \<open>C27. When the server does not answer the CSRF cookie request itself with 403, every call of the
  client returns with at most two nested calls and puts at most three requests on the wire: the
  request, the cookie request, and one retry.\<close>

theorem api_call_bounded:
  assumes "csrf_never 403 net"
  shows "\<exists>res st'. api_call (Suc (Suc n)) net r st = Some (res, st')
    \<and> length (sent st') \<le> length (sent st) + 3"
proof (cases "blocked_url (req_url r)")
  case True
  then show ?thesis by simp
next
  case False
  obtain t st1 where t: "transmit net r st = (t, st1)" by (metis surj_pair)
  note l = transmit_sent [OF t]
  obtain x st2 where c: "api_call (Suc n) net (request GET csrf_url) st1 = Some (x, st2)"
      "length (sent st2) = Suc (length (sent st1))"
    using csrf_call_returns [OF assms] by blast
  obtain tok st3 where g: "getCookie_result (x, st2) = (tok, st3)" by (metis surj_pair)
  note gl = getCookie_frame [OF g]
  have p: "length (sent (snd (plain_send net r' st3))) = Suc (length (sent st3))" for r'
    using plain_send_frame [of net r' st3] by (cases "plain_send net r' st3") auto
  show ?thesis
  proof (cases t)
    case (NoAnswer m)
    with False l show ?thesis by (simp add: t)
  next
    case (Answer a)
    have "\<exists>res st'. api_call (Suc (Suc n)) net r st = Some (res, st')
        \<and> length (sent st') \<le> length (sent st) + 3" if s: "status a = 403"
    proof -
      define out where "out = (case tok of None \<Rightarrow> (Failed (HttpError a), st3)
          | Some tk \<Rightarrow> if length tk \<noteq> 0 then plain_send net (r\<lparr>req_csrf := Some tk\<rparr>) st3
                       else (Failed (HttpError a), st3))"
      have "api_call (Suc (Suc n)) net r st = Some out"
        using False c(1) s
        by (simp add: api_call.simps(2) [of "Suc n"] t Answer g success_status_def out_def
            del: api_call.simps(2) split: option.split)
      moreover have "length (sent (snd out)) \<le> length (sent st) + 3"
        using l c(2) gl p by (simp add: out_def split: option.split)
      ultimately show ?thesis by (cases out) simp
    qed
    moreover have "\<exists>res st'. api_call (Suc (Suc n)) net r st = Some (res, st')
        \<and> length (sent st') \<le> length (sent st) + 3" if "status a \<noteq> 403"
    proof -
      have "api_call (Suc (Suc n)) net r st
        = (if success_status (status a) then Some (Got a, st1)
           else if status a = 400 then
             (case rerror a of None \<Rightarrow> Some (GotUndefined, st1)
              | Some e \<Rightarrow> (case er_errors e of None \<Rightarrow> Some (GotUndefined, st1)
                 | Some i \<Rightarrow> Some (Failed (HttpError a), notify_400 (req_silent r) e i st1)))
           else if status a = 404 then Some (Failed (HttpError a), st1)
           else if status a \<noteq> 401 \<and> \<not> req_silent r then
             Some (Failed (HttpError a), notify ''Something went wrong''
               (''Request failed with status code '' @ show_nat (status a)) st1)
           else Some (Failed (HttpError a), st1))"
        using False that by (simp only: api_call.simps(2) [of "Suc n"] t Answer prod.case transport.case if_False)
      then show ?thesis using l by (simp split: option.split)
    qed
    ultimately show ?thesis by blast
  qed
qed

theorem api_call_bounded_witness:
  "csrf_never 403 (\<lambda>_ _. Answer (bare_answer 401))
   \<and> (\<exists>res st'. api_call 2 (\<lambda>_ _. Answer (bare_answer 401)) (request GET ''/merchant'') fresh_api
        = Some (res, st') \<and> length (sent st') \<le> 3)"
proof -
  have n: "csrf_never 403 (\<lambda>_ _. Answer (bare_answer 401))" by (simp add: csrf_never_def)
  show ?thesis
    using n api_call_bounded [OF n, of 0 "request GET ''/merchant''" fresh_api]
    by (simp add: fresh_api_def numeral_2_eq_2)
qed

text \<open>C28. When the server answers the CSRF cookie request with 403, the client never returns from
  it: the handler of the 403 asks for the cookie again, through the same interceptor.\<close>

theorem csrf_forbidden_diverges:
  assumes "csrf_always 403 net"
  shows "api_call n net (request GET csrf_url) st = None"
proof (induction n arbitrary: st)
  case 0
  then show ?case by simp
next
  case (Suc n)
  obtain t st1 where t: "transmit net (request GET csrf_url) st = (t, st1)" by (metis surj_pair)
  then obtain a where "t = Answer a" "status a = 403"
    using csrf_transmit(1) [OF t assms] by blast
  then show ?case using Suc csrf_not_blocked by (simp add: t success_status_def)
qed

theorem csrf_forbidden_diverges_witness:
  "csrf_always 403 (\<lambda>_ _. Answer (bare_answer 403))
   \<and> api_call 100 (\<lambda>_ _. Answer (bare_answer 403)) (request GET csrf_url) fresh_api = None"
  using csrf_forbidden_diverges [of "\<lambda>_ _. Answer (bare_answer 403)" 100]
  by (simp add: csrf_always_def del: api_call.simps)

text \<open>A silent request never raises a notification, as long as its answer is not a 403: neither
  the validation messages of a 400 nor the generic message of other failures are shown.\<close>

lemma silent_no_toast:
  assumes "req_silent r" and "api_call n net r st = Some (res, st')"
    and "\<And>a. fst (transmit net r st) = Answer a \<Longrightarrow> status a \<noteq> 403"
  shows "toasts st' = toasts st"
proof (cases n)
  case 0
  with assms(2) show ?thesis by simp
next
  case (Suc m)
  then show ?thesis using first_silent [OF assms(1) _ assms(3)] assms(2) by blast
qed

lemma silent_no_toast_example:
  "\<exists>res st'. api_call 1 (\<lambda>_ _. Answer (bare_answer 500)) ((request GET ''/rate'')\<lparr>req_silent := True\<rparr>)
      fresh_api = Some (res, st') \<and> toasts st' = []"
proof -
  let ?net = "\<lambda>_ _. Answer (bare_answer 500)" and ?r = "(request GET ''/rate'')\<lparr>req_silent := True\<rparr>"
  have nb: "\<not> blocked_url ''/rate''" by (simp add: blocked_url_def guard_from_segment del: guard_from.simps)
  obtain st' where c: "api_call 1 ?net ?r fresh_api = Some (Failed (HttpError (bare_answer 500)), st')"
    using nb by (simp add: transmit_def Let_def success_status_def)
  have "toasts st' = toasts fresh_api"
    by (rule silent_no_toast [OF _ c]) (auto simp: fst_transmit)
  with c show ?thesis by (auto simp: fresh_api_def)
qed

text \<open>A silent request does raise a notification when its answer is a 403 and the refresh of the
  CSRF cookie that the client starts then fails with a server error: the inner request is not
  silent.\<close>

lemma silent_toast_leak:
  assumes "\<not> blocked_url (req_url r)"
    and "fst (transmit net r st) = Answer a" "status a = 403"
    and "csrf_always 500 net"
  shows "\<exists>st'. api_call (Suc (Suc n)) net r st = Some (Failed (HttpError a), st')
    \<and> toasts st' = toasts st @ [\<lparr>note_message = ''Something went wrong'',
        note_description = ''Request failed with status code '' @ show_nat 500\<rparr>]"
proof -
  obtain st1 where t: "transmit net r st = (Answer a, st1)"
    using assms(2) by (metis prod.collapse)
  obtain x st2 where u: "transmit net (request GET csrf_url) st1 = (x, st2)" by (metis surj_pair)
  then obtain b where b: "x = Answer b" "status b = 500"
    using csrf_transmit(1) [OF u assms(4)] by blast
  have "api_call (Suc n) net (request GET csrf_url) st1 = Some (Failed (HttpError b),
      notify ''Something went wrong'' (''Request failed with status code '' @ show_nat 500) st2)"
    using csrf_not_blocked by (simp add: u b success_status_def)
  then have "api_call (Suc (Suc n)) net r st = Some (Failed (HttpError a),
      notify ''Something went wrong'' (''Request failed with status code '' @ show_nat 500) st2)"
    using assms(1,3)
    by (simp add: t success_status_def api_call.simps(2) [of "Suc n" net r] del: api_call.simps(2))
  moreover have "toasts st2 = toasts st"
    using transmit_frame [OF t] transmit_frame [OF u] by simp
  ultimately show ?thesis by (simp add: notify_def)
qed

lemma silent_toast_leak_example:
  "\<exists>st'. api_call 2 (\<lambda>_ q. Answer (bare_answer (if req_url q = csrf_url then 500 else 403)))
        ((request GET ''/rate'')\<lparr>req_silent := True\<rparr>) fresh_api
      = Some (Failed (HttpError (bare_answer 403)), st') \<and> length (toasts st') = 1"
proof -
  let ?net = "\<lambda>_ q. Answer (bare_answer (if req_url q = csrf_url then 500 else 403))"
  let ?r = "(request GET ''/rate'')\<lparr>req_silent := True\<rparr>"
  have "\<not> blocked_url (req_url ?r)" by (simp add: blocked_url_def guard_from_segment del: guard_from.simps)
  moreover have "fst (transmit ?net ?r fresh_api) = Answer (bare_answer 403)"
    by (simp add: fst_transmit csrf_url_def fresh_api_def)
  moreover have "csrf_always 500 ?net" by (simp add: csrf_always_def)
  ultimately show ?thesis
    using silent_toast_leak [of ?r ?net fresh_api "bare_answer 403" 0]
    by (auto simp: fresh_api_def numeral_2_eq_2 simp del: api_call.simps)
qed

end
