(* ===== verification/Dashboard_Providers.thy ===== *)
theory Dashboard_Providers
  imports Dashboard_Types Api_Client
begin

text \<open>
  The providers of the dashboard (ui-dashboard/src/providers/): each method is a constructor of its
  provider's request type, and the \<open>_http\<close> function of the provider is the HTTP request that
  the method hands to the client. The merchant's identifier is the first argument; where the code
  has none, the template literal writes the word null. A body is the object literal of the code:
  an undefined field is left out, a null one is written.
\<close>

section \<open>Paths and fields\<close>

(* src: ui-dashboard/src/utils/with-api-path.ts 3-5 withApiPath *)
definition withApiPath :: "string \<Rightarrow> string" where
  "withApiPath path = ''/api/dashboard/v1'' @ path"

text \<open>A path below a merchant, from its parts.\<close>

fun path_of :: "string list \<Rightarrow> string" where
  "path_of [] = []"
| "path_of (p # ps) = CHR ''/'' # p @ path_of ps"

definition merchant_path :: "string \<Rightarrow> string list \<Rightarrow> string" where
  "merchant_path mid ps = withApiPath (path_of (''merchant'' # mid # ps))"

definition admin_path :: "string list \<Rightarrow> string" where
  "admin_path ps = withApiPath (path_of (''admin'' # ps))"

text \<open>The identifier that a template literal writes for the stored merchant.\<close>

definition merchant_id_text :: "string option \<Rightarrow> string" where
  "merchant_id_text m = (case m of None \<Rightarrow> ''null'' | Some i \<Rightarrow> i)"

definition opt_bool :: "string \<Rightarrow> bool option \<Rightarrow> (string \<times> jval) list" where
  "opt_bool k v = (case v of None \<Rightarrow> [] | Some b \<Rightarrow> [(k, JBool b)])"

definition opt_num :: "string \<Rightarrow> jsnum option \<Rightarrow> (string \<times> jval) list" where
  "opt_num k v = (case v of None \<Rightarrow> [] | Some n \<Rightarrow> [(k, JNum n)])"

definition null_num :: "string \<Rightarrow> jsnum option \<Rightarrow> string \<times> jval" where
  "null_num k v = (k, case v of None \<Rightarrow> JNull | Some n \<Rightarrow> JNum n)"

definition nat_num :: "nat \<Rightarrow> jval" where
  "nat_num n = JNum (Fin (of_nat n))"

definition bool_text :: "bool \<Rightarrow> string" where
  "bool_text b = (if b then ''true'' else ''false'')"

definition opt_shown :: "('a \<Rightarrow> string) \<Rightarrow> string \<Rightarrow> 'a option \<Rightarrow> (string \<times> string) list" where
  "opt_shown f k v = (case v of None \<Rightarrow> [] | Some x \<Rightarrow> [(k, f x)])"

text \<open>\<open>limit || 50\<close>: a missing limit and zero both mean the default.\<close>

definition or_nat :: "nat option \<Rightarrow> nat \<Rightarrow> nat" where
  "or_nat v d = (case v of None \<Rightarrow> d | Some n \<Rightarrow> if n = 0 then d else n)"

definition paging :: "nat option \<Rightarrow> nat \<Rightarrow> nat option \<Rightarrow> (string \<times> string) list" where
  "paging limit d offset =
     [(''limit'', show_nat (or_nat limit d)), (''offset'', show_nat (or_nat offset 0))]"

section \<open>auth-provider.ts\<close>

datatype auth_request =
    AuthGetCookie | AuthLogin user_form | AuthRegister user_form | AuthGetProviders | AuthGetMe
  | AuthLogout | AuthUpdateProfile "(string \<times> jval) list" | AuthUpdatePassword string string
  | AuthResendVerification

definition user_form_fields :: "user_form \<Rightarrow> (string \<times> jval) list" where
  "user_form_fields u =
     [(''email'', JStr (uf_email u)), (''password'', JStr (uf_password u))]
     @ opt_field ''name'' (uf_name u) @ opt_field ''companyName'' (uf_companyName u)
     @ opt_field ''address'' (uf_address u) @ opt_field ''website'' (uf_website u)
     @ opt_field ''phone'' (uf_phone u) @ opt_bool ''marketingConsent'' (uf_marketingConsent u)
     @ opt_bool ''termsAccepted'' (uf_termsAccepted u)"

(* src: ui-dashboard/src/providers/auth-provider.ts 5-51 authProvider *)
fun auth_http :: "auth_request \<Rightarrow> http_request" where
  "auth_http AuthGetCookie = request GET (withApiPath ''/auth/csrf-cookie'')"
| "auth_http (AuthLogin u) = with_body (request POST (withApiPath ''/auth/login'')) (user_form_fields u)"
| "auth_http (AuthRegister u) =
     with_body (request POST (withApiPath ''/auth/register'')) (user_form_fields u)"
| "auth_http AuthGetProviders = request GET (withApiPath ''/auth/provider'')"
| "auth_http AuthGetMe = request GET (withApiPath ''/auth/me'')"
| "auth_http AuthLogout = request POST (withApiPath ''/auth/logout'')"
| "auth_http (AuthUpdateProfile d) = with_body (request PUT (withApiPath ''/auth/profile'')) d"
| "auth_http (AuthUpdatePassword cur new) =
     with_body (request PUT (withApiPath ''/auth/password''))
       [(''currentPassword'', JStr cur), (''newPassword'', JStr new)]"
| "auth_http AuthResendVerification = request POST (withApiPath ''/auth/resend-verification'')"

section \<open>merchant-provider.ts\<close>

definition merchant_fields :: "merchant_base \<Rightarrow> (string \<times> jval) list" where
  "merchant_fields m = [(''name'', JStr (mb_name m)), (''website'', JStr (mb_website m))]"

definition type_text :: "payment_type \<Rightarrow> string" where
  "type_text t = (case t of TPayment \<Rightarrow> ''payment'' | TWithdrawal \<Rightarrow> ''withdrawal'')"

definition payment_fields :: "payment_params \<Rightarrow> (string \<times> jval) list" where
  "payment_fields p =
     [(''id'', JStr (pp_id p))] @ opt_num ''orderId'' (pp_orderId p)
     @ [(''price'', JNum (pp_price p)), (''currency'', JStr (pp_currency p))]
     @ opt_field ''redirectUrl'' (pp_redirectUrl p) @ opt_bool ''isTest'' (pp_isTest p)
     @ opt_field ''description'' (pp_description p)"

definition list_payment_query :: "list_payment_params option \<Rightarrow> (string \<times> string) list" where
  "list_payment_query v = (case v of None \<Rightarrow> [] | Some p \<Rightarrow>
     opt_shown show_nat ''limit'' (lp_limit p) @ opt_param ''cursor'' (lp_cursor p)
     @ opt_shown bool_text ''reverseOrder'' (lp_reverseOrder p)
     @ opt_shown type_text ''type'' (lp_type p))"

definition list_customers_query :: "list_customers_params option \<Rightarrow> (string \<times> string) list" where
  "list_customers_query v = (case v of None \<Rightarrow> [] | Some p \<Rightarrow>
     opt_shown show_nat ''limit'' (lc_limit p) @ opt_param ''cursor'' (lc_cursor p)
     @ opt_shown bool_text ''reverseOrder'' (lc_reverseOrder p))"

datatype merchant_request =
    ShowMerchant | DeleteMerchant | UpdateMerchant merchant_base
  | UpdateMerchantWebhookSettings webhook_settings | ListPayments "list_payment_params option"
  | MerchantGetPayment string | CreatePayment payment_params
  | ResolvePayment string "string option" "string option" | DeclinePayment string "string option"
  | UpdateSupportedMethods "string list" | SendSupportMessage support_message
  | ListCustomers "list_customers_params option" | GetCustomerDetails string | GetFeeSettings
  | UpdateFeeSettings string string "(string \<times> string) list option"

text \<open>The three methods that name no merchant.\<close>

datatype account_request = StoreMerchant merchant_base | ListMerchants | ListFiatCurrencies

(* src: ui-dashboard/src/providers/merchant-provider.ts 19-27 storeMerchant *)
fun account_http :: "account_request \<Rightarrow> http_request" where
  "account_http (StoreMerchant m) = with_body (request POST (withApiPath ''/merchant'')) (merchant_fields m)"
| "account_http ListMerchants = request GET (withApiPath ''/merchant'')"
| "account_http ListFiatCurrencies = request GET (withApiPath ''/fiat-currencies'')"

(* src: ui-dashboard/src/providers/merchant-provider.ts 18-127 merchantProvider *)
fun merchant_http :: "string \<Rightarrow> merchant_request \<Rightarrow> http_request" where
  "merchant_http mid ShowMerchant = request GET (merchant_path mid [])"
| "merchant_http mid DeleteMerchant = request DELETE (merchant_path mid [])"
| "merchant_http mid (UpdateMerchant m) =
     with_body (request PUT (merchant_path mid [])) (merchant_fields m)"
| "merchant_http mid (UpdateMerchantWebhookSettings w) =
     with_body (request PUT (merchant_path mid [''webhook'']))
       (opt_field ''secret'' (wh_secret w) @ [(''url'', JStr (wh_url w))])"
| "merchant_http mid (ListPayments p) =
     with_params (request GET (merchant_path mid [''payment''])) (list_payment_query p)"
| "merchant_http mid (MerchantGetPayment i) = request GET (merchant_path mid [''payment'', i])"
| "merchant_http mid (CreatePayment p) =
     with_body (request POST (merchant_path mid [''payment''])) (payment_fields p)"
| "merchant_http mid (ResolvePayment i notes tx) =
     with_body (request POST (merchant_path mid [''payment'', i, ''resolve'']))
       (opt_field ''notes'' notes @ opt_field ''txHash'' tx)"
| "merchant_http mid (DeclinePayment i notes) =
     with_body (request POST (merchant_path mid [''payment'', i, ''decline''])) (opt_field ''notes'' notes)"
| "merchant_http mid (UpdateSupportedMethods ts) =
     with_body (request PUT (merchant_path mid [''supported-method'']))
       [(''supportedPaymentMethods'', JArr (map JStr ts))]"
| "merchant_http mid (SendSupportMessage m) =
     with_body (request POST (merchant_path mid [''form'']))
       [(''topic'', JStr (sm_topic m)), (''message'', JStr (sm_message m))]"
| "merchant_http mid (ListCustomers p) =
     with_params (request GET (merchant_path mid [''customer''])) (list_customers_query p)"
| "merchant_http mid (GetCustomerDetails i) = request GET (merchant_path mid [''customer'', i])"
| "merchant_http mid GetFeeSettings = request GET (merchant_path mid [''fee-settings''])"
| "merchant_http mid (UpdateFeeSettings cur fee per) =
     with_body (request PUT (merchant_path mid [''fee-settings'']))
       ([(''preferredCurrency'', JStr cur), (''globalFeePercentage'', JStr fee)]
        @ (case per of None \<Rightarrow> [] | Some xs \<Rightarrow>
            [(''perCurrencyFees'', JObj (map (\<lambda>(k, v). (k, JStr v)) xs))]))"

section \<open>token-provider.ts\<close>

datatype token_request = ListTokens | CreateToken string | DeleteToken string

(* src: ui-dashboard/src/providers/token-provider.ts 5-20 tokenProvider *)
fun token_http :: "string \<Rightarrow> token_request \<Rightarrow> http_request" where
  "token_http mid ListTokens = request GET (merchant_path mid [''token''])"
| "token_http mid (CreateToken n) =
     with_body (request POST (merchant_path mid [''token''])) [(''name'', JStr n)]"
| "token_http mid (DeleteToken i) = request DELETE (merchant_path mid [''token'', i])"

section \<open>subscription-provider.ts\<close>

datatype subscription_request =
    GetCurrentSubscription | UpgradePlan string "string option" | CancelSubscription | GetUsageHistory

(* src: ui-dashboard/src/providers/subscription-provider.ts 49-52 listPlans *)
definition listPlans_http :: http_request where
  "listPlans_http = request GET (withApiPath ''/subscription/plans'')"

(* src: ui-dashboard/src/providers/subscription-provider.ts 48-75 subscriptionProvider *)
fun subscription_http :: "string \<Rightarrow> subscription_request \<Rightarrow> http_request" where
  "subscription_http mid GetCurrentSubscription = request GET (merchant_path mid [''subscription''])"
| "subscription_http mid (UpgradePlan p url) =
     with_body (request POST (merchant_path mid [''subscription'', ''upgrade'']))
       ([(''plan_id'', JStr p)] @ opt_field ''redirect_url'' url)"
| "subscription_http mid CancelSubscription = request POST (merchant_path mid [''subscription'', ''cancel''])"
| "subscription_http mid GetUsageHistory = request GET (merchant_path mid [''subscription'', ''usage''])"

section \<open>xpub-provider.ts\<close>

datatype xpub_request =
    CreateXpubWallet create_xpub | ListXpubWallets | DeleteXpubWallet string | GetXpubWallet string
  | DeriveAddress string | GetNextAddress string | ListDerivedAddresses string

(* src: ui-dashboard/src/providers/xpub-provider.ts 27-76 xpubProvider *)
fun xpub_http :: "string \<Rightarrow> xpub_request \<Rightarrow> http_request" where
  "xpub_http mid (CreateXpubWallet d) =
     with_body (request POST (merchant_path mid [''xpub-wallet'']))
       ([(''blockchain'', JStr (cx_blockchain d)), (''xpub'', JStr (cx_xpub d))]
        @ opt_field ''derivationPath'' (cx_derivationPath d))"
| "xpub_http mid ListXpubWallets = request GET (merchant_path mid [''xpub-wallet''])"
| "xpub_http mid (DeleteXpubWallet w) = request DELETE (merchant_path mid [''xpub-wallet'', w])"
| "xpub_http mid (GetXpubWallet w) = request GET (merchant_path mid [''xpub-wallet'', w])"
| "xpub_http mid (DeriveAddress w) = request POST (merchant_path mid [''xpub-wallet'', w, ''derive''])"
| "xpub_http mid (GetNextAddress w) = request GET (merchant_path mid [''xpub-wallet'', w, ''next-address''])"
| "xpub_http mid (ListDerivedAddresses w) =
     request GET (merchant_path mid [''xpub-wallet'', w, ''addresses''])"

section \<open>evm-collector-provider.ts\<close>

datatype collector_request =
    ListCollectors | SetupCollector setup_collector | GetCollector string | DeleteCollector string
  | GetBalance string | GetCollectorFactory string

(* src: ui-dashboard/src/providers/evm-collector-provider.ts 39-85 evmCollectorProvider *)
fun collector_http :: "string \<Rightarrow> collector_request \<Rightarrow> http_request" where
  "collector_http mid ListCollectors = request GET (merchant_path mid [''evm-collector''])"
| "collector_http mid (SetupCollector d) =
     with_body (request POST (merchant_path mid [''evm-collector'']))
       [(''blockchain'', JStr (sc_blockchain d)), (''ownerAddress'', JStr (sc_ownerAddress d)),
        (''contractAddress'', JStr (sc_contractAddress d)), (''chainId'', nat_num (sc_chainId d)),
        (''factoryAddress'', JStr (sc_factoryAddress d))]"
| "collector_http mid (GetCollector b) = request GET (merchant_path mid [''evm-collector'', b])"
| "collector_http mid (DeleteCollector b) = request DELETE (merchant_path mid [''evm-collector'', b])"
| "collector_http mid (GetBalance b) = request GET (merchant_path mid [''evm-collector'', b, ''balance''])"
| "collector_http mid (GetCollectorFactory b) = request GET (merchant_path mid [''collector-factory'', b])"

section \<open>balance-provider.ts\<close>

datatype balance_request =
    ListBalances | GetServiceFee string | CreateWithdrawal withdrawal
  | GetCurrencyExchangeRate convert_params "bool option"

definition withdrawal_fields :: "withdrawal \<Rightarrow> (string \<times> jval) list" where
  "withdrawal_fields w =
     [(''addressId'', JStr (wd_addressId w)), (''amount'', JStr (wd_amount w)),
      (''balanceId'', JStr (wd_balanceId w))]"

(* src: ui-dashboard/src/providers/balance-provider.ts 5-34 balancesProvider *)
fun balance_http :: "string \<Rightarrow> balance_request \<Rightarrow> http_request" where
  "balance_http mid ListBalances = request GET (merchant_path mid [''balance''])"
| "balance_http mid (GetServiceFee b) =
     with_params (request GET (merchant_path mid [''withdrawal-fee''])) [(''balanceId'', b)]"
| "balance_http mid (CreateWithdrawal w) =
     with_body (request POST (merchant_path mid [''withdrawal''])) (withdrawal_fields w)"
| "balance_http mid (GetCurrencyExchangeRate c silent) =
     (with_params (request GET (merchant_path mid [''currency-convert'']))
       [(''from'', cv_from c), (''amount'', cv_amount c), (''to'', cv_to c)])
       \<lparr>req_silent := (silent = Some True)\<rparr>"

section \<open>payment-link-provider.ts\<close>

definition action_text :: "link_action \<Rightarrow> string" where
  "action_text a = (case a of LRedirect \<Rightarrow> ''redirect'' | LShowMessage \<Rightarrow> ''showMessage'')"

definition link_fields :: "link_params \<Rightarrow> (string \<times> jval) list" where
  "link_fields l =
     [(''currency'', JStr (lk_currency l))] @ opt_field ''description'' (lk_description l)
     @ [(''name'', JStr (lk_name l)), (''price'', JNum (lk_price l))]
     @ opt_field ''redirectUrl'' (lk_redirectUrl l)
     @ [(''successAction'', JStr (action_text (lk_successAction l)))]
     @ opt_field ''successMessage'' (lk_successMessage l)"

datatype link_request =
    ListPaymentLinks | CreatePaymentLink link_params | LinkGetPaymentLink string | DeletePaymentLink string

(* src: ui-dashboard/src/providers/payment-link-provider.ts 5-24 paymentLinkProvider *)
fun link_http :: "string \<Rightarrow> link_request \<Rightarrow> http_request" where
  "link_http mid ListPaymentLinks = request GET (merchant_path mid [''payment-link''])"
| "link_http mid (CreatePaymentLink l) =
     with_body (request POST (merchant_path mid [''payment-link''])) (link_fields l)"
| "link_http mid (LinkGetPaymentLink i) = request GET (merchant_path mid [''payment-link'', i])"
| "link_http mid (DeletePaymentLink i) = request DELETE (merchant_path mid [''payment-link'', i])"

section \<open>address-provider.ts\<close>

datatype address_request =
    ListAddresses | CreateAddress address_params | GetAddress string | UpdateAddress string string
  | DeleteAddress string

(* src: ui-dashboard/src/providers/address-provider.ts 5-28 addressProvider *)
fun address_http :: "string \<Rightarrow> address_request \<Rightarrow> http_request" where
  "address_http mid ListAddresses = request GET (merchant_path mid [''address''])"
| "address_http mid (CreateAddress a) =
     with_body (request POST (merchant_path mid [''address'']))
       [(''address'', JStr (ma_address a)), (''blockchain'', JStr (ma_blockchain a)),
        (''name'', JStr (ma_name a))]"
| "address_http mid (GetAddress i) = request GET (merchant_path mid [''address'', i])"
| "address_http mid (UpdateAddress i n) =
     with_body (request PUT (merchant_path mid [''address'', i])) [(''name'', JStr n)]"
| "address_http mid (DeleteAddress i) = request DELETE (merchant_path mid [''address'', i])"

section \<open>All requests of a merchant\<close>

datatype scoped_request =
    MerchantReq merchant_request | TokenReq token_request | SubscriptionReq subscription_request
  | XpubReq xpub_request | CollectorReq collector_request | BalanceReq balance_request
  | LinkReq link_request | AddressReq address_request

fun scoped_http :: "string \<Rightarrow> scoped_request \<Rightarrow> http_request" where
  "scoped_http mid (MerchantReq r) = merchant_http mid r"
| "scoped_http mid (TokenReq r) = token_http mid r"
| "scoped_http mid (SubscriptionReq r) = subscription_http mid r"
| "scoped_http mid (XpubReq r) = xpub_http mid r"
| "scoped_http mid (CollectorReq r) = collector_http mid r"
| "scoped_http mid (BalanceReq r) = balance_http mid r"
| "scoped_http mid (LinkReq r) = link_http mid r"
| "scoped_http mid (AddressReq r) = address_http mid r"

section \<open>admin-provider.ts\<close>

datatype admin_request =
    AdminListPlans | AdminGetPlan string | AdminCreatePlan create_plan_params
  | AdminUpdatePlan string create_plan_params
  | AdminListMerchants "nat option" "nat option" | AssignMerchantPlan nat string
  | AdminDeleteMerchant nat | ListUsers "nat option" "nat option" | DeleteUser nat
  | GetStats | ListSubscriptions
  | GetEmailSettings | UpdateEmailSettings email_settings | SendEmail string string string
  | TestEmail | GetEmailLogs "nat option" "nat option"
  | ListCollectorFactories | AdminGetCollectorFactory string
  | UpsertCollectorFactory string string string
  | ListContacts "nat option" "nat option" "string option" | ExportContacts "bool option"

datatype marketing_request =
    ListMarketingTemplates | GetMarketingTemplate string
  | ListCampaigns "nat option" "nat option" | CreateCampaign string string string "string option" string
  | GetCampaign string | GetCampaignRecipients string "nat option" "nat option" | SendCampaign string
  | GetMarketingQuota | GetMarketingSettings | UpdateMarketingSettings jsnum
  | ListSequences "nat option" "nat option" | GetSequence string | GetSequenceStats string
  | CreateSequence create_sequence_params | LaunchSequence string | PauseSequence string
  | ResumeSequence string | CancelSequence string

definition plan_fields :: "create_plan_params \<Rightarrow> (string \<times> jval) list" where
  "plan_fields p =
     [(''id'', JStr (cpp_id p)), (''name'', JStr (cpp_name p)),
      (''description'', JStr (cpp_description p)), (''price_usd'', JNum (cpp_price_usd p)),
      (''billing_period'', JStr (cpp_billing_period p)),
      null_num ''max_payments_monthly'' (cpp_max_payments_monthly p),
      (''max_merchants'', JNum (cpp_max_merchants p)),
      null_num ''max_api_calls_monthly'' (cpp_max_api_calls_monthly p),
      null_num ''max_volume_monthly_usd'' (cpp_max_volume_monthly_usd p),
      (''features'', JObj (cpp_features p)), (''is_active'', JBool (cpp_is_active p))]"

definition email_fields :: "email_settings \<Rightarrow> (string \<times> jval) list" where
  "email_fields e =
     [(''smtp_host'', JStr (smtp_host e)), (''smtp_port'', JNum (smtp_port e)),
      (''smtp_user'', JStr (smtp_user e)), (''from_name'', JStr (from_name e)),
      (''from_email'', JStr (from_email e)), (''is_active'', JBool (es_is_active e)),
      (''smtp_pass'', JStr (smtp_pass e))]"

definition step_json :: "sequence_step \<Rightarrow> jval" where
  "step_json s = JObj ([(''template_id'', JStr (ss_template_id s)),
     (''offset_hours'', JNum (ss_offset_hours s))] @ opt_field ''subject_override'' (ss_subject_override s))"

definition sequence_fields :: "create_sequence_params \<Rightarrow> (string \<times> jval) list" where
  "sequence_fields s =
     [(''name'', JStr (csp_name s)), (''audience'', JStr (csp_audience s)),
      (''skip_if_converted'', JBool (csp_skip_if_converted s))]
     @ opt_field ''start_at'' (csp_start_at s) @ [(''steps'', JArr (map step_json (csp_steps s)))]"

definition seq_path :: "string \<Rightarrow> string list \<Rightarrow> string" where
  "seq_path i ps = admin_path ([''marketing'', ''sequences'', i] @ ps)"

(* src: ui-dashboard/src/providers/admin-provider.ts 164-287 adminProvider *)
fun admin_http :: "admin_request \<Rightarrow> http_request" where
  "admin_http AdminListPlans = request GET (admin_path [''plans''])"
| "admin_http (AdminGetPlan i) = request GET (admin_path [''plans'', i])"
| "admin_http (AdminCreatePlan p) = with_body (request POST (admin_path [''plans''])) (plan_fields p)"
| "admin_http (AdminUpdatePlan i p) = with_body (request PUT (admin_path [''plans'', i])) (plan_fields p)"
| "admin_http (AdminListMerchants l off) =
     with_params (request GET (admin_path [''merchants''])) (paging l 50 off)"
| "admin_http (AssignMerchantPlan m p) =
     with_body (request PUT (admin_path [''merchants'', show_nat m, ''plan''])) [(''plan_id'', JStr p)]"
| "admin_http (AdminDeleteMerchant m) = request DELETE (admin_path [''merchants'', show_nat m])"
| "admin_http (ListUsers l off) = with_params (request GET (admin_path [''users''])) (paging l 50 off)"
| "admin_http (DeleteUser u) = request DELETE (admin_path [''users'', show_nat u])"
| "admin_http GetStats = request GET (admin_path [''subscription'', ''stats''])"
| "admin_http ListSubscriptions = request GET (admin_path [''subscription'', ''list''])"
| "admin_http GetEmailSettings = request GET (admin_path [''email'', ''settings''])"
| "admin_http (UpdateEmailSettings e) =
     with_body (request PUT (admin_path [''email'', ''settings''])) (email_fields e)"
| "admin_http (SendEmail to s b) =
     with_body (request POST (admin_path [''email'', ''send'']))
       [(''to'', JStr to), (''subject'', JStr s), (''body'', JStr b)]"
| "admin_http TestEmail = request POST (admin_path [''email'', ''test''])"
| "admin_http (GetEmailLogs l off) =
     with_params (request GET (admin_path [''email'', ''log''])) (paging l 50 off)"
| "admin_http ListCollectorFactories = request GET (admin_path [''collector-factories''])"
| "admin_http (AdminGetCollectorFactory b) = request GET (admin_path [''collector-factories'', b])"
| "admin_http (UpsertCollectorFactory b i f) =
     with_body (request POST (admin_path [''collector-factories'']))
       [(''blockchain'', JStr b), (''implementationAddress'', JStr i), (''factoryAddress'', JStr f)]"
| "admin_http (ListContacts l off s) =
     with_params (request GET (admin_path [''contacts'']))
       (paging l 20 off @ (if truthy s then [(''search'', the s)] else []))"
| "admin_http (ExportContacts m) =
     with_params (request GET (admin_path [''contacts'', ''export'']))
       (if m = Some True then [(''marketing_only'', ''true'')] else [])"

text \<open>Campaigns and sequences of the marketing section.\<close>

(* src: ui-dashboard/src/providers/admin-provider.ts 289-380 listMarketingTemplates *)
fun marketing_http :: "marketing_request \<Rightarrow> http_request" where
  "marketing_http ListMarketingTemplates = request GET (admin_path [''marketing'', ''templates''])"
| "marketing_http (GetMarketingTemplate i) = request GET (admin_path [''marketing'', ''templates'', i])"
| "marketing_http (ListCampaigns l off) =
     with_params (request GET (admin_path [''marketing'', ''campaigns''])) (paging l 20 off)"
| "marketing_http (CreateCampaign n s b t aud) =
     with_body (request POST (admin_path [''marketing'', ''campaigns'']))
       ([(''name'', JStr n), (''subject'', JStr s), (''body_html'', JStr b)]
        @ opt_field ''template_id'' t @ [(''audience'', JStr aud)])"
| "marketing_http (GetCampaign i) = request GET (admin_path [''marketing'', ''campaigns'', i])"
| "marketing_http (GetCampaignRecipients i l off) =
     with_params (request GET (admin_path [''marketing'', ''campaigns'', i, ''recipients''])) (paging l 50 off)"
| "marketing_http (SendCampaign i) = request POST (admin_path [''marketing'', ''campaigns'', i, ''send''])"
| "marketing_http GetMarketingQuota = request GET (admin_path [''marketing'', ''quota''])"
| "marketing_http GetMarketingSettings = request GET (admin_path [''marketing'', ''settings''])"
| "marketing_http (UpdateMarketingSettings n) =
     with_body (request PUT (admin_path [''marketing'', ''settings''])) [(''daily_limit'', JNum n)]"
| "marketing_http (ListSequences l off) =
     with_params (request GET (admin_path [''marketing'', ''sequences''])) (paging l 20 off)"
| "marketing_http (GetSequence i) = request GET (seq_path i [])"
| "marketing_http (GetSequenceStats i) = request GET (seq_path i [''stats''])"
| "marketing_http (CreateSequence p) =
     with_body (request POST (admin_path [''marketing'', ''sequences''])) (sequence_fields p)"
| "marketing_http (LaunchSequence i) = request POST (seq_path i [''launch''])"
| "marketing_http (PauseSequence i) = request POST (seq_path i [''pause''])"
| "marketing_http (ResumeSequence i) = request POST (seq_path i [''resume''])"
| "marketing_http (CancelSequence i) = request POST (seq_path i [''cancel''])"

section \<open>How a method settles\<close>

text \<open>A method that reads the response throws where the client delivered \<open>undefined\<close>; a method
  that ignores it, as these do, is fulfilled.\<close>

datatype settled = Fulfilled | ThrewTypeError | RejectedWith api_error

fun ignores_response :: "scoped_request \<Rightarrow> bool" where
  "ignores_response (MerchantReq (UpdateMerchantWebhookSettings w)) = True"
| "ignores_response (MerchantReq (SendSupportMessage m)) = True"
| "ignores_response (MerchantReq (UpdateFeeSettings c f p)) = True"
| "ignores_response (SubscriptionReq CancelSubscription) = True"
| "ignores_response (XpubReq (DeleteXpubWallet w)) = True"
| "ignores_response (CollectorReq (DeleteCollector b)) = True"
| "ignores_response (BalanceReq (CreateWithdrawal w)) = True"
| "ignores_response (LinkReq (DeletePaymentLink i)) = True"
| "ignores_response (AddressReq (UpdateAddress i n)) = True"
| "ignores_response (AddressReq (DeleteAddress i)) = True"
| "ignores_response r = False"

definition settle :: "scoped_request \<Rightarrow> api_result \<Rightarrow> settled" where
  "settle r res = (case res of
       Got a \<Rightarrow> Fulfilled
     | GotUndefined \<Rightarrow> if ignores_response r then Fulfilled else ThrewTypeError
     | Failed e \<Rightarrow> RejectedWith e)"

section \<open>The resource an address names\<close>

text \<open>How the browser reads the path of an address: it drops tabs and line ends, reads a backslash as a slash,
  cuts at a question mark or a number sign, and removes the segments of dots, a double one with the
  segment before it; a dot may be written \<open>%2e\<close>.\<close>

definition url_text :: "string \<Rightarrow> string" where
  "url_text u = takeWhile (\<lambda>c. c \<notin> {CHR ''?'', CHR ''#''})
     (map (\<lambda>c. if c = CHR 0x5C then CHR ''/'' else c) (filter (\<lambda>c. c \<notin> {CHR 0x09, CHR 0x0A, CHR 0x0D}) u))"

fun decode_dots :: "string \<Rightarrow> string" where
  "decode_dots (c # d # e # s) =
     (if c = CHR ''%'' \<and> d = CHR ''2'' \<and> e \<in> {CHR ''e'', CHR ''E''} then CHR ''.'' # decode_dots s
      else c # decode_dots (d # e # s))"
| "decode_dots s = s"

fun walk_path :: "string list \<Rightarrow> string list \<Rightarrow> string list" where
  "walk_path acc [] = rev acc"
| "walk_path acc (s # ss) =
     (if decode_dots s = ''..'' then walk_path (if ss = [] then [] # tl acc else tl acc) ss
      else if decode_dots s = ''.'' then walk_path (if ss = [] then [] # acc else acc) ss
      else walk_path (s # acc) ss)"

definition resource :: "string \<Rightarrow> string list" where
  "resource u = walk_path [] (tl (split_on CHR ''/'' (url_text u)))"

text \<open>The arguments that a method writes into the path, without encoding them.\<close>

fun path_args :: "scoped_request \<Rightarrow> string list" where
  "path_args (MerchantReq (MerchantGetPayment i)) = [i]"
| "path_args (MerchantReq (ResolvePayment i notes tx)) = [i]"
| "path_args (MerchantReq (DeclinePayment i notes)) = [i]"
| "path_args (MerchantReq (GetCustomerDetails i)) = [i]"
| "path_args (TokenReq (DeleteToken i)) = [i]"
| "path_args (XpubReq (DeleteXpubWallet w)) = [w]"
| "path_args (XpubReq (GetXpubWallet w)) = [w]"
| "path_args (XpubReq (DeriveAddress w)) = [w]"
| "path_args (XpubReq (GetNextAddress w)) = [w]"
| "path_args (XpubReq (ListDerivedAddresses w)) = [w]"
| "path_args (CollectorReq (GetCollector b)) = [b]"
| "path_args (CollectorReq (DeleteCollector b)) = [b]"
| "path_args (CollectorReq (GetBalance b)) = [b]"
| "path_args (CollectorReq (GetCollectorFactory b)) = [b]"
| "path_args (LinkReq (LinkGetPaymentLink i)) = [i]"
| "path_args (LinkReq (DeletePaymentLink i)) = [i]"
| "path_args (AddressReq (GetAddress i)) = [i]"
| "path_args (AddressReq (UpdateAddress i n)) = [i]"
| "path_args (AddressReq (DeleteAddress i)) = [i]"
| "path_args r = []"

text \<open>An identifier of letters, digits, hyphens and underscores.\<close>

definition id_char :: "char \<Rightarrow> bool" where
  "id_char c \<longleftrightarrow> (let n = of_char c :: nat in
     (48 \<le> n \<and> n \<le> 57) \<or> (65 \<le> n \<and> n \<le> 90) \<or> (97 \<le> n \<and> n \<le> 122) \<or> n = 45 \<or> n = 95)"

definition plain_id :: "string \<Rightarrow> bool" where
  "plain_id s \<longleftrightarrow> s \<noteq> [] \<and> list_all id_char s"

section \<open>Lemmas\<close>

lemma path_split:
  assumes "\<forall>p \<in> set ps. CHR ''/'' \<notin> set p"
  shows "split_on CHR ''/'' (path_of ps) = [] # ps"
  using assms
proof (induction ps)
  case (Cons p ps)
  show ?case
  proof (cases ps)
    case Nil
    then show ?thesis using Cons.prems by (simp add: split_on_no_sep)
  next
    case (Cons q qs)
    then obtain r where r: "path_of ps = CHR ''/'' # r" by simp
    have "split_on CHR ''/'' (p @ path_of ps) = p # split_on CHR ''/'' r"
      unfolding r using \<open>\<forall>x \<in> set (p # ps). CHR ''/'' \<notin> set x\<close> by (intro split_on_append_sep) simp
    moreover have "split_on CHR ''/'' (path_of ps) = [] # split_on CHR ''/'' r" by (simp add: r)
    ultimately show ?thesis using Cons.IH Cons.prems by simp
  qed
qed simp

lemma scoped_route:
  "\<exists>pre post. req_url (scoped_http mid r) = merchant_path mid (pre @ path_args r @ post)
    \<and> list_all plain_id pre \<and> list_all plain_id post"
proof -
  have words: "list_all plain_id [''webhook'', ''payment'', ''resolve'', ''decline'', ''supported-method'', ''form'',
      ''customer'', ''fee-settings'', ''token'', ''subscription'', ''upgrade'', ''cancel'', ''usage'', ''xpub-wallet'',
      ''derive'', ''next-address'', ''addresses'', ''evm-collector'', ''balance'', ''collector-factory'',
      ''withdrawal-fee'', ''withdrawal'', ''currency-convert'', ''payment-link'', ''address'']"
    by code_simp
  have word: "\<exists>pre post. merchant_path mid ps = merchant_path mid (pre @ [] @ post)
      \<and> list_all plain_id pre \<and> list_all plain_id post" if "list_all plain_id ps" for ps
    using that by (intro exI [of _ "[]"] exI [of _ ps]) simp
  have word_arg: "\<exists>pre post. merchant_path mid (p # i # ps) = merchant_path mid (pre @ [i] @ post)
      \<and> list_all plain_id pre \<and> list_all plain_id post" if "plain_id p \<and> list_all plain_id ps" for p i ps
    using that by (intro exI [of _ "[p]"] exI [of _ ps]) simp
  show ?thesis
  proof (cases r)
    case (MerchantReq q) then show ?thesis using words by (cases q) (simp_all add: word word_arg del: append.simps)
  next
    case (TokenReq q) then show ?thesis using words by (cases q) (simp_all add: word word_arg del: append.simps)
  next
    case (SubscriptionReq q) then show ?thesis using words by (cases q) (simp_all add: word word_arg del: append.simps)
  next
    case (XpubReq q) then show ?thesis using words by (cases q) (simp_all add: word word_arg del: append.simps)
  next
    case (CollectorReq q) then show ?thesis using words by (cases q) (simp_all add: word word_arg del: append.simps)
  next
    case (BalanceReq q) then show ?thesis using words by (cases q) (simp_all add: word word_arg del: append.simps)
  next
    case (LinkReq q) then show ?thesis using words by (cases q) (simp_all add: word word_arg del: append.simps)
  next
    case (AddressReq q) then show ?thesis using words by (cases q) (simp_all add: word word_arg del: append.simps)
  qed
qed

lemma scoped_url: "\<exists>ps. req_url (scoped_http mid r) = merchant_path mid ps"
  using scoped_route by metis

text \<open>A path of identifiers names the resource of its segments.\<close>

lemma id_char_plain: "id_char c \<Longrightarrow>
    c \<notin> {CHR ''/'', CHR ''?'', CHR ''#'', CHR ''%'', CHR ''.'', CHR 0x5C, CHR 0x09, CHR 0x0A, CHR 0x0D}"
  by (auto simp: id_char_def)

lemma url_text_plain: "\<forall>c \<in> set u. id_char c \<or> c = CHR ''/'' \<Longrightarrow> url_text u = u"
proof -
  assume "\<forall>c \<in> set u. id_char c \<or> c = CHR ''/''"
  then have u: "\<forall>c \<in> set u. c \<notin> {CHR ''?'', CHR ''#'', CHR 0x5C, CHR 0x09, CHR 0x0A, CHR 0x0D}"
    using id_char_plain by fastforce
  then have "filter (\<lambda>c. c \<notin> {CHR 0x09, CHR 0x0A, CHR 0x0D}) u = u" by (intro filter_True) auto
  moreover have "map (\<lambda>c. if c = CHR 0x5C then CHR ''/'' else c) u = u" using u by (intro map_idI) auto
  moreover have "takeWhile (\<lambda>c. c \<notin> {CHR ''?'', CHR ''#''}) u = u" using u by (subst takeWhile_eq_all_conv) auto
  ultimately show ?thesis by (simp add: url_text_def)
qed

lemma decode_plain: "CHR ''%'' \<notin> set s \<Longrightarrow> decode_dots s = s"
  by (induction s rule: decode_dots.induct) auto

lemma plain_no_dots: "plain_id s \<Longrightarrow> decode_dots s \<noteq> ''..'' \<and> decode_dots s \<noteq> ''.''"
proof -
  assume "plain_id s"
  then have "\<forall>c \<in> set s. c \<noteq> CHR ''%'' \<and> c \<noteq> CHR ''.''"
    using id_char_plain by (fastforce simp: plain_id_def list_all_iff)
  then have "CHR ''%'' \<notin> set s" "CHR ''.'' \<notin> set s" by auto
  then show ?thesis using decode_plain [of s] by auto
qed

lemma walk_plain: "list_all plain_id ss \<Longrightarrow> walk_path acc ss = rev acc @ ss"
  by (induction ss arbitrary: acc) (simp_all add: plain_no_dots)

lemma path_of_chars: "list_all plain_id ps \<Longrightarrow> c \<in> set (path_of ps) \<Longrightarrow> id_char c \<or> c = CHR ''/''"
  by (induction ps) (auto simp: plain_id_def list_all_iff)

lemma resource_plain:
  assumes "list_all plain_id ps"
  shows "resource (path_of ps) = ps"
proof -
  have "\<forall>p \<in> set ps. CHR ''/'' \<notin> set p"
    using assms id_char_plain by (fastforce simp: plain_id_def list_all_iff)
  moreover have "url_text (path_of ps) = path_of ps"
    using path_of_chars [OF assms] by (intro url_text_plain) blast
  ultimately show ?thesis using assms by (simp add: resource_def path_split walk_plain)
qed

lemma merchant_path_segments:
  assumes "CHR ''/'' \<notin> set mid"
  shows "\<exists>rest. split_on CHR ''/'' (merchant_path mid ps)
    = [[], ''api'', ''dashboard'', ''v1'', ''merchant'', mid] @ rest"
proof -
  obtain q where q: "split_on CHR ''/'' (mid @ path_of ps) = mid # q"
    using assms split_on_append_sep [OF assms] split_on_no_sep [OF assms] by (cases ps) auto
  then show ?thesis by (simp add: merchant_path_def withApiPath_def)
qed

lemma null_path_blocked: "blocked_url (merchant_path ''null'' ps)"
proof -
  obtain rest where r: "split_on CHR ''/'' (merchant_path ''null'' ps)
      = [[], ''api'', ''dashboard'', ''v1'', ''merchant'', ''null''] @ rest"
    using merchant_path_segments [of "''null''" ps] by auto
  have "guard_from ''null'' (merchant_path ''null'' ps)"
    by (simp add: guard_from_segment r del: guard_from.simps)
  then show ?thesis
    by (simp add: blocked_url_def merchant_path_def withApiPath_def del: guard_from.simps)
qed

section \<open>Properties\<close>

text \<open>C6. A request made for a merchant addresses that merchant and no other: whatever the method, when the
  merchant's identifier and the arguments that the method writes into the path are identifiers of letters,
  digits, hyphens and underscores, the resource that the browser requests lies below that merchant and
  names those arguments, in their places.\<close>

theorem scoped_to_merchant:
  assumes "plain_id mid" and "\<forall>a \<in> set (path_args r). plain_id a"
  shows "\<exists>pre post. resource (req_url (scoped_http mid r))
    = [''api'', ''dashboard'', ''v1'', ''merchant'', mid] @ pre @ path_args r @ post"
proof -
  obtain pre post where r: "req_url (scoped_http mid r) = merchant_path mid (pre @ path_args r @ post)"
    "list_all plain_id pre" "list_all plain_id post"
    using scoped_route by metis
  have "list_all plain_id ([''api'', ''dashboard'', ''v1'', ''merchant''])" by code_simp
  then have "list_all plain_id ([''api'', ''dashboard'', ''v1'', ''merchant'', mid] @ pre @ path_args r @ post)"
    using r(2,3) assms by (auto simp: list_all_iff)
  moreover have "merchant_path mid (pre @ path_args r @ post)
      = path_of ([''api'', ''dashboard'', ''v1'', ''merchant'', mid] @ pre @ path_args r @ post)"
    by (simp add: merchant_path_def withApiPath_def)
  ultimately show ?thesis using r(1) resource_plain by metis
qed

theorem scoped_to_merchant_witness:
  "\<exists>pre post. resource (req_url (scoped_http ''m-1'' (AddressReq (UpdateAddress ''a_7'' ''../x?''))))
    = [''api'', ''dashboard'', ''v1'', ''merchant'', ''m-1''] @ pre @ [''a_7''] @ post"
proof -
  have "plain_id ''m-1''" "plain_id ''a_7''" by code_simp+
  then show ?thesis using scoped_to_merchant [of "''m-1''" "AddressReq (UpdateAddress ''a_7'' ''../x?'')"] by simp
qed

text \<open>The condition on the arguments is needed: the providers write them into the path as they are, so that
  an argument with dots and slashes addresses another merchant, and one with a question mark drops what follows.\<close>

lemma unclean_argument_escapes:
  "resource (req_url (scoped_http ''m-1'' (AddressReq (DeleteAddress ''../../m-2/address/a7''))))
    = [''api'', ''dashboard'', ''v1'', ''merchant'', ''m-2'', ''address'', ''a7'']"
  "resource (req_url (scoped_http ''m-1'' (XpubReq (DeriveAddress ''w1?''))))
    = [''api'', ''dashboard'', ''v1'', ''merchant'', ''m-1'', ''xpub-wallet'', ''w1'']"
  by code_simp+

text \<open>Before a merchant is chosen nothing is sent: with no stored merchant every method of the
  merchant's providers is blocked by the client's guard, without a notification; the methods that
  read the response throw, and the ones that ignore it report success.\<close>

lemma no_merchant_no_request:
  "\<exists>res. api_call (Suc n) net (scoped_http (merchant_id_text None) r) st = Some (res, st)
    \<and> settle r res = (if ignores_response r then Fulfilled else ThrewTypeError)"
  using scoped_url [of "''null''" r] null_path_blocked
  by (auto simp: merchant_id_text_def settle_def)

text \<open>A withdrawal that never left the browser is reported as created: for each method that
  ignores the response, when the network gives no answer at all the method is fulfilled and no
  notification is raised, so the page that called it goes on as after a success.\<close>

lemma unsent_reported_done:
  assumes "ignores_response r"
    and "fst (transmit net (scoped_http mid r) st) = NoAnswer m"
  shows "\<exists>res st'. api_call (Suc n) net (scoped_http mid r) st = Some (res, st')
    \<and> settle r res = Fulfilled \<and> toasts st' = toasts st"
proof (cases "blocked_url (req_url (scoped_http mid r))")
  case True
  then show ?thesis using assms(1) by (simp add: settle_def)
next
  case False
  obtain st1 where t: "transmit net (scoped_http mid r) st = (NoAnswer m, st1)"
    using assms(2) by (metis prod.collapse)
  then show ?thesis using False assms(1) transmit_frame [OF t] by (simp add: settle_def)
qed

lemma unsent_reported_done_example:
  "\<exists>res st'. api_call 1 (\<lambda>_ _. NoAnswer ''Network Error'')
      (scoped_http ''m-1'' (BalanceReq (CreateWithdrawal
        \<lparr>wd_addressId = ''a'', wd_amount = ''10'', wd_balanceId = ''b''\<rparr>))) fresh_api = Some (res, st')
    \<and> settle (BalanceReq (CreateWithdrawal \<lparr>wd_addressId = ''a'', wd_amount = ''10'', wd_balanceId = ''b''\<rparr>)) res
      = Fulfilled"
proof -
  let ?r = "BalanceReq (CreateWithdrawal \<lparr>wd_addressId = ''a'', wd_amount = ''10'', wd_balanceId = ''b''\<rparr>)"
  have "fst (transmit (\<lambda>_ _. NoAnswer ''Network Error'') (scoped_http ''m-1'' ?r) fresh_api)
      = NoAnswer ''Network Error''"
    by (simp add: fst_transmit)
  from unsent_reported_done [OF _ this, of 0] show ?thesis by auto
qed

end
