(* ===== verification/Local_Storage.thy ===== *)
theory Local_Storage
  imports Http
begin

text \<open>
  The dashboard's access to the browser's storage (ui-dashboard/src/utils/local-storage.ts) and the
  state that is kept in it: the selected merchant (ui-dashboard/src/hooks/use-merchant-id.ts) and the
  theme (ui-dashboard/src/theme/theme-context.tsx). The storage maps keys to texts; it may be
  unavailable, and it may refuse a text that is too long. Values are written as JSON: the dashboard
  stores strings only, so the model of JSON here is that of string literals, and a stored text that
  is no string literal is read as a parse failure.
\<close>

section \<open>JSON string literals\<close>

definition hex_lower :: "nat \<Rightarrow> char" where
  "hex_lower d = ''0123456789abcdef'' ! d"

definition hex_val :: "char \<Rightarrow> nat option" where
  "hex_val c = (let n = of_char c :: nat in
     if 48 \<le> n \<and> n \<le> 57 then Some (n - 48)
     else if 97 \<le> n \<and> n \<le> 102 then Some (n - 87)
     else if 65 \<le> n \<and> n \<le> 70 then Some (n - 55)
     else None)"

text \<open>The letter after the backslash in a short escape, for the character that it stands for.\<close>

definition short_escapes :: "(nat \<times> nat) list" where
  "short_escapes = [(34, 34), (92, 92), (8, 98), (12, 102), (10, 110), (13, 114), (9, 116)]"

definition json_char :: "char \<Rightarrow> string" where
  "json_char c =
     (case map_of short_escapes (of_char c) of
        Some e \<Rightarrow> [CHR 0x5C, char_of e]
      | None \<Rightarrow>
          if of_char c < (32 :: nat)
          then CHR 0x5C # ''u00'' @ [hex_lower (of_char c div 16), hex_lower (of_char c mod 16)]
          else [c])"

definition json_stringify :: "string \<Rightarrow> string" where
  "json_stringify s = CHR 0x22 # concat (map json_char s) @ [CHR 0x22]"

text \<open>The bytes of a code unit written with four hexadecimal digits.\<close>

definition unit_bytes :: "nat \<Rightarrow> string" where
  "unit_bytes n =
     (if n < 128 then [char_of n]
      else if n < 2048 then [char_of (192 + n div 64), char_of (128 + n mod 64)]
      else [char_of (224 + n div 4096), char_of (128 + n div 64 mod 64), char_of (128 + n mod 64)])"

text \<open>The letters that may follow a backslash in a literal; JSON also allows the slash.\<close>

definition unescape :: "(nat \<times> nat) list" where
  "unescape = (47, 47) # map prod.swap short_escapes"

fun parse_literal :: "string \<Rightarrow> string option" where
  "parse_literal [] = None"
| "parse_literal (c # s) =
     (if c = CHR 0x22 then (if s = [] then Some [] else None)
      else if c = CHR 0x5C then
        (case s of
           [] \<Rightarrow> None
         | e # s1 \<Rightarrow>
             (case map_of unescape (of_char e) of
                Some n \<Rightarrow> map_option ((#) (char_of n)) (parse_literal s1)
              | None \<Rightarrow>
                  if e = CHR ''u'' then
                    (case s1 of
                       h1 # h2 # h3 # h4 # s2 \<Rightarrow>
                         (case (hex_val h1, hex_val h2, hex_val h3, hex_val h4) of
                            (Some a, Some b, Some x, Some y) \<Rightarrow>
                              map_option ((@) (unit_bytes (4096 * a + 256 * b + 16 * x + y)))
                                (parse_literal s2)
                          | _ \<Rightarrow> None)
                     | _ \<Rightarrow> None)
                  else None))
      else if of_char c < (32 :: nat) then None
      else map_option ((#) c) (parse_literal s))"

definition json_parse :: "string \<Rightarrow> string option" where
  "json_parse s = (case s of c # r \<Rightarrow> if c = CHR 0x22 then parse_literal r else None | [] \<Rightarrow> None)"

section \<open>local-storage.ts\<close>

record browser =
  store :: "string \<rightharpoonup> string"
  available :: bool
  quota :: "nat option"

definition accepts :: "browser \<Rightarrow> string \<Rightarrow> bool" where
  "accepts b t = (case quota b of None \<Rightarrow> True | Some n \<Rightarrow> length t \<le> n)"

text \<open>A refused text leaves the storage as it was; the error is logged.\<close>

(* src: ui-dashboard/src/utils/local-storage.ts 1-13 set *)
definition ls_set :: "string \<Rightarrow> string \<Rightarrow> browser \<Rightarrow> browser" where
  "ls_set key v b =
     (if \<not> available b then b
      else if accepts b (json_stringify v) then b\<lparr>store := (store b)(key \<mapsto> json_stringify v)\<rparr>
      else b)"

text \<open>An absent text is null; the empty text is returned as it is.\<close>

(* src: ui-dashboard/src/utils/local-storage.ts 15-29 get *)
definition ls_get :: "string \<Rightarrow> browser \<Rightarrow> string option" where
  "ls_get key b =
     (if \<not> available b then None
      else case store b key of
        None \<Rightarrow> None
      | Some t \<Rightarrow> if t = [] then Some [] else json_parse t)"

(* src: ui-dashboard/src/utils/local-storage.ts 31-43 remove *)
definition ls_remove :: "string \<Rightarrow> browser \<Rightarrow> browser" where
  "ls_remove key b = (if \<not> available b then b else b\<lparr>store := (store b)(key := None)\<rparr>)"

section \<open>A store of keys and values\<close>

text \<open>What the rest of the dashboard relies on, while the storage works.\<close>

datatype ('k, 'v) store_op = Put 'k 'v | Del 'k

fun run_writes ::
    "('k \<Rightarrow> 'v \<Rightarrow> 's \<Rightarrow> 's) \<Rightarrow> ('k \<Rightarrow> 's \<Rightarrow> 's) \<Rightarrow> ('k, 'v) store_op list \<Rightarrow> 's \<Rightarrow> 's" where
  "run_writes put del [] s = s"
| "run_writes put del (Put k v # ws) s = run_writes put del ws (put k v s)"
| "run_writes put del (Del k # ws) s = run_writes put del ws (del k s)"

fun last_write :: "'k \<Rightarrow> 'v option \<Rightarrow> ('k, 'v) store_op list \<Rightarrow> 'v option" where
  "last_write k d [] = d"
| "last_write k d (Put j v # ws) = last_write k (if j = k then Some v else d) ws"
| "last_write k d (Del j # ws) = last_write k (if j = k then None else d) ws"

locale key_value =
  fixes get :: "'k \<Rightarrow> 's \<Rightarrow> 'v option" and put :: "'k \<Rightarrow> 'v \<Rightarrow> 's \<Rightarrow> 's"
    and del :: "'k \<Rightarrow> 's \<Rightarrow> 's" and ok :: "'s \<Rightarrow> bool"
  assumes get_put: "ok s \<Longrightarrow> get k (put k v s) = Some v"
    and get_put_other: "ok s \<Longrightarrow> j \<noteq> k \<Longrightarrow> get j (put k v s) = get j s"
    and get_del: "ok s \<Longrightarrow> get k (del k s) = None"
    and get_del_other: "ok s \<Longrightarrow> j \<noteq> k \<Longrightarrow> get j (del k s) = get j s"
    and ok_put: "ok s \<Longrightarrow> ok (put k v s)"
    and ok_del: "ok s \<Longrightarrow> ok (del k s)"
begin

lemma get_run: "ok s \<Longrightarrow> get k (run_writes put del ws s) = last_write k (get k s) ws"
proof (induction ws arbitrary: s)
  case (Cons w ws)
  show ?case
  proof (cases w)
    case (Put j v)
    then show ?thesis
      using Cons.IH [OF ok_put [OF Cons.prems]] get_put [OF Cons.prems] get_put_other [OF Cons.prems]
      by (cases "j = k") auto
  next
    case (Del j)
    then show ?thesis
      using Cons.IH [OF ok_del [OF Cons.prems]] get_del [OF Cons.prems] get_del_other [OF Cons.prems]
      by (cases "j = k") auto
  qed
qed simp

lemma ok_run: "ok s \<Longrightarrow> ok (run_writes put del ws s)"
proof (induction ws arbitrary: s)
  case (Cons w ws)
  then show ?case by (cases w) (auto intro: ok_put ok_del)
qed simp

end

section \<open>use-merchant-id.ts\<close>

text \<open>The shared state of the selected merchant, with the storage behind it.\<close>

(* src: ui-dashboard/src/hooks/use-merchant-id.ts 5-8 MerchantIdState *)
record merchant_state =
  merchantId :: "string option"
  browser_of :: browser

(* src: ui-dashboard/src/hooks/use-merchant-id.ts 10-11 useMerchantId *)
definition useMerchantId :: "browser \<Rightarrow> merchant_state" where
  "useMerchantId b = \<lparr>merchantId = ls_get ''merchantId'' b, browser_of = b\<rparr>"

(* src: ui-dashboard/src/hooks/use-merchant-id.ts 13-20 customSetMerchantId *)
definition setMerchantId :: "string option \<Rightarrow> merchant_state \<Rightarrow> merchant_state" where
  "setMerchantId m s =
     s\<lparr>merchantId := m,
       browser_of := (if truthy m then ls_set ''merchantId'' (the m) (browser_of s)
                      else ls_remove ''merchantId'' (browser_of s))\<rparr>"

section \<open>theme-context.tsx\<close>

(* src: ui-dashboard/src/theme/theme-context.tsx 6-6 ThemeMode *)
datatype theme_mode = Dark | Light

(* src: ui-dashboard/src/theme/theme-context.tsx 15-15 STORAGE_KEY *)
definition STORAGE_KEY :: string where
  "STORAGE_KEY = ''cryptolink-theme''"

definition mode_text :: "theme_mode \<Rightarrow> string" where
  "mode_text m = (case m of Dark \<Rightarrow> ''dark'' | Light \<Rightarrow> ''light'')"

text \<open>The theme is stored as it is, not as JSON; anything else in the storage means dark.\<close>

(* src: ui-dashboard/src/theme/theme-context.tsx 34-37 stored *)
definition theme_start :: "browser \<Rightarrow> theme_mode" where
  "theme_start b = (if store b STORAGE_KEY = Some ''light'' then Light else Dark)"

(* src: ui-dashboard/src/theme/theme-context.tsx 41-50 useEffect *)
definition theme_effect :: "theme_mode \<Rightarrow> browser \<Rightarrow> browser \<times> string \<times> string" where
  "theme_effect m b =
     (b\<lparr>store := (store b)(STORAGE_KEY \<mapsto> mode_text m)\<rparr>, mode_text m,
      if m = Dark then ''#0a0a0f'' else ''#ffffff'')"

(* src: ui-dashboard/src/theme/theme-context.tsx 52-52 toggleTheme *)
definition toggleTheme :: "theme_mode \<Rightarrow> theme_mode" where
  "toggleTheme prev = (if prev = Dark then Light else Dark)"

section \<open>Lemmas\<close>

lemma byte_bound: "(of_char c :: nat) < 16 * 16"
  using nat_of_char_less_256 [of c] by simp

lemma hex_digits:
  assumes "d < 16"
  shows "hex_val (hex_lower d) = Some d"
proof -
  have "list_all (\<lambda>d. hex_val (hex_lower d) = Some d) [0..<16]"
    by (simp add: upt_rec hex_val_def hex_lower_def)
  with assms show ?thesis by (auto simp: list_all_iff)
qed

lemma hex_zero: "hex_val CHR ''0'' = Some 0"
  by (simp add: hex_val_def)

lemma escape_back:
  "map_of short_escapes n = Some e \<Longrightarrow> map_of unescape e = Some n \<and> e < 256"
  by (auto simp: short_escapes_def unescape_def split: if_splits)

lemma unescape_u: "map_of unescape 117 = None"
  by (simp add: unescape_def short_escapes_def)

lemma parse_json_char: "parse_literal (json_char c @ s) = map_option ((#) c) (parse_literal s)"
proof (cases "map_of short_escapes (of_char c)")
  case (Some e)
  with escape_back [OF Some] show ?thesis
    by (simp add: json_char_def of_char_of)
next
  case None
  then have c: "c \<noteq> CHR 0x22" "c \<noteq> CHR 0x5C"
    by (auto simp: short_escapes_def split: if_splits)
  show ?thesis
  proof (cases "of_char c < (32 :: nat)")
    case True
    have "16 * (of_char c div 16) + of_char c mod 16 = (of_char c :: nat)" by simp
    moreover have "(of_char c :: nat) div 16 < 16"
      using less_mult_imp_div_less [OF byte_bound] by blast
    ultimately show ?thesis using None True
      by (cases "parse_literal s") (simp_all add: json_char_def hex_digits hex_zero unescape_u unit_bytes_def)
  next
    case False
    with None c show ?thesis by (simp add: json_char_def)
  qed
qed

lemma parse_chars: "parse_literal (concat (map json_char s) @ [CHR 0x22]) = Some s"
  by (induction s) (simp_all add: parse_json_char)

lemma json_round_trip: "json_parse (json_stringify s) = Some s"
  using parse_chars [of s] by (simp add: json_parse_def json_stringify_def)

lemma json_nonempty: "json_stringify s \<noteq> []"
  by (simp add: json_stringify_def)

definition ls_ok :: "browser \<Rightarrow> bool" where
  "ls_ok b \<longleftrightarrow> available b \<and> quota b = None"

interpretation ls: key_value ls_get ls_set ls_remove ls_ok
  by unfold_locales
    (auto simp: ls_get_def ls_set_def ls_remove_def ls_ok_def accepts_def json_round_trip json_nonempty)

text \<open>The writes that a sequence of selections makes.\<close>

definition merchant_write :: "string option \<Rightarrow> (string, string) store_op" where
  "merchant_write m = (if truthy m then Put ''merchantId'' (the m) else Del ''merchantId'')"

lemma browser_setMerchantId:
  "browser_of (setMerchantId m s) = run_writes ls_set ls_remove [merchant_write m] (browser_of s)"
  by (simp add: setMerchantId_def merchant_write_def)

lemma browser_selections:
  "browser_of (fold setMerchantId ms s)
    = run_writes ls_set ls_remove (map merchant_write ms) (browser_of s)"
proof (induction ms arbitrary: s)
  case (Cons m ms)
  then show ?case by (cases "truthy m") (simp_all add: setMerchantId_def merchant_write_def)
qed simp

lemma last_merchant_write:
  "last_write ''merchantId'' d (map merchant_write (ms @ [m])) = (if truthy m then m else None)"
  by (induction ms arbitrary: d) (auto simp: merchant_write_def truthy_iff)

section \<open>Properties\<close>

text \<open>C21. What is written to the storage is read back: for every text, the JSON that is stored
  parses to that text, quotes, backslashes and control characters included.\<close>

theorem storage_round_trip:
  "json_parse (json_stringify s) = Some s \<and> (ls_ok b \<longrightarrow> ls_get k (ls_set k s b) = Some s)"
  using json_round_trip ls.get_put by blast

theorem storage_round_trip_witness:
  "ls_get ''k'' (ls_set ''k'' ''a'' \<lparr>store = Map.empty, available = True, quota = None\<rparr>) = Some ''a''"
  using storage_round_trip [of "''a''" "\<lparr>store = Map.empty, available = True, quota = None\<rparr>" "''k''"]
  by (simp add: ls_ok_def)

text \<open>A reload restores the selection: after any sequence of selections of merchants, with a
  storage that works, a page loaded afresh starts with the last one, and with none when the last
  one cleared it, whatever was stored before.\<close>

lemma selection_survives_reload:
  assumes "ls_ok (browser_of s)"
  shows "merchantId (useMerchantId (browser_of (fold setMerchantId (ms @ [m]) s)))
    = (if truthy m then m else None)"
  unfolding useMerchantId_def merchant_state.simps browser_selections
  using ls.get_run [OF assms] last_merchant_write by metis

lemma selection_survives_reload_example:
  "merchantId (useMerchantId (browser_of (fold setMerchantId ([Some ''a'', None] @ [Some ''b''])
     \<lparr>merchantId = None, browser_of = \<lparr>store = Map.empty, available = True, quota = None\<rparr>\<rparr>))) = Some ''b''"
  using selection_survives_reload [of "\<lparr>merchantId = None,
      browser_of = \<lparr>store = Map.empty, available = True, quota = None\<rparr>\<rparr>" "[Some ''a'', None]" "Some ''b''"]
  by (simp add: ls_ok_def)

end
