(* ===== verification/Dashboard_App.thy ===== *)
theory Dashboard_App
  imports Async_History Dashboard_Providers Local_Storage
begin

text \<open>
  The session of the dashboard (ui-dashboard/src/app.tsx with the hooks use-merchants.ts and
  use-merchant.ts): loading the user and the merchants, switching the merchant, logging out, the
  verification mail and the support form, and the routing effect. The state holds the shared hooks
  and the component's own; the steps of \<open>loadUserInfo\<close> are continuations that carry the merchant
  identifier of the render in which it started. The login page (login-page.tsx) works on the same storage,
  so that what it does with it when it is opened is part of the state machine; its form is in Login_Page.
\<close>

section \<open>Menus and routing\<close>

(* src: ui-dashboard/src/app.tsx 43-48 MenuItem *)
record menu_item =
  mi_path :: string
  mi_name :: string

(* src: ui-dashboard/src/app.tsx 50-68 defaultMenus *)
definition defaultMenus :: "bool \<Rightarrow> menu_item list" where
  "defaultMenus feedback =
     map (\<lambda>(p, n). \<lparr>mi_path = p, mi_name = n\<rparr>)
       ([(''/payments'', ''Payments''), (''/payment-links'', ''Payment Links''),
         (''/balance'', ''Balance''), (''/customers'', ''Customers''),
         (''/subscription'', ''Subscription''), (''/currencies'', ''Currencies & Fees''),
         (''/wallet-setup'', ''Wallet Setup''), (''/settings'', ''Settings''),
         (''https://cryptolink.cc/docs'', ''Documentation'')]
        @ when_ui feedback [(''/support'', ''Support / Feedback'')])"

(* src: ui-dashboard/src/app.tsx 70-78 manageMerchantsMenus *)
definition menus :: "bool \<Rightarrow> menu_item list" where
  "menus feedback = defaultMenus feedback @ [\<lparr>mi_path = ''/manage-merchants'', mi_name = ''Manage Merchants''\<rparr>]"

datatype routing = NavigateTo string | SetTitle string

text \<open>\<open>merchants && !merchants?.length\<close>: the merchants are loaded and there are none.\<close>

(* src: ui-dashboard/src/app.tsx 207-227 isManageMerchantsActive *)
definition route_effect :: "bool \<Rightarrow> merchant list option \<Rightarrow> string \<Rightarrow> routing" where
  "route_effect feedback merchants path =
     (if path \<noteq> ''/manage-merchants'' \<and> merchants = Some [] \<and> path \<noteq> ''/login''
      then NavigateTo ''/manage-merchants''
      else if path = ''/'' then NavigateTo ''/payments''
      else if path = ''/login'' then SetTitle ''Login | Dashboard | CryptoLink''
      else SetTitle (template (map_option mi_name (find_first (\<lambda>i. mi_path i = path) (menus feedback)))
        @ '' | Dashboard | CryptoLink''))"

datatype dash_route =
    DSettings | DPayments | DPaymentLinks | DManageMerchants | DBalance | DCustomers | DWalletSetup
  | DSubscription | DCurrencies | DProfile | DNotFound | DLogin

(* src: ui-dashboard/src/app.tsx 467-479 Routes *)
definition dash_routes :: "(string \<times> dash_route) list" where
  "dash_routes =
     [(''settings'', DSettings), (''payments'', DPayments), (''payment-links'', DPaymentLinks),
      (''manage-merchants'', DManageMerchants), (''balance'', DBalance), (''customers'', DCustomers),
      (''wallet-setup'', DWalletSetup), (''subscription'', DSubscription),
      (''currencies'', DCurrencies), (''profile'', DProfile)]"

definition dash_route :: "string \<Rightarrow> dash_route" where
  "dash_route path =
     (if path = ''/login'' then DLogin
      else case map_of (map (\<lambda>(p, r). (CHR ''/'' # p, r)) dash_routes) path of
        Some r \<Rightarrow> r | None \<Rightarrow> DNotFound)"

section \<open>Session state\<close>

(* src: ui-dashboard/src/app.tsx 94-102 useSharedMerchants *)
record session =
  merchants :: "merchant list option"
  sharedMerchant :: "merchant option"
  selection :: merchant_state
  sessionUser :: "user option"
  isSupportFormOpen :: bool
  isFormSubmitting :: bool
  isLoading :: bool
  resendingVerification :: bool
  onLogin :: bool

datatype session_request =
    QAuth auth_request | QAccount account_request | QMerchant string merchant_request

datatype session_error = Unauthorized | OtherError

datatype session_answer = SVoid | SUser user | SMerchants "merchant list" | SMerchant merchant

datatype session_effect =
    ToLogin
  | Navigated string
  | NotifyResent bool
  | NotifyForm string

text \<open>A continuation of \<open>loadUserInfo\<close> carries the identifier its closure captured.\<close>

datatype session_cont =
    LoadCookie "string option" | LoadMe "string option" | LoadMerchants "string option"
  | LoadMerchant | SwitchReply | LogoutReply | ResendReply | SupportReply string | SupportReset
  | ProbeCookie | ProbeMe

type_synonym session_outcome = "(session, session_request, session_cont, session_effect) outcome"

section \<open>The login page and the storage\<close>

text \<open>The page removes the stored merchant; the shared selection is left as it is.\<close>

(* src: ui-dashboard/src/pages/login-page/login-page.tsx 97-97 remove *)
definition forget_stored :: "session \<Rightarrow> session" where
  "forget_stored s = s\<lparr>selection := (selection s)\<lparr>browser_of := ls_remove ''merchantId'' (browser_of (selection s))\<rparr>\<rparr>"

text \<open>A navigation to the page with \<open>isNeedLogout\<close> opens it, unless it is shown already: then it is not mounted again.\<close>

(* src: ui-dashboard/src/pages/login-page/login-page.tsx 87-88 isNeedLogout *)
definition to_login :: "session \<Rightarrow> session_outcome" where
  "to_login s = (if onLogin s then s else (forget_stored s)\<lparr>onLogin := True\<rparr>, [Emit ToLogin])"

text \<open>Opened without it, as by the address or the back button, it probes the session first.\<close>

(* src: ui-dashboard/src/pages/login-page/login-page.tsx 85-92 useMount *)
definition open_login :: "session \<Rightarrow> session_outcome" where
  "open_login s = (if onLogin s then idle s else (s\<lparr>onLogin := True\<rparr>, [Await (QAuth AuthGetCookie) ProbeCookie]))"

(* src: ui-dashboard/src/pages/login-page/login-page.tsx 91-99 getCookie *)
fun probe_cookie :: "(session_answer, session_error) reply \<Rightarrow> session \<Rightarrow> session_outcome" where
  "probe_cookie (Resolved a) s = (s, [Await (QAuth AuthGetMe) ProbeMe])"
| "probe_cookie (Rejected e) s = idle (if e = Unauthorized then forget_stored s else s)"

(* src: ui-dashboard/src/pages/login-page/login-page.tsx 92-99 getMe *)
fun probe_me :: "(session_answer, session_error) reply \<Rightarrow> session \<Rightarrow> session_outcome" where
  "probe_me (Resolved a) s = (s\<lparr>onLogin := False\<rparr>, [Emit (Navigated ''/'')])"
| "probe_me (Rejected e) s = idle (if e = Unauthorized then forget_stored s else s)"

section \<open>loadUserInfo\<close>

(* src: ui-dashboard/src/app.tsx 125-132 loadUserInfo *)
definition loadUserInfo :: "session \<Rightarrow> session_outcome" where
  "loadUserInfo s = (s, [Await (QAuth AuthGetCookie) (LoadCookie (merchantId (selection s)))])"

(* src: ui-dashboard/src/app.tsx 129-141 getCookie *)
definition load_cookie ::
    "string option \<Rightarrow> (session_answer, session_error) reply \<Rightarrow> session \<Rightarrow> session_outcome" where
  "load_cookie cap a s =
     andThen (if a = Rejected Unauthorized then to_login s else idle s)
       (\<lambda>t. (t, [Await (QAuth AuthGetMe) (LoadMe cap)]))"

text \<open>Without a user the two remaining steps return at once.\<close>

(* src: ui-dashboard/src/app.tsx 143-161 getMe *)
fun load_me ::
    "string option \<Rightarrow> (session_answer, session_error) reply \<Rightarrow> session \<Rightarrow> session_outcome" where
  "load_me cap (Resolved (SUser u)) s =
     (s\<lparr>sessionUser := Some u\<rparr>, [Await (QAccount ListMerchants) (LoadMerchants cap)])"
| "load_me cap (Resolved _) s = idle s"
| "load_me cap (Rejected e) s =
     andThen (if e = Unauthorized then to_login s else idle s) (\<lambda>t. (t\<lparr>isLoading := False\<rparr>, []))"

definition owns :: "merchant list \<Rightarrow> string option \<Rightarrow> bool" where
  "owns ms m \<longleftrightarrow> truthy m \<and> (\<exists>x \<in> set ms. Some (m_id x) = m)"

definition first_merchant :: "merchant list \<Rightarrow> string option" where
  "first_merchant ms = map_option m_id (elem_at ms 0)"

(* src: ui-dashboard/src/app.tsx 175-185 listMerchant *)
definition load_selected :: "string option \<Rightarrow> session \<Rightarrow> session_outcome" where
  "load_selected m s =
     (if truthy m then (s, [Await (QMerchant (the m) ShowMerchant) LoadMerchant])
      else (s\<lparr>isLoading := False\<rparr>, []))"

text \<open>A failure here rejects \<open>loadUserInfo\<close>: the flag \<open>isLoading\<close> is not cleared.\<close>

(* src: ui-dashboard/src/app.tsx 158-173 listMerchants *)
fun load_merchants ::
    "string option \<Rightarrow> (session_answer, session_error) reply \<Rightarrow> session \<Rightarrow> session_outcome" where
  "load_merchants cap (Resolved (SMerchants ms)) s =
     (let s1 = s\<lparr>merchants := Some ms\<rparr>
      in if owns ms cap then load_selected cap s1
         else load_selected (first_merchant ms)
           (s1\<lparr>selection := setMerchantId (first_merchant ms) (selection s1)\<rparr>))"
| "load_merchants cap (Resolved _) s = idle s"
| "load_merchants cap (Rejected e) s = idle s"

(* src: ui-dashboard/src/hooks/use-merchant.ts 14-18 getMerchant *)
fun merchant_reply :: "(session_answer, session_error) reply \<Rightarrow> session \<Rightarrow> session" where
  "merchant_reply (Resolved (SMerchant m)) s = s\<lparr>sharedMerchant := Some m\<rparr>"
| "merchant_reply _ s = s"

fun load_merchant :: "(session_answer, session_error) reply \<Rightarrow> session \<Rightarrow> session_outcome" where
  "load_merchant (Resolved (SMerchant m)) s =
     ((merchant_reply (Resolved (SMerchant m)) s)\<lparr>isLoading := False\<rparr>, [])"
| "load_merchant _ s = idle s"

section \<open>Other handlers\<close>

datatype session_event =
    Reload
  | OpenLogin
  | SwitchMerchant string
  | Logout
  | ResendVerification
  | OpenSupport bool
  | SubmitSupport support_message

(* src: ui-dashboard/src/app.tsx 372-379 onChange *)
definition switch_merchant :: "string \<Rightarrow> session \<Rightarrow> session_outcome" where
  "switch_merchant v s =
     (if v = ''loading...'' then idle s
      else (s\<lparr>selection := setMerchantId (Some v) (selection s)\<rparr>,
            [Await (QMerchant v ShowMerchant) SwitchReply]))"

(* src: ui-dashboard/src/app.tsx 229-243 logout *)
definition logout :: "session \<Rightarrow> session_outcome" where
  "logout s = (s\<lparr>selection := setMerchantId None (selection s)\<rparr>, [Await (QAuth AuthLogout) LogoutReply])"

(* src: ui-dashboard/src/app.tsx 104-123 handleResendVerification *)
definition handleResendVerification :: "session \<Rightarrow> session_outcome" where
  "handleResendVerification s =
     (s\<lparr>resendingVerification := True\<rparr>, [Await (QAuth AuthResendVerification) ResendReply])"

(* src: ui-dashboard/src/app.tsx 276-279 sendSupportForm *)
definition sendSupportForm :: "support_message \<Rightarrow> session \<Rightarrow> session_outcome" where
  "sendSupportForm m s =
     (s\<lparr>isFormSubmitting := True\<rparr>,
      [Await (QMerchant (merchant_id_text (merchantId (selection s))) (SendSupportMessage m))
         (SupportReply (sm_topic m))])"

(* src: ui-dashboard/src/app.tsx 280-295 setIsSupportFormOpen *)
fun support_reply ::
    "string \<Rightarrow> (session_answer, session_error) reply \<Rightarrow> session \<Rightarrow> session_outcome" where
  "support_reply topic (Resolved _) s =
     (s\<lparr>isSupportFormOpen := False\<rparr>,
      [Emit (NotifyForm (''Thank you for your '' @ to_lower topic)), After 1000 SupportReset])"
| "support_reply topic (Rejected e) s = (s\<lparr>isFormSubmitting := False\<rparr>, [])"

section \<open>The component\<close>

text \<open>Signing in leaves the login page for the start page, with the order to load the user again.\<close>

fun session_on :: "session_event \<Rightarrow> session \<Rightarrow> session_outcome" where
  "session_on Reload s = loadUserInfo (s\<lparr>onLogin := False\<rparr>)"
| "session_on OpenLogin s = open_login s"
| "session_on (SwitchMerchant v) s = switch_merchant v s"
| "session_on Logout s = logout s"
| "session_on ResendVerification s = handleResendVerification s"
| "session_on (OpenSupport b) s = (s\<lparr>isSupportFormOpen := b\<rparr>, [])"
| "session_on (SubmitSupport m) s = sendSupportForm m s"

fun session_resume ::
    "session_cont \<Rightarrow> (session_answer, session_error) reply \<Rightarrow> session \<Rightarrow> session_outcome" where
  "session_resume (LoadCookie cap) a s = load_cookie cap a s"
| "session_resume (LoadMe cap) a s = load_me cap a s"
| "session_resume (LoadMerchants cap) a s = load_merchants cap a s"
| "session_resume LoadMerchant a s = load_merchant a s"
| "session_resume SwitchReply a s = (merchant_reply a s, [])"
| "session_resume LogoutReply a s =
     (case a of Resolved _ \<Rightarrow> to_login s | Rejected _ \<Rightarrow> idle s)"
| "session_resume ResendReply a s =
     (s\<lparr>resendingVerification := False\<rparr>,
      [Emit (NotifyResent (case a of Resolved _ \<Rightarrow> True | Rejected _ \<Rightarrow> False))])"
| "session_resume (SupportReply t) a s = support_reply t a s"
| "session_resume SupportReset a s = idle s"
| "session_resume ProbeCookie a s = probe_cookie a s"
| "session_resume ProbeMe a s = probe_me a s"

fun session_timer :: "session_cont \<Rightarrow> session \<Rightarrow> session_outcome" where
  "session_timer SupportReset s = (s\<lparr>isFormSubmitting := False\<rparr>, [])"
| "session_timer k s = idle s"

definition session_fits :: "session_request \<Rightarrow> (session_answer, session_error) reply \<Rightarrow> bool" where
  "session_fits q a = (case a of Rejected e \<Rightarrow> True | Resolved r \<Rightarrow>
     (case q of
        QAuth x \<Rightarrow> if x = AuthGetMe then (case r of SUser u \<Rightarrow> True | _ \<Rightarrow> False) else r = SVoid
      | QAccount x \<Rightarrow> x = ListMerchants \<and> (case r of SMerchants ms \<Rightarrow> True | _ \<Rightarrow> False)
      | QMerchant i x \<Rightarrow>
          (case x of
             ShowMerchant \<Rightarrow> (case r of SMerchant m \<Rightarrow> m_id m = i | _ \<Rightarrow> False)
           | _ \<Rightarrow> r = SVoid)))"

definition session_component where
  "session_component = \<lparr>c_mount = loadUserInfo, c_event = session_on, c_resume = session_resume,
     c_timer = session_timer, c_effect = (\<lambda>old s. idle s), c_fits = session_fits\<rparr>"

text \<open>The page is opened on a browser whose storage may hold anything.\<close>

definition fresh_session :: "browser \<Rightarrow> session" where
  "fresh_session b = \<lparr>merchants = None, sharedMerchant = None, selection = useMerchantId b,
     sessionUser = None, isSupportFormOpen = False, isFormSubmitting = False, isLoading = True,
     resendingVerification = False, onLogin = False\<rparr>"

section \<open>Lemmas\<close>

lemma session_component_simps [simp]:
  "c_mount session_component = loadUserInfo" "c_event session_component = session_on"
  "c_resume session_component = session_resume" "c_timer session_component = session_timer"
  "c_effect session_component = (\<lambda>old s. idle s)" "c_fits session_component = session_fits"
  by (simp_all add: session_component_def)

text \<open>The storage works and holds the selection, when there is one; or it holds no merchant. The latter only when
  \<open>ended\<close>.\<close>

definition stored :: "merchant_state \<Rightarrow> string option" where
  "stored m = merchantId (useMerchantId (browser_of m))"

definition chosen :: "merchant_state \<Rightarrow> string option" where
  "chosen m = (if truthy (merchantId m) then merchantId m else None)"

definition selection_ok :: "bool \<Rightarrow> merchant_state \<Rightarrow> bool" where
  "selection_ok ended m \<longleftrightarrow> ls_ok (browser_of m) \<and> (stored m = chosen m \<or> stored m = None \<and> ended)"

definition session_inv :: "bool \<Rightarrow> session \<Rightarrow> bool" where
  "session_inv ended s \<longleftrightarrow> selection_ok ended (selection s)"

lemma set_stores: "ls_ok (browser_of m) \<Longrightarrow> stored (setMerchantId i m) = chosen (setMerchantId i m)"
  using ls.get_put ls.get_del by (auto simp: stored_def chosen_def useMerchantId_def setMerchantId_def truthy_iff)

lemma setMerchantId_ok: "selection_ok b m \<Longrightarrow> selection_ok c (setMerchantId i m)"
  using ls.ok_put ls.ok_del set_stores by (auto simp: selection_ok_def setMerchantId_def)



lemma session_inv_keep [simp]:
  "session_inv e (s\<lparr>isLoading := b\<rparr>) = session_inv e s"
  "session_inv e (s\<lparr>isSupportFormOpen := b\<rparr>) = session_inv e s"
  "session_inv e (s\<lparr>isFormSubmitting := b\<rparr>) = session_inv e s"
  "session_inv e (s\<lparr>resendingVerification := b\<rparr>) = session_inv e s"
  "session_inv e (s\<lparr>merchants := x\<rparr>) = session_inv e s"
  "session_inv e (s\<lparr>sharedMerchant := y\<rparr>) = session_inv e s"
  "session_inv e (s\<lparr>sessionUser := u\<rparr>) = session_inv e s"
  "session_inv e (s\<lparr>onLogin := b\<rparr>) = session_inv e s"
  by (simp_all add: session_inv_def)

lemma session_inv_select [simp]:
  "session_inv e s \<Longrightarrow> session_inv e (s\<lparr>selection := setMerchantId i (selection s)\<rparr>)"
  by (simp add: session_inv_def setMerchantId_ok)

lemma session_inv_select_loaded [simp]:
  "session_inv e s \<Longrightarrow> session_inv e (s\<lparr>merchants := ms, selection := setMerchantId i (selection s)\<rparr>)"
  by (simp add: session_inv_def setMerchantId_ok)

lemma merchant_reply_inv [simp]: "session_inv e (merchant_reply a s) = session_inv e s"
  by (induction a s rule: merchant_reply.induct) auto

text \<open>What each request and its continuation satisfy: details are only asked for a merchant that has
  an identifier.\<close>

definition session_request_ok :: "session_request \<Rightarrow> session_cont \<Rightarrow> bool" where
  "session_request_ok q k = (case k of
       LoadCookie cap \<Rightarrow> q = QAuth AuthGetCookie
     | LoadMe cap \<Rightarrow> q = QAuth AuthGetMe
     | LoadMerchants cap \<Rightarrow> q = QAccount ListMerchants
     | LoadMerchant \<Rightarrow> (\<exists>i. q = QMerchant i ShowMerchant \<and> i \<noteq> [])
     | SwitchReply \<Rightarrow> (\<exists>i. q = QMerchant i ShowMerchant)
     | LogoutReply \<Rightarrow> q = QAuth AuthLogout
     | ResendReply \<Rightarrow> q = QAuth AuthResendVerification
     | SupportReply t \<Rightarrow> (\<exists>i m. q = QMerchant i (SendSupportMessage m))
     | SupportReset \<Rightarrow> False
     | ProbeCookie \<Rightarrow> q = QAuth AuthGetCookie
     | ProbeMe \<Rightarrow> q = QAuth AuthGetMe)"

lemma session_request_ok_simps [simp]:
  "session_request_ok q (LoadCookie cap) \<longleftrightarrow> q = QAuth AuthGetCookie"
  "session_request_ok q (LoadMe cap) \<longleftrightarrow> q = QAuth AuthGetMe"
  "session_request_ok q (LoadMerchants cap) \<longleftrightarrow> q = QAccount ListMerchants"
  "session_request_ok q LoadMerchant \<longleftrightarrow> (\<exists>i. q = QMerchant i ShowMerchant \<and> i \<noteq> [])"
  "session_request_ok q SwitchReply \<longleftrightarrow> (\<exists>i. q = QMerchant i ShowMerchant)"
  "session_request_ok q LogoutReply \<longleftrightarrow> q = QAuth AuthLogout"
  "session_request_ok q ResendReply \<longleftrightarrow> q = QAuth AuthResendVerification"
  "session_request_ok q (SupportReply t) \<longleftrightarrow> (\<exists>i m. q = QMerchant i (SendSupportMessage m))"
  "\<not> session_request_ok q SupportReset"
  "session_request_ok q ProbeCookie \<longleftrightarrow> q = QAuth AuthGetCookie"
  "session_request_ok q ProbeMe \<longleftrightarrow> q = QAuth AuthGetMe"
  by (simp_all add: session_request_ok_def)

abbreviation "session_ok e \<equiv> ok_outcome (session_inv e) session_request_ok (\<lambda>k. k = SupportReset) (\<lambda>e. True)"




text \<open>The session has ended: the server has refused a request of it with 401, or has logged it out.\<close>

type_synonym session_history = "(session, session_request, session_cont, (session_answer, session_error) reply, session_event) history"

definition ended :: "session_history \<Rightarrow> bool" where
  "ended h \<longleftrightarrow> (\<exists>q k. Answered (QAuth q) k (Rejected Unauthorized) \<in> set h)
     \<or> (\<exists>k x. Answered (QAuth AuthLogout) k (Resolved x) \<in> set h)"



definition session_start :: "session \<Rightarrow> bool" where
  "session_start s \<longleftrightarrow> (\<exists>b. ls_ok b \<and> ls_get ''merchantId'' b \<noteq> Some [] \<and> s = fresh_session b)"



text \<open>A piece that changes the selection stores it.\<close>

definition chooses :: "session \<Rightarrow> session_outcome \<Rightarrow> bool" where
  "chooses s oc \<longleftrightarrow> merchantId (selection (fst oc)) = merchantId (selection s) \<or> stored (selection (fst oc)) = chosen (selection (fst oc))"

lemma chooses_same [simp]: "merchantId (selection (fst oc)) = merchantId (selection s) \<Longrightarrow> chooses s oc"
  by (simp add: chooses_def)


lemma login_keeps [simp]:
  "merchantId (selection (forget_stored s)) = merchantId (selection s)" "merchantId (selection (fst (to_login s))) = merchantId (selection s)"
  by (simp_all add: forget_stored_def to_login_def)

lemma fst_then [simp]: "fst (andThen oc f) = fst (f (fst oc))" for oc :: session_outcome
  by (cases oc) simp

lemma load_selected_selection [simp]: "selection (fst (load_selected m s)) = selection s"
  by (simp add: load_selected_def)



section \<open>Properties\<close>


definition empty_browser :: browser where
  "empty_browser = \<lparr>store = Map.empty, available = True, quota = None\<rparr>"

lemma empty_browser_start: "session_start (fresh_session empty_browser)"
  unfolding session_start_def
  by (rule exI [of _ empty_browser]) (simp add: empty_browser_def ls_ok_def ls_get_def)


definition sample_merchant :: "string \<Rightarrow> merchant" where
  "sample_merchant i = \<lparr>mb_name = i, mb_website = i, m_id = i, m_settings = [],
     m_fiatCurrency = ''USD'', m_fiatCurrencySymbol = [], m_webhookSettings =
       \<lparr>wh_secret = None, wh_url = []\<rparr>, supportedPaymentMethods = []\<rparr>"

lemma sample_id: "m_id (sample_merchant i) = i"
  by (simp add: sample_merchant_def)

text \<open>After the session has ended they do drift apart: the server refuses the session, which opens the login page, and the
  page removes the stored merchant; the visitor signs in again, and the load keeps the selection, because it is
  one of the merchants, without storing it. A reload would then start with no merchant.\<close>

definition sess_at :: "session \<Rightarrow> (session_request \<times> session_cont) list \<Rightarrow> session_effect list \<Rightarrow>
    (session, session_request, session_cont, session_effect) world" where
  "sess_at s qs es = \<lparr>wst = s, pending = qs, timers = [], trace = es\<rparr>"

lemma sess_answer:
  "session_resume k r s = (s', [Await q' k']) \<Longrightarrow> session_fits q r \<Longrightarrow>
    astep session_component (sess_at s [(q, k)] es) (sess_at s' [(q', k')] es)"
  using astep.reply [of 0 "sess_at s [(q, k)] es" session_component r]
  by (simp add: sess_at_def do_reply_def commit_def drop_nth_def idle_def)

lemma signed_in_again_not_stored:
  "\<exists>w. areach session_component session_start w \<and> (QMerchant ''m1'' ShowMerchant, LoadMerchant) \<in> set (pending w)
     \<and> merchantId (selection (wst w)) = Some ''m1'' \<and> merchants (wst w) = Some [sample_merchant ''m1'']
     \<and> merchantId (useMerchantId (browser_of (selection (wst w)))) = None"
proof -
  fix u :: user
  let ?c = session_component and ?m = "Some ''m1''" and ?ms = "[sample_merchant ''m1'']"
  define b where "b = ls_set ''merchantId'' ''m1'' empty_browser"
  have ok: "ls_ok empty_browser" by (simp add: empty_browser_def ls_ok_def)
  then have b: "ls_ok b" "ls_get ''merchantId'' b = ?m" using ls.ok_put ls.get_put by (simp_all add: b_def)
  define s where "s = fresh_session b"
  define t where "t = (forget_stored s)\<lparr>isLoading := False\<rparr>"
  have sel: "merchantId (selection s) = ?m" "browser_of (selection s) = b"
    by (simp_all add: s_def fresh_session_def useMerchantId_def b)
  have tsel: "merchantId (selection t) = ?m" "browser_of (selection t) = ls_remove ''merchantId'' b"
    by (simp_all add: t_def forget_stored_def sel)
  have 0: "areach ?c session_start (sess_at s [(QAuth AuthGetCookie, LoadCookie ?m)] [])"
    using areach.start [of session_start s ?c] b
    by (auto simp: session_start_def s_def initial_def loadUserInfo_def sess_at_def fresh_session_def useMerchantId_def)
  have 1: "astep ?c (sess_at s [(QAuth AuthGetCookie, LoadCookie ?m)] []) (sess_at s [(QAuth AuthGetMe, LoadMe ?m)] [])"
    by (rule sess_answer [where r = "Resolved SVoid"]) (simp_all add: load_cookie_def idle_def session_fits_def)
  have 2: "astep ?c (sess_at s [(QAuth AuthGetMe, LoadMe ?m)] []) (sess_at (t\<lparr>onLogin := True\<rparr>) [] [ToLogin])"
    using astep.reply [of 0 "sess_at s [(QAuth AuthGetMe, LoadMe ?m)] []" ?c "Rejected Unauthorized"]
    by (simp add: sess_at_def do_reply_def commit_def drop_nth_def idle_def session_fits_def to_login_def t_def s_def
        fresh_session_def forget_stored_def)
  have 3: "astep ?c (sess_at (t\<lparr>onLogin := True\<rparr>) [] [ToLogin]) (sess_at t [(QAuth AuthGetCookie, LoadCookie ?m)] [ToLogin])"
    using astep.event [of ?c "sess_at (t\<lparr>onLogin := True\<rparr>) [] [ToLogin]" Reload] tsel
    by (simp add: sess_at_def do_event_def commit_def idle_def loadUserInfo_def t_def s_def fresh_session_def forget_stored_def)
  have 4: "astep ?c (sess_at t [(QAuth AuthGetCookie, LoadCookie ?m)] [ToLogin]) (sess_at t [(QAuth AuthGetMe, LoadMe ?m)] [ToLogin])"
    by (rule sess_answer [where r = "Resolved SVoid"]) (simp_all add: load_cookie_def idle_def session_fits_def)
  have 5: "astep ?c (sess_at t [(QAuth AuthGetMe, LoadMe ?m)] [ToLogin])
      (sess_at (t\<lparr>sessionUser := Some u\<rparr>) [(QAccount ListMerchants, LoadMerchants ?m)] [ToLogin])"
    by (rule sess_answer [where r = "Resolved (SUser u)"]) (simp_all add: session_fits_def)
  have 6: "astep ?c (sess_at (t\<lparr>sessionUser := Some u\<rparr>) [(QAccount ListMerchants, LoadMerchants ?m)] [ToLogin])
      (sess_at (t\<lparr>sessionUser := Some u, merchants := Some ?ms\<rparr>) [(QMerchant ''m1'' ShowMerchant, LoadMerchant)] [ToLogin])"
    by (rule sess_answer [where r = "Resolved (SMerchants ?ms)"])
      (simp_all add: session_fits_def owns_def sample_id load_selected_def)
  have "areach ?c session_start (sess_at (t\<lparr>sessionUser := Some u, merchants := Some ?ms\<rparr>) [(QMerchant ''m1'' ShowMerchant, LoadMerchant)] [ToLogin])"
    by (rule areach.step [OF areach.step [OF areach.step [OF areach.step [OF areach.step [OF areach.step [OF 0 1] 2] 3] 4] 5] 6])
  moreover have "ls_get ''merchantId'' (ls_remove ''merchantId'' b) = None" using ls.get_del b(1) by simp
  ultimately show ?thesis using tsel
    by (intro exI [of _ "sess_at (t\<lparr>sessionUser := Some u, merchants := Some ?ms\<rparr>) [(QMerchant ''m1'' ShowMerchant, LoadMerchant)] [ToLogin]"])
      (simp add: sess_at_def useMerchantId_def)
qed

text \<open>Loading never leaves a foreign merchant selected: when the list of merchants arrives, a
  selection that is not one of them is replaced by the first of the list, or by none when the list is
  empty. This compares the selection at the start of the load; it protects the user as long as the
  selection did not change while the list was on its way.\<close>

lemma load_owns_selection:
  assumes "cap = merchantId (selection s)"
  shows "let m = merchantId (selection (fst (load_merchants cap (Resolved (SMerchants ms)) s)))
    in (owns ms cap \<longrightarrow> m = cap) \<and> (\<not> owns ms cap \<longrightarrow> m = first_merchant ms)
      \<and> (m = None \<or> m \<in> Some ` m_id ` set ms)"
proof -
  have f: "first_merchant ms = None \<or> first_merchant ms \<in> Some ` m_id ` set ms"
    by (auto simp: first_merchant_def elem_at_def)
  have "owns ms cap \<Longrightarrow> cap \<in> Some ` m_id ` set ms" by (auto simp: owns_def)
  then show ?thesis
    using assms f by (auto simp: Let_def load_selected_def setMerchantId_def)
qed

lemma load_owns_selection_example:
  "merchantId (selection (fst (load_merchants (Some ''other'') (Resolved (SMerchants [sample_merchant ''m1'']))
     ((fresh_session empty_browser)\<lparr>selection := \<lparr>merchantId = Some ''other'', browser_of = empty_browser\<rparr>\<rparr>))))
   = Some ''m1''"
  using load_owns_selection [of "Some ''other''"
      "(fresh_session empty_browser)\<lparr>selection := \<lparr>merchantId = Some ''other'', browser_of = empty_browser\<rparr>\<rparr>"
      "[sample_merchant ''m1'']"]
  by (simp add: Let_def owns_def first_merchant_def elem_at_def sample_merchant_def)

text \<open>Switching twice can leave the details of the wrong merchant: there is a run in which the
  merchant selected last is one and the details that the pages show and edit are those of the other,
  because the answers arrive in the opposite order and nothing compares them with the selection.\<close>

lemma switch_race:
  "\<exists>w m. areach session_component session_start w
     \<and> merchantId (selection (wst w)) = Some ''B'' \<and> sharedMerchant (wst w) = Some m \<and> m_id m = ''A''
     \<and> (\<forall>i k. (QMerchant i ShowMerchant, k) \<notin> set (pending w))"
proof -
  let ?c = session_component
  let ?s = "fresh_session empty_browser"
  let ?w0 = "initial ?c ?s"
  let ?w1 = "do_event ?c (SwitchMerchant ''A'') ?w0"
  let ?w2 = "do_event ?c (SwitchMerchant ''B'') ?w1"
  let ?w3 = "do_reply ?c 2 (Resolved (SMerchant (sample_merchant ''B''))) ?w2"
  let ?w4 = "do_reply ?c 1 (Resolved (SMerchant (sample_merchant ''A''))) ?w3"
  have p0: "pending ?w0 = [(QAuth AuthGetCookie, LoadCookie None)]"
    by (simp add: initial_def loadUserInfo_def fresh_session_def useMerchantId_def empty_browser_def ls_get_def)
  have p2: "pending ?w2 = [(QAuth AuthGetCookie, LoadCookie None), (QMerchant ''A'' ShowMerchant, SwitchReply),
      (QMerchant ''B'' ShowMerchant, SwitchReply)]"
    using p0 by (simp add: do_event_def commit_def switch_merchant_def idle_def)
  have s2: "merchantId (selection (wst ?w2)) = Some ''B''"
    by (simp add: do_event_def commit_wst switch_merchant_def setMerchantId_def idle_def)
  have p3: "pending ?w3 = [(QAuth AuthGetCookie, LoadCookie None), (QMerchant ''A'' ShowMerchant, SwitchReply)]"
    unfolding do_reply_def p2 by (simp add: commit_def drop_nth_def idle_def)
  have s3: "merchantId (selection (wst ?w3)) = Some ''B''"
    unfolding do_reply_def p2 using s2 by (simp add: commit_wst idle_def)
  have p4: "pending ?w4 = [(QAuth AuthGetCookie, LoadCookie None)]"
    unfolding do_reply_def [of ?c 1] p3 by (simp add: commit_def drop_nth_def idle_def)
  have s4: "merchantId (selection (wst ?w4)) = Some ''B'' \<and> sharedMerchant (wst ?w4) = Some (sample_merchant ''A'')"
    unfolding do_reply_def [of ?c 1] p3 using s3 by (simp add: commit_wst idle_def)
  have r2: "areach ?c session_start ?w2"
    by (intro areach.step [OF _ astep.event] areach.start empty_browser_start)
  have r3: "areach ?c session_start ?w3"
    by (rule areach.step [OF r2 astep.reply]) (simp_all add: p2 sample_id session_fits_def)
  have r4: "areach ?c session_start ?w4"
    by (rule areach.step [OF r3 astep.reply]) (simp_all add: p3 sample_id session_fits_def)
  show ?thesis using r4 s4 p4 sample_id by fastforce
qed

text \<open>The routing effect settles: wherever it navigates, it stays, so no redirect follows a
  redirect, and with merchants loaded and none of them owned every page but the login leads to the
  page that creates one.\<close>

lemma routing_settles:
  assumes "route_effect fb ms p = NavigateTo q"
  shows "(\<exists>t. route_effect fb ms q = SetTitle t) \<and> dash_route q \<noteq> DNotFound
    \<and> (ms = Some [] \<longrightarrow> q = ''/manage-merchants'')"
  using assms by (auto simp: route_effect_def dash_route_def dash_routes_def split: if_splits)

lemma routing_settles_example: "\<exists>t. route_effect False (Some []) ''/manage-merchants'' = SetTitle t"
  using routing_settles [of False "Some []" "''/''" "''/manage-merchants''"] by (simp add: route_effect_def)

end
