(* ===== verification/Wallets.thy ===== *)
theory Wallets
  imports JS_Prelude
begin

text \<open>
  The browser wallets of the dashboard (ui-dashboard/src/utils/evm-wallet.ts, tron-wallet.ts and the
  tables of ui-dashboard/src/constants/merchant-collector.ts). The wallet extensions, viem and
  TronWeb are outside the repository: what they answer is a parameter, the n-th answer of the wallet
  or the state found at the n-th look, and so are their encoders of calls. An error is the left value
  of a sum.
\<close>

section \<open>Chains and tokens\<close>

(* src: ui-dashboard/src/constants/merchant-collector.ts 26-34 EvmChainConfig *)
record evm_chain =
  ch_value :: string
  ch_label :: string
  ch_chainId :: nat
  ch_color :: string
  ch_rpcUrl :: string
  ch_nativeTicker :: string
  ch_explorerUrl :: string

definition evm_chain_of ::
    "string \<Rightarrow> string \<Rightarrow> nat \<Rightarrow> string \<Rightarrow> string \<Rightarrow> string \<Rightarrow> string \<Rightarrow> evm_chain" where
  "evm_chain_of v l i c r n e = \<lparr>ch_value = v, ch_label = l, ch_chainId = i, ch_color = c,
     ch_rpcUrl = r, ch_nativeTicker = n, ch_explorerUrl = e\<rparr>"

(* src: ui-dashboard/src/constants/merchant-collector.ts 36-42 EVM_CHAINS *)
definition EVM_CHAINS :: "evm_chain list" where
  "EVM_CHAINS =
     [evm_chain_of ''ETH'' ''Ethereum'' 1 ''#627EEA'' ''https://eth.llamarpc.com'' ''ETH''
        ''https://etherscan.io'',
      evm_chain_of ''MATIC'' ''Polygon'' 137 ''#8247E5'' ''https://polygon-rpc.com'' ''MATIC''
        ''https://polygonscan.com'',
      evm_chain_of ''BSC'' ''BNB Smart Chain'' 56 ''#F0B90B'' ''https://bsc-dataseed.binance.org'' ''BNB''
        ''https://bscscan.com'',
      evm_chain_of ''ARBITRUM'' ''Arbitrum'' 42161 ''#28A0F0'' ''https://arb1.arbitrum.io/rpc'' ''ETH''
        ''https://arbiscan.io'',
      evm_chain_of ''AVAX'' ''Avalanche'' 43114 ''#E84142'' ''https://api.avax.network/ext/bc/C/rpc'' ''AVAX''
        ''https://snowtrace.io'']"

(* src: ui-dashboard/src/constants/merchant-collector.ts 100-107 TronChainConfig *)
record tron_chain =
  tc_value :: string
  tc_label :: string
  tc_color :: string
  tc_fullNodeUrl :: string
  tc_explorerUrl :: string
  tc_nativeTicker :: string

(* src: ui-dashboard/src/constants/merchant-collector.ts 109-116 TRON_CHAIN *)
definition TRON_CHAIN :: tron_chain where
  "TRON_CHAIN = \<lparr>tc_value = ''TRON'', tc_label = ''TRON'', tc_color = ''#FF0013'',
     tc_fullNodeUrl = ''https://api.trongrid.io'', tc_explorerUrl = ''https://tronscan.org'',
     tc_nativeTicker = ''TRX''\<rparr>"

(* src: ui-dashboard/src/constants/merchant-collector.ts 94-97 TRON_KNOWN_TOKENS *)
definition TRON_KNOWN_TOKENS :: "string list" where
  "TRON_KNOWN_TOKENS =
     [''TR7NHqjeKQxGTCi8q8ZY4pL8otSzgjLj6t'', ''TEkxiTehnzSmSe2XqrBj4w32RUN966rdz8'']"

(* src: ui-dashboard/src/constants/merchant-collector.ts 120-142 KNOWN_TOKENS *)
definition KNOWN_TOKENS :: "(string \<times> string list) list" where
  "KNOWN_TOKENS =
     [(''ETH'', [''0xdAC17F958D2ee523a2206206994597C13D831ec7'',
                 ''0xA0b86991c6218b36c1d19D4a2e9Eb0cE3606eB48'']),
      (''MATIC'', [''0xc2132D05D31c914a87C6611C10748AEb04B58e8F'',
                   ''0x2791Bca1f2de4661ED88A30C99A7a9449Aa84174'']),
      (''BSC'', [''0x55d398326f99059fF775485246999027B3197955'',
                 ''0x8AC76a51cc950d9822D68b83fE1Ad97B32Cd580d'']),
      (''ARBITRUM'', [''0xFd086bC7CD5C481DCC9C85ebE478A1C0b69FCbb9'',
                      ''0xFF970A61A04b1cA14834A43f5dE4533eBDDB5CC8'',
                      ''0xaf88d065e77c8cC2239327C5EDb3A432268e5831'']),
      (''AVAX'', [''0x9702230A8Ea53601f5cD2dc00fDBc13d4dF4A8c7'',
                  ''0xB97EF9Ef8734C71904D8002F8b6Bc66Dd9c48a6E''])]"

text \<open>\<open>n.toString(16)\<close> and its inverse.\<close>

definition hex_of :: "nat \<Rightarrow> char" where
  "hex_of d = ''0123456789abcdef'' ! d"

fun show_hex :: "nat \<Rightarrow> string" where
  "show_hex n = (if n < 16 then [hex_of n] else show_hex (n div 16) @ [hex_of (n mod 16)])"

declare show_hex.simps [simp del]

definition hex_digit_val :: "char \<Rightarrow> nat" where
  "hex_digit_val c = (let n = of_char c :: nat in if n < 58 then n - 48 else n - 87)"

definition nat_of_hex :: "string \<Rightarrow> nat" where
  "nat_of_hex = foldl (\<lambda>acc c. 16 * acc + hex_digit_val c) 0"

section \<open>MetaMask\<close>

text \<open>An injected provider with the flags that the code looks at, and the page's window.\<close>

record injected =
  isMetaMask :: bool
  underscore_metamask :: bool
  isAtomicWallet :: bool
  prov :: nat

record ethereum =
  eth_self :: injected
  eth_providers :: "injected list option"

datatype page_window = NoBrowser | Window "ethereum option"

(* src: ui-dashboard/src/utils/evm-wallet.ts 27-27 METAMASK_RDNS *)
definition METAMASK_RDNS :: string where
  "METAMASK_RDNS = ''io.metamask''"

record wallet_error =
  we_code :: "int option"
  we_message :: string

definition js_error :: "string \<Rightarrow> wallet_error" where
  "js_error m = \<lparr>we_code = None, we_message = m\<rparr>"

definition metamask_missing :: string where
  "metamask_missing = ''MetaMask not found. Please install MetaMask (metamask.io) and try again, ''
     @ ''or disable conflicting wallet extensions.''"

definition no_contract_address :: string where
  "no_contract_address = ''Contract deployment failed '' @ em_dash @ '' no contract address in receipt.''"

definition tronlink_missing :: string where
  "tronlink_missing = ''TronLink not found. Please install the TronLink browser extension (tronlink.org) and try again. ''
     @ ''Other TRON wallets (Atomic, etc.) are not supported.''"

text \<open>The providers that announce themselves within half a second, with their reverse domain names.\<close>

(* src: ui-dashboard/src/utils/evm-wallet.ts 29-72 getMetaMaskProvider *)
definition getMetaMaskProvider ::
    "page_window \<Rightarrow> (string \<times> nat) list \<Rightarrow> wallet_error + nat" where
  "getMetaMaskProvider win announced = (case win of
       NoBrowser \<Rightarrow> Inl (js_error ''No browser environment.'')
     | Window eth \<Rightarrow>
         (case filter (\<lambda>(r, p). r = METAMASK_RDNS) announced of
            (r, p) # _ \<Rightarrow> Inr p
          | [] \<Rightarrow>
              (let mm = (case eth of None \<Rightarrow> None | Some e \<Rightarrow>
                     (case eth_providers e of None \<Rightarrow> None | Some ps \<Rightarrow>
                        (case find_first underscore_metamask ps of
                           Some x \<Rightarrow> Some x
                         | None \<Rightarrow> find_first (\<lambda>x. isMetaMask x \<and> \<not> isAtomicWallet x) ps)))
               in case mm of
                    Some x \<Rightarrow> Inr (prov x)
                  | None \<Rightarrow>
                      (case eth of
                         Some e \<Rightarrow>
                           if isMetaMask (eth_self e) \<and> underscore_metamask (eth_self e)
                           then Inr (prov (eth_self e))
                           else Inl (js_error metamask_missing)
                       | None \<Rightarrow> Inl (js_error metamask_missing)))))"

(* src: ui-dashboard/src/utils/evm-wallet.ts 96-101 isMetaMaskAvailable *)
definition isMetaMaskAvailable :: "page_window \<Rightarrow> bool" where
  "isMetaMaskAvailable win = (case win of NoBrowser \<Rightarrow> False | Window None \<Rightarrow> False
     | Window (Some e) \<Rightarrow>
         (case eth_providers e of None \<Rightarrow> False | Some ps \<Rightarrow> \<exists>x \<in> set ps. isMetaMask x)
         \<or> isMetaMask (eth_self e))"

text \<open>The calls to the provider and their answers.\<close>

datatype rpc =
    EthRequestAccounts
  | EthAccounts
  | WalletSwitchChain string
  | WalletAddChain string string string string nat
  | EthSendTransaction string "string option" string

datatype rpc_answer = RAccounts "string list" | RNull | RHash string

text \<open>What a provider answers, after so many calls have been made to any of them: providers are not one
  wallet, and each answers for itself.\<close>

type_synonym wallet = "nat \<Rightarrow> nat \<Rightarrow> rpc \<Rightarrow> wallet_error + rpc_answer"

text \<open>A script talks to the providers: the calls made so far, each with its provider, and the result.\<close>

type_synonym calls = "(nat \<times> rpc) list"

type_synonym 'a script = "calls \<times> (wallet_error + 'a)"

definition call :: "wallet \<Rightarrow> nat \<Rightarrow> rpc \<Rightarrow> calls \<Rightarrow> rpc_answer script" where
  "call w p q cs = (cs @ [(p, q)], w p (length cs) q)"

fun accounts_of :: "rpc_answer \<Rightarrow> string list" where
  "accounts_of (RAccounts xs) = xs"
| "accounts_of _ = []"

fun hash_of :: "rpc_answer \<Rightarrow> string" where
  "hash_of (RHash h) = h"
| "hash_of _ = []"

(* src: ui-dashboard/src/utils/evm-wallet.ts 107-112 connectWallet *)
definition connectWallet :: "wallet_error + nat \<Rightarrow> wallet \<Rightarrow> calls \<Rightarrow> string script" where
  "connectWallet provider w calls = (case provider of Inl e \<Rightarrow> (calls, Inl e) | Inr p \<Rightarrow>
     (case call w p EthRequestAccounts calls of
        (cs, Inl e) \<Rightarrow> (cs, Inl e)
      | (cs, Inr a) \<Rightarrow>
          (cs, case accounts_of a of [] \<Rightarrow> Inl (js_error ''No accounts returned from MetaMask.'')
             | x # _ \<Rightarrow> Inr x)))"

definition chain_hex :: "evm_chain \<Rightarrow> string" where
  "chain_hex c = ''0x'' @ show_hex (ch_chainId c)"

(* src: ui-dashboard/src/utils/evm-wallet.ts 114-138 switchChain *)
definition switchChain :: "wallet_error + nat \<Rightarrow> wallet \<Rightarrow> evm_chain \<Rightarrow> calls \<Rightarrow> unit script" where
  "switchChain provider w c calls = (case provider of Inl e \<Rightarrow> (calls, Inl e) | Inr p \<Rightarrow>
     (case call w p (WalletSwitchChain (chain_hex c)) calls of
        (cs, Inr a) \<Rightarrow> (cs, Inr ())
      | (cs, Inl e) \<Rightarrow>
          if we_code e = Some 4902
          then (case call w p (WalletAddChain (chain_hex c) (ch_label c) (ch_rpcUrl c) (ch_nativeTicker c) 18) cs of
                  (cs', Inl e') \<Rightarrow> (cs', Inl e')
                | (cs', Inr a) \<Rightarrow> (cs', Inr ()))
          else (cs, Inl e)))"

text \<open>The encoder of the call \<open>withdrawAll(tokens)\<close> is viem's.\<close>

(* src: ui-dashboard/src/utils/evm-wallet.ts 170-192 withdrawAll *)
definition withdrawAll ::
    "(string list \<Rightarrow> string) \<Rightarrow> wallet_error + nat \<Rightarrow> wallet \<Rightarrow> string \<Rightarrow> string list \<Rightarrow>
     calls \<Rightarrow> string script" where
  "withdrawAll encode provider w contract tokens calls =
     (case provider of Inl e \<Rightarrow> (calls, Inl e) | Inr p \<Rightarrow>
       (case call w p EthAccounts calls of
          (cs, Inl e) \<Rightarrow> (cs, Inl e)
        | (cs, Inr a) \<Rightarrow>
            (case accounts_of a of
               [] \<Rightarrow> (cs, Inl (js_error ''No wallet connected.''))
             | x # _ \<Rightarrow>
                 (case call w p (EthSendTransaction x (Some contract) (encode tokens)) cs of
                    (cs', Inl e) \<Rightarrow> (cs', Inl e)
                  | (cs', Inr h) \<Rightarrow> (cs', Inr (hash_of h))))))"

text \<open>Deploying a collector: the receipt's contract address comes from the chain's node.\<close>

(* src: ui-dashboard/src/utils/evm-wallet.ts 140-168 deployCollector *)
definition deployCollector ::
    "(string \<Rightarrow> string) \<Rightarrow> (string \<Rightarrow> wallet_error + string option) \<Rightarrow> wallet_error + nat \<Rightarrow>
     wallet \<Rightarrow> string \<Rightarrow> calls \<Rightarrow> string script" where
  "deployCollector encode receipt provider w owner calls =
     (case provider of Inl e \<Rightarrow> (calls, Inl e) | Inr p \<Rightarrow>
       (case call w p (EthSendTransaction owner None (encode owner)) calls of
          (cs, Inl e) \<Rightarrow> (cs, Inl e)
        | (cs, Inr h) \<Rightarrow>
            (cs, case receipt (hash_of h) of
               Inl e \<Rightarrow> Inl e
             | Inr None \<Rightarrow> Inl (js_error no_contract_address)
             | Inr (Some addr) \<Rightarrow>
                 if addr = [] then Inl (js_error no_contract_address) else Inr addr)))"

section \<open>TronLink\<close>

text \<open>A look at the extension's TronWeb: the account, when it is ready.\<close>

type_synonym tron_look = "string option"

record tron_link =
  tl_has_request :: bool
  tl_request_code :: "wallet_error + int option"

text \<open>The waiting loops look up to a number of times, with a pause after each look that finds nothing.\<close>

(* src: ui-dashboard/src/utils/tron-wallet.ts 57-63 ready *)
fun wait_ready :: "(nat \<Rightarrow> tron_look) \<Rightarrow> nat \<Rightarrow> nat \<Rightarrow> string option" where
  "wait_ready look i 0 = None"
| "wait_ready look i (Suc n) =
     (case look i of Some a \<Rightarrow> Some a | None \<Rightarrow> wait_ready look (Suc i) n)"

(* src: ui-dashboard/src/utils/tron-wallet.ts 39-68 connectTronWallet *)
definition connectTronWallet :: "tron_link option \<Rightarrow> (nat \<Rightarrow> tron_look) \<Rightarrow> wallet_error + string" where
  "connectTronWallet link look = (case link of
       None \<Rightarrow> Inl (js_error tronlink_missing)
     | Some l \<Rightarrow>
         (let go = (case wait_ready look 0 10 of
              Some a \<Rightarrow> Inr a
            | None \<Rightarrow> Inl (js_error ''TronLink connected but no account found. Please unlock TronLink and select a TRON account.''))
          in if \<not> tl_has_request l then go
             else case tl_request_code l of
               Inl e \<Rightarrow> Inl e
             | Inr c \<Rightarrow> if c = Some 4001
                 then Inl (js_error ''You rejected the TronLink connection request.'') else go))"

text \<open>The first look comes before the extension is asked again.\<close>

(* src: ui-dashboard/src/utils/tron-wallet.ts 74-92 ensureTronWebReady *)
definition ensureTronWebReady :: "tron_link option \<Rightarrow> (nat \<Rightarrow> tron_look) \<Rightarrow> wallet_error + string" where
  "ensureTronWebReady link look = (case look 0 of
       Some a \<Rightarrow> Inr a
     | None \<Rightarrow>
         (let go = (case wait_ready look 1 15 of
              Some a \<Rightarrow> Inr a | None \<Rightarrow> Inl (js_error ''TronLink is not ready. Please unlock TronLink and try again.''))
          in case link of
               None \<Rightarrow> go
             | Some l \<Rightarrow>
                 if \<not> tl_has_request l then go
                 else (case tl_request_code l of Inl e \<Rightarrow> Inl e | Inr c \<Rightarrow> go)))"

text \<open>What the node says of a transaction: an error, nothing yet, or its information.\<close>

record tx_info =
  tx_result :: "string option"
  tx_log :: "string option list"
  tx_contract :: "string option"

datatype tx_look = LookFailed string | NotYet | Found tx_info

definition tx_success :: "tx_info \<Rightarrow> bool" where
  "tx_success i \<longleftrightarrow> tx_result i = Some ''SUCCESS'' \<or> tx_result i = Some ''success''"

definition tx_failed :: "tx_info \<Rightarrow> bool" where
  "tx_failed i \<longleftrightarrow> truthy (tx_result i) \<and> tx_result i \<noteq> Some ''SUCCESS''"

datatype deploy_result = Deployed string | FailedOnChain string | AddressMissing | TimedOut | Rethrown string

text \<open>Up to thirty looks, three seconds apart, until one is decisive.\<close>

(* src: ui-dashboard/src/utils/tron-wallet.ts 132-134 setTimeout *)
fun poll_loop :: "(tx_look \<Rightarrow> deploy_result option) \<Rightarrow> (nat \<Rightarrow> tx_look) \<Rightarrow> nat \<Rightarrow> nat \<Rightarrow> deploy_result" where
  "poll_loop verdict look i 0 = TimedOut"
| "poll_loop verdict look i (Suc n) =
     (case verdict (look i) of Some r \<Rightarrow> r | None \<Rightarrow> poll_loop verdict look (Suc i) n)"

text \<open>A failure on the chain is thrown inside the loop and rethrown by its own handler; any other
  error of a look is ignored.\<close>

(* src: ui-dashboard/src/utils/tron-wallet.ts 135-147 getTransactionInfo *)
definition deploy_verdict :: "string \<Rightarrow> tx_look \<Rightarrow> deploy_result option" where
  "deploy_verdict contract lk = (case lk of
       LookFailed m \<Rightarrow> if str_includes m ''failed on-chain'' then Some (Rethrown m) else None
     | NotYet \<Rightarrow> None
     | Found info \<Rightarrow>
         if tx_success info then Some (Deployed contract)
         else if tx_failed info then Some (FailedOnChain (the (tx_result info)))
         else None)"

(* src: ui-dashboard/src/utils/tron-wallet.ts 94-151 deployContractOnTron *)
definition deployContractOnTron ::
    "wallet_error + string \<Rightarrow> bool \<Rightarrow> string option \<Rightarrow> (string \<Rightarrow> string) \<Rightarrow> (nat \<Rightarrow> tx_look) \<Rightarrow>
     wallet_error + deploy_result" where
  "deployContractOnTron ready broadcast contractHex fromHex look =
     (case ready of Inl e \<Rightarrow> Inl e | Inr account \<Rightarrow>
        if \<not> broadcast
        then Inl (js_error ''Failed to broadcast TRON transaction. Please try again.'')
        else if \<not> truthy contractHex then Inr AddressMissing
        else Inr (poll_loop (deploy_verdict (fromHex (the contractHex))) look 0 30))"

text \<open>The clone's address: the last twenty bytes of the first log entry, with the prefix of the main
  network, or the contract address of the transaction.\<close>

(* src: ui-dashboard/src/utils/tron-wallet.ts 205-220 logData *)
definition clone_address :: "(string \<Rightarrow> string) \<Rightarrow> tx_info \<Rightarrow> deploy_result" where
  "clone_address fromHex info =
     (case tx_log info of
        d # _ \<Rightarrow>
          if truthy d then Deployed (fromHex (''41'' @ slice_from (the d) 24))
          else if truthy (tx_contract info) then Deployed (fromHex (the (tx_contract info)))
          else AddressMissing
      | [] \<Rightarrow>
          if truthy (tx_contract info) then Deployed (fromHex (the (tx_contract info)))
          else AddressMissing)"

(* src: ui-dashboard/src/utils/tron-wallet.ts 201-228 getTransactionInfo *)
definition clone_verdict :: "(string \<Rightarrow> string) \<Rightarrow> tx_look \<Rightarrow> deploy_result option" where
  "clone_verdict fromHex lk = (case lk of
       LookFailed m \<Rightarrow>
         if str_includes m ''failed on-chain'' \<or> str_includes m ''not found in event''
         then Some (Rethrown m) else None
     | NotYet \<Rightarrow> None
     | Found info \<Rightarrow>
         if tx_success info then Some (clone_address fromHex info)
         else if tx_failed info then Some (FailedOnChain (the (tx_result info)))
         else None)"

(* src: ui-dashboard/src/utils/tron-wallet.ts 184-232 deployTronCloneViaFactory *)
definition deployTronCloneViaFactory ::
    "wallet_error + string \<Rightarrow> wallet_error + string \<Rightarrow> (string \<Rightarrow> string) \<Rightarrow> (nat \<Rightarrow> tx_look) \<Rightarrow>
     wallet_error + deploy_result" where
  "deployTronCloneViaFactory ready sent fromHex look =
     (case ready of Inl e \<Rightarrow> Inl e | Inr account \<Rightarrow>
        (case sent of Inl e \<Rightarrow> Inl e
         | Inr txid \<Rightarrow> Inr (poll_loop (clone_verdict fromHex) look 0 30)))"

text \<open>Withdrawing on TRON: the tokens' addresses in hexadecimal form, in the order of the table. The
  library loads the contract and sends the call; either may fail.\<close>

(* src: ui-dashboard/src/utils/tron-wallet.ts 238-255 withdrawAllTron *)
definition withdrawAllTron ::
    "wallet_error + string \<Rightarrow> (string \<Rightarrow> string) \<Rightarrow> (string \<Rightarrow> wallet_error + unit) \<Rightarrow>
     (string \<Rightarrow> string list \<Rightarrow> nat \<Rightarrow> wallet_error + string) \<Rightarrow> string \<Rightarrow> string list \<Rightarrow> wallet_error + string" where
  "withdrawAllTron ready toHex load send contractBase58 tokenAddresses =
     (case ready of Inl e \<Rightarrow> Inl e | Inr account \<Rightarrow>
        (case load contractBase58 of Inl e \<Rightarrow> Inl e | Inr u \<Rightarrow>
           send contractBase58 (map toHex tokenAddresses) 500000000))"

section \<open>Withdrawing from a collector\<close>

text \<open>The balance page's withdrawal on an EVM chain: connect, switch the chain, send. The wallet may
  answer differently each time it is asked, and so may the search for the provider.\<close>

record withdraw_env =
  we_provider :: "nat \<Rightarrow> wallet_error + nat"
  we_wallet :: wallet
  we_encode :: "string list \<Rightarrow> string"

(* src: ui-dashboard/src/pages/balance-page/balance-page.tsx 463-472 withdrawAll *)
definition withdraw_evm :: "withdraw_env \<Rightarrow> evm_chain \<Rightarrow> string \<Rightarrow> string script" where
  "withdraw_evm env c contract =
     (case connectWallet (we_provider env 0) (we_wallet env) [] of
        (cs, Inl e) \<Rightarrow> (cs, Inl e)
      | (cs, Inr acc) \<Rightarrow>
          (case switchChain (we_provider env 1) (we_wallet env) c cs of
             (cs', Inl e) \<Rightarrow> (cs', Inl e)
           | (cs', Inr u) \<Rightarrow>
               withdrawAll (we_encode env) (we_provider env 2) (we_wallet env) contract
                 (case map_of KNOWN_TOKENS (ch_value c) of None \<Rightarrow> [] | Some ts \<Rightarrow> ts) cs'))"

section \<open>Lemmas\<close>

lemma hex_of_val: "d < 16 \<Longrightarrow> hex_digit_val (hex_of d) = d"
proof -
  assume d: "d < 16"
  have "list_all (\<lambda>d. hex_digit_val (hex_of d) = d) [0..<16]"
    by (simp add: upt_rec hex_digit_val_def hex_of_def)
  with d show ?thesis by (auto simp: list_all_iff)
qed

lemma nat_of_hex_append: "nat_of_hex (xs @ [c]) = 16 * nat_of_hex xs + hex_digit_val c"
  by (simp add: nat_of_hex_def)

lemma nat_of_show_hex: "nat_of_hex (show_hex n) = n"
proof (induction n rule: show_hex.induct)
  case (1 n)
  show ?case
  proof (cases "n < 16")
    case True
    then show ?thesis by (subst show_hex.simps) (simp add: nat_of_hex_def hex_of_val)
  next
    case False
    with 1 have "nat_of_hex (show_hex (n div 16)) = n div 16" by simp
    with False show ?thesis
      by (subst show_hex.simps) (simp add: nat_of_hex_append hex_of_val)
  qed
qed

definition is_send :: "rpc \<Rightarrow> bool" where
  "is_send q = (case q of EthSendTransaction f t d \<Rightarrow> True | _ \<Rightarrow> False)"

definition switch_call :: "evm_chain \<Rightarrow> rpc" where
  "switch_call c = WalletSwitchChain (chain_hex c)"

definition add_call :: "evm_chain \<Rightarrow> rpc" where
  "add_call c = WalletAddChain (chain_hex c) (ch_label c) (ch_rpcUrl c) (ch_nativeTicker c) 18"

lemma not_sends [simp]: "\<not> is_send (switch_call c)" "\<not> is_send (add_call c)" "\<not> is_send EthAccounts" "\<not> is_send EthRequestAccounts"
  by (simp_all add: is_send_def switch_call_def add_call_def)

lemma connect_cases:
  assumes "connectWallet P w [] = (cs, r)"
  obtains (failed) e where "r = Inl e" "\<forall>(p, q) \<in> set cs. \<not> is_send q"
  | (connected) p acc where "P = Inr p" "r = Inr acc" "cs = [(p, EthRequestAccounts)]"
  using assms by (fastforce simp: connectWallet_def call_def split: sum.splits list.splits)

text \<open>A switch that succeeded was accepted, or the provider did not know the chain and accepted to add it.\<close>

definition on_chain :: "wallet \<Rightarrow> nat \<Rightarrow> nat \<Rightarrow> evm_chain \<Rightarrow> rpc list \<Rightarrow> bool" where
  "on_chain w p n c qs \<longleftrightarrow>
     (qs = [switch_call c] \<and> (\<exists>a. w p n (switch_call c) = Inr a))
     \<or> (qs = [switch_call c, add_call c] \<and> (\<exists>e. w p n (switch_call c) = Inl e \<and> we_code e = Some 4902)
        \<and> (\<exists>a. w p (Suc n) (add_call c) = Inr a))"

lemma switch_cases:
  assumes "switchChain P w c cs = (cs', r)"
  obtains (failed) e qs where "r = Inl e" "cs' = cs @ qs" "\<forall>(p, q) \<in> set qs. \<not> is_send q"
  | (switched) p qs where "P = Inr p" "r = Inr ()" "cs' = cs @ map (Pair p) qs" "on_chain w p (length cs) c qs"
proof (cases P)
  case (Inl e)
  with assms failed [of e "[]"] show ?thesis by (simp add: switchChain_def)
next
  case (Inr p)
  note s = assms [unfolded Inr switchChain_def call_def, folded switch_call_def add_call_def, simplified]
  show ?thesis
  proof (cases "w p (length cs) (switch_call c)")
    case (Inr a)
    with s switched [of p "[switch_call c]"] \<open>P = Inr p\<close> show ?thesis by (simp add: on_chain_def)
  next
    case (Inl e)
    show ?thesis
    proof (cases "we_code e = Some 4902 \<and> (\<exists>a. w p (Suc (length cs)) (add_call c) = Inr a)")
      case True
      with s Inl switched [of p "[switch_call c, add_call c]"] \<open>P = Inr p\<close> show ?thesis
        by (auto simp: on_chain_def)
    next
      case False
      with s Inl failed show ?thesis
        by (cases "w p (Suc (length cs)) (add_call c)") (fastforce split: if_splits)+
    qed
  qed
qed

lemma withdraw_cases:
  assumes "withdrawAll enc P w contract ts cs = (cs', r)"
  obtains (failed) qs where "cs' = cs @ qs" "\<forall>(p, q) \<in> set qs. \<not> is_send q"
  | (sent) p a acc accs where "P = Inr p" "w p (length cs) EthAccounts = Inr a" "accounts_of a = acc # accs"
      "cs' = cs @ [(p, EthAccounts), (p, EthSendTransaction acc (Some contract) (enc ts))]"
  using assms by (fastforce simp: withdrawAll_def call_def split: sum.splits list.splits)

lemma poll_loop_find:
  "poll_loop v look i n
    = (case List.find (\<lambda>x. v x \<noteq> None) (map look [i..<i + n]) of Some x \<Rightarrow> the (v x) | None \<Rightarrow> TimedOut)"
proof (induction n arbitrary: i)
  case (Suc n)
  have "[i..<i + Suc n] = i # [Suc i..<Suc i + n]" by (simp add: upt_rec)
  then show ?case using Suc.IH [of "Suc i"] by (auto split: option.split)
qed simp

lemma poll_loop_iff:
  assumes "\<And>x. v x \<noteq> Some TimedOut"
  shows "poll_loop v look 0 n = r \<longleftrightarrow>
    (\<exists>k < n. v (look k) = Some r \<and> (\<forall>j < k. v (look j) = None))
    \<or> (r = TimedOut \<and> (\<forall>k < n. v (look k) = None))"
proof (cases "List.find (\<lambda>x. v x \<noteq> None) (map look [0..<n])")
  case None
  then have "\<forall>k < n. v (look k) = None" by (auto simp: find_None_iff)
  then show ?thesis using None by (auto simp: poll_loop_find)
next
  case (Some x)
  then obtain k where k: "k < n" "v (look k) \<noteq> None" "x = look k" "\<forall>j < k. v (look j) = None"
    by (auto simp: find_Some_iff)
  then have u: "k' = k" if "k' < n" "v (look k') \<noteq> None" "\<forall>j < k'. v (look j) = None" for k'
    using that by (metis linorder_neqE_nat)
  show ?thesis
  proof
    assume "poll_loop v look 0 n = r"
    then show "(\<exists>k < n. v (look k) = Some r \<and> (\<forall>j < k. v (look j) = None))
        \<or> (r = TimedOut \<and> (\<forall>k < n. v (look k) = None))"
      using Some k by (auto simp: poll_loop_find)
  next
    assume "(\<exists>k < n. v (look k) = Some r \<and> (\<forall>j < k. v (look j) = None))
        \<or> (r = TimedOut \<and> (\<forall>k < n. v (look k) = None))"
    then obtain k' where "k' < n" "v (look k') = Some r" "\<forall>j < k'. v (look j) = None"
      using k by auto
    then show "poll_loop v look 0 n = r" using u [of k'] Some k(3) by (auto simp: poll_loop_find)
  qed
qed

lemma clone_address_not_timeout: "clone_address f i \<noteq> TimedOut"
  by (auto simp: clone_address_def split: list.split)

lemma verdict_not_timeout:
  "deploy_verdict c x \<noteq> Some TimedOut" "clone_verdict f x \<noteq> Some TimedOut"
  by (auto simp: deploy_verdict_def clone_verdict_def clone_address_not_timeout split: tx_look.split)

section \<open>Properties\<close>

text \<open>C5. A withdrawal asks for the collector's chain before it moves funds: whenever a transaction is sent,
  the calls are exactly these. The provider found first gave the accounts; the provider found next was
  asked to switch to the chain with the collector's number and accepted, or did not know that chain and
  accepted to add it; the provider found last gave the account that sends, to the collector's contract,
  the call for the chain's known tokens, and nothing else was sent. The three searches may find
  different providers, and a provider that adds a chain need not switch to it.\<close>

theorem withdraw_on_chain:
  assumes "(p, q) \<in> set (fst (withdraw_evm env c contract))" and "is_send q"
  shows "\<exists>p0 p1 qs a acc accs ts. we_provider env 0 = Inr p0 \<and> we_provider env 1 = Inr p1 \<and> we_provider env 2 = Inr p
    \<and> fst (withdraw_evm env c contract) = (p0, EthRequestAccounts) # map (Pair p1) qs @ [(p, EthAccounts), (p, q)]
    \<and> (qs = [switch_call c] \<and> (\<exists>a. we_wallet env p1 1 (switch_call c) = Inr a)
       \<or> qs = [switch_call c, add_call c]
         \<and> (\<exists>e. we_wallet env p1 1 (switch_call c) = Inl e \<and> we_code e = Some 4902)
         \<and> (\<exists>a. we_wallet env p1 2 (add_call c) = Inr a))
    \<and> (\<exists>h. switch_call c = WalletSwitchChain (''0x'' @ h) \<and> nat_of_hex h = ch_chainId c)
    \<and> we_wallet env p (Suc (length qs)) EthAccounts = Inr a \<and> accounts_of a = acc # accs
    \<and> ts = (case map_of KNOWN_TOKENS (ch_value c) of None \<Rightarrow> [] | Some ts \<Rightarrow> ts)
    \<and> q = EthSendTransaction acc (Some contract) (we_encode env ts)"
proof -
  let ?w = "we_wallet env"
  let ?ts = "case map_of KNOWN_TOKENS (ch_value c) of None \<Rightarrow> [] | Some ts \<Rightarrow> ts"
  obtain cs r where c1: "connectWallet (we_provider env 0) ?w [] = (cs, r)" by (metis surj_pair)
  from c1 show ?thesis
  proof (cases rule: connect_cases)
    case (failed e)
    then show ?thesis using assms c1 by (fastforce simp: withdraw_evm_def)
  next
    case (connected p0 acc0)
    obtain cs' r' where c2: "switchChain (we_provider env 1) ?w c cs = (cs', r')" by (metis surj_pair)
    from c2 show ?thesis
    proof (cases rule: switch_cases)
      case (failed e qs)
      then show ?thesis using assms c1 c2 connected by (fastforce simp: withdraw_evm_def)
    next
      case (switched p1 qs)
      obtain cs'' r'' where c3: "withdrawAll (we_encode env) (we_provider env 2) ?w contract ?ts cs' = (cs'', r'')"
        by (metis surj_pair)
      have f: "fst (withdraw_evm env c contract) = cs''"
        using c1 c2 c3 connected(2) switched(2) by (simp add: withdraw_evm_def)
      have old: "\<forall>x \<in> set cs'. \<not> is_send (snd x)"
        using switched(3,4) connected(3) by (auto simp: on_chain_def)
      from c3 show ?thesis
      proof (cases rule: withdraw_cases)
        case (failed xs)
        then show ?thesis using assms f old by fastforce
      next
        case (sent p2 a acc accs)
        then have pq: "p = p2" "q = EthSendTransaction acc (Some contract) (we_encode env ?ts)"
          using assms f old by auto
        have n: "length cs' = Suc (length qs)" using connected(3) switched(3) by simp
        have "\<exists>h. switch_call c = WalletSwitchChain (''0x'' @ h) \<and> nat_of_hex h = ch_chainId c"
          using nat_of_show_hex by (auto simp: switch_call_def chain_hex_def)
        then show ?thesis
          using connected switched sent f pq n
          by (intro exI [of _ p0] exI [of _ p1] exI [of _ qs] exI [of _ a] exI [of _ acc] exI [of _ accs] exI [of _ ?ts])
            (simp add: on_chain_def numeral_2_eq_2)
      qed
    qed
  qed
qed

text \<open>Providers that agree to everything, for the concrete instance.\<close>

definition agreeable :: wallet where
  "agreeable p n q = Inr (case q of EthSendTransaction f t d \<Rightarrow> RHash ''0xhash''
     | WalletSwitchChain h \<Rightarrow> RNull | WalletAddChain h l u s d \<Rightarrow> RNull | _ \<Rightarrow> RAccounts [''0xme''])"

lemmas withdraw_run = withdraw_evm_def connectWallet_def switchChain_def withdrawAll_def call_def

theorem withdraw_on_chain_witness:
  "fst (withdraw_evm \<lparr>we_provider = (\<lambda>_. Inr 0), we_wallet = agreeable, we_encode = (\<lambda>_. ''data'')\<rparr> (hd EVM_CHAINS) ''0xc'')
   = [(0, EthRequestAccounts), (0, WalletSwitchChain ''0x1''), (0, EthAccounts),
      (0, EthSendTransaction ''0xme'' (Some ''0xc'') ''data'')]"
proof -
  let ?env = "\<lparr>we_provider = (\<lambda>_. Inr 0), we_wallet = agreeable, we_encode = (\<lambda>_. ''data'')\<rparr>"
  let ?q = "EthSendTransaction ''0xme'' (Some ''0xc'') ''data''"
  have q: "(0, ?q) \<in> set (fst (withdraw_evm ?env (hd EVM_CHAINS) ''0xc''))" "is_send ?q"
    by (simp_all add: withdraw_run agreeable_def is_send_def)
  have h: "switch_call (hd EVM_CHAINS) = WalletSwitchChain ''0x1''"
    by (subst switch_call_def, unfold chain_hex_def, subst show_hex.simps)
      (simp add: EVM_CHAINS_def evm_chain_of_def hex_of_def)
  from withdraw_on_chain [OF q] h show ?thesis by (auto simp: agreeable_def)
qed

text \<open>What the sequence does not promise. A provider that is not the one asked to switch can be the one that
  sends; and a chain that was only added, by a provider that refused the switch, is taken for a switch:
  nothing asks again.\<close>

lemma sends_on_other_provider:
  "\<exists>env. fst (withdraw_evm env (hd EVM_CHAINS) contract)
     = [(0, EthRequestAccounts), (0, switch_call (hd EVM_CHAINS)), (1, EthAccounts),
        (1, EthSendTransaction ''0xme'' (Some contract) [])]"
  by (rule exI [of _ "\<lparr>we_provider = (\<lambda>n. Inr (if n = 2 then 1 else 0)), we_wallet = agreeable, we_encode = (\<lambda>_. [])\<rparr>"])
    (simp add: withdraw_run agreeable_def switch_call_def)

lemma added_taken_for_switched:
  "\<exists>env. (\<forall>n. isl (we_wallet env 0 n (switch_call c)))
     \<and> (0, EthSendTransaction ''0xme'' (Some contract) []) \<in> set (fst (withdraw_evm env c contract))"
proof -
  define refuses :: wallet where "refuses = (\<lambda>p n q. case q of
     WalletSwitchChain h \<Rightarrow> Inl \<lparr>we_code = Some 4902, we_message = []\<rparr> | _ \<Rightarrow> agreeable p n q)"
  let ?env = "\<lparr>we_provider = (\<lambda>n. Inr 0), we_wallet = refuses, we_encode = (\<lambda>_. [])\<rparr>"
  have "(\<forall>n. isl (we_wallet ?env 0 n (switch_call c)))
     \<and> (0, EthSendTransaction ''0xme'' (Some contract) []) \<in> set (fst (withdraw_evm ?env c contract))"
    by (simp add: withdraw_run agreeable_def refuses_def switch_call_def)
  then show ?thesis by blast
qed

text \<open>The chain that is asked for is the chain of the table: the hexadecimal number in the switch
  request reads back as the chain's identifier, so two chains never share one.\<close>

lemma chain_hex_faithful:
  "nat_of_hex (drop 2 (chain_hex c)) = ch_chainId c
    \<and> (chain_hex c = chain_hex d \<longleftrightarrow> ch_chainId c = ch_chainId d)
    \<and> distinct (map chain_hex EVM_CHAINS)"
proof -
  have r: "nat_of_hex (drop 2 (chain_hex x)) = ch_chainId x" for x
    by (simp add: chain_hex_def nat_of_show_hex)
  have i: "chain_hex x = chain_hex y \<longleftrightarrow> ch_chainId x = ch_chainId y" for x y
    using r by (metis chain_hex_def)
  then show ?thesis using r by (simp add: EVM_CHAINS_def evm_chain_of_def)
qed

text \<open>C24. A contract on TRON is reported as deployed exactly when one of the thirty looks at its transaction
  finds a result that says success, and each look before it found nothing, found the transaction
  without a result, or failed with a message that does not say failed on-chain: such an error of the node
  does not end the wait, and a failure on the chain seen first is never turned into a success. An error
  whose message does contain these words ends it.\<close>

theorem tron_deploy_decided:
  "deployContractOnTron (Inr account) True (Some (x # xs)) fromHex look = Inr (Deployed a) \<longleftrightarrow>
     a = fromHex (x # xs)
     \<and> (\<exists>k < 30. (\<exists>i. look k = Found i \<and> tx_result i \<in> {Some ''SUCCESS'', Some ''success''})
          \<and> (\<forall>j < k. look j = NotYet \<or> (\<exists>i. look j = Found i \<and> tx_result i \<in> {None, Some []})
               \<or> (\<exists>m. look j = LookFailed m \<and> \<not> str_includes m ''failed on-chain'')))"
proof -
  have v: "deploy_verdict c l = Some (Deployed a) \<longleftrightarrow> a = c
      \<and> (\<exists>i. l = Found i \<and> tx_result i \<in> {Some ''SUCCESS'', Some ''success''})" for c l
    by (cases l) (auto simp: deploy_verdict_def tx_success_def)
  have u: "deploy_verdict c l = None \<longleftrightarrow> l = NotYet \<or> (\<exists>i. l = Found i \<and> tx_result i \<in> {None, Some []})
      \<or> (\<exists>m. l = LookFailed m \<and> \<not> str_includes m ''failed on-chain'')" for c l
    by (cases l) (auto simp: deploy_verdict_def tx_success_def tx_failed_def truthy_alt)
  show ?thesis
    unfolding deployContractOnTron_def by (simp add: poll_loop_iff [OF verdict_not_timeout(1)] v u) blast
qed

theorem tron_deploy_decided_witness:
  "let done = \<lparr>tx_result = Some ''SUCCESS'', tx_log = [], tx_contract = None\<rparr>;
       look = (\<lambda>k. if k = 0 then NotYet else if k = 1 then LookFailed ''timeout'' else Found done)
   in deployContractOnTron (Inr ''T'') True (Some ''41ab'') rev look = Inr (Deployed ''ba14'')"
proof -
  have "\<exists>k < 30. k = (2::nat)" by simp
  then show ?thesis
    unfolding Let_def tron_deploy_decided
    by (auto intro!: exI [of _ "2::nat"] simp: less_Suc_eq starts_with_def numeral_2_eq_2)
qed

text \<open>The check that offers a withdrawal and the search that starts it do not agree: there is a
  browser in which the page sees MetaMask although connecting to it always fails, and one in which
  it does not although connecting would find it.\<close>

lemma metamask_check_disagrees:
  "(\<exists>win. isMetaMaskAvailable win \<and> (\<forall>w. isl (snd (connectWallet (getMetaMaskProvider win []) w []))))
   \<and> (\<exists>win ann p. \<not> isMetaMaskAvailable win \<and> getMetaMaskProvider win ann = Inr p)"
proof (rule conjI)
  let ?other = "\<lparr>isMetaMask = True, underscore_metamask = False, isAtomicWallet = True, prov = 0\<rparr>"
  let ?win = "Window (Some \<lparr>eth_self = ?other, eth_providers = None\<rparr>)"
  have "isMetaMaskAvailable ?win \<and> (\<forall>w. isl (snd (connectWallet (getMetaMaskProvider ?win []) w [])))"
    by (simp add: isMetaMaskAvailable_def getMetaMaskProvider_def connectWallet_def)
  then show "\<exists>win. isMetaMaskAvailable win
      \<and> (\<forall>w. isl (snd (connectWallet (getMetaMaskProvider win []) w [])))" by blast
  have "\<not> isMetaMaskAvailable (Window None)
      \<and> getMetaMaskProvider (Window None) [(METAMASK_RDNS, 7)] = Inr 7"
    by (simp add: isMetaMaskAvailable_def getMetaMaskProvider_def)
  then show "\<exists>win ann p. \<not> isMetaMaskAvailable win \<and> getMetaMaskProvider win ann = Inr p" by blast
qed

end
