(* ===== verification/Balance_View.thy ===== *)
theory Balance_View
  imports Wallets Dashboard_Types Markup "HOL-Library.AList" "HOL-Library.Multiset"
begin

text \<open>
  What the balance page shows (ui-dashboard/src/pages/balance-page/balance-page.tsx): the table of
  networks, the names and icons of the tokens, the grouping of the enabled payment methods by
  network, the card of a network with its token rows, and the order of the cards.

  A JavaScript object that the page uses as a table is an association list in the order of its keys;
  \<open>AList.update\<close> replaces a key in place or appends it, as an assignment or a spread does. The keys
  are network names and tickers, which are no integers, so the order is that of insertion.
\<close>

definition lookup_or :: "'v \<Rightarrow> ('k \<times> 'v) list \<Rightarrow> 'k \<Rightarrow> 'v" where
  "lookup_or d m k = (case map_of m k of None \<Rightarrow> d | Some v \<Rightarrow> v)"

definition approx_sign :: string where
  "approx_sign = bytes [226, 137, 136]"

definition ellipsis :: string where
  "ellipsis = bytes [226, 128, 166]"

section \<open>Networks and tokens\<close>

(* src: ui-dashboard/src/pages/balance-page/balance-page.tsx 35-35 NETWORK_META *)
record network_meta =
  nm_label :: string
  nm_color :: string
  nm_icon :: string
  nm_nativeTicker :: string
  nm_explorerUrl :: string

definition network_meta_of :: "string \<Rightarrow> string \<Rightarrow> string \<Rightarrow> string \<Rightarrow> string \<Rightarrow> network_meta" where
  "network_meta_of l c i t u = \<lparr>nm_label = l, nm_color = c, nm_icon = i, nm_nativeTicker = t,
     nm_explorerUrl = u\<rparr>"

(* src: ui-dashboard/src/pages/balance-page/balance-page.tsx 35-42 NETWORK_META *)
definition NETWORK_META :: "(string \<times> network_meta) list" where
  "NETWORK_META =
     [(''ETH'', network_meta_of ''Ethereum'' ''#627EEA'' ''eth'' ''ETH'' ''https://etherscan.io''),
      (''MATIC'', network_meta_of ''Polygon'' ''#8247E5'' ''matic'' ''MATIC'' ''https://polygonscan.com''),
      (''BSC'', network_meta_of ''BNB Smart Chain'' ''#F0B90B'' ''bnb'' ''BNB'' ''https://bscscan.com''),
      (''ARBITRUM'', network_meta_of ''Arbitrum'' ''#28A0F0'' ''arb'' ''ETH'' ''https://arbiscan.io''),
      (''AVAX'', network_meta_of ''Avalanche'' ''#E84142'' ''avax'' ''AVAX'' ''https://snowtrace.io''),
      (''TRON'', network_meta_of ''TRON'' ''#FF0013'' ''tron'' ''TRX'' ''https://tronscan.org'')]"

(* src: ui-dashboard/src/pages/balance-page/balance-page.tsx 45-48 tickerToIcon *)
definition tickerToIcon :: "string \<Rightarrow> string" where
  "tickerToIcon ticker =
     (let parts = split_on CHR ''_'' (to_lower ticker)
      in if 1 < length parts then parts ! 1 else parts ! 0)"

(* src: ui-dashboard/src/pages/balance-page/balance-page.tsx 51-56 tickerToDisplayName *)
definition tickerToDisplayName :: "string \<Rightarrow> string \<Rightarrow> string" where
  "tickerToDisplayName ticker blockchain =
     (let parts = split_on CHR ''_'' ticker
      in if 1 < length parts then parts ! 1
         else or_else (map_option nm_nativeTicker (map_of NETWORK_META blockchain)) ticker)"

(* src: ui-dashboard/src/pages/balance-page/balance-page.tsx 61-65 groups *)
definition group_add :: "(string \<times> dash_method list) list \<Rightarrow> dash_method \<Rightarrow> (string \<times> dash_method list) list" where
  "group_add groups m =
     (if \<not> dm_enabled m then groups
      else AList.update (dm_blockchain m) (lookup_or [] groups (dm_blockchain m) @ [m]) groups)"

(* src: ui-dashboard/src/pages/balance-page/balance-page.tsx 59-67 groupByBlockchain *)
definition groupByBlockchain :: "dash_method list \<Rightarrow> (string \<times> dash_method list) list" where
  "groupByBlockchain methods = foldl group_add [] methods"

text \<open>The amount of a method in a balance; \<open>None\<close> when the balance has no such token.\<close>

definition same_ticker :: "string \<Rightarrow> token_balance \<Rightarrow> bool" where
  "same_ticker t b \<longleftrightarrow> to_upper (tb_ticker b) = to_upper t"

(* src: ui-dashboard/src/pages/balance-page/balance-page.tsx 170-185 amount *)
definition method_amount :: "string \<Rightarrow> collector_balance \<Rightarrow> string option" where
  "method_amount ticker bal =
     (let parts = split_on CHR ''_'' ticker
      in if length parts = 1 then Some (native_amount bal)
         else map_option tb_amount (find_first (same_ticker (parts ! 1)) (cb_tokens bal)))"

section \<open>Token rows\<close>

(* src: ui-dashboard/src/pages/balance-page/balance-page.tsx 166-166 tokenRows *)
record token_row =
  tr_ticker :: string
  tr_displayName :: string
  tr_amount :: "string option"

(* src: ui-dashboard/src/pages/balance-page/balance-page.tsx 166-188 tokenRows *)
definition tokenRows :: "string \<Rightarrow> dash_method list \<Rightarrow> collector_balance option \<Rightarrow> token_row list" where
  "tokenRows blockchain enabledMethods balance =
     map (\<lambda>m. \<lparr>tr_ticker = dm_ticker m, tr_displayName = tickerToDisplayName (dm_ticker m) blockchain,
         tr_amount = map_option (\<lambda>bal. case method_amount (dm_ticker m) bal of
             Some a \<Rightarrow> a | None \<Rightarrow> ''0'') balance\<rparr>)
       enabledMethods"

datatype balance_handler = HCopyContract string | HRefresh string | HWithdraw string

(* src: ui-dashboard/src/pages/balance-page/balance-page.tsx 83-127 TokenRow *)
definition token_row_view ::
    "token_row \<Rightarrow> string option \<Rightarrow> bool \<Rightarrow> bool \<Rightarrow> balance_handler ui" where
  "token_row_view r fiatEquivalent fiatLoading loading =
     (let zero = (case tr_amount r of None \<Rightarrow> False | Some a \<Rightarrow> parse_float a = Fin 0) in
      wrap ''div''
       [wrap ''div'' [comp ''Icon'' [(''name'', tickerToIcon (tr_ticker r)), (''dir'', ''crypto'')],
          wrap ''div'' [leaf ''Text'' (tr_displayName r), comp ''br'' [], leaf ''Text'' (tr_ticker r)]],
        wrap ''div''
         (if loading then [comp ''Spin'' []]
          else case tr_amount r of
            None \<Rightarrow> [leaf ''Text'' em_dash]
          | Some a \<Rightarrow> [leaf ''Text'' a,
              wrap ''div''
                (if zero then [leaf ''Text'' em_dash]
                 else if fiatLoading then [leaf ''Text'' ellipsis]
                 else if truthy fiatEquivalent
                   then [wrap ''Text'' [Txt (approx_sign @ '' ''), Txt (the fiatEquivalent)]]
                 else [])])])"

section \<open>The card of a network\<close>

(* src: ui-dashboard/src/pages/balance-page/balance-page.tsx 133-144 NetworkCardProps *)
record network_card =
  nc_blockchain :: string
  nc_methods :: "dash_method list"
  nc_collector :: "evm_collector option"
  nc_balance :: "collector_balance option"
  nc_loadingBalance :: bool
  nc_withdrawing :: bool
  nc_fiatValues :: "(string \<times> string) list"
  nc_fiatLoading :: bool

(* src: ui-dashboard/src/pages/balance-page/balance-page.tsx 198-228 balance-page__network-header *)
definition card_header :: "network_card \<Rightarrow> network_meta \<Rightarrow> balance_handler ui" where
  "card_header c meta =
     wrap ''div''
      [wrap ''div'' [comp ''Icon'' [(''name'', nm_icon meta), (''dir'', ''crypto'')],
         wrap ''div'' (leaf ''Title'' (nm_label meta)
           # (case nc_collector c of None \<Rightarrow> [] | Some col \<Rightarrow>
               [El ''Tooltip'' [(''title'', contractAddress col)] []
                 [El ''Text'' [] [(''onClick'', HCopyContract (contractAddress col))]
                   [Txt (slice (contractAddress col) 0 8), Txt ''...'', Txt (slice_from (contractAddress col) (- 6)),
                    comp ''CopyOutlined'' []]]]))],
       El ''Button'' [(''loading'', bool_attr (nc_loadingBalance c)), (''disabled'', bool_attr (nc_collector c = None))]
         [(''onClick'', HRefresh (nc_blockchain c))] []]"

(* src: ui-dashboard/src/pages/balance-page/balance-page.tsx 230-250 tokenRows.map *)
definition card_rows :: "network_card \<Rightarrow> balance_handler ui list" where
  "card_rows c =
     (case tokenRows (nc_blockchain c) (nc_methods c) (nc_balance c) of
        [] \<Rightarrow> [wrap ''div'' [leaf ''Text'' ''No tokens enabled for this network.'']]
      | rows \<Rightarrow> map (\<lambda>r. token_row_view
            (r\<lparr>tr_amount := if nc_collector c = None then None else tr_amount r\<rparr>)
            (let v = map_of (nc_fiatValues c) (tr_ticker r) in if truthy v then v else None)
            (nc_fiatLoading c) (nc_loadingBalance c)) rows)"

(* src: ui-dashboard/src/pages/balance-page/balance-page.tsx 252-299 walletAvailable *)
definition card_footer :: "string \<Rightarrow> bool \<Rightarrow> bool \<Rightarrow> network_card \<Rightarrow> network_meta \<Rightarrow> balance_handler ui list" where
  "card_footer origin metamask tronlink c meta =
     (let isTron = nc_blockchain c = ''TRON'';
          walletName = (if isTron then ''TronLink'' else ''MetaMask'');
          explorerBase = (if isTron then tc_explorerUrl TRON_CHAIN @ ''/#/address''
                          else nm_explorerUrl meta @ ''/address'')
      in case nc_collector c of
           None \<Rightarrow> [wrap ''Text'' [Txt ''No smart contract deployed.'', Txt '' '',
                     El ''a'' [(''href'', origin @ ''/merchants/wallet-setup'')] [] [Txt ''Deploy now'']]]
         | Some col \<Rightarrow>
             if \<not> (if isTron then tronlink else metamask)
             then [El ''Alert'' [(''message'', walletName @ '' not detected'')] []
                    [El ''Button'' [(''href'', if isTron then ''https://www.tronlink.org/'' else ''https://metamask.io/download/'')]
                       [] [Txt ''Install'']]]
             else [El ''a'' [(''href'', explorerBase @ ''/'' @ contractAddress col)] [] [Txt '' View on Explorer''],
                   El ''Button'' [(''loading'', bool_attr (nc_withdrawing c))]
                     [(''onClick'', HWithdraw (nc_blockchain c))] [Txt ''Withdraw All'']])"

text \<open>A network that the table does not know has no card. The flags say which wallets are there.\<close>

(* src: ui-dashboard/src/pages/balance-page/balance-page.tsx 146-302 NetworkCard *)
definition network_card_view :: "string \<Rightarrow> bool \<Rightarrow> bool \<Rightarrow> network_card \<Rightarrow> balance_handler ui list" where
  "network_card_view origin metamask tronlink c =
     (case map_of NETWORK_META (nc_blockchain c) of
        None \<Rightarrow> []
      | Some meta \<Rightarrow>
          [wrap ''Card'' [card_header c meta, wrap ''div'' (card_rows c),
             wrap ''div'' (card_footer origin metamask tronlink c meta)]])"

text \<open>Networks with an active collector first; \<open>sort\<close> is stable.\<close>

(* src: ui-dashboard/src/pages/balance-page/balance-page.tsx 515-516 collectors.some *)
definition has_active :: "evm_collector list \<Rightarrow> string \<Rightarrow> bool" where
  "has_active collectors b \<longleftrightarrow> (\<exists>c \<in> set collectors. ec_blockchain c = b \<and> isActive c)"

(* src: ui-dashboard/src/pages/balance-page/balance-page.tsx 514-518 blockchainOrder *)
definition blockchainOrder :: "evm_collector list \<Rightarrow> (string \<times> dash_method list) list \<Rightarrow> string list" where
  "blockchainOrder collectors groups =
     sort_key (\<lambda>b. if has_active collectors b then 0 else 1 :: nat) (map fst groups)"

section \<open>Lemmas\<close>

lemma lookup_or_update [simp]:
  "lookup_or d (AList.update k v m) k' = (if k' = k then v else lookup_or d m k')"
  by (simp add: lookup_or_def update_conv')

lemma lookup_or_Nil [simp]: "lookup_or d [] k = d"
  by (simp add: lookup_or_def)

text \<open>The grouping as a table: a network has the enabled methods of that network in their order, and
  is a key exactly when there are some.\<close>

definition methods_on :: "string \<Rightarrow> dash_method list \<Rightarrow> dash_method list" where
  "methods_on b ms = filter (\<lambda>m. dm_enabled m \<and> dm_blockchain m = b) ms"

lemma methods_on_simps [simp]:
  "methods_on b [] = []"
  "methods_on b (ms @ [m]) = methods_on b ms @ (if dm_enabled m \<and> dm_blockchain m = b then [m] else [])"
  by (simp_all add: methods_on_def)

lemma group_snoc: "groupByBlockchain (ms @ [m]) = group_add (groupByBlockchain ms) m"
  by (simp add: groupByBlockchain_def)

lemma group_lookup:
  "map_of (groupByBlockchain ms) b = (if methods_on b ms = [] then None else Some (methods_on b ms))"
proof (induction ms rule: rev_induct)
  case Nil
  then show ?case by (simp add: groupByBlockchain_def)
next
  case (snoc m ms)
  have "lookup_or [] (groupByBlockchain ms) (dm_blockchain m) = methods_on (dm_blockchain m) ms"
    if "dm_blockchain m = b" using snoc.IH that by (auto simp: lookup_or_def)
  then show ?case using snoc.IH by (auto simp: group_snoc group_add_def update_conv')
qed

lemma group_distinct: "distinct (map fst (groupByBlockchain ms))"
proof (induction ms rule: rev_induct)
  case Nil
  then show ?case by (simp add: groupByBlockchain_def)
next
  case (snoc m ms)
  then show ?case by (simp add: group_snoc group_add_def distinct_update)
qed

lemma group_or: "lookup_or [] (groupByBlockchain ms) b = methods_on b ms"
  by (simp add: lookup_or_def group_lookup)

lemma group_keys: "b \<in> set (map fst (groupByBlockchain ms)) \<longleftrightarrow> methods_on b ms \<noteq> []"
  using group_lookup [of ms b] by (metis domIff dom_map_of_conv_image_fst list.set_map option.distinct(1))

text \<open>A list cut by a key: the pieces together are the list.\<close>

lemma filter_pieces:
  "distinct ks \<Longrightarrow> (\<And>x. x \<in> set xs \<Longrightarrow> f x \<in> set ks) \<Longrightarrow>
     mset (concat (map (\<lambda>k. filter (\<lambda>x. f x = k) xs) ks)) = mset xs"
proof (induction xs)
  case Nil
  then show ?case by simp
next
  case (Cons a xs)
  have "mset (concat (map (\<lambda>k. filter (\<lambda>x. f x = k) (a # xs)) ks))
      = mset (concat (map (\<lambda>k. if f a = k then [a] else []) ks))
        + mset (concat (map (\<lambda>k. filter (\<lambda>x. f x = k) xs) ks))" for ks
    by (induction ks) auto
  moreover have "mset (concat (map (\<lambda>k. if f a = k then [a] else []) ks)) = {#a#}"
    if "distinct ks" "f a \<in> set ks" for ks
    using that
  proof (induction ks)
    case (Cons k ks)
    have "f a \<notin> set ks \<Longrightarrow> concat (map (\<lambda>k. if f a = k then [a] else []) ks) = []"
      by (induction ks) auto
    with Cons show ?case by auto
  qed simp
  ultimately show ?case using Cons by auto
qed

text \<open>The order of the cards: a stable sort by a flag puts the flagged ones first.\<close>

lemma insort_flag:
  "insort_key (\<lambda>b. if P b then 0 else 1 :: nat) x (filter P xs @ filter (\<lambda>b. \<not> P b) xs)
    = (if P x then x # filter P xs @ filter (\<lambda>b. \<not> P b) xs
       else filter P xs @ x # filter (\<lambda>b. \<not> P b) xs)" (is "insort_key ?f x _ = _")
proof (cases "P x")
  case True
  then show ?thesis by (simp add: insort_is_Cons)
next
  case False
  have "list_all P ys \<Longrightarrow> list_all (\<lambda>b. \<not> P b) zs \<Longrightarrow> insort_key ?f x (ys @ zs) = ys @ x # zs" for ys zs
    using False by (induction ys) (auto simp: list_all_iff insort_is_Cons)
  then show ?thesis using False by (simp add: list_all_iff)
qed

lemma sort_flag:
  "sort_key (\<lambda>b. if P b then 0 else 1 :: nat) xs = filter P xs @ filter (\<lambda>b. \<not> P b) xs"
  by (induction xs) (simp_all add: insort_flag)

lemma order_eq:
  "blockchainOrder cols gs = filter (has_active cols) (map fst gs) @ filter (\<lambda>b. \<not> has_active cols b) (map fst gs)"
  by (simp add: blockchainOrder_def sort_flag)

lemma order_keys: "mset (blockchainOrder cols gs) = mset (map fst gs)"
  by (simp add: blockchainOrder_def)

section \<open>Properties\<close>

text \<open>Every enabled payment method has its row: the cards are those of the networks with an enabled
  method, networks with an active collector first and otherwise in the order of the methods, and the
  lists of methods of the cards together are the enabled methods, each once.\<close>

lemma balance_cards_cover:
  "blockchainOrder cols (groupByBlockchain ms)
      = filter (has_active cols) (map fst (groupByBlockchain ms))
        @ filter (\<lambda>b. \<not> has_active cols b) (map fst (groupByBlockchain ms))
   \<and> distinct (blockchainOrder cols (groupByBlockchain ms))
   \<and> mset (concat (map (lookup_or [] (groupByBlockchain ms)) (blockchainOrder cols (groupByBlockchain ms))))
      = mset (filter dm_enabled ms)"
proof (intro conjI)
  let ?order = "blockchainOrder cols (groupByBlockchain ms)"
  show "?order = filter (has_active cols) (map fst (groupByBlockchain ms))
        @ filter (\<lambda>b. \<not> has_active cols b) (map fst (groupByBlockchain ms))"
    by (rule order_eq)
  show d: "distinct ?order"
    using group_distinct order_keys mset_eq_imp_distinct_iff by metis
  have s: "set ?order = set (map fst (groupByBlockchain ms))"
    using order_keys mset_eq_setD by metis
  have "lookup_or [] (groupByBlockchain ms) = (\<lambda>b. filter (\<lambda>m. dm_blockchain m = b) (filter dm_enabled ms))"
    by (auto simp: group_or methods_on_def fun_eq_iff intro: filter_cong)
  moreover have "mset (concat (map (\<lambda>b. filter (\<lambda>m. dm_blockchain m = b) (filter dm_enabled ms)) ?order))
      = mset (filter dm_enabled ms)"
  proof (rule filter_pieces [OF d])
    fix m assume m: "m \<in> set (filter dm_enabled ms)"
    then have "methods_on (dm_blockchain m) ms \<noteq> []" by (auto simp: methods_on_def filter_empty_conv)
    then show "dm_blockchain m \<in> set ?order" using group_keys s by simp
  qed
  ultimately show "mset (concat (map (lookup_or [] (groupByBlockchain ms)) ?order)) = mset (filter dm_enabled ms)"
    by simp
qed

end
