(* ===== verification/JS_Math.thy ===== *)
theory JS_Math
  imports JS_Number
begin

text \<open>
  The rest of the arithmetic that the dashboard applies to numbers: division, multiplication,
  \<open>Math.min\<close>, \<open>Math.round\<close> and comparison, and the lemmas that rounding to a double keeps the
  integers below two to the 53 as bounds.
\<close>

section \<open>Operations\<close>

fun js_mul :: "jsnum \<Rightarrow> jsnum \<Rightarrow> jsnum" where
  "js_mul (Fin a) (Fin b) = fl (a * b)"
| "js_mul NaN _ = NaN"
| "js_mul _ NaN = NaN"
| "js_mul (Fin a) y = (if a = 0 then NaN else if 0 < a then y else if y = PosInf then NegInf else PosInf)"
| "js_mul x (Fin b) = (if b = 0 then NaN else if 0 < b then x else if x = PosInf then NegInf else PosInf)"
| "js_mul x y = (if x = y then PosInf else NegInf)"

text \<open>The sign of a zero divisor is not kept: division by zero is positive infinity for a positive
  dividend, as it is for every zero that the code can divide by.\<close>

fun js_div :: "jsnum \<Rightarrow> jsnum \<Rightarrow> jsnum" where
  "js_div (Fin a) (Fin b) =
     (if b \<noteq> 0 then fl (a / b) else if a = 0 then NaN else if 0 < a then PosInf else NegInf)"
| "js_div NaN _ = NaN"
| "js_div _ NaN = NaN"
| "js_div (Fin a) y = Fin 0"
| "js_div x (Fin b) = (if 0 \<le> b then x else if x = PosInf then NegInf else PosInf)"
| "js_div x y = NaN"

fun js_less :: "jsnum \<Rightarrow> jsnum \<Rightarrow> bool" where
  "js_less (Fin a) (Fin b) = (a < b)"
| "js_less NaN _ = False"
| "js_less _ NaN = False"
| "js_less NegInf y = (y \<noteq> NegInf)"
| "js_less x NegInf = False"
| "js_less PosInf y = False"
| "js_less x PosInf = True"

definition js_min :: "jsnum \<Rightarrow> jsnum \<Rightarrow> jsnum" where
  "js_min a b = (if a = NaN \<or> b = NaN then NaN else if js_less b a then b else a)"

fun js_round :: "jsnum \<Rightarrow> jsnum" where
  "js_round (Fin a) = Fin (of_int \<lfloor>a + 1/2\<rfloor>)"
| "js_round x = x"

text \<open>A number as a condition.\<close>

definition num_truthy :: "jsnum \<Rightarrow> bool" where
  "num_truthy x \<longleftrightarrow> x \<noteq> NaN \<and> x \<noteq> Fin 0"

section \<open>Rounding keeps integer bounds\<close>

lemma round_even_ge: "of_int n \<le> y \<Longrightarrow> n \<le> round_even y"
proof -
  assume "of_int n \<le> y"
  then have "n \<le> \<lfloor>y\<rfloor>" by (simp add: le_floor_iff)
  then show ?thesis by (auto simp: round_even_def Let_def)
qed

lemma round_even_le: "y \<le> of_int n \<Longrightarrow> round_even y \<le> n"
proof -
  assume y: "y \<le> of_int n"
  show ?thesis
  proof (cases "y = of_int n")
    case False
    with y have "y < of_int n" by simp
    then have "\<lfloor>y\<rfloor> < n" by (simp add: floor_less_iff)
    then show ?thesis by (auto simp: round_even_def Let_def)
  qed simp
qed

lemma pow2_scale:
  assumes "e \<le> 0"
  shows "\<exists>k :: int. 1 / pow2 e = of_int k \<and> 0 < k \<and> of_int k * pow2 e = 1"
proof -
  obtain m where e: "e = - int m" using assms by (metis nonpos_int_cases)
  then have "1 / pow2 e = of_int (2 ^ m)" by (simp add: pow2_neg_nat)
  moreover have "of_int (2 ^ m) * pow2 e = 1" by (simp add: e pow2_neg_nat)
  ultimately show ?thesis by (intro exI [of _ "2 ^ m"]) simp
qed

lemma fl_unfold_pos:
  assumes "0 < x"
  shows "fl x = (let e = max (- 1074) (ilog2 x - 52); v = of_int (round_even (x / pow2 e)) * pow2 e
     in if 2 ^ 1024 \<le> v then PosInf else Fin v)"
  using assms by (simp add: fl_def Let_def)

lemma fl_ge:
  assumes x: "0 < x" "of_int n \<le> x" and n: "0 \<le> n" "n \<le> 2 ^ 53"
  shows "fl x = PosInf \<or> (\<exists>v. fl x = Fin v \<and> of_int n \<le> v)"
proof -
  define e where "e = max (- 1074) (ilog2 x - 52)"
  define y where "y = x / pow2 e"
  have "of_int n \<le> of_int (round_even y) * pow2 e"
  proof (cases "e \<le> 0")
    case True
    then obtain k where k: "1 / pow2 e = of_int k" "0 < k" "of_int k * pow2 e = 1" using pow2_scale by blast
    have "y = x * (1 / pow2 e)" by (simp add: y_def)
    also have "\<dots> = x * of_int k" by (simp only: k)
    finally have "of_int n * of_int k \<le> y" using x(2) k(2) by (simp add: mult_right_mono)
    then have "of_int (n * k) \<le> y" by simp
    then have "n * k \<le> round_even y" by (rule round_even_ge)
    then have "(of_int (n * k) :: rat) \<le> of_int (round_even y)" by (simp only: of_int_le_iff)
    then have "of_int (n * k) * pow2 e \<le> of_int (round_even y) * pow2 e" by (rule mult_right_mono) (simp add: less_imp_le)
    moreover have "of_int (n * k) * pow2 e = of_int n" by (metis k(3) mult.assoc mult.right_neutral of_int_mult)
    ultimately show ?thesis by (simp only:)
  next
    case False
    then have i: "ilog2 x = e + 52" by (simp add: e_def)
    have "pow2 (ilog2 x) \<le> x" using ilog2_bounds [OF x(1)] by simp
    then have "pow2 52 * pow2 e \<le> x" by (simp add: i pow2_def power_int_add mult.commute)
    then have "of_int (2 ^ 52) \<le> y" by (simp add: y_def pow2_def field_simps)
    then have "2 ^ 52 \<le> round_even y" by (rule round_even_ge)
    then have "(2 ^ 52 :: rat) \<le> of_int (round_even y)" by (metis of_int_le_iff of_int_numeral of_int_power)
    moreover have "2 \<le> pow2 e"
    proof -
      have "pow2 1 \<le> pow2 e" using False by (cases "e = 1") (auto intro: less_imp_le)
      then show ?thesis by (simp add: pow2_def)
    qed
    ultimately have "2 ^ 52 * 2 \<le> of_int (round_even y) * pow2 e" by (intro mult_mono) auto
    moreover have "(of_int n :: rat) \<le> 2 ^ 53" using n(2) by (metis of_int_le_iff of_int_numeral of_int_power)
    ultimately show ?thesis by simp
  qed
  then show ?thesis
    unfolding fl_unfold_pos [OF x(1)] e_def [symmetric] y_def [symmetric] Let_def by auto
qed

lemma fl_le:
  assumes x: "0 < x" "x \<le> of_int n" and n: "n \<le> 2 ^ 53"
  shows "\<exists>v. fl x = Fin v \<and> 0 \<le> v \<and> v \<le> of_int n"
proof -
  define e where "e = max (- 1074) (ilog2 x - 52)"
  define y where "y = x / pow2 e"
  have r0: "0 \<le> round_even y" by (rule round_even_ge) (use x(1) in \<open>simp add: y_def less_imp_le\<close>)
  have nr: "(of_int n :: rat) \<le> 2 ^ 53" using n by (metis of_int_le_iff of_int_numeral of_int_power)
  have u: "of_int (round_even y) * pow2 e \<le> of_int n"
  proof (cases "e \<le> 0")
    case True
    then obtain k where k: "1 / pow2 e = of_int k" "0 < k" "of_int k * pow2 e = 1" using pow2_scale by blast
    have "y = x * (1 / pow2 e)" by (simp add: y_def)
    also have "\<dots> = x * of_int k" by (simp only: k)
    finally have "y \<le> of_int n * of_int k" using x(2) k(2) by (simp add: mult_right_mono)
    then have "y \<le> of_int (n * k)" by simp
    then have "round_even y \<le> n * k" by (rule round_even_le)
    then have "(of_int (round_even y) :: rat) \<le> of_int (n * k)" by (simp only: of_int_le_iff)
    then have "of_int (round_even y) * pow2 e \<le> of_int (n * k) * pow2 e" by (rule mult_right_mono) (simp add: less_imp_le)
    moreover have "of_int (n * k) * pow2 e = of_int n" by (metis k(3) mult.assoc mult.right_neutral of_int_mult)
    ultimately show ?thesis by (simp only:)
  next
    case False
    then have i: "ilog2 x = e + 52" by (simp add: e_def)
    have "pow2 (ilog2 x) \<le> x" using ilog2_bounds [OF x(1)] by simp
    also have "x \<le> pow2 53" using x(2) nr by (simp add: pow2_def)
    finally have "ilog2 x \<le> 53" by (metis not_less pow2_less_iff)
    with False i have e1: "e = 1" by simp
    have p: "pow2 53 \<le> x" using \<open>pow2 (ilog2 x) \<le> x\<close> i e1 by simp
    then have "x = pow2 53" using \<open>x \<le> pow2 53\<close> by simp
    then have "y = of_int (2 ^ 52)" by (simp add: y_def e1 pow2_def)
    then have "round_even y = 2 ^ 52" by (simp only: round_even_of_int)
    moreover have "(2 ^ 53 :: rat) \<le> of_int n" using p x(2) by (simp add: pow2_def)
    ultimately show ?thesis by (simp add: e1 pow2_def)
  qed
  have "(2 :: rat) ^ 53 < 2 ^ 1024" by (rule power_strict_increasing) auto
  then have "of_int (round_even y) * pow2 e < 2 ^ 1024" using u nr by linarith
  moreover have "0 \<le> of_int (round_even y) * pow2 e" using r0 by (simp add: less_imp_le)
  ultimately show ?thesis
    unfolding fl_unfold_pos [OF x(1)] e_def [symmetric] y_def [symmetric] Let_def using u by auto
qed

lemma parse_float_two: "parse_float ''2'' = Fin 2"
  using fl_of_nat [of 2]
  by (simp add: parse_float_def decimal_prefix_def sign_of_def is_space_def starts_with_def is_digit_def
      exponent_part_def nat_of_digits_def digit_val_def pow10_def)

lemma parse_float_zero: "parse_float ''0'' = Fin 0"
  by (simp add: parse_float_def decimal_prefix_def sign_of_def is_space_def starts_with_def is_digit_def
    exponent_part_def nat_of_digits_def digit_val_def)

end
