(* ===== verification/Balance_Page.thy ===== *)
theory Balance_Page
  imports Async Balance_View JS_Math
begin

text \<open>
  The balance page (ui-dashboard/src/pages/balance-page/balance-page.tsx): the collectors of the
  selected merchant, the balance of each collector, the conversion of the balances to the merchant's
  currency, and withdrawals.

  The state has the page's hooks and the shared selection and merchant. React compares the balances
  and the payment methods by identity, so each carries a number that is new whenever the code makes
  a new object. The page waits for all conversions of a batch (\<open>Promise.allSettled\<close>): the batch is
  one request whose answer lists the outcome of each conversion. A withdrawal is one request to the
  wallet; its steps are those of Wallets. The formatting of numbers for the browser's
  language is the parameter \<open>loc\<close>.
\<close>

section \<open>State\<close>

(* src: ui-dashboard/src/pages/balance-page/balance-page.tsx 308-325 BalancePage *)
record balance_page =
  bp_merchantId :: "string option"
  bp_merchant :: "merchant option"
  methods_ref :: nat
  collectors :: "evm_collector list"
  balances :: "(string \<times> collector_balance) list"
  balances_ref :: nat
  loadingCollectors :: bool
  loadingBalances :: "(string \<times> bool) list"
  withdrawing :: "(string \<times> bool) list"
  fiatByNetwork :: "(string \<times> (string \<times> string) list) list"
  fiatNumericByNetwork :: "(string \<times> (string \<times> jsnum) list) list"
  loadingFiat :: bool

(* src: ui-dashboard/src/pages/balance-page/balance-page.tsx 363-364 Job *)
record job =
  j_blockchain :: string
  j_ticker :: string
  j_amount :: string

datatype bp_request =
    QCollectors string
  | QBalance string string
  | QConvertAll string "convert_params list"
  | QWithdrawTron string "string list"
  | QWithdrawEvm evm_chain string "string list"

text \<open>A continuation carries what its closure captured: the merchant and the currency of its render.\<close>

datatype bp_cont =
    GotCollectors string
  | GotBalance string
  | GotFiat string "job list"
  | WithdrawDone "string option" string
  | RefreshLater "string option" string

datatype bp_answer =
    ACollectors "evm_collector list option"
  | ABalance collector_balance
  | ASettled "(dash_convert_result, wallet_error) reply list"
  | ATx string

datatype bp_effect =
    WithdrawalSubmitted string string string
  | WithdrawalFailed string string

type_synonym bp_outcome = "(balance_page, bp_request, bp_cont, bp_effect) outcome"

definition bp_currency :: "balance_page \<Rightarrow> string" where
  "bp_currency s = currencyCode (useMerchantCurrency
     (map_option (\<lambda>m. \<lparr>fiatCurrency = m_fiatCurrency m, fiatCurrencySymbol = m_fiatCurrencySymbol m\<rparr>)
        (bp_merchant s)))"

section \<open>Loading collectors and balances\<close>

(* src: ui-dashboard/src/pages/balance-page/balance-page.tsx 344-352 fetchBalance *)
definition fetchBalance :: "string option \<Rightarrow> string \<Rightarrow> balance_page \<Rightarrow> bp_outcome" where
  "fetchBalance mid b s =
     (if \<not> truthy mid then idle s
      else (s\<lparr>loadingBalances := AList.update b True (loadingBalances s)\<rparr>,
            [Await (QBalance (the mid) b) (GotBalance b)]))"

fun fetchAll :: "string option \<Rightarrow> string list \<Rightarrow> balance_page \<Rightarrow> bp_outcome" where
  "fetchAll mid [] s = idle s"
| "fetchAll mid (b # bs) s = andThen (fetchBalance mid b s) (fetchAll mid bs)"

(* src: ui-dashboard/src/pages/balance-page/balance-page.tsx 328-333 setLoadingCollectors *)
definition collectors_effect :: "balance_page \<Rightarrow> bp_outcome" where
  "collectors_effect s =
     (if \<not> truthy (bp_merchantId s) then idle s
      else (s\<lparr>loadingCollectors := True\<rparr>,
            [Await (QCollectors (the (bp_merchantId s))) (GotCollectors (the (bp_merchantId s)))]))"

(* src: ui-dashboard/src/pages/balance-page/balance-page.tsx 334-341 setCollectors *)
fun got_collectors :: "string \<Rightarrow> (bp_answer, wallet_error) reply \<Rightarrow> balance_page \<Rightarrow> bp_outcome" where
  "got_collectors mid (Resolved (ACollectors cols)) s =
     (let cs = (case cols of None \<Rightarrow> [] | Some cs \<Rightarrow> cs)
      in case fetchAll (Some mid) (map ec_blockchain (filter isActive cs)) (s\<lparr>collectors := cs\<rparr>) of
           (s', cmds) \<Rightarrow> (s'\<lparr>loadingCollectors := False\<rparr>, cmds))"
| "got_collectors mid _ s = (s\<lparr>loadingCollectors := False\<rparr>, [])"

(* src: ui-dashboard/src/pages/balance-page/balance-page.tsx 347-351 getBalance *)
fun got_balance :: "string \<Rightarrow> (bp_answer, wallet_error) reply \<Rightarrow> balance_page \<Rightarrow> bp_outcome" where
  "got_balance b (Resolved (ABalance bal)) s =
     (s\<lparr>balances := AList.update b bal (balances s), balances_ref := Suc (balances_ref s),
        loadingBalances := AList.update b False (loadingBalances s)\<rparr>, [])"
| "got_balance b _ s = (s\<lparr>loadingBalances := AList.update b False (loadingBalances s)\<rparr>, [])"

section \<open>Conversion to the merchant's currency\<close>

(* src: ui-dashboard/src/pages/balance-page/balance-page.tsx 366-386 jobs *)
definition fiat_jobs :: "dash_method list \<Rightarrow> (string \<times> collector_balance) list \<Rightarrow> job list" where
  "fiat_jobs methods bals =
     concat (map (\<lambda>m.
       if \<not> dm_enabled m then []
       else case map_of bals (dm_blockchain m) of
           None \<Rightarrow> []
         | Some bal \<Rightarrow>
             (case method_amount (dm_ticker m) bal of
                None \<Rightarrow> []
              | Some a \<Rightarrow>
                  if positive (parse_float a)
                  then [\<lparr>j_blockchain = dm_blockchain m, j_ticker = dm_ticker m, j_amount = a\<rparr>] else [])) methods)"

(* src: ui-dashboard/src/pages/balance-page/balance-page.tsx 358-413 getCurrencyExchangeRate *)
definition fiat_effect :: "balance_page \<Rightarrow> bp_outcome" where
  "fiat_effect s =
     (case (bp_merchantId s, bp_merchant s) of
        (Some mid, Some m) \<Rightarrow>
          if mid = [] \<or> balances s = [] then idle s
          else (case fiat_jobs (supportedPaymentMethods m) (balances s) of
                 [] \<Rightarrow> (s\<lparr>fiatByNetwork := [], fiatNumericByNetwork := []\<rparr>, [])
               | jobs \<Rightarrow>
                   (s\<lparr>loadingFiat := True\<rparr>,
                    [Await (QConvertAll mid (map (\<lambda>j. \<lparr>cv_from = j_ticker j, cv_amount = j_amount j,
                        cv_to = bp_currency s\<rparr>) jobs)) (GotFiat (bp_currency s) jobs)]))
      | _ \<Rightarrow> idle s)"

definition update2 :: "string \<Rightarrow> string \<Rightarrow> 'v \<Rightarrow> (string \<times> (string \<times> 'v) list) list \<Rightarrow> (string \<times> (string \<times> 'v) list) list" where
  "update2 b t v m = AList.update b (AList.update t v (lookup_or [] m b)) m"

text \<open>The values of the conversions that succeeded with a finite number.\<close>

(* src: ui-dashboard/src/pages/balance-page/balance-page.tsx 417-422 isFinite *)
definition fiat_values :: "(job \<times> (dash_convert_result, 'x) reply) list \<Rightarrow> (job \<times> jsnum) list" where
  "fiat_values rs = concat (map (\<lambda>(j, r). case r of
       Rejected e \<Rightarrow> []
     | Resolved res \<Rightarrow> (let num = parse_float (convertedAmount res) in if is_finite num then [(j, num)] else [])) rs)"

definition table_of :: "(jsnum \<Rightarrow> 'v) \<Rightarrow> (job \<times> jsnum) list \<Rightarrow> (string \<times> (string \<times> 'v) list) list" where
  "table_of f vs = foldl (\<lambda>m (j, n). update2 (j_blockchain j) (j_ticker j) (f n) m) [] vs"

(* src: ui-dashboard/src/pages/balance-page/balance-page.tsx 414-430 formatted *)
fun got_fiat ::
    "(jsnum \<Rightarrow> string) \<Rightarrow> string \<Rightarrow> job list \<Rightarrow> (bp_answer, wallet_error) reply \<Rightarrow> balance_page \<Rightarrow> bp_outcome" where
  "got_fiat loc cur jobs (Resolved (ASettled rs)) s =
     (let vs = fiat_values (zip jobs rs)
      in (s\<lparr>fiatByNetwork := table_of (\<lambda>n. formatFiat loc (AmountNum n) (Some cur) True) vs,
            fiatNumericByNetwork := table_of id vs, loadingFiat := False\<rparr>, []))"
| "got_fiat loc cur jobs _ s = (s\<lparr>loadingFiat := False\<rparr>, [])"

(* src: ui-dashboard/src/pages/balance-page/balance-page.tsx 521-527 portfolioTotal *)
definition portfolioTotal :: "balance_page \<Rightarrow> jsnum" where
  "portfolioTotal s = foldl js_add (Fin 0) (concat (map (map snd \<circ> snd) (fiatNumericByNetwork s)))"

section \<open>Withdrawals\<close>

definition collector_for :: "string \<Rightarrow> evm_collector list \<Rightarrow> evm_collector option" where
  "collector_for b cs = find_first (\<lambda>c. ec_blockchain c = b) cs"

text \<open>Without a chain of that name the handler returns, and its \<open>finally\<close> clears the flag again.\<close>

(* src: ui-dashboard/src/pages/balance-page/balance-page.tsx 434-472 handleWithdraw *)
definition handleWithdraw :: "string \<Rightarrow> balance_page \<Rightarrow> bp_outcome" where
  "handleWithdraw b s =
     (case collector_for b (collectors s) of
        None \<Rightarrow> idle s
      | Some c \<Rightarrow>
          (let s1 = s\<lparr>withdrawing := AList.update b True (withdrawing s)\<rparr>;
               k = WithdrawDone (bp_merchantId s) b
           in if b = ''TRON''
              then (s1, [Await (QWithdrawTron (contractAddress c) TRON_KNOWN_TOKENS) k])
              else case find_first (\<lambda>x. ch_value x = b) EVM_CHAINS of
                  None \<Rightarrow> (s1\<lparr>withdrawing := AList.update b False (withdrawing s1)\<rparr>, [])
                | Some chain \<Rightarrow>
                    (s1, [Await (QWithdrawEvm chain (contractAddress c) (lookup_or [] KNOWN_TOKENS b)) k])))"

(* src: ui-dashboard/src/pages/balance-page/balance-page.tsx 473-488 txHash *)
definition submitted :: "string \<Rightarrow> string \<Rightarrow> bp_effect" where
  "submitted b tx =
     (if b = ''TRON''
      then WithdrawalSubmitted ''TRON withdrawal submitted''
        (tc_explorerUrl TRON_CHAIN @ ''/#/transaction/'' @ tx) (slice tx 0 18 @ ''...'')
      else case find_first (\<lambda>x. ch_value x = b) EVM_CHAINS of
          Some chain \<Rightarrow> WithdrawalSubmitted (ch_label chain @ '' withdrawal submitted'')
            (ch_explorerUrl chain @ ''/tx/'' @ tx) (slice tx 0 18 @ ''...'')
        | None \<Rightarrow> WithdrawalSubmitted '' withdrawal submitted'' (''/tx/'' @ tx) (slice tx 0 18 @ ''...''))"

(* src: ui-dashboard/src/pages/balance-page/balance-page.tsx 495-502 isUserRejected *)
definition withdraw_failed :: "wallet_error \<Rightarrow> bp_effect" where
  "withdraw_failed e =
     (let msg = or_else (Some (we_message e)) ''Withdrawal failed'';
          rejected = str_includes msg ''rejected'' \<or> str_includes msg ''denied''
            \<or> str_includes msg ''Confirmation'' \<or> we_code e = Some 4001
      in if rejected then WithdrawalFailed ''Transaction rejected'' ''You rejected the transaction in your wallet.''
         else WithdrawalFailed ''Withdrawal failed'' msg)"

(* src: ui-dashboard/src/pages/balance-page/balance-page.tsx 473-506 finally *)
fun withdraw_done ::
    "string option \<Rightarrow> string \<Rightarrow> (bp_answer, wallet_error) reply \<Rightarrow> balance_page \<Rightarrow> bp_outcome" where
  "withdraw_done mid b (Resolved (ATx tx)) s =
     (s\<lparr>withdrawing := AList.update b False (withdrawing s)\<rparr>,
      [Emit (submitted b tx), After 5000 (RefreshLater mid b)])"
| "withdraw_done mid b (Resolved _) s = idle s"
| "withdraw_done mid b (Rejected e) s =
     (s\<lparr>withdrawing := AList.update b False (withdrawing s)\<rparr>, [Emit (withdraw_failed e)])"

section \<open>The component\<close>

datatype bp_event =
    SelectMerchant "string option"
  | MerchantLoaded "merchant option"
  | ClickRefresh string
  | ClickWithdraw string

fun bp_on :: "bp_event \<Rightarrow> balance_page \<Rightarrow> bp_outcome" where
  "bp_on (SelectMerchant m) s = idle (s\<lparr>bp_merchantId := m\<rparr>)"
| "bp_on (MerchantLoaded m) s = idle (s\<lparr>bp_merchant := m, methods_ref := Suc (methods_ref s)\<rparr>)"
| "bp_on (ClickRefresh b) s = fetchBalance (bp_merchantId s) b s"
| "bp_on (ClickWithdraw b) s = handleWithdraw b s"

fun bp_resume ::
    "(jsnum \<Rightarrow> string) \<Rightarrow> bp_cont \<Rightarrow> (bp_answer, wallet_error) reply \<Rightarrow> balance_page \<Rightarrow> bp_outcome" where
  "bp_resume loc (GotCollectors mid) a s = got_collectors mid a s"
| "bp_resume loc (GotBalance b) a s = got_balance b a s"
| "bp_resume loc (GotFiat cur jobs) a s = got_fiat loc cur jobs a s"
| "bp_resume loc (WithdrawDone mid b) a s = withdraw_done mid b a s"
| "bp_resume loc (RefreshLater mid b) a s = idle s"

fun bp_timer :: "bp_cont \<Rightarrow> balance_page \<Rightarrow> bp_outcome" where
  "bp_timer (RefreshLater mid b) s = fetchBalance mid b s"
| "bp_timer k s = idle s"

text \<open>The two effects, in the order of the code, each when one of its dependencies changed.\<close>

definition fiat_deps :: "balance_page \<Rightarrow> nat \<times> string \<times> string option \<times> nat" where
  "fiat_deps s = (balances_ref s, bp_currency s, bp_merchantId s, methods_ref s)"

definition bp_effects :: "balance_page \<Rightarrow> balance_page \<Rightarrow> bp_outcome" where
  "bp_effects old s =
     andThen (if bp_merchantId s = bp_merchantId old then idle s else collectors_effect s)
       (\<lambda>s'. if fiat_deps s = fiat_deps old then idle s' else fiat_effect s')"

fun bp_fits :: "bp_request \<Rightarrow> (bp_answer, wallet_error) reply \<Rightarrow> bool" where
  "bp_fits q (Rejected e) = (case q of QConvertAll m cs \<Rightarrow> False | _ \<Rightarrow> True)"
| "bp_fits (QCollectors m) (Resolved a) = (\<exists>cs. a = ACollectors cs)"
| "bp_fits (QBalance m b) (Resolved a) = (\<exists>bal. a = ABalance bal)"
| "bp_fits (QConvertAll m cs) (Resolved a) = (\<exists>rs. a = ASettled rs \<and> length rs = length cs)"
| "bp_fits q (Resolved a) = (\<exists>tx. a = ATx tx)"

text \<open>Mounting the page gives its hooks their first values; the selection and the merchant are shared.\<close>

(* src: ui-dashboard/src/pages/balance-page/balance-page.tsx 314-325 useState *)
definition fresh_balance_page :: "string option \<Rightarrow> merchant option \<Rightarrow> balance_page" where
  "fresh_balance_page mid m = \<lparr>bp_merchantId = mid, bp_merchant = m, methods_ref = 0,
     collectors = [], balances = [], balances_ref = 0, loadingCollectors = True,
     loadingBalances = [], withdrawing = [], fiatByNetwork = [], fiatNumericByNetwork = [],
     loadingFiat = False\<rparr>"

definition bp_mount :: "balance_page \<Rightarrow> bp_outcome" where
  "bp_mount s = andThen (collectors_effect (fresh_balance_page (bp_merchantId s) (bp_merchant s))) fiat_effect"

definition balance_component where
  "balance_component loc = \<lparr>c_mount = bp_mount, c_event = bp_on, c_resume = bp_resume loc, c_timer = bp_timer, c_effect = bp_effects,
     c_fits = bp_fits\<rparr>"

definition balance_start :: "balance_page \<Rightarrow> bool" where
  "balance_start s \<longleftrightarrow> (\<exists>mid m. s = fresh_balance_page mid m)"

section \<open>The page\<close>

text \<open>The card of a network shows the first active collector.\<close>

definition enabledGroups :: "balance_page \<Rightarrow> (string \<times> dash_method list) list" where
  "enabledGroups s = (case bp_merchant s of None \<Rightarrow> [] | Some m \<Rightarrow> groupByBlockchain (supportedPaymentMethods m))"

(* src: ui-dashboard/src/pages/balance-page/balance-page.tsx 592-611 collector *)
definition page_card :: "balance_page \<Rightarrow> string \<Rightarrow> network_card" where
  "page_card s b = \<lparr>nc_blockchain = b, nc_methods = lookup_or [] (enabledGroups s) b,
     nc_collector = find_first (\<lambda>c. ec_blockchain c = b \<and> isActive c) (collectors s),
     nc_balance = map_of (balances s) b, nc_loadingBalance = lookup_or False (loadingBalances s) b,
     nc_withdrawing = lookup_or False (withdrawing s) b,
     nc_fiatValues = lookup_or [] (fiatByNetwork s) b, nc_fiatLoading = loadingFiat s\<rparr>"

(* src: ui-dashboard/src/pages/balance-page/balance-page.tsx 529-530 anyBalancesLoading *)
definition anyBalancesLoading :: "balance_page \<Rightarrow> bool" where
  "anyBalancesLoading s \<longleftrightarrow> loadingCollectors s \<or> (\<exists>x \<in> set (loadingBalances s). snd x) \<or> loadingFiat s"

(* src: ui-dashboard/src/pages/balance-page/balance-page.tsx 547-572 portfolioTotal *)
definition summary_card :: "(jsnum \<Rightarrow> string) \<Rightarrow> balance_page \<Rightarrow> balance_handler ui" where
  "summary_card loc s =
     (let cur = useMerchantCurrency (map_option (\<lambda>m. \<lparr>fiatCurrency = m_fiatCurrency m,
            fiatCurrencySymbol = m_fiatCurrencySymbol m\<rparr>) (bp_merchant s)) in
      wrap ''Card''
       [comp ''DollarOutlined'' [], leaf ''Text'' ''Total Portfolio Value'',
        wrap ''div'' [if anyBalancesLoading s then comp ''Spin'' []
          else leaf ''Title'' (formatFiat loc (AmountNum (portfolioTotal s)) (Some (currencyCode cur)) True)],
        wrap ''Text'' [Txt ''Valued in '', Txt (currencyCode cur), Txt '' ('', Txt (currencyName cur), Txt '').'',
          Txt '' '', Txt ''Live conversion across all enabled networks and tokens.'']])"

(* src: ui-dashboard/src/pages/balance-page/balance-page.tsx 533-616 PageContainer *)
definition balance_view ::
    "(jsnum \<Rightarrow> string) \<Rightarrow> string \<Rightarrow> bool \<Rightarrow> bool \<Rightarrow> balance_page \<Rightarrow> balance_handler ui list" where
  "balance_view loc origin metamask tronlink s =
     (let order = blockchainOrder (collectors s) (enabledGroups s) in
      [wrap ''div'' [leaf ''Title'' ''Balances & Withdrawals'',
         leaf ''Text'' (''On-chain balances for each network and token you have enabled. ''
           @ ''Connect your wallet to withdraw funds.'')]]
      @ when_ui (\<exists>c \<in> set (collectors s). isActive c) [summary_card loc s]
      @ (if loadingCollectors s then [wrap ''div'' [comp ''Spin'' []]]
         else if order = []
           then [wrap ''Empty'' [wrap ''span'' [Txt ''No payment methods enabled.'', Txt '' '',
                   El ''a'' [(''href'', origin @ ''/merchants/settings'')] []
                     [Txt ''Enable currencies in Settings'']]]]
         else [wrap ''div'' (concat (map (\<lambda>b. network_card_view origin metamask tronlink (page_card s b)) order))]))"

section \<open>Lemmas\<close>

lemma balance_component_simps [simp]:
  "c_mount (balance_component loc) = bp_mount"
  "c_event (balance_component loc) = bp_on" "c_resume (balance_component loc) = bp_resume loc"
  "c_timer (balance_component loc) = bp_timer" "c_effect (balance_component loc) = bp_effects"
  "c_fits (balance_component loc) = bp_fits"
  by (simp_all add: balance_component_def)

text \<open>What the requests and the tasks of the page satisfy.\<close>

definition conversion_of :: "string \<Rightarrow> job \<Rightarrow> convert_params" where
  "conversion_of cur j = \<lparr>cv_from = j_ticker j, cv_amount = j_amount j, cv_to = cur\<rparr>"

fun bp_request_ok :: "bp_request \<Rightarrow> bp_cont \<Rightarrow> bool" where
  "bp_request_ok (QCollectors m) (GotCollectors m') = (m = m' \<and> m \<noteq> [])"
| "bp_request_ok (QBalance m b) (GotBalance b') = (b = b' \<and> m \<noteq> [])"
| "bp_request_ok (QConvertAll m cs) (GotFiat cur jobs) = (m \<noteq> [] \<and> jobs \<noteq> []
     \<and> cs = map (conversion_of cur) jobs \<and> list_all (\<lambda>j. positive (parse_float (j_amount j))) jobs)"
| "bp_request_ok (QWithdrawTron a ts) (WithdrawDone m b) = (b = ''TRON'' \<and> ts = TRON_KNOWN_TOKENS)"
| "bp_request_ok (QWithdrawEvm c a ts) (WithdrawDone m b) =
     (c \<in> set EVM_CHAINS \<and> ch_value c = b \<and> ts = lookup_or [] KNOWN_TOKENS b)"
| "bp_request_ok q k = False"

fun bp_timer_ok :: "bp_cont \<Rightarrow> bool" where
  "bp_timer_ok (RefreshLater m b) = True"
| "bp_timer_ok k = False"

abbreviation "bp_ok \<equiv> ok_outcome (\<lambda>s. True) bp_request_ok bp_timer_ok (\<lambda>e. True)"

lemma bp_ok_iff: "bp_ok oc \<longleftrightarrow> (\<forall>c \<in> set (snd oc). ok_cmd bp_request_ok bp_timer_ok (\<lambda>e. True) c)"
  by (simp add: ok_outcome_def)

lemma bp_ok_andThen: "bp_ok oc \<Longrightarrow> (\<And>s. bp_ok (f s)) \<Longrightarrow> bp_ok (andThen oc f)"
  by (cases oc) (auto simp: bp_ok_iff)

lemma jobs_positive: "list_all (\<lambda>j. positive (parse_float (j_amount j))) (fiat_jobs ms bals)"
  by (auto simp: fiat_jobs_def list_all_iff split: if_splits option.splits)

lemma fetchBalance_ok: "bp_ok (fetchBalance mid b s)"
  by (auto simp: fetchBalance_def idle_def truthy_iff)

lemma fetchAll_ok: "bp_ok (fetchAll mid bs s)"
  by (induction mid bs s rule: fetchAll.induct) (auto simp: idle_def intro: bp_ok_andThen fetchBalance_ok)

lemma collectors_effect_ok: "bp_ok (collectors_effect s)"
  by (auto simp: collectors_effect_def idle_def truthy_iff)

lemma fiat_effect_ok: "bp_ok (fiat_effect s)"
proof (cases "\<exists>mid m j js. bp_merchantId s = Some mid \<and> bp_merchant s = Some m
    \<and> fiat_jobs (supportedPaymentMethods m) (balances s) = j # js")
  case True
  then obtain mid m j js where d: "bp_merchantId s = Some mid" "bp_merchant s = Some m"
    and j: "fiat_jobs (supportedPaymentMethods m) (balances s) = j # js" by blast
  from jobs_positive [of "supportedPaymentMethods m" "balances s"]
  have "list_all (\<lambda>j. positive (parse_float (j_amount j))) (j # js)" unfolding j .
  then show ?thesis by (auto simp: fiat_effect_def d j idle_def conversion_of_def)
next
  case False
  then show ?thesis by (auto simp: fiat_effect_def idle_def split: option.split list.split)
qed

lemma effects_ok: "bp_ok (bp_effects old s)"
  by (auto simp: bp_effects_def intro!: bp_ok_andThen collectors_effect_ok fiat_effect_ok)
    (auto simp: bp_ok_iff idle_def)

lemma withdraw_ok: "bp_ok (handleWithdraw b s)"
proof (cases "find_first (\<lambda>x. ch_value x = b) EVM_CHAINS")
  case None
  then show ?thesis by (simp add: handleWithdraw_def idle_def Let_def split: option.split)
next
  case (Some chain)
  then have "chain \<in> set EVM_CHAINS \<and> ch_value chain = b" by (rule find_first_Some)
  with Some show ?thesis by (simp add: handleWithdraw_def idle_def Let_def split: option.split)
qed

lemma bp_on_ok: "bp_ok (bp_on v s)"
  by (cases v) (auto simp: idle_def fetchBalance_ok withdraw_ok)

lemma bp_resume_ok: "bp_ok (bp_resume loc k a s)"
proof (cases k)
  case (GotCollectors mid)
  then show ?thesis
    using fetchAll_ok by (induction mid a s rule: got_collectors.induct)
      (auto simp: bp_ok_iff Let_def split: prod.split, metis snd_conv)
next
  case (GotBalance b)
  then show ?thesis by (induction b a s rule: got_balance.induct) auto
next
  case (GotFiat cur jobs)
  then show ?thesis by (induction loc cur jobs a s rule: got_fiat.induct) (auto simp: Let_def)
next
  case (WithdrawDone mid b)
  then show ?thesis by (induction mid b a s rule: withdraw_done.induct) (auto simp: idle_def)
qed (auto simp: idle_def)

lemma bp_timer_ok_piece: "bp_ok (bp_timer k s)"
  by (cases k) (auto simp: idle_def fetchBalance_ok)

interpretation bal: safe_component "balance_component loc" "\<lambda>s. True" bp_request_ok bp_timer_ok "\<lambda>e. True"
  by unfold_locales
    (auto simp: bp_on_ok bp_resume_ok bp_timer_ok_piece effects_ok collectors_effect_ok fiat_effect_ok
      bp_mount_def intro: bp_ok_andThen)

lemma balance_reachable_ok:
  "areach (balance_component loc) balance_start w \<Longrightarrow>
     ok_world (\<lambda>s. True) bp_request_ok bp_timer_ok (\<lambda>e. True) w"
  by (erule bal.reachable_ok) simp

section \<open>Spinners\<close>

text \<open>What the page shows as in progress, and the answers that end it.\<close>

datatype spinner = SpinCollectors | SpinBalance string | SpinWithdraw string | SpinFiat

fun spin_flag :: "spinner \<Rightarrow> balance_page \<Rightarrow> bool" where
  "spin_flag SpinCollectors s = loadingCollectors s"
| "spin_flag (SpinBalance b) s = lookup_or False (loadingBalances s) b"
| "spin_flag (SpinWithdraw b) s = lookup_or False (withdrawing s) b"
| "spin_flag SpinFiat s = loadingFiat s"

text \<open>Before a merchant is selected the page says that it loads its collectors, although it does not.\<close>

definition spinning :: "spinner \<Rightarrow> balance_page \<Rightarrow> bool" where
  "spinning sp s \<longleftrightarrow> spin_flag sp s \<and> (sp = SpinCollectors \<longrightarrow> truthy (bp_merchantId s))"

fun clears :: "spinner \<Rightarrow> bp_cont \<Rightarrow> bool" where
  "clears SpinCollectors (GotCollectors m) = True"
| "clears (SpinBalance b) (GotBalance b') = (b = b')"
| "clears (SpinWithdraw b) (WithdrawDone m b') = (b = b')"
| "clears SpinFiat (GotFiat cur jobs) = True"
| "clears sp k = False"

abbreviation "spin_wakes sp cs \<equiv> wakes (clears sp) (\<lambda>k. False) cs"

lemma spin_wakes_simps [simp]:
  "spin_wakes sp (Await q k # cs) \<longleftrightarrow> clears sp k \<or> spin_wakes sp cs"
  "spin_wakes sp (After t k # cs) \<longleftrightarrow> spin_wakes sp cs"
  "spin_wakes sp (Emit e # cs) \<longleftrightarrow> spin_wakes sp cs"
  "spin_wakes sp (xs @ ys) \<longleftrightarrow> spin_wakes sp xs \<or> spin_wakes sp ys"
  "\<not> spin_wakes sp []"
  by (auto simp: wakes_def)

text \<open>A piece of code that sets a flag starts the request that clears it.\<close>

definition spin_piece :: "spinner \<Rightarrow> bool \<Rightarrow> balance_page \<Rightarrow> bp_outcome \<Rightarrow> bool" where
  "spin_piece sp ok s oc \<longleftrightarrow> (spin_flag sp (fst oc) \<longrightarrow> spin_wakes sp (snd oc) \<or> (spin_flag sp s \<and> ok))"

lemma spin_piece_mono: "spin_piece sp True s oc \<Longrightarrow> ok \<Longrightarrow> spin_piece sp ok s oc"
  by (simp add: spin_piece_def)

lemma spin_andThen:
  "spin_piece sp ok s oc \<Longrightarrow> (\<And>t. spin_piece sp True t (f t)) \<Longrightarrow> spin_piece sp ok s (andThen oc f)"
  by (cases oc) (auto simp: spin_piece_def)

lemma spin_idle: "spin_piece sp True s (idle s)"
  by (simp add: spin_piece_def idle_def)

lemma spin_fetchBalance: "spin_piece sp True s (fetchBalance mid b s)"
  by (cases sp) (auto simp: spin_piece_def fetchBalance_def idle_def)

lemma spin_fetchAll: "spin_piece sp True s (fetchAll mid bs s)"
  by (induction mid bs s rule: fetchAll.induct) (auto intro: spin_idle spin_andThen spin_fetchBalance)

lemma spin_collectors: "spin_piece sp True s (collectors_effect s)"
  by (cases sp) (auto simp: spin_piece_def collectors_effect_def idle_def)

lemma spin_fiat: "spin_piece sp True s (fiat_effect s)"
  by (cases sp) (auto simp: spin_piece_def fiat_effect_def idle_def split: option.split list.split)

lemma spin_withdraw: "spin_piece sp True s (handleWithdraw b s)"
  by (cases sp) (auto simp: spin_piece_def handleWithdraw_def idle_def Let_def split: option.split)

lemma spin_on: "spin_piece sp True s (bp_on v s)"
proof (cases v)
  case (SelectMerchant m)
  then show ?thesis by (cases sp) (simp_all add: spin_piece_def idle_def)
next
  case (MerchantLoaded m)
  then show ?thesis by (cases sp) (simp_all add: spin_piece_def idle_def)
qed (simp_all add: spin_fetchBalance spin_withdraw)

lemma spin_timer: "spin_piece sp True s (bp_timer k s)"
  by (cases k) (simp_all add: spin_idle spin_fetchBalance)

lemma spin_got_collectors: "spin_piece sp (\<not> clears sp (GotCollectors mid)) s (got_collectors mid a s)"
proof (induction mid a s rule: got_collectors.induct)
  case (1 mid cols s)
  let ?cs = "case cols of None \<Rightarrow> [] | Some cs \<Rightarrow> cs"
  let ?oc = "fetchAll (Some mid) (map ec_blockchain (filter isActive ?cs)) (s\<lparr>collectors := ?cs\<rparr>)"
  have "spin_piece sp True (s\<lparr>collectors := ?cs\<rparr>) ?oc" by (rule spin_fetchAll)
  then show ?case by (cases sp; cases ?oc) (auto simp: spin_piece_def)
qed (cases sp; simp add: spin_piece_def)+

lemma spin_got_balance: "spin_piece sp (\<not> clears sp (GotBalance b)) s (got_balance b a s)"
  by (induction b a s rule: got_balance.induct) (cases sp; simp add: spin_piece_def)+

lemma spin_got_fiat: "spin_piece sp (\<not> clears sp (GotFiat cur jobs)) s (got_fiat loc cur jobs a s)"
  by (induction loc cur jobs a s rule: got_fiat.induct) (cases sp; simp add: spin_piece_def Let_def)+

lemma spin_withdraw_done:
  assumes "bp_request_ok q (WithdrawDone mid b)" and "bp_fits q a"
  shows "spin_piece sp (\<not> clears sp (WithdrawDone mid b)) s (withdraw_done mid b a s)"
proof (cases a)
  case (Rejected e)
  then show ?thesis by (cases sp) (simp_all add: spin_piece_def)
next
  case (Resolved x)
  with assms obtain tx where "x = ATx tx" by (cases q) auto
  with Resolved show ?thesis by (cases sp) (simp_all add: spin_piece_def)
qed

lemma spin_resume:
  assumes "bp_request_ok q k" and "bp_fits q a"
  shows "spin_piece sp (\<not> clears sp k) s (bp_resume loc k a s)"
proof (cases k)
  case (WithdrawDone mid b)
  with assms show ?thesis by (simp add: spin_withdraw_done)
next
  case (RefreshLater mid b)
  then show ?thesis by (cases sp) (simp_all add: spin_piece_def idle_def)
qed (simp_all add: spin_got_collectors spin_got_balance spin_got_fiat)

lemma effect_mid: "bp_merchantId (fst (collectors_effect s)) = bp_merchantId s"
  "bp_merchantId (fst (fiat_effect s)) = bp_merchantId s"
  by (auto simp: collectors_effect_def fiat_effect_def idle_def split: option.split list.split)

lemma effects_mid: "bp_merchantId (fst (bp_effects old s)) = bp_merchantId s"
  by (cases "collectors_effect s") (use effect_mid(1) [of s] in \<open>auto simp: bp_effects_def idle_def effect_mid(2)\<close>)

lemma mount_mid: "bp_merchantId (fst (bp_mount s)) = bp_merchantId s"
  by (cases "collectors_effect (fresh_balance_page (bp_merchantId s) (bp_merchant s))")
    (use effect_mid(1) [of "fresh_balance_page (bp_merchantId s) (bp_merchant s)"] in
      \<open>auto simp: bp_mount_def effect_mid(2) fresh_balance_page_def\<close>)

lemma effects_select:
  "bp_merchantId s \<noteq> bp_merchantId old \<Longrightarrow> truthy (bp_merchantId s) \<Longrightarrow>
     spin_wakes SpinCollectors (snd (bp_effects old s))"
  by (auto simp: bp_effects_def collectors_effect_def)

lemma spin_effects: "spin_piece sp True s (bp_effects old s)"
  unfolding bp_effects_def by (intro spin_andThen) (simp_all add: spin_collectors spin_fiat spin_idle)

lemma spin_live:
  assumes "andThen oc (bp_effects s) = (s', cs)" and "spinning sp s'" and "spin_piece sp ok s oc"
  shows "spin_wakes sp cs \<or> (spinning sp s \<and> ok)"
proof -
  obtain t ds where oc: "oc = (t, ds)" by (cases oc)
  with assms(1) have s': "s' = fst (bp_effects s t)" and cs: "cs = ds @ snd (bp_effects s t)"
    by (auto simp: prod_eq_iff)
  have mid: "bp_merchantId s' = bp_merchantId t" by (simp add: s' effects_mid)
  show ?thesis
  proof (cases "spin_wakes sp cs")
    case False
    with assms(2) spin_effects [of sp t s] have "spin_flag sp t"
      by (auto simp: spinning_def spin_piece_def s' cs)
    with False assms(3) have s: "spin_flag sp s" "ok" by (auto simp: spin_piece_def oc cs)
    have "truthy (bp_merchantId s)" if "sp = SpinCollectors"
    proof (rule ccontr)
      assume "\<not> truthy (bp_merchantId s)"
      moreover have "truthy (bp_merchantId t)" using assms(2) that mid by (simp add: spinning_def)
      ultimately have "spin_wakes sp (snd (bp_effects s t))"
        using that effects_select [of t s] by metis
      with False show False by (simp add: cs)
    qed
    with s show ?thesis by (simp add: spinning_def)
  qed simp
qed

interpretation ball: live_component "balance_component loc" "\<lambda>s. True" bp_request_ok bp_timer_ok
    "\<lambda>e. True" "spinning sp" "clears sp" "\<lambda>k. False"
proof unfold_locales
  fix s s' cs
  assume m: "c_mount (balance_component loc) s = (s', cs)" and sp: "spinning sp s'"
  let ?f = "fresh_balance_page (bp_merchantId s) (bp_merchant s)"
  have "spin_piece sp True ?f (bp_mount s)"
    unfolding bp_mount_def by (intro spin_andThen spin_collectors spin_fiat)
  moreover have "spin_flag sp ?f \<Longrightarrow> sp = SpinCollectors"
    by (cases sp) (simp_all add: fresh_balance_page_def)
  moreover have "truthy (bp_merchantId s) \<Longrightarrow> spin_wakes SpinCollectors (snd (bp_mount s))"
    by (simp add: bp_mount_def collectors_effect_def fresh_balance_page_def)
  moreover have "bp_merchantId s' = bp_merchantId s"
    using m mount_mid [of s] by simp
  ultimately show "spin_wakes sp cs"
    using m sp by (auto simp: spin_piece_def spinning_def)
next
  fix s v s' cs
  assume "andThen (c_event (balance_component loc) v s) (c_effect (balance_component loc) s) = (s', cs)"
    "spinning sp s'"
  then show "spin_wakes sp cs \<or> spinning sp s"
    using spin_live [OF _ _ spin_on] by auto
next
  fix s q k a s' cs
  assume "bp_request_ok q k" "c_fits (balance_component loc) q a"
    "andThen (c_resume (balance_component loc) k a s) (c_effect (balance_component loc) s) = (s', cs)"
    "spinning sp s'"
  then show "spin_wakes sp cs \<or> (spinning sp s \<and> \<not> clears sp k)"
    using spin_live [OF _ _ spin_resume] by auto
next
  fix s k s' cs
  assume "andThen (c_timer (balance_component loc) k s) (c_effect (balance_component loc) s) = (s', cs)"
    "spinning sp s'"
  then show "spin_wakes sp cs \<or> (spinning sp s \<and> \<not> False)"
    using spin_live [OF _ _ spin_timer] by auto
qed

section \<open>The tables of converted values\<close>

text \<open>A two-level table as a map from a network and a ticker, and the values in its order.\<close>

definition fiat_abs :: "(string \<times> (string \<times> 'v) list) list \<Rightarrow> string \<times> string \<Rightarrow> 'v option" where
  "fiat_abs m = (\<lambda>(b, t). map_of (lookup_or [] m b) t)"

definition table_vals :: "(string \<times> (string \<times> 'v) list) list \<Rightarrow> 'v list" where
  "table_vals m = concat (map (map snd \<circ> snd) m)"

definition job_key :: "job \<Rightarrow> string \<times> string" where
  "job_key j = (j_blockchain j, j_ticker j)"

text \<open>What a batch of conversions means: the finite value of each job whose conversion succeeded.\<close>

definition settled_value :: "(dash_convert_result, 'x) reply \<Rightarrow> jsnum option" where
  "settled_value r = (case r of Rejected e \<Rightarrow> None
     | Resolved res \<Rightarrow> if is_finite (parse_float (convertedAmount res)) then Some (parse_float (convertedAmount res)) else None)"

definition batch_spec :: "job list \<Rightarrow> (dash_convert_result, 'x) reply list \<Rightarrow> string \<times> string \<Rightarrow> jsnum option" where
  "batch_spec jobs rs k = Option.bind (map_of (zip (map job_key jobs) rs) k) settled_value"

lemma fiat_abs_update2: "fiat_abs (update2 b t v m) = (fiat_abs m)((b, t) \<mapsto> v)"
  by (auto simp: fiat_abs_def update2_def update_conv' fun_eq_iff)

lemma fiat_values_simps:
  "fiat_values [] = []"
  "fiat_values ((j, r) # rs) = (case settled_value r of None \<Rightarrow> [] | Some n \<Rightarrow> [(j, n)]) @ fiat_values rs"
  by (auto simp: fiat_values_def settled_value_def Let_def split: reply.split)

lemma table_of_snoc:
  "table_of f (vs @ [(j, n)]) = update2 (j_blockchain j) (j_ticker j) (f n) (table_of f vs)"
  by (simp add: table_of_def)

lemma table_of_abs:
  "fiat_abs (table_of f vs) = map_of (rev (map (\<lambda>(j, n). (job_key j, f n)) vs))"
proof (induction vs rule: rev_induct)
  case Nil
  then show ?case by (simp add: table_of_def fiat_abs_def fun_eq_iff)
next
  case (snoc v vs)
  then show ?case by (cases v) (simp add: table_of_snoc fiat_abs_update2 job_key_def)
qed

lemma values_keys: "set (map (job_key \<circ> fst) (fiat_values zs)) \<subseteq> set (map (job_key \<circ> fst) zs)"
proof (induction zs)
  case (Cons z zs)
  then show ?case by (cases z) (auto simp: fiat_values_simps simp del: set_map split: option.split)
qed (simp add: fiat_values_simps)

lemma values_distinct:
  "distinct (map (job_key \<circ> fst) zs) \<Longrightarrow> distinct (map (job_key \<circ> fst) (fiat_values zs))"
proof (induction zs)
  case (Cons z zs)
  obtain j r where z: "z = (j, r)" by (cases z)
  have "job_key j \<notin> set (map (job_key \<circ> fst) (fiat_values zs))" using Cons.prems values_keys [of zs] z by auto
  then show ?case using Cons z by (auto simp: fiat_values_simps split: option.split)
qed (simp add: fiat_values_simps)

lemma values_map:
  "distinct (map (job_key \<circ> fst) zs) \<Longrightarrow>
     map_of (map (\<lambda>(j, n). (job_key j, f n)) (fiat_values zs)) k
       = map_option f (Option.bind (map_of (map (\<lambda>(j, r). (job_key j, r)) zs) k) settled_value)"
proof (induction zs)
  case (Cons z zs)
  obtain j r where z: "z = (j, r)" by (cases z)
  have n: "map_of (map (\<lambda>(j, n). (job_key j, f n)) (fiat_values zs)) (job_key j) = None"
    using Cons.prems values_keys [of zs] z by (force simp: map_of_eq_None_iff)
  show ?case using Cons n z by (auto simp: fiat_values_simps split: option.split)
qed (simp add: fiat_values_simps)

lemma map_of_rev_distinct: "distinct (map fst xs) \<Longrightarrow> map_of (rev xs) = map_of xs"
proof -
  assume "distinct (map fst xs)"
  moreover from this have "distinct (map fst (rev xs))" by (simp add: rev_map [symmetric])
  ultimately show ?thesis by (intro map_of_inject_set [THEN iffD2]) auto
qed

lemma update_new: "map_of m k = None \<Longrightarrow> AList.update k v m = m @ [(k, v)]"
  by (induction m) (auto split: if_splits)

lemma update2_vals:
  "fiat_abs m (b, t) = None \<Longrightarrow> mset (table_vals (update2 b t v m)) = add_mset v (mset (table_vals m))"
proof (induction m)
  case Nil
  then show ?case by (simp add: update2_def table_vals_def)
next
  case (Cons x m)
  obtain b' ps where x: "x = (b', ps)" by (cases x)
  show ?case
  proof (cases "b' = b")
    case True
    then have "map_of ps t = None" using Cons.prems x by (simp add: fiat_abs_def lookup_or_def)
    then show ?thesis using True x
      by (simp add: update2_def table_vals_def lookup_or_def update_new)
  next
    case False
    then have "fiat_abs m (b, t) = None" using Cons.prems x by (simp add: fiat_abs_def lookup_or_def)
    then show ?thesis using False Cons.IH x
      by (simp add: update2_def table_vals_def lookup_or_def)
  qed
qed

lemma table_of_vals:
  "distinct (map (job_key \<circ> fst) vs) \<Longrightarrow> mset (table_vals (table_of f vs)) = mset (map (f \<circ> snd) vs)"
proof (induction vs rule: rev_induct)
  case Nil
  then show ?case by (simp add: table_of_def table_vals_def)
next
  case (snoc v vs)
  obtain j n where v: "v = (j, n)" by (cases v)
  have "fiat_abs (table_of f vs) (j_blockchain j, j_ticker j) = None"
    using snoc.prems v by (force simp: table_of_abs map_of_eq_None_iff job_key_def)
  then show ?case using snoc v by (simp add: table_of_snoc update2_vals)
qed
lemma pending_issue_ext: "\<exists>ps. pending (issue cs w) = pending w @ ps"
  by (induction cs w rule: issue.induct) auto

lemma pending_event_ext: "\<exists>ps. pending (do_event c v w) = pending w @ ps"
proof -
  obtain s cs where "andThen (c_event c v (wst w)) (c_effect c (wst w)) = (s, cs)" by (metis surj_pair)
  then show ?thesis using pending_issue_ext [of cs "w\<lparr>wst := s\<rparr>"] by (simp add: do_event_def commit_def)
qed

lemma effect_balances:
  "balances (fst (collectors_effect s)) = balances s" "balances (fst (fiat_effect s)) = balances s"
  by (auto simp: collectors_effect_def fiat_effect_def idle_def split: option.split list.split)

lemma effects_balances: "balances (fst (bp_effects old s)) = balances s"
  by (cases "collectors_effect s")
    (use effect_balances(1) [of s] in \<open>auto simp: bp_effects_def idle_def effect_balances(2)\<close>)

lemma got_fiat_tables:
  assumes "distinct (map job_key jobs)" and "length rs = length jobs"
  shows "distinct (map (job_key \<circ> fst) (fiat_values (zip jobs rs)))"
    and "fiat_abs (table_of f (fiat_values (zip jobs rs))) = map_option f \<circ> batch_spec jobs rs"
proof -
  have "map (job_key \<circ> fst) (zip jobs rs) = map job_key jobs" using assms(2) by (simp flip: map_map)
  then have z: "distinct (map (job_key \<circ> fst) (zip jobs rs))" using assms(1) by simp
  then show d: "distinct (map (job_key \<circ> fst) (fiat_values (zip jobs rs)))" by (rule values_distinct)
  then have "distinct (map fst (map (\<lambda>(j, n). (job_key j, f n)) (fiat_values (zip jobs rs))))"
    by (simp add: comp_def split_def)
  then have "fiat_abs (table_of f (fiat_values (zip jobs rs)))
      = map_of (map (\<lambda>(j, n). (job_key j, f n)) (fiat_values (zip jobs rs)))"
    by (simp add: table_of_abs map_of_rev_distinct)
  also have "\<dots> = map_option f \<circ> batch_spec jobs rs"
    using values_map [OF z, of f] by (simp add: fun_eq_iff batch_spec_def zip_map1 split_def)
  finally show "fiat_abs (table_of f (fiat_values (zip jobs rs))) = map_option f \<circ> batch_spec jobs rs" .
qed

section \<open>Concrete instances\<close>

definition sample_collector :: evm_collector where
  "sample_collector = \<lparr>ec_uuid = ''c1'', ec_blockchain = ''ETH'', ec_chainId = 1,
     contractAddress = ''0xc'', ownerAddress = ''0xo'', factoryAddress = ''0xf'', isActive = True,
     ec_createdAt = []\<rparr>"

definition sample_balance :: collector_balance where
  "sample_balance = \<lparr>native_amount = ''2'', native_ticker = ''ETH'', native_usdAmount = [], cb_tokens = []\<rparr>"

definition sample_eth :: dash_method where
  "sample_eth = \<lparr>dm_blockchain = ''ETH'', dm_blockchainName = ''Ethereum'', dm_displayName = ''ETH'',
     dm_enabled = True, dm_name = ''ETH'', dm_ticker = ''ETH''\<rparr>"

definition sample_shop :: merchant where
  "sample_shop = \<lparr>mb_name = ''Shop'', mb_website = [], m_id = ''m1'', m_settings = [],
     m_fiatCurrency = ''USD'', m_fiatCurrencySymbol = ''$'',
     m_webhookSettings = \<lparr>wh_secret = None, wh_url = []\<rparr>, supportedPaymentMethods = [sample_eth]\<rparr>"

lemmas balance_samples = sample_collector_def sample_balance_def sample_eth_def sample_shop_def
  fresh_balance_page_def

lemma sample_jobs: "fiat_jobs [sample_eth] [(''ETH'', sample_balance)]
  = [\<lparr>j_blockchain = ''ETH'', j_ticker = ''ETH'', j_amount = ''2''\<rparr>]"
  by (simp add: fiat_jobs_def balance_samples method_amount_def parse_float_two)

text \<open>A run of the page in which the collector and then its balance arrive.\<close>

definition sample_balance_run where
  "sample_balance_run =
     (let c = balance_component (\<lambda>n. []);
          w = initial c (fresh_balance_page (Some ''m1'') (Some sample_shop))
      in do_reply c 0 (Resolved (ABalance sample_balance))
           (do_reply c 0 (Resolved (ACollectors (Some [sample_collector]))) w))"

lemma sample_run_1:
  "initial (balance_component f) (fresh_balance_page (Some ''m1'') (Some sample_shop))
    = \<lparr>wst = fresh_balance_page (Some ''m1'') (Some sample_shop),
       pending = [(QCollectors ''m1'', GotCollectors ''m1'')], timers = [], trace = []\<rparr>"
  by (simp add: initial_def bp_mount_def collectors_effect_def fiat_effect_def idle_def fresh_balance_page_def)

lemma sample_run_2:
  "do_reply (balance_component f) 0 (Resolved (ACollectors (Some [sample_collector])))
      (initial (balance_component f) (fresh_balance_page (Some ''m1'') (Some sample_shop)))
    = \<lparr>wst = (fresh_balance_page (Some ''m1'') (Some sample_shop))\<lparr>collectors := [sample_collector],
         loadingBalances := [(''ETH'', True)], loadingCollectors := False\<rparr>,
       pending = [(QBalance ''m1'' ''ETH'', GotBalance ''ETH'')], timers = [], trace = []\<rparr>"
  unfolding sample_run_1
  by (simp add: do_reply_def commit_def drop_nth_def Let_def fetchBalance_def idle_def bp_effects_def
      fiat_deps_def bp_currency_def fresh_balance_page_def sample_collector_def)

lemma sample_run_3:
  "pending (sample_balance_run) = [(QConvertAll ''m1'' [\<lparr>cv_from = ''ETH'', cv_amount = ''2'', cv_to = ''USD''\<rparr>],
      GotFiat ''USD'' [\<lparr>j_blockchain = ''ETH'', j_ticker = ''ETH'', j_amount = ''2''\<rparr>])]"
  unfolding sample_balance_run_def Let_def sample_run_2
  by (simp add: do_reply_def commit_def drop_nth_def bp_effects_def fiat_deps_def fresh_balance_page_def
      fiat_effect_def sample_jobs sample_shop_def bp_currency_def useMerchantCurrency_def Let_def idle_def)

section \<open>Properties\<close>

text \<open>C9. No spinner is stuck: in every run of the page, whatever it shows as in progress (the collectors
  of a selected merchant, the balance of a network, a withdrawal, the conversion) has a request under
  way whose answer or failure ends it.\<close>

theorem spinners_end:
  assumes "areach (balance_component loc) balance_start w" and "spinning sp (wst w)"
  shows "\<exists>(q, k) \<in> set (pending w). clears sp k"
  using ball.reachable_awake [OF assms(1)] assms(2) by (auto simp: awake_def)

theorem spinners_end_witness:
  "\<exists>(q, k) \<in> set (pending (initial (balance_component (\<lambda>n. [])) (fresh_balance_page (Some ''m1'') None))).
     clears SpinCollectors k"
proof (rule spinners_end)
  let ?s = "fresh_balance_page (Some ''m1'') None"
  show "areach (balance_component (\<lambda>n. [])) balance_start (initial (balance_component (\<lambda>n. [])) ?s)"
    by (rule areach.start) (auto simp: balance_start_def)
  show "spinning SpinCollectors (wst (initial (balance_component (\<lambda>n. [])) ?s))"
    by (simp add: initial_def bp_mount_def fresh_balance_page_def collectors_effect_def fiat_effect_def
        idle_def spinning_def)
qed

text \<open>The server rejects conversions of nothing, and the page never asks for one: in every run each
  batch of conversions on the wire belongs to a merchant and has at least one conversion, all of them
  of positive amounts and into the same currency.\<close>

lemma conversions_positive:
  assumes "areach (balance_component loc) balance_start w"
    and "(QConvertAll mid cs, k) \<in> set (pending w)"
  shows "mid \<noteq> [] \<and> cs \<noteq> [] \<and> list_all (\<lambda>c. positive (parse_float (cv_amount c))) cs
    \<and> (\<exists>cur. list_all (\<lambda>c. cv_to c = cur) cs)"
proof -
  have "bp_request_ok (QConvertAll mid cs) k"
    using balance_reachable_ok [OF assms(1)] assms(2) by (auto simp: ok_world_def)
  then show ?thesis by (cases k) (auto simp: list_all_iff conversion_of_def)
qed

lemma conversions_positive_example:
  "list_all (\<lambda>c. positive (parse_float (cv_amount c)))
     [\<lparr>cv_from = ''ETH'', cv_amount = ''2'', cv_to = ''USD''\<rparr>]"
proof -
  let ?c = "balance_component (\<lambda>n. [])"
  have r1: "areach ?c balance_start (initial ?c (fresh_balance_page (Some ''m1'') (Some sample_shop)))"
    by (rule areach.start) (auto simp: balance_start_def)
  have r2: "areach ?c balance_start (do_reply ?c 0 (Resolved (ACollectors (Some [sample_collector])))
      (initial ?c (fresh_balance_page (Some ''m1'') (Some sample_shop))))"
    by (rule areach.step [OF r1], rule astep.reply) (simp_all add: sample_run_1)
  have "areach ?c balance_start sample_balance_run"
    unfolding sample_balance_run_def Let_def
    by (rule areach.step [OF r2], rule astep.reply) (simp_all add: sample_run_2)
  from conversions_positive [OF this, of "''m1''"] show ?thesis by (simp add: sample_run_3)
qed

text \<open>The conversions are those of the rows: for a network whose balance is known, the page converts
  exactly the amounts that its card shows as more than nothing, in the order of the rows. The two
  pieces of code that pick the amount of a token agree, the missing token included.\<close>

lemma jobs_match_rows:
  assumes "map_of bals b = Some bal"
  shows "map (\<lambda>j. (j_ticker j, Some (j_amount j))) (filter (\<lambda>j. j_blockchain j = b) (fiat_jobs ms bals))
    = map (\<lambda>r. (tr_ticker r, tr_amount r))
        (filter (\<lambda>r. positive (parse_float (the (tr_amount r))))
          (tokenRows b (lookup_or [] (groupByBlockchain ms) b) (Some bal)))"
  unfolding group_or
proof (induction ms)
  case Nil
  then show ?case by (simp add: fiat_jobs_def tokenRows_def)
next
  case (Cons m ms)
  have j: "fiat_jobs (m # ms) bals = fiat_jobs [m] bals @ fiat_jobs ms bals" by (simp add: fiat_jobs_def)
  have r: "tokenRows b (methods_on b (m # ms)) (Some bal)
      = tokenRows b (methods_on b [m]) (Some bal) @ tokenRows b (methods_on b ms) (Some bal)"
    by (simp add: tokenRows_def methods_on_def)
  have one: "map (\<lambda>j. (j_ticker j, Some (j_amount j))) (filter (\<lambda>j. j_blockchain j = b) (fiat_jobs [m] bals))
      = map (\<lambda>r. (tr_ticker r, tr_amount r)) (filter (\<lambda>r. positive (parse_float (the (tr_amount r))))
          (tokenRows b (methods_on b [m]) (Some bal)))"
    using assms by (auto simp: fiat_jobs_def tokenRows_def methods_on_def parse_float_zero split: option.split)
  show ?case unfolding j r by (simp add: one Cons.IH del: methods_on_simps)
qed

lemma jobs_match_rows_example:
  "map (\<lambda>j. (j_ticker j, Some (j_amount j))) (filter (\<lambda>j. j_blockchain j = ''ETH'')
      (fiat_jobs [sample_eth] [(''ETH'', sample_balance)])) = [(''ETH'', Some ''2'')]"
proof -
  have "map_of [(''ETH'', sample_balance)] ''ETH'' = Some sample_balance" by simp
  from jobs_match_rows [OF this, of "[sample_eth]"] show ?thesis by (simp add: sample_jobs)
qed

text \<open>C10. The tables of values mean what the answers say: after a batch in which no network has a ticker
  twice, a network and a ticker have a value exactly when their conversion succeeded with a finite
  number, the text beside it is that number in the merchant's format, and the total of the portfolio
  adds up exactly these numbers, each once.\<close>

theorem fiat_batch_refines:
  assumes "distinct (map job_key jobs)" and "length rs = length jobs"
    and s': "s' = fst (got_fiat loc cur jobs (Resolved (ASettled rs)) s)"
  shows "fiat_abs (fiatNumericByNetwork s') = batch_spec jobs rs
    \<and> fiat_abs (fiatByNetwork s')
        = map_option (\<lambda>n. formatFiat loc (AmountNum n) (Some cur) True) \<circ> batch_spec jobs rs
    \<and> (\<exists>ns. mset ns = mset (map snd (fiat_values (zip jobs rs)))
        \<and> portfolioTotal s' = foldl js_add (Fin 0) ns)"
proof (intro conjI)
  let ?vs = "fiat_values (zip jobs rs)"
  have n: "fiatNumericByNetwork s' = table_of id ?vs" by (simp add: s' Let_def)
  have f: "fiatByNetwork s' = table_of (\<lambda>n. formatFiat loc (AmountNum n) (Some cur) True) ?vs"
    by (simp add: s' Let_def)
  show "fiat_abs (fiatNumericByNetwork s') = batch_spec jobs rs"
    using got_fiat_tables(2) [OF assms(1,2), of id] by (simp add: n option.map_id0)
  show "fiat_abs (fiatByNetwork s')
      = map_option (\<lambda>n. formatFiat loc (AmountNum n) (Some cur) True) \<circ> batch_spec jobs rs"
    unfolding f by (rule got_fiat_tables(2) [OF assms(1,2)])
  have "mset (table_vals (fiatNumericByNetwork s')) = mset (map snd ?vs)"
    using table_of_vals [OF got_fiat_tables(1) [OF assms(1,2)], of id] by (simp add: n)
  then show "\<exists>ns. mset ns = mset (map snd ?vs) \<and> portfolioTotal s' = foldl js_add (Fin 0) ns"
    by (auto simp: portfolioTotal_def table_vals_def)
qed

theorem fiat_batch_refines_witness:
  "fiat_abs (fiatNumericByNetwork (fst (got_fiat (\<lambda>n. ''2.00'') ''USD''
      [\<lparr>j_blockchain = ''ETH'', j_ticker = ''ETH'', j_amount = ''2''\<rparr>]
      (Resolved (ASettled [Resolved \<lparr>convertedAmount = ''2'', dc_exchangeRate = Fin 1, dc_from = ''ETH'', dc_to = ''USD''\<rparr>]))
      (fresh_balance_page (Some ''m1'') None)))) (''ETH'', ''ETH'') = Some (Fin 2)"
proof -
  let ?js = "[\<lparr>j_blockchain = ''ETH'', j_ticker = ''ETH'', j_amount = ''2''\<rparr>]"
  let ?rs = "[Resolved \<lparr>convertedAmount = ''2'', dc_exchangeRate = Fin 1, dc_from = ''ETH'', dc_to = ''USD''\<rparr>]
    :: (dash_convert_result, wallet_error) reply list"
  have "distinct (map job_key ?js)" "length ?rs = length ?js" by simp_all
  from fiat_batch_refines [OF this refl] show ?thesis
    by (simp add: batch_spec_def job_key_def settled_value_def parse_float_two)
qed

text \<open>A withdrawal takes the contract that the card shows: when the server lists only active
  collectors, a withdrawal that a click starts is for the collector of the card of that network, with
  the token list of the network, and on an EVM network with the chain of that name.\<close>

lemma withdraw_from_card:
  assumes "list_all isActive (collectors s)"
    and "Await q k \<in> set (snd (bp_on (ClickWithdraw b) s))"
  shows "\<exists>c. nc_collector (page_card s b) = Some c
    \<and> (if b = ''TRON'' then q = QWithdrawTron (contractAddress c) TRON_KNOWN_TOKENS
       else \<exists>chain. chain \<in> set EVM_CHAINS \<and> ch_value chain = b
         \<and> q = QWithdrawEvm chain (contractAddress c) (lookup_or [] KNOWN_TOKENS b))"
proof -
  from assms(2) obtain c where c: "collector_for b (collectors s) = Some c"
    by (auto simp: handleWithdraw_def idle_def split: option.splits)
  have "find_first (\<lambda>c. ec_blockchain c = b \<and> isActive c) (collectors s) = collector_for b (collectors s)"
    using assms(1) by (auto simp: collector_for_def find_first_def list_all_iff intro: find_cong)
  then have card: "nc_collector (page_card s b) = Some c" using c by (simp add: page_card_def)
  show ?thesis
  proof (cases "find_first (\<lambda>x. ch_value x = b) EVM_CHAINS")
    case None
    then show ?thesis using assms(2) c card
      by (auto simp: handleWithdraw_def Let_def split: if_splits)
  next
    case (Some chain)
    then have "chain \<in> set EVM_CHAINS \<and> ch_value chain = b" by (rule find_first_Some)
    with Some show ?thesis using assms(2) c card
      by (auto simp: handleWithdraw_def Let_def split: if_splits)
  qed
qed

lemma withdraw_from_card_example:
  "\<exists>c. nc_collector (page_card ((fresh_balance_page (Some ''m1'') None)\<lparr>collectors := [sample_collector]\<rparr>) ''ETH'')
      = Some c \<and> contractAddress c = ''0xc''"
proof -
  let ?s = "(fresh_balance_page (Some ''m1'') None)\<lparr>collectors := [sample_collector]\<rparr>"
  have a: "list_all isActive (collectors ?s)" by (simp add: sample_collector_def)
  have "Await (QWithdrawEvm (hd EVM_CHAINS) ''0xc'' (lookup_or [] KNOWN_TOKENS ''ETH''))
      (WithdrawDone (Some ''m1'') ''ETH'') \<in> set (snd (bp_on (ClickWithdraw ''ETH'') ?s))"
    by (simp add: handleWithdraw_def collector_for_def find_first_def sample_collector_def EVM_CHAINS_def
        evm_chain_of_def fresh_balance_page_def)
  from withdraw_from_card [OF a this] show ?thesis by auto
qed

text \<open>A late balance lands on the wrong merchant: when another merchant is selected while the balance
  of a network is on its way, the answer is shown on the card of the newly selected merchant.\<close>

lemma late_balance_kept:
  assumes "i < length (pending w)" and "pending w ! i = (QBalance old b, GotBalance b)"
    and "w' = do_reply (balance_component loc) i (Resolved (ABalance bal))
      (do_event (balance_component loc) (SelectMerchant (Some new)) w)"
  shows "bp_merchantId (wst w') = Some new \<and> nc_balance (page_card (wst w') b) = Some bal"
proof -
  let ?w1 = "do_event (balance_component loc) (SelectMerchant (Some new)) w"
  have m1: "bp_merchantId (wst ?w1) = Some new"
    by (simp add: do_event_def commit_wst idle_def effects_mid)
  have "\<exists>ps. pending ?w1 = pending w @ ps" by (rule pending_event_ext)
  then have p: "snd (pending ?w1 ! i) = GotBalance b" using assms(1,2) by (auto simp: nth_append)
  show ?thesis
    using m1 unfolding assms(3)
    by (simp add: do_reply_def commit_wst p effects_mid effects_balances page_card_def update_conv')
qed

lemma late_balance_kept_example:
  "nc_balance (page_card (wst (do_reply (balance_component (\<lambda>n. [])) 0 (Resolved (ABalance sample_balance))
     (do_event (balance_component (\<lambda>n. [])) (SelectMerchant (Some ''m2''))
       \<lparr>wst = fresh_balance_page (Some ''m1'') None, pending = [(QBalance ''m1'' ''ETH'', GotBalance ''ETH'')],
        timers = [], trace = []\<rparr>))) ''ETH'') = Some sample_balance"
proof -
  let ?w = "\<lparr>wst = fresh_balance_page (Some ''m1'') None,
    pending = [(QBalance ''m1'' ''ETH'', GotBalance ''ETH'')], timers = [], trace = []\<rparr>
    :: (balance_page, bp_request, bp_cont, bp_effect) world"
  have "0 < length (pending ?w)" "pending ?w ! 0 = (QBalance ''m1'' ''ETH'', GotBalance ''ETH'')" by simp_all
  from late_balance_kept [OF this refl] show ?thesis by blast
qed

end
