(* ===== verification/Wallet_Deploy.thy ===== *)
theory Wallet_Deploy
  imports Async_History Balance_View
begin

text \<open>
  The panels of the wallet setup page that deploy a merchant's contracts
  (EvmCollectorPanel and TronCollectorPanel of
  ui-dashboard/src/pages/wallet-setup-page/wallet-setup-page.tsx): the sequence connect, switch the
  chain, deploy, register with the server; the dialog that shows it; removing a registration.

  The steps of the wallet and of the server are requests; what the wallet does for each of them is in
  Wallets. A continuation carries what the closure captured: the merchant of the render in
  which the button was pressed, the chain, the owner, the contract. The page's \<open>onRefresh\<close> of that
  render is the effect \<open>RefreshPage\<close>. The confirmation that opens before a removal is third-party;
  its \<open>onOk\<close> is an event with what it captured.
\<close>

section \<open>EVM chains\<close>

(* src: ui-dashboard/src/pages/wallet-setup-page/wallet-setup-page.tsx 74-74 DeployStep *)
datatype deploy_step = StepIdle | StepConnecting | StepSwitching | StepDeploying | StepRegistering
  | StepDone | StepError

(* src: ui-dashboard/src/pages/wallet-setup-page/wallet-setup-page.tsx 76-81 DeployState *)
record deploy_state =
  ds_step :: deploy_step
  ds_error :: "string option"
  ds_contract :: "string option"
  ds_owner :: "string option"

(* src: ui-dashboard/src/pages/wallet-setup-page/wallet-setup-page.tsx 83-91 STEP_LABELS *)
fun STEP_LABELS :: "deploy_step \<Rightarrow> string" where
  "STEP_LABELS StepIdle = ''Ready''"
| "STEP_LABELS StepConnecting = ''Connecting wallet...''"
| "STEP_LABELS StepSwitching = ''Switching network...''"
| "STEP_LABELS StepDeploying = ''Deploying contract...''"
| "STEP_LABELS StepRegistering = ''Registering with CryptoLink...''"
| "STEP_LABELS StepDone = ''Done!''"
| "STEP_LABELS StepError = ''Error''"

definition at_step :: "deploy_step \<Rightarrow> deploy_state" where
  "at_step p = \<lparr>ds_step = p, ds_error = None, ds_contract = None, ds_owner = None\<rparr>"

record evm_panel =
  ep_merchantId :: string
  deployingChain :: "string option"
  deployState :: deploy_state
  isDeleting :: "string option"

datatype evm_request =
    QConnect
  | QSwitch evm_chain
  | QDeploy string evm_chain
  | QRegister string setup_collector
  | QRemove string string

datatype evm_cont =
    Connected string evm_chain
  | Switched string evm_chain string
  | DeployedAt string evm_chain string
  | Registered string evm_chain string string
  | Removed string
  | CloseDialog

datatype evm_answer = AOwner string | ADone | AContract string

datatype evm_effect =
    NotifySuccess string string
  | NotifyError string string
  | RefreshPage string
  | AskRemove string string

text \<open>A failed request has a message, and for the server's answers a message in its body.\<close>

record setup_error =
  se_message :: string
  se_body_message :: "string option"

type_synonym evm_outcome = "(evm_panel, evm_request, evm_cont, evm_effect) outcome"

(* src: ui-dashboard/src/pages/wallet-setup-page/wallet-setup-page.tsx 145-148 catch *)
definition deploy_failed :: "setup_error \<Rightarrow> evm_panel \<Rightarrow> evm_outcome" where
  "deploy_failed e s = (s\<lparr>deployState := (at_step StepError)\<lparr>ds_error :=
     Some (or_else (Some (se_message e)) ''Deployment failed. Please try again.'')\<rparr>\<rparr>, [])"

(* src: ui-dashboard/src/pages/wallet-setup-page/wallet-setup-page.tsx 125-131 ownerAddress *)
definition registration :: "evm_chain \<Rightarrow> string \<Rightarrow> string \<Rightarrow> setup_collector" where
  "registration c owner addr = \<lparr>sc_blockchain = ch_value c, sc_ownerAddress = owner,
     sc_contractAddress = addr, sc_chainId = ch_chainId c, sc_factoryAddress = []\<rparr>"

text \<open>The code from one \<open>await\<close> to the next.\<close>

(* src: ui-dashboard/src/pages/wallet-setup-page/wallet-setup-page.tsx 106-112 handleDeploy *)
definition handleDeploy :: "evm_chain \<Rightarrow> evm_panel \<Rightarrow> evm_outcome" where
  "handleDeploy chain s =
     (s\<lparr>deployingChain := Some (ch_value chain), deployState := at_step StepConnecting\<rparr>,
      [Await QConnect (Connected (ep_merchantId s) chain)])"

(* src: ui-dashboard/src/pages/wallet-setup-page/wallet-setup-page.tsx 112-149 deployCollector *)
fun evm_flow :: "evm_cont \<Rightarrow> (evm_answer, setup_error) reply \<Rightarrow> evm_panel \<Rightarrow> evm_outcome" where
  "evm_flow (Connected mid chain) (Resolved (AOwner owner)) s =
     (s\<lparr>deployState := (at_step StepSwitching)\<lparr>ds_owner := Some owner\<rparr>\<rparr>,
      [Await (QSwitch chain) (Switched mid chain owner)])"
| "evm_flow (Switched mid chain owner) (Resolved a) s =
     (s\<lparr>deployState := (deployState s)\<lparr>ds_step := StepDeploying\<rparr>\<rparr>,
      [Await (QDeploy owner chain) (DeployedAt mid chain owner)])"
| "evm_flow (DeployedAt mid chain owner) (Resolved (AContract addr)) s =
     (s\<lparr>deployState := (deployState s)\<lparr>ds_step := StepRegistering, ds_contract := Some addr\<rparr>\<rparr>,
      [Await (QRegister mid (registration chain owner addr)) (Registered mid chain owner addr)])"
| "evm_flow (Registered mid chain owner addr) (Resolved a) s =
     (s\<lparr>deployState := \<lparr>ds_step = StepDone, ds_error = None, ds_contract = Some addr, ds_owner = Some owner\<rparr>\<rparr>,
      [Emit (NotifySuccess (ch_label chain @ '' wallet deployed!'')
         (''Contract: '' @ slice addr 0 10 @ ''...'' @ slice_from addr (- 8))),
       Emit (RefreshPage mid), After 2000 CloseDialog])"
| "evm_flow k (Rejected e) s = deploy_failed e s"
| "evm_flow k a s = idle s"

(* src: ui-dashboard/src/pages/wallet-setup-page/wallet-setup-page.tsx 141-144 setDeployingChain *)
definition close_dialog :: "evm_panel \<Rightarrow> evm_panel" where
  "close_dialog s = s\<lparr>deployingChain := None, deployState := at_step StepIdle\<rparr>"

(* src: ui-dashboard/src/pages/wallet-setup-page/wallet-setup-page.tsx 170-185 onOk *)
fun evm_removed :: "string \<Rightarrow> (evm_answer, setup_error) reply \<Rightarrow> evm_panel \<Rightarrow> evm_outcome" where
  "evm_removed mid (Resolved a) s =
     (s\<lparr>isDeleting := None\<rparr>, [Emit (NotifySuccess ''Wallet removed'' []), Emit (RefreshPage mid)])"
| "evm_removed mid (Rejected e) s =
     (s\<lparr>isDeleting := None\<rparr>,
      [Emit (NotifyError ''Failed to remove'' (or_else (se_body_message e) ''Please try again''))])"

datatype evm_event =
    SelectedMerchant string
  | ClickDeploy evm_chain
  | CancelDialog
  | ClickRemove string
  | ConfirmRemove string string

(* src: ui-dashboard/src/pages/wallet-setup-page/wallet-setup-page.tsx 151-171 handleDelete *)
fun evm_on :: "evm_event \<Rightarrow> evm_panel \<Rightarrow> evm_outcome" where
  "evm_on (SelectedMerchant m) s = idle (s\<lparr>ep_merchantId := m\<rparr>)"
| "evm_on (ClickDeploy chain) s = handleDeploy chain s"
| "evm_on CancelDialog s = idle (close_dialog s)"
| "evm_on (ClickRemove chain) s = (s, [Emit (AskRemove (ep_merchantId s) chain)])"
| "evm_on (ConfirmRemove mid chain) s =
     (s\<lparr>isDeleting := Some chain\<rparr>, [Await (QRemove mid chain) (Removed mid)])"

fun evm_resume :: "evm_cont \<Rightarrow> (evm_answer, setup_error) reply \<Rightarrow> evm_panel \<Rightarrow> evm_outcome" where
  "evm_resume (Removed mid) a s = evm_removed mid a s"
| "evm_resume CloseDialog a s = idle s"
| "evm_resume k a s = evm_flow k a s"

fun evm_timer :: "evm_cont \<Rightarrow> evm_panel \<Rightarrow> evm_outcome" where
  "evm_timer CloseDialog s = idle (close_dialog s)"
| "evm_timer k s = idle s"

fun evm_fits :: "evm_request \<Rightarrow> (evm_answer, setup_error) reply \<Rightarrow> bool" where
  "evm_fits q (Rejected e) = True"
| "evm_fits QConnect (Resolved a) = (\<exists>owner. a = AOwner owner)"
| "evm_fits (QDeploy owner c) (Resolved a) = (\<exists>addr. a = AContract addr)"
| "evm_fits q (Resolved a) = (a = ADone)"

(* src: ui-dashboard/src/pages/wallet-setup-page/wallet-setup-page.tsx 93-101 EvmCollectorPanel *)
definition fresh_evm_panel :: "string \<Rightarrow> evm_panel" where
  "fresh_evm_panel mid = \<lparr>ep_merchantId = mid, deployingChain = None, deployState = at_step StepIdle,
     isDeleting = None\<rparr>"

definition evm_component where
  "evm_component = \<lparr>c_mount = (\<lambda>s. idle (fresh_evm_panel (ep_merchantId s))), c_event = evm_on, c_resume = evm_resume, c_timer = evm_timer,
     c_effect = (\<lambda>old s. idle s), c_fits = evm_fits\<rparr>"

definition evm_start :: "evm_panel \<Rightarrow> bool" where
  "evm_start s \<longleftrightarrow> (\<exists>mid. s = fresh_evm_panel mid)"

section \<open>What the panel shows\<close>

datatype evm_handler = HDeploy evm_chain | HRemove string | HCloseDialog

(* src: ui-dashboard/src/pages/wallet-setup-page/wallet-setup-page.tsx 103-104 getCollector *)
definition getCollector :: "evm_collector list \<Rightarrow> string \<Rightarrow> evm_collector option" where
  "getCollector cs chain = find_first (\<lambda>c. ec_blockchain c = chain) cs"

definition short_address :: "string \<Rightarrow> string" where
  "short_address a = slice a 0 10 @ ''...'' @ slice_from a (- 8)"

definition address_rows :: "evm_collector \<Rightarrow> 'h ui list" where
  "address_rows c =
     [leaf ''Text'' ''Contract'',
      El ''Tooltip'' [(''title'', contractAddress c)] []
        [El ''Text'' [(''copyable'', contractAddress c)] [] [Txt (short_address (contractAddress c))]],
      leaf ''Text'' ''Owner'',
      El ''Tooltip'' [(''title'', ownerAddress c)] [] [leaf ''Text'' (short_address (ownerAddress c))]]"

(* src: ui-dashboard/src/pages/wallet-setup-page/wallet-setup-page.tsx 237-320 chain *)
definition chain_card :: "bool \<Rightarrow> evm_collector list \<Rightarrow> evm_panel \<Rightarrow> evm_chain \<Rightarrow> evm_handler ui" where
  "chain_card metamask cs s chain =
     wrap ''Card''
       (leaf ''Text'' (ch_label chain)
        # (case getCollector cs (ch_value chain) of
             Some c \<Rightarrow>
               leaf ''Tag'' '' Active'' # address_rows c
               @ [El ''Button'' [(''loading'', bool_attr (isDeleting s = Some (ch_value chain)))]
                    [(''onClick'', HRemove (ch_value chain))] [Txt ''Remove'']]
           | None \<Rightarrow>
               [leaf ''Tag'' ''Not deployed'',
                El ''Button'' [(''disabled'', bool_attr (\<not> metamask))]
                  [(''onClick'', HDeploy chain)] [Txt ''Deploy with MetaMask'']]))"

(* src: ui-dashboard/src/pages/wallet-setup-page/wallet-setup-page.tsx 191-200 deployStepIndex *)
fun deployStepIndex :: "deploy_step \<Rightarrow> int" where
  "deployStepIndex StepIdle = - 1"
| "deployStepIndex StepConnecting = 0"
| "deployStepIndex StepSwitching = 1"
| "deployStepIndex StepDeploying = 2"
| "deployStepIndex StepRegistering = 3"
| "deployStepIndex StepDone = 3"
| "deployStepIndex StepError = - 1"

definition closes :: "deploy_step \<Rightarrow> bool" where
  "closes p \<longleftrightarrow> p = StepError \<or> p = StepDone"

(* src: ui-dashboard/src/pages/wallet-setup-page/wallet-setup-page.tsx 324-379 Modal *)
definition deploy_modal :: "evm_panel \<Rightarrow> evm_handler ui list" where
  "deploy_modal s =
     (let d = deployState s; p = ds_step d;
          label = template (case deployingChain s of None \<Rightarrow> None
            | Some v \<Rightarrow> map_option ch_label (find_first (\<lambda>c. ch_value c = v) EVM_CHAINS)) in
      when_ui (truthy (deployingChain s))
       [El ''Modal'' [(''title'', ''Deploying '' @ label @ '' Contract''), (''closable'', bool_attr (p = StepError))]
         [(''onCancel'', HCloseDialog)]
         (when_ui (closes p) [El ''Button'' [] [(''onClick'', HCloseDialog)] [Txt ''Close'']]
          @ when_ui (p \<noteq> StepError \<and> p \<noteq> StepIdle)
              [El ''Steps'' [(''current'', show_int (deployStepIndex p)),
                 (''status'', if p = StepDone then ''finish'' else ''process'')] []
                 (map Txt [''Connect Wallet'', ''Switch Network'', ''Deploy Contract'', ''Register''])]
          @ (if p = StepDone
             then leaf ''Text'' ''Deployed successfully!''
               # when_ui (truthy (ds_contract d)) [leaf ''Text'' (the (ds_contract d))]
             else if p = StepError
             then [leaf ''Text'' ''Deployment failed'', leaf ''Text'' (case ds_error d of None \<Rightarrow> [] | Some e \<Rightarrow> e)]
             else comp ''Spin'' [] # leaf ''Text'' (STEP_LABELS p)
               # when_ui (p = StepDeploying)
                   [leaf ''Text'' ''Please confirm the transaction in MetaMask and wait for it to be mined...'']))])"

(* src: ui-dashboard/src/pages/wallet-setup-page/wallet-setup-page.tsx 202-382 contextHolder *)
definition evm_panel_view :: "bool \<Rightarrow> evm_collector list \<Rightarrow> evm_panel \<Rightarrow> evm_handler ui list" where
  "evm_panel_view metamask cs s =
     El ''Alert'' [(''message'', ''Non-custodial Smart Contract Wallets'')] []
       [wrap ''ul''
         [wrap ''li'' [Txt ''Each EVM chain gets its own '', leaf ''strong'' ''MerchantCollector'',
            Txt ('' contract deployed directly from your MetaMask '' @ em_dash @ '' no factory required.'')],
          wrap ''li'' [Txt ''Customers pay to the contract address. You call '', leaf ''strong'' ''withdrawAll()'',
            Txt '' to sweep all funds to your wallet.''],
          wrap ''li'' [Txt ''CryptoLink has '', leaf ''strong'' ''zero admin access'',
            Txt ('' '' @ em_dash @ '' only your wallet (the owner) can withdraw.'')],
          wrap ''li'' [Txt ''Click '', leaf ''strong'' ''\"Deploy with MetaMask\"'',
            Txt ('' and follow the prompts '' @ em_dash @ '' the entire process is automated.'')]]]
     # when_ui (\<not> metamask)
         [El ''Alert'' [(''message'', ''MetaMask not detected''),
            (''description'', ''Install MetaMask or another EIP-1193 compatible browser wallet to deploy smart contract wallets.'')]
            [] [El ''Button'' [(''href'', ''https://metamask.io/download/'')] [] [Txt ''Install MetaMask'']]]
     @ map (chain_card metamask cs s) EVM_CHAINS
     @ deploy_modal s"

section \<open>Lemmas\<close>

lemma evm_component_simps [simp]:
  "c_mount evm_component = (\<lambda>s. idle (fresh_evm_panel (ep_merchantId s)))"
  "c_event evm_component = evm_on" "c_resume evm_component = evm_resume"
  "c_timer evm_component = evm_timer" "c_effect evm_component = (\<lambda>old s. idle s)"
  "c_fits evm_component = evm_fits"
  by (simp_all add: evm_component_def)

text \<open>The request that each continuation waits for, and what it carries.\<close>

fun evm_request_ok :: "evm_request \<Rightarrow> evm_cont \<Rightarrow> bool" where
  "evm_request_ok QConnect (Connected m c) = True"
| "evm_request_ok (QSwitch c) (Switched m c' owner) = (c = c')"
| "evm_request_ok (QDeploy owner c) (DeployedAt m c' owner') = (c = c' \<and> owner = owner')"
| "evm_request_ok (QRegister m d) (Registered m' c owner addr) = (m = m' \<and> d = registration c owner addr)"
| "evm_request_ok (QRemove m c) (Removed m') = (m = m')"
| "evm_request_ok q k = False"

abbreviation "evm_ok \<equiv> ok_outcome (\<lambda>s. True) evm_request_ok (\<lambda>k. k = CloseDialog) (\<lambda>e. True)"

lemma evm_flow_ok: "evm_ok (evm_flow k a s)"
  by (induction k a s rule: evm_flow.induct) (auto simp: deploy_failed_def idle_def)

lemma evm_removed_ok: "evm_ok (evm_removed m a s)"
  by (induction m a s rule: evm_removed.induct) auto

lemma evm_resume_ok: "evm_ok (evm_resume k a s)"
  by (cases k) (auto simp: evm_flow_ok evm_removed_ok idle_def simp del: evm_flow.simps)

lemma evm_on_ok: "evm_ok (evm_on v s)"
  by (cases v) (auto simp: idle_def handleDeploy_def)

lemma evm_timer_ok: "evm_ok (evm_timer k s)"
  by (cases k) (auto simp: idle_def)

interpretation ep: safe_component evm_component "\<lambda>s. True" evm_request_ok "\<lambda>k. k = CloseDialog" "\<lambda>e. True"
  by unfold_locales (auto simp: idle_def evm_on_ok evm_resume_ok evm_timer_ok simp del: evm_on.simps)

text \<open>While the dialog cannot be closed by the user: the flow's next answer, or the timer, moves it on.\<close>

definition working :: "evm_panel \<Rightarrow> bool" where
  "working s \<longleftrightarrow> ds_step (deployState s) \<notin> {StepIdle, StepError}"

fun flow_cont :: "evm_cont \<Rightarrow> bool" where
  "flow_cont (Removed m) = False"
| "flow_cont CloseDialog = False"
| "flow_cont k = True"

lemma flow_wakes:
  assumes "evm_request_ok q k" "evm_fits q a" "flow_cont k"
  shows "wakes flow_cont (\<lambda>k. k = CloseDialog) (snd (evm_resume k a s))
    \<or> ds_step (deployState (fst (evm_resume k a s))) = StepError"
proof (cases a)
  case (Rejected e)
  with assms(3) show ?thesis by (cases k) (auto simp: deploy_failed_def at_step_def)
next
  case (Resolved x)
  with assms show ?thesis by (cases k; cases q) (auto simp: wakes_def)
qed

lemma removed_step: "deployState (fst (evm_removed m a s)) = deployState s"
  by (induction m a s rule: evm_removed.induct) auto

interpretation epl: live_component evm_component "\<lambda>s. True" evm_request_ok "\<lambda>k. k = CloseDialog" "\<lambda>e. True"
    working flow_cont "\<lambda>k. k = CloseDialog"
proof unfold_locales
  fix s s' cs
  assume "c_mount evm_component s = (s', cs)" "working s'"
  then show "wakes flow_cont (\<lambda>k. k = CloseDialog) cs"
    by (auto simp: idle_def working_def fresh_evm_panel_def at_step_def)
next
  fix s v s' cs
  assume "andThen (c_event evm_component v s) (c_effect evm_component s) = (s', cs)" "working s'"
  then show "wakes flow_cont (\<lambda>k. k = CloseDialog) cs \<or> working s"
    by (cases v) (auto simp: idle_def handleDeploy_def working_def close_dialog_def at_step_def wakes_def)
next
  fix s q k a s' cs
  assume a: "evm_request_ok q k" "c_fits evm_component q a"
    "andThen (c_resume evm_component k a s) (c_effect evm_component s) = (s', cs)" "working s'"
  then have o: "s' = fst (evm_resume k a s)" "cs = snd (evm_resume k a s)"
    by (auto simp: andThen_def idle_def split: prod.splits)
  show "wakes flow_cont (\<lambda>k. k = CloseDialog) cs \<or> (working s \<and> \<not> flow_cont k)"
  proof (cases "flow_cont k")
    case True
    then show ?thesis using flow_wakes [of q k a s] a o by (auto simp: working_def)
  next
    case False
    then show ?thesis using a(4) o by (cases k) (auto simp: working_def removed_step idle_def)
  qed
next
  fix s k s' cs
  assume "k = CloseDialog" "andThen (c_timer evm_component k s) (c_effect evm_component s) = (s', cs)"
    "working s'"
  then show "wakes flow_cont (\<lambda>k. k = CloseDialog) cs \<or> (working s \<and> \<not> k = CloseDialog)"
    by (auto simp: idle_def close_dialog_def working_def at_step_def)
qed

text \<open>What a request of a deployment comes from: the click, for the merchant who was selected then, and each answer
  of the flow since, the newest first.\<close>

type_synonym evm_history = "(evm_panel, evm_request, evm_cont, (evm_answer, setup_error) reply, evm_event) history"

fun evm_known :: "evm_history \<Rightarrow> evm_request \<Rightarrow> evm_cont \<Rightarrow> bool" where
  "evm_known h q (Connected mid c) \<longleftrightarrow> q = QConnect \<and> (\<exists>s. ep_merchantId s = mid \<and> subseq [Acted s (ClickDeploy c)] h)"
| "evm_known h q (Switched mid c owner) \<longleftrightarrow> q = QSwitch c
     \<and> (\<exists>s. ep_merchantId s = mid \<and> subseq
          [Answered QConnect (Connected mid c) (Resolved (AOwner owner)), Acted s (ClickDeploy c)] h)"
| "evm_known h q (DeployedAt mid c owner) \<longleftrightarrow> q = QDeploy owner c
     \<and> (\<exists>s. ep_merchantId s = mid \<and> subseq
          [Answered (QSwitch c) (Switched mid c owner) (Resolved ADone),
           Answered QConnect (Connected mid c) (Resolved (AOwner owner)), Acted s (ClickDeploy c)] h)"
| "evm_known h q (Registered mid c owner addr) \<longleftrightarrow> q = QRegister mid (registration c owner addr)
     \<and> (\<exists>s. ep_merchantId s = mid \<and> subseq
          [Answered (QDeploy owner c) (DeployedAt mid c owner) (Resolved (AContract addr)),
           Answered (QSwitch c) (Switched mid c owner) (Resolved ADone),
           Answered QConnect (Connected mid c) (Resolved (AOwner owner)), Acted s (ClickDeploy c)] h)"
| "evm_known h q (Removed mid) \<longleftrightarrow> (\<exists>c. q = QRemove mid c)"
| "evm_known h q CloseDialog \<longleftrightarrow> False"

lemma evm_known_later: "evm_known h q k \<Longrightarrow> evm_known (x # h) q k"
  by (cases k; simp only: evm_known.simps; blast intro: subseq_later)

lemma evm_resume_known:
  assumes "evm_known h q k" and "evm_fits q a" and "h' = Answered q k a # h"
  shows "ok_outcome (\<lambda>s. True) (evm_known h') (\<lambda>k. True) (\<lambda>e. True) (evm_resume k a s)"
proof (cases a)
  case (Rejected e)
  then show ?thesis by (cases k) (auto simp: deploy_failed_def idle_def)
next
  case (Resolved x)
  with assms show ?thesis by (cases k; cases x) (auto simp: idle_def)
qed

interpretation ept: traced_component evm_component evm_start "\<lambda>h s. True" evm_known "\<lambda>h k. True" "\<lambda>h e. True"
proof unfold_locales
  fix h h' :: evm_history and s v
  assume "h' = Acted s v # h"
  then show "ok_outcome (\<lambda>s. True) (evm_known h') (\<lambda>k. True) (\<lambda>e. True) (c_event evm_component v s)"
    by (cases v) (auto simp: handleDeploy_def idle_def)
next
  fix h h' :: evm_history and s k
  show "ok_outcome (\<lambda>s. True) (evm_known h') (\<lambda>k. True) (\<lambda>e. True) (c_timer evm_component k s)"
    by (cases k) (auto simp: idle_def)
qed (auto simp: idle_def evm_known_later evm_resume_known)

section \<open>Properties\<close>

text \<open>C7. What is registered is what was deployed: in every run, a request that registers a contract for a merchant
  goes back to a click on a chain's button while that merchant was selected, after which the wallet gave an
  account, the chain was switched, and the contract deployed in the name of that account came back with an
  address, in this order. The registration names that chain with its number, that account as the owner, that
  address as the contract and no factory, however many deployments run at the same time and whatever the
  dialog shows.\<close>

theorem registration_follows_deploy:
  assumes "arun evm_component evm_start h w" and "(QRegister mid d, k) \<in> set (pending w)"
  shows "\<exists>s c owner addr. ep_merchantId s = mid \<and> subseq
       [Answered (QDeploy owner c) (DeployedAt mid c owner) (Resolved (AContract addr)),
        Answered (QSwitch c) (Switched mid c owner) (Resolved ADone),
        Answered QConnect (Connected mid c) (Resolved (AOwner owner)), Acted s (ClickDeploy c)] h
    \<and> sc_blockchain d = ch_value c \<and> sc_chainId d = ch_chainId c \<and> sc_ownerAddress d = owner
    \<and> sc_contractAddress d = addr \<and> sc_factoryAddress d = []"
proof -
  have "evm_known h (QRegister mid d) k" using ept.traced(2) [OF assms] .
  then show ?thesis by (cases k) (auto simp: registration_def)
qed

text \<open>A run of one deployment up to the registration, with its worlds.\<close>

definition sample_deploy_worlds :: "evm_chain \<Rightarrow> (evm_panel, evm_request, evm_cont, evm_effect) world list" where
  "sample_deploy_worlds c =
     (let w0 = initial evm_component (fresh_evm_panel ''m1'');
          w1 = do_event evm_component (ClickDeploy c) w0;
          w2 = do_reply evm_component 0 (Resolved (AOwner ''0xo'')) w1;
          w3 = do_reply evm_component 0 (Resolved ADone) w2;
          w4 = do_reply evm_component 0 (Resolved (AContract ''0xc'')) w3
      in [w0, w1, w2, w3, w4])"

lemma sample_deploy_pending:
  "map pending (sample_deploy_worlds c) =
     [[], [(QConnect, Connected ''m1'' c)], [(QSwitch c, Switched ''m1'' c ''0xo'')],
      [(QDeploy ''0xo'' c, DeployedAt ''m1'' c ''0xo'')],
      [(QRegister ''m1'' (registration c ''0xo'' ''0xc''), Registered ''m1'' c ''0xo'' ''0xc'')]]"
  by (simp add: sample_deploy_worlds_def initial_def idle_def do_event_def do_reply_def commit_def
      handleDeploy_def drop_nth_def fresh_evm_panel_def Let_def)

lemma sample_deploy_reach: "list_all (areach evm_component evm_start) (sample_deploy_worlds c)"
proof -
  let ?c = evm_component
  let ?w0 = "initial ?c (fresh_evm_panel ''m1'')"
  let ?w1 = "do_event ?c (ClickDeploy c) ?w0"
  let ?w2 = "do_reply ?c 0 (Resolved (AOwner ''0xo'')) ?w1"
  let ?w3 = "do_reply ?c 0 (Resolved ADone) ?w2"
  let ?w4 = "do_reply ?c 0 (Resolved (AContract ''0xc'')) ?w3"
  note p = sample_deploy_pending [of c, unfolded sample_deploy_worlds_def Let_def, simplified]
  have 0: "areach ?c evm_start ?w0" by (rule areach.start) (auto simp: evm_start_def)
  have 1: "areach ?c evm_start ?w1" by (rule areach.step [OF 0 astep.event])
  have 2: "areach ?c evm_start ?w2" by (rule areach.step [OF 1 astep.reply]) (simp_all add: p)
  have 3: "areach ?c evm_start ?w3" by (rule areach.step [OF 2 astep.reply]) (simp_all add: p)
  have 4: "areach ?c evm_start ?w4" by (rule areach.step [OF 3 astep.reply]) (simp_all add: p)
  show ?thesis using 0 1 2 3 4 by (simp add: sample_deploy_worlds_def Let_def)
qed

theorem registration_follows_deploy_witness:
  "\<exists>h w d k s c. arun evm_component evm_start h w \<and> (QRegister ''m1'' d, k) \<in> set (pending w)
     \<and> Acted s (ClickDeploy c) \<in> set h \<and> ep_merchantId s = ''m1'' \<and> sc_chainId d = ch_chainId c \<and> ch_chainId c = 1
     \<and> sc_ownerAddress d = ''0xo'' \<and> sc_contractAddress d = ''0xc''"
proof -
  let ?c = "hd EVM_CHAINS"
  let ?d = "registration ?c ''0xo'' ''0xc''"
  have "areach evm_component evm_start (sample_deploy_worlds ?c ! 4)"
    using sample_deploy_reach [of ?c] by (simp add: sample_deploy_worlds_def Let_def)
  then obtain h where r: "arun evm_component evm_start h (sample_deploy_worlds ?c ! 4)" using areach_arun by blast
  have "map pending (sample_deploy_worlds ?c) ! 4 = [(QRegister ''m1'' ?d, Registered ''m1'' ?c ''0xo'' ''0xc'')]"
    by (simp add: sample_deploy_pending)
  then have p: "(QRegister ''m1'' ?d, Registered ''m1'' ?c ''0xo'' ''0xc'') \<in> set (pending (sample_deploy_worlds ?c ! 4))"
    by (simp add: sample_deploy_worlds_def Let_def)
  have d: "sc_chainId ?d = 1" "sc_ownerAddress ?d = ''0xo''" "sc_contractAddress ?d = ''0xc''"
    by (simp_all add: registration_def EVM_CHAINS_def evm_chain_of_def)
  from registration_follows_deploy [OF r p] obtain s c owner addr where s: "ep_merchantId s = ''m1''" "sc_chainId ?d = ch_chainId c"
    and sub: "subseq [Answered (QDeploy owner c) (DeployedAt ''m1'' c owner) (Resolved (AContract addr)),
        Answered (QSwitch c) (Switched ''m1'' c owner) (Resolved ADone),
        Answered QConnect (Connected ''m1'' c) (Resolved (AOwner owner)), Acted s (ClickDeploy c)] h"
    by blast
  have "Acted s (ClickDeploy c) \<in> set h" by (rule subseq_happened [OF sub]) simp
  note s = s this
  show ?thesis
    by (intro exI [of _ h] exI [of _ "sample_deploy_worlds ?c ! 4"] exI [of _ ?d] exI [of _ s] exI [of _ c] exI)
      (use r p d s in auto)
qed

text \<open>The dialog of a deployment is never stuck: in every run, while it shows a step that the user
  cannot close, a request of a deployment is under way that will move it on, or the timer is set that
  closes it.\<close>

lemma deploy_dialog_ends:
  assumes "areach evm_component evm_start w"
    and "ds_step (deployState (wst w)) \<notin> {StepIdle, StepError}"
  shows "(\<exists>(q, k) \<in> set (pending w). flow_cont k) \<or> (\<exists>(t, k) \<in> set (timers w). k = CloseDialog)"
  using epl.reachable_awake [OF assms(1)] assms(2) by (auto simp: awake_def working_def)

text \<open>A deployment can lose its dialog to another: when the timer of a finished deployment fires
  while another one runs, the dialog closes and its step is reset, although that deployment goes on.\<close>

lemma dialog_closed_early:
  assumes "i < length (timers w)" and "snd (timers w ! i) = CloseDialog"
  shows "deployingChain (wst (do_timer evm_component i w)) = None
    \<and> ds_step (deployState (wst (do_timer evm_component i w))) = StepIdle
    \<and> pending (do_timer evm_component i w) = pending w"
  using assms by (simp add: do_timer_def commit_def idle_def close_dialog_def at_step_def)

lemma deploy_dialog_ends_example:
  "\<exists>w :: (evm_panel, evm_request, evm_cont, evm_effect) world.
     ds_step (deployState (wst w)) = StepConnecting
     \<and> ((\<exists>(q, k) \<in> set (pending w). flow_cont k) \<or> (\<exists>(t, k) \<in> set (timers w). k = CloseDialog))"
proof -
  let ?w = "do_event evm_component (ClickDeploy (hd EVM_CHAINS)) (initial evm_component (fresh_evm_panel ''m1''))"
  have r: "areach evm_component evm_start ?w"
    by (intro areach.step [OF _ astep.event] areach.start) (auto simp: evm_start_def)
  have s: "ds_step (deployState (wst ?w)) = StepConnecting"
    by (simp add: do_event_def commit_def handleDeploy_def idle_def at_step_def)
  then have "ds_step (deployState (wst ?w)) \<notin> {StepIdle, StepError}" by simp
  from deploy_dialog_ends [OF r this] s show ?thesis by blast
qed

lemma dialog_closed_early_example:
  "deployingChain (wst (do_timer evm_component 0
     \<lparr>wst = (fresh_evm_panel ''m1'')\<lparr>deployingChain := Some ''BSC'', deployState := at_step StepDeploying\<rparr>,
      pending = [], timers = [(2000, CloseDialog)], trace = []\<rparr>)) = None"
  using dialog_closed_early [of 0 "\<lparr>wst = (fresh_evm_panel ''m1'')\<lparr>deployingChain := Some ''BSC'',
    deployState := at_step StepDeploying\<rparr>, pending = [], timers = [(2000, CloseDialog)], trace = []\<rparr>"]
  by simp

end
