(* ===== verification/Wallet_Tron.thy ===== *)
theory Wallet_Tron
  imports Wallet_Deploy
begin

text \<open>
  The TRON panel of the wallet setup page (TronCollectorPanel of
  ui-dashboard/src/pages/wallet-setup-page/wallet-setup-page.tsx): connect TronLink, ask the server
  for the factory, deploy a clone, register it. The conventions are those of Wallet_Deploy.
\<close>

section \<open>State and flow\<close>

text \<open>The steps are those of the EVM panel without the switch of the network.\<close>

(* src: ui-dashboard/src/pages/wallet-setup-page/wallet-setup-page.tsx 388-397 TRON_STEP_LABELS *)
fun TRON_STEP_LABELS :: "deploy_step \<Rightarrow> string" where
  "TRON_STEP_LABELS StepConnecting = ''Connecting to TronLink...''"
| "TRON_STEP_LABELS StepDeploying = ''Deploying contract on TRON...''"
| "TRON_STEP_LABELS StepRegistering = ''Registering with CryptoLink...''"
| "TRON_STEP_LABELS StepDone = ''Done!''"
| "TRON_STEP_LABELS StepError = ''Failed''"
| "TRON_STEP_LABELS p = []"

(* src: ui-dashboard/src/pages/wallet-setup-page/wallet-setup-page.tsx 399-407 TronCollectorPanel *)
record tron_panel =
  tp_merchantId :: string
  tp_deploying :: bool
  tp_state :: deploy_state
  tp_isDeleting :: bool

datatype tron_request =
    TConnect
  | TFactory string string
  | TClone string string
  | TRegister string setup_collector
  | TRemove string string

datatype tron_cont =
    TConnected string
  | TGotFactory string string
  | TCloned string string string
  | TRegistered string string
  | TRemoved string
  | TClose

datatype tron_answer = TOwner string | TFactoryAt string | TContract string | TVoid

type_synonym tron_outcome = "(tron_panel, tron_request, tron_cont, evm_effect) outcome"

(* src: ui-dashboard/src/pages/wallet-setup-page/wallet-setup-page.tsx 427-433 ownerAddress *)
definition tron_registration :: "string \<Rightarrow> string \<Rightarrow> string \<Rightarrow> setup_collector" where
  "tron_registration owner factory addr = \<lparr>sc_blockchain = ''TRON'', sc_ownerAddress = owner,
     sc_contractAddress = addr, sc_chainId = 728126428, sc_factoryAddress = factory\<rparr>"

(* src: ui-dashboard/src/pages/wallet-setup-page/wallet-setup-page.tsx 442-449 catch *)
definition tron_failed :: "setup_error \<Rightarrow> tron_panel \<Rightarrow> tron_outcome" where
  "tron_failed e s =
     (let msg = or_else (Some (se_message e)) ''Deployment failed. Please try again.'';
          shown = (if str_includes msg ''not found'' \<or> str_includes msg ''404''
                   then ''TRON factory not deployed yet. Please contact the administrator.'' else msg)
      in (s\<lparr>tp_state := (at_step StepError)\<lparr>ds_error := Some shown\<rparr>\<rparr>, []))"

(* src: ui-dashboard/src/pages/wallet-setup-page/wallet-setup-page.tsx 411-416 handleDeploy *)
definition tron_handleDeploy :: "tron_panel \<Rightarrow> tron_outcome" where
  "tron_handleDeploy s =
     (s\<lparr>tp_deploying := True, tp_state := at_step StepConnecting\<rparr>,
      [Await TConnect (TConnected (tp_merchantId s))])"

(* src: ui-dashboard/src/pages/wallet-setup-page/wallet-setup-page.tsx 416-450 deployTronCloneViaFactory *)
fun tron_flow :: "tron_cont \<Rightarrow> (tron_answer, setup_error) reply \<Rightarrow> tron_panel \<Rightarrow> tron_outcome" where
  "tron_flow (TConnected mid) (Resolved (TOwner owner)) s =
     (s, [Await (TFactory mid ''TRON'') (TGotFactory mid owner)])"
| "tron_flow (TGotFactory mid owner) (Resolved (TFactoryAt f)) s =
     (s\<lparr>tp_state := at_step StepDeploying\<rparr>, [Await (TClone f owner) (TCloned mid owner f)])"
| "tron_flow (TCloned mid owner f) (Resolved (TContract addr)) s =
     (s\<lparr>tp_state := at_step StepRegistering\<rparr>,
      [Await (TRegister mid (tron_registration owner f addr)) (TRegistered mid addr)])"
| "tron_flow (TRegistered mid addr) (Resolved a) s =
     (s\<lparr>tp_state := (at_step StepDone)\<lparr>ds_contract := Some addr\<rparr>\<rparr>,
      [Emit (RefreshPage mid), After 2000 TClose])"
| "tron_flow k (Rejected e) s = tron_failed e s"
| "tron_flow k a s = idle s"

(* src: ui-dashboard/src/pages/wallet-setup-page/wallet-setup-page.tsx 438-441 setDeploying *)
definition tron_close :: "tron_panel \<Rightarrow> tron_panel" where
  "tron_close s = s\<lparr>tp_deploying := False, tp_state := at_step StepIdle\<rparr>"

(* src: ui-dashboard/src/pages/wallet-setup-page/wallet-setup-page.tsx 468-478 onOk *)
fun tron_removed :: "string \<Rightarrow> (tron_answer, setup_error) reply \<Rightarrow> tron_panel \<Rightarrow> tron_outcome" where
  "tron_removed mid (Resolved a) s =
     (s\<lparr>tp_isDeleting := False\<rparr>, [Emit (NotifySuccess ''TRON collector removed'' []), Emit (RefreshPage mid)])"
| "tron_removed mid (Rejected e) s =
     (s\<lparr>tp_isDeleting := False\<rparr>,
      [Emit (NotifyError ''Failed to remove'' (or_else (se_body_message e) ''Please try again''))])"

datatype tron_event =
    TSelectedMerchant string
  | TClickDeploy
  | TCancelDialog
  | TClickRemove
  | TConfirmRemove string

(* src: ui-dashboard/src/pages/wallet-setup-page/wallet-setup-page.tsx 452-469 handleDelete *)
fun tron_on :: "tron_event \<Rightarrow> tron_panel \<Rightarrow> tron_outcome" where
  "tron_on (TSelectedMerchant m) s = idle (s\<lparr>tp_merchantId := m\<rparr>)"
| "tron_on TClickDeploy s = tron_handleDeploy s"
| "tron_on TCancelDialog s = idle (tron_close s)"
| "tron_on TClickRemove s = (s, [Emit (AskRemove (tp_merchantId s) ''TRON'')])"
| "tron_on (TConfirmRemove mid) s =
     (s\<lparr>tp_isDeleting := True\<rparr>, [Await (TRemove mid ''TRON'') (TRemoved mid)])"

fun tron_resume :: "tron_cont \<Rightarrow> (tron_answer, setup_error) reply \<Rightarrow> tron_panel \<Rightarrow> tron_outcome" where
  "tron_resume (TRemoved mid) a s = tron_removed mid a s"
| "tron_resume TClose a s = idle s"
| "tron_resume k a s = tron_flow k a s"

fun tron_timer :: "tron_cont \<Rightarrow> tron_panel \<Rightarrow> tron_outcome" where
  "tron_timer TClose s = idle (tron_close s)"
| "tron_timer k s = idle s"

fun tron_fits :: "tron_request \<Rightarrow> (tron_answer, setup_error) reply \<Rightarrow> bool" where
  "tron_fits q (Rejected e) = True"
| "tron_fits TConnect (Resolved a) = (\<exists>owner. a = TOwner owner)"
| "tron_fits (TFactory m b) (Resolved a) = (\<exists>f. a = TFactoryAt f)"
| "tron_fits (TClone f owner) (Resolved a) = (\<exists>addr. a = TContract addr)"
| "tron_fits q (Resolved a) = (a = TVoid)"

definition fresh_tron_panel :: "string \<Rightarrow> tron_panel" where
  "fresh_tron_panel mid = \<lparr>tp_merchantId = mid, tp_deploying = False, tp_state = at_step StepIdle,
     tp_isDeleting = False\<rparr>"

definition tron_component where
  "tron_component = \<lparr>c_mount = (\<lambda>s. idle (fresh_tron_panel (tp_merchantId s))), c_event = tron_on,
     c_resume = tron_resume, c_timer = tron_timer, c_effect = (\<lambda>old s. idle s), c_fits = tron_fits\<rparr>"

definition tron_start :: "tron_panel \<Rightarrow> bool" where
  "tron_start s \<longleftrightarrow> (\<exists>mid. s = fresh_tron_panel mid)"

section \<open>What the panel shows\<close>

datatype tron_handler = HTronDeploy | HTronRemove | HTronClose

(* src: ui-dashboard/src/pages/wallet-setup-page/wallet-setup-page.tsx 483-491 deployStepIndex *)
fun tron_step_index :: "deploy_step \<Rightarrow> int" where
  "tron_step_index StepConnecting = 0"
| "tron_step_index StepDeploying = 1"
| "tron_step_index StepRegistering = 2"
| "tron_step_index StepDone = 2"
| "tron_step_index p = - 1"

(* src: ui-dashboard/src/pages/wallet-setup-page/wallet-setup-page.tsx 607-663 Modal *)
definition tron_modal :: "tron_panel \<Rightarrow> tron_handler ui list" where
  "tron_modal s =
     (let d = tp_state s; p = ds_step d in
      when_ui (tp_deploying s)
       [El ''Modal'' [(''title'', ''Deploying TRON Collector Contract''), (''closable'', bool_attr (p = StepError))]
         [(''onCancel'', HTronClose)]
         (when_ui (closes p) [El ''Button'' [] [(''onClick'', HTronClose)] [Txt ''Close'']]
          @ when_ui (p \<noteq> StepError \<and> p \<noteq> StepIdle)
              [El ''Steps'' [(''current'', show_int (tron_step_index p)),
                 (''status'', if p = StepDone then ''finish'' else ''process'')] []
                 (map Txt [''Connect TronLink'', ''Deploy Contract'', ''Register''])]
          @ (if p = StepDone
             then leaf ''Text'' ''Deployed successfully!''
               # when_ui (truthy (ds_contract d)) [leaf ''Text'' (the (ds_contract d))]
             else if p = StepError
             then [leaf ''Text'' ''Deployment failed'', leaf ''Text'' (case ds_error d of None \<Rightarrow> [] | Some e \<Rightarrow> e)]
             else comp ''Spin'' [] # leaf ''Text'' (TRON_STEP_LABELS p)
               # when_ui (p = StepDeploying)
                   [leaf ''Text'' (''Please confirm the transaction in TronLink and wait for it to be confirmed on-chain... ''
                      @ ''This may take up to 90 seconds.'')]))])"

(* src: ui-dashboard/src/pages/wallet-setup-page/wallet-setup-page.tsx 548-604 tronCollector *)
definition tron_card :: "bool \<Rightarrow> evm_collector list \<Rightarrow> tron_panel \<Rightarrow> tron_handler ui" where
  "tron_card tronlink cs s =
     (case getCollector cs ''TRON'' of
        Some c \<Rightarrow> wrap ''Card''
          (leaf ''Tag'' '' Active'' # leaf ''Text'' ''TRON'' # address_rows c
           @ [El ''Button'' [(''loading'', bool_attr (tp_isDeleting s))] [(''onClick'', HTronRemove)] [Txt ''Remove'']])
      | None \<Rightarrow> El ''Button'' [(''disabled'', bool_attr (\<not> tronlink))] [(''onClick'', HTronDeploy)]
          [Txt ''Deploy with TronLink''])"

(* src: ui-dashboard/src/pages/wallet-setup-page/wallet-setup-page.tsx 493-665 TRON *)
definition tron_panel_view :: "bool \<Rightarrow> evm_collector list \<Rightarrow> tron_panel \<Rightarrow> tron_handler ui list" where
  "tron_panel_view tronlink cs s =
     [leaf ''Title'' ''TRON (TRX & TRC-20 Tokens)'',
      El ''Alert'' [(''message'', ''Non-custodial TRON Smart Contract'')] []
       [wrap ''ul''
         [wrap ''li'' [Txt ''Deploys the same '', leaf ''strong'' ''MerchantCollector'',
            Txt ('' contract on TRON via TronLink '' @ em_dash @ '' customers pay to the contract address.'')],
          wrap ''li'' [Txt ''You call '', leaf ''strong'' ''withdrawAll()'',
            Txt '' from the Balances page to sweep all TRX & TRC-20 tokens to your wallet.''],
          wrap ''li'' [Txt ''CryptoLink has '', leaf ''strong'' ''zero admin access'',
            Txt ('' '' @ em_dash @ '' only your TronLink wallet (the owner) can withdraw.'')],
          wrap ''li'' [Txt ''Click '', leaf ''strong'' ''\"Deploy with TronLink\"'',
            Txt '' and confirm the transaction in the TronLink popup.'']]]]
     @ when_ui (\<not> tronlink)
         [El ''Alert'' [(''message'', ''TronLink not detected''),
            (''description'', ''Install the TronLink browser extension to deploy a TRON smart contract wallet.'')]
            [] [El ''Button'' [(''href'', ''https://www.tronlink.org/'')] [] [Txt ''Install TronLink'']]]
     @ [comp ''Alert'' [(''message'', ''Disable other TRON wallets''),
          (''description'', ''If you have Atomic Wallet or other TRON browser extensions, disable them in ''
             @ ''chrome://extensions before deploying. Only TronLink should be active.'')],
        tron_card tronlink cs s]
     @ tron_modal s"

section \<open>Lemmas\<close>

lemma tron_component_simps [simp]:
  "c_mount tron_component = (\<lambda>s. idle (fresh_tron_panel (tp_merchantId s)))"
  "c_event tron_component = tron_on" "c_resume tron_component = tron_resume"
  "c_timer tron_component = tron_timer" "c_effect tron_component = (\<lambda>old s. idle s)"
  "c_fits tron_component = tron_fits"
  by (simp_all add: tron_component_def)

fun tron_request_ok :: "tron_request \<Rightarrow> tron_cont \<Rightarrow> bool" where
  "tron_request_ok TConnect (TConnected m) = True"
| "tron_request_ok (TFactory m b) (TGotFactory m' owner) = (m = m' \<and> b = ''TRON'')"
| "tron_request_ok (TClone f owner) (TCloned m owner' f') = (owner = owner' \<and> f = f')"
| "tron_request_ok (TRegister m d) (TRegistered m' addr) =
     (m = m' \<and> (\<exists>owner f. d = tron_registration owner f addr))"
| "tron_request_ok (TRemove m b) (TRemoved m') = (m = m' \<and> b = ''TRON'')"
| "tron_request_ok q k = False"

abbreviation "tron_ok \<equiv> ok_outcome (\<lambda>s. True) tron_request_ok (\<lambda>k. k = TClose) (\<lambda>e. True)"

lemma tron_flow_ok: "tron_ok (tron_flow k a s)"
  by (induction k a s rule: tron_flow.induct) (auto simp: tron_failed_def Let_def idle_def)

lemma tron_resume_ok: "tron_ok (tron_resume k a s)"
proof (cases k)
  case (TRemoved m)
  then show ?thesis by (cases a) auto
qed (auto simp: tron_flow_ok idle_def simp del: tron_flow.simps)

lemma tron_on_ok: "tron_ok (tron_on v s)"
  by (cases v) (auto simp: idle_def tron_handleDeploy_def)

lemma tron_timer_ok: "tron_ok (tron_timer k s)"
  by (cases k) (auto simp: idle_def)

interpretation tp: safe_component tron_component "\<lambda>s. True" tron_request_ok "\<lambda>k. k = TClose" "\<lambda>e. True"
  by unfold_locales (auto simp: idle_def tron_on_ok tron_resume_ok tron_timer_ok simp del: tron_on.simps)

lemma tron_reachable_ok:
  "areach tron_component tron_start w \<Longrightarrow>
     ok_world (\<lambda>s. True) tron_request_ok (\<lambda>k. k = TClose) (\<lambda>e. True) w"
  by (erule tp.reachable_ok) simp

text \<open>What a request of a deployment comes from, as in Wallet_Deploy.\<close>

type_synonym tron_history = "(tron_panel, tron_request, tron_cont, (tron_answer, setup_error) reply, tron_event) history"

fun tron_known :: "tron_history \<Rightarrow> tron_request \<Rightarrow> tron_cont \<Rightarrow> bool" where
  "tron_known h q (TConnected mid) \<longleftrightarrow> q = TConnect \<and> (\<exists>s. tp_merchantId s = mid \<and> subseq [Acted s TClickDeploy] h)"
| "tron_known h q (TGotFactory mid owner) \<longleftrightarrow> q = TFactory mid ''TRON''
     \<and> (\<exists>s. tp_merchantId s = mid \<and> subseq
          [Answered TConnect (TConnected mid) (Resolved (TOwner owner)), Acted s TClickDeploy] h)"
| "tron_known h q (TCloned mid owner f) \<longleftrightarrow> q = TClone f owner
     \<and> (\<exists>s. tp_merchantId s = mid \<and> subseq
          [Answered (TFactory mid ''TRON'') (TGotFactory mid owner) (Resolved (TFactoryAt f)),
           Answered TConnect (TConnected mid) (Resolved (TOwner owner)), Acted s TClickDeploy] h)"
| "tron_known h q (TRegistered mid addr) \<longleftrightarrow> (\<exists>owner f. q = TRegister mid (tron_registration owner f addr)
     \<and> (\<exists>s. tp_merchantId s = mid \<and> subseq
          [Answered (TClone f owner) (TCloned mid owner f) (Resolved (TContract addr)),
           Answered (TFactory mid ''TRON'') (TGotFactory mid owner) (Resolved (TFactoryAt f)),
           Answered TConnect (TConnected mid) (Resolved (TOwner owner)), Acted s TClickDeploy] h))"
| "tron_known h q (TRemoved mid) \<longleftrightarrow> q = TRemove mid ''TRON''"
| "tron_known h q TClose \<longleftrightarrow> False"

lemma tron_known_later: "tron_known h q k \<Longrightarrow> tron_known (x # h) q k"
  by (cases k; simp only: tron_known.simps; blast intro: subseq_later)

lemma tron_resume_known:
  assumes "tron_known h q k" and "tron_fits q a" and "h' = Answered q k a # h"
  shows "ok_outcome (\<lambda>s. True) (tron_known h') (\<lambda>k. True) (\<lambda>e. True) (tron_resume k a s)"
proof (cases a)
  case (Rejected e)
  then show ?thesis by (cases k) (auto simp: tron_failed_def idle_def Let_def)
next
  case (Resolved x)
  with assms show ?thesis by (cases k; cases x) (auto simp: idle_def)
qed

interpretation tpt: traced_component tron_component tron_start "\<lambda>h s. True" tron_known "\<lambda>h k. True" "\<lambda>h e. True"
proof unfold_locales
  fix h h' :: tron_history and s v
  assume "h' = Acted s v # h"
  then show "ok_outcome (\<lambda>s. True) (tron_known h') (\<lambda>k. True) (\<lambda>e. True) (c_event tron_component v s)"
    by (cases v) (auto simp: tron_handleDeploy_def idle_def)
next
  fix h h' :: tron_history and s k
  show "ok_outcome (\<lambda>s. True) (tron_known h') (\<lambda>k. True) (\<lambda>e. True) (c_timer tron_component k s)"
    by (cases k) (auto simp: idle_def)
qed (auto simp: idle_def tron_known_later tron_resume_known)

section \<open>Properties\<close>

text \<open>C8. On TRON, too, what is registered is what was deployed: in every run, a request that registers a clone for
  a merchant goes back to a click on the button while that merchant was selected, after which TronLink gave an
  account, the server gave that merchant's factory for TRON, and the clone that this factory made for that
  account came back with an address, in this order. The registration names TRON with the number of its main
  network, that account as the owner, that address as the contract and that factory.\<close>

theorem tron_registration_follows_clone:
  assumes "arun tron_component tron_start h w" and "(TRegister mid d, k) \<in> set (pending w)"
  shows "\<exists>s owner f addr. tp_merchantId s = mid \<and> subseq
       [Answered (TClone f owner) (TCloned mid owner f) (Resolved (TContract addr)),
        Answered (TFactory mid ''TRON'') (TGotFactory mid owner) (Resolved (TFactoryAt f)),
        Answered TConnect (TConnected mid) (Resolved (TOwner owner)), Acted s TClickDeploy] h
    \<and> sc_blockchain d = ''TRON'' \<and> sc_chainId d = 728126428 \<and> sc_ownerAddress d = owner
    \<and> sc_contractAddress d = addr \<and> sc_factoryAddress d = f"
proof -
  have "tron_known h (TRegister mid d) k" using tpt.traced(2) [OF assms] .
  then show ?thesis by (cases k) (auto simp: tron_registration_def)
qed

text \<open>A run of one deployment on TRON up to the registration, with its worlds.\<close>

definition sample_clone_worlds :: "(tron_panel, tron_request, tron_cont, evm_effect) world list" where
  "sample_clone_worlds =
     (let w0 = initial tron_component (fresh_tron_panel ''m1'');
          w1 = do_event tron_component TClickDeploy w0;
          w2 = do_reply tron_component 0 (Resolved (TOwner ''To'')) w1;
          w3 = do_reply tron_component 0 (Resolved (TFactoryAt ''Tf'')) w2;
          w4 = do_reply tron_component 0 (Resolved (TContract ''Tc'')) w3
      in [w0, w1, w2, w3, w4])"

lemma sample_clone_pending:
  "map pending sample_clone_worlds =
     [[], [(TConnect, TConnected ''m1'')], [(TFactory ''m1'' ''TRON'', TGotFactory ''m1'' ''To'')],
      [(TClone ''Tf'' ''To'', TCloned ''m1'' ''To'' ''Tf'')],
      [(TRegister ''m1'' (tron_registration ''To'' ''Tf'' ''Tc''), TRegistered ''m1'' ''Tc'')]]"
  by (simp add: sample_clone_worlds_def initial_def idle_def do_event_def do_reply_def commit_def
      tron_handleDeploy_def drop_nth_def fresh_tron_panel_def Let_def)

lemma sample_clone_reach: "list_all (areach tron_component tron_start) sample_clone_worlds"
proof -
  let ?c = tron_component
  let ?w0 = "initial ?c (fresh_tron_panel ''m1'')"
  let ?w1 = "do_event ?c TClickDeploy ?w0"
  let ?w2 = "do_reply ?c 0 (Resolved (TOwner ''To'')) ?w1"
  let ?w3 = "do_reply ?c 0 (Resolved (TFactoryAt ''Tf'')) ?w2"
  let ?w4 = "do_reply ?c 0 (Resolved (TContract ''Tc'')) ?w3"
  note p = sample_clone_pending [unfolded sample_clone_worlds_def Let_def, simplified]
  have 0: "areach ?c tron_start ?w0" by (rule areach.start) (auto simp: tron_start_def)
  have 1: "areach ?c tron_start ?w1" by (rule areach.step [OF 0 astep.event])
  have 2: "areach ?c tron_start ?w2" by (rule areach.step [OF 1 astep.reply]) (simp_all add: p)
  have 3: "areach ?c tron_start ?w3" by (rule areach.step [OF 2 astep.reply]) (simp_all add: p)
  have 4: "areach ?c tron_start ?w4" by (rule areach.step [OF 3 astep.reply]) (simp_all add: p)
  show ?thesis using 0 1 2 3 4 by (simp add: sample_clone_worlds_def Let_def)
qed

theorem tron_registration_follows_clone_witness:
  "\<exists>h w d k s. arun tron_component tron_start h w \<and> (TRegister ''m1'' d, k) \<in> set (pending w)
     \<and> Acted s TClickDeploy \<in> set h \<and> tp_merchantId s = ''m1'' \<and> sc_chainId d = 728126428
     \<and> sc_ownerAddress d = ''To'' \<and> sc_contractAddress d = ''Tc'' \<and> sc_factoryAddress d = ''Tf''"
proof -
  let ?d = "tron_registration ''To'' ''Tf'' ''Tc''"
  have "areach tron_component tron_start (sample_clone_worlds ! 4)"
    using sample_clone_reach by (simp add: sample_clone_worlds_def Let_def)
  then obtain h where r: "arun tron_component tron_start h (sample_clone_worlds ! 4)" using areach_arun by blast
  have "map pending sample_clone_worlds ! 4 = [(TRegister ''m1'' ?d, TRegistered ''m1'' ''Tc'')]"
    by (simp add: sample_clone_pending)
  then have p: "(TRegister ''m1'' ?d, TRegistered ''m1'' ''Tc'') \<in> set (pending (sample_clone_worlds ! 4))"
    by (simp add: sample_clone_worlds_def Let_def)
  have d: "sc_ownerAddress ?d = ''To''" "sc_contractAddress ?d = ''Tc''" "sc_factoryAddress ?d = ''Tf''"
    by (simp_all add: tron_registration_def)
  from tron_registration_follows_clone [OF r p] obtain s owner f addr where s: "tp_merchantId s = ''m1''" "sc_chainId ?d = 728126428"
    and sub: "subseq [Answered (TClone f owner) (TCloned ''m1'' owner f) (Resolved (TContract addr)),
        Answered (TFactory ''m1'' ''TRON'') (TGotFactory ''m1'' owner) (Resolved (TFactoryAt f)),
        Answered TConnect (TConnected ''m1'') (Resolved (TOwner owner)), Acted s TClickDeploy] h"
    by blast
  have "Acted s TClickDeploy \<in> set h" by (rule subseq_happened [OF sub]) simp
  note s = s this
  show ?thesis
    by (intro exI [of _ h] exI [of _ "sample_clone_worlds ! 4"] exI [of _ ?d] exI [of _ s] exI)
      (use r p d s in auto)
qed

text \<open>A deployment that succeeded on the chain but whose event log carries no clone address is reported
  as a missing factory, because the message of that error contains the words that the handler takes for
  a missing factory.\<close>

lemma missing_event_misreported:
  assumes "se_message e = ''Clone deployed but address not found in event logs. Tx: '' @ tx"
  shows "ds_error (tp_state (fst (tron_failed e s)))
    = Some ''TRON factory not deployed yet. Please contact the administrator.''"
proof -
  have "se_message e = ''Clone deployed but address '' @ ''not found'' @ ('' in event logs. Tx: '' @ tx)"
    using assms by simp
  then have "str_includes (se_message e) ''not found''" unfolding includes_iff by (intro exI)
  then show ?thesis using assms by (simp add: tron_failed_def or_else_def)
qed

end
