(* ===== verification/Wallet_Setup.thy ===== *)
theory Wallet_Setup
  imports Wallet_Tron
begin

text \<open>
  The wallet setup page (WalletSetupPage of
  ui-dashboard/src/pages/wallet-setup-page/wallet-setup-page.tsx): the extended public key of a
  merchant's Bitcoin wallet is imported, verified against a derived address, shown and removed. The
  contract panels are in Wallet_Deploy and Wallet_Tron; their effect
  \<open>RefreshPage\<close> is the event \<open>RefreshFor\<close> here, with the merchant that their closure captured.

  The two loads of \<open>loadData\<close> are awaited together and are one request. A handler can run only when
  its button is shown, so the events check the mode of the page.
\<close>

section \<open>Key formats\<close>

definition apos :: string where
  "apos = [CHR 0x27]"

definition hd_path :: "string \<Rightarrow> string \<Rightarrow> string" where
  "hd_path purpose coin = ''m/'' @ purpose @ apos @ ''/'' @ coin @ apos @ ''/0'' @ apos"

record xpub_chain =
  xc_value :: string
  xc_label :: string
  xc_path :: string
  xc_color :: string

(* src: ui-dashboard/src/pages/wallet-setup-page/wallet-setup-page.tsx 53-55 XPUB_BLOCKCHAINS *)
definition XPUB_BLOCKCHAINS :: "xpub_chain list" where
  "XPUB_BLOCKCHAINS = [\<lparr>xc_value = ''BTC'', xc_label = ''Bitcoin'', xc_path = hd_path ''84'' ''0'',
     xc_color = ''#F7931A''\<rparr>]"

record key_format =
  kf_format :: string
  kf_label :: string
  kf_path :: string

definition key_formats :: "(string \<times> key_format) list" where
  "key_formats =
     [(''zpub'', \<lparr>kf_format = ''p2wpkh'', kf_label = ''Native SegWit (zpub) '' @ em_dash @ '' bc1q addresses'',
         kf_path = hd_path ''84'' ''0''\<rparr>),
      (''ypub'', \<lparr>kf_format = ''p2sh-segwit'', kf_label = ''SegWit (ypub) '' @ em_dash @ '' 3-prefix addresses'',
         kf_path = hd_path ''49'' ''0''\<rparr>),
      (''xpub'', \<lparr>kf_format = ''p2pkh'', kf_label = ''Legacy (xpub) '' @ em_dash @ '' 1-prefix addresses'',
         kf_path = hd_path ''44'' ''0''\<rparr>),
      (''vpub'', \<lparr>kf_format = ''p2wpkh'', kf_label = ''Native SegWit Testnet (vpub)'', kf_path = hd_path ''84'' ''1''\<rparr>),
      (''upub'', \<lparr>kf_format = ''p2sh-segwit'', kf_label = ''SegWit Testnet (upub)'', kf_path = hd_path ''49'' ''1''\<rparr>),
      (''tpub'', \<lparr>kf_format = ''p2pkh'', kf_label = ''Legacy Testnet (tpub)'', kf_path = hd_path ''44'' ''1''\<rparr>)]"

text \<open>The chain of tests for a prefix of the trimmed key.\<close>

(* src: ui-dashboard/src/pages/wallet-setup-page/wallet-setup-page.tsx 58-67 detectKeyFormat *)
definition detectKeyFormat :: "string \<Rightarrow> key_format option" where
  "detectKeyFormat key =
     map_option snd (find_first (\<lambda>(p, f). starts_with (js_trim key) p) key_formats)"

section \<open>State\<close>

datatype wallet_mode = Overview | Importing | Verifying | Detail

(* src: ui-dashboard/src/pages/wallet-setup-page/wallet-setup-page.tsx 672-694 WalletSetupPage *)
record wallet_page =
  ws_merchantId :: "string option"
  ws_mode :: wallet_mode
  selectedBlockchain :: string
  importXpub :: string
  importPath :: string
  detectedFormat :: "key_format option"
  isSubmitting :: bool
  existingWallets :: "xpub_wallet list"
  ws_collectors :: "evm_collector list"
  ws_loading :: bool
  selectedWallet :: "xpub_wallet option"
  ws_isDeleting :: bool
  firstAddress :: string
  loadingAddress :: bool
  verifyWallet :: "xpub_wallet option"
  verifyAddress :: string
  verifyLoading :: bool
  showMismatchHelp :: bool

(* src: ui-dashboard/src/providers/xpub-provider.ts 12-19 DerivedAddress *)
record derived_address =
  da_address :: string
  da_derivationIndex :: nat

datatype wp_request =
    QLoad string
  | QWallets string
  | QAddresses string string
  | QCreate string create_xpub
  | QDeriveFor string string
  | QDeleteWallet string string

datatype wp_cont =
    Loaded
  | GotAddresses
  | WalletDeleted string
  | ListedAfterDelete
  | Created string string
  | ListedAfterCreate string string
  | Derived
  | VerifyDeleted string
  | ListedAfterVerifyDelete

datatype wp_answer =
    RLoaded "xpub_wallet list option" "evm_collector list option"
  | RWallets "xpub_wallet list option"
  | RAddresses "derived_address list option"
  | RDerived string
  | RDone

datatype wp_effect = WSuccess string string | WError string string | WInfo string | WAskDelete string string

record wp_error =
  we_body_message :: "string option"
  we_body_error :: "string option"

type_synonym wp_outcome = "(wallet_page, wp_request, wp_cont, wp_effect) outcome"

definition wallets_of :: "'a list option \<Rightarrow> 'a list" where
  "wallets_of x = (case x of None \<Rightarrow> [] | Some ws \<Rightarrow> ws)"

(* src: ui-dashboard/src/pages/wallet-setup-page/wallet-setup-page.tsx 843-855 resetState *)
definition resetState :: "wallet_page \<Rightarrow> wallet_page" where
  "resetState s = s\<lparr>ws_mode := Overview, selectedBlockchain := [], importXpub := [], importPath := [],
     detectedFormat := None, selectedWallet := None, firstAddress := [], verifyWallet := None,
     verifyAddress := [], verifyLoading := False, showMismatchHelp := False\<rparr>"

section \<open>Loading\<close>

(* src: ui-dashboard/src/pages/wallet-setup-page/wallet-setup-page.tsx 696-702 loadData *)
definition loadData :: "string option \<Rightarrow> wallet_page \<Rightarrow> wp_outcome" where
  "loadData mid s = (if \<not> truthy mid then idle s else (s, [Await (QLoad (the mid)) Loaded]))"

(* src: ui-dashboard/src/pages/wallet-setup-page/wallet-setup-page.tsx 703-710 setExistingWallets *)
fun got_data :: "(wp_answer, wp_error) reply \<Rightarrow> wallet_page \<Rightarrow> wp_outcome" where
  "got_data (Resolved (RLoaded ws cs)) s =
     (s\<lparr>existingWallets := wallets_of ws, ws_collectors := wallets_of cs, ws_loading := False\<rparr>, [])"
| "got_data _ s = (s\<lparr>ws_loading := False\<rparr>, [])"

(* src: ui-dashboard/src/pages/wallet-setup-page/wallet-setup-page.tsx 716-717 getWalletForChain *)
definition getWalletForChain :: "string \<Rightarrow> wallet_page \<Rightarrow> xpub_wallet option" where
  "getWalletForChain chain s = find_first (\<lambda>w. xw_blockchain w = chain) (existingWallets s)"

(* src: ui-dashboard/src/pages/wallet-setup-page/wallet-setup-page.tsx 719-724 loadFirstAddress *)
definition loadFirstAddress :: "xpub_wallet \<Rightarrow> wallet_page \<Rightarrow> wp_outcome" where
  "loadFirstAddress w s =
     (if \<not> truthy (ws_merchantId s) then idle s
      else (s\<lparr>loadingAddress := True, firstAddress := []\<rparr>,
            [Await (QAddresses (the (ws_merchantId s)) (xw_uuid w)) GotAddresses]))"

(* src: ui-dashboard/src/pages/wallet-setup-page/wallet-setup-page.tsx 724-734 sorted *)
fun got_addresses :: "(wp_answer, wp_error) reply \<Rightarrow> wallet_page \<Rightarrow> wp_outcome" where
  "got_addresses (Resolved (RAddresses as)) s =
     ((case sort_key da_derivationIndex (wallets_of as) of
         [] \<Rightarrow> s | a # _ \<Rightarrow> s\<lparr>firstAddress := da_address a\<rparr>)\<lparr>loadingAddress := False\<rparr>, [])"
| "got_addresses _ s = (s\<lparr>loadingAddress := False\<rparr>, [])"

(* src: ui-dashboard/src/pages/wallet-setup-page/wallet-setup-page.tsx 736-749 handleCardClick *)
definition handleCardClick :: "string \<Rightarrow> wallet_page \<Rightarrow> wp_outcome" where
  "handleCardClick chain s =
     (case getWalletForChain chain s of
        Some w \<Rightarrow> loadFirstAddress w
          (s\<lparr>selectedWallet := Some w, selectedBlockchain := chain, ws_mode := Detail\<rparr>)
      | None \<Rightarrow> (s\<lparr>selectedBlockchain := chain,
          importPath := (case find_first (\<lambda>c. xc_value c = chain) XPUB_BLOCKCHAINS of
            None \<Rightarrow> [] | Some c \<Rightarrow> xc_path c),
          ws_mode := Importing\<rparr>, []))"

section \<open>Importing and verifying\<close>

(* src: ui-dashboard/src/pages/wallet-setup-page/wallet-setup-page.tsx 794-803 handleSubmitImport *)
definition handleSubmitImport :: "wallet_page \<Rightarrow> wp_outcome" where
  "handleSubmitImport s =
     (if \<not> truthy (ws_merchantId s) \<or> selectedBlockchain s = [] \<or> importXpub s = [] then idle s
      else (s\<lparr>isSubmitting := True\<rparr>,
        [Await (QCreate (the (ws_merchantId s))
            \<lparr>cx_blockchain = selectedBlockchain s, cx_xpub = js_trim (importXpub s),
             cx_derivationPath = (if importPath s = [] then None else Some (importPath s))\<rparr>)
          (Created (the (ws_merchantId s)) (selectedBlockchain s))]))"

(* src: ui-dashboard/src/pages/wallet-setup-page/wallet-setup-page.tsx 832-840 catch *)
definition import_failed :: "wp_error \<Rightarrow> wallet_page \<Rightarrow> wp_outcome" where
  "import_failed e s =
     (s\<lparr>isSubmitting := False\<rparr>,
      [Emit (WError ''Failed to import wallet''
         (or_else (we_body_message e) (or_else (we_body_error e) ''Please try again'')))])"

(* src: ui-dashboard/src/pages/wallet-setup-page/wallet-setup-page.tsx 805-831 newWallet *)
fun listed_after_create ::
    "string \<Rightarrow> string \<Rightarrow> (wp_answer, wp_error) reply \<Rightarrow> wallet_page \<Rightarrow> wp_outcome" where
  "listed_after_create mid chain (Resolved (RWallets ws)) s =
     (case find_first (\<lambda>w. xw_blockchain w = chain) (wallets_of ws) of
        Some w \<Rightarrow>
          (s\<lparr>existingWallets := wallets_of ws, verifyWallet := Some w, ws_mode := Verifying,
             verifyLoading := True, showMismatchHelp := False\<rparr>,
           [Await (QDeriveFor mid (xw_uuid w)) Derived])
      | None \<Rightarrow>
          ((resetState (s\<lparr>existingWallets := wallets_of ws\<rparr>))\<lparr>isSubmitting := False\<rparr>,
           [Emit (WSuccess ''Wallet imported!''
              (template (map_option xc_label (find_first (\<lambda>c. xc_value c = chain) XPUB_BLOCKCHAINS))
                 @ '' wallet has been configured''))]))"
| "listed_after_create mid chain (Resolved a) s = idle s"
| "listed_after_create mid chain (Rejected e) s = import_failed e s"

(* src: ui-dashboard/src/pages/wallet-setup-page/wallet-setup-page.tsx 816-823 setVerifyAddress *)
fun derived :: "(wp_answer, wp_error) reply \<Rightarrow> wallet_page \<Rightarrow> wp_outcome" where
  "derived (Resolved (RDerived a)) s =
     (s\<lparr>verifyAddress := a, verifyLoading := False, isSubmitting := False\<rparr>, [])"
| "derived _ s = (s\<lparr>verifyAddress := [], verifyLoading := False, isSubmitting := False\<rparr>, [])"

section \<open>Removing\<close>

(* src: ui-dashboard/src/pages/wallet-setup-page/wallet-setup-page.tsx 780-788 catch *)
definition delete_failed :: "wp_error \<Rightarrow> wallet_page \<Rightarrow> wp_outcome" where
  "delete_failed e s = (s\<lparr>ws_isDeleting := False\<rparr>,
     [Emit (WError ''Failed to delete wallet'' (or_else (we_body_message e) ''Please try again''))])"

(* src: ui-dashboard/src/pages/wallet-setup-page/wallet-setup-page.tsx 773-790 onOk *)
fun wallet_deleted :: "string \<Rightarrow> (wp_answer, wp_error) reply \<Rightarrow> wallet_page \<Rightarrow> wp_outcome" where
  "wallet_deleted mid (Resolved a) s =
     (s, [Emit (WSuccess ''Wallet removed'' []), Await (QWallets mid) ListedAfterDelete])"
| "wallet_deleted mid (Rejected e) s = delete_failed e s"

fun listed_after_delete :: "(wp_answer, wp_error) reply \<Rightarrow> wallet_page \<Rightarrow> wp_outcome" where
  "listed_after_delete (Resolved (RWallets ws)) s =
     ((resetState (s\<lparr>existingWallets := wallets_of ws\<rparr>))\<lparr>ws_isDeleting := False\<rparr>, [])"
| "listed_after_delete (Resolved a) s = idle s"
| "listed_after_delete (Rejected e) s = delete_failed e s"

(* src: ui-dashboard/src/pages/wallet-setup-page/wallet-setup-page.tsx 1203-1217 handleVerifyDelete *)
fun verify_delete ::
    "wp_cont \<Rightarrow> (wp_answer, wp_error) reply \<Rightarrow> wallet_page \<Rightarrow> wp_outcome" where
  "verify_delete k (Resolved a) s =
     (case k of
        VerifyDeleted mid \<Rightarrow> (s, [Await (QWallets mid) ListedAfterVerifyDelete])
      | _ \<Rightarrow> (case a of
          RWallets ws \<Rightarrow>
            (s\<lparr>existingWallets := wallets_of ws, verifyWallet := None, verifyAddress := [],
               showMismatchHelp := False, ws_mode := Importing\<rparr>,
             [Emit (WInfo ''Wallet removed. Please re-import with the correct key format.'')])
        | _ \<Rightarrow> idle s))"
| "verify_delete k (Rejected e) s = (s, [Emit (WError ''Failed to delete wallet'' [])])"

section \<open>The component\<close>

datatype wp_event =
    ChooseMerchant "string option"
  | RefreshFor string
  | SwitchTab
  | OpenImport
  | CardClick string
  | GoBack
  | SelectChain string
  | ChangeKey string
  | ChangePath string
  | SubmitImport
  | ClickDelete
  | ConfirmDelete string string
  | AddressesMatch
  | AddressesDiffer
  | VerifyDelete
  | KeepAnyway

(* src: ui-dashboard/src/pages/wallet-setup-page/wallet-setup-page.tsx 1045-1051 onChange *)
definition select_chain :: "string \<Rightarrow> wallet_page \<Rightarrow> wallet_page" where
  "select_chain v s =
     (let s1 = s\<lparr>selectedBlockchain := v\<rparr> in
      if detectedFormat s = None
      then s1\<lparr>importPath := (case find_first (\<lambda>c. xc_value c = v) XPUB_BLOCKCHAINS of
        None \<Rightarrow> [] | Some c \<Rightarrow> xc_path c)\<rparr>
      else s1)"

(* src: ui-dashboard/src/pages/wallet-setup-page/wallet-setup-page.tsx 1062-1070 detectKeyFormat *)
definition change_key :: "string \<Rightarrow> wallet_page \<Rightarrow> wallet_page" where
  "change_key val s =
     (let s1 = s\<lparr>importXpub := val, detectedFormat := detectKeyFormat val\<rparr> in
      case detectKeyFormat val of None \<Rightarrow> s1 | Some f \<Rightarrow> s1\<lparr>importPath := kf_path f\<rparr>)"

definition chain_label :: "string \<Rightarrow> string option" where
  "chain_label b = map_option xc_label (find_first (\<lambda>c. xc_value c = b) XPUB_BLOCKCHAINS)"

text \<open>The path field is disabled while a format is detected.\<close>

fun wp_on :: "wp_event \<Rightarrow> wallet_page \<Rightarrow> wp_outcome" where
  "wp_on (ChooseMerchant m) s = idle (s\<lparr>ws_merchantId := m\<rparr>)"
| "wp_on (RefreshFor mid) s = loadData (Some mid) s"
| "wp_on SwitchTab s = idle (resetState s)"
| "wp_on OpenImport s = idle (if ws_mode s = Overview then s\<lparr>ws_mode := Importing\<rparr> else s)"
| "wp_on (CardClick chain) s = (if ws_mode s = Overview then handleCardClick chain s else idle s)"
| "wp_on GoBack s = idle (if ws_mode s \<in> {Importing, Detail} then resetState s else s)"
| "wp_on (SelectChain v) s = idle (if ws_mode s = Importing then select_chain v s else s)"
| "wp_on (ChangeKey val) s = idle (if ws_mode s = Importing then change_key val s else s)"
| "wp_on (ChangePath p) s =
     idle (if ws_mode s = Importing \<and> detectedFormat s = None then s\<lparr>importPath := p\<rparr> else s)"
| "wp_on SubmitImport s = (if ws_mode s = Importing then handleSubmitImport s else idle s)"
| "wp_on ClickDelete s =
     (case (ws_mode s, selectedWallet s, ws_merchantId s) of
        (Detail, Some w, Some mid) \<Rightarrow>
          if mid = [] then idle s else (s, [Emit (WAskDelete mid (xw_uuid w))])
      | _ \<Rightarrow> idle s)"
| "wp_on (ConfirmDelete mid uuid) s =
     (s\<lparr>ws_isDeleting := True\<rparr>, [Await (QDeleteWallet mid uuid) (WalletDeleted mid)])"
| "wp_on AddressesMatch s =
     (case (ws_mode s, verifyWallet s) of
        (Verifying, Some w) \<Rightarrow> (resetState s, [Emit (WSuccess ''Wallet verified!''
          (template (chain_label (xw_blockchain w)) @ '' wallet is ready to receive payments.''))])
      | _ \<Rightarrow> idle s)"
| "wp_on AddressesDiffer s = idle (if ws_mode s = Verifying then s\<lparr>showMismatchHelp := True\<rparr> else s)"
| "wp_on VerifyDelete s =
     (case (ws_mode s, verifyWallet s, ws_merchantId s) of
        (Verifying, Some w, Some mid) \<Rightarrow>
          if mid = [] then idle s else (s, [Await (QDeleteWallet mid (xw_uuid w)) (VerifyDeleted mid)])
      | _ \<Rightarrow> idle s)"
| "wp_on KeepAnyway s =
     (if ws_mode s = Verifying then (resetState s, [Emit (WInfo ''Wallet kept as-is'')]) else idle s)"

fun wp_resume :: "wp_cont \<Rightarrow> (wp_answer, wp_error) reply \<Rightarrow> wallet_page \<Rightarrow> wp_outcome" where
  "wp_resume Loaded a s = got_data a s"
| "wp_resume GotAddresses a s = got_addresses a s"
| "wp_resume (WalletDeleted mid) a s = wallet_deleted mid a s"
| "wp_resume ListedAfterDelete a s = listed_after_delete a s"
| "wp_resume (Created mid chain) a s =
     (case a of Rejected e \<Rightarrow> import_failed e s
      | Resolved x \<Rightarrow> (s, [Await (QWallets mid) (ListedAfterCreate mid chain)]))"
| "wp_resume (ListedAfterCreate mid chain) a s = listed_after_create mid chain a s"
| "wp_resume Derived a s = derived a s"
| "wp_resume (VerifyDeleted mid) a s = verify_delete (VerifyDeleted mid) a s"
| "wp_resume ListedAfterVerifyDelete a s = verify_delete ListedAfterVerifyDelete a s"

fun wp_fits :: "wp_request \<Rightarrow> (wp_answer, wp_error) reply \<Rightarrow> bool" where
  "wp_fits q (Rejected e) = True"
| "wp_fits (QLoad m) (Resolved a) = (\<exists>ws cs. a = RLoaded ws cs)"
| "wp_fits (QWallets m) (Resolved a) = (\<exists>ws. a = RWallets ws)"
| "wp_fits (QAddresses m u) (Resolved a) = (\<exists>as. a = RAddresses as)"
| "wp_fits (QDeriveFor m u) (Resolved a) = (\<exists>x. a = RDerived x)"
| "wp_fits q (Resolved a) = (a = RDone)"

(* src: ui-dashboard/src/pages/wallet-setup-page/wallet-setup-page.tsx 674-694 useState *)
definition fresh_wallet_page :: "string option \<Rightarrow> wallet_page" where
  "fresh_wallet_page mid = \<lparr>ws_merchantId = mid, ws_mode = Overview, selectedBlockchain = [],
     importXpub = [], importPath = [], detectedFormat = None, isSubmitting = False,
     existingWallets = [], ws_collectors = [], ws_loading = True, selectedWallet = None,
     ws_isDeleting = False, firstAddress = [], loadingAddress = False, verifyWallet = None,
     verifyAddress = [], verifyLoading = False, showMismatchHelp = False\<rparr>"

(* src: ui-dashboard/src/pages/wallet-setup-page/wallet-setup-page.tsx 712-714 useEffect *)
definition wp_effects :: "wallet_page \<Rightarrow> wallet_page \<Rightarrow> wp_outcome" where
  "wp_effects old s = (if ws_merchantId s = ws_merchantId old then idle s else loadData (ws_merchantId s) s)"

definition wallet_component where
  "wallet_component = \<lparr>
     c_mount = (\<lambda>s. loadData (ws_merchantId s) (fresh_wallet_page (ws_merchantId s))),
     c_event = wp_on, c_resume = wp_resume, c_timer = (\<lambda>k. idle), c_effect = wp_effects, c_fits = wp_fits\<rparr>"

definition wallet_start :: "wallet_page \<Rightarrow> bool" where
  "wallet_start s \<longleftrightarrow> (\<exists>mid. s = fresh_wallet_page mid)"

section \<open>What the page shows\<close>

text \<open>A handler is the event that it causes; the fields pass on what the user types. The static help
  texts (the introduction of the overview, the guide to other wallets, the advice on mismatches) are
  left out.\<close>

datatype wp_handler = HDo wp_event | HSelectChain | HChangeKey | HChangePath

definition button :: "string \<Rightarrow> wp_event \<Rightarrow> wp_handler ui" where
  "button label e = El ''Button'' [] [(''onClick'', HDo e)] [Txt label]"

definition chain_of_wallet :: "xpub_wallet \<Rightarrow> xpub_chain option" where
  "chain_of_wallet w = find_first (\<lambda>c. xc_value c = xw_blockchain w) XPUB_BLOCKCHAINS"

definition wallet_label :: "xpub_wallet \<Rightarrow> string" where
  "wallet_label w = template (map_option xc_label (chain_of_wallet w))"

text \<open>In an element, a missing label is no child at all.\<close>

definition label_child :: "xpub_wallet \<Rightarrow> 'h ui list" where
  "label_child w = (case chain_of_wallet w of None \<Rightarrow> [] | Some c \<Rightarrow> [Txt (xc_label c)])"

(* src: ui-dashboard/src/pages/wallet-setup-page/wallet-setup-page.tsx 884-930 XPUB_BLOCKCHAINS *)
definition renderOverview :: "wallet_page \<Rightarrow> wp_handler ui list" where
  "renderOverview s =
     map (\<lambda>c. El ''Card'' [] [(''onClick'', HDo (CardClick (xc_value c)))]
        [leaf ''Text'' (xc_label c),
         leaf ''Tag'' (if \<exists>w \<in> set (existingWallets s). xw_blockchain w = xc_value c
           then '' Active'' else ''Not configured'')]) XPUB_BLOCKCHAINS
     @ [button ''Import Extended Public Key'' OpenImport]"

(* src: ui-dashboard/src/pages/wallet-setup-page/wallet-setup-page.tsx 933-1009 renderDetailMode *)
definition renderDetailMode :: "(string \<Rightarrow> string) \<Rightarrow> wallet_page \<Rightarrow> wp_handler ui list" where
  "renderDetailMode date s = (case selectedWallet s of None \<Rightarrow> [] | Some w \<Rightarrow>
     [wrap ''Card''
      ([button ''Back'' GoBack, wrap ''Title'' (label_child w @ [Txt '' Wallet'']), leaf ''Tag'' '' Active'',
        El ''Descriptions.Item'' [(''label'', ''Blockchain'')] []
          (label_child w @ [Txt '' ('', Txt (xw_blockchain w), Txt '')'']),
        El ''Descriptions.Item'' [(''label'', ''Derivation Path'')] [] [leaf ''Text'' (derivationPath w)],
        El ''Descriptions.Item'' [(''label'', ''Addresses Derived'')] [] [Txt (show_nat (lastDerivedIndex w))],
        El ''Descriptions.Item'' [(''label'', ''Created'')] [] [Txt (date (xw_createdAt w))],
        El ''Descriptions.Item'' [(''label'', ''First Derived Address'')] []
          [if loadingAddress s then comp ''Spin'' []
           else leaf ''Text'' (if firstAddress s \<noteq> [] then firstAddress s else ''No addresses derived yet'')]]
       @ when_ui (firstAddress s \<noteq> [])
          [comp ''Alert'' [(''message'', ''Verify your wallet''),
             (''description'', ''Compare the address above with the first receive address in your ''
                @ wallet_label w @ '' wallet software. If they match, your xpub is correctly configured.'')]]
       @ [leaf ''Title'' ''Actions'',
          El ''Button'' [(''loading'', bool_attr (ws_isDeleting s))] [(''onClick'', HDo ClickDelete)]
            [Txt ''Remove Wallet Configuration''],
          leaf ''Text'' (''Removing the wallet only deletes the xpub from CryptoLink. Your funds remain safe ''
            @ em_dash @ '' we never hold your private keys. You can re-import the same or a different xpub afterward.'')])])"

(* src: ui-dashboard/src/pages/wallet-setup-page/wallet-setup-page.tsx 1037-1118 selectedBlockchain *)
definition renderImportMode :: "wallet_page \<Rightarrow> wp_handler ui list" where
  "renderImportMode s =
     [leaf ''Text'' ''Blockchain'',
      El ''Select'' ((''placeholder'', ''Select blockchain'')
          # when_ui (selectedBlockchain s \<noteq> []) [(''value'', selectedBlockchain s)]
          @ map (\<lambda>c. (''option'', xc_value c))
              (filter (\<lambda>c. \<not> (\<exists>w \<in> set (existingWallets s). xw_blockchain w = xc_value c)) XPUB_BLOCKCHAINS))
        [(''onChange'', HSelectChain)] [],
      leaf ''Text'' ''Extended Public Key (xpub / ypub / zpub)'',
      El ''Input.TextArea'' [(''value'', importXpub s)] [(''onChange'', HChangeKey)] []]
     @ (case detectedFormat s of None \<Rightarrow> [] | Some f \<Rightarrow> [wrap ''Tag'' [Txt ''Detected: '', Txt (kf_label f)]])
     @ [leaf ''Text'' ''Derivation Path (auto-detected)'',
        El ''Input'' [(''value'', importPath s), (''disabled'', bool_attr (detectedFormat s \<noteq> None))]
          [(''onChange'', HChangePath)] []]
     @ when_ui (detectedFormat s \<noteq> None) [leaf ''Text'' ''Path auto-detected from key format.'']
     @ [El ''Button'' [(''loading'', bool_attr (isSubmitting s)),
           (''disabled'', bool_attr (selectedBlockchain s = [] \<or> importXpub s = []))]
          [(''onClick'', HDo SubmitImport)] [Txt ''Import Wallet''],
        button ''Cancel'' GoBack]"

(* src: ui-dashboard/src/pages/wallet-setup-page/wallet-setup-page.tsx 1219-1301 verifyAddress *)
definition renderVerifyMode :: "wallet_page \<Rightarrow> wp_handler ui list" where
  "renderVerifyMode s = (case verifyWallet s of None \<Rightarrow> [] | Some w \<Rightarrow>
     [wrap ''Card''
      ([leaf ''Title'' ''Verify Your Wallet'',
        comp ''Alert'' [(''message'', ''Wallet imported successfully''),
          (''description'', ''Your '' @ or_else (map_option xc_label (chain_of_wallet w)) ''Bitcoin''
             @ '' extended public key has been saved. Now verify the address below matches your wallet software.'')]]
       @ (if verifyLoading s
          then [comp ''Spin'' [], leaf ''Text'' ''Deriving your first receive address...'']
          else if verifyAddress s \<noteq> []
          then [leaf ''Text'' ''First Receive Address (index 0)'', leaf ''Text'' (verifyAddress s),
                button (''Addresses Match '' @ em_dash @ '' Done'') AddressesMatch,
                button (''Addresses Don'' @ apos @ ''t Match'') AddressesDiffer]
               @ when_ui (showMismatchHelp s)
                   [comp ''Alert'' [(''message'', ''Address mismatch '' @ em_dash @ '' likely a key format issue'')],
                    button ''Delete & Re-import'' VerifyDelete, button ''Keep Anyway'' KeepAnyway]
          else [El ''Alert'' [(''message'', ''Could not derive verification address'')] []
                  [button ''Continue'' SwitchTab]]))])"

(* src: ui-dashboard/src/pages/wallet-setup-page/wallet-setup-page.tsx 1370-1450 loading *)
definition wallet_page_view :: "(string \<Rightarrow> string) \<Rightarrow> wallet_page \<Rightarrow> wp_handler ui list" where
  "wallet_page_view date s =
     (if ws_loading s then [comp ''Spin'' []]
      else [leaf ''Title'' ''Wallet Setup'',
        El ''Tabs'' [] [(''onChange'', HDo SwitchTab)]
         [El ''Tab'' [(''key'', ''xpub'')] []
            (case ws_mode s of Overview \<Rightarrow> renderOverview s | Detail \<Rightarrow> renderDetailMode date s
             | Importing \<Rightarrow> renderImportMode s | Verifying \<Rightarrow> renderVerifyMode s),
          El ''Tab'' [(''key'', ''evm'')] []
            (when_ui (truthy (ws_merchantId s))
              [comp ''EvmCollectorPanel'' [(''merchantId'', the (ws_merchantId s))],
               comp ''TronCollectorPanel'' [(''merchantId'', the (ws_merchantId s))]])]])"

section \<open>Lemmas\<close>

lemma wallet_component_simps [simp]:
  "c_mount wallet_component = (\<lambda>s. loadData (ws_merchantId s) (fresh_wallet_page (ws_merchantId s)))"
  "c_event wallet_component = wp_on" "c_resume wallet_component = wp_resume"
  "c_timer wallet_component = (\<lambda>k. idle)" "c_effect wallet_component = wp_effects"
  "c_fits wallet_component = wp_fits"
  by (simp_all add: wallet_component_def)

text \<open>The path field follows the detected format, and the overview has no key.\<close>

definition key_inv :: "wallet_page \<Rightarrow> bool" where
  "key_inv s \<longleftrightarrow> detectedFormat s = detectKeyFormat (importXpub s)
     \<and> (\<forall>f. detectedFormat s = Some f \<longrightarrow> importPath s = kf_path f)
     \<and> (ws_mode s = Overview \<longrightarrow> importXpub s = [])"

lemma js_trim_idem [simp]: "js_trim (js_trim s) = js_trim s"
proof -
  have d: "dropWhile is_space (dropWhile is_space x) = dropWhile is_space x" for x
    by (induction x) auto
  have t: "dropWhile is_space (rev (dropWhile is_space (rev (dropWhile is_space s))))
      = rev (dropWhile is_space (rev (dropWhile is_space s)))"
  proof (cases "dropWhile is_space s")
    case (Cons x xs)
    then have x: "\<not> is_space x" using hd_dropWhile [of is_space s] by simp
    then have "rev (dropWhile is_space (rev (x # xs))) = x # rev (dropWhile is_space (rev xs))"
      by (simp add: dropWhile_append3)
    then show ?thesis unfolding Cons using x by simp
  next
    case Nil
    show ?thesis unfolding Nil by simp
  qed
  show ?thesis unfolding js_trim_def t by (simp add: d)
qed

lemma detect_trim [simp]: "detectKeyFormat (js_trim key) = detectKeyFormat key"
  by (simp add: detectKeyFormat_def)

lemma detect_empty [simp]: "detectKeyFormat [] = None"
  by (simp add: detectKeyFormat_def js_trim_def key_formats_def find_first_def starts_with_def)

lemma detect_path: "detectKeyFormat key = Some f \<Longrightarrow> kf_path f \<noteq> []"
proof -
  assume "detectKeyFormat key = Some f"
  then obtain p where "find_first (\<lambda>(p, f). starts_with (js_trim key) p) key_formats = Some (p, f)"
    by (auto simp: detectKeyFormat_def)
  from find_first_Some [OF this] have "(p, f) \<in> set key_formats" by simp
  then show ?thesis by (auto simp: key_formats_def hd_path_def)
qed

fun wp_request_ok :: "wp_request \<Rightarrow> wp_cont \<Rightarrow> bool" where
  "wp_request_ok (QLoad m) k = (k = Loaded \<and> m \<noteq> [])"
| "wp_request_ok (QWallets m) k = (k = ListedAfterDelete \<or> k = ListedAfterVerifyDelete
     \<or> (\<exists>c. k = ListedAfterCreate m c))"
| "wp_request_ok (QAddresses m u) k = (k = GotAddresses \<and> m \<noteq> [])"
| "wp_request_ok (QCreate m d) k = (\<exists>c. k = Created m c \<and> m \<noteq> [] \<and> c = cx_blockchain d \<and> c \<noteq> []
     \<and> (\<forall>f. detectKeyFormat (cx_xpub d) = Some f \<longrightarrow> cx_derivationPath d = Some (kf_path f)))"
| "wp_request_ok (QDeriveFor m u) k = (k = Derived)"
| "wp_request_ok (QDeleteWallet m u) k = (k = WalletDeleted m \<or> k = VerifyDeleted m \<and> m \<noteq> [])"

abbreviation "wp_ok \<equiv> ok_outcome key_inv wp_request_ok (\<lambda>k. False) (\<lambda>e. True)"

lemma key_inv_reset [simp]: "key_inv (resetState s)"
  by (simp add: key_inv_def resetState_def)

lemma key_inv_frame:
  "importXpub s' = importXpub s \<Longrightarrow> importPath s' = importPath s \<Longrightarrow> detectedFormat s' = detectedFormat s
    \<Longrightarrow> (ws_mode s' = Overview \<Longrightarrow> ws_mode s = Overview) \<Longrightarrow> key_inv s \<Longrightarrow> key_inv s'"
  by (auto simp: key_inv_def)

lemma key_inv_keep [simp]:
  "key_inv (s\<lparr>ws_isDeleting := b\<rparr>) = key_inv s" "key_inv (s\<lparr>isSubmitting := b\<rparr>) = key_inv s"
  "key_inv (s\<lparr>ws_loading := b\<rparr>) = key_inv s" "key_inv (s\<lparr>loadingAddress := b\<rparr>) = key_inv s"
  "key_inv (s\<lparr>ws_merchantId := m\<rparr>) = key_inv s" "key_inv (s\<lparr>existingWallets := ws\<rparr>) = key_inv s"
  "key_inv (s\<lparr>showMismatchHelp := b\<rparr>) = key_inv s" "key_inv (s\<lparr>firstAddress := a\<rparr>) = key_inv s"
  by (simp_all add: key_inv_def)

lemma key_inv_mode:
  "key_inv s \<Longrightarrow> m \<noteq> Overview \<Longrightarrow> key_inv (s\<lparr>ws_mode := m\<rparr>)"
  by (simp add: key_inv_def)

lemma change_key_inv: "key_inv s \<Longrightarrow> ws_mode s = Importing \<Longrightarrow> key_inv (change_key v s)"
  by (auto simp: key_inv_def change_key_def Let_def split: option.split)

lemma select_chain_inv: "key_inv s \<Longrightarrow> key_inv (select_chain v s)"
  by (auto simp: key_inv_def select_chain_def Let_def split: option.split)

lemma loadData_ok: "key_inv s \<Longrightarrow> wp_ok (loadData mid s)"
  by (auto simp: loadData_def idle_def truthy_iff)

lemma card_ok:
  assumes "key_inv s" and "ws_mode s = Overview"
  shows "wp_ok (handleCardClick chain s)"
proof (cases "getWalletForChain chain s")
  case None
  then show ?thesis using assms by (simp add: handleCardClick_def key_inv_def)
next
  case (Some w)
  let ?s = "s\<lparr>selectedWallet := Some w, selectedBlockchain := chain, ws_mode := Detail\<rparr>"
  have "key_inv ?s" using assms by (simp add: key_inv_def)
  then show ?thesis using Some by (auto simp: handleCardClick_def loadFirstAddress_def idle_def truthy_iff)
qed

lemma submit_ok: "key_inv s \<Longrightarrow> wp_ok (handleSubmitImport s)"
  by (auto simp: handleSubmitImport_def idle_def truthy_iff key_inv_def dest: detect_path)

lemma wp_on_ok: "key_inv s \<Longrightarrow> wp_ok (wp_on v s)"
  by (cases v) (auto simp: idle_def loadData_ok card_ok submit_ok change_key_inv select_chain_inv key_inv_mode
      split: option.split wallet_mode.split, auto simp: key_inv_def)

lemma addresses_inv: "key_inv s \<Longrightarrow> key_inv (fst (got_addresses a s))"
  by (induction a s rule: got_addresses.induct) (auto split: list.split)

lemma wp_resume_ok:
  assumes "key_inv s"
  shows "wp_ok (wp_resume k a s)"
proof (cases k)
  case Loaded
  with assms show ?thesis by (induction a s rule: got_data.induct) (auto simp: key_inv_def)
next
  case GotAddresses
  then have "snd (wp_resume k a s) = []" by (induction a s rule: got_addresses.induct) auto
  with GotAddresses addresses_inv [OF assms] show ?thesis by (simp add: ok_outcome_def)
next
  case (WalletDeleted m)
  with assms show ?thesis by (cases a) (auto simp: delete_failed_def)
next
  case ListedAfterDelete
  with assms show ?thesis by (induction a s rule: listed_after_delete.induct) (auto simp: delete_failed_def idle_def)
next
  case (Created m c)
  with assms show ?thesis by (auto simp: import_failed_def split: reply.split)
next
  case (ListedAfterCreate m c)
  with assms show ?thesis
    by (induction m c a s rule: listed_after_create.induct)
      (auto simp: import_failed_def idle_def split: option.split, auto simp: key_inv_def)
next
  case Derived
  with assms show ?thesis by (induction a s rule: derived.induct) (auto simp: key_inv_def)
next
  case (VerifyDeleted m)
  with assms show ?thesis by (cases a) auto
next
  case ListedAfterVerifyDelete
  with assms show ?thesis
  proof (cases a)
    case (Resolved x)
    with ListedAfterVerifyDelete assms show ?thesis by (cases x) (auto simp: key_inv_def idle_def)
  qed simp
qed

interpretation wp: safe_component wallet_component key_inv wp_request_ok "\<lambda>k. False" "\<lambda>e. True"
proof unfold_locales
  fix s show "ok_outcome key_inv wp_request_ok (\<lambda>k. False) (\<lambda>e. True) (c_mount wallet_component s)"
    by (simp add: loadData_ok key_inv_def fresh_wallet_page_def)
qed (auto simp: wp_on_ok wp_resume_ok wp_effects_def idle_def loadData_ok simp del: wp_on.simps wp_resume.simps)

section \<open>Properties\<close>

lemma wallet_reachable_ok:
  "areach wallet_component wallet_start w \<Longrightarrow> ok_world key_inv wp_request_ok (\<lambda>k. False) (\<lambda>e. True) w"
  by (erule wp.reachable_ok) (auto simp: wallet_start_def key_inv_def fresh_wallet_page_def)

text \<open>C11. A key is stored with the path of its format: in every run, whatever the order of typing,
  choosing a chain, switching tabs and late answers, a request that stores a key of a known format
  carries exactly the derivation path of that format, for a merchant and a chain that were chosen.\<close>

theorem key_path_consistent:
  assumes "areach wallet_component wallet_start w"
    and "(QCreate mid d, k) \<in> set (pending w)" and "detectKeyFormat (cx_xpub d) = Some f"
  shows "cx_derivationPath d = Some (kf_path f) \<and> mid \<noteq> [] \<and> cx_blockchain d \<noteq> []"
proof -
  have "wp_request_ok (QCreate mid d) k"
    using wallet_reachable_ok [OF assms(1)] assms(2) by (auto simp: ok_world_def)
  with assms(3) show ?thesis by (cases k) auto
qed

text \<open>A run that types a key and submits it.\<close>

definition sample_import :: "(wallet_page, wp_request, wp_cont, wp_effect) world" where
  "sample_import = foldl (\<lambda>w v. do_event wallet_component v w)
     (initial wallet_component (fresh_wallet_page (Some ''m1'')))
     [CardClick ''BTC'', ChangeKey ''zpub6'', SubmitImport]"

lemma sample_import_reach: "areach wallet_component wallet_start sample_import"
proof -
  have "areach wallet_component wallet_start (initial wallet_component (fresh_wallet_page (Some ''m1'')))"
    by (rule areach.start) (auto simp: wallet_start_def)
  then show ?thesis unfolding sample_import_def foldl_Cons foldl_Nil by (intro areach.step [OF _ astep.event])
qed

lemma zpub_format: "detectKeyFormat ''zpub6'' = Some \<lparr>kf_format = ''p2wpkh'',
    kf_label = ''Native SegWit (zpub) '' @ em_dash @ '' bc1q addresses'', kf_path = hd_path ''84'' ''0''\<rparr>"
  and zpub_trim: "js_trim ''zpub6'' = ''zpub6''"
  by (simp_all add: detectKeyFormat_def js_trim_def is_space_def key_formats_def find_first_def starts_with_def)

lemma sample_import_pending:
  "(QCreate ''m1'' \<lparr>cx_blockchain = ''BTC'', cx_xpub = ''zpub6'', cx_derivationPath = Some (hd_path ''84'' ''0'')\<rparr>,
     Created ''m1'' ''BTC'') \<in> set (pending sample_import)"
  by (simp add: sample_import_def initial_def loadData_def fresh_wallet_page_def do_event_def commit_def
      idle_def wp_effects_def handleCardClick_def getWalletForChain_def find_first_def change_key_def
      zpub_format zpub_trim handleSubmitImport_def hd_path_def)

theorem key_path_consistent_witness:
  "(QCreate ''m1'' \<lparr>cx_blockchain = ''BTC'', cx_xpub = ''zpub6'', cx_derivationPath = Some (hd_path ''84'' ''0'')\<rparr>,
     Created ''m1'' ''BTC'') \<in> set (pending sample_import)
   \<and> Some (hd_path ''84'' ''0'') = Some (kf_path (the (detectKeyFormat ''zpub6'')))"
  using key_path_consistent [OF sample_import_reach sample_import_pending] sample_import_pending
  by (simp add: zpub_format)

text \<open>An import that succeeded is reported as failed when the list that is read next cannot be
  loaded: after the answer that stores the key, a failure of the list raises the message of a failed
  import and nothing else, and the page stays on the form.\<close>

lemma import_misreported:
  assumes "i < length (pending w)" and "pending w ! i = (QCreate mid d, Created mid c)"
    and w1: "w1 = do_reply wallet_component i (Resolved RDone) w"
    and w2: "w2 = do_reply wallet_component (length (pending w) - 1) (Rejected e) w1"
  shows "trace w2 = trace w @ [WError ''Failed to import wallet''
      (or_else (we_body_message e) (or_else (we_body_error e) ''Please try again''))]
    \<and> ws_mode (wst w2) = ws_mode (wst w) \<and> pending w2 = drop_nth i (pending w)"
proof -
  let ?q = "(QWallets mid, ListedAfterCreate mid c)"
  have w1': "w1 = w\<lparr>pending := drop_nth i (pending w) @ [?q]\<rparr>"
    using assms(2) by (simp add: w1 do_reply_def commit_def wp_effects_def idle_def)
  have l: "length (drop_nth i (pending w)) = length (pending w) - 1"
    using assms(1) by (simp add: drop_nth_def)
  have d: "drop_nth (length xs) (xs @ [x]) = xs" for xs :: "(wp_request \<times> wp_cont) list" and x
    by (simp add: drop_nth_def)
  show ?thesis
    unfolding w2 w1' l [symmetric]
    by (simp add: do_reply_def commit_def import_failed_def wp_effects_def idle_def d)
qed

lemma import_misreported_example:
  "trace (do_reply wallet_component 0 (Rejected \<lparr>we_body_message = None, we_body_error = None\<rparr>)
     (do_reply wallet_component 0 (Resolved RDone)
       \<lparr>wst = fresh_wallet_page (Some ''m1''),
        pending = [(QCreate ''m1'' \<lparr>cx_blockchain = ''BTC'', cx_xpub = ''zpub6'', cx_derivationPath = None\<rparr>,
          Created ''m1'' ''BTC'')], timers = [], trace = []\<rparr>))
   = [WError ''Failed to import wallet'' ''Please try again'']"
proof -
  let ?w = "\<lparr>wst = fresh_wallet_page (Some ''m1''),
     pending = [(QCreate ''m1'' \<lparr>cx_blockchain = ''BTC'', cx_xpub = ''zpub6'', cx_derivationPath = None\<rparr>,
       Created ''m1'' ''BTC'')], timers = [], trace = []\<rparr> :: (wallet_page, wp_request, wp_cont, wp_effect) world"
  have "0 < length (pending ?w)"
    "pending ?w ! 0 = (QCreate ''m1'' \<lparr>cx_blockchain = ''BTC'', cx_xpub = ''zpub6'', cx_derivationPath = None\<rparr>,
       Created ''m1'' ''BTC'')" by simp_all
  from import_misreported [OF this refl refl, of "\<lparr>we_body_message = None, we_body_error = None\<rparr>"]
  show ?thesis by simp
qed

end
