(* ===== verification/Payments_Table.thy ===== *)
theory Payments_Table
  imports Dashboard_Types Markup
begin

text \<open>
  The table of payments of the dashboard and its export
  (ui-dashboard/src/pages/payments-page/payments-page.tsx), with the small components that its cells
  use (ui-dashboard/src/components/). Dates are formatted by a library: the two formatters of a time
  label are arguments of the views. The exported file is read back by a reader of comma-separated
  values that follows RFC 4180; it is the specification of the export and models no code.
\<close>

section \<open>Components of the cells\<close>

(* src: ui-dashboard/src/components/collapse-string/collapse-string.tsx 12-28 CollapseString *)
definition CollapseString :: "string \<Rightarrow> nat \<Rightarrow> string option \<Rightarrow> 'h ui" where
  "CollapseString s collapseAt popup =
     El ''Popover'' [(''content'', if truthy popup then the popup else s)] []
       [leaf ''span''
         (if length s > collapseAt * 2
          then slice s 0 (int collapseAt) @ ''...'' @ slice_from s (int (length s) - int collapseAt)
          else s)]"

(* src: ui-dashboard/src/components/payment-status/payment-status.tsx 8-25 PaymentStatusLabel *)
definition PaymentStatusLabel :: "dash_status \<Rightarrow> 'h ui" where
  "PaymentStatusLabel st =
     (case st of
        DPending \<Rightarrow> El ''Tag'' [(''color'', ''blue'')] [] [Txt ''Pending'']
      | DInProgress \<Rightarrow> El ''Tag'' [(''color'', ''orange'')] [] [Txt ''In Progress'']
      | DSuccess \<Rightarrow> El ''Tag'' [(''color'', ''green'')] [] [Txt ''Success'']
      | DUnderpaid \<Rightarrow> El ''Tag'' [(''color'', ''gold'')] [] [Txt ''Underpaid'']
      | DFailed \<Rightarrow> El ''Tag'' [(''color'', ''red'')] [] [Txt ''Failed''])"

(* src: ui-dashboard/src/components/time-label/time-label.tsx 10-23 TimeLabel *)
definition TimeLabel :: "(string \<Rightarrow> string) \<Rightarrow> (string \<Rightarrow> string) \<Rightarrow> string \<Rightarrow> 'h ui" where
  "TimeLabel local utc time = CollapseString (local time) 20 (Some (utc time @ '' UTC''))"

(* src: ui-dashboard/src/components/drawer-form/drawer-form.tsx 13-33 DrawerForm *)
definition DrawerForm :: "string \<Rightarrow> bool \<Rightarrow> 'h \<Rightarrow> bool \<Rightarrow> 'h ui list \<Rightarrow> 'h ui" where
  "DrawerForm title isOpen close hasCloseBtn body =
     El ''Drawer'' [(''title'', title), (''open'', bool_attr isOpen)] [(''onClose'', close)]
       (when_ui hasCloseBtn [El ''Button'' [] [(''onClick'', close)] [Txt ''Close'']] @ when_ui isOpen body)"

section \<open>Cells\<close>

(* src: ui-dashboard/src/pages/payments-page/payments-page.tsx 23-30 displayPrice *)
definition displayPrice :: "dash_payment \<Rightarrow> string" where
  "displayPrice r =
     (case CURRENCY_SYMBOL (dp_currency r) of
        Some s \<Rightarrow> (if s \<noteq> [] then s else dp_currency r @ '' '')
      | None \<Rightarrow> dp_currency r @ '' '') @ dp_price r"

(* src: ui-dashboard/src/pages/payments-page/payments-page.tsx 32-35 truncateHash *)
definition truncateHash :: "string \<Rightarrow> string" where
  "truncateHash h = (if length h \<le> 18 then h else slice h 0 10 @ ''...'' @ slice_from h (- 8))"

text \<open>The chain \<open>record.additionalInfo?.payment?.field\<close>.\<close>

definition payment_info_of :: "dash_payment \<Rightarrow> additional_payment option" where
  "payment_info_of r = Option.bind (additionalInfo r) ai_payment"

definition info_field :: "(additional_payment \<Rightarrow> string option) \<Rightarrow> dash_payment \<Rightarrow> string option" where
  "info_field f r = Option.bind (payment_info_of r) f"

(* src: ui-dashboard/src/pages/payments-page/payments-page.tsx 62-67 cryptoAmount *)
definition crypto_cell :: "dash_payment \<Rightarrow> 'h ui list" where
  "crypto_cell r =
     when_ui (truthy (info_field ap_cryptoAmount r))
       [leaf ''span'' (the (info_field ap_cryptoAmount r) @ '' ''
          @ (case info_field cryptoTicker r of None \<Rightarrow> [] | Some t \<Rightarrow> t))]"

(* src: ui-dashboard/src/pages/payments-page/payments-page.tsx 84-100 transactionHash *)
definition hash_cell :: "dash_payment \<Rightarrow> 'h ui list" where
  "hash_cell r =
     when_ui (truthy (info_field transactionHash r))
       [wrap ''span'' (Txt (truncateHash (the (info_field transactionHash r)))
          # when_ui (truthy (info_field explorerLink r))
              [comp ''a'' [(''href'', the (info_field explorerLink r))]])]"

(* src: ui-dashboard/src/pages/payments-page/payments-page.tsx 37-117 columns *)
definition columns :: "(string \<Rightarrow> string) \<Rightarrow> (string \<Rightarrow> string) \<Rightarrow> (string \<times> (dash_payment \<Rightarrow> 'h ui list)) list" where
  "columns local utc =
     [(''Created At'', \<lambda>r. [TimeLabel local utc (dp_createdAt r)]),
      (''Status'', \<lambda>r. [PaymentStatusLabel (dp_status r)]),
      (''Fiat Amount'', \<lambda>r. [leaf ''span'' (displayPrice r)]),
      (''Crypto Amount'', crypto_cell),
      (''Crypto'', \<lambda>r. when_ui (truthy (info_field (\<lambda>i. Some (selectedCurrency i)) r))
         [leaf ''Tag'' (the (info_field (\<lambda>i. Some (selectedCurrency i)) r))]),
      (''Tx Hash'', hash_cell),
      (''Order ID'', \<lambda>r. [CollapseString (or_else (orderId r) ''Not provided'') 12 None]),
      (''Description'', \<lambda>r. when_ui (truthy (dp_description r)) [CollapseString (the (dp_description r)) 32 None])]"

section \<open>Export\<close>

definition status_text :: "dash_status \<Rightarrow> string" where
  "status_text st = (case st of DPending \<Rightarrow> ''pending'' | DInProgress \<Rightarrow> ''inProgress'' | DSuccess \<Rightarrow> ''success''
     | DFailed \<Rightarrow> ''failed'' | DUnderpaid \<Rightarrow> ''underpaid'')"

(* src: ui-dashboard/src/pages/payments-page/payments-page.tsx 186-203 headers *)
definition csv_headers :: "string list" where
  "csv_headers = [''Date'', ''Payment ID'', ''Status'', ''Customer Email'', ''Fiat Amount'', ''Currency'',
     ''Crypto Amount'', ''Crypto Ticker'', ''Crypto'', ''Service Fee'', ''Network Fee'', ''Tx Hash'',
     ''Explorer Link'', ''Sender Address'', ''Order ID'', ''Description'']"

(* src: ui-dashboard/src/pages/payments-page/payments-page.tsx 204-221 rows *)
definition csv_row :: "dash_payment \<Rightarrow> string list" where
  "csv_row p =
     (let info = (\<lambda>f. or_else (info_field f p) []) in
      [dp_createdAt p, dp_id p, status_text (dp_status p), info (\<lambda>i. Some (customerEmail i)), dp_price p,
       dp_currency p, info ap_cryptoAmount, info cryptoTicker, info (\<lambda>i. Some (selectedCurrency i)),
       info (\<lambda>i. Some (ap_serviceFee i)), info networkFee, info transactionHash, info explorerLink,
       info senderAddress, or_else (orderId p) [], or_else (dp_description p) []])"

definition quote_char :: char where
  "quote_char = CHR 34"

definition newline_char :: char where
  "newline_char = CHR 10"

text \<open>The replacement of every quote by two.\<close>

(* src: ui-dashboard/src/pages/payments-page/payments-page.tsx 222-222 replace *)
definition double_quotes :: "string \<Rightarrow> string" where
  "double_quotes s = concat (map (\<lambda>c. if c = quote_char then [quote_char, quote_char] else [c]) s)"

(* src: ui-dashboard/src/pages/payments-page/payments-page.tsx 222-222 String *)
definition csv_field :: "string \<Rightarrow> string" where
  "csv_field v = quote_char # double_quotes v @ [quote_char]"

(* src: ui-dashboard/src/pages/payments-page/payments-page.tsx 222-222 csv *)
definition csv_text :: "string list list \<Rightarrow> string" where
  "csv_text rows = join_with [newline_char] (map (\<lambda>r. join_with '','' (map csv_field r)) rows)"

text \<open>The name of the file has the date of the day, the first ten characters of the ISO time.\<close>

(* src: ui-dashboard/src/pages/payments-page/payments-page.tsx 185-230 exportCSV *)
definition exportCSV :: "string \<Rightarrow> dash_payment list \<Rightarrow> string \<times> string" where
  "exportCSV isoNow payments =
     (''payments-'' @ slice isoNow 0 10 @ ''.csv'', csv_text (csv_headers # map csv_row payments))"

section \<open>A reader of comma-separated values\<close>

text \<open>The rest of a quoted field: two quotes are one, a single one ends it.\<close>

fun read_quoted :: "string \<Rightarrow> (string \<times> string) option" where
  "read_quoted [] = None"
| "read_quoted (c # cs) =
     (if c = quote_char
      then (case cs of [] \<Rightarrow> Some ([], [])
            | d # ds \<Rightarrow> if d = quote_char then map_option (\<lambda>(f, r). (quote_char # f, r)) (read_quoted ds)
                else Some ([], d # ds))
      else map_option (\<lambda>(f, r). (c # f, r)) (read_quoted cs))"

text \<open>A field, quoted or not.\<close>

definition read_field :: "string \<Rightarrow> (string \<times> string) option" where
  "read_field s =
     (case s of
        c # cs \<Rightarrow> if c = quote_char then read_quoted cs
          else Some (takeWhile (\<lambda>d. d \<notin> {CHR '','', newline_char}) s, dropWhile (\<lambda>d. d \<notin> {CHR '','', newline_char}) s)
      | [] \<Rightarrow> Some ([], []))"

lemma read_quoted_shorter: "read_quoted s = Some (f, r) \<Longrightarrow> length r < length s"
  by (induction s arbitrary: f r rule: read_quoted.induct)
     (fastforce split: if_splits list.splits simp: less_Suc_eq_le)+

lemma read_field_shorter: "read_field s = Some (f, r) \<Longrightarrow> length r \<le> length s"
  using read_quoted_shorter [of "tl s" f r]
  by (auto simp: read_field_def length_dropWhile_le le_SucI less_imp_le split: list.splits if_splits)

text \<open>The records of a text.\<close>

function csv_parse :: "string \<Rightarrow> string list list option" where
  "csv_parse s =
     (case read_field s of
        None \<Rightarrow> None
      | Some (f, []) \<Rightarrow> Some [[f]]
      | Some (f, c # r) \<Rightarrow>
          if c = CHR '',''
          then (case csv_parse r of Some (row # rows) \<Rightarrow> Some ((f # row) # rows) | _ \<Rightarrow> None)
          else if c = newline_char then map_option (\<lambda>rows. [f] # rows) (csv_parse r)
          else None)"
  by pat_completeness auto
termination
  by (relation "measure length") (auto dest: read_field_shorter)

declare csv_parse.simps [simp del]

section \<open>Lemmas\<close>

lemma chars_differ [simp]:
  "quote_char \<noteq> CHR '',''" "quote_char \<noteq> newline_char" "newline_char \<noteq> quote_char" "newline_char \<noteq> CHR '',''"
  "CHR '','' \<noteq> quote_char"
  by (simp_all add: quote_char_def newline_char_def)

lemma double_quotes_simps [simp]:
  "double_quotes [] = []"
  "double_quotes (c # cs) = (if c = quote_char then [quote_char, quote_char] else [c]) @ double_quotes cs"
  by (simp_all add: double_quotes_def)

lemma read_quoted_back:
  "rest = [] \<or> hd rest \<noteq> quote_char \<Longrightarrow> read_quoted (double_quotes v @ quote_char # rest) = Some (v, rest)"
  by (induction v) (auto split: list.split)

lemma read_field_back:
  "rest = [] \<or> hd rest \<noteq> quote_char \<Longrightarrow> read_field (csv_field v @ rest) = Some (v, rest)"
  by (simp add: read_field_def csv_field_def read_quoted_back)

text \<open>The three ways in which a field ends.\<close>

lemma parse_ends:
  "read_field s = Some (v, []) \<Longrightarrow> csv_parse s = Some [[v]]"
  "read_field s = Some (v, CHR '','' # r) \<Longrightarrow> csv_parse r = Some (row # rows) \<Longrightarrow> csv_parse s = Some ((v # row) # rows)"
  "read_field s = Some (v, newline_char # r) \<Longrightarrow> csv_parse r = Some rows \<Longrightarrow> csv_parse s = Some ([v] # rows)"
  by (simp_all add: csv_parse.simps [of s])

lemma parse_row_end: "r \<noteq> [] \<Longrightarrow> csv_parse (join_with '','' (map csv_field r)) = Some [r]"
proof (induction r rule: induct_list012)
  case (2 v)
  then show ?case using read_field_back [of "[]" v] by (simp add: parse_ends(1))
next
  case (3 v u vs)
  let ?rest = "join_with '','' (map csv_field (u # vs))"
  have "read_field (csv_field v @ CHR '','' # ?rest) = Some (v, CHR '','' # ?rest)" by (rule read_field_back) simp
  moreover have "csv_parse ?rest = Some [u # vs]" using 3 by blast
  ultimately show ?case using parse_ends(2) by simp
qed simp

lemma parse_row:
  assumes "csv_parse rest = Some rows"
  shows "r \<noteq> [] \<Longrightarrow> csv_parse (join_with '','' (map csv_field r) @ newline_char # rest) = Some (r # rows)"
proof (induction r rule: induct_list012)
  case (2 v)
  have "read_field (csv_field v @ newline_char # rest) = Some (v, newline_char # rest)"
    by (rule read_field_back) simp
  then show ?case using parse_ends(3) assms by simp
next
  case (3 v u vs)
  let ?rest = "join_with '','' (map csv_field (u # vs)) @ newline_char # rest"
  have "read_field (csv_field v @ CHR '','' # ?rest) = Some (v, CHR '','' # ?rest)" by (rule read_field_back) simp
  moreover have "csv_parse ?rest = Some ((u # vs) # rows)" using 3 by blast
  ultimately show ?case using parse_ends(2) by simp
qed simp

lemma parse_text: "rows \<noteq> [] \<Longrightarrow> [] \<notin> set rows \<Longrightarrow> csv_parse (csv_text rows) = Some rows"
proof (induction rows rule: induct_list012)
  case (3 r q qs)
  from 3(2,4) have "csv_parse (csv_text (q # qs)) = Some (q # qs)" by simp
  moreover have "r \<noteq> []" using 3(4) by auto
  ultimately show ?case using parse_row [of "csv_text (q # qs)" "q # qs" r] by (simp add: csv_text_def)
qed (simp_all add: csv_text_def parse_row_end)

section \<open>Properties\<close>

text \<open>C15. The export loses nothing: a reader of comma-separated values gets back the header and one
  record of sixteen fields for every payment of the table, in its order, whatever quotes, commas and
  line breaks the fields contain.\<close>

theorem export_round_trip:
  "csv_parse (snd (exportCSV isoNow payments)) = Some (csv_headers # map csv_row payments)
   \<and> length csv_headers = 16 \<and> list_all (\<lambda>r. length r = 16) (map csv_row payments)"
proof -
  have "[] \<notin> set (csv_headers # map csv_row payments)" by (auto simp: csv_headers_def csv_row_def Let_def)
  then show ?thesis
    by (simp add: exportCSV_def parse_text list_all_iff csv_headers_def csv_row_def Let_def)
qed

end
