(* ===== verification/Payment_Card.thy ===== *)
theory Payment_Card
  imports Async Payments_Table Dashboard_Providers
begin

text \<open>
  The card with the details of a payment and the two decisions of a merchant on it
  (ui-dashboard/src/components/payment-desc-card/payment-desc-card.tsx), as an asynchronous component.
  A user acts only through what is on the screen: an event names a handler, and it runs when the
  rendered view has that handler. The card is opened for one payment and lives until the drawer that
  holds it is closed and destroys it, so its payment is given or, while the drawer closes, gone. Style
  classes are left out.
\<close>

section \<open>State and operations\<close>

(* src: ui-dashboard/src/components/payment-desc-card/payment-desc-card.tsx 67-75 PaymentDescCard *)
record pay_card =
  pc_merchantId :: "string option"
  pc_data :: "dash_payment option"
  resolveOpen :: bool
  resolveNotes :: string
  resolveTxHash :: string
  resolving :: bool
  declining :: bool
  declineOpen :: bool
  declineNotes :: string

datatype pc_handler =
    CopyPaymentUrl | CopyHash | CopySender
  | OpenResolve | CancelResolve | ConfirmResolve | TypeTxHash | TypeResolveNotes
  | OpenDecline | CancelDecline | ConfirmDecline | TypeDeclineNotes

datatype pc_cont = ResolveAnswer | DeclineAnswer

datatype pc_effect =
    PcSuccess string string
  | PcError string string
  | OnResolved
  | CopyText string

text \<open>The parts of a rejection that the handlers read.\<close>

record pc_error =
  ce_body_message :: "string option"
  ce_message :: "string option"

type_synonym pc_outcome = "(pay_card, string \<times> merchant_request, pc_cont, pc_effect) outcome"

text \<open>\<open>text || undefined\<close>\<close>

definition given :: "string \<Rightarrow> string option" where
  "given s = (if s = [] then None else Some s)"

(* src: ui-dashboard/src/components/payment-desc-card/payment-desc-card.tsx 85-92 handleResolve *)
definition handleResolve :: "pay_card \<Rightarrow> pc_outcome" where
  "handleResolve s =
     (case pc_data s of None \<Rightarrow> idle s | Some d \<Rightarrow>
        if \<not> truthy (pc_merchantId s) then idle s
        else (s\<lparr>resolving := True\<rparr>,
              [Await (the (pc_merchantId s), ResolvePayment (dp_id d) (given (resolveNotes s)) (given (resolveTxHash s)))
                 ResolveAnswer]))"

definition failure_text :: "pc_error \<Rightarrow> string" where
  "failure_text e = or_else (ce_body_message e) (or_else (ce_message e) ''Unknown error'')"

(* src: ui-dashboard/src/components/payment-desc-card/payment-desc-card.tsx 93-111 finally *)
fun resolved :: "(unit, pc_error) reply \<Rightarrow> pay_card \<Rightarrow> pc_outcome" where
  "resolved (Resolved u) s =
     (s\<lparr>resolveOpen := False, resolveNotes := [], resolveTxHash := [], resolving := False\<rparr>,
      [Emit (PcSuccess ''Payment resolved''
         ''Payment has been marked as successful. Webhook will be delivered.''), Emit OnResolved])"
| "resolved (Rejected e) s =
     (s\<lparr>resolving := False\<rparr>, [Emit (PcError ''Failed to resolve payment'' (failure_text e))])"

(* src: ui-dashboard/src/components/payment-desc-card/payment-desc-card.tsx 113-119 handleDecline *)
definition handleDecline :: "pay_card \<Rightarrow> pc_outcome" where
  "handleDecline s =
     (case pc_data s of None \<Rightarrow> idle s | Some d \<Rightarrow>
        if \<not> truthy (pc_merchantId s) then idle s
        else (s\<lparr>declining := True\<rparr>,
              [Await (the (pc_merchantId s), DeclinePayment (dp_id d) (given (declineNotes s))) DeclineAnswer]))"

(* src: ui-dashboard/src/components/payment-desc-card/payment-desc-card.tsx 120-137 finally *)
fun declined :: "(unit, pc_error) reply \<Rightarrow> pay_card \<Rightarrow> pc_outcome" where
  "declined (Resolved u) s =
     (s\<lparr>declineOpen := False, declineNotes := [], declining := False\<rparr>,
      [Emit (PcSuccess ''Payment declined'' ''Underpaid payment has been marked as failed.''), Emit OnResolved])"
| "declined (Rejected e) s =
     (s\<lparr>declining := False\<rparr>, [Emit (PcError ''Failed to decline payment'' (failure_text e))])"

section \<open>What the card shows\<close>

definition item :: "string \<Rightarrow> 'h ui list \<Rightarrow> 'h ui" where
  "item label body = El ''Descriptions.Item'' [(''label'', label)] [] body"

definition opt_item :: "string \<Rightarrow> string option \<Rightarrow> (string \<Rightarrow> 'h ui list) \<Rightarrow> 'h ui list" where
  "opt_item label v body = when_ui (truthy v) [item label (body (the v))]"

text \<open>This file cuts hashes at other places than the table does.\<close>

(* src: ui-dashboard/src/components/payment-desc-card/payment-desc-card.tsx 47-50 truncateHash *)
definition card_truncateHash :: "string \<Rightarrow> string" where
  "card_truncateHash h = (if length h \<le> 20 then h else slice h 0 12 @ ''...'' @ slice_from h (- 10))"

(* src: ui-dashboard/src/components/payment-desc-card/payment-desc-card.tsx 52-65 HashWithCopy *)
definition HashWithCopy :: "string \<Rightarrow> 'h \<Rightarrow> 'h ui" where
  "HashWithCopy v onCopy =
     wrap ''Space'' [leaf ''span'' (card_truncateHash v), El ''CopyOutlined'' [] [(''onClick'', onCopy)] []]"

definition act :: "string \<Rightarrow> pc_handler \<Rightarrow> pc_handler ui" where
  "act label h = El ''Button'' [] [(''onClick'', h)] [Txt label]"

(* src: ui-dashboard/src/components/payment-desc-card/payment-desc-card.tsx 144-233 Descriptions *)
definition card_details :: "(string \<Rightarrow> string) \<Rightarrow> (string \<Rightarrow> string) \<Rightarrow> dash_payment \<Rightarrow> pc_handler ui" where
  "card_details local utc d =
     (let info = (\<lambda>f. info_field f d) in
      wrap ''Descriptions''
       ([item ''ID'' (leaf ''span'' (dp_id d) # when_ui (isTest d) [leaf ''Tag'' ''test payment'']),
         item ''Status'' [PaymentStatusLabel (dp_status d)],
         item ''Created at'' [TimeLabel local utc (dp_createdAt d)],
         item ''Order ID'' [Txt (case orderId d of None \<Rightarrow> ''Not provided'' | Some i \<Rightarrow> i)],
         item ''Price'' [Txt (displayPrice d)],
         item ''Description'' [Txt (case dp_description d of None \<Rightarrow> ''Not provided'' | Some t \<Rightarrow> t)],
         item ''Payment URL''
           [leaf ''span'' (renderStrippedStr (case paymentUrl d of None \<Rightarrow> [] | Some u \<Rightarrow> u) 36 (- 10)),
            El ''CopyOutlined'' [] [(''onClick'', CopyPaymentUrl)] []]]
        @ opt_item ''Customer'' (info (\<lambda>i. Some (customerEmail i))) (\<lambda>t. [Txt t])
        @ opt_item ''Crypto Method'' (info (\<lambda>i. Some (selectedCurrency i))) (\<lambda>t. [leaf ''Tag'' t])
        @ opt_item ''Service Fee'' (info (\<lambda>i. Some (ap_serviceFee i))) (\<lambda>t. [Txt t])
        @ opt_item ''Network Fee'' (info networkFee) (\<lambda>t. [Txt t])
        @ opt_item ''Tx Hash'' (info transactionHash) (\<lambda>t. HashWithCopy t CopyHash
            # when_ui (truthy (info explorerLink)) [El ''a'' [(''href'', the (info explorerLink))] [] [Txt ''Explorer'']])
        @ opt_item ''Sender'' (info senderAddress) (\<lambda>t. [HashWithCopy t CopySender])))"

(* src: ui-dashboard/src/components/payment-desc-card/payment-desc-card.tsx 235-271 status *)
definition card_actions :: "dash_payment \<Rightarrow> pc_handler ui list" where
  "card_actions d =
     when_ui (dp_status d = DUnderpaid \<and> dp_type d = TPayment)
       [wrap ''Space'' [act ''Accept Payment'' OpenResolve, act ''Decline Payment'' OpenDecline],
        leaf ''div'' ''Customer sent less than the required amount. Funds are already in your wallet.'']
     @ when_ui (dp_status d = DFailed \<and> dp_type d = TPayment) [act ''Resolve Payment'' OpenResolve]"

(* src: ui-dashboard/src/components/payment-desc-card/payment-desc-card.tsx 274-310 resolveOpen *)
definition resolve_modal :: "pay_card \<Rightarrow> dash_payment \<Rightarrow> pc_handler ui" where
  "resolve_modal s d =
     (let under = (dp_status d = DUnderpaid) in
      El ''Modal'' [(''title'', if under then ''Accept Underpaid Payment'' else ''Resolve Payment''),
          (''open'', bool_attr (resolveOpen s)),
          (''okText'', if under then ''Accept Payment'' else ''Confirm Resolution''),
          (''confirmLoading'', bool_attr (resolving s))]
        (when_ui (resolveOpen s) [(''onCancel'', CancelResolve), (''onOk'', ConfirmResolve)])
        (when_ui (resolveOpen s)
          [wrap ''p'' (if under
             then [Txt ''This will mark the underpaid payment as '', leaf ''strong'' ''successful'',
                   Txt ''. The partial amount is already in your wallet.'']
             else [Txt ''This will mark the payment as '', leaf ''strong'' ''successful'',
                   Txt ('' and trigger the webhook notification. Use this when you have manually verified ''
                     @ ''the customer'' @ [CHR 39] @ ''s payment.'')]),
           leaf ''label'' ''Transaction Hash (optional)'',
           El ''Input'' [(''value'', resolveTxHash s)] [(''onChange'', TypeTxHash)] [],
           leaf ''label'' ''Notes (optional)'',
           El ''Input.TextArea'' [(''value'', resolveNotes s)] [(''onChange'', TypeResolveNotes)] []]))"

(* src: ui-dashboard/src/components/payment-desc-card/payment-desc-card.tsx 313-339 declineOpen *)
definition decline_modal :: "pay_card \<Rightarrow> pc_handler ui" where
  "decline_modal s =
     El ''Modal'' [(''title'', ''Decline Underpaid Payment''), (''open'', bool_attr (declineOpen s)),
         (''okText'', ''Decline Payment''), (''confirmLoading'', bool_attr (declining s))]
       (when_ui (declineOpen s) [(''onCancel'', CancelDecline), (''onOk'', ConfirmDecline)])
       (when_ui (declineOpen s)
         [wrap ''p'' [Txt ''This will mark the payment as '', leaf ''strong'' ''failed'',
            Txt (''. The partial amount already received remains in your wallet '' @ em_dash
              @ '' the system does not handle refunds for underpayments.'')],
          leaf ''label'' ''Notes (optional)'',
          El ''Input.TextArea'' [(''value'', declineNotes s)] [(''onChange'', TypeDeclineNotes)] []])"

(* src: ui-dashboard/src/components/payment-desc-card/payment-desc-card.tsx 139-343 data *)
definition card_view :: "(string \<Rightarrow> string) \<Rightarrow> (string \<Rightarrow> string) \<Rightarrow> pay_card \<Rightarrow> pc_handler ui list" where
  "card_view local utc s =
     when_ui (pc_data s = None) [comp ''Spin'' []]
     @ (case pc_data s of None \<Rightarrow> []
        | Some d \<Rightarrow> card_details local utc d # card_actions d @ [resolve_modal s d, decline_modal s])"

section \<open>Events\<close>

text \<open>The closures of the view; the text is what the user typed, for an input.\<close>

fun pc_run :: "pc_handler \<Rightarrow> string \<Rightarrow> pay_card \<Rightarrow> pc_outcome" where
  "pc_run CopyPaymentUrl t s =
     (s, [Emit (CopyText (case Option.bind (pc_data s) paymentUrl of None \<Rightarrow> [] | Some u \<Rightarrow> u))])"
| "pc_run CopyHash t s =
     (s, [Emit (CopyText (case Option.bind (pc_data s) (info_field transactionHash) of None \<Rightarrow> [] | Some h \<Rightarrow> h))])"
| "pc_run CopySender t s =
     (s, [Emit (CopyText (case Option.bind (pc_data s) (info_field senderAddress) of None \<Rightarrow> [] | Some h \<Rightarrow> h))])"
| "pc_run OpenResolve t s = idle (s\<lparr>resolveOpen := True\<rparr>)"
| "pc_run CancelResolve t s = idle (s\<lparr>resolveOpen := False\<rparr>)"
| "pc_run ConfirmResolve t s = handleResolve s"
| "pc_run TypeTxHash t s = idle (s\<lparr>resolveTxHash := t\<rparr>)"
| "pc_run TypeResolveNotes t s = idle (s\<lparr>resolveNotes := t\<rparr>)"
| "pc_run OpenDecline t s = idle (s\<lparr>declineOpen := True\<rparr>)"
| "pc_run CancelDecline t s = idle (s\<lparr>declineOpen := False\<rparr>)"
| "pc_run ConfirmDecline t s = handleDecline s"
| "pc_run TypeDeclineNotes t s = idle (s\<lparr>declineNotes := t\<rparr>)"

text \<open>What can happen to the card: the user acts, the drawer closes, another merchant is selected.\<close>

datatype pc_event = Act pc_handler string | DrawerClosed | MerchantSelected "string option"

fun pc_on :: "pc_event \<Rightarrow> pay_card \<Rightarrow> pc_outcome" where
  "pc_on (Act h t) s = (if h \<in> set (handlers_of (card_view id id s)) then pc_run h t s else idle s)"
| "pc_on DrawerClosed s = idle (s\<lparr>pc_data := None\<rparr>)"
| "pc_on (MerchantSelected m) s = idle (s\<lparr>pc_merchantId := m\<rparr>)"

fun pc_resume :: "pc_cont \<Rightarrow> (unit, pc_error) reply \<Rightarrow> pay_card \<Rightarrow> pc_outcome" where
  "pc_resume ResolveAnswer a s = resolved a s"
| "pc_resume DeclineAnswer a s = declined a s"

definition fresh_card :: "string option \<Rightarrow> dash_payment \<Rightarrow> pay_card" where
  "fresh_card m d = \<lparr>pc_merchantId = m, pc_data = Some d, resolveOpen = False, resolveNotes = [],
     resolveTxHash = [], resolving = False, declining = False, declineOpen = False, declineNotes = []\<rparr>"

definition card_component where
  "card_component = \<lparr>c_mount = idle, c_event = pc_on, c_resume = pc_resume, c_timer = (\<lambda>k s. idle s),
     c_effect = (\<lambda>old s. idle s), c_fits = (\<lambda>(q :: string \<times> merchant_request) (r :: (unit, pc_error) reply). True)\<rparr>"

definition card_start :: "dash_payment \<Rightarrow> pay_card \<Rightarrow> bool" where
  "card_start d s \<longleftrightarrow> (\<exists>m. s = fresh_card m d)"

section \<open>Lemmas\<close>

lemma card_component_simps [simp]:
  "c_mount card_component = idle" "c_event card_component = pc_on" "c_resume card_component = pc_resume"
  "c_timer card_component = (\<lambda>k s. idle s)" "c_effect card_component = (\<lambda>old s. idle s)"
  "c_fits card_component = (\<lambda>q r. True)"
  by (auto simp: card_component_def)

text \<open>What the open dialogs say about the payment.\<close>

definition decidable_as :: "dash_payment \<Rightarrow> merchant_request \<Rightarrow> bool" where
  "decidable_as d q \<longleftrightarrow> dp_type d = TPayment \<and>
     (case q of
        ResolvePayment i notes tx \<Rightarrow> i = dp_id d \<and> dp_status d \<in> {DFailed, DUnderpaid} \<and> notes \<noteq> Some [] \<and> tx \<noteq> Some []
      | DeclinePayment i notes \<Rightarrow> i = dp_id d \<and> dp_status d = DUnderpaid \<and> notes \<noteq> Some []
      | _ \<Rightarrow> False)"

definition card_inv :: "dash_payment \<Rightarrow> pay_card \<Rightarrow> bool" where
  "card_inv d s \<longleftrightarrow> pc_data s \<in> {None, Some d}
     \<and> (resolveOpen s \<longrightarrow> dp_type d = TPayment \<and> dp_status d \<in> {DFailed, DUnderpaid})
     \<and> (declineOpen s \<longrightarrow> dp_type d = TPayment \<and> dp_status d = DUnderpaid)"

definition card_request_ok :: "dash_payment \<Rightarrow> string \<times> merchant_request \<Rightarrow> pc_cont \<Rightarrow> bool" where
  "card_request_ok d q k \<longleftrightarrow> fst q \<noteq> [] \<and> decidable_as d (snd q)"

abbreviation "card_ok d \<equiv> ok_outcome (card_inv d) (card_request_ok d) (\<lambda>k. False) (\<lambda>e. True)"

lemma cell_handlers [simp]:
  "ui_handlers (PaymentStatusLabel st) = []" "ui_handlers (TimeLabel local utc t) = []"
  "ui_handlers (item l b) = handlers_of b"
  "handlers_of (opt_item l v f) = when_ui (truthy v) (handlers_of (f (the v)))"
  "ui_handlers (HashWithCopy x h) = [h]" "ui_handlers (act l h') = [h']"
  by (auto simp: PaymentStatusLabel_def TimeLabel_def CollapseString_def item_def opt_item_def HashWithCopy_def
      act_def when_ui_def handlers_of_def split: dash_status.split)

lemma details_handlers: "set (ui_handlers (card_details local utc d)) \<subseteq> {CopyPaymentUrl, CopyHash, CopySender}"
  by (auto simp: card_details_def Let_def when_ui_def handlers_of_def opt_item_def split: if_splits)

lemma actions_handlers:
  "set (handlers_of (card_actions d))
    = {h. dp_type d = TPayment \<and> (h = OpenResolve \<and> dp_status d \<in> {DFailed, DUnderpaid} \<or> h = OpenDecline \<and> dp_status d = DUnderpaid)}"
  by (auto simp: card_actions_def when_ui_def)

lemma modal_handlers:
  "set (ui_handlers (resolve_modal s d))
    \<subseteq> {h. resolveOpen s \<and> h \<in> {CancelResolve, ConfirmResolve, TypeTxHash, TypeResolveNotes}}"
  "set (ui_handlers (decline_modal s)) \<subseteq> {h. declineOpen s \<and> h \<in> {CancelDecline, ConfirmDecline, TypeDeclineNotes}}"
  by (auto simp: resolve_modal_def decline_modal_def Let_def when_ui_def)

lemma view_handlers:
  assumes "h \<in> set (handlers_of (card_view local utc s))"
  shows "h \<in> {CopyPaymentUrl, CopyHash, CopySender}
    \<or> (\<exists>d. pc_data s = Some d \<and>
         (h = OpenResolve \<and> dp_type d = TPayment \<and> dp_status d \<in> {DFailed, DUnderpaid}
          \<or> h = OpenDecline \<and> dp_type d = TPayment \<and> dp_status d = DUnderpaid
          \<or> h \<in> {CancelResolve, ConfirmResolve, TypeTxHash, TypeResolveNotes} \<and> resolveOpen s
          \<or> h \<in> {CancelDecline, ConfirmDecline, TypeDeclineNotes} \<and> declineOpen s))"
proof (cases "pc_data s")
  case None
  then show ?thesis using assms by (simp add: card_view_def when_ui_def)
next
  case (Some d)
  then have "h \<in> set (ui_handlers (card_details local utc d)) \<or> h \<in> set (handlers_of (card_actions d))
      \<or> h \<in> set (ui_handlers (resolve_modal s d)) \<or> h \<in> set (ui_handlers (decline_modal s))"
    using assms by (auto simp: card_view_def when_ui_def)
  then show ?thesis
    using details_handlers [of local utc d] actions_handlers [of d] modal_handlers(1) [of s d] modal_handlers(2) [of s] Some by auto
qed

lemma card_run_ok:
  assumes "card_inv d s" and "h \<in> set (handlers_of (card_view id id s))"
  shows "card_ok d (pc_run h t s)"
  using view_handlers [OF assms(2)] assms(1)
  by (cases h) (auto simp: card_inv_def idle_def handleResolve_def handleDecline_def card_request_ok_def
      decidable_as_def given_def truthy_iff)

lemma card_on_ok: "card_inv d s \<Longrightarrow> card_ok d (pc_on v s)"
  by (cases v) (auto simp: card_run_ok idle_def card_inv_def simp del: pc_run.simps)

lemma card_resume_ok: "card_inv d s \<Longrightarrow> card_ok d (pc_resume k a s)"
  by (cases k; cases a) (auto simp: card_inv_def)

text \<open>The card keeps its invariant for the payment it was opened for.\<close>

interpretation card: safe_component card_component "card_inv d" "card_request_ok d" "\<lambda>k. False" "\<lambda>e. True" for d
  by unfold_locales (auto simp: card_on_ok card_resume_ok idle_def simp del: pc_on.simps)

lemma card_reachable_ok:
  "areach card_component (card_start d) w \<Longrightarrow> ok_world (card_inv d) (card_request_ok d) (\<lambda>k. False) (\<lambda>e. True) w"
  by (erule card.reachable_ok) (auto simp: card_start_def card_inv_def fresh_card_def)

section \<open>Properties\<close>

text \<open>C12. A merchant decides only what is open to decision: whatever the user does and in whatever order
  the answers arrive, a card sends a request to resolve a payment only for the payment it shows and
  only if that is an incoming payment that failed or was underpaid, a request to decline only for an
  underpaid one, always for a selected merchant, and never with an empty note or hash in place of
  none.\<close>

theorem decisions_guarded:
  assumes "areach card_component (card_start d) w" and "((mid, q), k) \<in> set (pending w)"
  shows "mid \<noteq> [] \<and> dp_type d = TPayment
    \<and> ((\<exists>notes tx. q = ResolvePayment (dp_id d) notes tx \<and> notes \<noteq> Some [] \<and> tx \<noteq> Some [])
         \<and> dp_status d \<in> {DFailed, DUnderpaid}
       \<or> (\<exists>notes. q = DeclinePayment (dp_id d) notes \<and> notes \<noteq> Some []) \<and> dp_status d = DUnderpaid)"
proof -
  have "card_request_ok d (mid, q) k"
    using card_reachable_ok [OF assms(1)] assms(2) by (auto simp: ok_world_def)
  then show ?thesis by (cases q) (auto simp: card_request_ok_def decidable_as_def)
qed

definition sample_order :: dash_payment where
  "sample_order = \<lparr>additionalInfo = None, dp_id = ''p1'', orderId = None, dp_type = TPayment,
     dp_status = DUnderpaid, dp_createdAt = [], dp_currency = ''USD'', dp_price = ''10'', redirectUrl = None,
     paymentUrl = None, dp_description = None, isTest = False\<rparr>"

definition sample_decision :: "(pay_card, string \<times> merchant_request, pc_cont, pc_effect) world" where
  "sample_decision = foldl (\<lambda>w v. do_event card_component v w)
     (initial card_component (fresh_card (Some ''m1'') sample_order))
     [Act OpenDecline [], Act TypeDeclineNotes ''no'', Act ConfirmDecline []]"

lemma sample_decision_reach: "areach card_component (card_start sample_order) sample_decision"
proof -
  have "areach card_component (card_start sample_order) (initial card_component (fresh_card (Some ''m1'') sample_order))"
    by (rule areach.start) (auto simp: card_start_def)
  then show ?thesis unfolding sample_decision_def foldl_Cons foldl_Nil by (intro areach.step [OF _ astep.event])
qed

theorem decisions_guarded_witness:
  "((''m1'', DeclinePayment ''p1'' (Some ''no'')), DeclineAnswer) \<in> set (pending sample_decision)
   \<and> dp_status sample_order = DUnderpaid"
proof -
  have p: "((''m1'', DeclinePayment ''p1'' (Some ''no'')), DeclineAnswer) \<in> set (pending sample_decision)"
    by (simp add: sample_decision_def initial_def idle_def do_event_def commit_def fresh_card_def sample_order_def
        card_view_def card_actions_def resolve_modal_def decline_modal_def when_ui_def handleDecline_def given_def)
  from decisions_guarded [OF sample_decision_reach p] p show ?thesis by auto
qed

end
