(* ===== verification/Queries.thy ===== *)
theory Queries
  imports Dashboard_Providers
begin

text \<open>
  The hooks over react-query (ui-dashboard/src/queries/). A hook names the key of its cache entry,
  the request that fills it and when it is enabled; a mutation names its request and the keys it
  marks as stale one second after it succeeded. react-query itself is not modelled: what a hook
  relies on (which pages an infinite query asks for, which pages a partial refetch asks again) is a
  hypothesis of the lemmas that need it.
\<close>

section \<open>Lists\<close>

record hook_query =
  hq_key :: string
  hq_request :: scoped_request
  hq_enabled :: bool
  hq_retry :: nat

definition list_query :: "string \<Rightarrow> scoped_request \<Rightarrow> string option \<Rightarrow> hook_query" where
  "list_query key q mid = \<lparr>hq_key = key, hq_request = q, hq_enabled = truthy mid, hq_retry = 2\<rparr>"

(* src: ui-dashboard/src/queries/address-queries.ts 8-22 listAddresses *)
definition listAddresses :: "string option \<Rightarrow> hook_query" where
  "listAddresses = list_query ''listAddresses'' (AddressReq ListAddresses)"

(* src: ui-dashboard/src/queries/payment-link-queries.ts 8-22 listPaymentLinks *)
definition listPaymentLinks :: "string option \<Rightarrow> hook_query" where
  "listPaymentLinks = list_query ''listPaymentLinks'' (LinkReq ListPaymentLinks)"

(* src: ui-dashboard/src/queries/token-quries.ts 8-22 listTokens *)
definition listTokens :: "string option \<Rightarrow> hook_query" where
  "listTokens = list_query ''listTokens'' (TokenReq ListTokens)"

(* src: ui-dashboard/src/queries/balances-queries.ts 11-25 listBalances *)
definition listBalances :: "string option \<Rightarrow> hook_query" where
  "listBalances = list_query ''listBalances'' (BalanceReq ListBalances)"

section \<open>Pages\<close>

text \<open>The constant \<open>PAGE_SIZE\<close> of the three files with pages.\<close>

(* src: ui-dashboard/src/queries/payments-queries.ts 7-7 PAGE_SIZE *)
definition PAGE_SIZE :: nat where
  "PAGE_SIZE = 50"

text \<open>The parameter of a page; later pages have a cursor only.\<close>

record page_param =
  pa_cursor :: string
  pa_type :: "payment_type option"

definition next_page_param :: "string \<Rightarrow> page_param option" where
  "next_page_param cursor = (if cursor = [] then None else Some \<lparr>pa_cursor = cursor, pa_type = None\<rparr>)"

text \<open>The request of a page of payments of a kind. The default of the parameter, which names the
  kind, holds only where the parameter is missing, on the first page.\<close>

definition page_request :: "payment_type \<Rightarrow> page_param option \<Rightarrow> list_payment_params" where
  "page_request kind pageParam =
     (let p = (case pageParam of None \<Rightarrow> \<lparr>pa_cursor = [], pa_type = Some kind\<rparr> | Some p \<Rightarrow> p)
      in \<lparr>lp_limit = Some PAGE_SIZE, lp_cursor = Some (pa_cursor p), lp_reverseOrder = Some True,
          lp_type = pa_type p\<rparr>)"

(* src: ui-dashboard/src/queries/payments-queries.ts 10-22 listPayments *)
definition listPayments :: "page_param option \<Rightarrow> list_payment_params" where
  "listPayments = page_request TPayment"

(* src: ui-dashboard/src/queries/payments-queries.ts 26-33 getNextPageParam *)
definition payments_next :: "payments_page \<Rightarrow> page_param option" where
  "payments_next lastPage = next_page_param (pgn_cursor lastPage)"

(* src: ui-dashboard/src/queries/balances-queries.ts 27-39 listWithdrawal *)
definition listWithdrawal :: "page_param option \<Rightarrow> list_payment_params" where
  "listWithdrawal = page_request TWithdrawal"

(* src: ui-dashboard/src/queries/balances-queries.ts 43-50 getNextPageParam *)
definition withdrawals_next :: "payments_page \<Rightarrow> page_param option" where
  "withdrawals_next lastPage = next_page_param (pgn_cursor lastPage)"

(* src: ui-dashboard/src/queries/customer-queries.ts 9-20 listCustomers *)
definition listCustomers :: "page_param option \<Rightarrow> list_customers_params" where
  "listCustomers pageParam =
     \<lparr>lc_limit = Some PAGE_SIZE, lc_cursor = Some (case pageParam of None \<Rightarrow> [] | Some p \<Rightarrow> pa_cursor p),
      lc_reverseOrder = Some True\<rparr>"

(* src: ui-dashboard/src/queries/customer-queries.ts 24-31 getNextPageParam *)
definition customers_next :: "customers_page \<Rightarrow> page_param option" where
  "customers_next lastPage = next_page_param (cpg_cursor lastPage)"

section \<open>Mutations\<close>

text \<open>A mutation sends a request; the ones that change a list wait a second after its success and
  mark the entries of the keys as stale.\<close>

record 'p mutation =
  mu_request :: "'p \<Rightarrow> scoped_request"
  mu_wait :: nat
  mu_invalidates :: "string list"

definition reading :: "('p \<Rightarrow> scoped_request) \<Rightarrow> 'p mutation" where
  "reading q = \<lparr>mu_request = q, mu_wait = 0, mu_invalidates = []\<rparr>"

definition changing :: "string list \<Rightarrow> ('p \<Rightarrow> scoped_request) \<Rightarrow> 'p mutation" where
  "changing keys q = \<lparr>mu_request = q, mu_wait = 1000, mu_invalidates = keys\<rparr>"

(* src: ui-dashboard/src/queries/address-queries.ts 24-41 createAddress *)
definition createAddress :: "address_params mutation" where
  "createAddress = changing [''listAddresses''] (\<lambda>p. AddressReq (CreateAddress p))"

(* src: ui-dashboard/src/queries/address-queries.ts 43-60 updateAddress *)
definition updateAddress :: "merchant_address mutation" where
  "updateAddress = changing [''listAddresses''] (\<lambda>p. AddressReq (UpdateAddress (ma_id p) (ma_name p)))"

(* src: ui-dashboard/src/queries/address-queries.ts 62-79 deleteAddress *)
definition deleteAddress :: "string mutation" where
  "deleteAddress = changing [''listAddresses''] (\<lambda>i. AddressReq (DeleteAddress i))"

(* src: ui-dashboard/src/queries/payment-link-queries.ts 24-41 createPaymentLink *)
definition createPaymentLink :: "link_params mutation" where
  "createPaymentLink = changing [''listPaymentLinks''] (\<lambda>p. LinkReq (CreatePaymentLink p))"

(* src: ui-dashboard/src/queries/payment-link-queries.ts 43-60 deletePaymentLink *)
definition deletePaymentLink :: "string mutation" where
  "deletePaymentLink = changing [''listPaymentLinks''] (\<lambda>i. LinkReq (DeletePaymentLink i))"

(* src: ui-dashboard/src/queries/token-quries.ts 24-41 createToken *)
definition createToken :: "string mutation" where
  "createToken = changing [''listTokens''] (\<lambda>n. TokenReq (CreateToken n))"

(* src: ui-dashboard/src/queries/token-quries.ts 43-60 deleteToken *)
definition deleteToken :: "string mutation" where
  "deleteToken = changing [''listTokens''] (\<lambda>i. TokenReq (DeleteToken i))"

(* src: ui-dashboard/src/queries/payments-queries.ts 39-56 createPayment *)
definition createPayment :: "payment_params mutation" where
  "createPayment = changing [''listPayments''] (\<lambda>p. MerchantReq (CreatePayment p))"

(* src: ui-dashboard/src/queries/payments-queries.ts 58-64 getPayment *)
definition getPayment :: "string mutation" where
  "getPayment = reading (\<lambda>i. MerchantReq (MerchantGetPayment i))"

(* src: ui-dashboard/src/queries/balances-queries.ts 56-76 createWithdrawal *)
definition createWithdrawal :: "withdrawal mutation" where
  "createWithdrawal = changing [''listWithdrawal'', ''listBalances''] (\<lambda>w. BalanceReq (CreateWithdrawal w))"

(* src: ui-dashboard/src/queries/balances-queries.ts 78-84 getServiceFee *)
definition getServiceFee :: "string mutation" where
  "getServiceFee = reading (\<lambda>b. BalanceReq (GetServiceFee b))"

(* src: ui-dashboard/src/queries/balances-queries.ts 86-92 getExchangeRate *)
definition getExchangeRate :: "convert_params mutation" where
  "getExchangeRate = reading (\<lambda>c. BalanceReq (GetCurrencyExchangeRate c None))"

(* src: ui-dashboard/src/queries/customer-queries.ts 37-43 getCustomer *)
definition getCustomer :: "string mutation" where
  "getCustomer = reading (\<lambda>i. MerchantReq (GetCustomerDetails i))"

text \<open>The pages of an invalidated infinite query that are asked again: the last one only.\<close>

(* src: ui-dashboard/src/queries/payments-queries.ts 50-52 refetchPage *)
definition refetchPage :: "nat \<Rightarrow> 'p list \<Rightarrow> bool" where
  "refetchPage index allPages \<longleftrightarrow> index = length allPages - 1"

section \<open>What the hooks rely on\<close>

text \<open>
  The documented contract of an infinite query: the first page is asked without a parameter, and the
  next one, when the user asks for it, with the parameter that the hook computes from the last page,
  as long as there is one.
\<close>

inductive fetched :: "('q option \<Rightarrow> 'p) \<Rightarrow> ('p \<Rightarrow> 'q option) \<Rightarrow> 'p list \<Rightarrow> bool" for ask "next" where
  first: "fetched ask next [ask None]"
| more: "fetched ask next ps \<Longrightarrow> next (last ps) = Some q \<Longrightarrow> fetched ask next (ps @ [ask (Some q)])"

text \<open>The contract of a list of the server: from the cursor on (from the start for an empty one), at
  most as many items as asked for, and the identifier of the first item left out as the next cursor.\<close>

definition from_cursor :: "('a \<Rightarrow> string) \<Rightarrow> 'a list \<Rightarrow> string \<Rightarrow> 'a list" where
  "from_cursor ident xs c = (if c = [] then xs else dropWhile (\<lambda>x. ident x \<noteq> c) xs)"

definition cursor_after :: "('a \<Rightarrow> string) \<Rightarrow> 'a list \<Rightarrow> nat \<Rightarrow> string" where
  "cursor_after ident xs n = (if n < length xs then ident (xs ! n) else [])"

definition serves_customers :: "(list_customers_params \<Rightarrow> customers_page) \<Rightarrow> dash_customer list \<Rightarrow> bool" where
  "serves_customers serve xs \<longleftrightarrow>
     (\<forall>p n c. lc_limit p = Some n \<longrightarrow> lc_cursor p = Some c \<longrightarrow> lc_reverseOrder p = Some True \<longrightarrow>
        cpg_results (serve p) = take n (from_cursor cu_id xs c)
        \<and> cpg_cursor (serve p) = cursor_after cu_id (from_cursor cu_id xs c) n)"

section \<open>Lemmas\<close>

lemma fetched_nonempty: "fetched ask next ps \<Longrightarrow> ps \<noteq> []"
  by (induction rule: fetched.induct) auto

lemma fetched_next:
  "fetched ask next ps \<Longrightarrow> Suc i < length ps \<Longrightarrow> \<exists>q. next (ps ! i) = Some q \<and> ps ! Suc i = ask (Some q)"
proof (induction rule: fetched.induct)
  case (more ps q)
  show ?case
  proof (cases "Suc i < length ps")
    case True
    then show ?thesis using more.IH by (simp add: nth_append)
  next
    case False
    then have "Suc i = length ps" using more.prems by simp
    moreover from this have "ps ! i = last ps" using fetched_nonempty [OF more.hyps(1)]
      by (metis diff_Suc_1 last_conv_nth)
    ultimately show ?thesis using more.hyps(2) by (simp add: nth_append)
  qed
qed simp

lemma fetched_first: "fetched ask next ps \<Longrightarrow> ps ! 0 = ask None"
proof (induction rule: fetched.induct)
  case (more ps q)
  then show ?case using fetched_nonempty [OF more.hyps(1)] by (simp add: nth_append)
qed simp

lemma from_cursor_nth:
  assumes "distinct (map ident xs)" and "[] \<notin> set (map ident xs)" and "i < length xs"
  shows "from_cursor ident xs (ident (xs ! i)) = drop i xs"
proof -
  have "ident (xs ! i) \<noteq> []" using assms(2,3) by (metis length_map nth_map nth_mem)
  moreover have "dropWhile (\<lambda>x. ident x \<noteq> ident (xs ! i)) xs = drop i xs"
    using assms(1,3)
  proof (induction xs arbitrary: i)
    case (Cons x xs)
    show ?case
    proof (cases i)
      case (Suc j)
      then have "xs ! j \<in> set xs" using Cons.prems by simp
      then have "ident x \<noteq> ident (xs ! j)" using Cons.prems by force
      then show ?thesis using Cons Suc by simp
    qed (use Cons in simp)
  qed simp
  ultimately show ?thesis by (simp add: from_cursor_def)
qed

text \<open>The pages of a list with the contract of the server are its slices in order.\<close>

lemma fetched_slices:
  assumes contract: "\<And>q. results (ask q) = take n (from_cursor ident xs (case q of None \<Rightarrow> [] | Some p \<Rightarrow> pa_cursor p))
      \<and> cur (ask q) = cursor_after ident (from_cursor ident xs (case q of None \<Rightarrow> [] | Some p \<Rightarrow> pa_cursor p)) n"
    and ids: "distinct (map ident xs)" "[] \<notin> set (map ident xs)"
    and f: "fetched ask (\<lambda>p. next_page_param (cur p)) ps"
  shows "concat (map results ps) = take (n * length ps) xs
    \<and> cur (last ps) = cursor_after ident xs (n * length ps)"
  using f
proof (induction rule: fetched.induct)
  case first
  then show ?case using contract [of None] by (simp add: from_cursor_def)
next
  case (more ps q)
  let ?m = "n * length ps"
  from more have q: "cur (last ps) \<noteq> []" "pa_cursor q = cur (last ps)"
    by (auto simp: next_page_param_def split: if_splits)
  with more.IH have m: "?m < length xs" "cur (last ps) = ident (xs ! ?m)"
    by (auto simp: cursor_after_def split: if_splits)
  have "from_cursor ident xs (pa_cursor q) = drop ?m xs"
    using from_cursor_nth [OF ids m(1)] q m by simp
  then have "results (ask (Some q)) = take n (drop ?m xs)" "cur (ask (Some q)) = cursor_after ident (drop ?m xs) n"
    using contract [of "Some q"] by simp_all
  moreover have "cursor_after ident (drop ?m xs) n = cursor_after ident xs (?m + n)"
    by (auto simp: cursor_after_def)
  moreover have "take ?m xs @ take n (drop ?m xs) = take (?m + n) xs" by (simp add: take_add)
  ultimately show ?case using more.IH by (simp add: algebra_simps)
qed

section \<open>Properties\<close>

text \<open>Paging through the customers loses nothing and repeats nothing: with a server that keeps its
  contract of cursors, the pages shown after any number of steps are the beginning of the list in the
  order of the server, and the button for more is off exactly when the list is complete.\<close>

lemma customers_paged:
  assumes "serves_customers serve xs" and "distinct (map cu_id xs)" and "[] \<notin> set (map cu_id xs)"
    and "fetched (\<lambda>q. serve (listCustomers q)) customers_next ps"
  shows "concat (map cpg_results ps) = take (PAGE_SIZE * length ps) xs
    \<and> (customers_next (last ps) = None \<longleftrightarrow> concat (map cpg_results ps) = xs)"
proof -
  have c: "cpg_results (serve (listCustomers q))
        = take PAGE_SIZE (from_cursor cu_id xs (case q of None \<Rightarrow> [] | Some p \<Rightarrow> pa_cursor p))
      \<and> cpg_cursor (serve (listCustomers q))
        = cursor_after cu_id (from_cursor cu_id xs (case q of None \<Rightarrow> [] | Some p \<Rightarrow> pa_cursor p)) PAGE_SIZE" for q
    using assms(1) unfolding serves_customers_def by (auto simp: listCustomers_def)
  have f: "fetched (\<lambda>q. serve (listCustomers q)) (\<lambda>p. next_page_param (cpg_cursor p)) ps"
    using assms(4) by (simp add: customers_next_def [abs_def])
  note s = fetched_slices [OF c assms(2,3) f]
  have "cursor_after cu_id xs m = [] \<longleftrightarrow> length xs \<le> m" for m
  proof -
    have "cu_id (xs ! m) \<noteq> []" if "m < length xs" using assms(3) nth_mem [OF that] by force
    then show ?thesis by (auto simp: cursor_after_def)
  qed
  then have "cpg_cursor (last ps) = [] \<longleftrightarrow> take (PAGE_SIZE * length ps) xs = xs"
    using s by (auto simp: take_all_iff)
  then show ?thesis using s by (simp add: customers_next_def next_page_param_def)
qed

lemma customers_paged_example:
  "let c = \<lparr>cu_createdAt = [], cu_details = None, cu_email = ''a@b'', cu_id = ''1''\<rparr>;
       page = \<lparr>cpg_cursor = [], cpg_limit = 50, cpg_results = [c]\<rparr>
   in concat (map cpg_results [page]) = [c] \<and> customers_next page = None"
proof -
  define c where "c = \<lparr>cu_createdAt = [], cu_details = None, cu_email = ''a@b'', cu_id = ''1''\<rparr>"
  define serve :: "list_customers_params \<Rightarrow> customers_page" where
    "serve = (\<lambda>p. let r = from_cursor cu_id [c] (case lc_cursor p of None \<Rightarrow> [] | Some d \<Rightarrow> d);
                      n = (case lc_limit p of None \<Rightarrow> 50 | Some n \<Rightarrow> n)
                  in \<lparr>cpg_cursor = cursor_after cu_id r n, cpg_limit = n, cpg_results = take n r\<rparr>)"
  have s: "serves_customers serve [c]" by (simp add: serves_customers_def serve_def Let_def)
  have p: "serve (listCustomers None) = \<lparr>cpg_cursor = [], cpg_limit = 50, cpg_results = [c]\<rparr>"
    by (simp add: serve_def listCustomers_def from_cursor_def cursor_after_def PAGE_SIZE_def)
  have "fetched (\<lambda>q. serve (listCustomers q)) customers_next [serve (listCustomers None)]"
    by (rule fetched.first)
  from customers_paged [OF s _ _ this] show ?thesis
    unfolding p by (simp add: c_def PAGE_SIZE_def)
qed

text \<open>The filter of the payment list holds on its first page only: that page asks for payments,
  and every later one, asked with the cursor of the page before, names no kind at all, so that the
  server, which lists every kind when none is named, answers with withdrawals among the payments. The
  list of withdrawals has the same flaw.\<close>

lemma later_pages_untyped:
  assumes "(query, following, kind) \<in> {(listPayments, payments_next, TPayment), (listWithdrawal, withdrawals_next, TWithdrawal)}"
    and "fetched (\<lambda>q. serve (query q)) following ps" and "Suc i < length ps"
  shows "ps ! 0 = serve (query None) \<and> lp_type (query None) = Some kind
    \<and> (\<exists>p. ps ! Suc i = serve p \<and> lp_cursor p = Some (pgn_cursor (ps ! i)) \<and> lp_type p = None
         \<and> ''type'' \<notin> fst ` set (req_params (merchant_http mid (ListPayments (Some p)))))"
proof -
  obtain q where q: "following (ps ! i) = Some q" "ps ! Suc i = serve (query (Some q))"
    using fetched_next [OF assms(2,3)] by blast
  then have "q = \<lparr>pa_cursor = pgn_cursor (ps ! i), pa_type = None\<rparr>"
    using assms(1) by (auto simp: payments_next_def withdrawals_next_def next_page_param_def split: if_splits)
  moreover have "query = page_request kind"
    using assms(1) by (auto simp: listPayments_def listWithdrawal_def)
  ultimately show ?thesis
    using q(2) fetched_first [OF assms(2)]
    by (auto simp: page_request_def list_payment_query_def opt_shown_def opt_param_def intro!: exI [of _ "page_request kind (Some q)"])
qed

lemma later_pages_untyped_example:
  "\<exists>p. lp_type p = None \<and> lp_cursor p = Some ''c1''
     \<and> ''type'' \<notin> fst ` set (req_params (merchant_http ''m1'' (ListPayments (Some p))))"
proof -
  let ?page = "\<lparr>pgn_limit = 50, pgn_cursor = ''c1'', pgn_results = []\<rparr>"
  have f: "fetched (\<lambda>q. (\<lambda>p. ?page) (listPayments q)) payments_next ([?page] @ [?page])"
    by (rule fetched.more [OF fetched.first]) (simp add: payments_next_def next_page_param_def)
  show ?thesis using later_pages_untyped [OF _ f, where kind = TPayment and i = 0 and mid = "''m1''"] by auto
qed

text \<open>After a payment was created only the last page is asked again, so when more than one page is
  shown the first one, where the newest payment belongs, stays as it was.\<close>

lemma created_payment_not_listed:
  assumes "\<And>i. i < length ps \<Longrightarrow> \<not> refetchPage i ps \<Longrightarrow> ps' ! i = ps ! i" and "2 \<le> length ps"
  shows "ps' ! 0 = ps ! 0"
proof (rule assms(1))
  show "0 < length ps" "\<not> refetchPage 0 ps" using assms(2) by (auto simp: refetchPage_def)
qed

end
