(* ===== verification/Payments_Page.thy ===== *)
theory Payments_Page
  imports Payment_Card Queries
begin

text \<open>
  The page of payments (ui-dashboard/src/pages/payments-page/payments-page.tsx) with its form
  (ui-dashboard/src/components/payment-add-form/payment-add-form.tsx) and the mutation that creates a
  payment (ui-dashboard/src/queries/payments-queries.ts), as an asynchronous component. What the hook of
  the list returns is an input of the page and changes by an event of its own; the orders that the page
  gives to the hook (fetch again, forget, fetch the next page, mark as stale) are effects.
\<close>

section \<open>State\<close>

(* src: ui-dashboard/src/pages/payments-page/payments-page.tsx 119-131 PaymentsPage *)
record orders_page =
  op_merchantId :: "string option"
  op_data :: "payments_page list option"
  op_isLoading :: bool
  op_hasNextPage :: bool
  op_isFormOpen :: bool
  openedCard :: "dash_payment list"
  op_payments :: "dash_payment list"
  op_isFormSubmitting :: bool

datatype op_cont = MountRefetch | CreateAnswer | CreatedWait | ResetFields

datatype op_effect =
    RefetchList
  | RemoveList
  | FetchNextPage
  | Invalidate "string list"
  | Notify string string
  | FormReset
  | Download string string

type_synonym op_outcome = "(orders_page, string \<times> scoped_request, op_cont, op_effect) outcome"

text \<open>\<open>flatten(pages.map(page => page.results))\<close>\<close>

definition rows_of :: "payments_page list option \<Rightarrow> dash_payment list" where
  "rows_of pages = concat (map pgn_results (case pages of None \<Rightarrow> [] | Some ps \<Rightarrow> ps))"

section \<open>Operations\<close>

(* src: ui-dashboard/src/pages/payments-page/payments-page.tsx 133-138 useMount *)
definition op_mounted :: "orders_page \<Rightarrow> op_outcome" where
  "op_mounted s = (if truthy (op_merchantId s) then (s, [After 1000 MountRefetch]) else idle s)"

(* src: ui-dashboard/src/pages/payments-page/payments-page.tsx 144-146 setPayments *)
definition show_data :: "orders_page \<Rightarrow> op_outcome" where
  "show_data s = idle (s\<lparr>op_payments := rows_of (op_data s)\<rparr>)"

(* src: ui-dashboard/src/pages/payments-page/payments-page.tsx 148-152 refetch *)
definition merchant_changed :: "orders_page \<Rightarrow> op_outcome" where
  "merchant_changed s = (if truthy (op_merchantId s) then (s, [Emit RefetchList]) else idle s)"

(* src: ui-dashboard/src/components/payment-add-form/payment-add-form.tsx 16-30 onSubmit *)
definition submitted_values :: "payment_params \<Rightarrow> payment_params" where
  "submitted_values v =
     v\<lparr>pp_redirectUrl := (if truthy (pp_redirectUrl v) then Some (''https://'' @ the (pp_redirectUrl v)) else None)\<rparr>"

(* src: ui-dashboard/src/pages/payments-page/payments-page.tsx 163-166 uploadCreatedPayment *)
definition uploadCreatedPayment :: "payment_params \<Rightarrow> orders_page \<Rightarrow> op_outcome" where
  "uploadCreatedPayment v s =
     (s\<lparr>op_isFormSubmitting := True\<rparr>,
      [Await (merchant_id_text (op_merchantId s), mu_request createPayment (submitted_values v)) CreateAnswer])"

text \<open>The answer to the request: a success waits for the time of the mutation; a failure ends the
  submission.\<close>

(* src: ui-dashboard/src/pages/payments-page/payments-page.tsx 166-166 mutateAsync *)
fun create_answer :: "(unit, unit) reply \<Rightarrow> orders_page \<Rightarrow> op_outcome" where
  "create_answer (Resolved u) s = (s, [After (mu_wait createPayment) CreatedWait])"
| "create_answer (Rejected e) s = idle (s\<lparr>op_isFormSubmitting := False\<rparr>)"

(* src: ui-dashboard/src/pages/payments-page/payments-page.tsx 166-170 setFormOpen *)
definition created :: "orders_page \<Rightarrow> op_outcome" where
  "created s =
     (s\<lparr>op_isFormOpen := False\<rparr>,
      [Emit (Invalidate (mu_invalidates createPayment)), Emit (Notify ''Payment was created'' []), After 1000 ResetFields])"

(* src: ui-dashboard/src/pages/payments-page/payments-page.tsx 171-177 finally *)
definition submission_over :: "orders_page \<Rightarrow> op_outcome" where
  "submission_over s = (s\<lparr>op_isFormSubmitting := False\<rparr>, [Emit FormReset])"

(* src: ui-dashboard/src/pages/payments-page/payments-page.tsx 179-183 changeIsCardOpen *)
definition changeIsCardOpen :: "bool \<Rightarrow> orders_page \<Rightarrow> orders_page" where
  "changeIsCardOpen v s = (if v then s else s\<lparr>openedCard := []\<rparr>)"

datatype op_event =
    ClickExport string
  | ClickNewPayment
  | ChangeFormOpen bool
  | SubmitForm payment_params
  | ClickRow dash_payment
  | ChangeCardOpen bool
  | CardResolved
  | ClickLoadMore
  | OpMerchant "string option"
  | ListResult "payments_page list option" bool bool

fun op_on :: "op_event \<Rightarrow> orders_page \<Rightarrow> op_outcome" where
  "op_on (ClickExport now) s = (s, [Emit (case exportCSV now (op_payments s) of (name, txt) \<Rightarrow> Download name txt)])"
| "op_on ClickNewPayment s = idle (s\<lparr>op_isFormOpen := True\<rparr>)"
| "op_on (ChangeFormOpen b) s = idle (s\<lparr>op_isFormOpen := b\<rparr>)"
| "op_on (SubmitForm v) s = uploadCreatedPayment v s"
| "op_on (ClickRow r) s = idle (s\<lparr>openedCard := [r]\<rparr>)"
| "op_on (ChangeCardOpen b) s = idle (changeIsCardOpen b s)"
| "op_on CardResolved s = (s\<lparr>openedCard := []\<rparr>, [Emit RefetchList])"
| "op_on ClickLoadMore s = (s, [Emit FetchNextPage])"
| "op_on (OpMerchant m) s = idle (s\<lparr>op_merchantId := m\<rparr>)"
| "op_on (ListResult ps loading hasNext) s =
     idle (s\<lparr>op_data := ps, op_isLoading := loading, op_hasNextPage := hasNext\<rparr>)"

fun op_resume :: "op_cont \<Rightarrow> (unit, unit) reply \<Rightarrow> orders_page \<Rightarrow> op_outcome" where
  "op_resume CreateAnswer a s = create_answer a s"
| "op_resume k a s = idle s"

(* src: ui-dashboard/src/pages/payments-page/payments-page.tsx 138-142 remove *)
fun op_timer :: "op_cont \<Rightarrow> orders_page \<Rightarrow> op_outcome" where
  "op_timer MountRefetch s = (s, [Emit RemoveList, Emit RefetchList])"
| "op_timer CreatedWait s = created s"
| "op_timer ResetFields s = submission_over s"
| "op_timer k s = idle s"

definition op_effects :: "orders_page \<Rightarrow> orders_page \<Rightarrow> op_outcome" where
  "op_effects old s =
     andThen (if op_data s = op_data old then idle s else show_data s)
       (\<lambda>s. if op_merchantId s = op_merchantId old then idle s else merchant_changed s)"

definition fresh_orders :: "string option \<Rightarrow> payments_page list option \<Rightarrow> orders_page" where
  "fresh_orders m ps = \<lparr>op_merchantId = m, op_data = ps, op_isLoading = True, op_hasNextPage = False,
     op_isFormOpen = False, openedCard = [], op_payments = rows_of ps, op_isFormSubmitting = False\<rparr>"

definition op_mount :: "orders_page \<Rightarrow> op_outcome" where
  "op_mount s = andThen (op_mounted (fresh_orders (op_merchantId s) (op_data s)))
     (\<lambda>s. andThen (show_data s) merchant_changed)"

definition orders_component where
  "orders_component = \<lparr>c_mount = op_mount,
     c_event = op_on, c_resume = op_resume, c_timer = op_timer, c_effect = op_effects,
     c_fits = (\<lambda>(q :: string \<times> scoped_request) (r :: (unit, unit) reply). True)\<rparr>"

definition orders_start :: "orders_page \<Rightarrow> bool" where
  "orders_start s \<longleftrightarrow> (\<exists>m ps. s = fresh_orders m ps)"

section \<open>What the page shows\<close>

datatype op_handler = HExport | HNewPayment | HLoadMore | HRow nat | HCloseForm | HCloseCard | HSubmit | HCancelForm

(* src: ui-dashboard/src/pages/payments-page/payments-page.tsx 249-283 Table *)
definition orders_table :: "(string \<Rightarrow> string) \<Rightarrow> (string \<Rightarrow> string) \<Rightarrow> orders_page \<Rightarrow> op_handler ui" where
  "orders_table local utc s =
     El ''Table'' [(''loading'', bool_attr (op_isLoading s))] []
       (wrap ''thead'' (map (\<lambda>(title, cell). leaf ''th'' title) (columns local utc :: (string \<times> (dash_payment \<Rightarrow> op_handler ui list)) list))
        # (if op_payments s = []
           then [wrap ''Result'' [Txt ''Your orders will be here'',
                  Txt ''To create an order, click to the button at the right top of the table'']]
           else map (\<lambda>(i, r). El ''tr'' [(''key'', dp_id r)] [(''onClick'', HRow i)]
                   (map (\<lambda>(title, cell). wrap ''td'' (cell r)) (columns local utc)))
                 (zip [0..<length (op_payments s)] (op_payments s)))
        @ [El ''Button'' [(''disabled'', bool_attr (\<not> op_hasNextPage s))] [(''onClick'', HLoadMore)] [Txt ''Load more'']])"

(* src: ui-dashboard/src/components/payment-add-form/payment-add-form.tsx 42-119 Form *)
definition payment_form :: "string \<Rightarrow> bool \<Rightarrow> op_handler ui" where
  "payment_form code isFormSubmitting =
     El ''Form'' [] [(''onFinish'', HSubmit)]
       [comp ''Input'' [(''name'', ''id''), (''hidden'', ''true'')],
        El ''Form.Item'' [(''label'', ''Price''), (''name'', ''price''), (''required'', ''Field is required''),
            (''type'', ''Incorrect number value'')] []
          [comp ''InputNumber'' [(''precision'', ''2''), (''min'', ''0''), (''max'', show_nat (10 ^ 7))]],
        El ''Form.Item'' [(''name'', ''currency''), (''required'', ''Field is required''), (''initialValue'', code)] []
          [wrap ''Select'' (map (\<lambda>(c, i). leaf ''option'' c) FIAT_CURRENCIES)],
        El ''Form.Item'' [(''label'', ''Order ID''), (''name'', ''orderId'')] []
          [leaf ''Text'' ''Optional order id inside your system'', comp ''Input'' [(''placeholder'', ''orders#abc123'')]],
        El ''Form.Item'' [(''label'', ''Description''), (''name'', ''description'')] []
          [comp ''Input.TextArea'' [(''placeholder'', ''Your description'')]],
        comp ''LinkInput'' [(''placeholder'', ''your-store.com/success''), (''label'', ''Customer redirect URL''),
          (''name'', ''redirectUrl''), (''required'', ''false'')],
        El ''Form.Item'' [(''name'', ''isTest'')] [] [leaf ''Checkbox'' ''Test payment''],
        leaf ''Text'' ''Test payments are processed using testnets like Ethereum Goerli'',
        El ''Button'' [(''disabled'', bool_attr isFormSubmitting), (''loading'', bool_attr isFormSubmitting),
          (''htmlType'', ''submit'')] [] [Txt ''Save''],
        El ''Button'' [] [(''onClick'', HCancelForm)] [Txt ''Cancel'']]"

(* src: ui-dashboard/src/pages/payments-page/payments-page.tsx 232-316 PageContainer *)
definition orders_view :: "(string \<Rightarrow> string) \<Rightarrow> (string \<Rightarrow> string) \<Rightarrow> string \<Rightarrow> orders_page \<Rightarrow> op_handler ui list" where
  "orders_view local utc code s =
     [leaf ''Title'' ''Payments'',
      El ''Button'' [] [(''onClick'', HExport)] [Txt ''Export CSV''],
      El ''Button'' [] [(''onClick'', HNewPayment)] [Txt ''New Payment''],
      orders_table local utc s,
      DrawerForm ''Create payment'' (op_isFormOpen s) HCloseForm False [payment_form code (op_isFormSubmitting s)],
      DrawerForm ''Payment details'' (openedCard s \<noteq> []) HCloseCard True
        (map (\<lambda>d. comp ''PaymentDescCard'' [(''data'', dp_id d)]) (take 1 (openedCard s)))]"

section \<open>Lemmas\<close>

lemma orders_component_simps [simp]:
  "c_mount orders_component = op_mount"
  "c_event orders_component = op_on" "c_resume orders_component = op_resume"
  "c_timer orders_component = op_timer" "c_effect orders_component = op_effects"
  "c_fits orders_component = (\<lambda>q r. True)"
  by (auto simp: orders_component_def)

lemma pieces_keep_rows [simp]:
  "op_payments (fst (op_on v s)) = op_payments s" "op_payments (fst (op_resume k a s)) = op_payments s"
  "op_payments (fst (op_timer k s)) = op_payments s"
  "op_data (fst (op_resume k a s)) = op_data s" "op_data (fst (op_timer k s)) = op_data s"
  by (cases v; simp add: idle_def uploadCreatedPayment_def changeIsCardOpen_def)
     (cases k; cases a; simp add: idle_def created_def submission_over_def)+

lemma effects_rows:
  "op_payments old = rows_of (op_data old) \<Longrightarrow> op_payments s = op_payments old \<Longrightarrow>
     op_payments (fst (op_effects old s)) = rows_of (op_data (fst (op_effects old s)))"
  by (simp add: op_effects_def show_data_def merchant_changed_def idle_def)

lemma orders_reachable_rows:
  assumes "areach orders_component orders_start w"
  shows "op_payments (wst w) = rows_of (op_data (wst w))"
  using assms
proof (induction rule: areach.induct)
  case (start s)
  then show ?case
    by (simp add: initial_def split_def op_mount_def op_mounted_def show_data_def merchant_changed_def idle_def)
next
  case (step w w')
  note e = effects_rows [OF step.IH]
  from step.hyps(2) show ?case
  proof (cases rule: astep.cases)
    case (event v)
    then show ?thesis by (cases "op_on v (wst w)") (use e pieces_keep_rows(1) [of v "wst w"] in
          \<open>simp add: do_event_def commit_wst del: pieces_keep_rows op_on.simps\<close>)
  next
    case (reply i r)
    let ?k = "snd (pending w ! i)"
    show ?thesis using reply(1) by (cases "op_resume ?k r (wst w)") (use e pieces_keep_rows(2) [of ?k r "wst w"] in
          \<open>simp add: do_reply_def commit_wst del: pieces_keep_rows op_resume.simps op_timer.simps\<close>)
  next
    case (timer i)
    let ?k = "snd (timers w ! i)"
    show ?thesis using timer(1) by (cases "op_timer ?k (wst w)") (use e pieces_keep_rows(3) [of ?k "wst w"] in
          \<open>simp add: do_timer_def commit_wst del: pieces_keep_rows op_resume.simps op_timer.simps\<close>)
  qed
qed

text \<open>While the form is locked a request or a wait of the submission is under way.\<close>

fun op_request_ok :: "string \<times> scoped_request \<Rightarrow> op_cont \<Rightarrow> bool" where
  "op_request_ok q k = (k = CreateAnswer \<and> (\<exists>v. snd q = MerchantReq (CreatePayment (submitted_values v))))"

abbreviation "orders_ok \<equiv> ok_outcome (\<lambda>s. True) op_request_ok (\<lambda>k. k \<noteq> CreateAnswer) (\<lambda>e. True)"

lemma orders_pieces_ok:
  "orders_ok (op_on v s)" "orders_ok (op_resume k a s)" "orders_ok (op_timer k s)" "orders_ok (op_effects old s)"
  "orders_ok (op_mount s)"
  by (cases v; auto simp: idle_def uploadCreatedPayment_def createPayment_def changing_def)
     (cases k; cases a; auto simp: idle_def created_def submission_over_def op_effects_def show_data_def
        merchant_changed_def op_mount_def op_mounted_def)+

lemma effects_submitting [simp]:
  "op_isFormSubmitting (fst (op_effects old s)) = op_isFormSubmitting s"
  by (simp add: op_effects_def show_data_def merchant_changed_def idle_def)

lemma effects_pair: "op_effects old s = (s', cs) \<Longrightarrow> op_isFormSubmitting s' = op_isFormSubmitting s"
  using effects_submitting [of old s] by simp

lemma mount_submitting [simp]: "\<not> op_isFormSubmitting (fst (op_mount s))"
  by (simp add: op_mount_def op_mounted_def show_data_def merchant_changed_def idle_def fresh_orders_def)

lemma mount_pair: "op_mount s = (s', cs) \<Longrightarrow> \<not> op_isFormSubmitting s'"
  using mount_submitting [of s] by simp

definition submission_wait :: "op_cont \<Rightarrow> bool" where
  "submission_wait k \<longleftrightarrow> k \<in> {CreatedWait, ResetFields}"

interpretation orders: live_component orders_component "\<lambda>s. True" op_request_ok "\<lambda>k. k \<noteq> CreateAnswer" "\<lambda>e. True"
  op_isFormSubmitting "\<lambda>k. k = CreateAnswer" submission_wait
proof unfold_locales
  fix s v s' cs
  assume a: "andThen (c_event orders_component v s) (c_effect orders_component s) = (s', cs)" "op_isFormSubmitting s'"
  show "wakes (\<lambda>k. k = CreateAnswer) submission_wait cs \<or> op_isFormSubmitting s"
  proof (cases "\<exists>p. v = SubmitForm p")
    case True
    then show ?thesis using a by (auto simp: uploadCreatedPayment_def wakes_simps)
  next
    case False
    have "s' = fst (op_effects s (fst (op_on v s)))"
      using a(1) by (cases "op_on v s") (auto simp del: op_on.simps)
    then have "op_isFormSubmitting (fst (op_on v s))" using a(2) by simp
    then show ?thesis using False by (cases v) (auto simp: idle_def changeIsCardOpen_def split: if_splits)
  qed
next
  fix s q k r s' cs
  assume a: "op_request_ok q k" "andThen (c_resume orders_component k r s) (c_effect orders_component s) = (s', cs)"
    "op_isFormSubmitting s'"
  then show "wakes (\<lambda>k. k = CreateAnswer) submission_wait cs \<or> op_isFormSubmitting s \<and> k \<noteq> CreateAnswer"
    by (cases r) (auto simp: idle_def wakes_simps submission_wait_def dest!: effects_pair)
next
  fix s k s' cs
  assume a: "andThen (c_timer orders_component k s) (c_effect orders_component s) = (s', cs)" "op_isFormSubmitting s'"
  then show "wakes (\<lambda>k. k = CreateAnswer) submission_wait cs \<or> op_isFormSubmitting s \<and> \<not> submission_wait k"
    by (cases k) (auto simp: idle_def created_def submission_over_def wakes_simps submission_wait_def dest!: effects_pair)
qed (use orders_pieces_ok in \<open>auto dest: mount_pair simp del: op_on.simps op_resume.simps op_timer.simps op_request_ok.simps\<close>)

section \<open>Properties\<close>

text \<open>The table shows the list: in every run the rows are those of the pages that the list has, in
  their order, and a payment that the user opens or exports is one of them as long as it is taken from
  the table.\<close>

lemma table_shows_pages:
  assumes "areach orders_component orders_start w"
  shows "op_payments (wst w) = concat (map pgn_results (case op_data (wst w) of None \<Rightarrow> [] | Some ps \<Rightarrow> ps))
    \<and> snd (op_on (ClickExport now) (wst w))
        = [Emit (Download (''payments-'' @ slice now 0 10 @ ''.csv'')
            (csv_text (csv_headers # map csv_row (rows_of (op_data (wst w))))))]"
  using orders_reachable_rows [OF assms] by (simp add: rows_of_def exportCSV_def)

lemma table_shows_pages_example:
  "snd (op_on (ClickExport ''2026-01-02T'') (wst (initial orders_component (fresh_orders None None))))
     = [Emit (Download ''payments-2026-01-02.csv'' (csv_text [csv_headers]))]"
proof -
  have "areach orders_component orders_start (initial orders_component (fresh_orders None None))"
    by (rule areach.start) (auto simp: orders_start_def)
  from table_shows_pages [OF this, of "''2026-01-02T''"] show ?thesis
    by (simp add: initial_def op_mount_def op_mounted_def show_data_def merchant_changed_def idle_def
        fresh_orders_def rows_of_def slice_def clamp_index_def)
qed

text \<open>C16. The form that creates a payment is never locked for good: in every run, while its button is
  disabled, the request of a submission is under way or one of the two waits that follow it.\<close>

theorem payment_form_unlocks:
  assumes "areach orders_component orders_start w" and "op_isFormSubmitting (wst w)"
  shows "(\<exists>(q, k) \<in> set (pending w). k = CreateAnswer) \<or> (\<exists>(t, k) \<in> set (timers w). k \<in> {CreatedWait, ResetFields})"
  using orders.reachable_awake [OF assms(1)] assms(2) by (auto simp: awake_def submission_wait_def)

theorem payment_form_unlocks_witness:
  "\<exists>w v. areach orders_component orders_start w \<and> op_isFormSubmitting (wst w)
     \<and> (\<exists>(q, k) \<in> set (pending w). k = CreateAnswer)
     \<and> w = do_event orders_component (SubmitForm v) (initial orders_component (fresh_orders (Some ''m1'') None))"
proof -
  define v where "v = \<lparr>pp_id = ''p1'', pp_orderId = None, pp_price = Fin 5, pp_currency = ''USD'',
     pp_redirectUrl = None, pp_isTest = None, pp_description = None\<rparr>"
  let ?i = "initial orders_component (fresh_orders (Some ''m1'') None)"
  let ?w = "do_event orders_component (SubmitForm v) ?i"
  have r: "areach orders_component orders_start ?w"
    by (rule areach.step [OF areach.start astep.event]) (auto simp: orders_start_def)
  have s: "op_isFormSubmitting (wst ?w)"
    by (simp add: do_event_def commit_wst uploadCreatedPayment_def)
  have t: "timers ?w = [(1000, MountRefetch)]"
    by (simp add: do_event_def commit_def uploadCreatedPayment_def op_effects_def initial_def op_mount_def
        op_mounted_def show_data_def merchant_changed_def idle_def fresh_orders_def)
  from payment_form_unlocks [OF r s] r s show ?thesis unfolding t by auto
qed

end
