(* ===== verification/Subscription_Page.thy ===== *)
theory Subscription_Page
  imports Async_History Dashboard_Providers Markup JS_Math
begin

text \<open>
  The page of the subscription plans
  (ui-dashboard/src/pages/subscription-page/subscription-page.tsx) as an asynchronous component. The
  three requests that the page waits for together are one request of the model, answered when the last
  one is: with the plans and, where the other two failed, with nothing in their place, or with the
  failure of the plans. A user acts through the rendered view: an event names a handler and runs when
  the view has it. Style classes are left out; \<open>loc\<close> and \<open>day\<close> format a number and a date for the
  user's locale.
\<close>

section \<open>State and requests\<close>

(* src: ui-dashboard/src/pages/subscription-page/subscription-page.tsx 26-33 SubscriptionPage *)
record sub_page =
  sb_merchantId :: "string option"
  sb_plans :: "subscription_plan list"
  sb_current :: "current_subscription option"
  sb_usageHistory :: "usage_info list"
  sb_loading :: bool
  sb_upgrading :: "string option"

datatype sb_request =
    QLoad string
  | QUpgrade string string string
  | QCancel string

text \<open>What waits for an answer: \<open>Loaded\<close> is told whether a running upgrade ends with it.\<close>

datatype sb_cont = Loaded bool | Upgraded string | Cancelled string

datatype sb_answer =
    AData "subscription_plan list option" "current_subscription option" "usage_info list option"
  | AUpgrade "string option"
  | AVoid

datatype sb_effect =
    SbSuccess string string
  | SbError string string
  | LeaveFor string

text \<open>The message of a rejection, \<open>e?.response?.data?.message\<close>.\<close>

type_synonym sb_error = "string option"

type_synonym sb_outcome = "(sub_page, sb_request, sb_cont, sb_effect) outcome"

text \<open>The HTTP requests behind a request.\<close>

fun sb_http :: "sb_request \<Rightarrow> http_request list" where
  "sb_http (QLoad mid) =
     [listPlans_http, subscription_http mid GetCurrentSubscription, subscription_http mid GetUsageHistory]"
| "sb_http (QUpgrade mid plan url) = [subscription_http mid (UpgradePlan plan (Some url))]"
| "sb_http (QCancel mid) = [subscription_http mid CancelSubscription]"

section \<open>Operations\<close>

(* src: ui-dashboard/src/pages/subscription-page/subscription-page.tsx 35-43 loadData *)
definition loadPlans :: "string option \<Rightarrow> bool \<Rightarrow> sub_page \<Rightarrow> sb_outcome" where
  "loadPlans merchantId ends s =
     (if truthy merchantId then (s\<lparr>sb_loading := True\<rparr>, [Await (QLoad (the merchantId)) (Loaded ends)])
      else idle s)"

text \<open>The list that the server sent, or an empty one: \<open>data || []\<close>.\<close>

definition or_nil :: "'a list option \<Rightarrow> 'a list" where
  "or_nil v = (case v of None \<Rightarrow> [] | Some xs \<Rightarrow> xs)"

definition upgrade_over :: "bool \<Rightarrow> sub_page \<Rightarrow> sub_page" where
  "upgrade_over ends s = (if ends then s\<lparr>sb_upgrading := None\<rparr> else s)"

(* src: ui-dashboard/src/pages/subscription-page/subscription-page.tsx 44-52 finally *)
fun plans_loaded :: "bool \<Rightarrow> (sb_answer, sb_error) reply \<Rightarrow> sub_page \<Rightarrow> sb_outcome" where
  "plans_loaded ends (Resolved (AData plans current history)) s =
     (upgrade_over ends (s\<lparr>sb_plans := or_nil plans, sb_current := current, sb_usageHistory := or_nil history,
        sb_loading := False\<rparr>), [])"
| "plans_loaded ends _ s = (upgrade_over ends (s\<lparr>sb_loading := False\<rparr>), [])"

(* src: ui-dashboard/src/pages/subscription-page/subscription-page.tsx 58-66 handleUpgrade *)
definition handleUpgrade :: "string \<Rightarrow> string \<Rightarrow> sub_page \<Rightarrow> sb_outcome" where
  "handleUpgrade origin planId s =
     (if truthy (sb_merchantId s)
      then (s\<lparr>sb_upgrading := Some planId\<rparr>,
        [Await (QUpgrade (the (sb_merchantId s)) planId (origin @ ''/dashboard/subscription''))
           (Upgraded (the (sb_merchantId s)))])
      else idle s)"

(* src: ui-dashboard/src/pages/subscription-page/subscription-page.tsx 67-87 payment_url *)
fun upgraded :: "string \<Rightarrow> (sb_answer, sb_error) reply \<Rightarrow> sub_page \<Rightarrow> sb_outcome" where
  "upgraded mid (Resolved (AUpgrade url)) s =
     (if truthy url then (s\<lparr>sb_upgrading := None\<rparr>, [Emit (LeaveFor (the url))])
      else andThen (s, [Emit (SbSuccess ''Plan activated'' ''Your subscription has been activated.'')])
             (loadPlans (Some mid) True))"
| "upgraded mid (Resolved _) s = idle (s\<lparr>sb_upgrading := None\<rparr>)"
| "upgraded mid (Rejected e) s =
     (s\<lparr>sb_upgrading := None\<rparr>, [Emit (SbError ''Upgrade failed'' (or_else e ''Failed to upgrade plan.''))])"

(* src: ui-dashboard/src/pages/subscription-page/subscription-page.tsx 89-92 handleCancel *)
definition handleCancel :: "sub_page \<Rightarrow> sb_outcome" where
  "handleCancel s =
     (if truthy (sb_merchantId s)
      then (s, [Await (QCancel (the (sb_merchantId s))) (Cancelled (the (sb_merchantId s)))])
      else idle s)"

(* src: ui-dashboard/src/pages/subscription-page/subscription-page.tsx 93-107 catch *)
fun cancelled :: "string \<Rightarrow> (sb_answer, sb_error) reply \<Rightarrow> sub_page \<Rightarrow> sb_outcome" where
  "cancelled mid (Resolved a) s =
     andThen (s, [Emit (SbSuccess ''Auto-renew cancelled''
        ''Your subscription will not renew at the end of the current period.'')]) (loadPlans (Some mid) False)"
| "cancelled mid (Rejected e) s =
     (s, [Emit (SbError ''Cancel failed'' (or_else e ''Failed to cancel subscription.''))])"

section \<open>Meters\<close>

definition plan_id_of :: "sub_page \<Rightarrow> string option" where
  "plan_id_of s = map_option si_plan_id (Option.bind (sb_current s) cs_subscription)"

definition usage_of :: "sub_page \<Rightarrow> usage_info option" where
  "usage_of s = Option.bind (sb_current s) cs_usage"

(* src: ui-dashboard/src/pages/subscription-page/subscription-page.tsx 121-121 currentPlan *)
definition currentPlan :: "sub_page \<Rightarrow> subscription_plan option" where
  "currentPlan s = find_first (\<lambda>p. Some (sp_id p) = plan_id_of s) (sb_plans s)"

text \<open>\<open>Math.min((used / limit) * 100, 100)\<close>\<close>

(* src: ui-dashboard/src/pages/subscription-page/subscription-page.tsx 128-134 volumePercent *)
definition percent_of :: "jsnum \<Rightarrow> jsnum \<Rightarrow> jsnum" where
  "percent_of used limit = js_min (js_mul (js_div used limit) (Fin 100)) (Fin 100)"

(* src: ui-dashboard/src/pages/subscription-page/subscription-page.tsx 124-124 volumeUsed *)
definition volumeUsed :: "sub_page \<Rightarrow> jsnum" where
  "volumeUsed s = parse_float (or_else (map_option payment_volume_usd (usage_of s)) ''0'')"

(* src: ui-dashboard/src/pages/subscription-page/subscription-page.tsx 125-127 volumeLimit *)
definition volumeLimit :: "sub_page \<Rightarrow> jsnum option" where
  "volumeLimit s =
     (case Option.bind (currentPlan s) max_volume_monthly_usd of
        None \<Rightarrow> None
      | Some v \<Rightarrow> if v = [] then None else Some (parse_float v))"

definition num_or_null_truthy :: "jsnum option \<Rightarrow> bool" where
  "num_or_null_truthy v = (case v of None \<Rightarrow> False | Some n \<Rightarrow> num_truthy n)"

(* src: ui-dashboard/src/pages/subscription-page/subscription-page.tsx 128-128 volumePercent *)
definition volumePercent :: "sub_page \<Rightarrow> jsnum" where
  "volumePercent s =
     (if num_or_null_truthy (volumeLimit s) then percent_of (volumeUsed s) (the (volumeLimit s)) else Fin 0)"

(* src: ui-dashboard/src/pages/subscription-page/subscription-page.tsx 129-129 volumeColor *)
definition volumeColor :: "sub_page \<Rightarrow> string" where
  "volumeColor s =
     (if js_less (Fin 90) (volumePercent s) then ''#ef4444''
      else if js_less (Fin 70) (volumePercent s) then ''#f59e0b'' else ''#10b981'')"

(* src: ui-dashboard/src/pages/subscription-page/subscription-page.tsx 132-132 paymentCount *)
definition paymentCount :: "sub_page \<Rightarrow> nat" where
  "paymentCount s = (case usage_of s of None \<Rightarrow> 0 | Some u \<Rightarrow> payment_count u)"

text \<open>A limit of zero is no limit, as a missing one.\<close>

(* src: ui-dashboard/src/pages/subscription-page/subscription-page.tsx 133-133 paymentLimit *)
definition paymentLimit :: "sub_page \<Rightarrow> int option" where
  "paymentLimit s = (case Option.bind (currentPlan s) max_payments_monthly of
     None \<Rightarrow> None | Some n \<Rightarrow> if n = 0 then None else Some n)"

(* src: ui-dashboard/src/pages/subscription-page/subscription-page.tsx 134-134 paymentPercent *)
definition paymentPercent :: "sub_page \<Rightarrow> jsnum" where
  "paymentPercent s =
     (case paymentLimit s of None \<Rightarrow> Fin 0
      | Some n \<Rightarrow> percent_of (Fin (of_nat (paymentCount s))) (Fin (of_int n)))"

(* src: ui-dashboard/src/pages/subscription-page/subscription-page.tsx 199-199 strokeColor *)
definition paymentColor :: "sub_page \<Rightarrow> string" where
  "paymentColor s = (if js_less (Fin 90) (paymentPercent s) then ''#ef4444'' else ''#10b981'')"

section \<open>What the page shows\<close>

datatype sb_handler = HCancelRenewal | HUpgrade string

(* src: ui-dashboard/src/pages/subscription-page/subscription-page.tsx 18-24 PLAN_ICONS *)
definition PLAN_ICONS :: "(string \<times> string) list" where
  "PLAN_ICONS = [(''free'', ''ThunderboltOutlined''), (''starter'', ''StarOutlined''), (''growth'', ''RocketOutlined''),
     (''business'', ''CrownOutlined''), (''enterprise'', ''CrownOutlined'')]"

(* src: ui-dashboard/src/pages/subscription-page/subscription-page.tsx 169-204 meters *)
definition meters :: "(jsnum \<Rightarrow> string) \<Rightarrow> sub_page \<Rightarrow> 'h ui list" where
  "meters loc s =
     [leaf ''span'' ''Volume'',
      leaf ''span'' (if num_or_null_truthy (volumeLimit s)
        then ''$'' @ loc (volumeUsed s) @ '' / $'' @ loc (the (volumeLimit s)) else ''$'' @ loc (volumeUsed s)),
      comp ''Progress'' [(''percent'', num_str (js_round (volumePercent s))), (''strokeColor'', volumeColor s)],
      leaf ''span'' ''Payments'',
      leaf ''span'' (case paymentLimit s of
          Some n \<Rightarrow> show_nat (paymentCount s) @ '' / '' @ loc (Fin (of_int n))
        | None \<Rightarrow> show_nat (paymentCount s)),
      comp ''Progress''
        [(''percent'', num_str (case paymentLimit s of Some n \<Rightarrow> js_round (paymentPercent s) | None \<Rightarrow> Fin 0)),
         (''strokeColor'', paymentColor s)]]"

(* src: ui-dashboard/src/pages/subscription-page/subscription-page.tsx 145-206 subscription *)
definition status_card :: "(jsnum \<Rightarrow> string) \<Rightarrow> (string \<Rightarrow> string) \<Rightarrow> sub_page \<Rightarrow> sb_handler ui list" where
  "status_card loc day s =
     (case Option.bind (sb_current s) cs_subscription of None \<Rightarrow> []
      | Some sub \<Rightarrow>
          [leaf ''span'' ''CURRENT PLAN'',
           leaf ''span'' (or_else (map_option plan_name (currentPlan s)) (si_plan_id sub)),
           leaf ''span'' (si_status sub)]
          @ when_ui (auto_renew sub \<and> si_status sub = ''active'')
              [leaf ''span'' (''Renews '' @ day (current_period_end sub)),
               El ''Button'' [] [(''onClick'', HCancelRenewal)] [Txt ''Cancel renewal'']]
          @ meters loc s)"

(* src: ui-dashboard/src/pages/subscription-page/subscription-page.tsx 213-213 isHigher *)
definition isHigher :: "sub_page \<Rightarrow> subscription_plan \<Rightarrow> bool" where
  "isHigher s plan \<longleftrightarrow> \<not> truthy (plan_id_of s)
     \<or> js_less (parse_float (or_else (map_option price_usd (currentPlan s)) ''0'')) (parse_float (price_usd plan))"

(* src: ui-dashboard/src/pages/subscription-page/subscription-page.tsx 249-282 features *)
definition plan_features :: "(jsnum \<Rightarrow> string) \<Rightarrow> subscription_plan \<Rightarrow> 'h ui list" where
  "plan_features loc plan =
     map (leaf ''span'')
       [(if truthy (max_volume_monthly_usd plan)
         then ''$'' @ loc (parse_float (the (max_volume_monthly_usd plan))) @ ''/mo volume'' else ''Unlimited volume''),
        (case max_payments_monthly plan of None \<Rightarrow> ''Unlimited payments''
         | Some n \<Rightarrow> show_int n @ ''/mo payments''),
        (if max_merchants plan = - 1 then ''Unlimited merchants''
         else show_int (max_merchants plan) @ '' merchant'' @ (if 1 < max_merchants plan then ''s'' else [])),
        (case max_api_calls_monthly plan of None \<Rightarrow> ''Unlimited API calls''
         | Some n \<Rightarrow> loc (Fin (of_int n)) @ ''/mo API calls'')]"

(* src: ui-dashboard/src/pages/subscription-page/subscription-page.tsx 284-300 isCurrent *)
definition plan_action :: "sub_page \<Rightarrow> subscription_plan \<Rightarrow> sb_handler ui" where
  "plan_action s plan =
     (if Some (sp_id plan) = plan_id_of s
      then El ''Button'' [(''disabled'', ''true'')] [] [Txt ''Current Plan'']
      else El ''Button'' [(''type'', if isHigher s plan then ''primary'' else ''default''),
             (''loading'', bool_attr (sb_upgrading s = Some (sp_id plan)))]
             [(''onClick'', HUpgrade (sp_id plan))] [Txt (if isHigher s plan then ''Upgrade'' else ''Switch'')])"

(* src: ui-dashboard/src/pages/subscription-page/subscription-page.tsx 211-303 plans *)
definition plan_card :: "(jsnum \<Rightarrow> string) \<Rightarrow> sub_page \<Rightarrow> subscription_plan \<Rightarrow> sb_handler ui" where
  "plan_card loc s plan =
     (let isCurrent = (Some (sp_id plan) = plan_id_of s);
          price = parse_float (price_usd plan);
          planKey = to_lower (plan_name plan)
      in El ''div'' [(''key'', sp_id plan)] []
          (when_ui (planKey = ''growth'') [leaf ''div'' ''POPULAR'']
           @ when_ui isCurrent [leaf ''div'' ''ACTIVE'']
           @ [comp (case map_of PLAN_ICONS planKey of None \<Rightarrow> ''ThunderboltOutlined'' | Some i \<Rightarrow> i) [],
              leaf ''div'' (plan_name plan), leaf ''div'' (plan_description plan)]
           @ (if price = Fin 0 then [leaf ''span'' ''Free'']
              else [leaf ''span'' ''$'', leaf ''span'' (to_fixed 2 price), leaf ''span'' ''/mo''])
           @ plan_features loc plan @ [plan_action s plan]))"

(* src: ui-dashboard/src/pages/subscription-page/subscription-page.tsx 307-345 usageHistory *)
definition history_table :: "(jsnum \<Rightarrow> string) \<Rightarrow> (string \<Rightarrow> string) \<Rightarrow> usage_info list \<Rightarrow> 'h ui list" where
  "history_table loc month hs =
     when_ui (hs \<noteq> [])
       [leaf ''div'' ''USAGE HISTORY'',
        wrap ''Table'' (wrap ''thead'' (map (leaf ''th'') [''Period'', ''Volume (USD)'', ''Payments'', ''API Calls''])
          # map (\<lambda>u. El ''tr'' [(''key'', period_start u)] []
              (map (leaf ''td'') [month (period_start u), ''$'' @ loc (parse_float (payment_volume_usd u)),
                 show_nat (payment_count u), show_nat (api_calls_count u)])) hs)]"

(* src: ui-dashboard/src/pages/subscription-page/subscription-page.tsx 109-348 loading *)
definition sub_view ::
    "(jsnum \<Rightarrow> string) \<Rightarrow> (string \<Rightarrow> string) \<Rightarrow> (string \<Rightarrow> string) \<Rightarrow> sub_page \<Rightarrow> sb_handler ui list" where
  "sub_view loc day month s =
     (if sb_loading s then [comp ''Spin'' []]
      else leaf ''Title'' ''Subscription'' # status_card loc day s @ leaf ''div'' ''AVAILABLE PLANS''
        # map (plan_card loc s) (sb_plans s) @ history_table loc month (sb_usageHistory s))"

section \<open>The component\<close>

datatype sb_event = SbAct sb_handler | SbMerchant "string option"

fun sb_run :: "string \<Rightarrow> sb_handler \<Rightarrow> sub_page \<Rightarrow> sb_outcome" where
  "sb_run origin HCancelRenewal s = handleCancel s"
| "sb_run origin (HUpgrade p) s = handleUpgrade origin p s"

fun sb_on :: "string \<Rightarrow> sb_event \<Rightarrow> sub_page \<Rightarrow> sb_outcome" where
  "sb_on origin (SbAct h) s =
     (if h \<in> set (handlers_of (sub_view (\<lambda>n. []) id id s)) then sb_run origin h s else idle s)"
| "sb_on origin (SbMerchant m) s = idle (s\<lparr>sb_merchantId := m\<rparr>)"

fun sb_resume :: "sb_cont \<Rightarrow> (sb_answer, sb_error) reply \<Rightarrow> sub_page \<Rightarrow> sb_outcome" where
  "sb_resume (Loaded ends) a s = plans_loaded ends a s"
| "sb_resume (Upgraded mid) a s = upgraded mid a s"
| "sb_resume (Cancelled mid) a s = cancelled mid a s"

text \<open>The type of each answer, as the provider declares it.\<close>

fun sb_fits :: "sb_request \<Rightarrow> (sb_answer, sb_error) reply \<Rightarrow> bool" where
  "sb_fits q (Rejected e) = True"
| "sb_fits (QLoad m) (Resolved a) = (\<exists>p c h. a = AData p c h)"
| "sb_fits (QUpgrade m p u) (Resolved a) = (\<exists>url. a = AUpgrade url)"
| "sb_fits (QCancel m) (Resolved a) = (a = AVoid)"

(* src: ui-dashboard/src/pages/subscription-page/subscription-page.tsx 54-56 useEffect *)
definition sb_effects :: "sub_page \<Rightarrow> sub_page \<Rightarrow> sb_outcome" where
  "sb_effects old s = (if sb_merchantId s = sb_merchantId old then idle s else loadPlans (sb_merchantId s) False s)"

definition fresh_sub :: "string option \<Rightarrow> sub_page" where
  "fresh_sub m = \<lparr>sb_merchantId = m, sb_plans = [], sb_current = None, sb_usageHistory = [], sb_loading = True,
     sb_upgrading = None\<rparr>"

definition sub_component where
  "sub_component origin = \<lparr>c_mount = (\<lambda>s. loadPlans (sb_merchantId s) False (fresh_sub (sb_merchantId s))),
     c_event = sb_on origin, c_resume = sb_resume, c_timer = (\<lambda>k s. idle s), c_effect = sb_effects,
     c_fits = sb_fits\<rparr>"

definition sub_start :: "sub_page \<Rightarrow> bool" where
  "sub_start s \<longleftrightarrow> (\<exists>m. s = fresh_sub m)"

section \<open>Lemmas\<close>

lemma sub_component_simps [simp]:
  "c_mount (sub_component origin) = (\<lambda>s. loadPlans (sb_merchantId s) False (fresh_sub (sb_merchantId s)))"
  "c_event (sub_component origin) = sb_on origin" "c_resume (sub_component origin) = sb_resume"
  "c_timer (sub_component origin) = (\<lambda>k s. idle s)" "c_effect (sub_component origin) = sb_effects"
  "c_fits (sub_component origin) = sb_fits"
  by (simp_all add: sub_component_def)

text \<open>The typing of continuations: what waits for a request reads the answer of that request.\<close>

fun sb_typed :: "sb_request \<Rightarrow> sb_cont \<Rightarrow> bool" where
  "sb_typed (QLoad m) (Loaded e) = (m \<noteq> [])"
| "sb_typed (QUpgrade m p u) (Upgraded m') = (m = m' \<and> m \<noteq> [])"
| "sb_typed (QCancel m) (Cancelled m') = (m = m' \<and> m \<noteq> [])"
| "sb_typed q k = False"

abbreviation "sb_ok \<equiv> ok_outcome (\<lambda>s. True) sb_typed (\<lambda>k. False) (\<lambda>e. True)"

lemma loadPlans_ok: "sb_ok (loadPlans m e s)"
  by (auto simp: loadPlans_def idle_def truthy_iff)

lemma sb_pieces_ok:
  "sb_ok (sb_on origin v s)" "sb_typed q k \<Longrightarrow> sb_ok (sb_resume k a s)" "sb_ok (sb_effects old s)"
proof -
  show "sb_ok (sb_effects old s)" by (simp add: sb_effects_def loadPlans_ok idle_def)
  show "sb_ok (sb_on origin v s)"
  proof (cases v)
    case (SbAct h)
    then show ?thesis by (cases h) (auto simp: idle_def handleCancel_def handleUpgrade_def truthy_iff)
  qed (simp add: idle_def)
  have l: "sb_ok (andThen (s, [Emit e]) (loadPlans m b))" for e m b s
    using loadPlans_ok [of m b s] by (simp add: ok_outcome_def)
  show "sb_ok (sb_resume k a s)" if "sb_typed q k"
  proof (cases k)
    case (Loaded e)
    then show ?thesis by (cases "(e, a, s)" rule: plans_loaded.cases) auto
  next
    case (Upgraded m)
    then show ?thesis using l by (cases "(m, a, s)" rule: upgraded.cases) (auto simp: idle_def simp del: andThen_simps)
  next
    case (Cancelled m)
    then show ?thesis using l by (cases a) (simp_all del: andThen_simps)
  qed
qed

text \<open>While a merchant is selected and the page shows the spinner, an answer is on the way.\<close>

definition sb_waiting :: "sub_page \<Rightarrow> bool" where
  "sb_waiting s \<longleftrightarrow> sb_loading s \<and> truthy (sb_merchantId s)"

definition loads :: "sb_cont \<Rightarrow> bool" where
  "loads k \<longleftrightarrow> (\<exists>e. k = Loaded e)"

lemma load_wakes: "truthy m \<Longrightarrow> wakes loads B (snd (loadPlans m e s))"
  by (simp add: loadPlans_def wakes_simps loads_def)

lemma load_merchant [simp]: "sb_merchantId (fst (loadPlans m e s)) = sb_merchantId s"
  by (simp add: loadPlans_def idle_def)

text \<open>A piece that does not wait for an answer itself keeps the merchant, or the effects load its data.\<close>

lemma effects_waiting:
  assumes "sb_waiting (fst (sb_effects old s))"
  shows "wakes loads B (snd (sb_effects old s)) \<or> (sb_merchantId s = sb_merchantId old \<and> sb_waiting s)"
  using assms load_wakes [of "sb_merchantId s"] by (auto simp: sb_effects_def sb_waiting_def idle_def)

lemma resume_merchant [simp]: "sb_merchantId (fst (sb_resume k a s)) = sb_merchantId s"
proof (cases k)
  case (Loaded e)
  then show ?thesis by (cases "(e, a, s)" rule: plans_loaded.cases) (auto simp: upgrade_over_def)
next
  case (Upgraded m)
  then show ?thesis by (cases "(m, a, s)" rule: upgraded.cases) (auto simp: idle_def)
next
  case (Cancelled m)
  then show ?thesis by (cases a) auto
qed

lemma resume_waiting:
  assumes "sb_waiting (fst (sb_resume k a s))" and "sb_typed q k"
  shows "wakes loads B (snd (sb_resume k a s)) \<or> (sb_waiting s \<and> \<not> loads k)"
proof (cases k)
  case (Loaded e)
  then show ?thesis using assms(1)
    by (cases "(e, a, s)" rule: plans_loaded.cases) (auto simp: upgrade_over_def sb_waiting_def split: if_splits)
next
  case (Upgraded m)
  then show ?thesis using assms
    by (cases "(m, a, s)" rule: upgraded.cases; cases q)
       (auto simp: idle_def sb_waiting_def loads_def loadPlans_def wakes_simps truthy_iff split: if_splits)
next
  case (Cancelled m)
  then show ?thesis using assms
    by (cases a; cases q) (auto simp: sb_waiting_def loads_def loadPlans_def wakes_simps truthy_iff)
qed

lemma on_waiting:
  "sb_waiting (fst (sb_on origin v s)) \<Longrightarrow> sb_merchantId (fst (sb_on origin v s)) = sb_merchantId s \<Longrightarrow> sb_waiting s"
proof (cases v)
  case (SbAct h)
  then show "sb_waiting (fst (sb_on origin v s)) \<Longrightarrow> sb_waiting s"
    by (cases h) (auto simp: idle_def handleCancel_def handleUpgrade_def sb_waiting_def split: if_splits)
qed (auto simp: idle_def sb_waiting_def)

interpretation sub: live_component "sub_component origin" "\<lambda>s. True" sb_typed "\<lambda>k. False" "\<lambda>e. True"
  sb_waiting loads "\<lambda>k. False" for origin
proof unfold_locales
  fix s v s' cs
  assume a: "andThen (c_event (sub_component origin) v s) (c_effect (sub_component origin) s) = (s', cs)" "sb_waiting s'"
  obtain s1 cs1 where o: "sb_on origin v s = (s1, cs1)" by (metis surj_pair)
  with a have "s' = fst (sb_effects s s1)" "cs = cs1 @ snd (sb_effects s s1)" by (auto simp del: sb_on.simps)
  then show "wakes loads (\<lambda>k. False) cs \<or> sb_waiting s"
    using effects_waiting [of s s1] on_waiting [of origin v s] a(2) o by (auto simp: wakes_simps simp del: sb_on.simps)
next
  fix s q k r s' cs
  assume a: "sb_typed q k" "andThen (c_resume (sub_component origin) k r s) (c_effect (sub_component origin) s) = (s', cs)"
    "sb_waiting s'"
  obtain s1 cs1 where o: "sb_resume k r s = (s1, cs1)" by (metis surj_pair)
  with a have "s' = fst (sb_effects s s1)" "cs = cs1 @ snd (sb_effects s s1)" by auto
  then show "wakes loads (\<lambda>k. False) cs \<or> sb_waiting s \<and> \<not> loads k"
    using effects_waiting [of s s1] resume_waiting [of k r s q] a o by (auto simp: wakes_simps)
next
  fix s s' cs
  assume "c_mount (sub_component origin) s = (s', cs)" "sb_waiting s'"
  then show "wakes loads (\<lambda>k. False) cs"
    by (auto simp: sb_waiting_def fresh_sub_def loadPlans_def idle_def wakes_simps loads_def split: if_splits)
qed (use sb_pieces_ok loadPlans_ok in \<open>auto simp: idle_def simp del: sb_on.simps\<close>)

lemma percent_bounds:
  assumes "0 \<le> u" and "0 < l"
  shows "\<exists>p. percent_of (Fin u) (Fin l) = Fin p \<and> 0 \<le> p \<and> p \<le> 100 \<and> (l \<le> u \<longrightarrow> p = 100)"
proof (cases "u = 0")
  case True
  then show ?thesis using assms by (simp add: percent_of_def js_min_def)
next
  case False
  then have r: "0 < u / l" using assms by simp
  show ?thesis
  proof (cases "fl (u / l)")
    case (Fin v)
    have v: "0 \<le> v" "l \<le> u \<Longrightarrow> 1 \<le> v"
      using fl_ge [of "u / l" 0] fl_ge [of "u / l" 1] r Fin assms(2) by auto
    show ?thesis
    proof (cases "v = 0")
      case True
      then have "\<not> l \<le> u" using v(2) by auto
      then show ?thesis using True assms Fin by (simp add: percent_of_def js_min_def)
    next
      case False
      then have v100: "0 < v * 100" using v(1) by simp
      have w: "fl (v * 100) = PosInf \<or> (\<exists>w. fl (v * 100) = Fin w \<and> 0 \<le> w \<and> (l \<le> u \<longrightarrow> 100 \<le> w))"
        using fl_ge [of "v * 100" 0] fl_ge [of "v * 100" 100] v100 v(2) by fastforce
      then show ?thesis using assms Fin by (auto simp: percent_of_def js_min_def)
    qed
  next
    case PosInf
    then show ?thesis using assms by (simp add: percent_of_def js_min_def)
  qed (use fl_ge [of "u / l" 0] r in auto)
qed

text \<open>The handlers of the view.\<close>

lemma no_handlers [simp]:
  "handlers_of (meters loc s) = []" "handlers_of (plan_features loc p) = []" "handlers_of (history_table loc mo us) = []"
proof -
  show "handlers_of (meters loc s) = []" by (simp add: meters_def)
  show "handlers_of (plan_features loc p) = []" by (simp add: plan_features_def)
  show "handlers_of (history_table loc mo us) = []" by (auto simp: history_table_def when_ui_def handlers_of_def)
qed

lemma status_handlers: "h \<in> set (handlers_of (status_card loc day s)) \<Longrightarrow> h = HCancelRenewal"
  by (auto simp: status_card_def when_ui_def split: option.splits if_splits)

lemma card_handlers [simp]: "ui_handlers (plan_card loc s p) = ui_handlers (plan_action s p)"
  by (simp add: plan_card_def Let_def when_ui_def handlers_of_def [symmetric])

lemma map_handlers: "set (handlers_of (map f xs)) = (\<Union>x \<in> set xs. set (ui_handlers (f x)))"
  by (simp add: handlers_of_def)

lemma upgrade_button:
  assumes "HUpgrade plan \<in> set (handlers_of (sub_view loc day month s))"
  shows "\<not> sb_loading s \<and> (\<exists>p \<in> set (sb_plans s). sp_id p = plan \<and> Some plan \<noteq> plan_id_of s)"
  using assms status_handlers [of "HUpgrade plan" loc day s]
  by (auto simp: sub_view_def map_handlers plan_action_def split: if_splits)

text \<open>What the page shows of plans is what one answer said, with the subscription of that answer.\<close>

type_synonym sub_history = "(sub_page, sb_request, sb_cont, (sb_answer, sb_error) reply, sb_event) history"

definition sb_known :: "sub_history \<Rightarrow> sub_page \<Rightarrow> bool" where
  "sb_known h s \<longleftrightarrow> sb_plans s = [] \<or> (\<exists>m k ps c us. Answered (QLoad m) k (Resolved (AData (Some ps) c us)) \<in> set h
     \<and> sb_plans s = ps \<and> sb_current s = c)"

lemma sb_known_later: "sb_known h s \<Longrightarrow> sb_known (x # h) s"
  unfolding sb_known_def by (meson list.set_intros(2))

lemma sb_known_keep: "sb_plans t = sb_plans s \<Longrightarrow> sb_current t = sb_current s \<Longrightarrow> sb_known h t = sb_known h s"
  by (simp add: sb_known_def)

lemma plans_keep [simp]:
  "sb_plans (fst (loadPlans m e s)) = sb_plans s" "sb_current (fst (loadPlans m e s)) = sb_current s"
  "sb_plans (upgrade_over e s) = sb_plans s" "sb_current (upgrade_over e s) = sb_current s"
  "sb_plans (fst (sb_effects old s)) = sb_plans s" "sb_current (fst (sb_effects old s)) = sb_current s"
  "sb_plans (fst (sb_on origin v s)) = sb_plans s" "sb_current (fst (sb_on origin v s)) = sb_current s"
proof -
  have run: "sb_plans (fst (sb_run origin x s)) = sb_plans s \<and> sb_current (fst (sb_run origin x s)) = sb_current s" for x
    by (cases x) (simp_all add: handleCancel_def handleUpgrade_def idle_def)
  show "sb_plans (fst (sb_on origin v s)) = sb_plans s" "sb_current (fst (sb_on origin v s)) = sb_current s"
    using run by (cases v; simp add: idle_def)+
qed (simp_all add: loadPlans_def upgrade_over_def sb_effects_def idle_def)

lemma sb_known_resume:
  assumes "sb_known h s" and "sb_typed q k" and "sb_fits q a" and "h' = Answered q k a # h"
  shows "sb_known h' (fst (sb_resume k a s))"
proof -
  have s: "sb_known h' s" using assms(1,4) sb_known_later by simp
  have keep: "sb_known h' (fst oc)" if "sb_plans (fst oc) = sb_plans s" "sb_current (fst oc) = sb_current s" for oc :: sb_outcome
    using s sb_known_keep [OF that] by simp
  show ?thesis
  proof (cases k)
    case (Loaded e)
    then obtain m where q: "q = QLoad m" using assms(2) by (cases q) auto
    show ?thesis
    proof (cases a)
      case (Resolved x)
      then obtain ps c us where x: "x = AData ps c us" using assms(3) q by auto
      show ?thesis using assms(4) unfolding Loaded q Resolved x
        by (cases ps) (auto simp: sb_known_def or_nil_def)
    next
      case (Rejected x)
      then show ?thesis using Loaded by (intro keep) simp_all
    qed
  next
    case (Upgraded m)
    then show ?thesis by (intro keep) (cases "(m, a, s)" rule: upgraded.cases; simp add: idle_def)+
  next
    case (Cancelled m)
    then show ?thesis by (intro keep) (cases a; simp)+
  qed
qed

lemma known_piece: "ok_outcome I K T E oc \<longleftrightarrow> I (fst oc) \<and> ok_outcome (\<lambda>s. True) K T E oc"
  by (cases oc) auto

interpretation subt: traced_component "sub_component origin" sub_start sb_known "\<lambda>h. sb_typed" "\<lambda>h k. False" "\<lambda>h e. True" for origin
proof unfold_locales
  fix s and h :: sub_history
  have "sb_known h (fresh_sub m)" for m by (simp add: sb_known_def fresh_sub_def)
  then show "ok_outcome (sb_known h) sb_typed (\<lambda>k. False) (\<lambda>e. True) (c_mount (sub_component origin) s)"
    using sb_known_keep [OF plans_keep(1,2)] by (subst known_piece) (simp add: loadPlans_ok)
next
  fix h h' :: sub_history and s v
  assume "sb_known h s" "h' = Acted s v # h"
  then show "ok_outcome (sb_known h') sb_typed (\<lambda>k. False) (\<lambda>e. True) (c_event (sub_component origin) v s)"
    using sb_known_keep [OF plans_keep(7,8)] by (subst known_piece) (simp add: sb_pieces_ok sb_known_later del: sb_on.simps)
next
  fix h h' :: sub_history and s q k r
  assume "sb_known h s" "sb_typed q k" "c_fits (sub_component origin) q r" "h' = Answered q k r # h"
  then show "ok_outcome (sb_known h') sb_typed (\<lambda>k. False) (\<lambda>e. True) (c_resume (sub_component origin) k r s)"
    using sb_known_resume by (subst known_piece) (simp add: sb_pieces_ok)
next
  fix h :: sub_history and s s'
  assume "sb_known h s'"
  then show "ok_outcome (sb_known h) sb_typed (\<lambda>k. False) (\<lambda>e. True) (c_effect (sub_component origin) s s')"
    using sb_known_keep [OF plans_keep(5,6)] by (subst known_piece) (simp add: sb_pieces_ok)
qed (auto simp: idle_def)

section \<open>Properties\<close>

text \<open>C29. An upgrade is asked for only where it was offered: in every run a request to change the plan goes out only
  as the user presses the button of a plan, which is one of the plans of an answer that the page was given and not
  the one that this answer called current; and it names that plan and the merchant that is selected at that moment.\<close>

theorem upgrade_offered:
  assumes "arun (sub_component origin) sub_start h w" and "astep (sub_component origin) w w'"
    and "(QUpgrade mid plan url, k) \<in> set (pending w')" and "(QUpgrade mid plan url, k) \<notin> set (pending w)"
  shows "w' = do_event (sub_component origin) (SbAct (HUpgrade plan)) w
    \<and> (\<exists>m j ps c us. Answered (QLoad m) j (Resolved (AData (Some ps) c us)) \<in> set h
        \<and> plan \<in> sp_id ` set ps \<and> Some plan \<noteq> map_option si_plan_id (Option.bind c cs_subscription))
    \<and> sb_merchantId (wst w) = Some mid \<and> \<not> sb_loading (wst w) \<and> url = origin @ ''/dashboard/subscription''"
  using assms(2-4)
proof (cases rule: new_request)
  case (event v)
  then obtain x where v: "v = SbAct x" and x: "x \<in> set (handlers_of (sub_view (\<lambda>n. []) id id (wst w)))"
    by (cases v) (auto simp: idle_def split: if_splits)
  with event(2) have p: "x = HUpgrade plan" "sb_merchantId (wst w) = Some mid" "url = origin @ ''/dashboard/subscription''"
    by (cases x; auto simp: handleCancel_def handleUpgrade_def idle_def truthy_iff split: if_splits)+
  have buttons: "\<not> sb_loading (wst w) \<and> (\<exists>pl \<in> set (sb_plans (wst w)). sp_id pl = plan \<and> Some plan \<noteq> plan_id_of (wst w))"
    using x unfolding p(1) by (rule upgrade_button)
  moreover from buttons have "sb_plans (wst w) \<noteq> []" by auto
  moreover from this obtain m j us where "Answered (QLoad m) j (Resolved (AData (Some (sb_plans (wst w))) (sb_current (wst w)) us)) \<in> set h"
    using subt.traced(1) [OF assms(1)] by (auto simp: sb_known_def)
  ultimately have "\<exists>m j ps c us. Answered (QLoad m) j (Resolved (AData (Some ps) c us)) \<in> set h
        \<and> plan \<in> sp_id ` set ps \<and> Some plan \<noteq> map_option si_plan_id (Option.bind c cs_subscription)"
    unfolding plan_id_of_def by blast
  then show ?thesis using buttons event(1) v p by blast
next
  case (reply i r)
  have "Await (QUpgrade mid plan url) k \<notin> set (snd (sb_resume k' r s))" for k' s
  proof (cases k')
    case (Loaded e)
    then show ?thesis by (cases "(e, r, s)" rule: plans_loaded.cases) auto
  next
    case (Upgraded m)
    then show ?thesis by (cases "(m, r, s)" rule: upgraded.cases) (auto simp: idle_def loadPlans_def)
  next
    case (Cancelled m)
    then show ?thesis by (cases r) (auto simp: idle_def loadPlans_def)
  qed
  then show ?thesis using reply(4) by simp
qed (auto simp: sb_effects_def loadPlans_def idle_def split: if_splits)

text \<open>The page of the plans never waits for nothing: in every run, while a merchant is selected and
  the spinner is shown, the request that ends it is under way.\<close>

lemma plans_arrive:
  assumes "areach (sub_component origin) sub_start w" and "sb_loading (wst w)" and "truthy (sb_merchantId (wst w))"
  shows "\<exists>(q, k) \<in> set (pending w). \<exists>ends. k = Loaded ends"
  using sub.reachable_awake [OF assms(1)] assms(2,3) by (auto simp: awake_def sb_waiting_def loads_def)

text \<open>C30. The meters stay within their bar. Of the volume: when the used volume is a number that is not negative and
  the limit a positive number, the percentage is between 0 and 100, and it is 100, and red, once the limit is
  reached, whatever rounding does; without a limit it is 0. Of the payments, whatever the plan says of the volume: where
  the plan limits them by a positive number or not at all, the percentage is between 0 and 100, it is 100, and
  red, once the limit is reached, and 0 without a limit.\<close>

theorem meters_bounded:
  "(\<forall>u l. volumeUsed s = Fin u \<and> 0 \<le> u \<and> volumeLimit s = Some (Fin l) \<and> 0 < l \<longrightarrow>
      (\<exists>p. volumePercent s = Fin p \<and> 0 \<le> p \<and> p \<le> 100 \<and> (l \<le> u \<longrightarrow> p = 100 \<and> volumeColor s = ''#ef4444'')))
    \<and> (volumeLimit s = None \<longrightarrow> volumePercent s = Fin 0)
    \<and> ((\<forall>n. paymentLimit s = Some n \<longrightarrow> 0 < n) \<longrightarrow>
      (\<exists>p. paymentPercent s = Fin p \<and> 0 \<le> p \<and> p \<le> 100
         \<and> (\<forall>n. paymentLimit s = Some n \<and> n \<le> int (paymentCount s) \<longrightarrow> p = 100 \<and> paymentColor s = ''#ef4444'')
         \<and> (paymentLimit s = None \<longrightarrow> p = 0)))"
proof (intro conjI allI impI)
  fix u l assume a: "volumeUsed s = Fin u \<and> 0 \<le> u \<and> volumeLimit s = Some (Fin l) \<and> 0 < l"
  then have "volumePercent s = percent_of (Fin u) (Fin l)"
    by (simp add: volumePercent_def num_or_null_truthy_def num_truthy_def)
  then show "\<exists>p. volumePercent s = Fin p \<and> 0 \<le> p \<and> p \<le> 100 \<and> (l \<le> u \<longrightarrow> p = 100 \<and> volumeColor s = ''#ef4444'')"
    using percent_bounds [of u l] a by (auto simp: volumeColor_def)
next
  assume "volumeLimit s = None"
  then show "volumePercent s = Fin 0" by (simp add: volumePercent_def num_or_null_truthy_def)
next
  assume pos: "\<forall>n. paymentLimit s = Some n \<longrightarrow> 0 < n"
  show "\<exists>p. paymentPercent s = Fin p \<and> 0 \<le> p \<and> p \<le> 100
      \<and> (\<forall>n. paymentLimit s = Some n \<and> n \<le> int (paymentCount s) \<longrightarrow> p = 100 \<and> paymentColor s = ''#ef4444'')
      \<and> (paymentLimit s = None \<longrightarrow> p = 0)"
  proof (cases "paymentLimit s")
    case (Some n)
    then have "0 < (of_int n :: rat)" using pos by simp
    moreover have "(of_int n :: rat) \<le> of_nat (paymentCount s)" if "n \<le> int (paymentCount s)"
      using that by (metis of_int_le_iff of_int_of_nat_eq)
    ultimately show ?thesis using percent_bounds [of "of_nat (paymentCount s)" "of_int n"] Some
      by (auto simp: paymentPercent_def paymentColor_def)
  qed (simp add: paymentPercent_def)
qed

text \<open>The console may write an unlimited number of payments as minus one, and the page takes it for a
  limit: one payment is shown as a hundred percent below zero.\<close>

lemma unlimited_taken_for_limit:
  assumes "Option.bind (currentPlan s) max_payments_monthly = Some (- 1)" and "paymentCount s = 1"
  shows "paymentLimit s = Some (- 1)" and "paymentPercent s = Fin (- 100)"
proof -
  show l: "paymentLimit s = Some (- 1)" using assms by (simp add: paymentLimit_def)
  have "fl (- 1) = Fin (- 1)" "fl (- 100) = Fin (- 100)"
    using fl_of_int [of "- 1"] fl_of_int [of "- 100"] by simp_all
  then show "paymentPercent s = Fin (- 100)"
    using l assms(2) by (simp add: paymentPercent_def percent_of_def js_min_def)
qed

text \<open>The data of a merchant who is no longer selected replace those of the one who is, when they
  arrive late.\<close>

lemma late_plans_kept:
  "sb_current (fst (sb_resume (Loaded e) (Resolved (AData p c h)) (s\<lparr>sb_merchantId := m\<rparr>))) = c"
  by (simp add: upgrade_over_def)

section \<open>Witnesses\<close>

definition sample_plan :: "string \<Rightarrow> subscription_plan" where
  "sample_plan i = \<lparr>sp_id = i, plan_name = ''Growth'', plan_description = [], price_usd = ''9'', billing_period = [],
     max_payments_monthly = Some 3, max_merchants = 1, max_api_calls_monthly = None,
     max_volume_monthly_usd = Some ''2'', features = JNull\<rparr>"

definition sample_sub :: sub_page where
  "sample_sub = \<lparr>sb_merchantId = Some ''m1'', sb_plans = [sample_plan ''p1'', sample_plan ''p2''],
     sb_current = Some \<lparr>cs_subscription = Some \<lparr>si_uuid = [], si_plan_id = ''p1'', si_status = ''active'',
         current_period_start = [], current_period_end = [], auto_renew = True, si_plan = None\<rparr>,
       cs_usage = Some \<lparr>payment_count = 4, payment_volume_usd = ''2'', api_calls_count = 0, period_start = [], period_end = []\<rparr>\<rparr>,
     sb_usageHistory = [], sb_loading = False, sb_upgrading = None\<rparr>"

lemma sample_current: "plan_id_of sample_sub = Some ''p1''" "currentPlan sample_sub = Some (sample_plan ''p1'')"
  by (simp_all add: plan_id_of_def currentPlan_def sample_sub_def sample_plan_def find_first_def)

lemma sample_button: "HUpgrade ''p2'' \<in> set (handlers_of (sub_view loc day month sample_sub))"
proof -
  have "HUpgrade ''p2'' \<in> set (ui_handlers (plan_action sample_sub (sample_plan ''p2'')))"
    by (simp add: plan_action_def sample_current) (simp add: sample_plan_def)
  moreover have "sample_plan ''p2'' \<in> set (sb_plans sample_sub)" "\<not> sb_loading sample_sub" by (simp_all add: sample_sub_def)
  ultimately show ?thesis by (auto simp: sub_view_def map_handlers)
qed

text \<open>The page is opened, the data arrive, and the button of the other plan is pressed.\<close>

theorem upgrade_offered_witness:
  "\<exists>h w k. arun (sub_component ''https://x'') sub_start h w \<and> pending w = []
     \<and> (QUpgrade ''m1'' ''p2'' ''https://x/dashboard/subscription'', k)
         \<in> set (pending (do_event (sub_component ''https://x'') (SbAct (HUpgrade ''p2'')) w))
     \<and> (\<exists>m j ps c us. Answered (QLoad m) j (Resolved (AData (Some ps) c us)) \<in> set h
        \<and> ''p2'' \<in> sp_id ` set ps \<and> Some ''p2'' \<noteq> map_option si_plan_id (Option.bind c cs_subscription))"
proof -
  let ?c = "sub_component ''https://x''"
  let ?start = "initial ?c (fresh_sub (Some ''m1''))"
  let ?r = "Resolved (AData (Some (sb_plans sample_sub)) (sb_current sample_sub) None)"
  have w0: "?start = \<lparr>wst = fresh_sub (Some ''m1''), pending = [(QLoad ''m1'', Loaded False)], timers = [], trace = []\<rparr>"
    by (simp add: initial_def loadPlans_def fresh_sub_def)
  let ?w = "\<lparr>wst = sample_sub, pending = [], timers = [], trace = []\<rparr> :: (sub_page, sb_request, sb_cont, sb_effect) world"
  have w: "do_reply ?c 0 ?r ?start = ?w"
    unfolding w0 by (simp add: do_reply_def commit_def drop_nth_def sb_effects_def idle_def fresh_sub_def upgrade_over_def or_nil_def sample_sub_def)
  have "arun ?c sub_start [Began (fresh_sub (Some ''m1''))] ?start" by (rule arun.start) (auto simp: sub_start_def)
  from arun.reply [OF this, of 0 ?r]
  have r: "arun ?c sub_start [Answered (QLoad ''m1'') (Loaded False) ?r, Began (fresh_sub (Some ''m1''))] ?w"
    using w by (simp add: w0)
  let ?w' = "do_event ?c (SbAct (HUpgrade ''p2'')) ?w"
  let ?q = "(QUpgrade ''m1'' ''p2'' ''https://x/dashboard/subscription'', Upgraded ''m1'')"
  have m: "sb_merchantId sample_sub = Some ''m1''" by (simp add: sample_sub_def)
  have "pending ?w' = [?q]"
    by (simp add: do_event_def commit_def sample_button handleUpgrade_def m sb_effects_def idle_def)
  then have q: "?q \<in> set (pending ?w')" "?q \<notin> set (pending ?w)" by simp_all
  from upgrade_offered [OF r astep.event this] show ?thesis using r q(1)
    by (intro exI [of _ "[Answered (QLoad ''m1'') (Loaded False) ?r, Began (fresh_sub (Some ''m1''))]"] exI [of _ ?w] exI [of _ "Upgraded ''m1''"]) simp
qed

lemma sample_load:
  "areach (sub_component []) sub_start (initial (sub_component []) (fresh_sub (Some ''m1'')))"
  "(QLoad ''m1'', Loaded False) \<in> set (pending (initial (sub_component []) (fresh_sub (Some ''m1''))))"
  by (rule areach.start, auto simp: sub_start_def) (auto simp: initial_def loadPlans_def fresh_sub_def)

lemma plans_arrive_example:
  "\<exists>(q, k) \<in> set (pending (initial (sub_component []) (fresh_sub (Some ''m1'')))). \<exists>ends. k = Loaded ends"
  by (rule plans_arrive [OF sample_load(1)]) (simp_all add: initial_def loadPlans_def fresh_sub_def)

text \<open>A plan whose limits are both exceeded, and one of unlimited volume.\<close>

theorem meters_bounded_witness:
  "volumePercent sample_sub = Fin 100 \<and> volumeColor sample_sub = ''#ef4444''
    \<and> paymentPercent sample_sub = Fin 100 \<and> paymentColor sample_sub = ''#ef4444''
    \<and> (let s = sample_sub\<lparr>sb_plans := [(sample_plan ''p1'')\<lparr>max_volume_monthly_usd := None\<rparr>]\<rparr>
       in volumePercent s = Fin 0 \<and> paymentPercent s = Fin 100 \<and> paymentColor s = ''#ef4444'')"
proof -
  let ?s = "sample_sub\<lparr>sb_plans := [(sample_plan ''p1'')\<lparr>max_volume_monthly_usd := None\<rparr>]\<rparr>"
  have "volumeUsed sample_sub = Fin 2"
    by (simp add: volumeUsed_def usage_of_def or_else_def parse_float_two) (simp add: sample_sub_def parse_float_two)
  moreover have "volumeLimit sample_sub = Some (Fin 2)"
    by (simp add: volumeLimit_def sample_current) (simp add: sample_plan_def parse_float_two)
  moreover have "paymentLimit sample_sub = Some 3" "paymentCount sample_sub = 4"
    by (simp add: paymentLimit_def sample_current) (simp_all add: sample_plan_def paymentCount_def usage_of_def sample_sub_def)
  moreover have "currentPlan ?s = Some ((sample_plan ''p1'')\<lparr>max_volume_monthly_usd := None\<rparr>)"
    by (simp add: currentPlan_def plan_id_of_def find_first_def sample_sub_def sample_plan_def)
  moreover from this have "volumeLimit ?s = None" "paymentLimit ?s = Some 3" "paymentCount ?s = 4"
    by (simp_all add: volumeLimit_def paymentLimit_def sample_plan_def paymentCount_def usage_of_def sample_sub_def)
  ultimately show ?thesis using meters_bounded [of sample_sub] meters_bounded [of ?s] by (simp add: Let_def)
qed

end
