(* ===== verification/Admin_Kit.thy ===== *)
theory Admin_Kit
  imports Async Dashboard_Providers Markup JS_Math
begin

text \<open>
  What the pages of the administration console share: the records that the server sends
  (ui-dashboard/src/providers/admin-provider.ts), the errors they read, and the tables, drawers and
  dialogs of the component library that they fill. A closed drawer or dialog has no children that a
  user can reach.
\<close>

section \<open>Records of the administration\<close>

(* src: ui-dashboard/src/providers/admin-provider.ts 5-7 AdminPlan *)
record admin_plan = subscription_plan +
  ap_is_active :: bool

(* src: ui-dashboard/src/providers/admin-provider.ts 23-35 AdminMerchant *)
record admin_merchant =
  am_id :: nat
  am_uuid :: string
  am_name :: string
  am_website :: string
  creator_email :: string
  creator_name :: string
  active_plan_id :: "string option"
  active_plan_name :: "string option"
  monthly_volume_usd :: string
  am_payment_count :: nat
  am_created_at :: string

(* src: ui-dashboard/src/providers/admin-provider.ts 37-45 AdminUser *)
record admin_user =
  au_id :: nat
  au_uuid :: string
  au_email :: string
  au_name :: string
  is_super_admin :: bool
  merchant_count :: nat
  au_created_at :: string

(* src: ui-dashboard/src/providers/admin-provider.ts 47-52 PaginatedResponse *)
record 'a paginated =
  pr_results :: "'a list option"
  pr_total :: nat
  pr_limit :: nat
  pr_offset :: nat

(* src: ui-dashboard/src/providers/admin-provider.ts 67-75 EmailLogEntry *)
record email_log_entry =
  el_id :: nat
  to_email :: string
  el_subject :: string
  el_template :: string
  el_status :: string
  el_error_message :: string
  el_created_at :: string

(* src: ui-dashboard/src/providers/admin-provider.ts 77-84 MarketingTemplate *)
record marketing_template =
  mt_id :: string
  mt_name :: string
  mt_description :: string
  mt_subject :: string
  mt_body_html :: string
  mt_tags :: "string list option"

(* src: ui-dashboard/src/providers/admin-provider.ts 86-89 MarketingSettings *)
record marketing_settings =
  daily_limit :: jsnum
  ms_updated_at :: string

datatype sequence_status = Draft | Running | Paused | Completed | CancelledSeq

(* src: ui-dashboard/src/providers/admin-provider.ts 100-113 Sequence *)
record sequence =
  sn_id :: nat
  sn_uuid :: string
  sn_name :: string
  sn_audience :: string
  sn_status :: sequence_status
  skip_if_converted :: bool
  sn_start_at :: "string option"
  sn_started_at :: "string option"
  sn_steps :: "sequence_step list"

(* src: ui-dashboard/src/providers/admin-provider.ts 115-124 SequenceStats *)
record sequence_stats =
  st_sequence :: sequence
  total_enrolled :: nat
  st_active :: nat
  st_converted :: nat
  st_unsubscribed :: nat
  st_completed :: nat
  st_failed :: nat
  step_breakdown :: "(nat \<times> nat \<times> nat) list"

(* src: ui-dashboard/src/providers/admin-provider.ts 134-144 SystemStats *)
record system_stats =
  total_merchants :: nat
  total_users :: nat
  paying_merchants :: nat
  free_tier_count :: nat
  basic_tier_count :: nat
  pro_tier_count :: nat
  enterprise_tier_count :: nat
  no_subscription_count :: nat
  monthly_revenue :: string

(* src: ui-dashboard/src/providers/admin-provider.ts 146-154 AdminContact *)
record admin_contact =
  ac_id :: nat
  ac_uuid :: string
  ac_email :: string
  marketing_consent :: bool
  terms_accepted_at :: "string option"
  source_merchant_name :: string
  ac_created_at :: string

(* src: ui-dashboard/src/providers/admin-provider.ts 156-162 CollectorFactoryConfig *)
record factory_config =
  fc_blockchain :: string
  implementationAddress :: string
  fc_factoryAddress :: string
  fc_createdAt :: string
  fc_updatedAt :: string

section \<open>Errors\<close>

text \<open>What a page reads of a rejection: \<open>e?.response?.status\<close>, the two texts that the body of an
  answer may have, and the message of the exception itself.\<close>

record admin_error =
  ae_status :: "nat option"
  ae_message :: "string option"
  ae_error :: "string option"
  ae_text :: string

text \<open>\<open>e?.response?.data?.message || e.message\<close>\<close>

definition message_or_text :: "admin_error \<Rightarrow> string" where
  "message_or_text e = or_else (ae_message e) (ae_text e)"

definition no_answer :: "string \<Rightarrow> admin_error" where
  "no_answer t = \<lparr>ae_status = None, ae_message = None, ae_error = None, ae_text = t\<rparr>"

text \<open>\<open>xs || []\<close>\<close>

definition list_or_nil :: "'a list option \<Rightarrow> 'a list" where
  "list_or_nil v = (case v of None \<Rightarrow> [] | Some xs \<Rightarrow> xs)"

lemma list_or_nil_simps [simp]: "list_or_nil None = []" "list_or_nil (Some xs) = xs"
  by (simp_all add: list_or_nil_def)

section \<open>Tables, drawers and dialogs\<close>

type_synonym ('r, 'h) column = "string \<times> ('r \<Rightarrow> 'h ui list)"

definition table_rows :: "('r \<Rightarrow> string) \<Rightarrow> ('r, 'h) column list \<Rightarrow> 'r list \<Rightarrow> 'h ui list" where
  "table_rows key columns rows =
     map (\<lambda>r. El ''tr'' [(''key'', key r)] [] (map (\<lambda>(title, cell). wrap ''td'' (cell r)) columns)) rows"

definition data_table :: "bool \<Rightarrow> ('r \<Rightarrow> string) \<Rightarrow> ('r, 'h) column list \<Rightarrow> 'r list \<Rightarrow> 'h ui" where
  "data_table loading key columns rows =
     El ''Table'' [(''loading'', bool_attr loading)] []
       (wrap ''thead'' (map (\<lambda>(title, cell). leaf ''th'' title) columns) # table_rows key columns rows)"

definition text_cell :: "string \<Rightarrow> 'h ui list" where
  "text_cell s = [Txt s]"

definition button :: "string \<Rightarrow> bool \<Rightarrow> 'h \<Rightarrow> 'h ui" where
  "button label loading h = El ''Button'' [(''loading'', bool_attr loading)] [(''onClick'', h)] [Txt label]"

text \<open>A drawer or a dialog with its handlers, and what it holds.\<close>

definition overlay :: "string \<Rightarrow> string \<Rightarrow> bool \<Rightarrow> (string \<times> 'h) list \<Rightarrow> 'h ui list \<Rightarrow> 'h ui list" where
  "overlay tag title shown hs children = when_ui shown [El tag [(''title'', title)] hs children]"

text \<open>A number with its title.\<close>

definition statistic :: "string \<Rightarrow> string \<Rightarrow> 'h ui" where
  "statistic title value = comp ''Statistic'' [(''title'', title), (''value'', value)]"

lemma ui_handlers_El: "set (ui_handlers (El t a hs cs)) = snd ` set hs \<union> set (handlers_of cs)"
  by (auto simp: handlers_of_def)

lemma set_handlers_of: "set (handlers_of us) = (\<Union>u \<in> set us. set (ui_handlers u))"
  by (auto simp: handlers_of_def)

lemma handlers_of_map: "set (handlers_of (map f xs)) = (\<Union>x \<in> set xs. set (ui_handlers (f x)))"
  by (simp add: handlers_of_def)

lemma kit_handlers [simp]:
  "handlers_of (text_cell s) = []" "ui_handlers (button l b h) = [h]" "ui_handlers (statistic t v) = []"
  by (simp_all add: text_cell_def button_def statistic_def)

lemma overlay_handlers:
  "h \<in> set (handlers_of (overlay tag title shown hs cs)) \<longleftrightarrow>
     shown \<and> (h \<in> snd ` set hs \<or> h \<in> set (handlers_of cs))"
  by (auto simp: overlay_def handlers_of_def when_ui_def)

lemma table_handlers:
  "h \<in> set (ui_handlers (data_table l key columns rows)) \<longleftrightarrow>
     (\<exists>r \<in> set rows. \<exists>(title, cell) \<in> set columns. h \<in> set (handlers_of (cell r)))"
  by (fastforce simp: data_table_def table_rows_def handlers_of_def)

section \<open>Dates\<close>

text \<open>An instant is its number of milliseconds since 1970; the days of UTC all have the same length, and
  the first one was a Thursday. \<open>Date.UTC\<close> of a day of a month that need not be in the month and an
  hour counts on from the first day of that month.\<close>

definition ms_per_day :: int where
  "ms_per_day = 86400000"

definition utc_day :: "int \<Rightarrow> int" where
  "utc_day t = t div ms_per_day"

text \<open>\<open>getUTCDay\<close>: 0 is Sunday.\<close>

definition week_day :: "int \<Rightarrow> int" where
  "week_day t = (4 + utc_day t) mod 7"

definition utc_at :: "int \<Rightarrow> int \<Rightarrow> int" where
  "utc_at day hour = day * ms_per_day + hour * 3600000"

text \<open>Year, month and day of a day count, by the proleptic Gregorian calendar.\<close>

definition civil :: "int \<Rightarrow> int \<times> int \<times> int" where
  "civil day =
     (let z = day + 719468; era = z div 146097; doe = z mod 146097;
          yoe = (doe - doe div 1460 + doe div 36524 - doe div 146096) div 365;
          doy = doe - (365 * yoe + yoe div 4 - yoe div 100);
          mp = (5 * doy + 2) div 153;
          d = doy - (153 * mp + 2) div 5 + 1;
          m = (if mp < 10 then mp + 3 else mp - 9)
      in (yoe + era * 400 + (if m \<le> 2 then 1 else 0), m, d))"

definition two_digits :: "int \<Rightarrow> string" where
  "two_digits n = pad_zeros 2 (show_nat (nat n))"

text \<open>\<open>toISOString\<close> for the years 0 to 9999.\<close>

definition iso_string :: "int \<Rightarrow> string" where
  "iso_string t =
     (let (y, m, d) = civil (utc_day t); r = t mod ms_per_day
      in pad_zeros 4 (show_nat (nat y)) @ ''-'' @ two_digits m @ ''-'' @ two_digits d @ ''T''
         @ two_digits (r div 3600000) @ '':'' @ two_digits (r div 60000 mod 60) @ '':''
         @ two_digits (r div 1000 mod 60) @ ''.'' @ pad_zeros 3 (show_nat (nat (r mod 1000))) @ ''Z'')"

lemma civil_examples: "civil 0 = (1970, 1, 1)" "civil 11016 = (2000, 2, 29)" "civil 20454 = (2026, 1, 1)"
  by (code_simp, code_simp, code_simp)

text \<open>\<open>parseInt(s, 10)\<close>: the digits at the start, after space and a sign.\<close>

definition parse_int :: "string \<Rightarrow> jsnum" where
  "parse_int s =
     (let (neg, r) = sign_of (dropWhile is_space s); ds = takeWhile is_digit r; v = of_nat (nat_of_digits ds)
      in if ds = [] then NaN else fl (if neg then - v else v))"

section \<open>Pages that wait\<close>

text \<open>
  A page with a spinner: while \<open>L\<close> holds of its state an answer that ends it, a continuation
  with \<open>A\<close>, is under way, and every request under way has a continuation of its type \<open>K\<close>. The
  laws are about single pieces of code; the contract gives that of a live component.
\<close>

definition typed :: "('q \<Rightarrow> 'k \<Rightarrow> bool) \<Rightarrow> ('s, 'q, 'k, 'e) outcome \<Rightarrow> bool" where
  "typed K oc \<longleftrightarrow> (\<forall>q k. Await q k \<in> set (snd oc) \<longrightarrow> K q k)"

definition waits :: "('s \<Rightarrow> bool) \<Rightarrow> ('k \<Rightarrow> bool) \<Rightarrow> bool \<Rightarrow> ('s, 'q, 'k, 'e) outcome \<Rightarrow> bool" where
  "waits L A b oc \<longleftrightarrow> (L (fst oc) \<longrightarrow> b \<or> wakes A (\<lambda>k. False) (snd oc))"

lemma typed_simps [simp]:
  "typed K (s, []) = True" "typed K (s, Await q k # cs) = (K q k \<and> typed K (s, cs))"
  "typed K (s, After t k # cs) = typed K (s, cs)" "typed K (s, Emit e # cs) = typed K (s, cs)"
  "typed K (idle s) = True"
  by (auto simp: typed_def idle_def)

lemma typed_append: "typed K (s, cs @ ds) \<longleftrightarrow> typed K (s, cs) \<and> typed K (s, ds)"
  by (auto simp: typed_def)

lemma typed_commands: "typed K oc \<longleftrightarrow> typed K (s, snd oc)"
  by (simp add: typed_def)

lemma andThen_idle [simp]: "andThen oc idle = oc"
  by (cases oc) (simp add: andThen_def idle_def)

lemma waits_simps [simp]:
  "waits L A b (s, []) = (L s \<longrightarrow> b)"
  "waits L A b (s, Await q k # cs) = (A k \<or> waits L A b (s, cs))"
  "waits L A b (s, After t k # cs) = waits L A b (s, cs)"
  "waits L A b (s, Emit e # cs) = waits L A b (s, cs)"
  "waits L A b (idle s) = (L s \<longrightarrow> b)"
  by (auto simp: waits_def wakes_simps idle_def)

lemma ok_typed: "ok_outcome (\<lambda>s. True) K (\<lambda>k. True) (\<lambda>e. True) oc = typed K oc"
  unfolding ok_outcome_def typed_def by (auto simp: ok_cmd_def split: cmd.splits)

text \<open>A piece that needs no longer wait and then the effects, which only start to wait.\<close>

lemma waits_andThen:
  assumes "waits L A b oc" and "waits L A (L (fst oc)) (f (fst oc))"
  shows "waits L A b (andThen oc f)"
  using assms by (auto simp: waits_def andThen_def wakes_simps split: prod.splits)

locale waiting_page =
  fixes c :: "('s, 'q, 'k, 'e, 'r, 'v) component" and K :: "'q \<Rightarrow> 'k \<Rightarrow> bool"
    and L :: "'s \<Rightarrow> bool" and A :: "'k \<Rightarrow> bool"
  assumes mount_typed: "typed K (c_mount c s)" and mount_waits: "waits L A False (c_mount c s)"
    and event_typed: "typed K (c_event c v s)" and event_waits: "waits L A (L s) (c_event c v s)"
    and resume_typed: "K q k \<Longrightarrow> c_fits c q r \<Longrightarrow> typed K (c_resume c k r s)"
    and resume_waits: "K q k \<Longrightarrow> c_fits c q r \<Longrightarrow> waits L A (L s \<and> \<not> A k) (c_resume c k r s)"
    and timer_typed: "typed K (c_timer c k s)" and timer_waits: "waits L A (L s) (c_timer c k s)"
    and effect_typed: "typed K (c_effect c s s')" and effect_waits: "waits L A (L s') (c_effect c s s')"
begin

lemma piece_waits:
  assumes "waits L A b oc" and "andThen oc (c_effect c s) = (s', cs)" and "L s'"
  shows "b \<or> wakes A (\<lambda>k. False) cs"
proof -
  have "waits L A b (s', cs)" using waits_andThen [OF assms(1), of "c_effect c s"] effect_waits [of "fst oc" s] assms(2) by simp
  then show ?thesis using assms(3) by (simp add: waits_def)
qed

end

sublocale waiting_page \<subseteq> live_component c "\<lambda>s. True" K "\<lambda>k. True" "\<lambda>e. True" L A "\<lambda>k. False"
proof unfold_locales
  fix s s' cs
  assume "c_mount c s = (s', cs)" "L s'"
  then show "wakes A (\<lambda>k. False) cs" using mount_waits [of s] by (simp add: waits_def)
next
  fix s v s' cs
  assume a: "andThen (c_event c v s) (c_effect c s) = (s', cs)" "L s'"
  then show "wakes A (\<lambda>k. False) cs \<or> L s" using piece_waits [OF event_waits a] by blast
next
  fix s q k r s' cs
  assume "K q k" "c_fits c q r" and a: "andThen (c_resume c k r s) (c_effect c s) = (s', cs)" "L s'"
  then show "wakes A (\<lambda>k. False) cs \<or> L s \<and> \<not> A k" using piece_waits [OF resume_waits a] by blast
next
  fix s k s' cs
  assume a: "andThen (c_timer c k s) (c_effect c s) = (s', cs)" "L s'"
  then show "wakes A (\<lambda>k. False) cs \<or> L s \<and> \<not> False" using piece_waits [OF timer_waits a] by blast
qed (simp_all add: ok_typed mount_typed event_typed resume_typed timer_typed effect_typed)

context waiting_page
begin

lemma under_way:
  assumes "areach c S w" and "L (wst w)"
  shows "\<exists>(q, k) \<in> set (pending w). A k"
  using reachable_awake [OF assms(1)] assms(2) by (auto simp: awake_def)

lemma well_typed: "areach c S w \<Longrightarrow> (q, k) \<in> set (pending w) \<Longrightarrow> K q k"
  using reachable_ok by (fastforce simp: ok_world_def)

end

section \<open>Runs, one piece after the other\<close>

text \<open>The requests of a list of commands, and what one event or the answer to the first request does to a
  page that has no effects.\<close>

fun awaits :: "('q, 'k, 'e) cmd list \<Rightarrow> ('q \<times> 'k) list" where
  "awaits [] = []"
| "awaits (Await q k # cs) = (q, k) # awaits cs"
| "awaits (After t k # cs) = awaits cs"
| "awaits (Emit e # cs) = awaits cs"

lemma pending_issue: "pending (issue cs w) = pending w @ awaits cs"
  by (induction cs w rule: issue.induct) auto

lemma mount_run:
  "wst (initial c s) = fst (c_mount c s)" "pending (initial c s) = awaits (snd (c_mount c s))"
  by (auto simp: initial_def pending_issue split: prod.splits)

lemma event_run:
  assumes "\<And>s. c_effect c (wst w) s = idle s"
  shows "wst (do_event c v w) = fst (c_event c v (wst w))"
    and "pending (do_event c v w) = pending w @ awaits (snd (c_event c v (wst w)))"
  by (cases "c_event c v (wst w)"; simp add: do_event_def commit_def assms idle_def pending_issue)+

lemma reply_run:
  assumes "pending w = (q, k) # ps" and "\<And>s. c_effect c (wst w) s = idle s"
  shows "wst (do_reply c 0 r w) = fst (c_resume c k r (wst w))"
    and "pending (do_reply c 0 r w) = ps @ awaits (snd (c_resume c k r (wst w)))"
  by (cases "c_resume c k r (wst w)"; simp add: do_reply_def commit_def assms idle_def pending_issue drop_nth_def)+

lemma reply_reach:
  "areach c S w \<Longrightarrow> pending w = (q, k) # ps \<Longrightarrow> c_fits c q r \<Longrightarrow> areach c S (do_reply c 0 r w)"
  by (rule areach.step [OF _ astep.reply]) simp_all

lemma event_reach: "areach c S w \<Longrightarrow> areach c S (do_event c v w)"
  by (rule areach.step [OF _ astep.event])

end
