(* ===== verification/Login_Page.thy ===== *)
theory Login_Page
  imports Admin_Kit Local_Storage
begin

text \<open>
  The login and registration page (ui-dashboard/src/pages/login-page/login-page.tsx), which both
  applications of the dashboard show, as an asynchronous component. The values of the form are part of the
  state; the form hands them over when its rules hold, where \<open>is_email\<close> is the library's test of an
  address. \<open>host\<close> is the backend that the build was given.
\<close>

section \<open>State\<close>

(* src: ui-dashboard/src/pages/login-page/login-page.tsx 23-25 RegisterForm *)
record register_form = user_form +
  confirmPassword :: "string option"

(* src: ui-dashboard/src/pages/login-page/login-page.tsx 27-35 LoginPage *)
record login_page =
  lp_form :: register_form
  lp_submitting :: bool
  providersList :: "auth_provider list"
  isRegisterMode :: bool
  lp_browser :: browser

text \<open>The registration sends the form's values as they are, the confirmation with them.\<close>

datatype lp_request = QSession auth_request | QRegister register_form

definition register_fields :: "register_form \<Rightarrow> (string \<times> jval) list" where
  "register_fields f = user_form_fields (user_form.truncate f) @ opt_field ''confirmPassword'' (confirmPassword f)"

fun lp_http :: "lp_request \<Rightarrow> http_request" where
  "lp_http (QSession r) = auth_http r"
| "lp_http (QRegister f) = with_body (request POST (withApiPath ''/auth/register'')) (register_fields f)"

datatype lp_cont = MountCookie | MountMe | ProvidersRead | SignedIn bool | ResetForm

datatype lp_answer = LVoid | LUser | LProviders "auth_provider list option"

datatype lp_effect = LpNotify string string | LpNavigate string bool

type_synonym lp_outcome = "(login_page, lp_request, lp_cont, lp_effect) outcome"

type_synonym lp_reply = "(lp_answer, admin_error) reply"

definition empty_register :: register_form where
  "empty_register = \<lparr>uf_email = [], uf_password = [], uf_name = None, uf_companyName = None, uf_address = None, uf_website = None,
     uf_phone = None, uf_marketingConsent = None, uf_termsAccepted = None, confirmPassword = None\<rparr>"

section \<open>Operations\<close>

(* src: ui-dashboard/src/pages/login-page/login-page.tsx 46-55 onSubmit *)
definition signIn :: "login_page \<Rightarrow> lp_outcome" where
  "signIn s = (s\<lparr>lp_submitting := True\<rparr>,
     [if isRegisterMode s then Await (QRegister (lp_form s)) (SignedIn True)
      else Await (QSession (AuthLogin (user_form.truncate (lp_form s)))) (SignedIn False)])"

text \<open>\<open>LpNavigate path reload\<close> is a navigation with the order to load the user again, or without.\<close>

(* src: ui-dashboard/src/pages/login-page/login-page.tsx 51-69 openNotification *)
fun signed_in :: "bool \<Rightarrow> lp_reply \<Rightarrow> login_page \<Rightarrow> lp_outcome" where
  "signed_in new (Resolved a) s =
     (s, [Emit (if new then LpNotify ''Welcome!'' ''Your account has been created. Please check your email to verify your address.''
                else LpNotify ''Welcome back!'' []),
          Emit (LpNavigate ''/'' True), After 1000 ResetForm])"
| "signed_in new (Rejected e) s = (s\<lparr>lp_submitting := False\<rparr>, [])"

(* src: ui-dashboard/src/pages/login-page/login-page.tsx 62-69 resetFields *)
definition reset_form :: "login_page \<Rightarrow> lp_outcome" where
  "reset_form s = idle (s\<lparr>lp_form := empty_register, lp_submitting := False\<rparr>)"

(* src: ui-dashboard/src/pages/login-page/login-page.tsx 71-74 toggleMode *)
definition toggleMode :: "login_page \<Rightarrow> lp_outcome" where
  "toggleMode s = idle (s\<lparr>isRegisterMode := \<not> isRegisterMode s, lp_form := empty_register\<rparr>)"

(* src: ui-dashboard/src/pages/login-page/login-page.tsx 76-83 googleRedirectLink *)
definition googleRedirectLink :: "string \<Rightarrow> string" where
  "googleRedirectLink host = (if host = ''//'' then [] else host) @ ''/api/dashboard/v1/auth/redirect''"

definition ask_providers :: "login_page \<Rightarrow> lp_outcome" where
  "ask_providers s = (s, [Await (QSession AuthGetProviders) ProvidersRead])"

definition forget_merchant :: "login_page \<Rightarrow> login_page" where
  "forget_merchant s = s\<lparr>lp_browser := ls_remove ''merchantId'' (lp_browser s)\<rparr>"

text \<open>The probe of the session fails silently, but a rejection with 401 forgets the merchant.\<close>

(* src: ui-dashboard/src/pages/login-page/login-page.tsx 95-99 catch *)
definition probe_failed :: "admin_error \<Rightarrow> login_page \<Rightarrow> lp_outcome" where
  "probe_failed e s = ask_providers (if ae_status e = Some 401 then forget_merchant s else s)"

(* src: ui-dashboard/src/pages/login-page/login-page.tsx 85-92 useMount *)
definition login_mount :: "bool \<Rightarrow> login_page \<Rightarrow> lp_outcome" where
  "login_mount isNeedLogout s =
     (if isNeedLogout then ask_providers (forget_merchant s) else (s, [Await (QSession AuthGetCookie) MountCookie]))"

(* src: ui-dashboard/src/pages/login-page/login-page.tsx 92-93 getMe *)
fun mount_cookie :: "lp_reply \<Rightarrow> login_page \<Rightarrow> lp_outcome" where
  "mount_cookie (Resolved a) s = (s, [Await (QSession AuthGetMe) MountMe])"
| "mount_cookie (Rejected e) s = probe_failed e s"

(* src: ui-dashboard/src/pages/login-page/login-page.tsx 93-102 navigate *)
fun mount_me :: "lp_reply \<Rightarrow> login_page \<Rightarrow> lp_outcome" where
  "mount_me (Resolved a) s = andThen (s, [Emit (LpNavigate ''/'' False)]) ask_providers"
| "mount_me (Rejected e) s = probe_failed e s"

(* src: ui-dashboard/src/pages/login-page/login-page.tsx 102-104 setProvidersList *)
fun providers_read :: "lp_reply \<Rightarrow> login_page \<Rightarrow> lp_outcome" where
  "providers_read (Resolved (LProviders ps)) s = idle (s\<lparr>providersList := list_or_nil ps\<rparr>)"
| "providers_read (Resolved a) s = idle (s\<lparr>providersList := []\<rparr>)"
| "providers_read (Rejected e) s = idle s"

section \<open>Rules of the form\<close>

(* src: ui-dashboard/src/pages/login-page/login-page.tsx 150-179 rules *)
definition login_rules :: "(string \<Rightarrow> bool) \<Rightarrow> register_form \<Rightarrow> bool" where
  "login_rules is_email f \<longleftrightarrow> uf_email f \<noteq> [] \<and> is_email (uf_email f) \<and> 8 \<le> length (uf_password f)"

(* src: ui-dashboard/src/pages/login-page/login-page.tsx 133-149 rules *)
definition name_rules :: "register_form \<Rightarrow> bool" where
  "name_rules f \<longleftrightarrow> (\<exists>n. uf_name f = Some n \<and> 2 \<le> length n)"

(* src: ui-dashboard/src/pages/login-page/login-page.tsx 180-203 validator *)
definition confirm_rules :: "register_form \<Rightarrow> bool" where
  "confirm_rules f \<longleftrightarrow> truthy (confirmPassword f) \<and> confirmPassword f = Some (uf_password f)"

(* src: ui-dashboard/src/pages/login-page/login-page.tsx 235-246 validator *)
definition terms_rules :: "register_form \<Rightarrow> bool" where
  "terms_rules f \<longleftrightarrow> uf_termsAccepted f = Some True"

definition form_rules :: "(string \<Rightarrow> bool) \<Rightarrow> login_page \<Rightarrow> bool" where
  "form_rules is_email s \<longleftrightarrow> login_rules is_email (lp_form s)
     \<and> (isRegisterMode s \<longrightarrow> name_rules (lp_form s) \<and> confirm_rules (lp_form s) \<and> terms_rules (lp_form s))"

section \<open>What the page shows\<close>

datatype lp_handler = HLogin | HToggleMode

definition offers :: "string \<Rightarrow> login_page \<Rightarrow> bool" where
  "offers name s \<longleftrightarrow> (\<exists>p \<in> set (providersList s). ap_name p = name)"

definition input_of :: "string \<Rightarrow> string \<Rightarrow> 'h ui" where
  "input_of name holder = El ''Form.Item'' [(''name'', name)] [] [comp ''Input'' [(''placeholder'', holder)]]"

lemma input_of_handlers [simp]: "ui_handlers (input_of n h) = []"
  by (simp add: input_of_def)

(* src: ui-dashboard/src/pages/login-page/login-page.tsx 204-261 companyName *)
definition business_fields :: "'h ui list" where
  "business_fields =
     [leaf ''Divider'' ''Business Information (optional)'', input_of ''companyName'' ''Company / Organization'',
      input_of ''address'' ''Business Address'', input_of ''website'' ''https://example.com'', input_of ''phone'' ''+1 234 567 890'',
      El ''Form.Item'' [(''name'', ''marketingConsent'')] []
        [leaf ''Checkbox'' ''I agree to receive product updates and marketing communications from CryptoLink''],
      El ''Form.Item'' [(''name'', ''termsAccepted'')] []
        [leaf ''Text'' ''I accept the '', El ''a'' [(''href'', ''https://cryptolink.cc/terms'')] [] [Txt ''Terms of Service''],
         leaf ''Text'' '' and '', El ''a'' [(''href'', ''https://cryptolink.cc/privacy'')] [] [Txt ''Privacy Policy'']]]"

(* src: ui-dashboard/src/pages/login-page/login-page.tsx 126-280 Form *)
definition login_form :: "login_page \<Rightarrow> lp_handler ui" where
  "login_form s =
     El ''Form'' [] [(''onFinish'', HLogin)]
       (when_ui (isRegisterMode s) [input_of ''name'' ''Full Name'']
        @ [input_of ''email'' ''Email'', input_of ''password'' ''Password'']
        @ when_ui (isRegisterMode s) (input_of ''confirmPassword'' ''Confirm Password'' # business_fields)
        @ [El ''Button'' [(''disabled'', bool_attr (lp_submitting s)), (''loading'', bool_attr (lp_submitting s)), (''htmlType'', ''submit'')] []
             [Txt (if isRegisterMode s then ''Create Account'' else ''Sign in'')],
           El ''Link'' [] [(''onClick'', HToggleMode)]
             [Txt (if isRegisterMode s then ''Already have an account? Sign in'' else ''Don'' @ [CHR 0x27] @ ''t have an account? Register'')]])"

(* src: ui-dashboard/src/pages/login-page/login-page.tsx 286-296 google *)
definition google_button :: "string \<Rightarrow> login_page \<Rightarrow> 'h ui list" where
  "google_button host s =
     when_ui (offers ''google'' s)
       [El ''Button'' [(''href'', googleRedirectLink host)] [] [Txt ''Sign in / Register with Google '']]"

lemma google_button_handlers [simp]: "handlers_of (google_button host s) = []"
  by (simp add: google_button_def)

(* src: ui-dashboard/src/pages/login-page/login-page.tsx 106-126 isLoading *)
definition login_view :: "string \<Rightarrow> login_page \<Rightarrow> lp_handler ui list" where
  "login_view host s =
     [leaf ''Title'' ''CryptoLink'', leaf ''Title'' (if isRegisterMode s then ''Create Account'' else ''Sign In'')]
     @ (if providersList s = [] then [comp ''Spin'' []]
        else when_ui (offers ''email'' s) [login_form s]
          @ when_ui (length (providersList s) = 2) [leaf ''Text'' ''OR'']
          @ google_button host s)
     @ [leaf ''div'' (''Powered by CryptoLink '' @ em_dash @ '' Self-hosted crypto payments'')]"

section \<open>The component\<close>

datatype lp_event = LpAct lp_handler | LpFill register_form | LpBack

(* src: ui-dashboard/src/pages/login-page/login-page.tsx 86-86 popstate *)
definition went_back :: "login_page \<Rightarrow> lp_outcome" where
  "went_back s = (s, [Emit (LpNavigate ''/login'' False)])"

fun lp_on :: "(string \<Rightarrow> bool) \<Rightarrow> lp_event \<Rightarrow> login_page \<Rightarrow> lp_outcome" where
  "lp_on is_email (LpAct HLogin) s =
     (if HLogin \<in> set (handlers_of (login_view [] s)) \<and> \<not> lp_submitting s \<and> form_rules is_email s then signIn s else idle s)"
| "lp_on is_email (LpAct HToggleMode) s = (if HToggleMode \<in> set (handlers_of (login_view [] s)) then toggleMode s else idle s)"
| "lp_on is_email (LpFill f) s = idle (s\<lparr>lp_form := f\<rparr>)"
| "lp_on is_email LpBack s = went_back s"

fun lp_resume :: "lp_cont \<Rightarrow> lp_reply \<Rightarrow> login_page \<Rightarrow> lp_outcome" where
  "lp_resume MountCookie a s = mount_cookie a s"
| "lp_resume MountMe a s = mount_me a s"
| "lp_resume ProvidersRead a s = providers_read a s"
| "lp_resume (SignedIn new) a s = signed_in new a s"
| "lp_resume ResetForm a s = idle s"

fun lp_timer :: "lp_cont \<Rightarrow> login_page \<Rightarrow> lp_outcome" where
  "lp_timer ResetForm s = reset_form s"
| "lp_timer k s = idle s"

definition fresh_login :: "bool \<Rightarrow> browser \<Rightarrow> login_page" where
  "fresh_login register b = \<lparr>lp_form = empty_register, lp_submitting = False, providersList = [], isRegisterMode = register, lp_browser = b\<rparr>"

definition login_component where
  "login_component is_email isNeedLogout = \<lparr>c_mount = (\<lambda>s. login_mount isNeedLogout (fresh_login (isRegisterMode s) (lp_browser s))), c_event = lp_on is_email, c_resume = lp_resume,
     c_timer = lp_timer, c_effect = (\<lambda>old s. idle s), c_fits = (\<lambda>(q :: lp_request) (r :: lp_reply). True)\<rparr>"

lemma login_component_simps [simp]:
  "c_mount (login_component e n) = (\<lambda>s. login_mount n (fresh_login (isRegisterMode s) (lp_browser s)))" "c_event (login_component e n) = lp_on e" "c_resume (login_component e n) = lp_resume"
  "c_timer (login_component e n) = lp_timer" "c_effect (login_component e n) = (\<lambda>old s. idle s)"
  "c_fits (login_component e n) = (\<lambda>q r. True)"
  by (simp_all add: login_component_def)

definition login_start :: "login_page \<Rightarrow> bool" where
  "login_start s \<longleftrightarrow> (\<exists>r b. s = fresh_login r b)"

section \<open>Lemmas\<close>

text \<open>What a request carries: a registration has passed all the rules, a login the first ones.\<close>

fun lp_request_ok :: "(string \<Rightarrow> bool) \<Rightarrow> lp_request \<Rightarrow> lp_cont \<Rightarrow> bool" where
  "lp_request_ok e q MountCookie = (q = QSession AuthGetCookie)"
| "lp_request_ok e q MountMe = (q = QSession AuthGetMe)"
| "lp_request_ok e q ProvidersRead = (q = QSession AuthGetProviders)"
| "lp_request_ok e q (SignedIn new) =
     (if new then \<exists>f. q = QRegister f \<and> login_rules e f \<and> name_rules f \<and> confirm_rules f \<and> terms_rules f
      else \<exists>f. q = QSession (AuthLogin (user_form.truncate f)) \<and> login_rules e f)"
| "lp_request_ok e q ResetForm = False"

text \<open>Timers only reset the form, and the locked form has its answer or its timer under way.\<close>

lemma lp_timer_ok: "lp_timer k s = (if k = ResetForm then reset_form s else idle s)"
  by (cases k) auto

lemmas lp_pieces = signIn_def toggleMode_def went_back_def login_mount_def probe_failed_def ask_providers_def forget_merchant_def
  reset_form_def

lemma lp_on_ok: "ok_outcome (\<lambda>s. True) (lp_request_ok e) (\<lambda>k. k = ResetForm) (\<lambda>x. True) (lp_on e v s)"
  by (cases "(e, v, s)" rule: lp_on.cases) (auto simp: lp_pieces idle_def form_rules_def)

lemma lp_resume_ok: "ok_outcome (\<lambda>s. True) (lp_request_ok e) (\<lambda>k. k = ResetForm) (\<lambda>x. True) (lp_resume k r s)"
  by (cases k; cases "(r, s)" rule: providers_read.cases) (auto simp: lp_pieces idle_def)

lemma lp_resume_submitting:
  "lp_submitting (fst (lp_resume k r s)) \<Longrightarrow>
     wakes (\<lambda>k. \<exists>n. k = SignedIn n) (\<lambda>k. k = ResetForm) (snd (lp_resume k r s)) \<or> lp_submitting s \<and> (\<nexists>n. k = SignedIn n)"
  by (cases k; cases "(r, s)" rule: providers_read.cases) (auto simp: lp_pieces idle_def wakes_simps split: if_splits)

lemma lp_on_submitting:
  "lp_submitting (fst (lp_on e v s)) \<Longrightarrow> wakes (\<lambda>k. \<exists>n. k = SignedIn n) B (snd (lp_on e v s)) \<or> lp_submitting s"
  by (cases "(e, v, s)" rule: lp_on.cases) (auto simp: lp_pieces idle_def wakes_simps split: if_splits)

interpretation login: live_component "login_component e n" "\<lambda>s. True" "lp_request_ok e" "\<lambda>k. k = ResetForm" "\<lambda>x. True"
  lp_submitting "\<lambda>k. \<exists>new. k = SignedIn new" "\<lambda>k. k = ResetForm" for e n
proof unfold_locales
  fix s :: login_page and s' cs v
  assume "andThen (c_event (login_component e n) v s) (c_effect (login_component e n) s) = (s', cs)" "lp_submitting s'"
  then show "wakes (\<lambda>k. \<exists>new. k = SignedIn new) (\<lambda>k. k = ResetForm) cs \<or> lp_submitting s"
    using lp_on_submitting [of e v s] by simp
next
  fix s :: login_page and s' cs q k r
  assume "andThen (c_resume (login_component e n) k r s) (c_effect (login_component e n) s) = (s', cs)" "lp_submitting s'"
  then show "wakes (\<lambda>k. \<exists>new. k = SignedIn new) (\<lambda>k. k = ResetForm) cs \<or> lp_submitting s \<and> \<not> (\<exists>new. k = SignedIn new)"
    using lp_resume_submitting [of k r s] by simp
qed (use lp_on_ok lp_resume_ok in \<open>auto simp: lp_timer_ok lp_pieces idle_def wakes_simps fresh_login_def split: if_splits\<close>)

section \<open>Properties\<close>

text \<open>C32. An account is created only on a complete and consistent form: in every run each registration under
  way carries a name of at least two characters, an address that the test accepts, a password of at least
  eight characters that was typed the same twice, and the acceptance of the terms.\<close>

theorem registration_complete:
  assumes "areach (login_component is_email isNeedLogout) login_start w" and "(QRegister f, k) \<in> set (pending w)"
  shows "(\<exists>n. uf_name f = Some n \<and> 2 \<le> length n) \<and> uf_email f \<noteq> [] \<and> is_email (uf_email f)
    \<and> 8 \<le> length (uf_password f) \<and> confirmPassword f = Some (uf_password f) \<and> uf_termsAccepted f = Some True"
proof -
  have "lp_request_ok is_email (QRegister f) k"
    using login.reachable_ok [OF assms(1)] assms(2) by (auto simp: ok_world_def)
  then show ?thesis
    by (cases k) (auto simp: login_rules_def name_rules_def confirm_rules_def terms_rules_def split: if_splits)
qed

text \<open>The form is not locked for good: while its button is disabled an answer or the timer that frees it is
  under way.\<close>

lemma login_form_unlocks:
  assumes "areach (login_component is_email isNeedLogout) login_start w" and "lp_submitting (wst w)"
  shows "(\<exists>(q, k) \<in> set (pending w). \<exists>new. k = SignedIn new) \<or> (\<exists>(t, k) \<in> set (timers w). k = ResetForm)"
  using login.reachable_awake [OF assms(1)] assms(2) by (auto simp: awake_def)

text \<open>The password is sent twice: the confirmation is a field of the registration's body.\<close>

lemma confirmation_sent:
  assumes "confirmPassword f = Some p"
  shows "\<exists>fs. req_body (lp_http (QRegister f)) = Some (JObj fs) \<and> (''confirmPassword'', JStr p) \<in> set fs"
  using assms by (simp add: register_fields_def opt_field_def)

text \<open>Without the list of providers the page shows its spinner and nothing to sign in with: a rejected list
  leaves it so, and nothing asks again.\<close>

lemma no_providers_no_login:
  assumes "providersList s = []"
  shows "lp_resume ProvidersRead (Rejected e) s = (s, [])" and "handlers_of (login_view host s) = []"
  using assms by (simp_all add: idle_def login_view_def)

theorem registration_complete_witness:
  "\<exists>w f k. areach (login_component (\<lambda>e. True) True) login_start w \<and> (QRegister f, k) \<in> set (pending w) \<and> uf_termsAccepted f = Some True"
proof -
  let ?c = "login_component (\<lambda>e. True) True"
  define f where "f = empty_register\<lparr>uf_email := ''a@b.c'', uf_password := ''12345678'', uf_name := Some ''Ann'',
    uf_termsAccepted := Some True, confirmPassword := Some ''12345678''\<rparr>"
  define b :: browser where "b = \<lparr>store = Map.empty, available = True, quota = None\<rparr>"
  define w0 where "w0 = initial ?c (fresh_login True b)"
  define w1 where "w1 = do_reply ?c 0 (Resolved (LProviders (Some [\<lparr>ap_name = ''email''\<rparr>]))) w0"
  define w2 where "w2 = do_event ?c (LpFill f) w1"
  define w3 where "w3 = do_event ?c (LpAct HLogin) w2"
  have w0: "pending w0 = [(QSession AuthGetProviders, ProvidersRead)]" "isRegisterMode (wst w0)" "\<not> lp_submitting (wst w0)"
    by (simp_all add: w0_def mount_run login_mount_def ask_providers_def forget_merchant_def fresh_login_def)
  have w1: "pending w1 = []" "providersList (wst w1) = [\<lparr>ap_name = ''email''\<rparr>]" "isRegisterMode (wst w1)" "\<not> lp_submitting (wst w1)"
    by (simp_all add: w1_def reply_run [OF w0(1)] w0 idle_def)
  have w2: "pending w2 = []" "lp_form (wst w2) = f" "providersList (wst w2) = [\<lparr>ap_name = ''email''\<rparr>]" "isRegisterMode (wst w2)"
      "\<not> lp_submitting (wst w2)"
    by (simp_all add: w2_def event_run w1 idle_def)
  have "form_rules (\<lambda>e. True) (wst w2)"
    by (simp add: form_rules_def w2 login_rules_def name_rules_def confirm_rules_def terms_rules_def) (simp add: f_def)
  moreover have "HLogin \<in> set (handlers_of (login_view [] (wst w2)))"
    by (simp add: login_view_def w2 offers_def login_form_def)
  ultimately have w3: "pending w3 = [(QRegister f, SignedIn True)]" using w2 by (simp add: w3_def event_run signIn_def)
  have "areach ?c login_start w0" unfolding w0_def by (rule areach.start) (auto simp: login_start_def)
  then have "areach ?c login_start w1" unfolding w1_def by (rule reply_reach [OF _ w0(1)]) simp
  then have r: "areach ?c login_start w3" unfolding w3_def w2_def by (intro event_reach)
  have m: "(QRegister f, SignedIn True) \<in> set (pending w3)" by (simp add: w3)
  from registration_complete [OF r m] r m show ?thesis by blast
qed

end
