(* ===== verification/Admin_Lists.thy ===== *)
theory Admin_Lists
  imports Admin_Kit
begin

text \<open>
  The lists of the administration console as asynchronous components: the users
  (pages/admin/users-page), the merchants with the plans that can be assigned to them
  (pages/admin/merchants-page), the contacts with their search and export
  (pages/admin/contacts-page) and the numbers of the first page (pages/admin/dashboard-page). A user acts
  through the rendered view; what the closures of a render capture, such as the number of the page, is
  in the continuation of a request. \<open>loc\<close> and \<open>day\<close> format a number and a date.
\<close>

definition PAGE_ROWS :: nat where
  "PAGE_ROWS = 20"

text \<open>The pager of a table: one entry for each page of the total.\<close>

definition pager :: "string \<Rightarrow> (nat \<Rightarrow> 'h) \<Rightarrow> nat \<Rightarrow> nat \<Rightarrow> 'h ui" where
  "pager what turn cur n =
     El ''Pagination'' [(''current'', show_nat cur), (''pageSize'', show_nat PAGE_ROWS), (''total'', show_nat n)]
       (map (\<lambda>p. (''onChange'', turn p)) [1..<Suc ((n + PAGE_ROWS - 1) div PAGE_ROWS)])
       [Txt (show_nat n @ '' '' @ what)]"

datatype 'a list_answer = Page "'a paginated" | AllPlans "admin_plan list" | Done

datatype ad_effect = AdSuccess string | AdError string | Saved string

lemma pager_handlers: "h \<in> set (ui_handlers (pager what turn cur n)) \<longleftrightarrow>
    (\<exists>p \<in> {1..<Suc ((n + PAGE_ROWS - 1) div PAGE_ROWS)}. h = turn p)"
  by (auto simp: pager_def)

section \<open>Users\<close>

(* src: ui-dashboard/src/pages/admin/users-page/users-page.tsx 8-13 AdminUsersPage *)
record users_page =
  up_users :: "admin_user list"
  up_total :: nat
  up_loading :: bool
  up_page :: nat

datatype up_cont = UsersLoaded | UserDeleted admin_user nat

datatype up_handler = HDeleteUser admin_user | HUsersPage nat

type_synonym up_outcome = "(users_page, admin_request, up_cont, ad_effect) outcome"

(* src: ui-dashboard/src/pages/admin/users-page/users-page.tsx 15-18 loadUsers *)
definition loadUsers :: "nat \<Rightarrow> users_page \<Rightarrow> up_outcome" where
  "loadUsers p s =
     (s\<lparr>up_loading := True\<rparr>, [Await (ListUsers (Some PAGE_ROWS) (Some ((p - 1) * PAGE_ROWS))) UsersLoaded])"

(* src: ui-dashboard/src/pages/admin/users-page/users-page.tsx 19-26 setUsers *)
fun users_loaded :: "(admin_user list_answer, admin_error) reply \<Rightarrow> users_page \<Rightarrow> up_outcome" where
  "users_loaded (Resolved (Page d)) s =
     idle (s\<lparr>up_users := list_or_nil (pr_results d), up_total := pr_total d, up_loading := False\<rparr>)"
| "users_loaded _ s = idle (s\<lparr>up_loading := False\<rparr>)"

(* src: ui-dashboard/src/pages/admin/users-page/users-page.tsx 32-34 handleDeleteUser *)
definition handleDeleteUser :: "admin_user \<Rightarrow> users_page \<Rightarrow> up_outcome" where
  "handleDeleteUser u s = (s, [Await (DeleteUser (au_id u)) (UserDeleted u (up_page s))])"

(* src: ui-dashboard/src/pages/admin/users-page/users-page.tsx 35-40 deleted *)
fun user_deleted :: "admin_user \<Rightarrow> nat \<Rightarrow> (admin_user list_answer, admin_error) reply \<Rightarrow> users_page \<Rightarrow> up_outcome" where
  "user_deleted u p (Resolved a) s =
     andThen (s, [Emit (AdSuccess (''User \"'' @ au_email u @ ''\" deleted''))]) (loadUsers p)"
| "user_deleted u p (Rejected e) s =
     (s, [Emit (AdError (''Failed to delete user: '' @ message_or_text e))])"

(* src: ui-dashboard/src/pages/admin/users-page/users-page.tsx 75-97 actions *)
definition user_actions :: "admin_user \<Rightarrow> up_handler ui list" where
  "user_actions u =
     (if is_super_admin u then [leaf ''Text'' ''Protected'']
      else [El ''Popconfirm'' [(''title'', ''Delete User''),
          (''description'', ''Are you sure you want to delete \"'' @ au_email u
             @ ''\"? This will also delete all their merchants and cancel subscriptions.''),
          (''okText'', ''Delete''), (''cancelText'', ''Cancel'')]
          [(''onConfirm'', HDeleteUser u)] [leaf ''Button'' ''Delete'']])"

(* src: ui-dashboard/src/pages/admin/users-page/users-page.tsx 42-74 columns *)
definition user_columns :: "(string \<Rightarrow> string) \<Rightarrow> (admin_user, up_handler) column list" where
  "user_columns day =
     [(''Email'', \<lambda>u. [leaf ''strong'' (au_email u)]), (''Name'', \<lambda>u. text_cell (au_name u)),
      (''Role'', \<lambda>u. [El ''Tag'' [(''color'', if is_super_admin u then ''gold'' else ''default'')] []
          [Txt (if is_super_admin u then ''Super Admin'' else ''Merchant'')]]),
      (''Merchants'', \<lambda>u. text_cell (show_nat (merchant_count u))),
      (''Registered'', \<lambda>u. text_cell (day (au_created_at u))), (''Actions'', user_actions)]"

(* src: ui-dashboard/src/pages/admin/users-page/users-page.tsx 100-117 PageContainer *)
definition users_view :: "(string \<Rightarrow> string) \<Rightarrow> users_page \<Rightarrow> up_handler ui list" where
  "users_view day s =
     [leaf ''Title'' ''All Users'',
      data_table (up_loading s) (\<lambda>u. show_nat (au_id u)) (user_columns day) (up_users s),
      pager ''users'' HUsersPage (up_page s) (up_total s)]"

fun up_run :: "up_handler \<Rightarrow> users_page \<Rightarrow> up_outcome" where
  "up_run (HDeleteUser u) s = handleDeleteUser u s"
| "up_run (HUsersPage p) s = idle (s\<lparr>up_page := p\<rparr>)"

definition up_on :: "up_handler \<Rightarrow> users_page \<Rightarrow> up_outcome" where
  "up_on h s = (if h \<in> set (handlers_of (users_view id s)) then up_run h s else idle s)"

fun up_resume :: "up_cont \<Rightarrow> (admin_user list_answer, admin_error) reply \<Rightarrow> users_page \<Rightarrow> up_outcome" where
  "up_resume UsersLoaded a s = users_loaded a s"
| "up_resume (UserDeleted u p) a s = user_deleted u p a s"

(* src: ui-dashboard/src/pages/admin/users-page/users-page.tsx 28-30 useEffect *)
definition up_effects :: "users_page \<Rightarrow> users_page \<Rightarrow> up_outcome" where
  "up_effects old s = (if up_page s = up_page old then idle s else loadUsers (up_page s) s)"

definition fresh_users :: users_page where
  "fresh_users = \<lparr>up_users = [], up_total = 0, up_loading = True, up_page = 1\<rparr>"

definition users_component where
  "users_component = \<lparr>c_mount = (\<lambda>s. loadUsers 1 fresh_users), c_event = up_on, c_resume = up_resume,
     c_timer = (\<lambda>k s. idle s), c_effect = up_effects,
     c_fits = (\<lambda>(q :: admin_request) (r :: (admin_user list_answer, admin_error) reply). True)\<rparr>"

lemma users_component_simps [simp]:
  "c_mount users_component = (\<lambda>s. loadUsers 1 fresh_users)" "c_event users_component = up_on"
  "c_resume users_component = up_resume" "c_timer users_component = (\<lambda>k s. idle s)"
  "c_effect users_component = up_effects" "c_fits users_component = (\<lambda>q r. True)"
  by (simp_all add: users_component_def)

text \<open>Only a user who is listed and is no administrator can be deleted.\<close>

lemma delete_user_button:
  "HDeleteUser u \<in> set (handlers_of (users_view day s)) \<longleftrightarrow> u \<in> set (up_users s) \<and> \<not> is_super_admin u"
  by (auto simp: users_view_def table_handlers pager_handlers user_columns_def user_actions_def)

text \<open>The requests of the page are lists and deletions of users who are no administrators.\<close>

fun up_request_ok :: "admin_request \<Rightarrow> up_cont \<Rightarrow> bool" where
  "up_request_ok q UsersLoaded = (\<exists>l off. q = ListUsers l off)"
| "up_request_ok q (UserDeleted u p) = (q = DeleteUser (au_id u) \<and> \<not> is_super_admin u)"

interpretation users: waiting_page users_component up_request_ok up_loading "\<lambda>k. k = UsersLoaded"
proof unfold_locales
  fix s :: users_page and k :: up_cont and r :: "(admin_user list_answer, admin_error) reply"
  show "typed up_request_ok (c_resume users_component k r s)"
    by (cases k; cases "(r, s)" rule: users_loaded.cases) (auto simp: loadUsers_def)
  show "waits up_loading (\<lambda>k. k = UsersLoaded) (up_loading s \<and> k \<noteq> UsersLoaded) (c_resume users_component k r s)"
    by (cases k; cases "(r, s)" rule: users_loaded.cases) (auto simp: loadUsers_def)
next
  fix s :: users_page and v :: up_handler
  show "typed up_request_ok (c_event users_component v s)"
    by (cases v) (auto simp: up_on_def handleDeleteUser_def delete_user_button)
  show "waits up_loading (\<lambda>k. k = UsersLoaded) (up_loading s) (c_event users_component v s)"
    by (cases v) (auto simp: up_on_def handleDeleteUser_def)
qed (auto simp: loadUsers_def up_effects_def)

section \<open>Merchants\<close>

(* src: ui-dashboard/src/pages/admin/merchants-page/merchants-page.tsx 8-20 AdminMerchantsPage *)
record merchants_page =
  amp_merchants :: "admin_merchant list"
  amp_plans :: "admin_plan list"
  amp_total :: nat
  amp_loading :: bool
  amp_page :: nat
  assignModalOpen :: bool
  selectedMerchant :: "admin_merchant option"
  selectedPlanId :: string
  assigning :: bool

datatype amp_cont = MerchantsLoaded | PlansLoaded | PlanAssigned string nat | MerchantDeleted admin_merchant nat

datatype amp_handler =
    HAssign admin_merchant | HDeleteMerchant admin_merchant | HMerchantsPage nat | HSelectPlan string
  | HAssignOk | HAssignCancel

type_synonym amp_outcome = "(merchants_page, admin_request, amp_cont, ad_effect) outcome"

(* src: ui-dashboard/src/pages/admin/merchants-page/merchants-page.tsx 22-25 loadMerchants *)
definition loadMerchants :: "nat \<Rightarrow> merchants_page \<Rightarrow> amp_outcome" where
  "loadMerchants p s = (s\<lparr>amp_loading := True\<rparr>,
     [Await (AdminListMerchants (Some PAGE_ROWS) (Some ((p - 1) * PAGE_ROWS))) MerchantsLoaded])"

(* src: ui-dashboard/src/pages/admin/merchants-page/merchants-page.tsx 26-33 setMerchants *)
fun merchants_loaded :: "(admin_merchant list_answer, admin_error) reply \<Rightarrow> merchants_page \<Rightarrow> amp_outcome" where
  "merchants_loaded (Resolved (Page d)) s =
     idle (s\<lparr>amp_merchants := list_or_nil (pr_results d), amp_total := pr_total d, amp_loading := False\<rparr>)"
| "merchants_loaded _ s = idle (s\<lparr>amp_loading := False\<rparr>)"

(* src: ui-dashboard/src/pages/admin/merchants-page/merchants-page.tsx 35-42 loadPlans *)
fun plans_listed :: "(admin_merchant list_answer, admin_error) reply \<Rightarrow> merchants_page \<Rightarrow> amp_outcome" where
  "plans_listed (Resolved (AllPlans ps)) s = idle (s\<lparr>amp_plans := filter ap_is_active ps\<rparr>)"
| "plans_listed _ s = idle s"

(* src: ui-dashboard/src/pages/admin/merchants-page/merchants-page.tsx 44-47 useEffect *)
definition amp_load :: "merchants_page \<Rightarrow> amp_outcome" where
  "amp_load s = andThen (loadMerchants (amp_page s) s) (\<lambda>s. (s, [Await AdminListPlans PlansLoaded]))"

(* src: ui-dashboard/src/pages/admin/merchants-page/merchants-page.tsx 49-53 openAssignModal *)
definition openAssignModal :: "admin_merchant \<Rightarrow> merchants_page \<Rightarrow> amp_outcome" where
  "openAssignModal m s = idle (s\<lparr>selectedMerchant := Some m, selectedPlanId := or_else (active_plan_id m) [],
     assignModalOpen := True\<rparr>)"

(* src: ui-dashboard/src/pages/admin/merchants-page/merchants-page.tsx 55-60 handleAssignPlan *)
definition handleAssignPlan :: "merchants_page \<Rightarrow> amp_outcome" where
  "handleAssignPlan s =
     (case selectedMerchant s of None \<Rightarrow> idle s
      | Some m \<Rightarrow>
          if selectedPlanId s = [] then idle s
          else (s\<lparr>assigning := True\<rparr>,
            [Await (AssignMerchantPlan (am_id m) (selectedPlanId s)) (PlanAssigned (am_name m) (amp_page s))]))"

(* src: ui-dashboard/src/pages/admin/merchants-page/merchants-page.tsx 61-69 assigned *)
fun plan_assigned :: "string \<Rightarrow> nat \<Rightarrow> (admin_merchant list_answer, admin_error) reply \<Rightarrow> merchants_page \<Rightarrow> amp_outcome" where
  "plan_assigned name p (Resolved a) s =
     andThen (s\<lparr>assignModalOpen := False, assigning := False\<rparr>, [Emit (AdSuccess (''Plan assigned to '' @ name))])
       (loadMerchants p)"
| "plan_assigned name p (Rejected e) s =
     (s\<lparr>assigning := False\<rparr>, [Emit (AdError (''Failed to assign plan: '' @ message_or_text e))])"

(* src: ui-dashboard/src/pages/admin/merchants-page/merchants-page.tsx 71-73 handleDeleteMerchant *)
definition handleDeleteMerchant :: "admin_merchant \<Rightarrow> merchants_page \<Rightarrow> amp_outcome" where
  "handleDeleteMerchant m s = (s, [Await (AdminDeleteMerchant (am_id m)) (MerchantDeleted m (amp_page s))])"

(* src: ui-dashboard/src/pages/admin/merchants-page/merchants-page.tsx 74-79 deleted *)
fun merchant_deleted ::
    "admin_merchant \<Rightarrow> nat \<Rightarrow> (admin_merchant list_answer, admin_error) reply \<Rightarrow> merchants_page \<Rightarrow> amp_outcome" where
  "merchant_deleted m p (Resolved a) s =
     andThen (s, [Emit (AdSuccess (''Merchant \"'' @ am_name m @ ''\" deleted''))]) (loadMerchants p)"
| "merchant_deleted m p (Rejected e) s =
     (s, [Emit (AdError (''Failed to delete merchant: '' @ message_or_text e))])"

(* src: ui-dashboard/src/pages/admin/merchants-page/merchants-page.tsx 97-107 colors *)
definition plan_tag :: "admin_merchant \<Rightarrow> 'h ui" where
  "plan_tag m =
     (if \<not> truthy (active_plan_name m) then El ''Tag'' [(''color'', ''default'')] [] [Txt ''No Plan'']
      else El ''Tag'' [(''color'', case map_of [(''free'', ''default''), (''basic'', ''blue''), (''pro'', ''green''),
               (''enterprise'', ''purple''), (''unlimited'', ''gold'')] (or_else (active_plan_id m) []) of
             None \<Rightarrow> ''blue'' | Some c \<Rightarrow> c)] [] [Txt (the (active_plan_name m))])"

(* src: ui-dashboard/src/pages/admin/merchants-page/merchants-page.tsx 140-162 actions *)
definition merchant_actions :: "admin_merchant \<Rightarrow> amp_handler ui list" where
  "merchant_actions m =
     [El ''Button'' [] [(''onClick'', HAssign m)] [Txt ''Assign Plan''],
      El ''Popconfirm'' [(''title'', ''Delete Merchant''),
        (''description'', ''Are you sure you want to delete \"'' @ am_name m
           @ ''\"? This will also cancel their subscription.''),
        (''okText'', ''Delete''), (''cancelText'', ''Cancel'')]
        [(''onConfirm'', HDeleteMerchant m)] [leaf ''Button'' ''Delete'']]"

(* src: ui-dashboard/src/pages/admin/merchants-page/merchants-page.tsx 81-139 columns *)
definition merchant_columns ::
    "(jsnum \<Rightarrow> string) \<Rightarrow> (string \<Rightarrow> string) \<Rightarrow> (admin_merchant, amp_handler) column list" where
  "merchant_columns loc day =
     [(''Name'', \<lambda>m. [leaf ''strong'' (am_name m)]), (''Owner'', \<lambda>m. text_cell (creator_email m)),
      (''Plan'', \<lambda>m. [plan_tag m]),
      (''Monthly Volume'', \<lambda>m. text_cell (''$'' @ loc (parse_float (or_else (Some (monthly_volume_usd m)) ''0'')))),
      (''Payments'', \<lambda>m. text_cell (show_nat (am_payment_count m))),
      (''Website'', \<lambda>m. if am_website m = [] then text_cell ''-''
         else [El ''a'' [(''href'', am_website m)] [] [Txt (am_website m)]]),
      (''Created'', \<lambda>m. text_cell (day (am_created_at m))), (''Actions'', merchant_actions)]"

(* src: ui-dashboard/src/pages/admin/merchants-page/merchants-page.tsx 182-207 Modal *)
definition assign_modal :: "merchants_page \<Rightarrow> amp_handler ui list" where
  "assign_modal s =
     overlay ''Modal'' (''Assign Plan '' @ em_dash @ '' '' @ or_else (map_option am_name (selectedMerchant s)) [])
       (assignModalOpen s) [(''onCancel'', HAssignCancel)]
       [leaf ''Text'' ''Current plan: '',
        leaf ''strong'' (or_else (Option.bind (selectedMerchant s) active_plan_name) ''None''),
        El ''Select'' [(''placeholder'', ''Select a plan''), (''value'', selectedPlanId s)]
          (map (\<lambda>p. (''onChange'', HSelectPlan (sp_id p))) (amp_plans s))
          (map (\<lambda>p. leaf ''option'' (plan_name p @ '' '' @ em_dash @ '' $'' @ price_usd p @ ''/mo'')) (amp_plans s)),
        El ''Button'' [(''loading'', bool_attr (assigning s)), (''disabled'', bool_attr (selectedPlanId s = []))]
          (when_ui (selectedPlanId s \<noteq> [] \<and> \<not> assigning s) [(''onOk'', HAssignOk)]) [Txt ''Assign Plan'']]"

(* src: ui-dashboard/src/pages/admin/merchants-page/merchants-page.tsx 164-180 PageContainer *)
definition merchants_view :: "(jsnum \<Rightarrow> string) \<Rightarrow> (string \<Rightarrow> string) \<Rightarrow> merchants_page \<Rightarrow> amp_handler ui list" where
  "merchants_view loc day s =
     [leaf ''Title'' ''All Merchants'',
      data_table (amp_loading s) (\<lambda>m. show_nat (am_id m)) (merchant_columns loc day) (amp_merchants s),
      pager ''merchants'' HMerchantsPage (amp_page s) (amp_total s)] @ assign_modal s"

fun amp_run :: "amp_handler \<Rightarrow> merchants_page \<Rightarrow> amp_outcome" where
  "amp_run (HAssign m) s = openAssignModal m s"
| "amp_run (HDeleteMerchant m) s = handleDeleteMerchant m s"
| "amp_run (HMerchantsPage p) s = idle (s\<lparr>amp_page := p\<rparr>)"
| "amp_run (HSelectPlan p) s = idle (s\<lparr>selectedPlanId := p\<rparr>)"
| "amp_run HAssignOk s = handleAssignPlan s"
| "amp_run HAssignCancel s = idle (s\<lparr>assignModalOpen := False\<rparr>)"

definition amp_on :: "amp_handler \<Rightarrow> merchants_page \<Rightarrow> amp_outcome" where
  "amp_on h s = (if h \<in> set (handlers_of (merchants_view (\<lambda>n. []) id s)) then amp_run h s else idle s)"

fun amp_resume :: "amp_cont \<Rightarrow> (admin_merchant list_answer, admin_error) reply \<Rightarrow> merchants_page \<Rightarrow> amp_outcome" where
  "amp_resume MerchantsLoaded a s = merchants_loaded a s"
| "amp_resume PlansLoaded a s = plans_listed a s"
| "amp_resume (PlanAssigned n p) a s = plan_assigned n p a s"
| "amp_resume (MerchantDeleted m p) a s = merchant_deleted m p a s"

definition amp_effects :: "merchants_page \<Rightarrow> merchants_page \<Rightarrow> amp_outcome" where
  "amp_effects old s = (if amp_page s = amp_page old then idle s else amp_load s)"

definition fresh_merchants :: merchants_page where
  "fresh_merchants = \<lparr>amp_merchants = [], amp_plans = [], amp_total = 0, amp_loading = True, amp_page = 1,
     assignModalOpen = False, selectedMerchant = None, selectedPlanId = [], assigning = False\<rparr>"

definition merchants_component where
  "merchants_component = \<lparr>c_mount = (\<lambda>s. amp_load fresh_merchants), c_event = amp_on, c_resume = amp_resume,
     c_timer = (\<lambda>k s. idle s), c_effect = amp_effects,
     c_fits = (\<lambda>(q :: admin_request) (r :: (admin_merchant list_answer, admin_error) reply). True)\<rparr>"

lemma merchants_component_simps [simp]:
  "c_mount merchants_component = (\<lambda>s. amp_load fresh_merchants)" "c_event merchants_component = amp_on"
  "c_resume merchants_component = amp_resume" "c_timer merchants_component = (\<lambda>k s. idle s)"
  "c_effect merchants_component = amp_effects" "c_fits merchants_component = (\<lambda>q r. True)"
  by (simp_all add: merchants_component_def)

fun amp_request_ok :: "admin_request \<Rightarrow> amp_cont \<Rightarrow> bool" where
  "amp_request_ok q MerchantsLoaded = (\<exists>l off. q = AdminListMerchants l off)"
| "amp_request_ok q PlansLoaded = (q = AdminListPlans)"
| "amp_request_ok q (PlanAssigned n p) = (\<exists>i pl. q = AssignMerchantPlan i pl \<and> pl \<noteq> [])"
| "amp_request_ok q (MerchantDeleted m p) = (q = AdminDeleteMerchant (am_id m))"

interpretation merchants: waiting_page merchants_component amp_request_ok amp_loading "\<lambda>k. k = MerchantsLoaded"
proof unfold_locales
  fix s :: merchants_page and k :: amp_cont and r :: "(admin_merchant list_answer, admin_error) reply"
  show "typed amp_request_ok (c_resume merchants_component k r s)"
    by (cases k; cases "(r, s)" rule: merchants_loaded.cases) (auto simp: loadMerchants_def)
  show "waits amp_loading (\<lambda>k. k = MerchantsLoaded) (amp_loading s \<and> k \<noteq> MerchantsLoaded) (c_resume merchants_component k r s)"
    by (cases k; cases "(r, s)" rule: merchants_loaded.cases) (auto simp: loadMerchants_def)
next
  fix s :: merchants_page and v :: amp_handler
  show "typed amp_request_ok (c_event merchants_component v s)"
    by (cases v) (auto simp: amp_on_def handleDeleteMerchant_def handleAssignPlan_def openAssignModal_def split: option.splits)
  show "waits amp_loading (\<lambda>k. k = MerchantsLoaded) (amp_loading s) (c_event merchants_component v s)"
    by (cases v) (auto simp: amp_on_def handleDeleteMerchant_def handleAssignPlan_def openAssignModal_def split: option.splits)
qed (auto simp: loadMerchants_def amp_effects_def amp_load_def)

section \<open>Contacts\<close>

(* src: ui-dashboard/src/pages/admin/contacts-page/contacts-page.tsx 8-16 AdminContactsPage *)
record contacts_page =
  acp_contacts :: "admin_contact list"
  acp_total :: nat
  acp_loading :: bool
  acp_page :: nat
  acp_search :: string
  marketingOnly :: bool
  exporting :: bool

datatype acp_cont = ContactsLoaded | ContactsExported string bool

datatype acp_event = AcSearch string | AcMarketingOnly bool | AcExport string | AcPage nat

type_synonym acp_outcome = "(contacts_page, admin_request, acp_cont, ad_effect) outcome"

text \<open>\<open>searchTerm || search\<close>: an empty term is the search of the render that made the closure. The
  provider leaves an empty search out of the query.\<close>

(* src: ui-dashboard/src/pages/admin/contacts-page/contacts-page.tsx 18-21 loadContacts *)
definition loadContacts :: "nat \<Rightarrow> string option \<Rightarrow> contacts_page \<Rightarrow> acp_outcome" where
  "loadContacts p searchTerm s = (s\<lparr>acp_loading := True\<rparr>,
     [Await (ListContacts (Some PAGE_ROWS) (Some ((p - 1) * PAGE_ROWS)) (Some (or_else searchTerm (acp_search s))))
        ContactsLoaded])"

(* src: ui-dashboard/src/pages/admin/contacts-page/contacts-page.tsx 22-29 setContacts *)
fun contacts_loaded :: "(admin_contact list_answer, admin_error) reply \<Rightarrow> contacts_page \<Rightarrow> acp_outcome" where
  "contacts_loaded (Resolved (Page d)) s =
     idle (s\<lparr>acp_contacts := list_or_nil (pr_results d), acp_total := pr_total d, acp_loading := False\<rparr>)"
| "contacts_loaded _ s = idle (s\<lparr>acp_loading := False\<rparr>)"

text \<open>The state is set for the next render; the request reads the search of this one.\<close>

(* src: ui-dashboard/src/pages/admin/contacts-page/contacts-page.tsx 35-39 handleSearch *)
definition handleSearch :: "string \<Rightarrow> contacts_page \<Rightarrow> acp_outcome" where
  "handleSearch value s =
     (case loadContacts 1 (Some value) s of (s', cs) \<Rightarrow> (s'\<lparr>acp_search := value, acp_page := 1\<rparr>, cs))"

(* src: ui-dashboard/src/pages/admin/contacts-page/contacts-page.tsx 41-44 handleExport *)
definition handleExport :: "string \<Rightarrow> contacts_page \<Rightarrow> acp_outcome" where
  "handleExport now s = (s\<lparr>exporting := True\<rparr>,
     [Await (ExportContacts (Some (marketingOnly s))) (ContactsExported now (marketingOnly s))])"

(* src: ui-dashboard/src/pages/admin/contacts-page/contacts-page.tsx 45-59 exported *)
fun contacts_exported ::
    "string \<Rightarrow> bool \<Rightarrow> (admin_contact list_answer, admin_error) reply \<Rightarrow> contacts_page \<Rightarrow> acp_outcome" where
  "contacts_exported now only (Resolved a) s =
     (s\<lparr>exporting := False\<rparr>,
      [Emit (Saved (''contacts'' @ (if only then ''-marketing'' else []) @ ''-'' @ slice now 0 10 @ ''.csv'')),
       Emit (AdSuccess ''Contacts exported'')])"
| "contacts_exported now only (Rejected e) s =
     (s\<lparr>exporting := False\<rparr>, [Emit (AdError ''Failed to export contacts'')])"

fun acp_on :: "acp_event \<Rightarrow> contacts_page \<Rightarrow> acp_outcome" where
  "acp_on (AcSearch v) s = handleSearch v s"
| "acp_on (AcMarketingOnly b) s = idle (s\<lparr>marketingOnly := b\<rparr>)"
| "acp_on (AcExport now) s = (if exporting s then idle s else handleExport now s)"
| "acp_on (AcPage p) s = idle (s\<lparr>acp_page := p\<rparr>)"

fun acp_resume :: "acp_cont \<Rightarrow> (admin_contact list_answer, admin_error) reply \<Rightarrow> contacts_page \<Rightarrow> acp_outcome" where
  "acp_resume ContactsLoaded a s = contacts_loaded a s"
| "acp_resume (ContactsExported now only) a s = contacts_exported now only a s"

(* src: ui-dashboard/src/pages/admin/contacts-page/contacts-page.tsx 31-33 useEffect *)
definition acp_effects :: "contacts_page \<Rightarrow> contacts_page \<Rightarrow> acp_outcome" where
  "acp_effects old s = (if acp_page s = acp_page old then idle s else loadContacts (acp_page s) None s)"

definition fresh_contacts :: contacts_page where
  "fresh_contacts = \<lparr>acp_contacts = [], acp_total = 0, acp_loading = True, acp_page = 1, acp_search = [],
     marketingOnly = False, exporting = False\<rparr>"

definition contacts_component where
  "contacts_component = \<lparr>c_mount = (\<lambda>s. loadContacts 1 None fresh_contacts), c_event = acp_on,
     c_resume = acp_resume, c_timer = (\<lambda>k s. idle s), c_effect = acp_effects,
     c_fits = (\<lambda>(q :: admin_request) (r :: (admin_contact list_answer, admin_error) reply). True)\<rparr>"

lemma contacts_component_simps [simp]:
  "c_mount contacts_component = (\<lambda>s. loadContacts 1 None fresh_contacts)" "c_event contacts_component = acp_on"
  "c_resume contacts_component = acp_resume" "c_timer contacts_component = (\<lambda>k s. idle s)"
  "c_effect contacts_component = acp_effects" "c_fits contacts_component = (\<lambda>q r. True)"
  by (simp_all add: contacts_component_def)

(* src: ui-dashboard/src/pages/admin/contacts-page/contacts-page.tsx 61-93 columns *)
definition contact_columns :: "(string \<Rightarrow> string) \<Rightarrow> (admin_contact, 'h) column list" where
  "contact_columns day =
     [(''Email'', \<lambda>c. [leaf ''strong'' (ac_email c)]),
      (''Source Merchant'', \<lambda>c. text_cell (or_else (Some (source_merchant_name c)) ''-'')),
      (''Marketing Consent'', \<lambda>c. [El ''Tag'' [(''color'', if marketing_consent c then ''green'' else ''default'')] []
          [Txt (if marketing_consent c then ''Yes'' else ''No'')]]),
      (''Terms Accepted'', \<lambda>c. text_cell (if truthy (terms_accepted_at c) then day (the (terms_accepted_at c)) else ''-'')),
      (''Created'', \<lambda>c. text_cell (day (ac_created_at c)))]"

datatype acp_handler = HContactsPage nat | HSearch | HMarketingOnly bool | HExportContacts

(* src: ui-dashboard/src/pages/admin/contacts-page/contacts-page.tsx 95-136 PageContainer *)
definition contacts_view :: "(string \<Rightarrow> string) \<Rightarrow> contacts_page \<Rightarrow> acp_handler ui list" where
  "contacts_view day s =
     [leaf ''Title'' ''Contacts'',
      leaf ''Text'' (''Invoice payers across all merchants '' @ em_dash @ '' global CryptoLink consent tracking''),
      El ''Input.Search'' [(''placeholder'', ''Search by email'')] [(''onSearch'', HSearch)] [],
      El ''Checkbox'' [(''checked'', bool_attr (marketingOnly s))] [(''onChange'', HMarketingOnly (\<not> marketingOnly s))]
        [Txt ''Export marketing-consented only''],
      button ''Export CSV'' (exporting s) HExportContacts,
      data_table (acp_loading s) (\<lambda>c. show_nat (ac_id c)) (contact_columns day) (acp_contacts s),
      pager ''contacts'' HContactsPage (acp_page s) (acp_total s)]"

fun acp_request_ok :: "admin_request \<Rightarrow> acp_cont \<Rightarrow> bool" where
  "acp_request_ok q ContactsLoaded = (\<exists>l off f. q = ListContacts l off f)"
| "acp_request_ok q (ContactsExported now only) = (q = ExportContacts (Some only))"

interpretation contacts: waiting_page contacts_component acp_request_ok acp_loading "\<lambda>k. k = ContactsLoaded"
proof unfold_locales
  fix s :: contacts_page and k :: acp_cont and r :: "(admin_contact list_answer, admin_error) reply"
  show "typed acp_request_ok (c_resume contacts_component k r s)"
    by (cases k; cases "(r, s)" rule: contacts_loaded.cases) auto
  show "waits acp_loading (\<lambda>k. k = ContactsLoaded) (acp_loading s \<and> k \<noteq> ContactsLoaded) (c_resume contacts_component k r s)"
    by (cases k; cases "(r, s)" rule: contacts_loaded.cases) auto
next
  fix s :: contacts_page and v :: acp_event
  show "typed acp_request_ok (c_event contacts_component v s)"
    by (cases v) (auto simp: handleSearch_def loadContacts_def handleExport_def)
  show "waits acp_loading (\<lambda>k. k = ContactsLoaded) (acp_loading s) (c_event contacts_component v s)"
    by (cases v) (auto simp: handleSearch_def loadContacts_def handleExport_def)
qed (auto simp: loadContacts_def acp_effects_def)

section \<open>Numbers of the first page\<close>

(* src: ui-dashboard/src/pages/admin/dashboard-page/dashboard-page.tsx 7-9 AdminDashboardPage *)
record stats_page =
  asp_stats :: "system_stats option"
  asp_loading :: bool

(* src: ui-dashboard/src/pages/admin/dashboard-page/dashboard-page.tsx 11-23 load *)
fun stats_loaded :: "(system_stats, admin_error) reply \<Rightarrow> stats_page \<Rightarrow> stats_page" where
  "stats_loaded (Resolved st) s = s\<lparr>asp_stats := Some st, asp_loading := False\<rparr>"
| "stats_loaded (Rejected e) s = s\<lparr>asp_loading := False\<rparr>"

text \<open>\<open>stats?.field ?? 0\<close>\<close>

definition stat_of :: "stats_page \<Rightarrow> (system_stats \<Rightarrow> nat) \<Rightarrow> string" where
  "stat_of s f = show_nat (case asp_stats s of None \<Rightarrow> 0 | Some st \<Rightarrow> f st)"

(* src: ui-dashboard/src/pages/admin/dashboard-page/dashboard-page.tsx 25-112 PageContainer *)
definition stats_view :: "stats_page \<Rightarrow> 'h ui list" where
  "stats_view s =
     (if asp_loading s then [comp ''Spin'' []]
      else [leaf ''Title'' ''Admin Dashboard'',
        statistic ''Total Merchants'' (stat_of s total_merchants), statistic ''Total Users'' (stat_of s total_users),
        statistic ''Paying Merchants'' (stat_of s paying_merchants),
        statistic ''Monthly Revenue'' (case asp_stats s of None \<Rightarrow> ''0'' | Some st \<Rightarrow> monthly_revenue st),
        statistic ''Free Tier'' (stat_of s free_tier_count), statistic ''Starter'' (stat_of s basic_tier_count),
        statistic ''Growth'' (stat_of s pro_tier_count),
        statistic ''Business/Enterprise'' (stat_of s enterprise_tier_count),
        statistic ''No Subscription'' (stat_of s no_subscription_count)])"

section \<open>Properties\<close>

text \<open>C33. Administrators cannot be deleted: a request to delete an account goes out only as the user
  confirms the deletion of an account that the list shows and that is no administrator.\<close>

theorem administrators_kept:
  assumes "astep users_component w w'" and "(DeleteUser i, k) \<in> set (pending w')"
    and "(DeleteUser i, k) \<notin> set (pending w)"
  shows "\<exists>u \<in> set (up_users (wst w)). au_id u = i \<and> \<not> is_super_admin u
    \<and> w' = do_event users_component (HDeleteUser u) w"
  using assms
proof (cases rule: new_request)
  case (event v)
  then show ?thesis
    by (cases v) (auto simp: up_on_def handleDeleteUser_def idle_def delete_user_button split: if_splits)
next
  case (reply j r)
  then show ?thesis
    by (cases "snd (pending w ! j)"; cases "(r, wst w)" rule: users_loaded.cases) (auto simp: idle_def loadUsers_def)
qed (auto simp: up_effects_def loadUsers_def idle_def split: if_splits)

text \<open>The spinners of the three lists end: while one is shown, the request of that list is under way.\<close>

lemma lists_arrive:
  "areach users_component S w \<Longrightarrow> up_loading (wst w) \<Longrightarrow> \<exists>(q, k) \<in> set (pending w). k = UsersLoaded"
  "areach merchants_component S' w' \<Longrightarrow> amp_loading (wst w') \<Longrightarrow> \<exists>(q, k) \<in> set (pending w'). k = MerchantsLoaded"
  "areach contacts_component S'' w'' \<Longrightarrow> acp_loading (wst w'') \<Longrightarrow> \<exists>(q, k) \<in> set (pending w''). k = ContactsLoaded"
  by (rule users.under_way merchants.under_way contacts.under_way; assumption)+

text \<open>A plan is assigned only to the merchant of the open dialog, and it is the one chosen there.\<close>

lemma assign_from_dialog:
  assumes "Await (AssignMerchantPlan i plan) k \<in> set (snd (amp_on h s))"
  shows "h = HAssignOk \<and> assignModalOpen s \<and> plan = selectedPlanId s \<and> plan \<noteq> []
    \<and> (\<exists>m. selectedMerchant s = Some m \<and> am_id m = i)"
  using assms
  by (cases h)
     (auto simp: amp_on_def merchants_view_def assign_modal_def overlay_handlers table_handlers merchant_columns_def
       merchant_actions_def plan_tag_def pager_handlers handleAssignPlan_def handleDeleteMerchant_def openAssignModal_def
       idle_def when_ui_def split: if_splits option.splits)

text \<open>The search cannot be cleared: the request that an emptied field sends asks for the search it had
  before, so on the first page the rows of the old search stay while the field shows none.\<close>

lemma search_not_cleared:
  assumes "acp_page s = 1" and "acp_search s = f" and "f \<noteq> []"
  shows "(case andThen (acp_on (AcSearch []) s) (acp_effects s) of (s', cs) \<Rightarrow>
    acp_search s' = [] \<and> cs = [Await (ListContacts (Some 20) (Some 0) (Some f)) ContactsLoaded])"
  using assms by (simp add: handleSearch_def loadContacts_def acp_effects_def idle_def PAGE_ROWS_def or_else_def)

text \<open>Rows that arrive late replace those of the page that is shown, whichever page they are of.\<close>

lemma late_page_kept:
  "up_users (fst (up_resume UsersLoaded (Resolved (Page d)) (s\<lparr>up_page := p\<rparr>))) = list_or_nil (pr_results d)"
  by (simp add: idle_def)

definition sample_user :: admin_user where
  "sample_user = \<lparr>au_id = 7, au_uuid = [], au_email = ''a@b.c'', au_name = [], is_super_admin = False,
     merchant_count = 0, au_created_at = []\<rparr>"

theorem administrators_kept_witness:
  "sample_user \<in> set (up_users (fresh_users\<lparr>up_users := [sample_user]\<rparr>)) \<and> \<not> is_super_admin sample_user"
proof -
  let ?w = "\<lparr>wst = fresh_users\<lparr>up_users := [sample_user]\<rparr>, pending = [], timers = [], trace = []\<rparr>
    :: (users_page, admin_request, up_cont, ad_effect) world"
  let ?w' = "do_event users_component (HDeleteUser sample_user) ?w"
  have "pending ?w' = [(DeleteUser 7, UserDeleted sample_user 1)]"
    by (simp add: do_event_def commit_def up_on_def delete_user_button up_effects_def idle_def handleDeleteUser_def)
       (simp add: sample_user_def fresh_users_def)
  then have "(DeleteUser 7, UserDeleted sample_user 1) \<in> set (pending ?w')"
    "(DeleteUser 7, UserDeleted sample_user 1) \<notin> set (pending ?w)" by simp_all
  from administrators_kept [OF astep.event this] show ?thesis by auto
qed

end
