(* ===== verification/Admin_Forms.thy ===== *)
theory Admin_Forms
  imports Admin_Lists
begin

text \<open>
  The two pages of the administration console that are forms: the mail settings with the composer and
  the log (pages/admin/email-page/email-page.tsx) and the subscription plans
  (pages/admin/plans-page/plans-page.tsx). A form of the component library hands its values to the code
  when its rules hold; \<open>is_email\<close> is the library's test of an address. A button that shows its
  spinner does not submit.
\<close>

section \<open>Mail\<close>

(* src: ui-dashboard/src/pages/admin/email-page/email-page.tsx 11-23 AdminEmailPage *)
record email_page =
  ep_settingsForm :: "email_settings option"
  ep_logs :: "email_log_entry list"
  ep_logsTotal :: nat
  ep_logsPage :: nat
  settingsLoading :: bool
  saving :: bool
  testing :: bool
  sending :: bool
  logsLoading :: bool

text \<open>What waits: \<open>SettingsLoaded\<close> is told whether a save ends with it, \<open>LogsLoaded\<close> what does.\<close>

datatype busy = NotBusy | Testing | Sending

datatype ep_cont = SettingsLoaded bool | LogsLoaded busy | SettingsSaved | Tested | Sent string

datatype ep_answer = Settings email_settings | Logs "email_log_entry paginated" | TestResult string | Accepted

datatype ep_effect = EpSuccess string "string option" | EpError string string | ResetCompose

type_synonym ep_outcome = "(email_page, admin_request, ep_cont, ep_effect) outcome"

(* src: ui-dashboard/src/pages/admin/email-page/email-page.tsx 25-28 loadSettings *)
definition loadSettings :: "bool \<Rightarrow> email_page \<Rightarrow> ep_outcome" where
  "loadSettings ends s = (s\<lparr>settingsLoading := True\<rparr>, [Await GetEmailSettings (SettingsLoaded ends)])"

(* src: ui-dashboard/src/pages/admin/email-page/email-page.tsx 29-44 setFieldsValue *)
fun settings_loaded :: "bool \<Rightarrow> (ep_answer, admin_error) reply \<Rightarrow> email_page \<Rightarrow> email_page" where
  "settings_loaded ends (Resolved (Settings d)) s =
     s\<lparr>ep_settingsForm := Some (d\<lparr>smtp_pass := []\<rparr>), settingsLoading := False, saving := saving s \<and> \<not> ends\<rparr>"
| "settings_loaded ends _ s = s\<lparr>settingsLoading := False, saving := saving s \<and> \<not> ends\<rparr>"

(* src: ui-dashboard/src/pages/admin/email-page/email-page.tsx 46-49 loadLogs *)
definition loadLogs :: "busy \<Rightarrow> nat \<Rightarrow> email_page \<Rightarrow> ep_outcome" where
  "loadLogs b p s = (s\<lparr>logsLoading := True\<rparr>, [Await (GetEmailLogs (Some 20) (Some ((p - 1) * 20))) (LogsLoaded b)])"

definition busy_over :: "busy \<Rightarrow> email_page \<Rightarrow> email_page" where
  "busy_over b s = s\<lparr>testing := testing s \<and> b \<noteq> Testing, sending := sending s \<and> b \<noteq> Sending\<rparr>"

(* src: ui-dashboard/src/pages/admin/email-page/email-page.tsx 50-57 setLogs *)
fun logs_loaded :: "busy \<Rightarrow> (ep_answer, admin_error) reply \<Rightarrow> email_page \<Rightarrow> email_page" where
  "logs_loaded b (Resolved (Logs d)) s =
     busy_over b (s\<lparr>ep_logs := list_or_nil (pr_results d), ep_logsTotal := pr_total d, logsLoading := False\<rparr>)"
| "logs_loaded b _ s = busy_over b (s\<lparr>logsLoading := False\<rparr>)"

(* src: ui-dashboard/src/pages/admin/email-page/email-page.tsx 64-67 handleSaveSettings *)
definition handleSaveSettings :: "email_settings \<Rightarrow> email_page \<Rightarrow> ep_outcome" where
  "handleSaveSettings v s = (s\<lparr>saving := True\<rparr>, [Await (UpdateEmailSettings v) SettingsSaved])"

(* src: ui-dashboard/src/pages/admin/email-page/email-page.tsx 68-83 saved *)
fun settings_saved :: "(ep_answer, admin_error) reply \<Rightarrow> email_page \<Rightarrow> ep_outcome" where
  "settings_saved (Resolved a) s = andThen (s, [Emit (EpSuccess ''Settings saved'' None)]) (loadSettings True)"
| "settings_saved (Rejected e) s =
     (s\<lparr>saving := False\<rparr>, [Emit (EpError ''Save failed'' (or_else (ae_message e) ''Failed to save settings.''))])"

(* src: ui-dashboard/src/pages/admin/email-page/email-page.tsx 85-88 handleTest *)
definition handleTest :: "email_page \<Rightarrow> ep_outcome" where
  "handleTest s = (s\<lparr>testing := True\<rparr>, [Await TestEmail Tested])"

text \<open>The text of the answer is read from it; an answer of another kind has none.\<close>

(* src: ui-dashboard/src/pages/admin/email-page/email-page.tsx 89-105 result *)
fun tested :: "(ep_answer, admin_error) reply \<Rightarrow> email_page \<Rightarrow> ep_outcome" where
  "tested (Resolved a) s =
     andThen (s, [Emit (EpSuccess ''Test email sent'' (case a of TestResult m \<Rightarrow> Some m | _ \<Rightarrow> None))])
       (loadLogs Testing 1)"
| "tested (Rejected e) s =
     (s\<lparr>testing := False\<rparr>, [Emit (EpError ''Test failed'' (or_else (ae_message e) ''Failed to send test email.''))])"

(* src: ui-dashboard/src/pages/admin/email-page/email-page.tsx 107-110 handleSendEmail *)
definition handleSendEmail :: "string \<Rightarrow> string \<Rightarrow> string \<Rightarrow> email_page \<Rightarrow> ep_outcome" where
  "handleSendEmail to subject body s = (s\<lparr>sending := True\<rparr>, [Await (SendEmail to subject body) (Sent to)])"

(* src: ui-dashboard/src/pages/admin/email-page/email-page.tsx 111-128 sent *)
fun email_sent :: "string \<Rightarrow> (ep_answer, admin_error) reply \<Rightarrow> email_page \<Rightarrow> ep_outcome" where
  "email_sent to (Resolved a) s =
     andThen (s, [Emit (EpSuccess ''Email sent'' (Some (''Email sent to '' @ to))), Emit ResetCompose]) (loadLogs Sending 1)"
| "email_sent to (Rejected e) s =
     (s\<lparr>sending := False\<rparr>, [Emit (EpError ''Send failed'' (or_else (ae_message e) ''Failed to send email.''))])"

section \<open>Mail forms\<close>

(* src: ui-dashboard/src/pages/admin/email-page/email-page.tsx 176-194 rules *)
definition settings_valid :: "(string \<Rightarrow> bool) \<Rightarrow> email_settings \<Rightarrow> bool" where
  "settings_valid is_email v \<longleftrightarrow> smtp_host v \<noteq> [] \<and> smtp_port v \<noteq> NaN \<and> smtp_user v \<noteq> [] \<and> from_name v \<noteq> []
     \<and> from_email v \<noteq> [] \<and> is_email (from_email v)"

(* src: ui-dashboard/src/pages/admin/email-page/email-page.tsx 222-230 rules *)
definition compose_valid :: "(string \<Rightarrow> bool) \<Rightarrow> string \<Rightarrow> string \<Rightarrow> string \<Rightarrow> bool" where
  "compose_valid is_email to subject body \<longleftrightarrow> to \<noteq> [] \<and> is_email to \<and> subject \<noteq> [] \<and> body \<noteq> []"

datatype ep_event = EpSave email_settings | EpTest | EpSend string string string | EpLogs nat

fun ep_on :: "(string \<Rightarrow> bool) \<Rightarrow> ep_event \<Rightarrow> email_page \<Rightarrow> ep_outcome" where
  "ep_on is_email (EpSave v) s =
     (if saving s \<or> settingsLoading s \<or> \<not> settings_valid is_email v then idle s else handleSaveSettings v s)"
| "ep_on is_email EpTest s = (if testing s \<or> settingsLoading s then idle s else handleTest s)"
| "ep_on is_email (EpSend to subject body) s =
     (if sending s \<or> \<not> compose_valid is_email to subject body then idle s else handleSendEmail to subject body s)"
| "ep_on is_email (EpLogs p) s = loadLogs NotBusy p (s\<lparr>ep_logsPage := p\<rparr>)"

fun ep_resume :: "ep_cont \<Rightarrow> (ep_answer, admin_error) reply \<Rightarrow> email_page \<Rightarrow> ep_outcome" where
  "ep_resume (SettingsLoaded e) a s = idle (settings_loaded e a s)"
| "ep_resume (LogsLoaded b) a s = idle (logs_loaded b a s)"
| "ep_resume SettingsSaved a s = settings_saved a s"
| "ep_resume Tested a s = tested a s"
| "ep_resume (Sent to) a s = email_sent to a s"

definition fresh_email :: email_page where
  "fresh_email = \<lparr>ep_settingsForm = None, ep_logs = [], ep_logsTotal = 0, ep_logsPage = 1, settingsLoading = True,
     saving = False, testing = False, sending = False, logsLoading = True\<rparr>"

(* src: ui-dashboard/src/pages/admin/email-page/email-page.tsx 59-62 useEffect *)
definition email_mount :: ep_outcome where
  "email_mount = andThen (loadSettings False fresh_email) (loadLogs NotBusy 1)"

definition email_component where
  "email_component is_email = \<lparr>c_mount = (\<lambda>s. email_mount), c_event = ep_on is_email, c_resume = ep_resume,
     c_timer = (\<lambda>k s. idle s), c_effect = (\<lambda>old s. idle s),
     c_fits = (\<lambda>(q :: admin_request) (r :: (ep_answer, admin_error) reply). True)\<rparr>"

lemma email_component_simps [simp]:
  "c_mount (email_component is_email) = (\<lambda>s. email_mount)" "c_event (email_component is_email) = ep_on is_email"
  "c_resume (email_component is_email) = ep_resume" "c_timer (email_component is_email) = (\<lambda>k s. idle s)"
  "c_effect (email_component is_email) = (\<lambda>old s. idle s)" "c_fits (email_component is_email) = (\<lambda>q r. True)"
  by (simp_all add: email_component_def)

datatype ep_handler = HSaveSettings | HTest | HSendEmail | HLogsPage nat

text \<open>A field of a form: its label, its name and whether it is required.\<close>

definition field :: "string \<Rightarrow> string \<Rightarrow> bool \<Rightarrow> string \<Rightarrow> 'h ui" where
  "field label name required holder =
     El ''Form.Item'' [(''label'', label), (''name'', name), (''required'', bool_attr required)] []
       [comp ''Input'' [(''placeholder'', holder)]]"

lemma field_handlers [simp]: "ui_handlers (field l n r h) = []"
  by (simp add: field_def)

(* src: ui-dashboard/src/pages/admin/email-page/email-page.tsx 165-210 settings *)
definition settings_tab :: "email_page \<Rightarrow> ep_handler ui" where
  "settings_tab s =
     El ''Card'' [(''loading'', bool_attr (settingsLoading s))] []
       (when_ui (\<not> settingsLoading s)
         [El ''Form'' [] [(''onFinish'', HSaveSettings)]
           [field ''SMTP Host'' ''smtp_host'' True ''smtp-relay.brevo.com'',
            El ''Form.Item'' [(''label'', ''SMTP Port''), (''name'', ''smtp_port''), (''required'', ''true'')] []
              [comp ''InputNumber'' [(''min'', ''1''), (''max'', ''65535'')]],
            field ''SMTP Username'' ''smtp_user'' True ''user@smtp-provider.com'',
            field ''SMTP Password'' ''smtp_pass'' False ''Enter to change, leave empty to keep'',
            field ''From Name'' ''from_name'' True ''CryptoLink'',
            field ''From Email'' ''from_email'' True ''contact@cryptolink.cc'',
            El ''Form.Item'' [(''label'', ''Active''), (''name'', ''is_active'')] [] [comp ''Switch'' []],
            El ''Button'' [(''htmlType'', ''submit''), (''loading'', bool_attr (saving s))] [] [Txt ''Save Settings''],
            button ''Send Test Email'' (testing s) HTest]])"

(* src: ui-dashboard/src/pages/admin/email-page/email-page.tsx 211-239 compose *)
definition compose_tab :: "email_page \<Rightarrow> ep_handler ui" where
  "compose_tab s =
     El ''Form'' [] [(''onFinish'', HSendEmail)]
       [field ''To'' ''to'' True ''recipient@example.com'', field ''Subject'' ''subject'' True ''Email subject'',
        field ''Body (HTML)'' ''body'' True ''<h2>Hello</h2><p>Your message here...</p>'',
        El ''Button'' [(''htmlType'', ''submit''), (''loading'', bool_attr (sending s))] [] [Txt ''Send Email'']]"

(* src: ui-dashboard/src/pages/admin/email-page/email-page.tsx 130-162 logColumns *)
definition log_columns :: "(string \<Rightarrow> string) \<Rightarrow> (email_log_entry, 'h) column list" where
  "log_columns local =
     [(''To'', \<lambda>e. text_cell (to_email e)), (''Subject'', \<lambda>e. text_cell (el_subject e)),
      (''Template'', \<lambda>e. if el_template e = [] then text_cell ''-'' else [leaf ''Tag'' (el_template e)]),
      (''Status'', \<lambda>e. [El ''Tag'' [(''color'', if el_status e = ''sent'' then ''green'' else ''red'')] []
          [Txt (el_status e)]]),
      (''Sent'', \<lambda>e. text_cell (local (el_created_at e)))]"

(* src: ui-dashboard/src/pages/admin/email-page/email-page.tsx 240-267 logs *)
definition email_view :: "(string \<Rightarrow> string) \<Rightarrow> email_page \<Rightarrow> ep_handler ui list" where
  "email_view local s =
     [leaf ''Title'' ''Email Management'',
      wrap ''Tabs'' [settings_tab s, compose_tab s,
        data_table (logsLoading s) (\<lambda>e. show_nat (el_id e)) (log_columns local) (ep_logs s),
        pager ''emails'' HLogsPage (ep_logsPage s) (ep_logsTotal s)]]"

text \<open>While the page saves, tests or sends, an answer that ends it is under way.\<close>

fun ep_request_ok :: "admin_request \<Rightarrow> ep_cont \<Rightarrow> bool" where
  "ep_request_ok q (SettingsLoaded e) = (q = GetEmailSettings)"
| "ep_request_ok q (LogsLoaded b) = (\<exists>l off. q = GetEmailLogs l off)"
| "ep_request_ok q SettingsSaved = (\<exists>v. q = UpdateEmailSettings v)"
| "ep_request_ok q Tested = (q = TestEmail)"
| "ep_request_ok q (Sent to) = (\<exists>subject body. q = SendEmail to subject body)"

definition ends_saving :: "ep_cont \<Rightarrow> bool" where
  "ends_saving k \<longleftrightarrow> k = SettingsSaved \<or> k = SettingsLoaded True"

definition ends_sending :: "ep_cont \<Rightarrow> bool" where
  "ends_sending k \<longleftrightarrow> (\<exists>to. k = Sent to) \<or> k = LogsLoaded Sending"

definition ends_testing :: "ep_cont \<Rightarrow> bool" where
  "ends_testing k \<longleftrightarrow> k = Tested \<or> k = LogsLoaded Testing"

lemma settings_loaded_simps [simp]:
  "saving (settings_loaded e a s) = (saving s \<and> \<not> e)" "sending (settings_loaded e a s) = sending s"
  "testing (settings_loaded e a s) = testing s"
  by (cases "(e, a, s)" rule: settings_loaded.cases; simp)+

lemma logs_loaded_simps [simp]:
  "saving (logs_loaded b a s) = saving s" "sending (logs_loaded b a s) = (sending s \<and> b \<noteq> Sending)"
  "testing (logs_loaded b a s) = (testing s \<and> b \<noteq> Testing)"
  by (cases "(b, a, s)" rule: logs_loaded.cases; simp add: busy_over_def)+

lemmas ep_pieces = busy_over_def handleSaveSettings_def handleTest_def handleSendEmail_def loadSettings_def loadLogs_def
  ends_saving_def ends_sending_def ends_testing_def

lemma ep_typed:
  "typed ep_request_ok (ep_on is_email v s)" "typed ep_request_ok (ep_resume k a s)" "typed ep_request_ok email_mount"
proof -
  show "typed ep_request_ok (ep_on is_email v s)" by (cases v) (simp_all add: ep_pieces)
  show "typed ep_request_ok (ep_resume k a s)" by (cases k; cases a) (simp_all add: ep_pieces)
qed (simp add: email_mount_def ep_pieces)

interpretation saving: waiting_page "email_component is_email" ep_request_ok saving ends_saving for is_email
proof unfold_locales
  fix s :: email_page and k :: ep_cont and r :: "(ep_answer, admin_error) reply"
  show "waits saving ends_saving (saving s \<and> \<not> ends_saving k) (c_resume (email_component is_email) k r s)"
    by (cases k; cases r) (auto simp: ep_pieces)
next
  fix s :: email_page and v :: ep_event
  show "waits saving ends_saving (saving s) (c_event (email_component is_email) v s)"
    by (cases v) (auto simp: ep_pieces)
qed (auto simp: ep_typed, auto simp: email_mount_def fresh_email_def ep_pieces)

interpretation sending: waiting_page "email_component is_email" ep_request_ok sending ends_sending for is_email
proof unfold_locales
  fix s :: email_page and k :: ep_cont and r :: "(ep_answer, admin_error) reply"
  show "waits sending ends_sending (sending s \<and> \<not> ends_sending k) (c_resume (email_component is_email) k r s)"
    by (cases k; cases r) (auto simp: ep_pieces)
next
  fix s :: email_page and v :: ep_event
  show "waits sending ends_sending (sending s) (c_event (email_component is_email) v s)"
    by (cases v) (auto simp: ep_pieces)
qed (auto simp: ep_typed, auto simp: email_mount_def fresh_email_def ep_pieces)

interpretation testing: waiting_page "email_component is_email" ep_request_ok testing ends_testing for is_email
proof unfold_locales
  fix s :: email_page and k :: ep_cont and r :: "(ep_answer, admin_error) reply"
  show "waits testing ends_testing (testing s \<and> \<not> ends_testing k) (c_resume (email_component is_email) k r s)"
    by (cases k; cases r) (auto simp: ep_pieces)
next
  fix s :: email_page and v :: ep_event
  show "waits testing ends_testing (testing s) (c_event (email_component is_email) v s)"
    by (cases v) (auto simp: ep_pieces)
qed (auto simp: ep_typed, auto simp: email_mount_def fresh_email_def ep_pieces)

text \<open>The buttons of the mail page come back: while one shows its spinner, the request that ends it is
  under way.\<close>

lemma mail_buttons_return:
  assumes "areach (email_component is_email) S w"
  shows "(saving (wst w) \<longrightarrow> (\<exists>(q, k) \<in> set (pending w). ends_saving k))
    \<and> (sending (wst w) \<longrightarrow> (\<exists>(q, k) \<in> set (pending w). ends_sending k))
    \<and> (testing (wst w) \<longrightarrow> (\<exists>(q, k) \<in> set (pending w). ends_testing k))"
  using saving.under_way [OF assms] sending.under_way [OF assms] testing.under_way [OF assms] by blast

text \<open>The stored password is never put into the form.\<close>

lemma password_not_shown:
  "ep_settingsForm (settings_loaded e (Resolved (Settings d)) s) = Some f \<Longrightarrow> smtp_pass f = []"
  by auto

section \<open>Plans\<close>

text \<open>The values of the form; a field that is empty or was never set has none.\<close>

(* src: ui-dashboard/src/pages/admin/plans-page/plans-page.tsx 49-60 setFieldsValue *)
record plan_values =
  pv_id :: string
  pv_name :: string
  pv_description :: "string option"
  pv_price_usd :: "jsnum option"
  pv_billing_period :: "string option"
  pv_max_payments :: "jsnum option"
  pv_max_merchants :: "jsnum option"
  pv_max_api_calls :: "jsnum option"
  pv_max_volume :: "jsnum option"
  pv_is_active :: "bool option"

(* src: ui-dashboard/src/pages/admin/plans-page/plans-page.tsx 11-18 AdminPlansPage *)
record plans_page =
  plp_plans :: "admin_plan list"
  plp_loading :: bool
  modalOpen :: bool
  editingPlan :: "admin_plan option"
  submitting :: bool
  plp_form :: plan_values

datatype plp_cont = PlansListed bool | PlanSaved string bool

type_synonym plp_outcome = "(plans_page, admin_request, plp_cont, ep_effect) outcome"

definition empty_plan :: plan_values where
  "empty_plan = \<lparr>pv_id = [], pv_name = [], pv_description = None, pv_price_usd = None, pv_billing_period = None,
     pv_max_payments = None, pv_max_merchants = None, pv_max_api_calls = None, pv_max_volume = None, pv_is_active = None\<rparr>"

(* src: ui-dashboard/src/pages/admin/plans-page/plans-page.tsx 20-23 loadPlans *)
definition listPlans :: "bool \<Rightarrow> plans_page \<Rightarrow> plp_outcome" where
  "listPlans ends s = (s\<lparr>plp_loading := True\<rparr>, [Await AdminListPlans (PlansListed ends)])"

(* src: ui-dashboard/src/pages/admin/plans-page/plans-page.tsx 24-30 setPlans *)
fun plan_list_loaded :: "bool \<Rightarrow> (admin_plan list option, admin_error) reply \<Rightarrow> plans_page \<Rightarrow> plans_page" where
  "plan_list_loaded ends (Resolved ps) s =
     s\<lparr>plp_plans := list_or_nil ps, plp_loading := False, submitting := submitting s \<and> \<not> ends\<rparr>"
| "plan_list_loaded ends (Rejected e) s = s\<lparr>plp_loading := False, submitting := submitting s \<and> \<not> ends\<rparr>"

(* src: ui-dashboard/src/pages/admin/plans-page/plans-page.tsx 36-45 openCreate *)
definition openCreate :: "plans_page \<Rightarrow> plp_outcome" where
  "openCreate s = idle (s\<lparr>editingPlan := None, modalOpen := True,
     plp_form := empty_plan\<lparr>pv_billing_period := Some ''monthly'', pv_max_merchants := Some (Fin 1), pv_is_active := Some True\<rparr>\<rparr>)"

(* src: ui-dashboard/src/pages/admin/plans-page/plans-page.tsx 49-60 setFieldsValue *)
definition plan_form_of :: "admin_plan \<Rightarrow> plan_values" where
  "plan_form_of p = \<lparr>pv_id = sp_id p, pv_name = plan_name p, pv_description = Some (plan_description p),
     pv_price_usd = Some (parse_float (price_usd p)), pv_billing_period = Some (billing_period p),
     pv_max_payments = map_option (\<lambda>n. Fin (of_int n)) (max_payments_monthly p),
     pv_max_merchants = Some (Fin (of_int (max_merchants p))),
     pv_max_api_calls = map_option (\<lambda>n. Fin (of_int n)) (max_api_calls_monthly p),
     pv_max_volume = (if truthy (max_volume_monthly_usd p) then Some (parse_float (the (max_volume_monthly_usd p))) else None),
     pv_is_active = Some (ap_is_active p)\<rparr>"

(* src: ui-dashboard/src/pages/admin/plans-page/plans-page.tsx 47-62 openEdit *)
definition openEdit :: "admin_plan \<Rightarrow> plans_page \<Rightarrow> plp_outcome" where
  "openEdit p s = idle (s\<lparr>editingPlan := Some p, plp_form := plan_form_of p, modalOpen := True\<rparr>)"

text \<open>\<open>v || d\<close> on a number.\<close>

definition num_or :: "jsnum option \<Rightarrow> jsnum \<Rightarrow> jsnum" where
  "num_or v d = (case v of None \<Rightarrow> d | Some n \<Rightarrow> if num_truthy n then n else d)"

(* src: ui-dashboard/src/pages/admin/plans-page/plans-page.tsx 67-79 params *)
definition plan_params :: "plan_values \<Rightarrow> create_plan_params" where
  "plan_params v = \<lparr>cpp_id = pv_id v, cpp_name = pv_name v, cpp_description = or_else (pv_description v) [],
     cpp_price_usd = num_or (pv_price_usd v) (Fin 0), cpp_billing_period = or_else (pv_billing_period v) ''monthly'',
     cpp_max_payments_monthly = pv_max_payments v, cpp_max_merchants = num_or (pv_max_merchants v) (Fin 1),
     cpp_max_api_calls_monthly = pv_max_api_calls v, cpp_max_volume_monthly_usd = pv_max_volume v,
     cpp_features = [], cpp_is_active = (case pv_is_active v of None \<Rightarrow> True | Some b \<Rightarrow> b)\<rparr>"

(* src: ui-dashboard/src/pages/admin/plans-page/plans-page.tsx 64-90 handleSubmit *)
definition submitPlan :: "plan_values \<Rightarrow> plans_page \<Rightarrow> plp_outcome" where
  "submitPlan v s = (s\<lparr>submitting := True\<rparr>,
     [case editingPlan s of
        Some p \<Rightarrow> Await (AdminUpdatePlan (sp_id p) (plan_params v)) (PlanSaved (pv_name v) True)
      | None \<Rightarrow> Await (AdminCreatePlan (plan_params v)) (PlanSaved (pv_name v) False)])"

(* src: ui-dashboard/src/pages/admin/plans-page/plans-page.tsx 91-110 setModalOpen *)
fun plan_saved ::
    "string \<Rightarrow> bool \<Rightarrow> (admin_plan list option, admin_error) reply \<Rightarrow> plans_page \<Rightarrow> plp_outcome" where
  "plan_saved name update (Resolved a) s =
     andThen (s\<lparr>modalOpen := False\<rparr>,
       [Emit (if update then EpSuccess ''Plan updated'' (Some (''Plan \"'' @ name @ ''\" has been updated.''))
              else EpSuccess ''Plan created'' (Some (''Plan \"'' @ name @ ''\" has been created.'')))])
       (listPlans True)"
| "plan_saved name update (Rejected e) s =
     (s\<lparr>submitting := False\<rparr>, [Emit (EpError ''Error'' (or_else (ae_message e) ''Failed to save plan.''))])"

(* src: ui-dashboard/src/pages/admin/plans-page/plans-page.tsx 112-116 formatLimit *)
definition formatLimit :: "(jsnum \<Rightarrow> string) \<Rightarrow> int option \<Rightarrow> string" where
  "formatLimit loc v = (case v of None \<Rightarrow> ''Unlimited'' | Some n \<Rightarrow> if n = - 1 then ''Unlimited'' else loc (Fin (of_int n)))"

datatype plp_handler = HCreatePlan | HEditPlan admin_plan | HSubmitPlan | HClosePlan

(* src: ui-dashboard/src/pages/admin/plans-page/plans-page.tsx 118-183 columns *)
definition plan_columns :: "(jsnum \<Rightarrow> string) \<Rightarrow> (admin_plan, plp_handler) column list" where
  "plan_columns loc =
     [(''ID'', \<lambda>p. text_cell (sp_id p)), (''Name'', \<lambda>p. [leaf ''strong'' (plan_name p)]),
      (''Price (USD)'', \<lambda>p. text_cell (''$'' @ to_fixed 2 (parse_float (price_usd p)) @ ''/mo'')),
      (''Volume Limit'', \<lambda>p. text_cell (if truthy (max_volume_monthly_usd p)
         then ''$'' @ loc (parse_float (the (max_volume_monthly_usd p))) @ ''/mo'' else ''Unlimited'')),
      (''Payments/mo'', \<lambda>p. text_cell (formatLimit loc (max_payments_monthly p))),
      (''Max Merchants'', \<lambda>p. text_cell (formatLimit loc (Some (max_merchants p)))),
      (''API Calls/mo'', \<lambda>p. text_cell (formatLimit loc (max_api_calls_monthly p))),
      (''Status'', \<lambda>p. [El ''Tag'' [(''color'', if ap_is_active p then ''green'' else ''red'')] []
          [Txt (if ap_is_active p then ''Active'' else ''Inactive'')]]),
      (''Actions'', \<lambda>p. [El ''Button'' [] [(''onClick'', HEditPlan p)] [Txt ''Edit'']])]"

text \<open>A number field with its smallest value.\<close>

definition number_field :: "string \<Rightarrow> string \<Rightarrow> bool \<Rightarrow> string \<Rightarrow> 'h ui" where
  "number_field label name required least =
     El ''Form.Item'' [(''label'', label), (''name'', name), (''required'', bool_attr required)] []
       [comp ''InputNumber'' [(''min'', least)]]"

(* src: ui-dashboard/src/pages/admin/plans-page/plans-page.tsx 203-310 Modal *)
definition plan_modal :: "plans_page \<Rightarrow> plp_handler ui list" where
  "plan_modal s =
     overlay ''Modal'' (case editingPlan s of Some p \<Rightarrow> ''Edit Plan: '' @ plan_name p | None \<Rightarrow> ''Create New Plan'')
       (modalOpen s) [(''onCancel'', HClosePlan)]
       [El ''Form'' [] [(''onFinish'', HSubmitPlan)]
         [El ''Form.Item'' [(''label'', ''Plan ID (slug)''), (''name'', ''id''), (''required'', ''Plan ID is required'')] []
            [comp ''Input'' [(''placeholder'', ''e.g. starter, growth''), (''disabled'', bool_attr (editingPlan s \<noteq> None))]],
          field ''Display Name'' ''name'' True ''e.g. Starter Plan'',
          field ''Description'' ''description'' False ''Plan description'',
          number_field ''Price (USD/month)'' ''price_usd'' True ''0'',
          El ''Form.Item'' [(''label'', ''Billing Period''), (''name'', ''billing_period'')] []
            [wrap ''Select'' [leaf ''option'' ''monthly'', leaf ''option'' ''yearly'']],
          number_field ''Monthly Volume Limit (USD)'' ''max_volume_monthly_usd'' False ''0'',
          number_field ''Max Payments/Month'' ''max_payments_monthly'' False ''-1'',
          number_field ''Max Merchants'' ''max_merchants'' False ''-1'',
          number_field ''Max API Calls/Month'' ''max_api_calls_monthly'' False ''-1'',
          El ''Form.Item'' [(''label'', ''Active''), (''name'', ''is_active'')] [] [comp ''Switch'' []],
          El ''Button'' [(''htmlType'', ''submit''), (''loading'', bool_attr (submitting s))] []
            [Txt (if editingPlan s = None then ''Create Plan'' else ''Update Plan'')],
          El ''Button'' [] [(''onClick'', HClosePlan)] [Txt ''Cancel'']]]"

(* src: ui-dashboard/src/pages/admin/plans-page/plans-page.tsx 185-201 PageContainer *)
definition plans_view :: "(jsnum \<Rightarrow> string) \<Rightarrow> plans_page \<Rightarrow> plp_handler ui list" where
  "plans_view loc s =
     [leaf ''Title'' ''Subscription Plans'', El ''Button'' [] [(''onClick'', HCreatePlan)] [Txt ''Create Plan''],
      data_table (plp_loading s) sp_id (plan_columns loc) (plp_plans s)] @ plan_modal s"

text \<open>The user submits the values of the form as they stand after editing; the identifier of a plan
  that is edited cannot be changed.\<close>

datatype plp_event = PlAct plp_handler | PlSubmit plan_values

definition plan_values_valid :: "plans_page \<Rightarrow> plan_values \<Rightarrow> bool" where
  "plan_values_valid s v \<longleftrightarrow> pv_id v \<noteq> [] \<and> pv_name v \<noteq> [] \<and> pv_price_usd v \<noteq> None
     \<and> (\<forall>p. editingPlan s = Some p \<longrightarrow> pv_id v = sp_id p)"

fun plp_on :: "plp_event \<Rightarrow> plans_page \<Rightarrow> plp_outcome" where
  "plp_on (PlSubmit v) s =
     (if HSubmitPlan \<in> set (handlers_of (plans_view (\<lambda>n. []) s)) \<and> \<not> submitting s \<and> plan_values_valid s v
      then submitPlan v s else idle s)"
| "plp_on (PlAct h) s =
     (if h \<in> set (handlers_of (plans_view (\<lambda>n. []) s))
      then (case h of HCreatePlan \<Rightarrow> openCreate s | HEditPlan p \<Rightarrow> openEdit p s
            | HClosePlan \<Rightarrow> idle (s\<lparr>modalOpen := False\<rparr>) | HSubmitPlan \<Rightarrow> idle s)
      else idle s)"

fun plp_resume :: "plp_cont \<Rightarrow> (admin_plan list option, admin_error) reply \<Rightarrow> plans_page \<Rightarrow> plp_outcome" where
  "plp_resume (PlansListed ends) a s = idle (plan_list_loaded ends a s)"
| "plp_resume (PlanSaved n u) a s = plan_saved n u a s"

definition fresh_plans :: plans_page where
  "fresh_plans = \<lparr>plp_plans = [], plp_loading = True, modalOpen = False, editingPlan = None, submitting = False,
     plp_form = empty_plan\<rparr>"

definition plans_component where
  "plans_component = \<lparr>c_mount = (\<lambda>s. listPlans False fresh_plans), c_event = plp_on, c_resume = plp_resume,
     c_timer = (\<lambda>k s. idle s), c_effect = (\<lambda>old s. idle s),
     c_fits = (\<lambda>(q :: admin_request) (r :: (admin_plan list option, admin_error) reply). True)\<rparr>"

lemma plans_component_simps [simp]:
  "c_mount plans_component = (\<lambda>s. listPlans False fresh_plans)" "c_event plans_component = plp_on"
  "c_resume plans_component = plp_resume" "c_timer plans_component = (\<lambda>k s. idle s)"
  "c_effect plans_component = (\<lambda>old s. idle s)" "c_fits plans_component = (\<lambda>q r. True)"
  by (simp_all add: plans_component_def)

lemma plan_params_id [simp]: "cpp_id (plan_params v) = pv_id v"
  by (simp add: plan_params_def)

text \<open>A plan that is updated keeps its identifier.\<close>

fun plp_request_ok :: "admin_request \<Rightarrow> plp_cont \<Rightarrow> bool" where
  "plp_request_ok q (PlansListed e) = (q = AdminListPlans)"
| "plp_request_ok q (PlanSaved n u) =
     (if u then \<exists>i v. q = AdminUpdatePlan i (plan_params v) \<and> cpp_id (plan_params v) = i
      else \<exists>v. q = AdminCreatePlan (plan_params v))"

definition ends_submit :: "plp_cont \<Rightarrow> bool" where
  "ends_submit k \<longleftrightarrow> k = PlansListed True \<or> (\<exists>n u. k = PlanSaved n u)"

interpretation plans: waiting_page plans_component plp_request_ok submitting ends_submit
proof unfold_locales
  fix s :: plans_page and k :: plp_cont and r :: "(admin_plan list option, admin_error) reply"
  show "typed plp_request_ok (c_resume plans_component k r s)"
    by (cases k; cases r) (auto simp: listPlans_def)
  show "waits submitting ends_submit (submitting s \<and> \<not> ends_submit k) (c_resume plans_component k r s)"
    by (cases k; cases r) (auto simp: listPlans_def ends_submit_def)
next
  fix s :: plans_page and v :: plp_event
  show "typed plp_request_ok (c_event plans_component v s)"
    by (cases v) (auto simp: submitPlan_def plan_values_valid_def openCreate_def openEdit_def
        split: option.splits plp_handler.splits)
  show "waits submitting ends_submit (submitting s) (c_event plans_component v s)"
    by (cases v) (auto simp: submitPlan_def openCreate_def openEdit_def ends_submit_def split: option.splits plp_handler.splits)
qed (auto simp: listPlans_def fresh_plans_def)

section \<open>Properties\<close>

text \<open>C34. Saving a plan unchanged keeps it, but for its features: the request that the form sends for a plan
  that was opened and submitted as it is updates that plan with its own name, description, price,
  period and limits, provided the price is a number, the period is set and the number of merchants is
  not zero; a limit that the plan does not have, of payments, calls or volume, is sent as none, and so is an
  empty one of volume; the features are always replaced by none.\<close>

theorem plan_edit_round_trip:
  assumes "parse_float (price_usd p) \<noteq> NaN" and "billing_period p \<noteq> []" and "max_merchants p \<noteq> 0"
  shows "\<exists>c. snd (submitPlan (plp_form (fst (openEdit p s))) (fst (openEdit p s)))
      = [Await (AdminUpdatePlan (sp_id p) c) (PlanSaved (plan_name p) True)]
    \<and> cpp_id c = sp_id p \<and> cpp_name c = plan_name p \<and> cpp_description c = plan_description p
    \<and> cpp_price_usd c = parse_float (price_usd p) \<and> cpp_billing_period c = billing_period p
    \<and> cpp_max_payments_monthly c = map_option (\<lambda>n. Fin (of_int n)) (max_payments_monthly p)
    \<and> cpp_max_merchants c = Fin (of_int (max_merchants p))
    \<and> cpp_max_api_calls_monthly c = map_option (\<lambda>n. Fin (of_int n)) (max_api_calls_monthly p)
    \<and> cpp_max_volume_monthly_usd c
      = (case max_volume_monthly_usd p of None \<Rightarrow> None | Some v \<Rightarrow> if v = [] then None else Some (parse_float v))
    \<and> cpp_is_active c = ap_is_active p \<and> cpp_features c = []"
proof -
  have "or_else (Some (plan_description p)) [] = plan_description p" by (cases "plan_description p") simp_all
  then show ?thesis using assms
    by (simp add: submitPlan_def openEdit_def idle_def plan_params_def plan_form_of_def num_or_def num_truthy_def
        split: option.split)
qed

text \<open>While the dialog of the plans shows its spinner, an answer that ends it is under way, and a plan
  under update keeps its identifier.\<close>

lemma plan_dialog_ends:
  assumes "areach plans_component S w"
  shows "submitting (wst w) \<Longrightarrow> \<exists>(q, k) \<in> set (pending w). ends_submit k"
    and "(AdminUpdatePlan i c, k) \<in> set (pending w) \<Longrightarrow> cpp_id c = i"
proof -
  show "submitting (wst w) \<Longrightarrow> \<exists>(q, k) \<in> set (pending w). ends_submit k"
    using plans.under_way [OF assms] .
  show "(AdminUpdatePlan i c, k) \<in> set (pending w) \<Longrightarrow> cpp_id c = i"
    using plans.well_typed [OF assms, of "AdminUpdatePlan i c" k] by (cases k) (auto split: if_splits)
qed

theorem plan_edit_round_trip_witness:
  "\<exists>p c. plan_name p = ''Growth'' \<and> cpp_name c = ''Growth'' \<and> cpp_price_usd c = Fin 2 \<and> cpp_features c = []
     \<and> cpp_max_volume_monthly_usd c = None \<and> features p \<noteq> JNull \<and> snd (submitPlan (plp_form (fst (openEdit p fresh_plans))) (fst (openEdit p fresh_plans)))
       = [Await (AdminUpdatePlan (sp_id p) c) (PlanSaved ''Growth'' True)]"
proof -
  let ?p = "\<lparr>sp_id = ''p1'', plan_name = ''Growth'', plan_description = [], price_usd = ''2'', billing_period = ''monthly'',
     max_payments_monthly = Some 3, max_merchants = 1, max_api_calls_monthly = None,
     max_volume_monthly_usd = None, features = JObj [(''api'', JBool True)], ap_is_active = True\<rparr> :: admin_plan"
  from plan_edit_round_trip [of ?p fresh_plans] parse_float_two obtain c where
    "snd (submitPlan (plp_form (fst (openEdit ?p fresh_plans))) (fst (openEdit ?p fresh_plans)))
       = [Await (AdminUpdatePlan (sp_id ?p) c) (PlanSaved ''Growth'' True)]"
    "cpp_name c = ''Growth''" "cpp_price_usd c = Fin 2" "cpp_features c = []" "cpp_max_volume_monthly_usd c = None"
    by auto
  then show ?thesis by (intro exI [of _ ?p] exI [of _ c]) simp
qed

end
