(* ===== verification/Admin_Support.thy ===== *)
theory Admin_Support
  imports Admin_Kit
begin

text \<open>
  The page that supports payments (ui-dashboard/src/pages/admin/payments-page/payments-page.tsx). It calls
  three methods that the provider (providers/admin-provider.ts) does not have, and reads a type that it
  does not export; a call of a missing method throws before anything is sent. The methods that the
  provider has are an argument of the model, so that the page is modelled as it was meant, and the
  provider of the repository is one instance. \<open>local\<close> formats an instant.
\<close>

section \<open>The provider's methods\<close>

(* src: ui-dashboard/src/providers/admin-provider.ts 164-382 adminProvider *)
definition ADMIN_METHODS :: "string list" where
  "ADMIN_METHODS =
     [''listPlans'', ''getPlan'', ''createPlan'', ''updatePlan'', ''listMerchants'', ''assignMerchantPlan'',
      ''deleteMerchant'', ''listUsers'', ''deleteUser'', ''getStats'', ''listSubscriptions'', ''getEmailSettings'',
      ''updateEmailSettings'', ''sendEmail'', ''testEmail'', ''getEmailLogs'', ''listCollectorFactories'',
      ''getCollectorFactory'', ''upsertCollectorFactory'', ''listContacts'', ''exportContacts'',
      ''listMarketingTemplates'', ''getMarketingTemplate'', ''listCampaigns'', ''createCampaign'', ''getCampaign'',
      ''getCampaignRecipients'', ''sendCampaign'', ''getMarketingQuota'', ''getMarketingSettings'',
      ''updateMarketingSettings'', ''listSequences'', ''getSequence'', ''getSequenceStats'', ''createSequence'',
      ''launchSequence'', ''pauseSequence'', ''resumeSequence'', ''cancelSequence'']"

section \<open>State\<close>

text \<open>The fields of a payment that the page reads.\<close>

record admin_payment =
  apm_id :: nat
  public_id :: string
  apm_merchant_id :: nat
  apm_status :: string
  webhook_attempts :: nat
  webhook_sent_at :: "string option"
  apm_updated_at :: string

record resend_result =
  rr_success :: bool
  rr_message :: string

(* src: ui-dashboard/src/pages/admin/payments-page/payments-page.tsx 20-33 AdminPaymentsPage *)
record support_page =
  searchId :: string
  searching :: bool
  foundPayment :: "admin_payment option"
  searchError :: string
  resendResult :: "resend_result option"
  resendingIds :: "string list"
  pendingPayments :: "admin_payment list"
  loadingPending :: bool

datatype asp_request = ListPending | GetByPublicId string | ResendWebhook string

text \<open>What waits for an answer. After a resend the page may read the payment again, always lists the
  pending ones, and then shows the result; \<open>shown\<close> is whether the payment was the one that had been
  found when the button was pressed.\<close>

datatype asp_cont =
    PendingListed "(string \<times> bool \<times> resend_result) option"
  | FoundAnswer
  | ResendAnswer string bool
  | Refreshed string resend_result

datatype asp_answer = Pending "admin_payment list option" | Payment admin_payment | ResendDone resend_result

datatype asp_effect = AspSuccess string string | AspError string string

type_synonym asp_outcome = "(support_page, asp_request, asp_cont, asp_effect) outcome"

type_synonym asp_reply = "(asp_answer, admin_error) reply"

section \<open>Operations\<close>

definition not_a_function :: "string \<Rightarrow> admin_error" where
  "not_a_function m = no_answer (''adminProvider.'' @ m @ '' is not a function'')"

text \<open>A call of a method: the request, or what the handler of the exception does at once.\<close>

definition call_method ::
    "string list \<Rightarrow> string \<Rightarrow> asp_request \<Rightarrow> asp_cont \<Rightarrow> (asp_reply \<Rightarrow> support_page \<Rightarrow> asp_outcome) \<Rightarrow>
     support_page \<Rightarrow> asp_outcome" where
  "call_method methods m q k resume s =
     (if m \<in> set methods then (s, [Await q k]) else resume (Rejected (not_a_function m)) s)"

definition resend_over :: "string \<Rightarrow> support_page \<Rightarrow> support_page" where
  "resend_over i s = s\<lparr>resendingIds := removeAll i (resendingIds s)\<rparr>"

(* src: ui-dashboard/src/pages/admin/payments-page/payments-page.tsx 39-45 setPendingPayments *)
fun pending_listed :: "(string \<times> bool \<times> resend_result) option \<Rightarrow> asp_reply \<Rightarrow> support_page \<Rightarrow> asp_outcome" where
  "pending_listed after a s =
     (let s1 = (case a of Resolved (Pending ps) \<Rightarrow> s\<lparr>pendingPayments := list_or_nil ps, loadingPending := False\<rparr>
                | _ \<Rightarrow> s\<lparr>loadingPending := False\<rparr>)
      in idle (case after of None \<Rightarrow> s1
         | Some (i, shown, res) \<Rightarrow> resend_over i (if shown then s1\<lparr>resendResult := Some res\<rparr> else s1)))"

(* src: ui-dashboard/src/pages/admin/payments-page/payments-page.tsx 35-38 loadPendingPayments *)
definition loadPendingPayments ::
    "string list \<Rightarrow> (string \<times> bool \<times> resend_result) option \<Rightarrow> support_page \<Rightarrow> asp_outcome" where
  "loadPendingPayments methods after s =
     call_method methods ''listPendingWebhookPayments'' ListPending (PendingListed after) (pending_listed after)
       (s\<lparr>loadingPending := True\<rparr>)"

(* src: ui-dashboard/src/pages/admin/payments-page/payments-page.tsx 60-67 setFoundPayment *)
fun found_answer :: "asp_reply \<Rightarrow> support_page \<Rightarrow> asp_outcome" where
  "found_answer (Resolved (Payment p)) s = idle (s\<lparr>foundPayment := Some p, searching := False\<rparr>)"
| "found_answer (Resolved a) s = idle (s\<lparr>searching := False\<rparr>)"
| "found_answer (Rejected e) s = idle (s\<lparr>searching := False,
     searchError := (if ae_status e = Some 404 then ''Payment not found'' else ''Error: '' @ message_or_text e)\<rparr>)"

(* src: ui-dashboard/src/pages/admin/payments-page/payments-page.tsx 51-59 handleSearch *)
definition searchPayment :: "string list \<Rightarrow> support_page \<Rightarrow> asp_outcome" where
  "searchPayment methods s =
     (if js_trim (searchId s) = [] then idle s
      else call_method methods ''getPaymentByPublicId'' (GetByPublicId (js_trim (searchId s))) FoundAnswer found_answer
        (s\<lparr>searchError := [], foundPayment := None, resendResult := None, searching := True\<rparr>))"

definition is_found :: "string \<Rightarrow> support_page \<Rightarrow> bool" where
  "is_found i s \<longleftrightarrow> map_option public_id (foundPayment s) = Some i"

(* src: ui-dashboard/src/pages/admin/payments-page/payments-page.tsx 83-87 setFoundPayment *)
fun refreshed :: "string list \<Rightarrow> string \<Rightarrow> resend_result \<Rightarrow> asp_reply \<Rightarrow> support_page \<Rightarrow> asp_outcome" where
  "refreshed methods i res (Resolved (Payment p)) s =
     loadPendingPayments methods (Some (i, True, res)) (s\<lparr>foundPayment := Some p\<rparr>)"
| "refreshed methods i res _ s = loadPendingPayments methods (Some (i, True, res)) s"

(* src: ui-dashboard/src/pages/admin/payments-page/payments-page.tsx 76-104 resendWebhook *)
fun resend_answer :: "string list \<Rightarrow> string \<Rightarrow> bool \<Rightarrow> asp_reply \<Rightarrow> support_page \<Rightarrow> asp_outcome" where
  "resend_answer methods i shown (Resolved (ResendDone res)) s =
     (if rr_success res
      then andThen (s, [Emit (AspSuccess ''Webhook delivered successfully'' (rr_message res))])
        (if shown then call_method methods ''getPaymentByPublicId'' (GetByPublicId i) (Refreshed i res) (refreshed methods i res)
         else loadPendingPayments methods (Some (i, False, res)))
      else (resend_over i (if shown then s\<lparr>resendResult := Some res\<rparr> else s),
        [Emit (AspError ''Webhook delivery failed'' (rr_message res))]))"
| "resend_answer methods i shown (Resolved a) s = idle (resend_over i s)"
| "resend_answer methods i shown (Rejected e) s =
     (resend_over i s, [Emit (AspError ''Error sending webhook'' (message_or_text e))])"

(* src: ui-dashboard/src/pages/admin/payments-page/payments-page.tsx 69-76 handleResend *)
definition handleResend :: "string list \<Rightarrow> string \<Rightarrow> support_page \<Rightarrow> asp_outcome" where
  "handleResend methods i s =
     (let shown = is_found i s
      in call_method methods ''resendWebhook'' (ResendWebhook i) (ResendAnswer i shown) (resend_answer methods i shown)
        (s\<lparr>resendingIds := List.insert i (resendingIds s), resendResult := (if shown then None else resendResult s)\<rparr>))"

section \<open>What the page shows\<close>

datatype asp_handler = HSearchPayment | HResend string | HRefreshPending

(* src: ui-dashboard/src/pages/admin/payments-page/payments-page.tsx 10-18 statusColor *)
definition statusColor :: "string \<Rightarrow> string" where
  "statusColor st =
     (if st = ''success'' then ''success'' else if st = ''failed'' then ''error'' else if st = ''pending'' then ''default''
      else if st = ''locked'' then ''processing'' else ''warning'')"

definition status_tag :: "string \<Rightarrow> 'h ui" where
  "status_tag st = El ''Tag'' [(''color'', statusColor st)] [] [Txt st]"

(* src: ui-dashboard/src/pages/admin/payments-page/payments-page.tsx 106-154 pendingColumns *)
definition pending_columns :: "(string \<Rightarrow> string) \<Rightarrow> support_page \<Rightarrow> (admin_payment, asp_handler) column list" where
  "pending_columns local s =
     [(''Payment UUID'', \<lambda>p. [El ''Text'' [(''copyable'', ''true'')] [] [Txt (public_id p)]]),
      (''Merchant'', \<lambda>p. text_cell (show_nat (apm_merchant_id p))), (''Status'', \<lambda>p. [status_tag (apm_status p)]),
      (''Attempts'', \<lambda>p. text_cell (show_nat (webhook_attempts p))),
      (''Updated'', \<lambda>p. text_cell (local (apm_updated_at p))),
      (''Action'', \<lambda>p. [button ''Resend'' (public_id p \<in> set (resendingIds s)) (HResend (public_id p))])]"

(* src: ui-dashboard/src/pages/admin/payments-page/payments-page.tsx 185-225 foundPayment *)
definition found_view :: "(string \<Rightarrow> string) \<Rightarrow> support_page \<Rightarrow> asp_handler ui list" where
  "found_view local s =
     (case foundPayment s of None \<Rightarrow> []
      | Some p \<Rightarrow>
          [leaf ''UUID'' (public_id p), wrap ''Status'' [status_tag (apm_status p)],
           leaf ''Merchant ID'' (show_nat (apm_merchant_id p)), leaf ''Webhook Attempts'' (show_nat (webhook_attempts p)),
           leaf ''Webhook Sent At'' (if truthy (webhook_sent_at p) then local (the (webhook_sent_at p)) else ''Not sent''),
           leaf ''Updated At'' (local (apm_updated_at p)),
           button ''Resend Webhook'' (public_id p \<in> set (resendingIds s)) (HResend (public_id p))]
          @ (case resendResult s of None \<Rightarrow> []
             | Some r \<Rightarrow> [El ''Alert'' [(''type'', if rr_success r then ''success'' else ''error'')] [] [Txt (rr_message r)]]))"

(* src: ui-dashboard/src/pages/admin/payments-page/payments-page.tsx 156-252 PageContainer *)
definition support_page_view :: "(string \<Rightarrow> string) \<Rightarrow> support_page \<Rightarrow> asp_handler ui list" where
  "support_page_view local s =
     [comp ''Input'' [(''placeholder'', ''Enter payment UUID...''), (''value'', searchId s)],
      button ''Search'' (searching s) HSearchPayment]
     @ when_ui (searchError s \<noteq> []) [El ''Alert'' [(''type'', ''error'')] [] [Txt (searchError s)]]
     @ found_view local s
     @ [button ''Refresh'' (loadingPending s) HRefreshPending,
        data_table (loadingPending s) (\<lambda>p. show_nat (apm_id p)) (pending_columns local s) (pendingPayments s)]"

section \<open>The component\<close>

datatype asp_event = AspAct asp_handler | AspType string | AspEnter

fun asp_on :: "string list \<Rightarrow> asp_event \<Rightarrow> support_page \<Rightarrow> asp_outcome" where
  "asp_on ms (AspAct HSearchPayment) s = (if searching s then idle s else searchPayment ms s)"
| "asp_on ms (AspAct (HResend i)) s =
     (if HResend i \<in> set (handlers_of (support_page_view id s)) \<and> i \<notin> set (resendingIds s) then handleResend ms i s else idle s)"
| "asp_on ms (AspAct HRefreshPending) s = (if loadingPending s then idle s else loadPendingPayments ms None s)"
| "asp_on ms (AspType v) s = idle (s\<lparr>searchId := v\<rparr>)"
| "asp_on ms AspEnter s = searchPayment ms s"

fun asp_resume :: "string list \<Rightarrow> asp_cont \<Rightarrow> asp_reply \<Rightarrow> support_page \<Rightarrow> asp_outcome" where
  "asp_resume ms (PendingListed after) a s = pending_listed after a s"
| "asp_resume ms FoundAnswer a s = found_answer a s"
| "asp_resume ms (ResendAnswer i shown) a s = resend_answer ms i shown a s"
| "asp_resume ms (Refreshed i res) a s = refreshed ms i res a s"

definition fresh_support :: support_page where
  "fresh_support = \<lparr>searchId = [], searching = False, foundPayment = None, searchError = [], resendResult = None,
     resendingIds = [], pendingPayments = [], loadingPending = True\<rparr>"

definition support_component where
  "support_component ms = \<lparr>c_mount = (\<lambda>s. loadPendingPayments ms None fresh_support), c_event = asp_on ms,
     c_resume = asp_resume ms, c_timer = (\<lambda>k s. idle s), c_effect = (\<lambda>old s. idle s),
     c_fits = (\<lambda>(q :: asp_request) (r :: asp_reply). True)\<rparr>"

lemma support_component_simps [simp]:
  "c_mount (support_component ms) = (\<lambda>s. loadPendingPayments ms None fresh_support)"
  "c_event (support_component ms) = asp_on ms" "c_resume (support_component ms) = asp_resume ms"
  "c_timer (support_component ms) = (\<lambda>k s. idle s)" "c_effect (support_component ms) = (\<lambda>old s. idle s)"
  "c_fits (support_component ms) = (\<lambda>q r. True)"
  by (simp_all add: support_component_def)

section \<open>The provider of the repository\<close>

lemma missing_methods:
  "''listPendingWebhookPayments'' \<notin> set ADMIN_METHODS" "''getPaymentByPublicId'' \<notin> set ADMIN_METHODS"
  "''resendWebhook'' \<notin> set ADMIN_METHODS"
  by (simp_all add: ADMIN_METHODS_def)

text \<open>What holds of the page over that provider: nothing is shown, and a search that was tried has
  failed.\<close>

definition support_dead :: "support_page \<Rightarrow> bool" where
  "support_dead s \<longleftrightarrow> foundPayment s = None \<and> pendingPayments s = [] \<and> \<not> searching s
     \<and> searchError s \<in> {[], ''Error: adminProvider.getPaymentByPublicId is not a function''}"

lemma dead_list: "loadPendingPayments ADMIN_METHODS None s = idle (s\<lparr>loadingPending := False\<rparr>)"
  by (simp add: loadPendingPayments_def call_method_def missing_methods idle_def)

lemma dead_search:
  "support_dead s \<Longrightarrow> support_dead (fst (searchPayment ADMIN_METHODS s)) \<and> snd (searchPayment ADMIN_METHODS s) = []"
  by (simp add: searchPayment_def call_method_def missing_methods not_a_function_def no_answer_def message_or_text_def
      support_dead_def idle_def)

lemma dead_buttons: "support_dead s \<Longrightarrow> HResend i \<notin> set (handlers_of (support_page_view local s))"
  by (auto simp: support_dead_def support_page_view_def found_view_def table_handlers when_ui_def)

abbreviation "dead_ok \<equiv> ok_outcome support_dead (\<lambda>(q :: asp_request) (k :: asp_cont). False) (\<lambda>k. False)
  (\<lambda>(e :: asp_effect). False)"

interpretation support: safe_component "support_component ADMIN_METHODS" support_dead "\<lambda>q k. False" "\<lambda>k. False" "\<lambda>e. False"
proof unfold_locales
  fix s :: support_page
  show "dead_ok (c_mount (support_component ADMIN_METHODS) s)"
    by (simp add: dead_list idle_def support_dead_def fresh_support_def)
next
  fix s :: support_page and v :: asp_event
  assume s: "support_dead s"
  have t: "support_dead (s\<lparr>searchId := i\<rparr>)" "support_dead (s\<lparr>loadingPending := False\<rparr>)" for i
    using s by (simp_all add: support_dead_def)
  show "dead_ok (c_event (support_component ADMIN_METHODS) v s)"
  proof (cases v)
    case (AspAct h)
    then show ?thesis using s dead_search [OF s] dead_buttons [OF s] t
      by (cases h) (auto simp: dead_list idle_def ok_outcome_def)
  qed (use s dead_search [OF s] t in \<open>auto simp: idle_def ok_outcome_def\<close>)
qed (auto simp: idle_def)

section \<open>Properties\<close>

text \<open>C40. The support of payments cannot work: over the provider of the repository, whatever the
  operator does, the page never sends a request and never notifies, shows no payment and no pending
  delivery, and a search ends at once, with a message about a missing function or with nothing.\<close>

theorem support_never_works:
  assumes "areach (support_component ADMIN_METHODS) (\<lambda>s. s = fresh_support) w"
  shows "pending w = [] \<and> trace w = [] \<and> foundPayment (wst w) = None \<and> pendingPayments (wst w) = []
    \<and> \<not> searching (wst w)
    \<and> searchError (wst w) \<in> {[], ''Error: adminProvider.getPaymentByPublicId is not a function''}"
proof -
  have "ok_world support_dead (\<lambda>q k. False) (\<lambda>k. False) (\<lambda>e. False) w"
    using support.reachable_ok [OF assms] by (simp add: support_dead_def fresh_support_def)
  then show ?thesis by (cases "pending w"; cases "trace w") (auto simp: ok_world_def support_dead_def)
qed

text \<open>With the methods in place a resend that was delivered shows its result and lists the deliveries
  again, and the button returns.\<close>

lemma resend_with_methods:
  assumes "''listPendingWebhookPayments'' \<in> set ms" and "''getPaymentByPublicId'' \<in> set ms" and "rr_success res"
  shows "resend_answer ms i True (Resolved (ResendDone res)) s
      = (s, [Emit (AspSuccess ''Webhook delivered successfully'' (rr_message res)), Await (GetByPublicId i) (Refreshed i res)])"
    and "asp_resume ms (Refreshed i res) (Resolved (Payment p)) s
      = (s\<lparr>foundPayment := Some p, loadingPending := True\<rparr>, [Await ListPending (PendingListed (Some (i, True, res)))])"
    and "i \<notin> set (resendingIds (fst (asp_resume ms (PendingListed (Some (i, True, res))) a s)))
      \<and> resendResult (fst (asp_resume ms (PendingListed (Some (i, True, res))) a s)) = Some res"
  using assms by (simp_all add: call_method_def loadPendingPayments_def resend_over_def idle_def Let_def)

theorem support_never_works_witness:
  "searchError (wst (do_event (support_component ADMIN_METHODS) AspEnter
      (do_event (support_component ADMIN_METHODS) (AspType ''p1'')
        (initial (support_component ADMIN_METHODS) fresh_support))))
     = ''Error: adminProvider.getPaymentByPublicId is not a function''"
proof -
  let ?c = "support_component ADMIN_METHODS"
  let ?w = "do_event ?c AspEnter (do_event ?c (AspType ''p1'') (initial ?c fresh_support))"
  have "areach ?c (\<lambda>s. s = fresh_support) ?w"
    by (rule areach.step [OF areach.step [OF areach.start astep.event] astep.event]) simp
  from support_never_works [OF this]
  have "searchError (wst ?w) \<in> {[], ''Error: adminProvider.getPaymentByPublicId is not a function''}" by blast
  moreover have "searchError (wst ?w) \<noteq> []"
    by (simp add: do_event_def commit_wst initial_def dead_list idle_def searchPayment_def call_method_def
        missing_methods fresh_support_def js_trim_def is_space_def)
  ultimately show ?thesis by blast
qed

end
