(* ===== verification/Admin_Contracts.thy ===== *)
theory Admin_Contracts
  imports Admin_Kit Wallets
begin

text \<open>
  The page that deploys the factory contracts of TRON
  (ui-dashboard/src/pages/admin/contracts-page/contracts-page.tsx) with the two deployments it calls
  (ui-dashboard/src/utils/tron-wallet.ts). Each \<open>await\<close> of \<open>handleDeployTron\<close> is a request whose
  continuation carries what the function has computed so far. Whether TronLink is there,
  \<open>available\<close>, and the formatting of an instant are arguments.
\<close>

section \<open>The two deployments\<close>

text \<open>A deployment that was not confirmed ends with an exception; its text names the failure.\<close>

definition deployed_address :: "string \<Rightarrow> wallet_error + deploy_result \<Rightarrow> wallet_error + string" where
  "deployed_address txid r = (case r of
       Inl e \<Rightarrow> Inl e
     | Inr (Deployed a) \<Rightarrow> Inr a
     | Inr (FailedOnChain x) \<Rightarrow> Inl (js_error (''Contract deployment failed on-chain: '' @ x @ ''. Tx: '' @ txid))
     | Inr AddressMissing \<Rightarrow> Inl (js_error (''Contract address not found in transaction. Check TronScan for tx: '' @ txid))
     | Inr TimedOut \<Rightarrow> Inl (js_error (''Transaction confirmation timed out. Check TronScan for tx: '' @ txid))
     | Inr (Rethrown m) \<Rightarrow> Inl (js_error m))"

text \<open>What is handed to the builder of the transaction: which bytecode, and the constructor's arguments.\<close>

datatype tron_creation = Implementation | CloneFactory "string list"

record tron_chain =
  tc_ready :: "wallet_error + string"
  tc_broadcast :: "tron_creation \<Rightarrow> bool"
  tc_contractHex :: "tron_creation \<Rightarrow> string option"
  tc_txid :: "tron_creation \<Rightarrow> string"
  tc_fromHex :: "string \<Rightarrow> string"
  tc_look :: "tron_creation \<Rightarrow> nat \<Rightarrow> tx_look"

definition deploy_on :: "tron_chain \<Rightarrow> tron_creation \<Rightarrow> wallet_error + string" where
  "deploy_on ch c = deployed_address (tc_txid ch c)
     (deployContractOnTron (tc_ready ch) (tc_broadcast ch c) (tc_contractHex ch c) (tc_fromHex ch) (tc_look ch c))"

(* src: ui-dashboard/src/utils/tron-wallet.ts 157-165 deployTronImplementation *)
definition deployTronImplementation :: "tron_chain \<Rightarrow> wallet_error + string" where
  "deployTronImplementation ch = deploy_on ch Implementation"

(* src: ui-dashboard/src/utils/tron-wallet.ts 171-178 deployTronFactory *)
definition deployTronFactory :: "tron_chain \<Rightarrow> string \<Rightarrow> wallet_error + string" where
  "deployTronFactory ch impl = deploy_on ch (CloneFactory [impl])"

section \<open>State\<close>

(* src: ui-dashboard/src/pages/admin/contracts-page/contracts-page.tsx 20-20 DeployPhase *)
datatype deploy_phase = PIdle | PConnecting | PDeployingImpl | PDeployingFactory | PSaving | PDone | PError

(* src: ui-dashboard/src/pages/admin/contracts-page/contracts-page.tsx 22-30 PHASE_LABELS *)
fun PHASE_LABELS :: "deploy_phase \<Rightarrow> string" where
  "PHASE_LABELS PIdle = []"
| "PHASE_LABELS PConnecting = ''Connecting to TronLink...''"
| "PHASE_LABELS PDeployingImpl = ''Deploying Implementation contract...''"
| "PHASE_LABELS PDeployingFactory = ''Deploying Clone Factory contract...''"
| "PHASE_LABELS PSaving = ''Saving to CryptoLink...''"
| "PHASE_LABELS PDone = ''Done!''"
| "PHASE_LABELS PError = ''Failed''"

(* src: ui-dashboard/src/pages/admin/contracts-page/contracts-page.tsx 109-111 stepIndex *)
fun stepIndex :: "deploy_phase \<Rightarrow> int" where
  "stepIndex PIdle = - 1"
| "stepIndex PConnecting = 0"
| "stepIndex PDeployingImpl = 1"
| "stepIndex PDeployingFactory = 2"
| "stepIndex PSaving = 3"
| "stepIndex PDone = 3"
| "stepIndex PError = - 1"

(* src: ui-dashboard/src/pages/admin/contracts-page/contracts-page.tsx 32-41 AdminContractsPage *)
record contracts_page =
  ctp_factories :: "factory_config list"
  ctp_loading :: bool
  deploying :: bool
  phase :: deploy_phase
  ctp_error :: string
  implAddress :: string
  ctp_factoryAddress :: string
  resumeImplAddress :: string

datatype ctp_request = ListFactories | Connect | DeployImplementation | DeployFactory string | SaveFactory string string

datatype ctp_cont =
    FactoriesListed | Connected string | ImplDeployed | FactoryDeployed string | FactorySaved | CloseDialog

datatype ctp_answer = Factories "factory_config list" | Address string | Stored

type_synonym ctp_outcome = "(contracts_page, ctp_request, ctp_cont, unit) outcome"

text \<open>A rejection is an exception of the wallet or of a request; the page reads its message.\<close>

type_synonym ctp_reply = "(ctp_answer, string option) reply"

section \<open>Operations\<close>

(* src: ui-dashboard/src/pages/admin/contracts-page/contracts-page.tsx 43-45 loadFactories *)
definition loadFactories :: "contracts_page \<Rightarrow> ctp_outcome" where
  "loadFactories s = (s\<lparr>ctp_loading := True\<rparr>, [Await ListFactories FactoriesListed])"

(* src: ui-dashboard/src/pages/admin/contracts-page/contracts-page.tsx 46-49 setFactories *)
fun factories_listed :: "ctp_reply \<Rightarrow> contracts_page \<Rightarrow> ctp_outcome" where
  "factories_listed (Resolved (Factories fs)) s = idle (s\<lparr>ctp_factories := fs, ctp_loading := False\<rparr>)"
| "factories_listed _ s = idle (s\<lparr>ctp_loading := False\<rparr>)"

(* src: ui-dashboard/src/pages/admin/contracts-page/contracts-page.tsx 53-53 tronFactory *)
definition tronFactory :: "contracts_page \<Rightarrow> factory_config option" where
  "tronFactory s = find_first (\<lambda>f. fc_blockchain f = ''TRON'') (ctp_factories s)"

(* src: ui-dashboard/src/pages/admin/contracts-page/contracts-page.tsx 55-64 handleDeployTron *)
definition handleDeployTron :: "string option \<Rightarrow> contracts_page \<Rightarrow> ctp_outcome" where
  "handleDeployTron existing s =
     (s\<lparr>deploying := True, phase := PConnecting, ctp_error := [], implAddress := or_else existing [],
        ctp_factoryAddress := []\<rparr>,
      [Await Connect (Connected (or_else existing []))])"

text \<open>\<open>err?.message || "Deployment failed"\<close>\<close>

(* src: ui-dashboard/src/pages/admin/contracts-page/contracts-page.tsx 96-99 catch *)
definition deploy_fails :: "string option \<Rightarrow> contracts_page \<Rightarrow> ctp_outcome" where
  "deploy_fails m s = idle (s\<lparr>phase := PError, ctp_error := or_else m ''Deployment failed''\<rparr>)"

(* src: ui-dashboard/src/pages/admin/contracts-page/contracts-page.tsx 75-77 deployTronFactory *)
definition deploy_factory :: "string \<Rightarrow> contracts_page \<Rightarrow> ctp_outcome" where
  "deploy_factory impl s = (s\<lparr>phase := PDeployingFactory\<rparr>, [Await (DeployFactory impl) (FactoryDeployed impl)])"

(* src: ui-dashboard/src/pages/admin/contracts-page/contracts-page.tsx 66-71 impl *)
fun connected :: "string \<Rightarrow> ctp_reply \<Rightarrow> contracts_page \<Rightarrow> ctp_outcome" where
  "connected impl (Resolved a) s =
     (if impl = [] then (s\<lparr>phase := PDeployingImpl\<rparr>, [Await DeployImplementation ImplDeployed])
      else deploy_factory impl s)"
| "connected impl (Rejected e) s = deploy_fails e s"

(* src: ui-dashboard/src/pages/admin/contracts-page/contracts-page.tsx 71-77 setImplAddress *)
fun impl_deployed :: "ctp_reply \<Rightarrow> contracts_page \<Rightarrow> ctp_outcome" where
  "impl_deployed (Resolved (Address impl)) s = deploy_factory impl (s\<lparr>implAddress := impl\<rparr>)"
| "impl_deployed (Resolved a) s = idle s"
| "impl_deployed (Rejected e) s = deploy_fails e s"

(* src: ui-dashboard/src/pages/admin/contracts-page/contracts-page.tsx 77-86 upsertCollectorFactory *)
fun factory_deployed :: "string \<Rightarrow> ctp_reply \<Rightarrow> contracts_page \<Rightarrow> ctp_outcome" where
  "factory_deployed impl (Resolved (Address f)) s =
     (s\<lparr>ctp_factoryAddress := f, phase := PSaving\<rparr>, [Await (SaveFactory impl f) FactorySaved])"
| "factory_deployed impl (Resolved a) s = idle s"
| "factory_deployed impl (Rejected e) s = deploy_fails e s"

(* src: ui-dashboard/src/pages/admin/contracts-page/contracts-page.tsx 88-95 loadFactories *)
fun factory_saved :: "ctp_reply \<Rightarrow> contracts_page \<Rightarrow> ctp_outcome" where
  "factory_saved (Resolved a) s =
     andThen (loadFactories (s\<lparr>phase := PDone, resumeImplAddress := []\<rparr>)) (\<lambda>s. (s, [After 3000 CloseDialog]))"
| "factory_saved (Rejected e) s = deploy_fails e s"

(* src: ui-dashboard/src/pages/admin/contracts-page/contracts-page.tsx 92-95 setTimeout *)
definition close_deploy :: "contracts_page \<Rightarrow> ctp_outcome" where
  "close_deploy s = idle (s\<lparr>deploying := False, phase := PIdle\<rparr>)"

section \<open>What the page shows\<close>

datatype ctp_handler = HDeploy | HDeployExisting string | HResume | HClose

(* src: ui-dashboard/src/pages/admin/contracts-page/contracts-page.tsx 146-190 tronFactory *)
definition factory_card :: "(string \<Rightarrow> string) \<Rightarrow> bool \<Rightarrow> factory_config \<Rightarrow> ctp_handler ui list" where
  "factory_card local available f =
     [leaf ''Text'' ''Implementation Contract'', El ''Text'' [(''copyable'', implementationAddress f)] [] [Txt (implementationAddress f)],
      leaf ''Text'' ''Clone Factory Contract'', El ''Text'' [(''copyable'', fc_factoryAddress f)] [] [Txt (fc_factoryAddress f)],
      leaf ''Text'' (''Deployed: '' @ local (fc_createdAt f)),
      comp ''Alert'' [(''message'', ''Factory is active''),
        (''description'', ''Merchants can now deploy cheap proxy clones via TronLink from the Wallet Setup page.'')],
      comp ''Alert'' [(''message'', ''Disable other TRON wallets''),
        (''description'', ''Disable Atomic Wallet and other TRON browser extensions before deploying. Only TronLink should be active.'')],
      El ''Button'' [(''disabled'', bool_attr (\<not> available))] (when_ui available [(''onClick'', HDeploy)])
        [Txt ''Redeploy (replace existing)'']]"

(* src: ui-dashboard/src/pages/admin/contracts-page/contracts-page.tsx 191-263 resumeImplAddress *)
definition undeployed_card :: "bool \<Rightarrow> contracts_page \<Rightarrow> ctp_handler ui list" where
  "undeployed_card available s =
     [comp ''Alert'' [(''message'', ''Factory not deployed yet'')]]
     @ when_ui (\<not> available)
         [El ''Alert'' [(''message'', ''TronLink not detected''),
             (''description'', ''Install the TronLink browser extension to deploy contracts.'')] []
           [El ''Button'' [(''href'', ''https://www.tronlink.org/'')] [] [Txt ''Install TronLink'']]]
     @ [comp ''Alert'' [(''message'', ''Disable other TRON wallets before deploying'')],
        El ''Button'' [(''disabled'', bool_attr (\<not> available))] (when_ui available [(''onClick'', HDeploy)])
          [Txt ''Deploy TRON Factory''],
        leaf ''Divider'' ''Or resume a failed deployment'',
        comp ''Input'' [(''placeholder'', ''Existing Implementation address (e.g. THnS5h...)''), (''value'', resumeImplAddress s)],
        El ''Button'' [(''disabled'', bool_attr (\<not> available \<or> resumeImplAddress s = []))]
          (when_ui (available \<and> resumeImplAddress s \<noteq> []) [(''onClick'', HDeployExisting (resumeImplAddress s))])
          [Txt ''Deploy Factory Only'']]"

(* src: ui-dashboard/src/pages/admin/contracts-page/contracts-page.tsx 274-295 footer *)
definition deploy_footer :: "contracts_page \<Rightarrow> ctp_handler ui list" where
  "deploy_footer s =
     (if phase s = PError
      then when_ui (implAddress s \<noteq> [] \<and> ctp_factoryAddress s = [])
             [El ''Button'' [] [(''onClick'', HResume)] [Txt (''Resume '' @ em_dash @ '' Deploy Factory Only'')]]
           @ [El ''Button'' [] [(''onClick'', HClose)] [Txt ''Close'']]
      else if phase s = PDone then [El ''Button'' [] [(''onClick'', HClose)] [Txt ''Close'']]
      else [])"

(* src: ui-dashboard/src/pages/admin/contracts-page/contracts-page.tsx 301-355 phase *)
definition deploy_body :: "contracts_page \<Rightarrow> 'h ui list" where
  "deploy_body s =
     when_ui (phase s \<noteq> PError \<and> phase s \<noteq> PIdle)
       [El ''Steps'' [(''current'', show_int (stepIndex (phase s))),
           (''status'', if phase s = PDone then ''finish'' else ''process'')] []
         (map (leaf ''Step'') [''Connect TronLink'', ''Deploy Implementation'', ''Deploy Factory'', ''Save Config''])]
     @ (if phase s = PDone then
          leaf ''Text'' ''Factory deployed successfully!''
          # when_ui (implAddress s \<noteq> []) [leaf ''Text'' ''Implementation:'', leaf ''Text'' (implAddress s)]
          @ when_ui (ctp_factoryAddress s \<noteq> []) [leaf ''Text'' ''Factory:'', leaf ''Text'' (ctp_factoryAddress s)]
        else if phase s = PError then
          [leaf ''Text'' ''Deployment failed'', leaf ''Text'' (ctp_error s)]
          @ when_ui (implAddress s \<noteq> []) [leaf ''Text'' (''Implementation was deployed at: '' @ implAddress s)]
        else
          [comp ''Spin'' [], leaf ''Text'' (PHASE_LABELS (phase s))]
          @ when_ui (phase s = PDeployingImpl \<or> phase s = PDeployingFactory)
              [leaf ''Text'' ''Confirm the transaction in TronLink and wait for on-chain confirmation (up to 90s)...''])"

(* src: ui-dashboard/src/pages/admin/contracts-page/contracts-page.tsx 113-147 PageContainer *)
definition contracts_view :: "(string \<Rightarrow> string) \<Rightarrow> bool \<Rightarrow> contracts_page \<Rightarrow> ctp_handler ui list" where
  "contracts_view local available s =
     leaf ''Title'' ''Smart Contract Factories''
     # (if ctp_loading s then [comp ''Spin'' []]
        else leaf ''Text'' ''TRON'' # leaf ''Tag'' (if tronFactory s = None then ''Not deployed'' else ''Deployed'')
          # (case tronFactory s of Some f \<Rightarrow> factory_card local available f | None \<Rightarrow> undeployed_card available s))
     @ overlay ''Modal'' ''Deploying TRON Factory Contracts'' (deploying s) [(''onCancel'', HClose)]
         (deploy_body s @ deploy_footer s)"

section \<open>The component\<close>

datatype ctp_event = CtAct ctp_handler | CtResumeAddress string

text \<open>The footer's button closes the dialog and starts again with the implementation.\<close>

fun ctp_run :: "ctp_handler \<Rightarrow> contracts_page \<Rightarrow> ctp_outcome" where
  "ctp_run HDeploy s = handleDeployTron None s"
| "ctp_run (HDeployExisting a) s = handleDeployTron (Some a) s"
| "ctp_run HResume s = handleDeployTron (Some (implAddress s)) s"
| "ctp_run HClose s = close_deploy s"

fun ctp_on :: "bool \<Rightarrow> ctp_event \<Rightarrow> contracts_page \<Rightarrow> ctp_outcome" where
  "ctp_on available (CtAct h) s =
     (if h \<in> set (handlers_of (contracts_view id available s)) then ctp_run h s else idle s)"
| "ctp_on available (CtResumeAddress v) s = idle (s\<lparr>resumeImplAddress := js_trim v\<rparr>)"

fun ctp_resume :: "ctp_cont \<Rightarrow> ctp_reply \<Rightarrow> contracts_page \<Rightarrow> ctp_outcome" where
  "ctp_resume FactoriesListed a s = factories_listed a s"
| "ctp_resume (Connected impl) a s = connected impl a s"
| "ctp_resume ImplDeployed a s = impl_deployed a s"
| "ctp_resume (FactoryDeployed impl) a s = factory_deployed impl a s"
| "ctp_resume FactorySaved a s = factory_saved a s"
| "ctp_resume CloseDialog a s = idle s"

fun ctp_timer :: "ctp_cont \<Rightarrow> contracts_page \<Rightarrow> ctp_outcome" where
  "ctp_timer CloseDialog s = close_deploy s"
| "ctp_timer k s = idle s"

text \<open>What can answer a request: the wallet's functions give an address, the provider the list.\<close>

fun ctp_fits :: "ctp_request \<Rightarrow> ctp_reply \<Rightarrow> bool" where
  "ctp_fits q (Rejected e) = True"
| "ctp_fits ListFactories (Resolved a) = (\<exists>fs. a = Factories fs)"
| "ctp_fits (SaveFactory i f) (Resolved a) = (a = Stored)"
| "ctp_fits q (Resolved a) = (\<exists>x. a = Address x)"

definition fresh_contracts :: contracts_page where
  "fresh_contracts = \<lparr>ctp_factories = [], ctp_loading = True, deploying = False, phase = PIdle, ctp_error = [],
     implAddress = [], ctp_factoryAddress = [], resumeImplAddress = []\<rparr>"

definition contracts_component where
  "contracts_component available = \<lparr>c_mount = (\<lambda>s. loadFactories fresh_contracts), c_event = ctp_on available,
     c_resume = ctp_resume, c_timer = ctp_timer, c_effect = (\<lambda>old s. idle s), c_fits = ctp_fits\<rparr>"

lemma contracts_component_simps [simp]:
  "c_mount (contracts_component available) = (\<lambda>s. loadFactories fresh_contracts)"
  "c_event (contracts_component available) = ctp_on available" "c_resume (contracts_component available) = ctp_resume"
  "c_timer (contracts_component available) = ctp_timer" "c_effect (contracts_component available) = (\<lambda>old s. idle s)"
  "c_fits (contracts_component available) = ctp_fits"
  by (simp_all add: contracts_component_def)

section \<open>Lemmas\<close>

fun ctp_typed :: "ctp_request \<Rightarrow> ctp_cont \<Rightarrow> bool" where
  "ctp_typed ListFactories k = (k = FactoriesListed)"
| "ctp_typed Connect k = (\<exists>i. k = Connected i)"
| "ctp_typed DeployImplementation k = (k = ImplDeployed)"
| "ctp_typed (DeployFactory i) k = (k = FactoryDeployed i)"
| "ctp_typed (SaveFactory i f) k = (k = FactorySaved)"

text \<open>The dialog in a phase of work: a step of the deployment is under way.\<close>

definition deploy_runs :: "contracts_page \<Rightarrow> bool" where
  "deploy_runs s \<longleftrightarrow> phase s \<in> {PConnecting, PDeployingImpl, PDeployingFactory, PSaving}"

definition deploy_step :: "ctp_cont \<Rightarrow> bool" where
  "deploy_step k \<longleftrightarrow> k \<noteq> FactoriesListed \<and> k \<noteq> CloseDialog"

lemmas ctp_pieces = loadFactories_def handleDeployTron_def deploy_fails_def deploy_factory_def close_deploy_def
  deploy_runs_def deploy_step_def

lemma ctp_resume_ok:
  assumes "ctp_typed q k" and "ctp_fits q r"
  shows "typed ctp_typed (ctp_resume k r s) \<and> waits deploy_runs deploy_step (deploy_runs s \<and> \<not> deploy_step k) (ctp_resume k r s)"
  using assms by (cases q; cases r) (auto simp: ctp_pieces)

interpretation contracts: waiting_page "contracts_component available" ctp_typed deploy_runs deploy_step for available
proof unfold_locales
  fix s :: contracts_page and v :: ctp_event
  show "typed ctp_typed (c_event (contracts_component available) v s)"
    by (cases v; cases "\<exists>h. v = CtAct h"; auto simp: ctp_pieces; rename_tac h; case_tac h; simp add: ctp_pieces)
  show "waits deploy_runs deploy_step (deploy_runs s) (c_event (contracts_component available) v s)"
    by (cases v; cases "\<exists>h. v = CtAct h"; auto simp: ctp_pieces; rename_tac h; case_tac h; simp add: ctp_pieces)
next
  fix s :: contracts_page and k :: ctp_cont
  show "typed ctp_typed (c_timer (contracts_component available) k s)" by (cases k) (auto simp: ctp_pieces)
  show "waits deploy_runs deploy_step (deploy_runs s) (c_timer (contracts_component available) k s)"
    by (cases k) (auto simp: ctp_pieces)
qed (use ctp_resume_ok in \<open>auto simp: loadFactories_def fresh_contracts_def deploy_runs_def\<close>)

section \<open>Properties\<close>

text \<open>C37. The factory that is registered is the one that was deployed: a request to store a factory goes
  out only as the deployment of that factory succeeds, with its address and the implementation that its
  constructor was given.\<close>

theorem stored_factory_deployed:
  assumes "areach (contracts_component available) S w" and "astep (contracts_component available) w w'"
    and "(SaveFactory impl f, k) \<in> set (pending w')" and "(SaveFactory impl f, k) \<notin> set (pending w)"
  shows "\<exists>i < length (pending w). pending w ! i = (DeployFactory impl, FactoryDeployed impl)
    \<and> w' = do_reply (contracts_component available) i (Resolved (Address f)) w"
  using assms(2-4)
proof (cases rule: new_request)
  case (event v)
  then have False
  proof (cases v)
    case (CtAct h)
    then show ?thesis using event(2) by (cases h) (auto simp: ctp_pieces idle_def split: if_splits)
  qed (auto simp: idle_def)
  then show ?thesis ..
next
  case (reply i r)
  obtain q k' where p: "pending w ! i = (q, k')" by (cases "pending w ! i")
  then have "ctp_typed q k'" using contracts.well_typed [OF assms(1), of q k'] reply(2) by (metis nth_mem)
  then show ?thesis using reply p
    by (cases q; cases r) (auto simp: ctp_pieces idle_def split: if_splits)
next
  case (timer i)
  then show ?thesis by (cases "snd (timers w ! i)") (auto simp: ctp_pieces idle_def)
qed (auto simp: idle_def)

text \<open>The dialog does not hang: while it shows a step of the deployment, the wallet or the server is
  still to answer.\<close>

lemma contracts_dialog_ends:
  assumes "areach (contracts_component available) S w" and "deploy_runs (wst w)"
  shows "\<exists>(q, k) \<in> set (pending w). deploy_step k"
  using contracts.under_way [OF assms] .

text \<open>The timer of a finished deployment closes the dialog of the next one, which goes on unseen.\<close>

lemma next_deployment_closed:
  "(case ctp_timer CloseDialog (fst (handleDeployTron (Some impl) s)) of (s', cs) \<Rightarrow> \<not> deploying s' \<and> phase s' = PIdle)
   \<and> (impl \<noteq> [] \<longrightarrow> snd (ctp_resume (Connected impl) (Resolved (Address a)) s') = [Await (DeployFactory impl) (FactoryDeployed impl)])"
  by (simp add: ctp_pieces idle_def)

theorem stored_factory_deployed_witness:
  "\<exists>w w'. areach (contracts_component True) (\<lambda>s. True) w \<and> (SaveFactory ''TI'' ''TF'', FactorySaved) \<in> set (pending w')
     \<and> (\<exists>i < length (pending w). pending w ! i = (DeployFactory ''TI'', FactoryDeployed ''TI'')
         \<and> w' = do_reply (contracts_component True) i (Resolved (Address ''TF'')) w)"
proof -
  let ?c = "contracts_component True" and ?S = "\<lambda>s :: contracts_page. True"
  define w0 where "w0 = initial ?c fresh_contracts"
  define w1 where "w1 = do_reply ?c 0 (Resolved (Factories [])) w0"
  define w2 where "w2 = do_event ?c (CtAct HDeploy) w1"
  define w3 where "w3 = do_reply ?c 0 (Resolved (Address ''T'')) w2"
  define w4 where "w4 = do_reply ?c 0 (Resolved (Address ''TI'')) w3"
  define w5 where "w5 = do_reply ?c 0 (Resolved (Address ''TF'')) w4"
  have w0: "pending w0 = [(ListFactories, FactoriesListed)]" "wst w0 = fresh_contracts"
    by (simp_all add: w0_def mount_run loadFactories_def fresh_contracts_def)
  have w1: "pending w1 = []" "wst w1 = fresh_contracts\<lparr>ctp_factories := [], ctp_loading := False\<rparr>"
    by (simp_all add: w1_def reply_run [OF w0(1)] w0 idle_def)
  have b: "HDeploy \<in> set (handlers_of (contracts_view id True (wst w1)))"
    by (simp add: w1 contracts_view_def fresh_contracts_def tronFactory_def find_first_def undeployed_card_def)
  have w2: "pending w2 = [(Connect, Connected [])]"
    using b by (simp add: w2_def event_run w1(1) handleDeployTron_def)
  have w3: "pending w3 = [(DeployImplementation, ImplDeployed)]" by (simp add: w3_def reply_run [OF w2])
  have w4: "pending w4 = [(DeployFactory ''TI'', FactoryDeployed ''TI'')]"
    by (simp add: w4_def reply_run [OF w3] deploy_factory_def)
  have w5: "pending w5 = [(SaveFactory ''TI'' ''TF'', FactorySaved)]" by (simp add: w5_def reply_run [OF w4])
  have "areach ?c ?S w0" unfolding w0_def by (rule areach.start) simp
  then have "areach ?c ?S w1" unfolding w1_def by (rule reply_reach [OF _ w0(1)]) simp
  then have "areach ?c ?S w2" unfolding w2_def by (rule event_reach)
  then have "areach ?c ?S w3" unfolding w3_def by (rule reply_reach [OF _ w2]) simp
  then have r: "areach ?c ?S w4" unfolding w4_def by (rule reply_reach [OF _ w3]) simp
  have t: "astep ?c w4 w5" unfolding w5_def by (rule astep.reply) (simp_all add: w4)
  have m: "(SaveFactory ''TI'' ''TF'', FactorySaved) \<in> set (pending w5)" "(SaveFactory ''TI'' ''TF'', FactorySaved) \<notin> set (pending w4)"
    by (simp_all add: w4 w5)
  from stored_factory_deployed [OF r t m] r m(1) show ?thesis by blast
qed

end
