(* ===== verification/Marketing_Sequences.thy ===== *)
theory Marketing_Sequences
  imports Admin_Kit
begin

text \<open>
  The mail sequences of the marketing page (\<open>SequencesTab\<close> in
  ui-dashboard/src/pages/admin/marketing-page/marketing-page.tsx) as an asynchronous component: the list,
  the builder with its steps, the decisions on a sequence with their confirmations, and the drawer with
  its numbers. The two lists that are loaded together are one request of the model. A confirmation that
  was opened is part of the state until it is answered. \<open>parse_date\<close> reads a date as the browser does,
  and \<open>local\<close> formats an instant. A step is replaced in a new list where the code writes into the
  step that both lists share: nothing reads the older list again.
\<close>

section \<open>State\<close>

(* src: ui-dashboard/src/pages/admin/marketing-page/marketing-page.tsx 149-155 setFieldsValue *)
record sequence_form =
  fm_name :: string
  fm_audience :: string
  fm_skip :: "bool option"
  fm_start :: "string option"

datatype sq_decision = LaunchIt sequence | CancelIt sequence

(* src: ui-dashboard/src/pages/admin/marketing-page/marketing-page.tsx 17-31 SequencesTab *)
record sequences_tab =
  sq_sequences :: "sequence list"
  sq_templates :: "marketing_template list"
  sq_loading :: bool
  builderOpen :: bool
  sq_creating :: bool
  sq_form :: sequence_form
  steps :: "sequence_step list"
  detailUUID :: "string option"
  detailStats :: "sequence_stats option"
  sq_confirms :: "sq_decision list"

text \<open>The requests that one \<open>await\<close> waits for.\<close>

type_synonym sq_request = "marketing_request list"

datatype sq_cont = SequencesLoaded | SequenceCreated | SequenceLaunched | SequencePaused | SequenceResumed | SequenceCancelled | StatsLoaded

datatype sq_answer = SqLists "sequence list option" "marketing_template list" | SqStats sequence_stats | SqDone

datatype sq_effect = SqSuccess string | SqInfo string | SqError string

type_synonym sq_outcome = "(sequences_tab, sq_request, sq_cont, sq_effect) outcome"

type_synonym sq_reply = "(sq_answer, admin_error) reply"

section \<open>Operations\<close>

(* src: ui-dashboard/src/pages/admin/marketing-page/marketing-page.tsx 33-36 loadData *)
definition loadSequences :: "sequences_tab \<Rightarrow> sq_outcome" where
  "loadSequences s = (s\<lparr>sq_loading := True\<rparr>, [Await [ListSequences None None, ListMarketingTemplates] SequencesLoaded])"

(* src: ui-dashboard/src/pages/admin/marketing-page/marketing-page.tsx 36-43 setSequences *)
fun sequences_loaded :: "sq_reply \<Rightarrow> sequences_tab \<Rightarrow> sq_outcome" where
  "sequences_loaded (Resolved (SqLists xs ts)) s =
     idle (s\<lparr>sq_sequences := list_or_nil xs, sq_templates := ts, sq_loading := False\<rparr>)"
| "sequences_loaded _ s = idle (s\<lparr>sq_loading := False\<rparr>)"

text \<open>The next Tuesday after today, at ten: on a Tuesday the one of the next week.\<close>

(* src: ui-dashboard/src/pages/admin/marketing-page/marketing-page.tsx 48-54 nextTuesday10UTC *)
definition nextTuesday10UTC :: "int \<Rightarrow> int" where
  "nextTuesday10UTC now =
     (let daysAhead = (2 - week_day now + 7) mod 7; daysAhead = (if daysAhead = 0 then 7 else daysAhead)
      in utc_at (utc_day now + daysAhead) 10)"

definition step_of :: "string \<Rightarrow> jsnum \<Rightarrow> sequence_step" where
  "step_of t h = \<lparr>ss_template_id = t, ss_offset_hours = h, ss_subject_override = None\<rparr>"

(* src: ui-dashboard/src/pages/admin/marketing-page/marketing-page.tsx 25-29 useState *)
definition default_steps :: "sequence_step list" where
  "default_steps = [step_of ''dev_drip_hook'' (Fin 0), step_of ''dev_drip_proof'' (Fin 72), step_of ''dev_drip_math'' (Fin 168)]"

definition empty_sequence_form :: sequence_form where
  "empty_sequence_form = \<lparr>fm_name = [], fm_audience = ''contacts_opted_in'', fm_skip = Some True, fm_start = None\<rparr>"

text \<open>The parameters that the form gives, or nothing where the start is no date: then \<open>toISOString\<close>
  throws.\<close>

(* src: ui-dashboard/src/pages/admin/marketing-page/marketing-page.tsx 60-66 createSequence *)
definition sequence_params :: "(string \<Rightarrow> int option) \<Rightarrow> int \<Rightarrow> sequences_tab \<Rightarrow> create_sequence_params option" where
  "sequence_params parse_date now s =
     (let f = sq_form s;
          start = (if truthy (fm_start f) then parse_date (the (fm_start f)) else Some (nextTuesday10UTC now))
      in map_option (\<lambda>t. \<lparr>csp_name = fm_name f, csp_audience = fm_audience f,
           csp_skip_if_converted = (fm_skip f \<noteq> Some False), csp_start_at = Some (iso_string t), csp_steps = steps s\<rparr>) start)"

(* src: ui-dashboard/src/pages/admin/marketing-page/marketing-page.tsx 56-60 handleCreate *)
definition createSequence :: "(string \<Rightarrow> int option) \<Rightarrow> int \<Rightarrow> sequences_tab \<Rightarrow> sq_outcome" where
  "createSequence parse_date now s =
     (if fm_name (sq_form s) = [] \<or> fm_audience (sq_form s) = [] then idle (s\<lparr>sq_creating := False\<rparr>)
      else (case sequence_params parse_date now s of
          None \<Rightarrow> idle (s\<lparr>sq_creating := False\<rparr>)
        | Some p \<Rightarrow> (s\<lparr>sq_creating := True\<rparr>, [Await [CreateSequence p] SequenceCreated])))"

text \<open>An error is shown only where the server sent its text.\<close>

(* src: ui-dashboard/src/pages/admin/marketing-page/marketing-page.tsx 67-77 created *)
fun sequence_created :: "sq_reply \<Rightarrow> sequences_tab \<Rightarrow> sq_outcome" where
  "sequence_created (Resolved a) s =
     andThen (s\<lparr>builderOpen := False, sq_form := empty_sequence_form, sq_creating := False\<rparr>,
       [Emit (SqSuccess ''Sequence created (draft)'')]) loadSequences"
| "sequence_created (Rejected e) s =
     (s\<lparr>sq_creating := False\<rparr>, if truthy (ae_error e) then [Emit (SqError (the (ae_error e)))] else [])"

(* src: ui-dashboard/src/pages/admin/marketing-page/marketing-page.tsx 86-92 launchSequence *)
fun sequence_launched :: "sq_reply \<Rightarrow> sequences_tab \<Rightarrow> sq_outcome" where
  "sequence_launched (Resolved a) s = andThen (s, [Emit (SqSuccess ''Sequence launched'')]) loadSequences"
| "sequence_launched (Rejected e) s = (s, [Emit (SqError (or_else (ae_error e) ''Failed to launch''))])"

text \<open>The other decisions load the list before they tell.\<close>

(* src: ui-dashboard/src/pages/admin/marketing-page/marketing-page.tsx 97-104 handlePause *)
fun decided :: "string \<Rightarrow> sq_reply \<Rightarrow> sequences_tab \<Rightarrow> sq_outcome" where
  "decided what (Resolved a) s = andThen (loadSequences s) (\<lambda>s. (s, [Emit (SqInfo what)]))"
| "decided what (Rejected e) s = (s, [Emit (SqError (or_else (ae_error e) ''Failed''))])"

(* src: ui-dashboard/src/pages/admin/marketing-page/marketing-page.tsx 105-116 handleCancel *)
fun decide :: "sq_decision \<Rightarrow> sequences_tab \<Rightarrow> sq_outcome" where
  "decide (LaunchIt q) s = (s, [Await [LaunchSequence (sn_uuid q)] SequenceLaunched])"
| "decide (CancelIt q) s = (s, [Await [CancelSequence (sn_uuid q)] SequenceCancelled])"

(* src: ui-dashboard/src/pages/admin/marketing-page/marketing-page.tsx 118-122 openDetail *)
definition openDetail :: "sequence \<Rightarrow> sequences_tab \<Rightarrow> sq_outcome" where
  "openDetail q s = (s\<lparr>detailUUID := Some (sn_uuid q)\<rparr>, [Await [GetSequenceStats (sn_uuid q)] StatsLoaded])"

(* src: ui-dashboard/src/pages/admin/marketing-page/marketing-page.tsx 120-121 setDetailStats *)
fun stats_answer :: "sq_reply \<Rightarrow> sequences_tab \<Rightarrow> sq_outcome" where
  "stats_answer (Resolved (SqStats st)) s = idle (s\<lparr>detailStats := Some st\<rparr>)"
| "stats_answer _ s = idle (s\<lparr>detailStats := None\<rparr>)"

section \<open>Steps of the builder\<close>

text \<open>\<open>(last?.offset_hours || 0) + 72\<close>\<close>

(* src: ui-dashboard/src/pages/admin/marketing-page/marketing-page.tsx 235-236 setSteps *)
definition add_step :: "sequences_tab \<Rightarrow> sequences_tab" where
  "add_step s =
     (let h = (case elem_at (rev (steps s)) 0 of None \<Rightarrow> Fin 0
               | Some l \<Rightarrow> if num_truthy (ss_offset_hours l) then ss_offset_hours l else Fin 0);
          t = (case elem_at (sq_templates s) 0 of None \<Rightarrow> [] | Some t \<Rightarrow> mt_id t)
      in s\<lparr>steps := steps s @ [step_of t (js_add h (Fin 72))]\<rparr>)"

(* src: ui-dashboard/src/pages/admin/marketing-page/marketing-page.tsx 208-212 onChange *)
definition set_template :: "nat \<Rightarrow> string \<Rightarrow> sequences_tab \<Rightarrow> sequences_tab" where
  "set_template i v s = s\<lparr>steps := (steps s)[i := (steps s ! i)\<lparr>ss_template_id := v\<rparr>]\<rparr>"

(* src: ui-dashboard/src/pages/admin/marketing-page/marketing-page.tsx 222-226 onChange *)
definition set_offset :: "nat \<Rightarrow> string \<Rightarrow> sequences_tab \<Rightarrow> sequences_tab" where
  "set_offset i v s =
     s\<lparr>steps := (steps s)[i := (steps s ! i)\<lparr>ss_offset_hours := parse_int (or_else (Some v) ''0'')\<rparr>]\<rparr>"

(* src: ui-dashboard/src/pages/admin/marketing-page/marketing-page.tsx 230-230 setSteps *)
definition remove_step :: "nat \<Rightarrow> sequences_tab \<Rightarrow> sequences_tab" where
  "remove_step i s = s\<lparr>steps := take i (steps s) @ drop (Suc i) (steps s)\<rparr>"

(* src: ui-dashboard/src/pages/admin/marketing-page/marketing-page.tsx 149-162 onClick *)
definition newSequence :: "int \<Rightarrow> sequences_tab \<Rightarrow> sq_outcome" where
  "newSequence now s = idle (s\<lparr>sq_form := \<lparr>fm_name = [], fm_audience = ''contacts_opted_in'', fm_skip = Some True,
     fm_start = Some (iso_string (nextTuesday10UTC now))\<rparr>, steps := default_steps, builderOpen := True\<rparr>)"

section \<open>What the tab shows\<close>

(* src: ui-dashboard/src/pages/admin/marketing-page/marketing-page.tsx 476-480 audienceLabels *)
definition audienceLabels :: "(string \<times> string) list" where
  "audienceLabels = [(''merchants'', ''All Merchants''), (''contacts_opted_in'', ''Opted-in Contacts''),
     (''all'', ''Everyone (Merchants + Contacts)'')]"

(* src: ui-dashboard/src/pages/admin/marketing-page/marketing-page.tsx 482-488 statusColors *)
definition statusColors :: "(string \<times> string) list" where
  "statusColors = [(''draft'', ''default''), (''sending'', ''processing''), (''paused'', ''warning''),
     (''completed'', ''success''), (''cancelled'', ''error'')]"

fun seq_status :: "sequence_status \<Rightarrow> string" where
  "seq_status Draft = ''draft''"
| "seq_status Running = ''running''"
| "seq_status Paused = ''paused''"
| "seq_status Completed = ''completed''"
| "seq_status CancelledSeq = ''cancelled''"

definition audience_tag :: "string \<Rightarrow> 'h ui" where
  "audience_tag v = leaf ''Tag'' (case map_of audienceLabels v of None \<Rightarrow> v | Some l \<Rightarrow> l)"

definition marketing_status_tag :: "string \<Rightarrow> 'h ui" where
  "marketing_status_tag v =
     El ''Tag'' [(''color'', case map_of statusColors v of None \<Rightarrow> ''default'' | Some c \<Rightarrow> c)] [] [Txt (to_upper v)]"

datatype sq_handler =
    HRefresh | HNewSequence | HDetail sequence | HLaunch sequence | HPause sequence | HResumeSeq sequence
  | HCancelSeq sequence | HConfirm sq_decision | HDismiss sq_decision | HCloseBuilder | HCreate | HCloseDetail
  | HStepTemplate nat string | HStepOffset nat | HRemoveStep nat | HAddStep

(* src: ui-dashboard/src/pages/admin/marketing-page/marketing-page.tsx 131-140 actions *)
definition sequence_actions :: "sequence \<Rightarrow> sq_handler ui list" where
  "sequence_actions r =
     [El ''Button'' [] [(''onClick'', HDetail r)] []]
     @ when_ui (sn_status r = Draft) [El ''Button'' [] [(''onClick'', HLaunch r)] [Txt ''Launch'']]
     @ when_ui (sn_status r = Running) [El ''Button'' [] [(''onClick'', HPause r)] [Txt ''Pause'']]
     @ when_ui (sn_status r = Paused) [El ''Button'' [] [(''onClick'', HResumeSeq r)] [Txt ''Resume'']]
     @ when_ui (sn_status r = Draft \<or> sn_status r = Running \<or> sn_status r = Paused)
         [El ''Button'' [] [(''onClick'', HCancelSeq r)] [Txt ''Cancel'']]"

(* src: ui-dashboard/src/pages/admin/marketing-page/marketing-page.tsx 124-130 sequenceColumns *)
definition sequence_columns :: "(string \<Rightarrow> string) \<Rightarrow> (sequence, sq_handler) column list" where
  "sequence_columns local =
     [(''Name'', \<lambda>r. [El ''a'' [] [(''onClick'', HDetail r)] [Txt (sn_name r)]]),
      (''Steps'', \<lambda>r. text_cell (show_nat (length (sn_steps r)))), (''Audience'', \<lambda>r. [audience_tag (sn_audience r)]),
      (''Status'', \<lambda>r. [marketing_status_tag (seq_status (sn_status r))]),
      (''Started'', \<lambda>r. text_cell (if truthy (sn_started_at r) then local (the (sn_started_at r)) else em_dash)),
      (''Actions'', sequence_actions)]"

(* src: ui-dashboard/src/pages/admin/marketing-page/marketing-page.tsx 80-85 Modal.confirm *)
fun confirm_view :: "sq_decision \<Rightarrow> sq_handler ui" where
  "confirm_view (LaunchIt q) =
     El ''Modal.confirm'' [(''title'', ''Launch sequence \"'' @ sn_name q @ ''\"?''),
       (''content'', ''This will enroll all matching '' @ template (map_of audienceLabels (sn_audience q))
          @ '' and start sending. Skip-if-converted: '' @ (if skip_if_converted q then ''ON'' else ''OFF'') @ ''.''),
       (''okText'', ''Launch'')]
       [(''onOk'', HConfirm (LaunchIt q)), (''onCancel'', HDismiss (LaunchIt q))] []"
| "confirm_view (CancelIt q) =
     El ''Modal.confirm'' [(''title'', ''Cancel sequence \"'' @ sn_name q @ ''\"?''),
       (''content'', ''Active enrollments will stop receiving further emails. This cannot be undone.''),
       (''okText'', ''Cancel sequence'')]
       [(''onOk'', HConfirm (CancelIt q)), (''onCancel'', HDismiss (CancelIt q))] []"

(* src: ui-dashboard/src/pages/admin/marketing-page/marketing-page.tsx 199-238 steps *)
definition step_cards :: "sequences_tab \<Rightarrow> sq_handler ui list" where
  "step_cards s =
     concat (map (\<lambda>(i, st).
       [leaf ''Text'' (show_nat (i + 1)),
        El ''Select'' [(''value'', ss_template_id st)] (map (\<lambda>t. (''onChange'', HStepTemplate i (mt_id t))) (sq_templates s))
          (map (\<lambda>t. leaf ''option'' (mt_name t)) (sq_templates s)),
        El ''Input'' [(''type'', ''number''), (''min'', ''0''), (''addonAfter'', ''h offset''), (''value'', num_str (ss_offset_hours st))]
          [(''onChange'', HStepOffset i)] [],
        El ''Button'' [] [(''onClick'', HRemoveStep i)] [Txt ''Remove'']])
       (zip [0..<length (steps s)] (steps s)))
     @ [El ''Button'' [] [(''onClick'', HAddStep)] [Txt ''Add Step'']]"

(* src: ui-dashboard/src/pages/admin/marketing-page/marketing-page.tsx 168-198 Drawer *)
definition builder_drawer :: "string \<Rightarrow> sequences_tab \<Rightarrow> sq_handler ui list" where
  "builder_drawer tuesday s =
     overlay ''Drawer'' ''New Sequence'' (builderOpen s) [(''onClose'', HCloseBuilder)]
       ([El ''Button'' [] [(''onClick'', HCloseBuilder)] [Txt ''Cancel''], button ''Create Draft'' (sq_creating s) HCreate,
         comp ''Form.Item'' [(''label'', ''Sequence Name''), (''name'', ''name''), (''required'', ''true''), (''value'', fm_name (sq_form s))],
         El ''Form.Item'' [(''label'', ''Audience''), (''name'', ''audience''), (''required'', ''true''), (''value'', fm_audience (sq_form s))] []
           [leaf ''Radio.Button'' ''Opted-in Contacts'', leaf ''Radio.Button'' ''Merchants'', leaf ''Radio.Button'' ''Everyone''],
         El ''Form.Item'' [(''label'', ''Start time (ISO-8601 UTC)''), (''name'', ''start_at'')] [] [comp ''Input'' [(''placeholder'', tuesday)]],
         leaf ''Checkbox'' ''Skip if recipient becomes a merchant mid-sequence'', leaf ''Text'' ''Steps'']
        @ step_cards s)"

(* src: ui-dashboard/src/pages/admin/marketing-page/marketing-page.tsx 243-275 Drawer *)
definition stats_drawer :: "sequences_tab \<Rightarrow> sq_handler ui list" where
  "stats_drawer s =
     overlay ''Drawer'' (or_else (map_option (\<lambda>st. sn_name (st_sequence st)) (detailStats s)) ''Sequence'')
       (detailUUID s \<noteq> None) [(''onClose'', HCloseDetail)]
       (case detailStats s of None \<Rightarrow> []
        | Some st \<Rightarrow>
            [statistic ''Enrolled'' (show_nat (total_enrolled st)), statistic ''Active'' (show_nat (st_active st)),
             statistic ''Converted'' (show_nat (st_converted st)), statistic (''Unsub'' @ [CHR 0x27] @ ''d'') (show_nat (st_unsubscribed st)),
             statistic ''Completed'' (show_nat (st_completed st)), statistic ''Failed'' (show_nat (st_failed st)),
             leaf ''Title'' ''Per-step funnel'',
             data_table False (\<lambda>(i, sent, p). show_nat i)
               [(''Step'', \<lambda>(i, sent, p). text_cell (show_nat i)), (''Sent'', \<lambda>(i, sent, p). text_cell (show_nat sent)),
                (''Pending'', \<lambda>(i, sent, p). text_cell (show_nat p))] (step_breakdown st)])"

(* src: ui-dashboard/src/pages/admin/marketing-page/marketing-page.tsx 143-166 Row *)
definition sequences_view :: "(string \<Rightarrow> string) \<Rightarrow> string \<Rightarrow> sequences_tab \<Rightarrow> sq_handler ui list" where
  "sequences_view local tuesday s =
     [El ''Button'' [] [(''onClick'', HRefresh)] [Txt ''Refresh''], El ''Button'' [] [(''onClick'', HNewSequence)] [Txt ''New Sequence''],
      data_table (sq_loading s) sn_uuid (sequence_columns local) (sq_sequences s)]
     @ builder_drawer tuesday s @ stats_drawer s @ map confirm_view (sq_confirms s)"

section \<open>The component\<close>

text \<open>An event is a handler of the view, with the time of the click and what the user typed; the fields
  of the form change by themselves.\<close>

datatype sq_event = SqAct sq_handler int string | SqForm sequence_form

fun sq_run :: "(string \<Rightarrow> int option) \<Rightarrow> sq_handler \<Rightarrow> int \<Rightarrow> string \<Rightarrow> sequences_tab \<Rightarrow> sq_outcome" where
  "sq_run pd HRefresh now v s = loadSequences s"
| "sq_run pd HNewSequence now v s = newSequence now s"
| "sq_run pd (HDetail q) now v s = openDetail q s"
| "sq_run pd (HLaunch q) now v s = idle (s\<lparr>sq_confirms := sq_confirms s @ [LaunchIt q]\<rparr>)"
| "sq_run pd (HPause q) now v s = (s, [Await [PauseSequence (sn_uuid q)] SequencePaused])"
| "sq_run pd (HResumeSeq q) now v s = (s, [Await [ResumeSequence (sn_uuid q)] SequenceResumed])"
| "sq_run pd (HCancelSeq q) now v s = idle (s\<lparr>sq_confirms := sq_confirms s @ [CancelIt q]\<rparr>)"
| "sq_run pd (HConfirm d) now v s = decide d (s\<lparr>sq_confirms := remove1 d (sq_confirms s)\<rparr>)"
| "sq_run pd (HDismiss d) now v s = idle (s\<lparr>sq_confirms := remove1 d (sq_confirms s)\<rparr>)"
| "sq_run pd HCloseBuilder now v s = idle (s\<lparr>builderOpen := False\<rparr>)"
| "sq_run pd HCreate now v s = (if sq_creating s then idle s else createSequence pd now s)"
| "sq_run pd HCloseDetail now v s = idle (s\<lparr>detailUUID := None, detailStats := None\<rparr>)"
| "sq_run pd (HStepTemplate i t) now v s = idle (set_template i t s)"
| "sq_run pd (HStepOffset i) now v s = idle (set_offset i v s)"
| "sq_run pd (HRemoveStep i) now v s = idle (remove_step i s)"
| "sq_run pd HAddStep now v s = idle (add_step s)"

fun sq_on :: "(string \<Rightarrow> int option) \<Rightarrow> sq_event \<Rightarrow> sequences_tab \<Rightarrow> sq_outcome" where
  "sq_on pd (SqAct h now v) s =
     (if h \<in> set (handlers_of (sequences_view id [] s)) then sq_run pd h now v s else idle s)"
| "sq_on pd (SqForm f) s = idle (s\<lparr>sq_form := f\<rparr>)"

fun sq_resume :: "sq_cont \<Rightarrow> sq_reply \<Rightarrow> sequences_tab \<Rightarrow> sq_outcome" where
  "sq_resume SequencesLoaded a s = sequences_loaded a s"
| "sq_resume SequenceCreated a s = sequence_created a s"
| "sq_resume SequenceLaunched a s = sequence_launched a s"
| "sq_resume SequencePaused a s = decided ''Paused'' a s"
| "sq_resume SequenceResumed a s = decided ''Resumed'' a s"
| "sq_resume SequenceCancelled a s = decided ''Cancelled'' a s"
| "sq_resume StatsLoaded a s = stats_answer a s"

definition fresh_sequences :: sequences_tab where
  "fresh_sequences = \<lparr>sq_sequences = [], sq_templates = [], sq_loading = True, builderOpen = False, sq_creating = False,
     sq_form = empty_sequence_form, steps = default_steps, detailUUID = None, detailStats = None, sq_confirms = []\<rparr>"

definition sequences_component where
  "sequences_component pd = \<lparr>c_mount = (\<lambda>s. loadSequences fresh_sequences), c_event = sq_on pd, c_resume = sq_resume,
     c_timer = (\<lambda>k s. idle s), c_effect = (\<lambda>old s. idle s), c_fits = (\<lambda>(q :: sq_request) (r :: sq_reply). True)\<rparr>"

lemma sequences_component_simps [simp]:
  "c_mount (sequences_component pd) = (\<lambda>s. loadSequences fresh_sequences)" "c_event (sequences_component pd) = sq_on pd"
  "c_resume (sequences_component pd) = sq_resume" "c_timer (sequences_component pd) = (\<lambda>k s. idle s)"
  "c_effect (sequences_component pd) = (\<lambda>old s. idle s)" "c_fits (sequences_component pd) = (\<lambda>q r. True)"
  by (simp_all add: sequences_component_def)

section \<open>Lemmas\<close>

fun sq_typed :: "sq_request \<Rightarrow> sq_cont \<Rightarrow> bool" where
  "sq_typed q SequencesLoaded = (q = [ListSequences None None, ListMarketingTemplates])"
| "sq_typed q SequenceCreated = (\<exists>p. q = [CreateSequence p])"
| "sq_typed q SequenceLaunched = (\<exists>u. q = [LaunchSequence u])"
| "sq_typed q SequencePaused = (\<exists>u. q = [PauseSequence u])"
| "sq_typed q SequenceResumed = (\<exists>u. q = [ResumeSequence u])"
| "sq_typed q SequenceCancelled = (\<exists>u. q = [CancelSequence u])"
| "sq_typed q StatsLoaded = (\<exists>u. q = [GetSequenceStats u])"

text \<open>The buttons and the confirmations that were opened through them: a decision is offered only for a
  sequence in a fitting state.\<close>

fun decision_ok :: "sq_decision \<Rightarrow> bool" where
  "decision_ok (LaunchIt q) = (sn_status q = Draft)"
| "decision_ok (CancelIt q) = (sn_status q \<in> {Draft, Running, Paused})"

fun button_ok :: "sequences_tab \<Rightarrow> sq_handler \<Rightarrow> bool" where
  "button_ok s (HLaunch q) = (q \<in> set (sq_sequences s) \<and> sn_status q = Draft)"
| "button_ok s (HPause q) = (q \<in> set (sq_sequences s) \<and> sn_status q = Running)"
| "button_ok s (HResumeSeq q) = (q \<in> set (sq_sequences s) \<and> sn_status q = Paused)"
| "button_ok s (HCancelSeq q) = (q \<in> set (sq_sequences s) \<and> sn_status q \<in> {Draft, Running, Paused})"
| "button_ok s (HConfirm d) = (d \<in> set (sq_confirms s))"
| "button_ok s (HStepTemplate i t) = (i < length (steps s))"
| "button_ok s (HStepOffset i) = (i < length (steps s))"
| "button_ok s (HRemoveStep i) = (i < length (steps s))"
| "button_ok s h = True"

lemma tags_no_handlers [simp]: "ui_handlers (audience_tag v) = []" "ui_handlers (marketing_status_tag v) = []"
  by (simp_all add: audience_tag_def marketing_status_tag_def)

lemma confirm_handlers [simp]: "set (ui_handlers (confirm_view d)) = {HConfirm d, HDismiss d}"
  by (cases d) auto

lemma step_buttons: "h \<in> set (handlers_of (step_cards s)) \<Longrightarrow> button_ok s h"
  by (auto simp: step_cards_def handlers_of_def set_zip)

lemma stats_buttons: "h \<in> set (handlers_of (stats_drawer s)) \<Longrightarrow> h = HCloseDetail"
  by (auto simp: stats_drawer_def overlay_handlers table_handlers split: option.splits)

lemma builder_buttons: "h \<in> set (handlers_of (builder_drawer tu s)) \<Longrightarrow> button_ok s h"
  using step_buttons [of h s] by (auto simp: builder_drawer_def overlay_handlers)

lemma sequence_buttons: "h \<in> set (handlers_of (sequences_view local tu s)) \<Longrightarrow> button_ok s h"
  using builder_buttons [of h tu s] stats_buttons [of h s]
  by (auto simp: sequences_view_def table_handlers sequence_columns_def sequence_actions_def handlers_of_map when_ui_def
      split: if_splits)

lemma sq_resume_typed: "typed sq_typed (sq_resume k r s)"
  by (cases k; cases r; simp add: loadSequences_def)
     (rename_tac a; case_tac a; simp add: idle_def)+

text \<open>An answer starts no request but for the lists.\<close>

lemma resume_requests: "Await q k' \<in> set (snd (sq_resume k r s)) \<Longrightarrow> q = [ListSequences None None, ListMarketingTemplates]"
  by (cases k; cases r; simp add: loadSequences_def split: if_splits) (rename_tac a; case_tac a; simp add: idle_def)+

definition dialogs_ok :: "sequences_tab \<Rightarrow> bool" where
  "dialogs_ok s \<longleftrightarrow> (\<forall>d \<in> set (sq_confirms s). decision_ok d)"

lemma resume_dialogs [simp]: "sq_confirms (fst (sq_resume k r s)) = sq_confirms s"
  by (cases k; cases r; simp add: loadSequences_def) (rename_tac a; case_tac a; simp add: idle_def)+

lemmas sq_steps = createSequence_def newSequence_def openDetail_def add_step_def set_template_def set_offset_def
  remove_step_def Let_def

lemma sq_event_typed: "typed sq_typed (sq_on pd v s)"
proof (cases v)
  case (SqAct h now x)
  then show ?thesis
    by (cases h; simp add: sq_steps loadSequences_def split: option.split) (rename_tac d; case_tac d; simp)+
qed simp

lemma sq_event_loading: "waits sq_loading (\<lambda>k. k = SequencesLoaded) (sq_loading s) (sq_on pd v s)"
proof (cases v)
  case (SqAct h now x)
  then show ?thesis
    by (cases h; simp add: sq_steps loadSequences_def split: option.split) (rename_tac d; case_tac d; simp)+
qed simp

interpretation sequences: waiting_page "sequences_component pd" sq_typed sq_loading "\<lambda>k. k = SequencesLoaded" for pd
proof unfold_locales
  fix s :: sequences_tab and k :: sq_cont and r :: sq_reply
  show "waits sq_loading (\<lambda>k. k = SequencesLoaded) (sq_loading s \<and> k \<noteq> SequencesLoaded) (c_resume (sequences_component pd) k r s)"
    by (cases k; cases r; simp add: loadSequences_def) (rename_tac a; case_tac a; simp add: idle_def)+
qed (simp_all add: sq_event_typed sq_event_loading sq_resume_typed del: sq_on.simps sq_resume.simps, simp_all add: loadSequences_def)

lemma run_dialogs:
  "set (sq_confirms (fst (sq_run pd h now x s))) \<subseteq>
     set (sq_confirms s) \<union> {d. \<exists>q. d = LaunchIt q \<and> h = HLaunch q} \<union> {d. \<exists>q. d = CancelIt q \<and> h = HCancelSeq q}"
proof (cases h)
  case (HConfirm d)
  then show ?thesis using set_remove1_subset [of d "sq_confirms s"] by (cases d) auto
next
  case (HDismiss d)
  then show ?thesis using set_remove1_subset [of d "sq_confirms s"] by (auto simp: idle_def)
qed (auto simp: sq_steps loadSequences_def idle_def split: option.splits)

lemma sq_event_dialogs:
  assumes "dialogs_ok s"
  shows "dialogs_ok (fst (sq_on pd v s))"
proof (cases v)
  case (SqAct h now x)
  show ?thesis
  proof (cases "h \<in> set (handlers_of (sequences_view id [] s))")
    case True
    then have b: "button_ok s h" by (rule sequence_buttons)
    have "decision_ok d" if "d \<in> set (sq_confirms (fst (sq_run pd h now x s)))" for d
      using subsetD [OF run_dialogs that] b assms by (auto simp: dialogs_ok_def)
    then show ?thesis using SqAct True by (simp add: dialogs_ok_def)
  qed (use assms SqAct in \<open>simp add: idle_def\<close>)
qed (use assms in \<open>simp add: idle_def dialogs_ok_def\<close>)

interpretation dialogs: safe_component "sequences_component pd" dialogs_ok "\<lambda>q k. True" "\<lambda>k. True" "\<lambda>e. True" for pd
proof unfold_locales
  have o: "ok_outcome I (\<lambda>q k. True) (\<lambda>k. True) (\<lambda>e. True) oc \<longleftrightarrow> I (fst oc)"
    for I :: "sequences_tab \<Rightarrow> bool" and oc :: sq_outcome
    by (auto simp: ok_outcome_def ok_cmd_def split: cmd.splits)
  fix s s' :: sequences_tab and v k q r
  show "ok_outcome dialogs_ok (\<lambda>q k. True) (\<lambda>k. True) (\<lambda>e. True) (c_mount (sequences_component pd) s)"
    by (simp add: o loadSequences_def dialogs_ok_def fresh_sequences_def)
  assume d: "dialogs_ok s"
  show "ok_outcome dialogs_ok (\<lambda>q k. True) (\<lambda>k. True) (\<lambda>e. True) (c_event (sequences_component pd) v s)"
    using sq_event_dialogs [OF d] by (simp add: o del: sq_on.simps)
  show "ok_outcome dialogs_ok (\<lambda>q k. True) (\<lambda>k. True) (\<lambda>e. True) (c_resume (sequences_component pd) k r s)"
    using d by (simp add: o dialogs_ok_def del: sq_resume.simps)
  show "ok_outcome dialogs_ok (\<lambda>q k. True) (\<lambda>k. True) (\<lambda>e. True) (c_timer (sequences_component pd) k s)"
    using d by (simp add: o idle_def)
  assume d: "dialogs_ok s'"
  then show "ok_outcome dialogs_ok (\<lambda>q k. True) (\<lambda>k. True) (\<lambda>e. True) (c_effect (sequences_component pd) s s')"
    by (simp add: o idle_def)
qed

section \<open>Properties\<close>

text \<open>Decisions follow the status of a sequence: a launch is sent only as the user confirms it for a
  sequence that was a draft when the confirmation was opened, a cancellation for one that had not ended,
  a pause only for a running sequence of the list and a resumption only for a paused one.\<close>

lemma decisions_follow_status:
  assumes "areach (sequences_component pd) dialogs_ok w" and "astep (sequences_component pd) w w'"
    and "([m], k) \<in> set (pending w')" and "([m], k) \<notin> set (pending w)"
    and "m \<in> {LaunchSequence u, CancelSequence u, PauseSequence u, ResumeSequence u}"
  shows "\<exists>h now v q. w' = do_event (sequences_component pd) (SqAct h now v) w \<and> sn_uuid q = u
    \<and> (m = LaunchSequence u \<longrightarrow> h = HConfirm (LaunchIt q) \<and> sn_status q = Draft)
    \<and> (m = CancelSequence u \<longrightarrow> h = HConfirm (CancelIt q) \<and> sn_status q \<in> {Draft, Running, Paused})
    \<and> (m = PauseSequence u \<longrightarrow> h = HPause q \<and> q \<in> set (sq_sequences (wst w)) \<and> sn_status q = Running)
    \<and> (m = ResumeSequence u \<longrightarrow> h = HResumeSeq q \<and> q \<in> set (sq_sequences (wst w)) \<and> sn_status q = Paused)"
  using assms(2-4)
proof (cases rule: new_request)
  case (event v)
  have d: "dialogs_ok (wst w)" using dialogs.reachable_ok [OF assms(1)] by (simp add: ok_world_def)
  show ?thesis
  proof (cases v)
    case (SqAct h now x)
    then have b: "button_ok (wst w) h" and r: "Await [m] k \<in> set (snd (sq_run pd h now x (wst w)))"
      using event(2) sequence_buttons [of h id "[]" "wst w"] by (auto simp: idle_def split: if_splits)
    show ?thesis
    proof (cases h)
      case (HConfirm dec)
      with b d have "decision_ok dec" by (simp add: dialogs_ok_def)
      then show ?thesis using r event(1) SqAct HConfirm assms(5) by (cases dec) (auto 0 4)
    qed (use b r event(1) SqAct assms(5) in
        \<open>auto 0 4 simp: sq_steps loadSequences_def idle_def split: option.splits if_splits\<close>)
  qed (use event(2) in \<open>simp add: idle_def\<close>)
next
  case (reply i r)
  then have "[m] = [ListSequences None None, ListMarketingTemplates]" by (intro resume_requests) simp
  then show ?thesis by simp
qed (auto simp: idle_def)

text \<open>How many days a Tuesday is away from a day of the week.\<close>

lemma tuesday_distance:
  fixes x :: int
  defines "k \<equiv> (2 - x mod 7 + 7) mod 7"
  defines "a \<equiv> if k = 0 then 7 else k"
  shows "1 \<le> a \<and> a \<le> 7 \<and> (x + a) mod 7 = 2 \<and> (x mod 7 = 2 \<longrightarrow> a = 7)"
proof -
  have "x mod 7 \<in> {0, 1, 2, 3, 4, 5, 6}" using pos_mod_bound [of 7 x] pos_mod_sign [of 7 x] by (simp, presburger)
  moreover have "(x + a) mod 7 = (x mod 7 + a) mod 7" by presburger
  ultimately show ?thesis unfolding a_def k_def by auto
qed

text \<open>The proposed start lies ahead: it is a Tuesday at ten in UTC, after the given moment and at most
  seven days of the calendar away; on a Tuesday it is the one of the next week even before ten.\<close>

lemma tuesday_ahead:
  "week_day (nextTuesday10UTC now) = 2 \<and> nextTuesday10UTC now mod ms_per_day = 10 * 3600000
   \<and> now < nextTuesday10UTC now
   \<and> utc_day now < utc_day (nextTuesday10UTC now) \<and> utc_day (nextTuesday10UTC now) \<le> utc_day now + 7
   \<and> ((utc_day (nextTuesday10UTC now) = utc_day now + 7) = (week_day now = 2))"
proof -
  define d where "d = utc_day now"
  define a where "a = (let k = (2 - (4 + d) mod 7 + 7) mod 7 in if k = 0 then 7 else k)"
  have t: "nextTuesday10UTC now = (d + a) * ms_per_day + 36000000"
    by (simp add: nextTuesday10UTC_def week_day_def utc_at_def d_def a_def Let_def)
  have day: "utc_day (nextTuesday10UTC now) = d + a" by (simp add: t utc_day_def ms_per_day_def)
  have r: "nextTuesday10UTC now mod ms_per_day = 36000000"
    by (simp only: t mod_mult_self3) (simp add: ms_per_day_def)
  have a: "1 \<le> a" "a \<le> 7" "(4 + (d + a)) mod 7 = 2" "(4 + d) mod 7 = 2 \<Longrightarrow> a = 7"
    using tuesday_distance [of "4 + d"] unfolding a_def Let_def by (auto simp: algebra_simps)
  have a7: "a = 7 \<Longrightarrow> (4 + d) mod 7 = 2" unfolding a_def Let_def by (simp split: if_splits) presburger+
  have "now < (d + 1) * ms_per_day" by (simp add: d_def utc_day_def ms_per_day_def)
  also have "\<dots> \<le> (d + a) * ms_per_day" using a(1) by (simp add: ms_per_day_def)
  finally have "now < nextTuesday10UTC now" by (simp add: t)
  then show ?thesis using day r a a7 by (auto simp: week_day_def d_def)
qed

text \<open>Each step that is added comes three days after the last, with the first of the templates.\<close>

lemma steps_three_days_apart:
  assumes "steps s = xs @ [l]" and "ss_offset_hours l = Fin (of_int n)" and "\<bar>n\<bar> < 2 ^ 52"
  shows "steps (add_step s) = steps s @ [step_of (case sq_templates s of [] \<Rightarrow> [] | t # ts \<Rightarrow> mt_id t) (Fin (of_int (n + 72)))]"
proof -
  have "fl (of_int n + 72) = Fin (of_int (n + 72))" using fl_of_int [of "n + 72"] assms(3) by simp
  then show ?thesis using assms by (auto simp: add_step_def elem_at_def num_truthy_def split: list.split)
qed

text \<open>A start that is no date stops the creation without a word.\<close>

lemma bad_start_silent:
  assumes "fm_start (sq_form s) = Some d" and "d \<noteq> []" and "pd d = None"
  shows "createSequence pd now s = (s\<lparr>sq_creating := False\<rparr>, [])"
  using assms by (simp add: createSequence_def sequence_params_def idle_def)

text \<open>Numbers that arrive after the drawer was closed are kept and shown, under the name of their own
  sequence, when it is opened for another one.\<close>

lemma late_stats_shown:
  "detailStats (fst (openDetail q (fst (sq_resume StatsLoaded (Resolved (SqStats st)) (s\<lparr>detailUUID := None, detailStats := None\<rparr>))))) = Some st"
  by (simp add: openDetail_def idle_def)

section \<open>Witness\<close>

definition sample_sequence :: sequence where
  "sample_sequence = \<lparr>sn_id = 1, sn_uuid = ''u1'', sn_name = ''Drip'', sn_audience = ''all'', sn_status = Running,
     skip_if_converted = True, sn_start_at = None, sn_started_at = None, sn_steps = []\<rparr>"

lemma decisions_follow_status_example:
  "\<exists>w w'. ([PauseSequence ''u1''], SequencePaused) \<in> set (pending w') \<and> sample_sequence \<in> set (sq_sequences (wst w))
     \<and> sn_status sample_sequence = Running
     \<and> (\<exists>h now v. w' = do_event (sequences_component (\<lambda>d. None)) (SqAct h now v) w \<and> (\<exists>q. h = HPause q \<and> sn_status q = Running))"
proof -
  let ?c = "sequences_component (\<lambda>d. None)"
  define w0 where "w0 = initial ?c fresh_sequences"
  define w1 where "w1 = do_reply ?c 0 (Resolved (SqLists (Some [sample_sequence]) [])) w0"
  define w2 where "w2 = do_event ?c (SqAct (HPause sample_sequence) 0 []) w1"
  have w0: "pending w0 = [([ListSequences None None, ListMarketingTemplates], SequencesLoaded)]"
    by (simp add: w0_def mount_run loadSequences_def)
  have w1: "pending w1 = []" "sq_sequences (wst w1) = [sample_sequence]" by (simp_all add: w1_def reply_run [OF w0] idle_def)
  have b: "HPause sample_sequence \<in> set (handlers_of (sequences_view id [] (wst w1)))"
    by (simp add: sequences_view_def table_handlers sequence_columns_def sequence_actions_def w1)
       (simp add: sample_sequence_def)
  have w2: "pending w2 = [([PauseSequence ''u1''], SequencePaused)]"
    using b by (simp add: w2_def event_run w1(1)) (simp add: sample_sequence_def)
  have "areach ?c dialogs_ok w0" unfolding w0_def
    by (rule areach.start) (simp add: dialogs_ok_def fresh_sequences_def)
  then have r: "areach ?c dialogs_ok w1" unfolding w1_def by (rule reply_reach [OF _ w0]) simp
  have t: "astep ?c w1 w2" unfolding w2_def by (rule astep.event)
  have m: "([PauseSequence ''u1''], SequencePaused) \<in> set (pending w2)" "([PauseSequence ''u1''], SequencePaused) \<notin> set (pending w1)"
    by (simp_all add: w1 w2)
  from decisions_follow_status [OF r t m, of "''u1''"] obtain h now v q where
    "w2 = do_event ?c (SqAct h now v) w1" "h = HPause q" "sn_status q = Running" by auto
  moreover have "sn_status sample_sequence = Running" by (simp add: sample_sequence_def)
  ultimately show ?thesis using m(1) w1(2) by (intro exI [of _ w1] exI [of _ w2]) auto
qed

end
