(* ===== verification/Marketing_Page.thy ===== *)
theory Marketing_Page
  imports Marketing_Sequences "HOL-Library.List_Lexorder"
begin

text \<open>
  The rest of the marketing page
  (ui-dashboard/src/pages/admin/marketing-page/marketing-page.tsx): the gallery of templates, the daily
  budget and the campaigns, each with its state, requests and markup. Strings are ordered by their
  characters, as \<open>sort\<close> orders them. \<open>local\<close> and \<open>day\<close> format an instant.
\<close>

section \<open>Templates\<close>

(* src: ui-dashboard/src/pages/admin/marketing-page/marketing-page.tsx 280-282 TemplatesTab *)
record templates_tab =
  activeTag :: "string option"
  previewTemplate :: "marketing_template option"

(* src: ui-dashboard/src/pages/admin/marketing-page/marketing-page.tsx 284-288 allTags *)
definition allTags :: "marketing_template list \<Rightarrow> string list" where
  "allTags ts = sort (remdups (concat (map (\<lambda>t. list_or_nil (mt_tags t)) ts)))"

(* src: ui-dashboard/src/pages/admin/marketing-page/marketing-page.tsx 290-290 visible *)
definition visible :: "string option \<Rightarrow> marketing_template list \<Rightarrow> marketing_template list" where
  "visible tag ts = (if truthy tag then filter (\<lambda>t. the tag \<in> set (list_or_nil (mt_tags t))) ts else ts)"

datatype tt_handler = HTag "string option" | HPreview marketing_template | HClosePreview

(* src: ui-dashboard/src/pages/admin/marketing-page/marketing-page.tsx 315-333 visible *)
definition template_card :: "marketing_template \<Rightarrow> tt_handler ui" where
  "template_card t =
     El ''Card'' [(''key'', mt_id t), (''title'', mt_name t)] []
       ([El ''Button'' [] [(''onClick'', HPreview t)] [Txt ''Preview''], leaf ''Text'' ''Subject:'', leaf ''Text'' (mt_subject t),
         leaf ''Text'' (mt_description t)] @ map (leaf ''Tag'') (list_or_nil (mt_tags t)))"

(* src: ui-dashboard/src/pages/admin/marketing-page/marketing-page.tsx 292-351 Modal *)
definition templates_view :: "marketing_template list \<Rightarrow> templates_tab \<Rightarrow> tt_handler ui list" where
  "templates_view ts s =
     [leaf ''code'' ''internal/service/marketing/templates.go'',
      El ''Tag'' [(''color'', if activeTag s = None then ''green'' else ''default'')] [(''onClick'', HTag None)]
        [Txt (''All ('' @ show_nat (length ts) @ '')'')]]
     @ map (\<lambda>tag. El ''Tag'' [(''key'', tag), (''color'', if activeTag s = Some tag then ''green'' else ''default'')]
         [(''onClick'', HTag (Some tag))] [Txt tag]) (allTags ts)
     @ map template_card (visible (activeTag s) ts)
     @ overlay ''Modal'' (or_else (map_option mt_name (previewTemplate s)) ''Preview'') (previewTemplate s \<noteq> None)
         [(''onCancel'', HClosePreview)]
         [comp ''iframe'' [(''title'', ''email preview''), (''sandbox'', []),
            (''srcDoc'', or_else (map_option mt_body_html (previewTemplate s)) [])]]"

fun tt_on :: "tt_handler \<Rightarrow> templates_tab \<Rightarrow> templates_tab" where
  "tt_on (HTag t) s = s\<lparr>activeTag := t\<rparr>"
| "tt_on (HPreview t) s = s\<lparr>previewTemplate := Some t\<rparr>"
| "tt_on HClosePreview s = s\<lparr>previewTemplate := None\<rparr>"

section \<open>Daily budget\<close>

(* src: ui-dashboard/src/pages/admin/marketing-page/marketing-page.tsx 469-474 Quota *)
record mail_quota =
  q_sent :: nat
  q_limit :: nat
  q_remaining :: int
  q_reset_at :: string

(* src: ui-dashboard/src/pages/admin/marketing-page/marketing-page.tsx 355-360 SettingsTab *)
record budget_tab =
  bt_settings :: "marketing_settings option"
  bt_quota :: "mail_quota option"
  dailyLimit :: jsnum
  bt_saving :: bool

datatype bt_cont = BudgetLoaded | BudgetSaved

datatype bt_answer = Budget marketing_settings mail_quota | Updated marketing_settings

datatype bt_event = BtLimit string | BtSave

type_synonym bt_outcome = "(budget_tab, sq_request, bt_cont, sq_effect) outcome"

type_synonym bt_reply = "(bt_answer, admin_error) reply"

(* src: ui-dashboard/src/pages/admin/marketing-page/marketing-page.tsx 362-364 loadData *)
definition loadBudget :: "budget_tab \<Rightarrow> bt_outcome" where
  "loadBudget s = (s, [Await [GetMarketingSettings, GetMarketingQuota] BudgetLoaded])"

(* src: ui-dashboard/src/pages/admin/marketing-page/marketing-page.tsx 365-369 setQuota *)
fun budget_loaded :: "bt_reply \<Rightarrow> budget_tab \<Rightarrow> bt_outcome" where
  "budget_loaded (Resolved (Budget st q)) s =
     idle (s\<lparr>bt_settings := Some st, dailyLimit := daily_limit st, bt_quota := Some q\<rparr>)"
| "budget_loaded _ s = idle s"

text \<open>The test has two comparisons, and both are false of a value that is no number.\<close>

(* src: ui-dashboard/src/pages/admin/marketing-page/marketing-page.tsx 373-380 handleSave *)
definition saveBudget :: "budget_tab \<Rightarrow> bt_outcome" where
  "saveBudget s =
     (if js_less (dailyLimit s) (Fin 50) \<or> js_less (Fin 250) (dailyLimit s)
      then (s, [Emit (SqError ''Daily limit must be between 50 and 250'')])
      else (s\<lparr>bt_saving := True\<rparr>, [Await [UpdateMarketingSettings (dailyLimit s)] BudgetSaved]))"

(* src: ui-dashboard/src/pages/admin/marketing-page/marketing-page.tsx 380-389 updated *)
fun budget_saved :: "bt_reply \<Rightarrow> budget_tab \<Rightarrow> bt_outcome" where
  "budget_saved (Resolved (Updated st)) s =
     andThen (s\<lparr>bt_settings := Some st, bt_saving := False\<rparr>, [Emit (SqSuccess ''Settings saved'')]) loadBudget"
| "budget_saved (Resolved a) s = idle (s\<lparr>bt_saving := False\<rparr>)"
| "budget_saved (Rejected e) s = (s\<lparr>bt_saving := False\<rparr>, [Emit (SqError (or_else (ae_error e) ''Failed''))])"

(* src: ui-dashboard/src/pages/admin/marketing-page/marketing-page.tsx 399-409 onChange *)
fun bt_on :: "bt_event \<Rightarrow> budget_tab \<Rightarrow> bt_outcome" where
  "bt_on (BtLimit v) s = idle (s\<lparr>dailyLimit := parse_int (or_else (Some v) ''0'')\<rparr>)"
| "bt_on BtSave s = (if bt_saving s then idle s else saveBudget s)"

fun bt_resume :: "bt_cont \<Rightarrow> bt_reply \<Rightarrow> budget_tab \<Rightarrow> bt_outcome" where
  "bt_resume BudgetLoaded a s = budget_loaded a s"
| "bt_resume BudgetSaved a s = budget_saved a s"

definition quota_color :: "int \<Rightarrow> string" where
  "quota_color n = (if 50 < n then ''#10b981'' else if 0 < n then ''#f59e0b'' else ''#ef4444'')"

definition statistic_in :: "string \<Rightarrow> string \<Rightarrow> string \<Rightarrow> 'h ui" where
  "statistic_in color title value = comp ''Statistic'' [(''title'', title), (''value'', value), (''color'', color)]"

(* src: ui-dashboard/src/pages/admin/marketing-page/marketing-page.tsx 418-426 quota *)
definition quota_view :: "(string \<Rightarrow> string) \<Rightarrow> string \<Rightarrow> string \<Rightarrow> mail_quota \<Rightarrow> 'h ui list" where
  "quota_view local today resets q =
     [statistic_in (if 0 < q_remaining q then ''#10b981'' else ''#ef4444'') today
        (show_nat (q_sent q) @ ''/ '' @ show_nat (q_limit q)),
      statistic_in (quota_color (q_remaining q)) ''Remaining'' (show_int (q_remaining q)),
      statistic_in ''#94a3b8'' resets (local (q_reset_at q))]"

(* src: ui-dashboard/src/pages/admin/marketing-page/marketing-page.tsx 391-416 Card *)
definition budget_view :: "(string \<Rightarrow> string) \<Rightarrow> budget_tab \<Rightarrow> bt_event ui list" where
  "budget_view local s =
     [leaf ''Card'' ''Daily Email Budget'',
      leaf ''Paragraph'' ''Brevo plan ceiling: 300/day. Reservation for transactional sends (invoices, signup, password reset): 50/day. Marketing cap is therefore clamped to 250.'',
      comp ''Input'' [(''type'', ''number''), (''min'', ''50''), (''max'', ''250''), (''value'', num_str (dailyLimit s))],
      button ''Save'' (bt_saving s) BtSave]
     @ (case bt_settings s of None \<Rightarrow> [] | Some st \<Rightarrow> [leaf ''Text'' (''Last updated: '' @ local (ms_updated_at st))])
     @ (case bt_quota s of None \<Rightarrow> [leaf ''Text'' ''Loading...''] | Some q \<Rightarrow> quota_view local ''Sent today'' ''Resets'' q)"

definition fresh_budget :: budget_tab where
  "fresh_budget = \<lparr>bt_settings = None, bt_quota = None, dailyLimit = Fin 250, bt_saving = False\<rparr>"

definition budget_component where
  "budget_component = \<lparr>c_mount = (\<lambda>s. loadBudget fresh_budget), c_event = bt_on, c_resume = bt_resume,
     c_timer = (\<lambda>k s. idle s), c_effect = (\<lambda>old s. idle s), c_fits = (\<lambda>(q :: sq_request) (r :: bt_reply). True)\<rparr>"

lemma budget_component_simps [simp]:
  "c_mount budget_component = (\<lambda>s. loadBudget fresh_budget)" "c_event budget_component = bt_on"
  "c_resume budget_component = bt_resume" "c_timer budget_component = (\<lambda>k s. idle s)"
  "c_effect budget_component = (\<lambda>old s. idle s)" "c_fits budget_component = (\<lambda>q r. True)"
  by (simp_all add: budget_component_def)

text \<open>What is saved is a number of mails in the range, or no number.\<close>

definition limit_ok :: "jsnum \<Rightarrow> bool" where
  "limit_ok n \<longleftrightarrow> n = NaN \<or> (\<exists>x. n = Fin x \<and> 50 \<le> x \<and> x \<le> 250)"

lemma range_test: "\<not> js_less n (Fin 50) \<Longrightarrow> \<not> js_less (Fin 250) n \<Longrightarrow> limit_ok n"
  by (cases n) (auto simp: limit_ok_def)

fun bt_typed :: "sq_request \<Rightarrow> bt_cont \<Rightarrow> bool" where
  "bt_typed q BudgetLoaded = (q = [GetMarketingSettings, GetMarketingQuota])"
| "bt_typed q BudgetSaved = (\<exists>n. q = [UpdateMarketingSettings n] \<and> limit_ok n)"

interpretation budget: waiting_page budget_component bt_typed bt_saving "\<lambda>k. k = BudgetSaved"
proof unfold_locales
  fix s :: budget_tab and k :: bt_cont and r :: bt_reply
  show "typed bt_typed (c_resume budget_component k r s)"
    by (cases k; cases "(r, s)" rule: budget_saved.cases) (auto simp: loadBudget_def)
  show "waits bt_saving (\<lambda>k. k = BudgetSaved) (bt_saving s \<and> k \<noteq> BudgetSaved) (c_resume budget_component k r s)"
    by (cases k; cases "(r, s)" rule: budget_saved.cases) (auto simp: loadBudget_def)
next
  fix s :: budget_tab and v :: bt_event
  show "typed bt_typed (c_event budget_component v s)"
    by (cases v) (auto simp: saveBudget_def range_test)
  show "waits bt_saving (\<lambda>k. k = BudgetSaved) (bt_saving s) (c_event budget_component v s)"
    by (cases v) (auto simp: saveBudget_def)
qed (auto simp: loadBudget_def fresh_budget_def)

section \<open>Campaigns\<close>

(* src: ui-dashboard/src/pages/admin/marketing-page/marketing-page.tsx 443-459 Campaign *)
record campaign =
  cp_id :: nat
  cp_uuid :: string
  cp_name :: string
  cp_subject :: string
  cp_body_html :: string
  cp_template_id :: "string option"
  cp_audience :: string
  cp_status :: string
  total_recipients :: nat
  sent_count :: nat
  failed_count :: nat
  pending_count :: nat
  cp_created_at :: string
  cp_started_at :: "string option"
  cp_completed_at :: "string option"

(* src: ui-dashboard/src/pages/admin/marketing-page/marketing-page.tsx 461-467 Recipient *)
record recipient =
  rc_id :: nat
  rc_email :: string
  rc_status :: string
  rc_sent_at :: "string option"
  rc_error_message :: "string option"

record campaign_form =
  cf_name :: string
  cf_template_id :: "string option"
  cf_subject :: string
  cf_audience :: string
  cf_body_html :: string

(* src: ui-dashboard/src/pages/admin/marketing-page/marketing-page.tsx 490-511 MarketingPage *)
record marketing_page =
  mp_campaigns :: "campaign list"
  mp_templates :: "marketing_template list"
  mp_quota :: "mail_quota option"
  mp_loading :: bool
  mp_total :: nat
  createOpen :: bool
  mp_form :: campaign_form
  selectedTemplate :: "marketing_template option"
  previewHtml :: "string option"
  mp_creating :: bool
  detailCampaign :: "campaign option"
  recipients :: "recipient list"
  recipientsTotal :: nat
  detailOpen :: bool
  mp_confirms :: "campaign list"

datatype mp_cont = CampaignsLoaded | CampaignCreated | CampaignSent | RecipientsLoaded

datatype mp_answer =
    MpLists "campaign list option" "nat option" "marketing_template list" mail_quota
  | MpRecipients "recipient list option" "nat option"
  | MpDone

type_synonym mp_outcome = "(marketing_page, sq_request, mp_cont, sq_effect) outcome"

type_synonym mp_reply = "(mp_answer, admin_error) reply"

definition empty_campaign :: campaign_form where
  "empty_campaign = \<lparr>cf_name = [], cf_template_id = None, cf_subject = [], cf_audience = ''contacts_opted_in'', cf_body_html = []\<rparr>"

definition or_zero :: "nat option \<Rightarrow> nat" where
  "or_zero v = (case v of None \<Rightarrow> 0 | Some n \<Rightarrow> n)"

(* src: ui-dashboard/src/pages/admin/marketing-page/marketing-page.tsx 513-520 loadData *)
definition loadCampaigns :: "marketing_page \<Rightarrow> mp_outcome" where
  "loadCampaigns s = (s\<lparr>mp_loading := True\<rparr>,
     [Await [ListCampaigns None None, ListMarketingTemplates, GetMarketingQuota] CampaignsLoaded])"

(* src: ui-dashboard/src/pages/admin/marketing-page/marketing-page.tsx 521-529 setCampaigns *)
fun campaigns_loaded :: "mp_reply \<Rightarrow> marketing_page \<Rightarrow> mp_outcome" where
  "campaigns_loaded (Resolved (MpLists cs n ts q)) s =
     idle (s\<lparr>mp_campaigns := list_or_nil cs, mp_total := or_zero n, mp_templates := ts, mp_quota := Some q, mp_loading := False\<rparr>)"
| "campaigns_loaded _ s = idle (s\<lparr>mp_loading := False\<rparr>)"

(* src: ui-dashboard/src/pages/admin/marketing-page/marketing-page.tsx 533-539 handleTemplateSelect *)
definition handleTemplateSelect :: "string option \<Rightarrow> marketing_page \<Rightarrow> marketing_page" where
  "handleTemplateSelect i s =
     (let f = (mp_form s)\<lparr>cf_template_id := i\<rparr>
      in case find_first (\<lambda>t. Some (mt_id t) = i) (mp_templates s) of
           None \<Rightarrow> s\<lparr>selectedTemplate := None, mp_form := f\<rparr>
         | Some t \<Rightarrow> s\<lparr>selectedTemplate := Some t, mp_form := f\<lparr>cf_subject := mt_subject t, cf_body_html := mt_body_html t\<rparr>\<rparr>)"

(* src: ui-dashboard/src/pages/admin/marketing-page/marketing-page.tsx 541-545 handlePreview *)
definition handlePreview :: "marketing_page \<Rightarrow> marketing_page" where
  "handlePreview s = s\<lparr>previewHtml :=
     Some (or_else (Some (cf_body_html (mp_form s))) (or_else (map_option mt_body_html (selectedTemplate s)) []))\<rparr>"

definition campaign_valid :: "campaign_form \<Rightarrow> bool" where
  "campaign_valid f \<longleftrightarrow> cf_name f \<noteq> [] \<and> cf_subject f \<noteq> [] \<and> cf_audience f \<noteq> [] \<and> cf_body_html f \<noteq> []"

(* src: ui-dashboard/src/pages/admin/marketing-page/marketing-page.tsx 547-551 handleCreate *)
definition createCampaign :: "marketing_page \<Rightarrow> mp_outcome" where
  "createCampaign s =
     (let f = mp_form s
      in if \<not> campaign_valid f then idle (s\<lparr>mp_creating := False\<rparr>)
         else (s\<lparr>mp_creating := True\<rparr>,
           [Await [CreateCampaign (cf_name f) (cf_subject f) (cf_body_html f) (cf_template_id f) (cf_audience f)] CampaignCreated]))"

(* src: ui-dashboard/src/pages/admin/marketing-page/marketing-page.tsx 552-564 created *)
fun campaign_created :: "mp_reply \<Rightarrow> marketing_page \<Rightarrow> mp_outcome" where
  "campaign_created (Resolved a) s =
     andThen (s\<lparr>createOpen := False, mp_form := empty_campaign, selectedTemplate := None, mp_creating := False\<rparr>,
       [Emit (SqSuccess ''Campaign created'')]) loadCampaigns"
| "campaign_created (Rejected e) s =
     (s\<lparr>mp_creating := False\<rparr>, if truthy (ae_error e) then [Emit (SqError (the (ae_error e)))] else [])"

(* src: ui-dashboard/src/pages/admin/marketing-page/marketing-page.tsx 572-581 onOk *)
fun campaign_sent :: "mp_reply \<Rightarrow> marketing_page \<Rightarrow> mp_outcome" where
  "campaign_sent (Resolved a) s = andThen (s, [Emit (SqSuccess ''Campaign queued for sending!'')]) loadCampaigns"
| "campaign_sent (Rejected e) s = (s, [Emit (SqError (or_else (ae_error e) ''Failed to send''))])"

(* src: ui-dashboard/src/pages/admin/marketing-page/marketing-page.tsx 584-588 openDetail *)
definition openCampaign :: "campaign \<Rightarrow> marketing_page \<Rightarrow> mp_outcome" where
  "openCampaign c s = (s\<lparr>detailCampaign := Some c, detailOpen := True\<rparr>,
     [Await [GetCampaignRecipients (cp_uuid c) None None] RecipientsLoaded])"

(* src: ui-dashboard/src/pages/admin/marketing-page/marketing-page.tsx 588-592 setRecipients *)
fun recipients_loaded :: "mp_reply \<Rightarrow> marketing_page \<Rightarrow> mp_outcome" where
  "recipients_loaded (Resolved (MpRecipients rs n)) s =
     idle (s\<lparr>recipients := list_or_nil rs, recipientsTotal := or_zero n\<rparr>)"
| "recipients_loaded _ s = idle (s\<lparr>recipients := []\<rparr>)"

section \<open>What the page shows of campaigns\<close>

datatype mp_handler =
    HReload | HNewCampaign | HOpen campaign | HSend campaign | HConfirmSend campaign | HDismissSend campaign
  | HCloseCreate | HPreviewCampaign | HCreateCampaign | HTemplate "string option" | HClosePreviewHtml | HCloseCampaign

definition percent_done :: "nat \<Rightarrow> nat \<Rightarrow> jsnum" where
  "percent_done n m = js_round (js_mul (js_div (Fin (of_nat n)) (Fin (of_nat m))) (Fin 100))"

(* src: ui-dashboard/src/pages/admin/marketing-page/marketing-page.tsx 610-622 progress *)
definition progress_cell :: "campaign \<Rightarrow> 'h ui list" where
  "progress_cell c =
     (if 0 < total_recipients c
      then [El ''Tooltip'' [(''title'', show_nat (sent_count c) @ '' sent / '' @ show_nat (failed_count c) @ '' failed / ''
              @ show_nat (pending_count c) @ '' pending'')] []
            [comp ''Progress'' [(''percent'', num_str (percent_done (sent_count c + failed_count c) (total_recipients c))),
               (''success'', num_str (percent_done (sent_count c) (total_recipients c)))]]]
      else [leaf ''Text'' em_dash])"

(* src: ui-dashboard/src/pages/admin/marketing-page/marketing-page.tsx 627-641 actions *)
definition campaign_actions :: "campaign \<Rightarrow> mp_handler ui list" where
  "campaign_actions c =
     [El ''Button'' [(''title'', ''View details'')] [(''onClick'', HOpen c)] []]
     @ when_ui (cp_status c = ''draft'' \<or> cp_status c = ''paused'')
         [El ''Button'' [(''title'', ''Send campaign'')] [(''onClick'', HSend c)] []]"

(* src: ui-dashboard/src/pages/admin/marketing-page/marketing-page.tsx 594-626 columns *)
definition campaign_columns :: "(string \<Rightarrow> string) \<Rightarrow> (campaign, mp_handler) column list" where
  "campaign_columns day =
     [(''Name'', \<lambda>c. [El ''a'' [] [(''onClick'', HOpen c)] [Txt (cp_name c)]]), (''Subject'', \<lambda>c. text_cell (cp_subject c)),
      (''Audience'', \<lambda>c. [audience_tag (cp_audience c)]), (''Status'', \<lambda>c. [marketing_status_tag (cp_status c)]),
      (''Progress'', progress_cell), (''Created'', \<lambda>c. text_cell (day (cp_created_at c))), (''Actions'', campaign_actions)]"

(* src: ui-dashboard/src/pages/admin/marketing-page/marketing-page.tsx 644-656 recipientColumns *)
definition recipient_columns :: "(string \<Rightarrow> string) \<Rightarrow> (recipient, 'h) column list" where
  "recipient_columns local =
     [(''Email'', \<lambda>r. text_cell (rc_email r)),
      (''Status'', \<lambda>r. [El ''Tag'' [(''color'', if rc_status r = ''sent'' then ''success'' else if rc_status r = ''failed'' then ''error''
          else if rc_status r = ''pending'' then ''default'' else ''warning'')] [] [Txt (to_upper (rc_status r))]]),
      (''Sent At'', \<lambda>r. text_cell (if truthy (rc_sent_at r) then local (the (rc_sent_at r)) else em_dash)),
      (''Error'', \<lambda>r. text_cell (or_else (rc_error_message r) em_dash))]"

(* src: ui-dashboard/src/pages/admin/marketing-page/marketing-page.tsx 658-684 campaignsTab *)
definition campaigns_tab :: "(string \<Rightarrow> string) \<Rightarrow> (string \<Rightarrow> string) \<Rightarrow> marketing_page \<Rightarrow> mp_handler ui list" where
  "campaigns_tab local day s =
     (case mp_quota s of None \<Rightarrow> [] | Some q \<Rightarrow> quota_view local ''Emails Sent Today'' ''Quota Resets'' q)
     @ [El ''Button'' [] [(''onClick'', HReload)] [Txt ''Refresh''], El ''Button'' [] [(''onClick'', HNewCampaign)] [Txt ''New Campaign''],
        data_table (mp_loading s) cp_uuid (campaign_columns day) (mp_campaigns s),
        comp ''Pagination'' [(''total'', show_nat (mp_total s)), (''pageSize'', ''20'')]]"

(* src: ui-dashboard/src/pages/admin/marketing-page/marketing-page.tsx 704-765 Drawer *)
definition create_drawer :: "marketing_page \<Rightarrow> mp_handler ui list" where
  "create_drawer s =
     overlay ''Drawer'' ''Create Campaign'' (createOpen s) [(''onClose'', HCloseCreate)]
       ([El ''Button'' [] [(''onClick'', HPreviewCampaign)] [Txt ''Preview''], button ''Create'' (mp_creating s) HCreateCampaign,
         comp ''Form.Item'' [(''label'', ''Campaign Name''), (''name'', ''name''), (''required'', ''true''), (''value'', cf_name (mp_form s))],
         El ''Select'' [(''label'', ''Email Template''), (''placeholder'', ''Choose a predefined template or write custom...'')]
           ((''onClear'', HTemplate None) # map (\<lambda>t. (''onChange'', HTemplate (Some (mt_id t)))) (mp_templates s))
           (map (\<lambda>t. wrap ''option'' [leaf ''span'' (mt_name t), leaf ''Text'' (em_dash @ '' '' @ mt_description t)]) (mp_templates s))]
        @ (case selectedTemplate s of None \<Rightarrow> []
           | Some t \<Rightarrow> [leaf ''Text'' (mt_name t), leaf ''Text'' (mt_description t),
               El ''Button'' [] [(''onClick'', HPreviewCampaign)] [Txt ''Preview Template'']])
        @ [comp ''Form.Item'' [(''label'', ''Subject''), (''name'', ''subject''), (''required'', ''true''), (''value'', cf_subject (mp_form s))],
           El ''Form.Item'' [(''label'', ''Audience''), (''name'', ''audience''), (''required'', ''true''), (''value'', cf_audience (mp_form s))] []
             [leaf ''Radio.Button'' ''Opted-in Contacts'', leaf ''Radio.Button'' ''All Merchants'', leaf ''Radio.Button'' ''Everyone''],
           comp ''Form.Item'' [(''label'', ''Email Body (HTML)''), (''name'', ''body_html''), (''required'', ''true''), (''value'', cf_body_html (mp_form s))]])"

(* src: ui-dashboard/src/pages/admin/marketing-page/marketing-page.tsx 768-780 Modal *)
definition preview_modal :: "marketing_page \<Rightarrow> mp_handler ui list" where
  "preview_modal s =
     overlay ''Modal'' ''Email Preview'' (previewHtml s \<noteq> None) [(''onCancel'', HClosePreviewHtml)]
       [comp ''div'' [(''dangerouslySetInnerHTML'', or_else (previewHtml s) [])]]"

(* src: ui-dashboard/src/pages/admin/marketing-page/marketing-page.tsx 783-842 Drawer *)
definition campaign_drawer :: "(string \<Rightarrow> string) \<Rightarrow> marketing_page \<Rightarrow> mp_handler ui list" where
  "campaign_drawer local s =
     overlay ''Drawer'' (or_else (map_option cp_name (detailCampaign s)) ''Campaign Details'') (detailOpen s) [(''onClose'', HCloseCampaign)]
       (case detailCampaign s of None \<Rightarrow> []
        | Some c \<Rightarrow>
            [statistic ''Total'' (show_nat (total_recipients c)), statistic ''Sent'' (show_nat (sent_count c)),
             statistic ''Failed'' (show_nat (failed_count c)), statistic ''Pending'' (show_nat (pending_count c))]
            @ when_ui (0 < total_recipients c)
                [comp ''Progress'' [(''percent'', num_str (percent_done (sent_count c + failed_count c) (total_recipients c))),
                   (''success'', num_str (percent_done (sent_count c) (total_recipients c)))]]
            @ [leaf ''Tab'' (''Recipients ('' @ show_nat (recipientsTotal s) @ '')''),
               data_table False (\<lambda>r. show_nat (rc_id r)) (recipient_columns local) (recipients s),
               leaf ''Tab'' ''Email Preview'', comp ''div'' [(''dangerouslySetInnerHTML'', cp_body_html c)]]
            @ when_ui (cp_status c = ''draft'' \<or> cp_status c = ''paused'')
                [El ''Button'' [] [(''onClick'', HSend c)] [Txt ''Send Campaign'']])"

(* src: ui-dashboard/src/pages/admin/marketing-page/marketing-page.tsx 566-571 Modal.confirm *)
definition send_confirm :: "campaign \<Rightarrow> mp_handler ui" where
  "send_confirm c =
     El ''Modal.confirm'' [(''title'', ''Send campaign \"'' @ cp_name c @ ''\"?''),
       (''content'', ''This will queue emails to the '' @ (case map_of audienceLabels (cp_audience c) of None \<Rightarrow> cp_audience c | Some l \<Rightarrow> l)
          @ '' audience. Emails are sent at max 200/day.''), (''okText'', ''Send'')]
       [(''onOk'', HConfirmSend c), (''onCancel'', HDismissSend c)] []"

(* src: ui-dashboard/src/pages/admin/marketing-page/marketing-page.tsx 686-701 PageContainer *)
definition marketing_view :: "(string \<Rightarrow> string) \<Rightarrow> (string \<Rightarrow> string) \<Rightarrow> marketing_page \<Rightarrow> mp_handler ui list" where
  "marketing_view local day s =
     leaf ''Title'' ''Marketing'' # campaigns_tab local day s
     @ [comp ''SequencesTab'' [], comp ''TemplatesTab'' [], comp ''SettingsTab'' []]
     @ create_drawer s @ preview_modal s @ campaign_drawer local s @ map send_confirm (mp_confirms s)"

section \<open>The component of the campaigns\<close>

datatype mp_event = MpAct mp_handler | MpForm campaign_form

fun mp_run :: "mp_handler \<Rightarrow> marketing_page \<Rightarrow> mp_outcome" where
  "mp_run HReload s = loadCampaigns s"
| "mp_run HNewCampaign s = idle (s\<lparr>createOpen := True\<rparr>)"
| "mp_run (HOpen c) s = openCampaign c s"
| "mp_run (HSend c) s = idle (s\<lparr>mp_confirms := mp_confirms s @ [c]\<rparr>)"
| "mp_run (HConfirmSend c) s = (s\<lparr>mp_confirms := remove1 c (mp_confirms s)\<rparr>, [Await [SendCampaign (cp_uuid c)] CampaignSent])"
| "mp_run (HDismissSend c) s = idle (s\<lparr>mp_confirms := remove1 c (mp_confirms s)\<rparr>)"
| "mp_run HCloseCreate s = idle (s\<lparr>createOpen := False, mp_form := empty_campaign, selectedTemplate := None\<rparr>)"
| "mp_run HPreviewCampaign s = idle (handlePreview s)"
| "mp_run HCreateCampaign s = (if mp_creating s then idle s else createCampaign s)"
| "mp_run (HTemplate i) s = idle (handleTemplateSelect i s)"
| "mp_run HClosePreviewHtml s = idle (s\<lparr>previewHtml := None\<rparr>)"
| "mp_run HCloseCampaign s = idle (s\<lparr>detailOpen := False, detailCampaign := None\<rparr>)"

fun mp_on :: "mp_event \<Rightarrow> marketing_page \<Rightarrow> mp_outcome" where
  "mp_on (MpAct h) s = (if h \<in> set (handlers_of (marketing_view id id s)) then mp_run h s else idle s)"
| "mp_on (MpForm f) s = idle (s\<lparr>mp_form := f\<rparr>)"

fun mp_resume :: "mp_cont \<Rightarrow> mp_reply \<Rightarrow> marketing_page \<Rightarrow> mp_outcome" where
  "mp_resume CampaignsLoaded a s = campaigns_loaded a s"
| "mp_resume CampaignCreated a s = campaign_created a s"
| "mp_resume CampaignSent a s = campaign_sent a s"
| "mp_resume RecipientsLoaded a s = recipients_loaded a s"

definition fresh_marketing :: marketing_page where
  "fresh_marketing = \<lparr>mp_campaigns = [], mp_templates = [], mp_quota = None, mp_loading = True, mp_total = 0, createOpen = False,
     mp_form = empty_campaign, selectedTemplate = None, previewHtml = None, mp_creating = False, detailCampaign = None,
     recipients = [], recipientsTotal = 0, detailOpen = False, mp_confirms = []\<rparr>"

definition marketing_component where
  "marketing_component = \<lparr>c_mount = (\<lambda>s. loadCampaigns fresh_marketing), c_event = mp_on, c_resume = mp_resume,
     c_timer = (\<lambda>k s. idle s), c_effect = (\<lambda>old s. idle s), c_fits = (\<lambda>(q :: sq_request) (r :: mp_reply). True)\<rparr>"

lemma marketing_component_simps [simp]:
  "c_mount marketing_component = (\<lambda>s. loadCampaigns fresh_marketing)" "c_event marketing_component = mp_on"
  "c_resume marketing_component = mp_resume" "c_timer marketing_component = (\<lambda>k s. idle s)"
  "c_effect marketing_component = (\<lambda>old s. idle s)" "c_fits marketing_component = (\<lambda>q r. True)"
  by (simp_all add: marketing_component_def)

section \<open>Lemmas\<close>

fun mp_typed :: "sq_request \<Rightarrow> mp_cont \<Rightarrow> bool" where
  "mp_typed q CampaignsLoaded = (q = [ListCampaigns None None, ListMarketingTemplates, GetMarketingQuota])"
| "mp_typed q CampaignCreated = (\<exists>n s b t a. q = [CreateCampaign n s b t a] \<and> n \<noteq> [] \<and> s \<noteq> [] \<and> b \<noteq> [] \<and> a \<noteq> [])"
| "mp_typed q CampaignSent = (\<exists>u. q = [SendCampaign u])"
| "mp_typed q RecipientsLoaded = (\<exists>u. q = [GetCampaignRecipients u None None])"

interpretation campaigns: waiting_page marketing_component mp_typed mp_loading "\<lambda>k. k = CampaignsLoaded"
proof unfold_locales
  fix s :: marketing_page and k :: mp_cont and r :: mp_reply
  show "typed mp_typed (c_resume marketing_component k r s)"
    by (cases k; cases "(r, s)" rule: campaigns_loaded.cases; simp add: loadCampaigns_def)
  show "waits mp_loading (\<lambda>k. k = CampaignsLoaded) (mp_loading s \<and> k \<noteq> CampaignsLoaded) (c_resume marketing_component k r s)"
    by (cases k; cases "(r, s)" rule: campaigns_loaded.cases; simp add: loadCampaigns_def)
next
  fix s :: marketing_page and v :: mp_event
  show "typed mp_typed (c_event marketing_component v s)"
  proof (cases v)
    case (MpAct h)
    then show ?thesis
      by (cases h) (auto simp: loadCampaigns_def openCampaign_def createCampaign_def campaign_valid_def Let_def)
  qed simp
  show "waits mp_loading (\<lambda>k. k = CampaignsLoaded) (mp_loading s) (c_event marketing_component v s)"
  proof (cases v)
    case (MpAct h)
    then show ?thesis
      by (cases h) (auto simp: loadCampaigns_def openCampaign_def createCampaign_def Let_def handlePreview_def
          handleTemplateSelect_def split: option.splits)
  qed simp
qed (simp_all add: loadCampaigns_def fresh_marketing_def)

definition sendable :: "campaign \<Rightarrow> bool" where
  "sendable c \<longleftrightarrow> cp_status c = ''draft'' \<or> cp_status c = ''paused''"

definition sends_ok :: "marketing_page \<Rightarrow> bool" where
  "sends_ok s \<longleftrightarrow> (\<forall>c \<in> set (mp_confirms s). sendable c)"

lemma no_campaign_handlers [simp]:
  "handlers_of (quota_view l a b q) = []" "handlers_of (progress_cell c) = []"
  by (simp_all add: quota_view_def statistic_in_def progress_cell_def)

lemma recipient_handlers [simp]: "h \<notin> set (ui_handlers (data_table l k (recipient_columns local) rs))"
  by (auto simp: table_handlers recipient_columns_def)

lemma send_buttons:
  assumes "h \<in> set (handlers_of (marketing_view local day s))"
  shows "(h = HSend c \<longrightarrow> sendable c) \<and> (h = HConfirmSend c \<longrightarrow> c \<in> set (mp_confirms s))"
proof -
  have t: "h \<in> set (handlers_of (campaigns_tab local day s)) \<Longrightarrow> (h = HSend c \<longrightarrow> sendable c) \<and> h \<noteq> HConfirmSend c"
    by (auto simp: campaigns_tab_def table_handlers campaign_columns_def campaign_actions_def sendable_def when_ui_def
        split: option.splits if_splits)
  have n: "h \<in> set (handlers_of (create_drawer s)) \<Longrightarrow> h \<noteq> HSend c \<and> h \<noteq> HConfirmSend c"
    by (auto simp: create_drawer_def overlay_handlers handlers_of_map ui_handlers_El split: option.splits)
  have p: "h \<in> set (handlers_of (preview_modal s)) \<Longrightarrow> h \<noteq> HSend c \<and> h \<noteq> HConfirmSend c"
    by (auto simp: preview_modal_def overlay_handlers)
  have d: "h \<in> set (handlers_of (campaign_drawer local s)) \<Longrightarrow> (h = HSend c \<longrightarrow> sendable c) \<and> h \<noteq> HConfirmSend c"
    by (auto simp: campaign_drawer_def overlay_handlers sendable_def when_ui_def split: option.splits if_splits)
  have c: "h \<in> set (handlers_of (map send_confirm (mp_confirms s))) \<Longrightarrow> h \<noteq> HSend c \<and> (h = HConfirmSend c \<longrightarrow> c \<in> set (mp_confirms s))"
    by (auto simp: handlers_of_map send_confirm_def)
  from assms show ?thesis using t n p d c by (auto simp: marketing_view_def)
qed

lemma mp_run_confirms: "set (mp_confirms (fst (mp_run h s))) \<subseteq> set (mp_confirms s) \<union> {c. h = HSend c}"
proof (cases h)
  case (HConfirmSend c)
  then show ?thesis using set_remove1_subset [of c "mp_confirms s"] by auto
next
  case (HDismissSend c)
  then show ?thesis using set_remove1_subset [of c "mp_confirms s"] by (auto simp: idle_def)
qed (auto simp: loadCampaigns_def openCampaign_def createCampaign_def Let_def handlePreview_def handleTemplateSelect_def
    idle_def split: option.splits)

lemma mp_on_sends: "sends_ok s \<Longrightarrow> sends_ok (fst (mp_on v s))"
proof (cases v)
  case (MpAct h)
  assume s: "sends_ok s"
  show ?thesis
  proof (cases "h \<in> set (handlers_of (marketing_view id id s))")
    case True
    have "sendable c" if "c \<in> set (mp_confirms (fst (mp_run h s)))" for c
      using subsetD [OF mp_run_confirms that] send_buttons [OF True, of c] s by (auto simp: sends_ok_def)
    then show ?thesis using MpAct True by (simp add: sends_ok_def)
  qed (use s MpAct in \<open>simp add: idle_def\<close>)
qed (simp add: idle_def sends_ok_def)

lemma mp_resume_confirms [simp]: "mp_confirms (fst (mp_resume k r s)) = mp_confirms s"
  by (cases k; cases "(r, s)" rule: campaigns_loaded.cases; simp add: loadCampaigns_def idle_def)

lemma reachable_sends:
  assumes "areach marketing_component S w"
  shows "sends_ok (wst w)"
  using assms
proof (induction rule: areach.induct)
  case (start s)
  then show ?case by (simp add: mount_run loadCampaigns_def sends_ok_def fresh_marketing_def)
next
  case (step w w')
  from step.hyps(2) show ?case
  proof (cases rule: astep.cases)
    case (event v)
    then show ?thesis using mp_on_sends [OF step.IH, of v]
      by (cases "mp_on v (wst w)") (simp add: do_event_def commit_wst idle_def del: mp_on.simps)
  next
    case (reply i r)
    let ?k = "snd (pending w ! i)"
    show ?thesis using reply(1) step.IH mp_resume_confirms [of ?k r "wst w"]
      by (cases "mp_resume ?k r (wst w)") (simp add: do_reply_def commit_wst idle_def sends_ok_def del: mp_resume.simps mp_resume_confirms)
  next
    case (timer i)
    then show ?thesis using step.IH by (simp add: do_timer_def commit_wst idle_def)
  qed
qed

section \<open>Properties\<close>

text \<open>C39. The daily limit that is saved lies in its range: in every run a request to store a limit carries a
  number of mails between 50 and 250, or one that is no number, which both comparisons let through.\<close>

theorem daily_limit_in_range:
  assumes "areach budget_component S w" and "([UpdateMarketingSettings n], k) \<in> set (pending w)"
  shows "n = NaN \<or> (\<exists>x. n = Fin x \<and> 50 \<le> x \<and> x \<le> 250)"
  using budget.well_typed [OF assms] by (cases k) (auto simp: limit_ok_def)

text \<open>A fraction without digits before its point is such a number.\<close>

lemma fraction_passes:
  "parse_int ''.5'' = NaN" "snd (saveBudget (fst (bt_on (BtLimit ''.5'') s))) = [Await [UpdateMarketingSettings NaN] BudgetSaved]"
proof -
  show n: "parse_int ''.5'' = NaN" by (simp add: parse_int_def is_space_def sign_of_def is_digit_def)
  then show "snd (saveBudget (fst (bt_on (BtLimit ''.5'') s))) = [Await [UpdateMarketingSettings NaN] BudgetSaved]"
    by (simp add: idle_def saveBudget_def or_else_def)
qed

text \<open>The gallery offers exactly the tags there are: each tag of a template once, in order, and a tag
  that is chosen shows the templates that have it, in their order, and at least one.\<close>

lemma gallery_tags:
  "sorted (allTags ts) \<and> distinct (allTags ts)
   \<and> (\<forall>t \<in> set ts. \<forall>tag \<in> set (list_or_nil (mt_tags t)). tag \<in> set (allTags ts))
   \<and> (\<forall>tag \<in> set (allTags ts). tag \<noteq> [] \<longrightarrow> visible (Some tag) ts \<noteq> []
        \<and> visible (Some tag) ts = filter (\<lambda>t. tag \<in> set (list_or_nil (mt_tags t))) ts)"
proof -
  have "set (allTags ts) = (\<Union>t \<in> set ts. set (list_or_nil (mt_tags t)))" by (auto simp: allTags_def)
  then show ?thesis by (auto simp: allTags_def visible_def filter_empty_conv)
qed

text \<open>C38. A campaign is sent only on the user's word and only one that was a draft or paused: a request to
  send goes out only as a confirmation is accepted, and in every run each open confirmation is for a
  campaign that was so when it was opened.\<close>

theorem send_confirmed:
  assumes "areach marketing_component S w" and "astep marketing_component w w'"
    and "([SendCampaign u], k) \<in> set (pending w')" and "([SendCampaign u], k) \<notin> set (pending w)"
  shows "\<exists>c \<in> set (mp_confirms (wst w)). cp_uuid c = u \<and> (cp_status c = ''draft'' \<or> cp_status c = ''paused'')
    \<and> w' = do_event marketing_component (MpAct (HConfirmSend c)) w"
  using assms(2-4)
proof (cases rule: new_request)
  case (event v)
  show ?thesis
  proof (cases v)
    case (MpAct h)
    then have b: "h \<in> set (handlers_of (marketing_view id id (wst w)))" and r: "Await [SendCampaign u] k \<in> set (snd (mp_run h (wst w)))"
      using event(2) by (auto simp: idle_def split: if_splits)
    show ?thesis
    proof (cases "\<exists>c. h = HConfirmSend c")
      case True
      then obtain c where c: "h = HConfirmSend c" by blast
      then show ?thesis using b r event(1) MpAct send_buttons [OF b, of c] reachable_sends [OF assms(1)]
        by (auto simp: sends_ok_def sendable_def)
    next
      case False
      then show ?thesis using r by (cases h) (auto simp: loadCampaigns_def openCampaign_def createCampaign_def Let_def
            handlePreview_def handleTemplateSelect_def idle_def split: option.splits if_splits)
    qed
  qed (use event(2) in \<open>simp add: idle_def\<close>)
next
  case (reply i r)
  then show ?thesis
    by (cases "snd (pending w ! i)"; cases "(r, wst w)" rule: campaigns_loaded.cases) (auto simp: loadCampaigns_def idle_def split: if_splits)
qed (auto simp: idle_def)

text \<open>The drawer of a campaign keeps the record it was opened with: after the campaign was sent and the
  list was loaded again it still offers to send it.\<close>

lemma sent_campaign_offered_again:
  assumes "detailCampaign s = Some c" and "detailOpen s" and "cp_status c = ''draft''"
  shows "HSend c \<in> set (handlers_of (marketing_view local day
    (fst (mp_resume CampaignsLoaded a (fst (mp_resume CampaignSent (Resolved x) s))))))"
proof -
  let ?s = "fst (mp_resume CampaignsLoaded a (fst (mp_resume CampaignSent (Resolved x) s)))"
  have "detailCampaign ?s = Some c" "detailOpen ?s"
    using assms by (cases "(a, fst (mp_resume CampaignSent (Resolved x) s))" rule: campaigns_loaded.cases; simp add: loadCampaigns_def idle_def)+
  then have "HSend c \<in> set (handlers_of (campaign_drawer local ?s))"
    using assms(3) by (simp add: campaign_drawer_def overlay_handlers)
  then show ?thesis by (simp add: marketing_view_def)
qed

text \<open>The bar of a campaign stays within its frame.\<close>

lemma progress_bounded:
  assumes "0 < m" and "n \<le> m"
  shows "\<exists>p. percent_done n m = Fin p \<and> 0 \<le> p \<and> p \<le> 100"
proof (cases "n = 0")
  case False
  have "0 < (of_nat n :: rat) / of_nat m" "(of_nat n :: rat) / of_nat m \<le> of_int 1" using assms False by simp_all
  from fl_le [OF this] obtain v where v: "fl (of_nat n / of_nat m) = Fin v" "0 \<le> v" "v \<le> 1" by auto
  show ?thesis
  proof (cases "v = 0")
    case False
    then have "0 < v * 100" "v * 100 \<le> of_int 100" using v by simp_all
    from fl_le [OF this] obtain p where "fl (v * 100) = Fin p" "0 \<le> p" "p \<le> 100" by auto
    moreover from this have "\<lfloor>p + 1 / 2\<rfloor> \<le> 100" "0 \<le> \<lfloor>p + 1 / 2\<rfloor>" by linarith+
    ultimately show ?thesis using v assms by (simp add: percent_done_def)
  qed (use v assms in \<open>simp add: percent_done_def\<close>)
qed (use assms in \<open>simp add: percent_done_def\<close>)

section \<open>Witnesses\<close>

theorem daily_limit_in_range_witness:
  "([UpdateMarketingSettings (Fin 250)], BudgetSaved) \<in> set (pending (do_event budget_component BtSave (initial budget_component fresh_budget)))
   \<and> (\<exists>x. Fin 250 = Fin x \<and> 50 \<le> x \<and> x \<le> 250)"
proof -
  let ?w = "do_event budget_component BtSave (initial budget_component fresh_budget)"
  have m: "([UpdateMarketingSettings (Fin 250)], BudgetSaved) \<in> set (pending ?w)"
    by (simp add: event_run mount_run loadBudget_def fresh_budget_def saveBudget_def)
  have "areach budget_component (\<lambda>s. True) ?w" by (rule event_reach [OF areach.start]) simp
  from daily_limit_in_range [OF this m] m show ?thesis by simp
qed

lemma gallery_tags_example:
  "allTags [\<lparr>mt_id = [], mt_name = [], mt_description = [], mt_subject = [], mt_body_html = [], mt_tags = Some [''b'', ''a'']\<rparr>]
     = [''a'', ''b'']"
proof -
  let ?ts = "[\<lparr>mt_id = [], mt_name = [], mt_description = [], mt_subject = [], mt_body_html = [], mt_tags = Some [''b'', ''a'']\<rparr>]"
  have "sorted (allTags ?ts)" "distinct (allTags ?ts)" using gallery_tags [of ?ts] by blast+
  moreover have "set (allTags ?ts) = set [''a'', ''b'']" by (auto simp: allTags_def)
  moreover have "sorted [''a'', ''b'']" "distinct [''a'', ''b'']" by (simp_all add: less_char_def)
  ultimately show ?thesis using sorted_distinct_set_unique by blast
qed

theorem send_confirmed_witness:
  "\<exists>w c. c \<in> set (mp_confirms (wst w)) \<and> cp_status c = ''draft''
     \<and> ([SendCampaign ''u1''], CampaignSent) \<in> set (pending (do_event marketing_component (MpAct (HConfirmSend c)) w))"
proof -
  let ?c = marketing_component
  define c :: campaign where "c = \<lparr>cp_id = 1, cp_uuid = ''u1'', cp_name = [], cp_subject = [], cp_body_html = [], cp_template_id = None,
     cp_audience = ''all'', cp_status = ''draft'', total_recipients = 0, sent_count = 0, failed_count = 0, pending_count = 0,
     cp_created_at = [], cp_started_at = None, cp_completed_at = None\<rparr>"
  define q where "q = \<lparr>q_sent = 0, q_limit = 0, q_remaining = 0, q_reset_at = []\<rparr>"
  define w0 where "w0 = initial ?c fresh_marketing"
  define w1 where "w1 = do_reply ?c 0 (Resolved (MpLists (Some [c]) None [] q)) w0"
  define w2 where "w2 = do_event ?c (MpAct (HSend c)) w1"
  define w3 where "w3 = do_event ?c (MpAct (HConfirmSend c)) w2"
  have w0: "pending w0 = [([ListCampaigns None None, ListMarketingTemplates, GetMarketingQuota], CampaignsLoaded)]"
      "mp_confirms (wst w0) = []"
    by (simp_all add: w0_def mount_run loadCampaigns_def fresh_marketing_def)
  have w1: "pending w1 = []" "mp_campaigns (wst w1) = [c]" "mp_confirms (wst w1) = []"
    by (simp_all add: w1_def reply_run [OF w0(1)] idle_def w0)
  have b: "HSend c \<in> set (handlers_of (marketing_view id id (wst w1)))"
    by (simp add: marketing_view_def campaigns_tab_def table_handlers campaign_columns_def campaign_actions_def w1)
       (simp add: c_def)
  then have w2: "pending w2 = []" "mp_confirms (wst w2) = [c]" by (simp_all add: w2_def event_run w1 idle_def)
  have "HConfirmSend c \<in> set (handlers_of (marketing_view id id (wst w2)))"
    by (simp add: marketing_view_def handlers_of_map send_confirm_def w2)
  then have w3: "pending w3 = [([SendCampaign ''u1''], CampaignSent)]"
    by (simp add: w3_def event_run w2) (simp add: c_def)
  have "areach ?c (\<lambda>s. True) w0" unfolding w0_def by (rule areach.start) simp
  then have "areach ?c (\<lambda>s. True) w1" unfolding w1_def by (rule reply_reach [OF _ w0(1)]) simp
  then have r: "areach ?c (\<lambda>s. True) w2" unfolding w2_def by (rule event_reach)
  have t: "astep ?c w2 w3" unfolding w3_def by (rule astep.event)
  have m: "([SendCampaign ''u1''], CampaignSent) \<in> set (pending w3)" "([SendCampaign ''u1''], CampaignSent) \<notin> set (pending w2)"
    by (simp_all add: w2 w3)
  from send_confirmed [OF r t m] have "c \<in> set (mp_confirms (wst w2))" "cp_status c = ''draft''"
    by (auto simp: w2 c_def)
  with m(1) show ?thesis unfolding w3_def by blast
qed

end
