(* ===== verification/Admin_App.thy ===== *)
theory Admin_App
  imports Admin_Kit
begin

text \<open>
  The shell of the administration console (ui-dashboard/src/admin-app.tsx): who is signed in, the routes
  and what each shows, the menu, the title and the way out. The path of the browser is part of the state;
  a navigation changes it, and the login page navigates to the root with the order to load the user again.
  The markup of the layout is left out.
\<close>

section \<open>Menu and routes\<close>

(* src: ui-dashboard/src/admin-app.tsx 38-48 adminMenus *)
definition adminMenus :: "(string \<times> string) list" where
  "adminMenus =
     [(''/dashboard'', ''Admin Dashboard''), (''/merchants'', ''Merchants''), (''/users'', ''Users''), (''/plans'', ''Plans''),
      (''/email'', ''Email''), (''/payments'', ''Payments Support''), (''/contracts'', ''Contracts''),
      (''/contacts'', ''Contacts''), (''/marketing'', ''Marketing'')]"

datatype admin_screen =
    ALogin | ALoading | ARedirect string | ADashboard | AMerchants | AUsers | APlans | AEmail | APayments
  | AContracts | AContacts | AMarketing | ANotFound

(* src: ui-dashboard/src/admin-app.tsx 221-235 Route *)
definition admin_pages :: "(string \<times> admin_screen) list" where
  "admin_pages =
     [(''/'', ARedirect ''/dashboard''), (''/dashboard'', ADashboard), (''/merchants'', AMerchants), (''/users'', AUsers),
      (''/plans'', APlans), (''/email'', AEmail), (''/payments'', APayments), (''/contracts'', AContracts),
      (''/contacts'', AContacts), (''/marketing'', AMarketing)]"

section \<open>State\<close>

(* src: ui-dashboard/src/admin-app.tsx 56-63 AdminApp *)
record admin_app =
  aa_user :: "user option"
  aa_isLoading :: bool
  aa_path :: string

datatype aa_cont = CookieRead | MeRead | LoggedOut

datatype aa_answer = ACookie | AUser "user option" | AVoid

datatype aa_effect = LeaveTo string

text \<open>A rejection of a request: none of its details changes the state.\<close>

type_synonym aa_outcome = "(admin_app, auth_request, aa_cont, aa_effect) outcome"

type_synonym aa_reply = "(aa_answer, admin_error) reply"

(* src: ui-dashboard/src/admin-app.tsx 65-67 loadUserInfo *)
definition loadAdmin :: "admin_app \<Rightarrow> aa_outcome" where
  "loadAdmin s = (s, [Await AuthGetCookie CookieRead])"

(* src: ui-dashboard/src/admin-app.tsx 68-73 getMe *)
definition cookie_read :: "aa_reply \<Rightarrow> admin_app \<Rightarrow> aa_outcome" where
  "cookie_read a s = (s, [Await AuthGetMe MeRead])"

(* src: ui-dashboard/src/admin-app.tsx 73-88 setUser *)
fun me_read :: "aa_reply \<Rightarrow> admin_app \<Rightarrow> aa_outcome" where
  "me_read (Resolved (AUser (Some u))) s =
     (if \<not> isSuperAdmin u then (s, [Emit (LeaveTo ''/merchants/payments'')])
      else idle (s\<lparr>aa_user := Some u, aa_isLoading := False\<rparr>))"
| "me_read (Resolved a) s = idle (s\<lparr>aa_user := None, aa_isLoading := False\<rparr>)"
| "me_read (Rejected e) s = idle (s\<lparr>aa_isLoading := False\<rparr>)"

(* src: ui-dashboard/src/admin-app.tsx 95-102 realoadUserInfo *)
definition reloadAdmin :: "admin_app \<Rightarrow> aa_outcome" where
  "reloadAdmin s = loadAdmin (s\<lparr>aa_path := ''/'', aa_user := None, aa_isLoading := True\<rparr>)"

(* src: ui-dashboard/src/admin-app.tsx 109-113 logout *)
fun admin_logged_out :: "aa_reply \<Rightarrow> admin_app \<Rightarrow> aa_outcome" where
  "admin_logged_out (Resolved a) s = idle (s\<lparr>aa_user := None, aa_path := ''/login''\<rparr>)"
| "admin_logged_out (Rejected e) s = idle s"

(* src: ui-dashboard/src/admin-app.tsx 104-107 title *)
definition admin_title :: "string \<Rightarrow> string" where
  "admin_title path =
     (case map_of adminMenus path of Some n \<Rightarrow> if n = [] then ''Admin | CryptoLink'' else n @ '' | Admin | CryptoLink''
      | None \<Rightarrow> ''Admin | CryptoLink'')"

section \<open>What is shown\<close>

text \<open>The route of the login page: an administrator is sent on to the dashboard.\<close>

(* src: ui-dashboard/src/admin-app.tsx 140-144 login *)
definition login_route :: "admin_app \<Rightarrow> admin_screen" where
  "login_route s =
     (if (case aa_user s of None \<Rightarrow> False | Some u \<Rightarrow> isSuperAdmin u) \<and> \<not> aa_isLoading s then ARedirect ''/dashboard'' else ALogin)"

(* src: ui-dashboard/src/admin-app.tsx 213-236 Routes *)
definition admin_screen :: "admin_app \<Rightarrow> admin_screen" where
  "admin_screen s =
     (let admin = (case aa_user s of None \<Rightarrow> False | Some u \<Rightarrow> isSuperAdmin u)
      in if aa_path s = ''/login'' then login_route s
         else if aa_isLoading s then ALoading
         else if \<not> admin then ARedirect ''/login''
         else case map_of admin_pages (aa_path s) of None \<Rightarrow> ANotFound | Some p \<Rightarrow> p)"

datatype aa_event = AaMenu string | AaRedirect | AaMerchantPanel | AaLogout | AaSignedIn

text \<open>The menu and the user's menu are there on every path but that of the login page; the login page
  alone signs in; a redirect is followed.\<close>

(* src: ui-dashboard/src/admin-app.tsx 115-136 userMenu *)
fun aa_on :: "aa_event \<Rightarrow> admin_app \<Rightarrow> aa_outcome" where
  "aa_on (AaMenu p) s =
     (if aa_path s \<noteq> ''/login'' \<and> p \<in> fst ` set adminMenus then idle (s\<lparr>aa_path := p\<rparr>) else idle s)"
| "aa_on AaRedirect s = (case admin_screen s of ARedirect p \<Rightarrow> idle (s\<lparr>aa_path := p\<rparr>) | _ \<Rightarrow> idle s)"
| "aa_on AaMerchantPanel s =
     (if aa_path s \<noteq> ''/login'' then (s, [Emit (LeaveTo ''/merchants/payments'')]) else idle s)"
| "aa_on AaLogout s = (if aa_path s \<noteq> ''/login'' then (s, [Await AuthLogout LoggedOut]) else idle s)"
| "aa_on AaSignedIn s = (if admin_screen s = ALogin then reloadAdmin s else idle s)"

fun aa_resume :: "aa_cont \<Rightarrow> aa_reply \<Rightarrow> admin_app \<Rightarrow> aa_outcome" where
  "aa_resume CookieRead a s = cookie_read a s"
| "aa_resume MeRead a s = me_read a s"
| "aa_resume LoggedOut a s = admin_logged_out a s"

definition fresh_admin :: "string \<Rightarrow> admin_app" where
  "fresh_admin p = \<lparr>aa_user = None, aa_isLoading = True, aa_path = p\<rparr>"

(* src: ui-dashboard/src/admin-app.tsx 90-93 useMount *)
definition admin_mount :: "string \<Rightarrow> aa_outcome" where
  "admin_mount p = loadAdmin (fresh_admin p)"

definition admin_component where
  "admin_component = \<lparr>c_mount = (\<lambda>s. admin_mount (aa_path s)), c_event = aa_on, c_resume = aa_resume,
     c_timer = (\<lambda>k s. idle s), c_effect = (\<lambda>old s. idle s), c_fits = (\<lambda>(q :: auth_request) (r :: aa_reply). True)\<rparr>"

lemma admin_component_simps [simp]:
  "c_mount admin_component = (\<lambda>s. admin_mount (aa_path s))" "c_event admin_component = aa_on" "c_resume admin_component = aa_resume"
  "c_timer admin_component = (\<lambda>k s. idle s)" "c_effect admin_component = (\<lambda>old s. idle s)"
  "c_fits admin_component = (\<lambda>q r. True)"
  by (simp_all add: admin_component_def)

section \<open>Lemmas\<close>

text \<open>Only an administrator ever becomes the user of the console.\<close>

definition admin_only :: "admin_app \<Rightarrow> bool" where
  "admin_only s \<longleftrightarrow> (\<forall>u. aa_user s = Some u \<longrightarrow> isSuperAdmin u)"

lemma ok_state: "ok_outcome I (\<lambda>q k. True) (\<lambda>k. True) (\<lambda>e. True) oc \<longleftrightarrow> I (fst oc)"
  by (auto simp: ok_outcome_def ok_cmd_def split: cmd.splits)

interpretation console: safe_component admin_component admin_only "\<lambda>q k. True" "\<lambda>k. True" "\<lambda>e. True"
proof unfold_locales
  fix s :: admin_app and v :: aa_event and k :: aa_cont and q :: auth_request and r :: aa_reply
  show "ok_outcome admin_only (\<lambda>q k. True) (\<lambda>k. True) (\<lambda>e. True) (c_mount admin_component s)"
    by (simp add: ok_state admin_only_def admin_mount_def loadAdmin_def fresh_admin_def)
  assume "admin_only s"
  then show "ok_outcome admin_only (\<lambda>q k. True) (\<lambda>k. True) (\<lambda>e. True) (c_event admin_component v s)"
    by (cases v) (auto simp: ok_state admin_only_def idle_def reloadAdmin_def loadAdmin_def split: admin_screen.splits)
  show "ok_outcome admin_only (\<lambda>q k. True) (\<lambda>k. True) (\<lambda>e. True) (c_resume admin_component k r s)"
    using \<open>admin_only s\<close>
    by (cases k; cases "(r, s)" rule: me_read.cases) (auto simp: ok_state admin_only_def idle_def cookie_read_def)
qed (simp_all add: ok_state idle_def)

section \<open>Properties\<close>

text \<open>C31. The console shows its pages to administrators only: in every run, on every path, a screen that is
  neither the login page, nor the spinner, nor a redirect to the login page is shown only while the user
  that the server named is an administrator; and no other user is ever kept, so that the second redirect
  of the routes is never taken.\<close>

theorem console_for_administrators:
  assumes "areach admin_component admin_only w"
  shows "(admin_screen (wst w) \<notin> {ALogin, ALoading, ARedirect ''/login''} \<longrightarrow>
      (\<exists>u. aa_user (wst w) = Some u \<and> isSuperAdmin u) \<and> \<not> aa_isLoading (wst w))
    \<and> (\<forall>u. aa_user (wst w) = Some u \<longrightarrow> isSuperAdmin u)"
proof -
  have "admin_only (wst w)" using console.reachable_ok [OF assms] by (simp add: ok_world_def)
  then show ?thesis by (auto simp: admin_only_def admin_screen_def login_route_def Let_def split: option.splits if_splits)
qed

text \<open>Every entry of the menu leads to a page and has a title of its own.\<close>

lemma menu_complete:
  "\<forall>(p, n) \<in> set adminMenus. (\<exists>pg. map_of admin_pages p = Some pg \<and> (\<forall>t. pg \<noteq> ARedirect t))
     \<and> admin_title p = n @ '' | Admin | CryptoLink''"
  by (simp add: adminMenus_def admin_pages_def admin_title_def)

text \<open>A merchant who opens the console is sent away, and the spinner stays meanwhile.\<close>

lemma merchant_sent_away:
  "\<not> isSuperAdmin u \<Longrightarrow> aa_resume MeRead (Resolved (AUser (Some u))) s = (s, [Emit (LeaveTo ''/merchants/payments'')])"
  by simp

definition sample_admin :: user where
  "sample_admin = \<lparr>u_email = ''a@b.c'', u_name = [], profileImageUrl = [], u_uuid = [], isSuperAdmin = True, u_companyName = None,
     u_address = None, u_website = None, u_phone = None, emailVerified = None, u_marketingConsent = None\<rparr>"

theorem console_for_administrators_witness:
  "\<exists>w. areach admin_component admin_only w \<and> admin_screen (wst w) = AUsers \<and> (\<exists>u. aa_user (wst w) = Some u \<and> isSuperAdmin u)"
proof -
  let ?c = admin_component
  define w0 where "w0 = initial ?c (fresh_admin ''/users'')"
  define w1 where "w1 = do_reply ?c 0 (Resolved ACookie) w0"
  define w2 where "w2 = do_reply ?c 0 (Resolved (AUser (Some sample_admin))) w1"
  have a: "isSuperAdmin sample_admin" by (simp add: sample_admin_def)
  have w0: "pending w0 = [(AuthGetCookie, CookieRead)]" "wst w0 = fresh_admin ''/users''"
    by (simp_all add: w0_def mount_run admin_mount_def loadAdmin_def fresh_admin_def)
  have w1: "pending w1 = [(AuthGetMe, MeRead)]" "wst w1 = fresh_admin ''/users''"
    by (simp_all add: w1_def reply_run [OF w0(1)] w0(2) cookie_read_def)
  have w2: "wst w2 = (fresh_admin ''/users'')\<lparr>aa_user := Some sample_admin, aa_isLoading := False\<rparr>"
    by (simp add: w2_def reply_run [OF w1(1)] w1(2) a idle_def)
  have p: "admin_screen (wst w2) = AUsers"
    using a by (simp add: w2 admin_screen_def login_route_def fresh_admin_def admin_pages_def)
  have "areach ?c admin_only w0" unfolding w0_def by (rule areach.start) (simp add: admin_only_def fresh_admin_def)
  then have "areach ?c admin_only w1" unfolding w1_def by (rule reply_reach [OF _ w0(1)]) simp
  then have r: "areach ?c admin_only w2" unfolding w2_def by (rule reply_reach [OF _ w1(1)]) simp
  from console_for_administrators [OF r] p have "\<exists>u. aa_user (wst w2) = Some u \<and> isSuperAdmin u" by simp
  with r p show ?thesis by blast
qed

end
