(* ===== verification/Link_Input.thy ===== *)
theory Link_Input
  imports Admin_Kit
begin

text \<open>
  The input for links (ui-dashboard/src/components/link-input/link-input.tsx), which the forms of the
  dashboard share: its pattern as a regular expression with a matcher by derivatives, and what it accepts.
\<close>

section \<open>Regular expressions\<close>

datatype rexp = RZero | ROne | RAtom "char \<Rightarrow> bool" | RAlt rexp rexp | RSeq rexp rexp | RStar rexp

text \<open>The texts that an expression matches as a whole.\<close>

inductive matches :: "rexp \<Rightarrow> string \<Rightarrow> bool" where
  one: "matches ROne []"
| atom: "p c \<Longrightarrow> matches (RAtom p) [c]"
| left: "matches r s \<Longrightarrow> matches (RAlt r t) s"
| right: "matches t s \<Longrightarrow> matches (RAlt r t) s"
| seq: "matches r s \<Longrightarrow> matches t u \<Longrightarrow> matches (RSeq r t) (s @ u)"
| nil: "matches (RStar r) []"
| star: "matches r (c # s) \<Longrightarrow> matches (RStar r) u \<Longrightarrow> matches (RStar r) (c # s @ u)"

inductive_simps matches_simps [simp]:
  "matches RZero s" "matches ROne s" "matches (RAtom p) s" "matches (RAlt r t) s" "matches (RStar r) []"

inductive_simps matches_seq: "matches (RSeq r t) s"

inductive_simps matches_star: "matches (RStar r) (c # s)"

text \<open>The matcher: \<open>deriv c r\<close> matches what may follow the letter \<open>c\<close>.\<close>

fun nullable :: "rexp \<Rightarrow> bool" where
  "nullable RZero = False"
| "nullable ROne = True"
| "nullable (RAtom p) = False"
| "nullable (RAlt r t) = (nullable r \<or> nullable t)"
| "nullable (RSeq r t) = (nullable r \<and> nullable t)"
| "nullable (RStar r) = True"

fun deriv :: "char \<Rightarrow> rexp \<Rightarrow> rexp" where
  "deriv c RZero = RZero"
| "deriv c ROne = RZero"
| "deriv c (RAtom p) = (if p c then ROne else RZero)"
| "deriv c (RAlt r t) = RAlt (deriv c r) (deriv c t)"
| "deriv c (RSeq r t) = (if nullable r then RAlt (RSeq (deriv c r) t) (deriv c t) else RSeq (deriv c r) t)"
| "deriv c (RStar r) = RSeq (deriv c r) (RStar r)"

definition rx_test :: "rexp \<Rightarrow> string \<Rightarrow> bool" where
  "rx_test r s = nullable (fold deriv s r)"

lemma nullable_matches: "nullable r \<longleftrightarrow> matches r []"
  by (induction r) (auto simp: matches_seq)

lemma deriv_matches: "matches (deriv c r) s \<longleftrightarrow> matches r (c # s)"
proof (induction r arbitrary: s)
  case (RSeq r t)
  show ?case
    by (auto simp: matches_seq RSeq nullable_matches Cons_eq_append_conv)
qed (auto simp: matches_seq matches_star)

lemma rx_test_matches: "rx_test r s \<longleftrightarrow> matches r s"
  unfolding rx_test_def by (induction s arbitrary: r) (simp_all add: nullable_matches deriv_matches)

text \<open>Letters of either case (the flag \<open>i\<close>), and abbreviations of the notation.\<close>

definition is_letter :: "char \<Rightarrow> bool" where
  "is_letter c \<longleftrightarrow> (let n = of_char c :: nat in 65 \<le> n \<and> n \<le> 90 \<or> 97 \<le> n \<and> n \<le> 122)"

definition is_alnum :: "char \<Rightarrow> bool" where
  "is_alnum c \<longleftrightarrow> is_letter c \<or> is_digit c"

definition same_letter :: "char \<Rightarrow> char \<Rightarrow> bool" where
  "same_letter c x \<longleftrightarrow> x = c \<or> is_letter c \<and> is_letter x \<and> (of_char x + 32 = (of_char c :: nat) \<or> of_char c + 32 = (of_char x :: nat))"

fun rlit :: "string \<Rightarrow> rexp" where
  "rlit [] = ROne"
| "rlit (c # s) = RSeq (RAtom (same_letter c)) (rlit s)"

definition ropt :: "rexp \<Rightarrow> rexp" where
  "ropt r = RAlt ROne r"

definition rplus :: "rexp \<Rightarrow> rexp" where
  "rplus r = RSeq r (RStar r)"

definition rtimes :: "nat \<Rightarrow> rexp \<Rightarrow> rexp" where
  "rtimes n r = (RSeq r ^^ n) ROne"

definition up_to_three :: "rexp \<Rightarrow> rexp" where
  "up_to_three r = RSeq r (ropt (RSeq r (ropt r)))"

section \<open>The pattern\<close>

abbreviation "any_of cs \<equiv> (\<lambda>c. is_alnum c \<or> c \<in> set cs)"

definition rx_scheme :: rexp where
  "rx_scheme = RSeq (rlit ''http'') (RSeq (ropt (rlit ''s'')) (rlit ''://''))"

definition rx_label :: rexp where
  "rx_label = RSeq (RAtom is_alnum) (RStar (RSeq (RStar (RAtom (any_of ''-''))) (RAtom is_alnum)))"

definition rx_domain :: rexp where
  "rx_domain = RSeq (rplus (RSeq rx_label (rlit ''.''))) (RSeq (RAtom is_letter) (rplus (RAtom is_letter)))"

definition rx_group :: rexp where
  "rx_group = RSeq (up_to_three (RAtom is_digit)) (rlit ''.'')"

definition rx_ip :: rexp where
  "rx_ip = RSeq (rtimes 3 rx_group) (up_to_three (RAtom is_digit))"

definition rx_port :: rexp where
  "rx_port = RSeq (rlit '':'') (rplus (RAtom is_digit))"

definition rx_path :: rexp where
  "rx_path = RStar (RSeq (rlit ''/'') (RStar (RAtom (any_of ''-%_.~+''))))"

definition rx_query :: rexp where
  "rx_query = RSeq (rlit ''?'') (RStar (RAtom (any_of '';&%_.~+=-'')))"

definition rx_fragment :: rexp where
  "rx_fragment = RSeq (rlit ''#'') (RStar (RAtom (any_of ''-_'')))"

(* src: ui-dashboard/src/components/link-input/link-input.tsx 11-14 urlPattern *)
definition urlPattern :: rexp where
  "urlPattern =
     RSeq (ropt rx_scheme) (RSeq (RAlt rx_domain rx_ip) (RSeq (ropt rx_port) (RSeq rx_path (RSeq (ropt rx_query) (ropt rx_fragment)))))"

(* src: ui-dashboard/src/components/link-input/link-input.tsx 16-16 linkPrefix *)
definition linkPrefix :: string where
  "linkPrefix = ''https://''"

(* src: ui-dashboard/src/components/link-input/link-input.tsx 19-29 validateLink *)
definition validateLink :: "bool \<Rightarrow> string option \<Rightarrow> bool" where
  "validateLink needed v \<longleftrightarrow> \<not> truthy v \<and> \<not> needed \<or> rx_test urlPattern (linkPrefix @ template v)"

(* src: ui-dashboard/src/components/link-input/link-input.tsx 31-60 Form.Item *)
definition LinkInput :: "string \<Rightarrow> string \<Rightarrow> string \<Rightarrow> bool \<Rightarrow> 'h ui" where
  "LinkInput placeholder label name needed =
     El ''Form.Item'' [(''label'', label), (''name'', name), (''message'', ''Incorrect url value''), (''required'', bool_attr needed)] []
       [El ''Input'' [(''placeholder'', placeholder)] [] [leaf ''Select'' linkPrefix]]"

lemma LinkInput_handlers [simp]: "ui_handlers (LinkInput p l n r) = []"
  by (simp add: LinkInput_def)

section \<open>What it means\<close>

text \<open>The structure of a link, in words: a name of a host is a list of labels, each of letters, digits and
  dashes with no dash at either end, before the letters of a top-level domain; an address is four groups of
  one to three digits; port, path, query and fragment may be missing.\<close>

definition label_ok :: "string \<Rightarrow> bool" where
  "label_ok l \<longleftrightarrow> l \<noteq> [] \<and> is_alnum (hd l) \<and> is_alnum (last l) \<and> list_all (any_of ''-'') l"

definition domain_ok :: "string \<Rightarrow> bool" where
  "domain_ok h \<longleftrightarrow> (\<exists>ls tld. ls \<noteq> [] \<and> list_all label_ok ls \<and> list_all is_letter tld \<and> 2 \<le> length tld
     \<and> h = concat (map (\<lambda>l. l @ ''.'') ls) @ tld)"

definition group_ok :: "string \<Rightarrow> bool" where
  "group_ok g \<longleftrightarrow> list_all is_digit g \<and> 1 \<le> length g \<and> length g \<le> 3"

definition ip_ok :: "string \<Rightarrow> bool" where
  "ip_ok h \<longleftrightarrow> (\<exists>a b c d. list_all group_ok [a, b, c, d] \<and> h = a @ ''.'' @ b @ ''.'' @ c @ ''.'' @ d)"

definition port_ok :: "string \<Rightarrow> bool" where
  "port_ok p \<longleftrightarrow> p = [] \<or> (\<exists>ds. p = CHR '':'' # ds \<and> ds \<noteq> [] \<and> list_all is_digit ds)"

definition path_ok :: "string \<Rightarrow> bool" where
  "path_ok p \<longleftrightarrow> p = [] \<or> hd p = CHR ''/'' \<and> list_all (any_of ''/-%_.~+'') p"

definition query_ok :: "string \<Rightarrow> bool" where
  "query_ok q \<longleftrightarrow> q = [] \<or> (\<exists>r. q = CHR ''?'' # r \<and> list_all (any_of '';&%_.~+=-'') r)"

definition fragment_ok :: "string \<Rightarrow> bool" where
  "fragment_ok f \<longleftrightarrow> f = [] \<or> (\<exists>r. f = CHR ''#'' # r \<and> list_all (any_of ''-_'') r)"

definition scheme_ok :: "string \<Rightarrow> bool" where
  "scheme_ok s \<longleftrightarrow> s = [] \<or> list_all2 same_letter ''http://'' s \<or> list_all2 same_letter ''https://'' s"

definition link_ok :: "string \<Rightarrow> bool" where
  "link_ok u \<longleftrightarrow> (\<exists>scheme host port path query fragment. u = scheme @ host @ port @ path @ query @ fragment
     \<and> scheme_ok scheme \<and> (domain_ok host \<or> ip_ok host) \<and> port_ok port \<and> path_ok path \<and> query_ok query \<and> fragment_ok fragment)"

section \<open>Lemmas\<close>

lemma matches_Seq: "matches (RSeq r t) s \<longleftrightarrow> (\<exists>u v. s = u @ v \<and> matches r u \<and> matches t v)"
  by (auto simp: matches_seq)

lemma matches_seq_atom: "matches (RSeq (RAtom p) t) s \<longleftrightarrow> (\<exists>c u. s = c # u \<and> p c \<and> matches t u)"
proof
  show "\<exists>c u. s = c # u \<and> p c \<and> matches t u \<Longrightarrow> matches (RSeq (RAtom p) t) s"
    using matches.seq [OF matches.atom] by force
qed (auto simp: matches_Seq)

lemma matches_opt [simp]: "matches (ropt r) s \<longleftrightarrow> s = [] \<or> matches r s"
  by (simp add: ropt_def)

lemma matches_lit: "matches (rlit w) s \<longleftrightarrow> list_all2 same_letter w s"
  by (induction w arbitrary: s) (auto simp: matches_seq_atom list_all2_Cons1)

lemma matches_Star: "matches (RStar r) s \<longleftrightarrow> (\<exists>ss. list_all (matches r) ss \<and> s = concat ss)"
proof
  show "matches (RStar r) s \<Longrightarrow> \<exists>ss. list_all (matches r) ss \<and> s = concat ss"
  proof (induction s rule: length_induct)
    case (1 s)
    show ?case
    proof (cases s)
      case Nil
      then show ?thesis by (intro exI [of _ "[]"]) simp
    next
      case (Cons c t)
      with 1(2) obtain a b where ab: "t = a @ b" "matches r (c # a)" "matches (RStar r) b" by (auto simp: matches_star)
      moreover have "length b < length s" using ab(1) Cons by simp
      ultimately obtain ss where "list_all (matches r) ss" "b = concat ss" using 1(1) by blast
      then show ?thesis using ab Cons by (intro exI [of _ "(c # a) # ss"]) simp
    qed
  qed
  show "\<exists>ss. list_all (matches r) ss \<and> s = concat ss \<Longrightarrow> matches (RStar r) s"
  proof (elim exE conjE)
    fix ss assume "list_all (matches r) ss" "s = concat ss"
    then show "matches (RStar r) s"
    proof (induction ss arbitrary: s)
      case (Cons x ss)
      then show ?case by (cases x) (auto simp: matches_star)
    qed simp
  qed
qed

lemma matches_star_atom: "matches (RStar (RAtom p)) s \<longleftrightarrow> list_all p s"
  by (induction s) (auto simp: matches_star)

lemma matches_plus: "matches (rplus r) s \<longleftrightarrow> (\<exists>ss. ss \<noteq> [] \<and> list_all (matches r) ss \<and> s = concat ss)"
proof
  assume "matches (rplus r) s"
  then obtain u ss where "s = u @ concat ss" "matches r u" "list_all (matches r) ss"
    by (auto simp: rplus_def matches_Seq matches_Star)
  then show "\<exists>ss. ss \<noteq> [] \<and> list_all (matches r) ss \<and> s = concat ss" by (intro exI [of _ "u # ss"]) simp
next
  assume "\<exists>ss. ss \<noteq> [] \<and> list_all (matches r) ss \<and> s = concat ss"
  then obtain u ss where "s = u @ concat ss" "matches r u" "list_all (matches r) ss"
    by (metis concat.simps(2) list.exhaust list.pred_inject(2))
  then show "matches (rplus r) s" by (auto simp: rplus_def matches_Seq matches_Star)
qed

lemma matches_plus_atom: "matches (rplus (RAtom p)) s \<longleftrightarrow> s \<noteq> [] \<and> list_all p s"
  by (cases s) (auto simp: rplus_def matches_seq_atom matches_star_atom)

lemma same_symbol: "\<not> is_letter c \<Longrightarrow> same_letter c x \<longleftrightarrow> x = c"
  by (auto simp: same_letter_def)

lemma matches_symbol:
  "matches (rlit ''.'') s \<longleftrightarrow> s = ''.''" "matches (rlit '':'') s \<longleftrightarrow> s = '':''" "matches (rlit ''/'') s \<longleftrightarrow> s = ''/''"
  "matches (rlit ''?'') s \<longleftrightarrow> s = ''?''" "matches (rlit ''#'') s \<longleftrightarrow> s = ''#''"
  by (auto simp: matches_lit list_all2_Cons1 same_symbol is_letter_def simp del: rlit.simps)

lemma matches_run:
  "matches (RSeq (RStar (RAtom p)) (RAtom q)) = (\<lambda>x. \<exists>u d. x = u @ [d] \<and> list_all p u \<and> q d)"
  by (intro ext) (auto simp: matches_Seq matches_star_atom)

lemma matches_assoc: "matches (RSeq (RSeq a b) t) s \<longleftrightarrow> matches (RSeq a (RSeq b t)) s"
  unfolding matches_Seq by (metis append.assoc)

lemma matches_one_seq: "matches (RSeq ROne t) s \<longleftrightarrow> matches t s"
  by (simp add: matches_Seq)

lemma matches_opt_seq: "matches (RSeq (ropt r) t) s \<longleftrightarrow> matches t s \<or> matches (RSeq r t) s"
  unfolding matches_Seq matches_opt by (metis append_Nil)

lemma matches_lit_append: "matches (RSeq (rlit a) (rlit b)) u \<longleftrightarrow> matches (rlit (a @ b)) u"
  unfolding matches_Seq matches_lit list_all2_append1 by (metis list_all2_lengthD)

text \<open>A label: nested repetitions for what is a condition on its ends and its letters.\<close>

lemma matches_label: "matches rx_label s \<longleftrightarrow> label_ok s"
proof
  assume "matches rx_label s"
  then obtain c ss where s: "s = c # concat ss" "is_alnum c"
    and ss: "list_all (\<lambda>x. \<exists>u d. x = u @ [d] \<and> list_all (any_of ''-'') u \<and> is_alnum d) ss"
    unfolding rx_label_def matches_seq_atom matches_Star matches_run by blast
  have "list_all (any_of ''-'') (concat ss) \<and> (concat ss = [] \<or> is_alnum (last (concat ss)))"
    using ss by (induction ss) (auto simp: list_all_iff last_append split: if_splits)
  then show "label_ok s" using s by (auto simp: label_ok_def)
next
  assume l: "label_ok s"
  then obtain c t where s: "s = c # t" by (cases s) (auto simp: label_ok_def)
  have "matches (RStar (RSeq (RStar (RAtom (any_of ''-''))) (RAtom is_alnum))) t"
  proof (cases t rule: rev_cases)
    case (snoc u d)
    then have "matches (RSeq (RStar (RAtom (any_of ''-''))) (RAtom is_alnum)) t"
      using l s by (auto simp: label_ok_def matches_Seq matches_star_atom)
    then show ?thesis unfolding matches_Star by (intro exI [of _ "[t]"]) simp
  qed simp
  then show "matches rx_label s" using l s by (auto simp: rx_label_def matches_seq_atom label_ok_def)
qed

lemma dotted_labels:
  "(\<exists>ss. ss \<noteq> [] \<and> list_all (\<lambda>x. \<exists>l. label_ok l \<and> x = l @ ''.'') ss \<and> s = concat ss)
   \<longleftrightarrow> (\<exists>ls. ls \<noteq> [] \<and> list_all label_ok ls \<and> s = concat (map (\<lambda>l. l @ ''.'') ls))" (is "?a \<longleftrightarrow> ?b")
proof
  assume ?a
  then obtain ss where ss: "ss \<noteq> []" "list_all (\<lambda>x. \<exists>l. label_ok l \<and> x = l @ ''.'') ss" "s = concat ss" by blast
  from ss(2) have "\<exists>ls. list_all label_ok ls \<and> ss = map (\<lambda>l. l @ ''.'') ls"
  proof (induction ss)
    case (Cons x ss)
    then obtain l ls where "label_ok l" "x = l @ ''.''" "list_all label_ok ls" "ss = map (\<lambda>l. l @ ''.'') ls" by auto
    then show ?case by (intro exI [of _ "l # ls"]) simp
  qed simp
  then show ?b using ss(1,3) by auto
next
  assume ?b
  then obtain ls where "ls \<noteq> []" "list_all label_ok ls" "s = concat (map (\<lambda>l. l @ ''.'') ls)" by blast
  then show ?a by (intro exI [of _ "map (\<lambda>l. l @ ''.'') ls"]) (auto simp: list_all_iff)
qed

lemma two_letters: "matches (RSeq (RAtom p) (rplus (RAtom p))) s \<longleftrightarrow> list_all p s \<and> 2 \<le> length s"
  by (cases s; cases "tl s") (auto simp: matches_seq_atom matches_plus_atom)

lemma matches_domain: "matches rx_domain s \<longleftrightarrow> domain_ok s"
proof -
  have d: "matches (RSeq rx_label (rlit ''.'')) = (\<lambda>x. \<exists>l. label_ok l \<and> x = l @ ''.'')"
    unfolding fun_eq_iff matches_Seq matches_label matches_symbol by blast
  have "matches (rplus (RSeq rx_label (rlit ''.''))) u \<longleftrightarrow>
      (\<exists>ls. ls \<noteq> [] \<and> list_all label_ok ls \<and> u = concat (map (\<lambda>l. l @ ''.'') ls))" for u
    unfolding matches_plus dotted_labels [symmetric]
    by (simp only: d)
  then show ?thesis unfolding rx_domain_def matches_Seq [of "rplus _"] two_letters domain_ok_def by blast
qed

lemma matches_group: "matches (up_to_three (RAtom is_digit)) s \<longleftrightarrow> group_ok s"
  by (cases s; cases "tl s"; cases "tl (tl s)")
    (auto simp: up_to_three_def matches_seq_atom group_ok_def)

lemma matches_ip: "matches rx_ip s \<longleftrightarrow> ip_ok s"
proof -
  have q: "matches rx_group = (\<lambda>x. \<exists>y. group_ok y \<and> x = y @ ''.'')"
    unfolding rx_group_def fun_eq_iff matches_Seq matches_group matches_symbol by blast
  have g: "matches (RSeq rx_group t) u \<longleftrightarrow> (\<exists>x v. group_ok x \<and> u = x @ ''.'' @ v \<and> matches t v)" for t u
    unfolding matches_Seq [of rx_group] q by (metis append.assoc)
  have "rtimes 3 rx_group = RSeq rx_group (RSeq rx_group (RSeq rx_group ROne))" by (simp add: rtimes_def numeral_3_eq_3)
  then have m: "matches rx_ip s \<longleftrightarrow> (\<exists>a r. group_ok a \<and> s = a @ ''.'' @ r \<and> (\<exists>b t. group_ok b \<and> r = b @ ''.'' @ t
      \<and> (\<exists>c d. group_ok c \<and> t = c @ ''.'' @ d \<and> group_ok d)))"
    by (simp only: rx_ip_def matches_assoc matches_one_seq g matches_group)
  show ?thesis
  proof
    show "matches rx_ip s \<Longrightarrow> ip_ok s" unfolding m ip_ok_def by auto
    assume "ip_ok s"
    then obtain a b c d where "s = a @ ''.'' @ b @ ''.'' @ c @ ''.'' @ d" "group_ok a" "group_ok b" "group_ok c" "group_ok d"
      unfolding ip_ok_def by auto
    then show "matches rx_ip s" unfolding m by blast
  qed
qed

lemma matches_segment: "matches (RSeq (rlit ''/'') (RStar (RAtom p))) = (\<lambda>x. \<exists>u. x = CHR ''/'' # u \<and> list_all p u)"
  unfolding fun_eq_iff matches_Seq matches_symbol matches_star_atom by auto

lemma segments:
  "list_all (\<lambda>x. \<exists>u. x = c # u \<and> list_all p u) ss \<Longrightarrow>
     list_all (\<lambda>x. x = c \<or> p x) (concat ss) \<and> (concat ss = [] \<or> hd (concat ss) = c)"
  by (induction ss) (auto simp: list_all_iff)

lemma path_letters: "list_all (any_of ''/-%_.~+'') = list_all (\<lambda>c. c = CHR ''/'' \<or> any_of ''-%_.~+'' c)"
  by (intro arg_cong [of _ _ list_all] ext) auto

lemma matches_path: "matches rx_path s \<longleftrightarrow> path_ok s"
proof
  assume "matches rx_path s"
  then obtain ss where s: "s = concat ss" and ss: "list_all (\<lambda>x. \<exists>u. x = CHR ''/'' # u \<and> list_all (any_of ''-%_.~+'') u) ss"
    unfolding rx_path_def matches_Star matches_segment by blast
  show "path_ok s" using segments [OF ss] unfolding s path_ok_def path_letters by blast
next
  assume "path_ok s"
  then show "matches rx_path s"
  proof (induction s rule: length_induct)
    case (1 s)
    show ?case
    proof (cases s)
      case (Cons c t)
      let ?p = "any_of ''-%_.~+''"
      have c: "c = CHR ''/''" and t: "list_all (any_of ''/-%_.~+'') t" using 1(2) Cons by (simp_all add: path_ok_def)
      define u v where "u = takeWhile ?p t" and "v = dropWhile ?p t"
      have tuv: "t = u @ v" by (simp only: u_def v_def takeWhile_dropWhile_id)
      have v: "list_all (any_of ''/-%_.~+'') v" using t unfolding tuv by (simp only: list_all_append)
      have "path_ok v"
      proof (cases v)
        case (Cons w ws)
        have "\<not> ?p (hd v)" unfolding v_def by (rule hd_dropWhile) (simp only: v_def [symmetric] Cons list.distinct not_False_eq_True)
        then have "\<not> ?p w" unfolding Cons list.sel .
        moreover have "w = CHR ''/'' \<or> ?p w" using v unfolding Cons path_letters by simp
        ultimately show ?thesis using v Cons unfolding path_ok_def by (simp only: list.sel) blast
      qed (simp add: path_ok_def)
      moreover have "length v < length s" using Cons tuv by simp
      ultimately have "matches rx_path v" using 1(1) by blast
      moreover have "matches (RSeq (rlit ''/'') (RStar (RAtom ?p))) (c # u)"
        unfolding matches_segment c using set_takeWhileD [of _ ?p t] unfolding u_def list_all_iff by blast
      ultimately show ?thesis unfolding rx_path_def Cons tuv matches_star by blast
    qed (simp add: rx_path_def)
  qed
qed

lemma matches_rest:
  "matches (ropt rx_port) s \<longleftrightarrow> port_ok s" "matches (ropt rx_query) s \<longleftrightarrow> query_ok s"
  "matches (ropt rx_fragment) s \<longleftrightarrow> fragment_ok s"
  unfolding matches_opt rx_port_def rx_query_def rx_fragment_def matches_Seq matches_symbol matches_plus_atom matches_star_atom
    port_ok_def query_ok_def fragment_ok_def
  by auto

lemma matches_scheme: "matches (ropt rx_scheme) s \<longleftrightarrow> scheme_ok s"
proof -
  have "matches rx_scheme s \<longleftrightarrow> (\<exists>u v. s = u @ v \<and> matches (rlit ''http'') u \<and> (matches (rlit ''://'') v \<or> matches (rlit (''s'' @ ''://'')) v))"
    unfolding rx_scheme_def matches_Seq [of "rlit ''http''"] matches_opt_seq matches_lit_append ..
  also have "\<dots> \<longleftrightarrow> matches (RSeq (rlit ''http'') (rlit ''://'')) s \<or> matches (RSeq (rlit ''http'') (rlit (''s'' @ ''://''))) s"
    unfolding matches_Seq [of "rlit ''http''"] by blast
  finally show ?thesis unfolding matches_opt matches_lit_append scheme_ok_def by (simp add: matches_lit del: rlit.simps)
qed

text \<open>The pattern says what it means: a text passes it exactly when it is an optional scheme, a name of a
  host or an address of four numbers, and an optional port, path, query and fragment, each in its letters.\<close>

lemma pattern_is_link: "rx_test urlPattern u \<longleftrightarrow> link_ok u"
proof -
  have m: "rx_test urlPattern u \<longleftrightarrow> (\<exists>s r. u = s @ r \<and> scheme_ok s \<and> (\<exists>h r'. r = h @ r' \<and> (domain_ok h \<or> ip_ok h)
     \<and> (\<exists>p r''. r' = p @ r'' \<and> port_ok p \<and> (\<exists>a b. r'' = a @ b \<and> path_ok a \<and> (\<exists>q f. b = q @ f \<and> query_ok q \<and> fragment_ok f)))))"
    unfolding rx_test_matches urlPattern_def matches_Seq [of "ropt rx_scheme"] matches_Seq [of "RAlt _ _"]
      matches_Seq [of "ropt rx_port"] matches_Seq [of rx_path] matches_Seq [of "ropt rx_query"]
      matches_simps(4) matches_domain matches_ip matches_path matches_rest matches_scheme ..
  show ?thesis
  proof
    assume "rx_test urlPattern u"
    then obtain s h p a q f where "u = s @ h @ p @ a @ q @ f" "scheme_ok s" "domain_ok h \<or> ip_ok h" "port_ok p" "path_ok a"
        "query_ok q" "fragment_ok f" unfolding m by blast
    then show "link_ok u" unfolding link_ok_def
      by - (rule exI [of _ s], rule exI [of _ h], rule exI [of _ p], rule exI [of _ a], rule exI [of _ q], rule exI [of _ f], simp)
  next
    assume "link_ok u"
    then obtain s h p a q f where "u = s @ h @ p @ a @ q @ f" "scheme_ok s" "domain_ok h \<or> ip_ok h" "port_ok p" "path_ok a"
        "query_ok q" "fragment_ok f" unfolding link_ok_def by blast
    then show "rx_test urlPattern u" unfolding m by - (intro exI conjI, (assumption | rule refl)+)
  qed
qed

text \<open>What the input accepts has its host at once after the fixed scheme: a scheme that is typed again is
  refused, and so is what has no host.\<close>

lemma label_letters:
  "list_all label_ok ls \<Longrightarrow> list_all (any_of ''-.'') (concat (map (\<lambda>l. l @ ''.'') ls))"
  by (induction ls) (auto simp: label_ok_def list_all_iff)

lemma group_letters: "group_ok g \<Longrightarrow> list_all (any_of ''-.'') g"
  by (auto simp: group_ok_def list_all_iff is_alnum_def)

lemma domain_letters: "domain_ok h \<Longrightarrow> list_all (any_of ''-.'') h \<and> CHR ''.'' \<in> set h"
proof -
  assume "domain_ok h"
  then obtain ls tld where h: "ls \<noteq> []" "list_all label_ok ls" "list_all is_letter tld" "h = concat (map (\<lambda>l. l @ ''.'') ls) @ tld"
    unfolding domain_ok_def by blast
  have "list_all (any_of ''-.'') tld" using h(3) by (auto simp: list_all_iff is_alnum_def)
  moreover have "CHR ''.'' \<in> set h" using h(1,4) by (cases ls) auto
  ultimately show ?thesis using label_letters [OF h(2)] h(4) by (simp only: list_all_append)
qed

lemma ip_letters: "ip_ok h \<Longrightarrow> list_all (any_of ''-.'') h \<and> CHR ''.'' \<in> set h"
  using group_letters by (auto simp: ip_ok_def)

lemma host_letters:
  assumes "domain_ok h \<or> ip_ok h"
  shows "list_all (any_of ''-.'') h" and "CHR ''.'' \<in> set h"
  using assms domain_letters ip_letters by blast+

lemma accepted_value:
  "validateLink True (Some v) \<longleftrightarrow> (\<exists>host port path query fragment. v = host @ port @ path @ query @ fragment
     \<and> (domain_ok host \<or> ip_ok host) \<and> port_ok port \<and> path_ok path \<and> query_ok query \<and> fragment_ok fragment)"
proof
  assume "validateLink True (Some v)"
  then obtain s h r where u: "''https://'' @ v = s @ h @ r" "scheme_ok s" "domain_ok h \<or> ip_ok h"
    and r: "\<exists>port path query fragment. r = port @ path @ query @ fragment \<and> port_ok port \<and> path_ok path \<and> query_ok query \<and> fragment_ok fragment"
    unfolding validateLink_def pattern_is_link template_def linkPrefix_def link_ok_def truthy.simps option.case by metis
  have "s \<noteq> []"
  proof
    assume "s = []"
    then have e: "h @ r = ''https'' @ (''://'' @ v)" using u(1) by simp
    from e consider (short) us where "h @ us = ''https''" | (long) us where "h = ''https'' @ us" "us @ r = ''://'' @ v"
      unfolding append_eq_append_conv2 by metis
    then show False
    proof cases
      case short
      then have "set h \<subseteq> set ''https''" by (metis set_append Un_upper1)
      then show False using host_letters(2) [OF u(3)] by auto
    next
      case long
      then show False using host_letters [OF u(3)] by (cases us) (auto simp: is_alnum_def is_letter_def is_digit_def)
    qed
  qed
  then have "s = ''https://''"
    using u(1,2) by (auto simp: scheme_ok_def list_all2_Cons1 same_symbol is_letter_def)
  then have "v = h @ r" using u(1) by simp
  then show "\<exists>host port path query fragment. v = host @ port @ path @ query @ fragment
     \<and> (domain_ok host \<or> ip_ok host) \<and> port_ok port \<and> path_ok path \<and> query_ok query \<and> fragment_ok fragment"
    using u(3) r by blast
next
  have "scheme_ok linkPrefix" by (simp add: scheme_ok_def linkPrefix_def same_letter_def)
  moreover assume "\<exists>host port path query fragment. v = host @ port @ path @ query @ fragment
     \<and> (domain_ok host \<or> ip_ok host) \<and> port_ok port \<and> path_ok path \<and> query_ok query \<and> fragment_ok fragment"
  ultimately have "link_ok (linkPrefix @ v)" unfolding link_ok_def by blast
  then show "validateLink True (Some v)" unfolding validateLink_def pattern_is_link template_def by simp
qed

text \<open>The forms cut the scheme off a stored link and put it back: that is the identity on the links with the
  scheme, and on no other.\<close>

lemma cut_prefix [simp]: "slice_from (linkPrefix @ v) 8 = v"
  by (simp add: slice_from_def clamp_index_def linkPrefix_def)

lemma refit_prefix: "linkPrefix @ slice_from u 8 = u \<longleftrightarrow> prefix linkPrefix u"
  by (metis cut_prefix prefix_def)

lemma link_example: "validateLink True (Some ''shop.io/a'')" "\<not> validateLink True (Some [])"
proof -
  have "domain_ok ''shop.io''"
    unfolding domain_ok_def by (intro exI [of _ "[''shop'']"] exI [of _ "''io''"]) (simp add: label_ok_def is_alnum_def is_letter_def)
  moreover have "path_ok ''/a''" by (simp add: path_ok_def is_alnum_def is_letter_def)
  ultimately show "validateLink True (Some ''shop.io/a'')"
    unfolding accepted_value
    by - (rule exI [of _ "''shop.io''"], rule exI [of _ "[]"], rule exI [of _ "''/a''"], rule exI [of _ "[]"], rule exI [of _ "[]"],
        simp add: port_ok_def query_ok_def fragment_ok_def)
  show "\<not> validateLink True (Some [])"
    using host_letters(2) unfolding accepted_value by fastforce
qed

section \<open>Properties\<close>

text \<open>C19. What the input of links accepts: nothing, where it is not required; else exactly the texts that are the
  name of a host or an address of four numbers, then optionally a port, a path, a query and a fragment, each in
  its letters. In particular a value with a scheme of its own is refused, and a missing value is read as its name.\<close>

theorem links_accepted:
  "validateLink needed v \<longleftrightarrow>
     (if needed \<or> truthy v
      then \<exists>host port path query fragment. template v = host @ port @ path @ query @ fragment
        \<and> (domain_ok host \<or> ip_ok host) \<and> port_ok port \<and> path_ok path \<and> query_ok query \<and> fragment_ok fragment
      else True)"
proof -
  have "validateLink needed v \<longleftrightarrow> (if needed \<or> truthy v then validateLink True (Some (template v)) else True)"
    by (auto simp: validateLink_def template_def)
  then show ?thesis unfolding accepted_value .
qed

end
