(* ===== verification/Form_Kit.thy ===== *)
theory Form_Kit
  imports Link_Input Payments_Table Queries
begin

text \<open>
  What the forms of the dashboard share: the confirmation dialog
  (ui-dashboard/src/utils/create-confirm-popup.tsx), the copying of a text
  (ui-dashboard/src/utils/copy-to-clipboard.ts), the two buttons below a form, class names
  (ui-dashboard/src/utils/bevis.ts), the label of a secret
  (ui-dashboard/src/components/password-label/password-label.tsx), and the locale of a page that
  is busy: its form is locked until an answer or a timer frees it.
\<close>

section \<open>Dialogs, copies and buttons\<close>

(* src: ui-dashboard/src/utils/create-confirm-popup.tsx 5-21 createConfirmPopup *)
definition createConfirmPopup :: "string \<Rightarrow> string \<Rightarrow> 'h \<Rightarrow> 'h \<Rightarrow> 'h ui" where
  "createConfirmPopup title content yes no =
     El ''Modal.confirm'' [(''title'', title), (''okText'', ''Yes''), (''okType'', ''danger''), (''cancelText'', ''No''), (''maskClosable'', ''true'')]
       [(''onOk'', yes), (''onCancel'', no)] [Txt content]"

lemma createConfirmPopup_handlers [simp]: "ui_handlers (createConfirmPopup t c y n) = [y, n]"
  by (simp add: createConfirmPopup_def)

text \<open>The clipboard answers whether it took the text; only then something is shown.\<close>

(* src: ui-dashboard/src/utils/copy-to-clipboard.ts 1-11 copyToClipboard *)
fun copy_answer :: "('n \<Rightarrow> 'e) \<Rightarrow> (string \<Rightarrow> string \<Rightarrow> 'n) \<Rightarrow> ('a, 'x) reply \<Rightarrow> 's \<Rightarrow> ('s, 'q, 'k, 'e) outcome" where
  "copy_answer emit note (Resolved a) s = (s, [Emit (emit (note [] ''Text has been copied to your clipboard''))])"
| "copy_answer emit note (Rejected e) s = (s, [])"

text \<open>Save and Cancel, as every form of a drawer has them.\<close>

definition form_buttons :: "string \<Rightarrow> bool \<Rightarrow> 'h \<Rightarrow> 'h ui list" where
  "form_buttons save locked cancel =
     [El ''Button'' [(''disabled'', bool_attr locked), (''loading'', bool_attr locked), (''htmlType'', ''submit'')] [] [Txt save],
      El ''Button'' [] [(''onClick'', cancel)] [Txt ''Cancel'']]"

definition required_item :: "string \<Rightarrow> string \<Rightarrow> 'h ui list \<Rightarrow> 'h ui" where
  "required_item label name children = El ''Form.Item'' [(''label'', label), (''name'', name), (''required'', ''Field is required'')] [] children"

lemma form_handlers [simp]:
  "handlers_of (form_buttons t b c) = [c]" "ui_handlers (required_item l n cs) = concat (map ui_handlers cs)"
  by (simp_all add: form_buttons_def required_item_def)

lemma drawer_handlers:
  "h \<in> set (ui_handlers (DrawerForm title isOpen close btn body)) \<longleftrightarrow> h = close \<or> isOpen \<and> h \<in> set (handlers_of body)"
  by (auto simp: DrawerForm_def handlers_of_def when_ui_def)

lemma cells_without_handlers [simp]:
  "ui_handlers (TimeLabel l u t) = []" "ui_handlers (CollapseString s n p) = []" "ui_handlers (PaymentStatusLabel st) = []"
  by (auto simp: TimeLabel_def CollapseString_def PaymentStatusLabel_def split: dash_status.split)

section \<open>Class names and hidden texts\<close>

datatype bevis_state = BTrue | BFalsy | BText string

text \<open>The name of a class: the block, an element of it, and what is true of it, in the order of its keys.\<close>

(* src: ui-dashboard/src/utils/bevis.ts 8-36 bevis *)
definition bevis :: "string \<Rightarrow> string option \<Rightarrow> (string \<times> bevis_state) list \<Rightarrow> string" where
  "bevis blockName element state =
     blockName @ (if truthy element then ''__'' @ the element else [])
     @ concat (map (\<lambda>(key, v). case v of
         BTrue \<Rightarrow> '' _'' @ key
       | BText t \<Rightarrow> (if t = [] then [] else '' _'' @ key @ ''_'' @ t)
       | BFalsy \<Rightarrow> []) state)"

text \<open>What a narrow window leaves of a text that can be hidden, and of the stars that hide it.\<close>

(* src: ui-dashboard/src/components/password-label/password-label.tsx 25-37 stripPassword *)
definition stripPassword :: "nat option \<Rightarrow> string \<Rightarrow> string" where
  "stripPassword w t =
     (case w of None \<Rightarrow> [] | Some n \<Rightarrow> if n = 0 then [] else if n \<le> 1300 then slice t 0 15 @ ''...'' @ slice_from t (- 15) else t)"

(* src: ui-dashboard/src/components/password-label/password-label.tsx 39-51 stripSecureText *)
definition stripSecureText :: "nat option \<Rightarrow> string \<Rightarrow> string" where
  "stripSecureText w t =
     (let stars = replicate (length t) (CHR ''*'') in
      case w of None \<Rightarrow> [] | Some n \<Rightarrow> if n = 0 then [] else if n \<le> 1300 then slice stars 0 40 else stars)"

text \<open>The label; copying the text does something only while it is visible.\<close>

(* src: ui-dashboard/src/components/password-label/password-label.tsx 14-72 PasswordLabel *)
definition PasswordLabel :: "nat option \<Rightarrow> bool \<Rightarrow> string \<Rightarrow> 'h \<Rightarrow> 'h \<Rightarrow> 'h ui list" where
  "PasswordLabel w visible t copyText toggle =
     (if visible then [El ''span'' [] [(''onClick'', copyText)] [Txt (stripPassword w t)], El ''EyeTwoTone'' [] [(''onClick'', toggle)] []]
      else [leaf ''span'' (stripSecureText w t), El ''EyeInvisibleOutlined'' [] [(''onClick'', toggle)] []])"

text \<open>A hidden text shows its length and nothing else.\<close>

lemma hidden_shows_length: "length t = length u \<Longrightarrow> PasswordLabel w False t c h = PasswordLabel w False u c h"
  by (simp add: PasswordLabel_def stripSecureText_def)

text \<open>A text of up to thirty letters is shown whole in a narrow window too, its middle even twice.\<close>

lemma short_text_shown:
  assumes "n \<noteq> 0" and "n \<le> 1300" and "length t \<le> 15"
  shows "stripPassword (Some n) t = t @ ''...'' @ t"
  using assms by (simp add: stripPassword_def slice_def slice_from_def clamp_index_def)

section \<open>Pages that are busy\<close>

text \<open>
  As \<open>waiting_page\<close>, with timers: while \<open>L\<close> holds of the state a request with \<open>A\<close> or a timer with
  \<open>B\<close> is under way, requests and continuations fit by \<open>K\<close> and timers run continuations of \<open>T\<close>.
\<close>

definition well :: "('q \<Rightarrow> 'k \<Rightarrow> bool) \<Rightarrow> ('k \<Rightarrow> bool) \<Rightarrow> ('s, 'q, 'k, 'e) outcome \<Rightarrow> bool" where
  "well K T oc \<longleftrightarrow> ok_outcome (\<lambda>s. True) K T (\<lambda>e. True) oc"

definition busy :: "('s \<Rightarrow> bool) \<Rightarrow> ('k \<Rightarrow> bool) \<Rightarrow> ('k \<Rightarrow> bool) \<Rightarrow> bool \<Rightarrow> ('s, 'q, 'k, 'e) outcome \<Rightarrow> bool" where
  "busy L A B b oc \<longleftrightarrow> (L (fst oc) \<longrightarrow> b \<or> wakes A B (snd oc))"

lemma well_simps [simp]:
  "well K T (s, []) = True" "well K T (s, Await q k # cs) = (K q k \<and> well K T (s, cs))"
  "well K T (s, After t k # cs) = (T k \<and> well K T (s, cs))" "well K T (s, Emit e # cs) = well K T (s, cs)"
  "well K T (idle s) = True"
  by (auto simp: well_def idle_def)

lemma busy_simps [simp]:
  "busy L A B b (s, []) = (L s \<longrightarrow> b)"
  "busy L A B b (s, Await q k # cs) = (A k \<or> busy L A B b (s, cs))"
  "busy L A B b (s, After t k # cs) = (B k \<or> busy L A B b (s, cs))"
  "busy L A B b (s, Emit e # cs) = busy L A B b (s, cs)"
  "busy L A B b (idle s) = (L s \<longrightarrow> b)"
  by (auto simp: busy_def wakes_simps idle_def)

lemma busy_andThen:
  assumes "busy L A B b oc" and "busy L A B (L (fst oc)) (f (fst oc))"
  shows "busy L A B b (andThen oc f)"
  using assms by (auto simp: busy_def andThen_def wakes_simps split: prod.splits)

locale busy_page =
  fixes c :: "('s, 'q, 'k, 'e, 'r, 'v) component" and K :: "'q \<Rightarrow> 'k \<Rightarrow> bool" and T :: "'k \<Rightarrow> bool"
    and L :: "'s \<Rightarrow> bool" and A :: "'k \<Rightarrow> bool" and B :: "'k \<Rightarrow> bool"
  assumes mount_law: "well K T (c_mount c s) \<and> busy L A B False (c_mount c s)"
    and event_law: "well K T (c_event c v s) \<and> busy L A B (L s) (c_event c v s)"
    and resume_law: "K q k \<Longrightarrow> c_fits c q r \<Longrightarrow> well K T (c_resume c k r s) \<and> busy L A B (L s \<and> \<not> A k) (c_resume c k r s)"
    and timer_law: "T k \<Longrightarrow> well K T (c_timer c k s) \<and> busy L A B (L s \<and> \<not> B k) (c_timer c k s)"
    and effect_law: "well K T (c_effect c s s') \<and> busy L A B (L s') (c_effect c s s')"
begin

lemma piece_busy:
  assumes "busy L A B b oc" and "andThen oc (c_effect c s) = (s', cs)" and "L s'"
  shows "b \<or> wakes A B cs"
proof -
  have "busy L A B b (s', cs)"
    using busy_andThen [OF assms(1), of "c_effect c s"] effect_law [of s "fst oc"] assms(2) by simp
  then show ?thesis using assms(3) by (simp add: busy_def)
qed

end

sublocale busy_page \<subseteq> live_component c "\<lambda>s. True" K T "\<lambda>e. True" L A B
proof unfold_locales
  fix s s' cs
  assume "c_mount c s = (s', cs)" "L s'"
  then show "wakes A B cs" using mount_law [of s] by (simp add: busy_def)
next
  fix s v s' cs
  assume a: "andThen (c_event c v s) (c_effect c s) = (s', cs)" "L s'"
  then show "wakes A B cs \<or> L s" using piece_busy [OF _ a] event_law by blast
next
  fix s q k r s' cs
  assume "K q k" "c_fits c q r" and a: "andThen (c_resume c k r s) (c_effect c s) = (s', cs)" "L s'"
  then show "wakes A B cs \<or> L s \<and> \<not> A k" using piece_busy [OF _ a] resume_law by blast
next
  fix s k s' cs
  assume "T k" and a: "andThen (c_timer c k s) (c_effect c s) = (s', cs)" "L s'"
  then show "wakes A B cs \<or> L s \<and> \<not> B k" using piece_busy [OF _ a] timer_law by blast
qed (simp_all add: well_def [symmetric] mount_law event_law resume_law timer_law effect_law)

context busy_page
begin

lemma freed:
  assumes "areach c S w" and "L (wst w)"
  shows "(\<exists>(q, k) \<in> set (pending w). A k) \<or> (\<exists>(t, k) \<in> set (timers w). B k)"
  using reachable_awake [OF assms(1)] assms(2) by (auto simp: awake_def)

lemma well_typed: "areach c S w \<Longrightarrow> (q, k) \<in> set (pending w) \<Longrightarrow> K q k"
  using reachable_ok by (fastforce simp: ok_world_def)

end

end
