(* ===== verification/Merchants_Page.thy ===== *)
theory Merchants_Page
  imports Form_Kit Local_Storage
begin

text \<open>
  The page that manages the merchants of an account
  (ui-dashboard/src/pages/manage-merchants-page/manage-merchants-page.tsx) with its form
  (ui-dashboard/src/components/merchant-form/merchant-form.tsx) and card
  (ui-dashboard/src/components/custom-card/custom-card.tsx), as an asynchronous component.

  The form writes into the merchant that it edits, which is an object of the shared list: the state
  has a store of merchants, and the list and the selection hold addresses in it. The drawer destroys its
  form when it closes, so each opening mounts the form anew and runs its effect.

  The hook \<open>useAsyncFn\<close> of react-use turns a function into one that records whether it runs. Whether the
  recorded function throws what the function threw, or returns it as its result, is a parameter of the
  model (react-use returns it).
\<close>

section \<open>State\<close>

datatype mm_request = MmAccount account_request | MmScoped string merchant_request

fun mm_http :: "mm_request \<Rightarrow> http_request" where
  "mm_http (MmAccount r) = account_http r"
| "mm_http (MmScoped i r) = merchant_http i r"

datatype mm_cont =
    CreateAnswer string nat
  | EditAnswer string nat
  | ResetWait nat
  | ResetList nat
  | SubmissionOver nat
  | DeleteAnswer nat "nat list"
  | DeleteList nat "nat list"

text \<open>What a request is answered with; \<open>ErrorValue\<close> is an exception that a hook returned as a result.\<close>

datatype mm_answer = Stored merchant | MmDone | MmList "merchant list" | ErrorValue

datatype mm_effect = MmNotify string string | MmNavigate string

(* src: ui-dashboard/src/pages/manage-merchants-page/manage-merchants-page.tsx 18-28 ManageMerchantsPage *)
record manage_page =
  mm_store :: "merchant list"
  mm_merchants :: "nat list option"
  mm_selected :: merchant_state
  activeMerchant :: "nat option"
  isAddOpen :: bool
  isEditOpen :: bool
  mm_creating :: bool
  mm_editing :: bool
  mm_resetting :: bool
  mm_resetCall :: nat
  mm_submitting :: bool
  mm_form :: merchant_base
  mm_mount :: nat
  mm_confirms :: "(nat \<times> nat list) list"

type_synonym mm_outcome = "(manage_page, mm_request, mm_cont, mm_effect) outcome"

type_synonym mm_reply = "(mm_answer, unit) reply"

definition empty_merchant_form :: merchant_base where
  "empty_merchant_form = \<lparr>mb_name = [], mb_website = []\<rparr>"

definition merchant_at :: "manage_page \<Rightarrow> nat \<Rightarrow> merchant" where
  "merchant_at s a = mm_store s ! a"

definition show_list :: "merchant list \<Rightarrow> manage_page \<Rightarrow> manage_page" where
  "show_list ms s = s\<lparr>mm_store := mm_store s @ ms,
     mm_merchants := Some [length (mm_store s) ..< length (mm_store s) + length ms]\<rparr>"

text \<open>The hook around a request.\<close>

fun through_hook :: "bool \<Rightarrow> mm_reply \<Rightarrow> mm_reply" where
  "through_hook rethrows (Rejected e) = (if rethrows then Rejected e else Resolved ErrorValue)"
| "through_hook rethrows (Resolved a) = Resolved a"

section \<open>The form\<close>

text \<open>The effect of the form: the scheme is cut off the website of the merchant itself.\<close>

(* src: ui-dashboard/src/components/merchant-form/merchant-form.tsx 19-24 useEffect *)
definition mount_form :: "manage_page \<Rightarrow> manage_page" where
  "mount_form s =
     (case activeMerchant s of
        None \<Rightarrow> s\<lparr>mm_form := empty_merchant_form, mm_mount := Suc (mm_mount s)\<rparr>
      | Some a \<Rightarrow>
          let m = (merchant_at s a)\<lparr>mb_website := slice_from (mb_website (merchant_at s a)) 8\<rparr>
          in s\<lparr>mm_store := (mm_store s)[a := m], mm_form := merchant_base.truncate m, mm_mount := Suc (mm_mount s)\<rparr>)"

(* src: ui-dashboard/src/components/merchant-form/merchant-form.tsx 26-29 onSubmit *)
definition form_values :: "merchant_base \<Rightarrow> merchant_base" where
  "form_values v = v\<lparr>mb_website := linkPrefix @ mb_website v\<rparr>"

(* src: ui-dashboard/src/components/merchant-form/merchant-form.tsx 41-50 rules *)
definition merchant_rules :: "merchant_base \<Rightarrow> bool" where
  "merchant_rules v \<longleftrightarrow> mb_name v \<noteq> [] \<and> validateLink True (Some (mb_website v))"

datatype mm_handler =
    HCreateMerchant | HSaveSettings | HEdit nat | HDelete nat | HConfirmDelete nat "nat list" | HDismissDelete nat "nat list"
  | HSubmitForm | HCancelForm | HCloseEdit | HCloseAdd

(* src: ui-dashboard/src/components/merchant-form/merchant-form.tsx 38-65 Form *)
definition MerchantForm :: "bool \<Rightarrow> mm_handler ui" where
  "MerchantForm isFormSubmitting =
     El ''Form'' [] [(''onFinish'', HSubmitForm)]
       [El ''Form.Item'' [(''label'', ''Store name''), (''name'', ''name''), (''required'', ''Field is required'')] [] [comp ''Input'' []],
        LinkInput ''your-store.com'' ''Website'' ''website'' True,
        El ''Button'' [(''disabled'', bool_attr isFormSubmitting), (''loading'', bool_attr isFormSubmitting), (''htmlType'', ''submit'')] []
          [Txt ''Save''],
        El ''Button'' [] [(''onClick'', HCancelForm)] [Txt ''Cancel'']]"

section \<open>Operations\<close>

definition start_reset :: "manage_page \<Rightarrow> mm_outcome" where
  "start_reset s = (s\<lparr>mm_resetting := True, mm_resetCall := Suc (mm_resetCall s)\<rparr>, [After 1000 (ResetWait (Suc (mm_resetCall s)))])"

(* src: ui-dashboard/src/pages/manage-merchants-page/manage-merchants-page.tsx 30-35 resetValues *)
definition resetValues :: "nat \<Rightarrow> manage_page \<Rightarrow> mm_outcome" where
  "resetValues i s =
     (s\<lparr>activeMerchant := None, isAddOpen := False, isEditOpen := False\<rparr>, [Await (MmAccount ListMerchants) (ResetList i)])"

definition reset_ends :: "nat \<Rightarrow> manage_page \<Rightarrow> manage_page" where
  "reset_ends i s = (if i = mm_resetCall s then s\<lparr>mm_resetting := False\<rparr> else s)"

(* src: ui-dashboard/src/pages/manage-merchants-page/manage-merchants-page.tsx 35-37 getMerchants *)
fun reset_list :: "nat \<Rightarrow> mm_reply \<Rightarrow> manage_page \<Rightarrow> mm_outcome" where
  "reset_list i (Resolved (MmList ms)) s = idle (reset_ends i (show_list ms s))"
| "reset_list i a s = idle (reset_ends i s)"

(* src: ui-dashboard/src/pages/manage-merchants-page/manage-merchants-page.tsx 48-51 uploadCreatedMerchant *)
definition uploadCreatedMerchant :: "merchant_base \<Rightarrow> manage_page \<Rightarrow> mm_outcome" where
  "uploadCreatedMerchant v s =
     (s\<lparr>mm_submitting := True, mm_creating := True\<rparr>, [Await (MmAccount (StoreMerchant v)) (CreateAnswer (mb_name v) (mm_mount s))])"

(* src: ui-dashboard/src/pages/manage-merchants-page/manage-merchants-page.tsx 51-63 setMerchantId *)
fun merchant_created :: "string \<Rightarrow> nat \<Rightarrow> mm_reply \<Rightarrow> manage_page \<Rightarrow> mm_outcome" where
  "merchant_created name f (Resolved a) s =
     andThen (start_reset (s\<lparr>mm_creating := False,
         mm_selected := setMerchantId (case a of Stored m \<Rightarrow> Some (m_id m) | _ \<Rightarrow> None) (mm_selected s)\<rparr>))
       (\<lambda>s. (s, [Emit (MmNotify ''Welcome to CryptoLink'' (''Hello, '' @ name @ ''!'')), After 1000 (SubmissionOver f)]))"
| "merchant_created name f (Rejected e) s = idle (s\<lparr>mm_creating := False, mm_submitting := False\<rparr>)"

(* src: ui-dashboard/src/pages/manage-merchants-page/manage-merchants-page.tsx 65-68 uploadEditedMerchant *)
definition uploadEditedMerchant :: "string \<Rightarrow> merchant_base \<Rightarrow> manage_page \<Rightarrow> mm_outcome" where
  "uploadEditedMerchant i v s =
     (s\<lparr>mm_submitting := True, mm_editing := True\<rparr>, [Await (MmScoped i (UpdateMerchant v)) (EditAnswer (mb_name v) (mm_mount s))])"

(* src: ui-dashboard/src/pages/manage-merchants-page/manage-merchants-page.tsx 68-79 saved *)
fun merchant_edited :: "string \<Rightarrow> nat \<Rightarrow> mm_reply \<Rightarrow> manage_page \<Rightarrow> mm_outcome" where
  "merchant_edited name f (Resolved a) s =
     andThen (start_reset (s\<lparr>mm_editing := False\<rparr>))
       (\<lambda>s. (s, [Emit (MmNotify ''Information saved'' (''You have changed information about '' @ name @ '' merchant'')),
                 After 1000 (SubmissionOver f)]))"
| "merchant_edited name f (Rejected e) s = idle (s\<lparr>mm_editing := False, mm_submitting := False\<rparr>)"

text \<open>The fields that are reset are those of the form that was submitted, which may be gone: \<open>mm_mount\<close> numbers
  the forms.\<close>

(* src: ui-dashboard/src/pages/manage-merchants-page/manage-merchants-page.tsx 56-62 resetFields *)
definition submission_ended :: "nat \<Rightarrow> manage_page \<Rightarrow> mm_outcome" where
  "submission_ended f s = idle (s\<lparr>mm_form := (if mm_mount s = f then empty_merchant_form else mm_form s), mm_submitting := False\<rparr>)"

(* src: ui-dashboard/src/pages/manage-merchants-page/manage-merchants-page.tsx 81-84 onConfirmDeleteMerchant *)
definition onConfirmDeleteMerchant :: "nat \<Rightarrow> nat list \<Rightarrow> manage_page \<Rightarrow> mm_outcome" where
  "onConfirmDeleteMerchant a ms s =
     (s\<lparr>mm_submitting := True\<rparr>, [Await (MmScoped (m_id (merchant_at s a)) DeleteMerchant) (DeleteAnswer a ms)])"

(* src: ui-dashboard/src/pages/manage-merchants-page/manage-merchants-page.tsx 84-85 deleteMerchant *)
fun merchant_gone :: "nat \<Rightarrow> nat list \<Rightarrow> mm_reply \<Rightarrow> manage_page \<Rightarrow> mm_outcome" where
  "merchant_gone a ms (Resolved x) s = (s, [Await (MmAccount ListMerchants) (DeleteList a ms)])"
| "merchant_gone a ms (Rejected e) s = idle (s\<lparr>mm_submitting := False\<rparr>)"

text \<open>The next merchant is looked for in the list of the render in which the deletion was asked.\<close>

(* src: ui-dashboard/src/pages/manage-merchants-page/manage-merchants-page.tsx 85-96 nextMerchant *)
fun after_deletion :: "nat \<Rightarrow> nat list \<Rightarrow> mm_reply \<Rightarrow> manage_page \<Rightarrow> mm_outcome" where
  "after_deletion a ms (Resolved (MmList new)) s =
     (let gone = merchant_at s a; next = find_first (\<lambda>b. m_id (merchant_at s b) \<noteq> m_id gone) ms
      in ((show_list new s)\<lparr>mm_selected := setMerchantId (map_option (\<lambda>b. m_id (merchant_at s b)) next) (mm_selected s),
            mm_submitting := False\<rparr>,
          [Emit (MmNotify (''Merchant '' @ mb_name gone @ '' has been deleted'') ''Thank you for being with us'')]))"
| "after_deletion a ms x s = idle (s\<lparr>mm_submitting := False\<rparr>)"

(* src: ui-dashboard/src/pages/manage-merchants-page/manage-merchants-page.tsx 98-101 onEdit *)
definition onEdit :: "nat \<Rightarrow> manage_page \<Rightarrow> manage_page" where
  "onEdit a s = mount_form (s\<lparr>isEditOpen := True, activeMerchant := Some a\<rparr>)"

section \<open>What the page shows\<close>

definition isAnyFormOpen :: "manage_page \<Rightarrow> bool" where
  "isAnyFormOpen s \<longleftrightarrow> isAddOpen s \<or> isEditOpen s"

(* src: ui-dashboard/src/pages/manage-merchants-page/manage-merchants-page.tsx 104-105 isTableLoading *)
definition isTableLoading :: "manage_page \<Rightarrow> bool" where
  "isTableLoading s \<longleftrightarrow> mm_creating s \<or> mm_editing s \<or> mm_resetting s \<or> mm_merchants s = None"

(* src: ui-dashboard/src/components/custom-card/custom-card.tsx 16-27 CustomCard *)
definition CustomCard :: "string \<Rightarrow> string \<Rightarrow> bool \<Rightarrow> 'h ui list \<Rightarrow> 'h ui" where
  "CustomCard title description active rightIcon =
     wrap ''div'' (when_ui active [comp ''CheckCircleTwoTone'' []] @ [leaf ''span'' title, leaf ''div'' description, wrap ''div'' rightIcon])"

(* src: ui-dashboard/src/pages/manage-merchants-page/manage-merchants-page.tsx 132-162 CustomCard *)
definition merchant_card :: "manage_page \<Rightarrow> nat \<Rightarrow> mm_handler ui" where
  "merchant_card s a =
     (let m = merchant_at s a; blocked = isAnyFormOpen s
      in CustomCard (mb_name m) (mb_website m) (merchantId (mm_selected s) = Some (m_id m))
           [El ''Button'' [(''disabled'', bool_attr blocked)] (when_ui (\<not> blocked) [(''onClick'', HEdit a)]) [],
            El ''Button'' [(''disabled'', bool_attr blocked)] (when_ui (\<not> blocked) [(''onClick'', HDelete a)]) []])"

(* src: ui-dashboard/src/pages/manage-merchants-page/manage-merchants-page.tsx 108-131 PageContainer *)
definition manage_header :: "manage_page \<Rightarrow> mm_handler ui list" where
  "manage_header s =
     [leaf ''Title'' ''Manage Merchants'']
     @ when_ui (mm_merchants s = Some []) [leaf ''Title'' ''To start accepting payments, first create a new merchant'']
     @ [leaf ''Paragraph'' ''Each merchant represents a seperate workspace with its own payments and settings.'']"

(* src: ui-dashboard/src/pages/manage-merchants-page/manage-merchants-page.tsx 163-211 DrawerForm *)
definition manage_view :: "manage_page \<Rightarrow> mm_handler ui list" where
  "manage_view s =
     manage_header s @ map (merchant_card s) (case mm_merchants s of None \<Rightarrow> [] | Some ms \<Rightarrow> ms)
     @ when_ui (isTableLoading s) [comp ''Spin'' []]
     @ when_ui (\<not> isTableLoading s)
         [El ''Button'' [(''disabled'', bool_attr (isEditOpen s))] (when_ui (\<not> isEditOpen s) [(''onClick'', HCreateMerchant)]) [Txt ''Create merchant''],
          El ''Button'' [(''disabled'', bool_attr (mm_merchants s = Some []))]
            (when_ui (mm_merchants s \<noteq> Some []) [(''onClick'', HSaveSettings)]) [Txt ''Save settings'']]
     @ overlay ''Drawer'' ''Edit merchant'' (isEditOpen s) [(''onClose'', HCloseEdit)] [MerchantForm (mm_submitting s)]
     @ overlay ''Drawer'' ''Creating new merchant'' (isAddOpen s) [(''onClose'', HCloseAdd)] [MerchantForm (mm_submitting s)]
     @ map (\<lambda>(a, ms). createConfirmPopup ''Delete the store'' ''Are you sure to delete this store?'' (HConfirmDelete a ms) (HDismissDelete a ms)) (mm_confirms s)"

section \<open>The component\<close>

datatype mm_event = MmAct mm_handler | MmFill merchant_base

text \<open>Submission is for a form whose rules hold and whose button is not disabled; the form that is open
  for editing has a selection.\<close>

definition submit_form :: "manage_page \<Rightarrow> mm_outcome" where
  "submit_form s =
     (if mm_submitting s \<or> \<not> merchant_rules (mm_form s) then idle s
      else if isEditOpen s
      then (case activeMerchant s of None \<Rightarrow> idle s
            | Some a \<Rightarrow> uploadEditedMerchant (m_id (merchant_at s a)) (form_values (mm_form s)) s)
      else uploadCreatedMerchant (form_values (mm_form s)) s)"

fun mm_run :: "mm_handler \<Rightarrow> manage_page \<Rightarrow> mm_outcome" where
  "mm_run HCreateMerchant s = idle (if isAddOpen s then s else s\<lparr>isAddOpen := True, mm_form := empty_merchant_form, mm_mount := Suc (mm_mount s)\<rparr>)"
| "mm_run HSaveSettings s = (s, [Emit (MmNavigate ''/payments'')])"
| "mm_run (HEdit a) s = idle (onEdit a s)"
| "mm_run (HDelete a) s = idle (s\<lparr>mm_confirms := mm_confirms s @ [(a, case mm_merchants s of None \<Rightarrow> [] | Some ms \<Rightarrow> ms)]\<rparr>)"
| "mm_run (HConfirmDelete a ms) s = onConfirmDeleteMerchant a ms (s\<lparr>mm_confirms := remove1 (a, ms) (mm_confirms s)\<rparr>)"
| "mm_run (HDismissDelete a ms) s = idle (s\<lparr>mm_confirms := remove1 (a, ms) (mm_confirms s)\<rparr>)"
| "mm_run HSubmitForm s = submit_form s"
| "mm_run HCancelForm s = idle (s\<lparr>isEditOpen := False, isAddOpen := False\<rparr>)"
| "mm_run HCloseEdit s = idle (s\<lparr>isEditOpen := False\<rparr>)"
| "mm_run HCloseAdd s = idle (s\<lparr>isAddOpen := False\<rparr>)"

fun mm_on :: "mm_event \<Rightarrow> manage_page \<Rightarrow> mm_outcome" where
  "mm_on (MmAct h) s = (if h \<in> set (handlers_of (manage_view s)) then mm_run h s else idle s)"
| "mm_on (MmFill v) s = (if isAnyFormOpen s then idle (s\<lparr>mm_form := v\<rparr>) else idle s)"

fun mm_resume :: "bool \<Rightarrow> mm_cont \<Rightarrow> mm_reply \<Rightarrow> manage_page \<Rightarrow> mm_outcome" where
  "mm_resume rethrows (CreateAnswer n f) a s = merchant_created n f (through_hook rethrows a) s"
| "mm_resume rethrows (EditAnswer n f) a s = merchant_edited n f (through_hook rethrows a) s"
| "mm_resume rethrows (ResetList i) a s = reset_list i a s"
| "mm_resume rethrows (DeleteAnswer m ms) a s = merchant_gone m ms a s"
| "mm_resume rethrows (DeleteList m ms) a s = after_deletion m ms a s"
| "mm_resume rethrows k a s = idle s"

fun mm_timer :: "mm_cont \<Rightarrow> manage_page \<Rightarrow> mm_outcome" where
  "mm_timer (ResetWait i) s = resetValues i s"
| "mm_timer (SubmissionOver f) s = submission_ended f s"
| "mm_timer k s = idle s"

text \<open>The list of the merchants is loaded by the shell before the page is shown; the page shows it.\<close>

definition fresh_manage :: "merchant list option \<Rightarrow> merchant_state \<Rightarrow> manage_page" where
  "fresh_manage ms sel =
     \<lparr>mm_store = (case ms of None \<Rightarrow> [] | Some xs \<Rightarrow> xs), mm_merchants = map_option (\<lambda>xs. [0 ..< length xs]) ms, mm_selected = sel,
      activeMerchant = None, isAddOpen = False, isEditOpen = False, mm_creating = False, mm_editing = False, mm_resetting = False,
      mm_resetCall = 0, mm_submitting = False, mm_form = empty_merchant_form, mm_mount = 0, mm_confirms = []\<rparr>"

fun mm_fits :: "mm_request \<Rightarrow> mm_reply \<Rightarrow> bool" where
  "mm_fits q (Rejected e) = True"
| "mm_fits (MmAccount (StoreMerchant v)) (Resolved a) = (\<exists>m. a = Stored m)"
| "mm_fits (MmAccount r) (Resolved a) = (\<exists>ms. a = MmList ms)"
| "mm_fits (MmScoped i r) (Resolved a) = (a = MmDone)"

definition manage_component where
  "manage_component rethrows start = \<lparr>c_mount = (\<lambda>s. idle start), c_event = mm_on, c_resume = mm_resume rethrows,
     c_timer = mm_timer, c_effect = (\<lambda>old s. idle s), c_fits = mm_fits\<rparr>"

lemma manage_component_simps [simp]:
  "c_mount (manage_component r st) = (\<lambda>s. idle st)" "c_event (manage_component r st) = mm_on" "c_resume (manage_component r st) = mm_resume r"
  "c_timer (manage_component r st) = mm_timer" "c_effect (manage_component r st) = (\<lambda>old s. idle s)"
  "c_fits (manage_component r st) = mm_fits"
  by (simp_all add: manage_component_def)

section \<open>Lemmas\<close>

definition values_ok :: "merchant_base \<Rightarrow> bool" where
  "values_ok v \<longleftrightarrow> mb_name v \<noteq> [] \<and> (\<exists>u. mb_website v = linkPrefix @ u \<and> validateLink True (Some u))"

fun mm_typed :: "mm_request \<Rightarrow> mm_cont \<Rightarrow> bool" where
  "mm_typed (MmAccount (StoreMerchant v)) k = (values_ok v \<and> (\<exists>n f. k = CreateAnswer n f))"
| "mm_typed (MmAccount ListMerchants) k = ((\<exists>i. k = ResetList i) \<or> (\<exists>a ms. k = DeleteList a ms))"
| "mm_typed (MmScoped i (UpdateMerchant v)) k = (values_ok v \<and> (\<exists>n f. k = EditAnswer n f))"
| "mm_typed (MmScoped i DeleteMerchant) k = (\<exists>a ms. k = DeleteAnswer a ms)"
| "mm_typed q k = False"

lemma form_values_ok: "merchant_rules v \<Longrightarrow> values_ok (form_values v)"
  by (auto simp: merchant_rules_def values_ok_def form_values_def)

lemmas mm_pieces = idle_def start_reset_def resetValues_def reset_ends_def uploadCreatedMerchant_def uploadEditedMerchant_def
  submission_ended_def onConfirmDeleteMerchant_def show_list_def onEdit_def mount_form_def Let_def

lemma submit_form_ok:
  "typed mm_typed (submit_form s) \<and> waits mm_creating (\<lambda>k. \<exists>n f. k = CreateAnswer n f) (mm_creating s) (submit_form s)"
  using form_values_ok [of "mm_form s"] by (auto simp: submit_form_def mm_pieces split: option.split)

lemma mm_run_ok:
  "typed mm_typed (mm_run h s) \<and> waits mm_creating (\<lambda>k. \<exists>n f. k = CreateAnswer n f) (mm_creating s) (mm_run h s)"
  using submit_form_ok [of s] by (cases h) (auto simp: mm_pieces split: option.split)

lemma mm_on_ok:
  "typed mm_typed (mm_on v s) \<and> waits mm_creating (\<lambda>k. \<exists>n f. k = CreateAnswer n f) (mm_creating s) (mm_on v s)"
  using mm_run_ok by (cases v) (auto simp: idle_def)

lemma merchant_created_ok:
  "typed mm_typed (merchant_created n f a s) \<and> \<not> mm_creating (fst (merchant_created n f a s))"
  by (cases a) (auto simp: mm_pieces)

lemma reset_list_ok: "typed mm_typed (reset_list i a s) \<and> mm_creating (fst (reset_list i a s)) = mm_creating s"
  by (cases "(i, a, s)" rule: reset_list.cases) (auto simp: mm_pieces)

lemma after_deletion_ok: "typed mm_typed (after_deletion m ms a s) \<and> mm_creating (fst (after_deletion m ms a s)) = mm_creating s"
  by (cases "(m, ms, a, s)" rule: after_deletion.cases) (auto simp: mm_pieces)

lemma mm_resume_ok:
  "typed mm_typed (mm_resume r k a s)
   \<and> waits mm_creating (\<lambda>k. \<exists>n f. k = CreateAnswer n f) (mm_creating s \<and> \<not> (\<exists>n f. k = CreateAnswer n f)) (mm_resume r k a s)"
proof (cases k)
  case (CreateAnswer n f)
  then show ?thesis using merchant_created_ok by (simp add: waits_def)
next
  case (EditAnswer n f)
  then show ?thesis by (cases "through_hook r a") (auto simp: mm_pieces)
next
  case (ResetList i)
  then show ?thesis using reset_list_ok by (simp add: waits_def)
next
  case (DeleteAnswer m ms)
  then show ?thesis by (cases a) (auto simp: mm_pieces)
next
  case (DeleteList m ms)
  then show ?thesis using after_deletion_ok by (simp add: waits_def)
qed (simp_all add: mm_pieces)

lemma mm_timer_ok:
  "typed mm_typed (mm_timer k s) \<and> waits mm_creating (\<lambda>k. \<exists>n f. k = CreateAnswer n f) (mm_creating s) (mm_timer k s)"
  by (cases k) (auto simp: mm_pieces)

interpretation manage: waiting_page "manage_component rethrows (fresh_manage ms sel)" mm_typed mm_creating
    "\<lambda>k. \<exists>n f. k = CreateAnswer n f" for rethrows ms sel
  by unfold_locales (use mm_on_ok mm_resume_ok mm_timer_ok in \<open>simp_all add: fresh_manage_def\<close>)

section \<open>Properties\<close>

text \<open>What is stored of a merchant is complete: in every run each request under way that creates or changes
  a merchant carries a name, and as website the fixed scheme before a value that the input of links accepts.\<close>

lemma merchant_stored_complete:
  assumes "areach (manage_component rethrows (fresh_manage ms sel)) S w"
    and "(q, k) \<in> set (pending w)" and "q = MmAccount (StoreMerchant v) \<or> q = MmScoped i (UpdateMerchant v)"
  shows "mb_name v \<noteq> [] \<and> (\<exists>u. mb_website v = linkPrefix @ u \<and> validateLink True (Some u))"
  using manage.well_typed [OF assms(1,2)] assms(3) by (auto simp: values_ok_def)

text \<open>C35. Opening a merchant and saving it as it is stores it as it was: when the website of a merchant of the list is a
  secure link whose rest the form accepts, and its name is not empty, a press on its button for editing and a
  press on the button of the form send one request, which updates that merchant, by its identifier, with its own name
  and website. The form is the only place that has the whole website then: in the list the merchant has lost
  the scheme, and the other merchants are as they were.\<close>

theorem merchant_edit_round_trip:
  assumes "mm_merchants s = Some ms" and "a \<in> set ms" and "a < length (mm_store s)"
    and "\<not> isAddOpen s" and "\<not> isEditOpen s" and "\<not> mm_submitting s"
    and "prefix linkPrefix (mb_website (merchant_at s a))" and "mb_name (merchant_at s a) \<noteq> []"
    and "validateLink True (Some (drop 8 (mb_website (merchant_at s a))))"
  shows "let t = fst (mm_on (MmAct (HEdit a)) s); m = merchant_at s a
    in snd (mm_on (MmAct (HEdit a)) s) = []
      \<and> snd (mm_on (MmAct HSubmitForm) t)
        = [Await (MmScoped (m_id m) (UpdateMerchant \<lparr>mb_name = mb_name m, mb_website = mb_website m\<rparr>)) (EditAnswer (mb_name m) (mm_mount t))]
      \<and> mb_website (merchant_at t a) = drop 8 (mb_website m) \<and> m_id (merchant_at t a) = m_id m
      \<and> (\<forall>b. b \<noteq> a \<longrightarrow> merchant_at t b = merchant_at s b)"
proof -
  let ?m = "merchant_at s a"
  have cut: "slice_from (mb_website ?m) 8 = drop 8 (mb_website ?m)"
    by (simp add: slice_from_def clamp_index_def min_def)
  have "HEdit a \<in> set (handlers_of (manage_view s))"
    using assms(1,2,4,5) by (force simp: manage_view_def handlers_of_map merchant_card_def Let_def CustomCard_def isAnyFormOpen_def)
  then have e: "mm_on (MmAct (HEdit a)) s = idle (onEdit a s)" by simp
  have m: "mm_form (onEdit a s) = \<lparr>mb_name = mb_name ?m, mb_website = drop 8 (mb_website ?m)\<rparr>"
    using assms(3) by (simp add: onEdit_def mount_form_def Let_def merchant_at_def merchant_base.truncate_def cut [unfolded merchant_at_def])
  have t: "isEditOpen (onEdit a s)" "activeMerchant (onEdit a s) = Some a" "\<not> mm_submitting (onEdit a s)"
    "m_id (merchant_at (onEdit a s) a) = m_id ?m" "mb_website (merchant_at (onEdit a s) a) = drop 8 (mb_website ?m)"
    "\<forall>b. b \<noteq> a \<longrightarrow> merchant_at (onEdit a s) b = merchant_at s b"
    using assms(3,6) cut by (simp_all add: onEdit_def mount_form_def Let_def merchant_at_def)
  have "HSubmitForm \<in> set (handlers_of (manage_view (onEdit a s)))"
    using t(1) by (simp add: manage_view_def overlay_handlers MerchantForm_def)
  moreover have "merchant_rules (mm_form (onEdit a s))" using assms(8,9) by (simp add: merchant_rules_def m)
  moreover have "form_values (mm_form (onEdit a s)) = \<lparr>mb_name = mb_name ?m, mb_website = mb_website ?m\<rparr>"
    using assms(7) by (auto simp: form_values_def m prefix_def linkPrefix_def)
  ultimately show ?thesis unfolding Let_def e using t
    by (simp add: idle_def submit_form_def uploadEditedMerchant_def)
qed

text \<open>The form cuts the scheme off the merchant in the list itself. Each opening cuts again, so that a merchant
  that was opened and closed loses eight more letters of its website the next time, and the card shows it.\<close>

lemma opening_cuts:
  assumes "a < length (mm_store s)"
  shows "mb_website (merchant_at (onEdit a s) a) = slice_from (mb_website (merchant_at s a)) 8"
    and "mb_website (mm_form (onEdit a s)) = slice_from (mb_website (merchant_at s a)) 8"
  using assms by (simp_all add: onEdit_def mount_form_def Let_def merchant_at_def merchant_base.truncate_def)

lemma second_opening:
  assumes "a < length (mm_store s)"
  shows "mb_website (mm_form (onEdit a (fst (mm_run HCancelForm (onEdit a s))))) = drop 16 (mb_website (merchant_at s a))"
  using assms
  by (simp add: onEdit_def mount_form_def Let_def merchant_at_def merchant_base.truncate_def idle_def slice_from_def clamp_index_def min_def)

text \<open>A hook that returns what was thrown makes a failed creation look like a success: the user is welcomed
  and the selection is lost. With a hook that throws, the form is only freed.\<close>

lemma failed_creation_welcomed:
  "Emit (MmNotify ''Welcome to CryptoLink'' (''Hello, '' @ n @ ''!'')) \<in> set (snd (mm_resume False (CreateAnswer n f) (Rejected e) s))"
  "merchantId (mm_selected (fst (mm_resume False (CreateAnswer n f) (Rejected e) s))) = None"
  "mm_resume True (CreateAnswer n f) (Rejected e) s = (s\<lparr>mm_creating := False, mm_submitting := False\<rparr>, [])"
  by (simp_all add: start_reset_def setMerchantId_def idle_def)

text \<open>Deleting a merchant moves the selection to the first other one, whichever was selected.\<close>

lemma deletion_moves_selection:
  assumes "mm_merchants s = Some ms" and "ms = b # rest" and "m_id (merchant_at s b) \<noteq> m_id (merchant_at s a)"
  shows "merchantId (mm_selected (fst (mm_resume r (DeleteList a ms) (Resolved (MmList new)) s))) = Some (m_id (merchant_at s b))"
  using assms by (simp add: Let_def setMerchantId_def find_first_def show_list_def)

definition sample_merchant :: merchant where
  "sample_merchant = \<lparr>mb_name = ''Shop'', mb_website = ''https://shop.io/a'', m_id = ''m1'', m_settings = [], m_fiatCurrency = [],
     m_fiatCurrencySymbol = [], m_webhookSettings = \<lparr>wh_secret = None, wh_url = []\<rparr>, supportedPaymentMethods = []\<rparr>"

definition sample_manage :: manage_page where
  "sample_manage = fresh_manage (Some [sample_merchant]) \<lparr>merchantId = None, browser_of = \<lparr>store = Map.empty, available = True, quota = None\<rparr>\<rparr>"

theorem merchant_edit_round_trip_witness:
  "\<exists>k. snd (mm_on (MmAct HSubmitForm) (fst (mm_on (MmAct (HEdit 0)) sample_manage)))
    = [Await (MmScoped ''m1'' (UpdateMerchant \<lparr>mb_name = ''Shop'', mb_website = ''https://shop.io/a''\<rparr>)) k]"
proof -
  have "merchant_at sample_manage 0 = sample_merchant" by (simp add: sample_manage_def fresh_manage_def merchant_at_def)
  then show ?thesis using merchant_edit_round_trip [of sample_manage "[0]" 0] link_example(1)
    by (simp add: sample_manage_def fresh_manage_def sample_merchant_def linkPrefix_def Let_def)
qed

lemma merchant_stored_complete_example:
  "\<exists>w v k. areach (manage_component False sample_manage) (\<lambda>s. True) w \<and> (MmAccount (StoreMerchant v), k) \<in> set (pending w)
     \<and> mb_name v \<noteq> [] \<and> mb_website v = ''https://shop.io/a''"
proof -
  let ?c = "manage_component False sample_manage"
  define v where "v = \<lparr>mb_name = ''Shop'', mb_website = ''shop.io/a''\<rparr>"
  define w0 where "w0 = initial ?c sample_manage"
  define w1 where "w1 = do_event ?c (MmAct HCreateMerchant) w0"
  define w2 where "w2 = do_event ?c (MmFill v) w1"
  define w3 where "w3 = do_event ?c (MmAct HSubmitForm) w2"
  have w0: "wst w0 = sample_manage" by (simp add: w0_def mount_run idle_def)
  have "HCreateMerchant \<in> set (handlers_of (manage_view sample_manage))"
    by (simp add: manage_view_def manage_header_def isTableLoading_def sample_manage_def fresh_manage_def when_ui_def merchant_card_def
        Let_def CustomCard_def)
  then have w1: "wst w1 = sample_manage\<lparr>isAddOpen := True, mm_form := empty_merchant_form, mm_mount := 1\<rparr>"
    by (simp add: w1_def event_run w0 idle_def sample_manage_def fresh_manage_def)
  have w2: "wst w2 = sample_manage\<lparr>isAddOpen := True, mm_form := v, mm_mount := 1\<rparr>"
    by (simp add: w2_def event_run w1 isAnyFormOpen_def idle_def)
  have "HSubmitForm \<in> set (handlers_of (manage_view (wst w2)))"
    by (simp add: w2 manage_view_def overlay_handlers MerchantForm_def)
  moreover have "merchant_rules v" using link_example(1) by (simp add: merchant_rules_def v_def)
  ultimately have p: "(MmAccount (StoreMerchant (form_values v)), CreateAnswer ''Shop'' 1) \<in> set (pending w3)"
    by (simp add: w3_def event_run(2) w2 submit_form_def sample_manage_def fresh_manage_def uploadCreatedMerchant_def form_values_def v_def)
  have "areach ?c (\<lambda>s. True) w0" unfolding w0_def by (rule areach.start) simp
  then have "areach ?c (\<lambda>s. True) w3" unfolding w3_def w2_def w1_def by (intro event_reach)
  moreover from this merchant_stored_complete [OF this [unfolded sample_manage_def] p disjI1 [OF refl]]
  have "mb_name (form_values v) \<noteq> []" by blast
  ultimately show ?thesis using p by (intro exI [of _ w3] exI [of _ "form_values v"]) (auto simp: form_values_def v_def linkPrefix_def)
qed

end
