(* ===== verification/Payment_Links.thy ===== *)
theory Payment_Links
  imports Form_Kit
begin

text \<open>
  The page of payment links (ui-dashboard/src/pages/payment-links-page/payments-links-page.tsx) with its form
  (ui-dashboard/src/components/payment-link-create/payment-link-create.tsx) and card
  (ui-dashboard/src/components/payment-link-desc-card/payment-link-desc-card.tsx), as an asynchronous
  component. The data of the list and what its hooks say of their loading are an input that an event of its own
  changes; the orders to the hook of the list are effects.
\<close>

section \<open>State\<close>

text \<open>The state of the form: the values of its fields, with the address without its scheme, and the action
  that is chosen next to them.\<close>

(* src: ui-dashboard/src/pages/payment-links-page/payments-links-page.tsx 20-29 PaymentLinksPage *)
record links_page =
  lks_merchantId :: "string option"
  lks_data :: "dash_link list option"
  lks_isLoading :: bool
  lks_creating :: bool
  lks_deleting :: bool
  lks_formOpen :: bool
  lks_openedCard :: "dash_link list"
  lks_submitting :: bool
  lks_form :: link_params
  linkAction :: link_action
  lks_confirms :: "string list"

datatype lks_cont =
    LkMountRefetch | LkCreateAnswer | LkCreatedWait | LkResetFields | LkDeleteAnswer | LkDeletedWait | LkCopied

datatype lks_request = LkScoped string scoped_request | LkCopy string

datatype lks_effect =
    LkRefetch | LkRemove | LkInvalidate "string list" | LkNotify string string

type_synonym lks_outcome = "(links_page, lks_request, lks_cont, lks_effect) outcome"

type_synonym lks_reply = "(unit, unit) reply"

definition empty_link :: "string \<Rightarrow> link_params" where
  "empty_link code = \<lparr>lk_currency = code, lk_description = None, lk_name = [], lk_price = NaN, lk_redirectUrl = None,
     lk_successAction = LShowMessage, lk_successMessage = None\<rparr>"

text \<open>\<open>listPaymentLinks.isLoading || createPaymentLink.isLoading || ...\<close>\<close>

(* src: ui-dashboard/src/pages/payment-links-page/payments-links-page.tsx 31-35 isLoading *)
definition lks_busy :: "links_page \<Rightarrow> bool" where
  "lks_busy s \<longleftrightarrow> lks_isLoading s \<or> lks_creating s \<or> lks_deleting s"

section \<open>The form\<close>

(* src: ui-dashboard/src/components/payment-link-create/payment-link-create.tsx 25-36 onSubmit *)
definition link_values :: "link_action \<Rightarrow> link_params \<Rightarrow> link_params" where
  "link_values action v =
     (if action = LRedirect
      then v\<lparr>lk_redirectUrl := Some (linkPrefix @ template (lk_redirectUrl v)), lk_successMessage := None, lk_successAction := action\<rparr>
      else v\<lparr>lk_redirectUrl := None, lk_successAction := action\<rparr>)"

text \<open>The rules of the fields that are mounted.\<close>

(* src: ui-dashboard/src/components/payment-link-create/payment-link-create.tsx 47-113 rules *)
definition link_rules :: "link_action \<Rightarrow> link_params \<Rightarrow> bool" where
  "link_rules action v \<longleftrightarrow> lk_name v \<noteq> [] \<and> is_finite (lk_price v)
     \<and> (if action = LRedirect then validateLink True (lk_redirectUrl v) else truthy (lk_successMessage v))"

datatype lks_handler =
    HNewLink | HRowLink dash_link | HCopyLink string | HDeleteLink string | HConfirmDeleteLink string | HDismissLink string
  | HSubmitLink | HCancelLink | HCloseLinkForm | HCloseLinkCard | HChooseAction

(* src: ui-dashboard/src/components/payment-link-create/payment-link-create.tsx 45-129 Form *)
definition PaymentLinkForm :: "string \<Rightarrow> link_action \<Rightarrow> bool \<Rightarrow> lks_handler ui" where
  "PaymentLinkForm code action isFormSubmitting =
     El ''Form'' [] [(''onFinish'', HSubmitLink)]
       ([required_item ''Name'' ''name'' [comp ''Input'' [(''placeholder'', ''My new link'')]],
         required_item ''Price'' ''price'' [comp ''InputNumber'' [(''precision'', ''2''), (''min'', ''0''), (''max'', show_nat (10 ^ 7))]],
         El ''Form.Item'' [(''name'', ''currency''), (''initialValue'', code)] [] [wrap ''Select'' (map (\<lambda>(c, i). leaf ''option'' c) FIAT_CURRENCIES)],
         El ''Form.Item'' [(''label'', ''Description''), (''name'', ''description'')] [] [comp ''Input.TextArea'' [(''placeholder'', ''Your description'')]],
         El ''Form.Item'' [(''label'', ''Choose action after payment'')] []
           [El ''Select'' [] [(''onChange'', HChooseAction)] [leaf ''option'' ''Show message'', leaf ''option'' ''Redirect customer'']],
         if action = LRedirect then LinkInput ''your-store.com/success'' ''Customer redirect URL'' ''redirectUrl'' True
         else required_item ''Success message'' ''successMessage'' [comp ''Input.TextArea'' [(''placeholder'', ''Your description'')]]]
        @ form_buttons ''Save'' isFormSubmitting HCancelLink)"

section \<open>Operations\<close>

(* src: ui-dashboard/src/pages/payment-links-page/payments-links-page.tsx 46-49 deleteSelectedLink *)
definition deleteSelectedLink :: "string \<Rightarrow> links_page \<Rightarrow> lks_outcome" where
  "deleteSelectedLink i s =
     (s\<lparr>lks_submitting := True\<rparr>,
      [Await (LkScoped (merchant_id_text (lks_merchantId s)) (mu_request deletePaymentLink i)) LkDeleteAnswer])"

fun link_deleted :: "lks_reply \<Rightarrow> links_page \<Rightarrow> lks_outcome" where
  "link_deleted (Resolved a) s = (s, [After (mu_wait deletePaymentLink) LkDeletedWait])"
| "link_deleted (Rejected e) s = idle (s\<lparr>lks_submitting := False\<rparr>)"

(* src: ui-dashboard/src/pages/payment-links-page/payments-links-page.tsx 49-57 deleted *)
definition deletion_over :: "links_page \<Rightarrow> lks_outcome" where
  "deletion_over s =
     (s\<lparr>lks_formOpen := False, lks_submitting := False\<rparr>,
      [Emit (LkInvalidate (mu_invalidates deletePaymentLink)), Emit (LkNotify ''Payment Link was successfully deleted'' [])])"

(* src: ui-dashboard/src/pages/payment-links-page/payments-links-page.tsx 130-135 useMount *)
definition links_mounted :: "links_page \<Rightarrow> lks_outcome" where
  "links_mounted s = (if truthy (lks_merchantId s) then (s, [After 1000 LkMountRefetch]) else idle s)"

(* src: ui-dashboard/src/pages/payment-links-page/payments-links-page.tsx 140-144 refetch *)
definition links_merchant_changed :: "links_page \<Rightarrow> lks_outcome" where
  "links_merchant_changed s = (if truthy (lks_merchantId s) then (s, [Emit LkRefetch]) else idle s)"

(* src: ui-dashboard/src/pages/payment-links-page/payments-links-page.tsx 146-149 uploadCreatedPaymentLink *)
definition uploadCreatedPaymentLink :: "link_params \<Rightarrow> links_page \<Rightarrow> lks_outcome" where
  "uploadCreatedPaymentLink v s =
     (s\<lparr>lks_submitting := True\<rparr>,
      [Await (LkScoped (merchant_id_text (lks_merchantId s)) (mu_request createPaymentLink v)) LkCreateAnswer])"

fun link_create_answer :: "lks_reply \<Rightarrow> links_page \<Rightarrow> lks_outcome" where
  "link_create_answer (Resolved a) s = (s, [After (mu_wait createPaymentLink) LkCreatedWait])"
| "link_create_answer (Rejected e) s = idle (s\<lparr>lks_submitting := False\<rparr>)"

(* src: ui-dashboard/src/pages/payment-links-page/payments-links-page.tsx 149-153 setFormOpen *)
definition link_created :: "links_page \<Rightarrow> lks_outcome" where
  "link_created s =
     (s\<lparr>lks_formOpen := False\<rparr>,
      [Emit (LkInvalidate (mu_invalidates createPaymentLink)), Emit (LkNotify ''Payment Link was created'' []), After 1000 LkResetFields])"

text \<open>The fields that are reset are those of the form that was submitted: the drawer has closed since and
  destroyed it, and a form that is open now is another one.\<close>

(* src: ui-dashboard/src/pages/payment-links-page/payments-links-page.tsx 153-160 finally *)
definition link_submission_over :: "links_page \<Rightarrow> lks_outcome" where
  "link_submission_over s = idle (s\<lparr>lks_submitting := False\<rparr>)"

section \<open>What the page shows\<close>

text \<open>The price of a link: in the list, and on its card, where the symbol is not asked for first.\<close>

(* src: ui-dashboard/src/pages/payment-links-page/payments-links-page.tsx 94-96 CURRENCY_SYMBOL *)
definition link_price :: "dash_link \<Rightarrow> string" where
  "link_price r = (case CURRENCY_SYMBOL (lk_currency r) of None \<Rightarrow> [] | Some c \<Rightarrow> c) @ num_str (lk_price r)"

(* src: ui-dashboard/src/components/payment-link-desc-card/payment-link-desc-card.tsx 49-51 CURRENCY_SYMBOL *)
definition card_link_price :: "dash_link \<Rightarrow> string" where
  "card_link_price r = template (CURRENCY_SYMBOL (lk_currency r)) @ num_str (lk_price r)"

(* src: ui-dashboard/src/pages/payment-links-page/payments-links-page.tsx 59-128 columns *)
definition link_columns :: "(string \<Rightarrow> string) \<Rightarrow> (string \<Rightarrow> string) \<Rightarrow> (dash_link, lks_handler) column list" where
  "link_columns local utc =
     [(''Created At'', \<lambda>r. [TimeLabel local utc (lk_createdAt r)]),
      (''URL'', \<lambda>r. [El ''Space'' [] [(''onClick'', HCopyLink (lk_url r))] [leaf ''span'' (lk_url r)]]),
      (''Name'', \<lambda>r. [leaf ''span'' (lk_name r)]),
      (''Price'', \<lambda>r. [Txt (link_price r),
         El ''Dropdown'' [] [] [El ''Space'' [] [(''onClick'', HDeleteLink (lk_id r))] [leaf ''span'' ''Delete'']]])]"

(* src: ui-dashboard/src/components/payment-link-desc-card/payment-link-desc-card.tsx 37-88 Descriptions *)
definition PaymentLinkDescCard :: "(string \<Rightarrow> string) \<Rightarrow> (string \<Rightarrow> string) \<Rightarrow> dash_link option \<Rightarrow> lks_handler ui list" where
  "PaymentLinkDescCard local utc data =
     (case data of None \<Rightarrow> [comp ''Spin'' []]
      | Some d \<Rightarrow>
          [leaf ''ID'' (lk_id d), wrap ''Created at'' [TimeLabel local utc (lk_createdAt d)], leaf ''Price'' (card_link_price d),
           leaf ''Description'' (case lk_description d of None \<Rightarrow> ''Not provided'' | Some t \<Rightarrow> t),
           wrap ''URL'' [leaf ''span'' (lk_url d), El ''CopyOutlined'' [] [(''onClick'', HCopyLink (lk_url d))] []],
           leaf ''Action'' (if lk_successAction d = LRedirect then ''Redirect'' else ''Show message''),
           if lk_successAction d = LRedirect
           then leaf ''Redirect URL'' (case lk_redirectUrl d of None \<Rightarrow> ''Not provided'' | Some u \<Rightarrow> u)
           else leaf ''Success Message'' (case lk_successMessage d of None \<Rightarrow> ''Not provided'' | Some m \<Rightarrow> m)])"

definition rows_of_links :: "links_page \<Rightarrow> dash_link list" where
  "rows_of_links s = (case lks_data s of None \<Rightarrow> [] | Some ls \<Rightarrow> ls)"

text \<open>The table, and the clicks on its rows, which are the table's \<open>onRow\<close>.\<close>

definition links_table :: "(string \<Rightarrow> string) \<Rightarrow> (string \<Rightarrow> string) \<Rightarrow> links_page \<Rightarrow> lks_handler ui list" where
  "links_table local utc s =
     [data_table (lks_busy s) lk_id (link_columns local utc) (rows_of_links s)]
     @ map (\<lambda>r. El ''tr'' [(''key'', lk_id r)] [(''onClick'', HRowLink r)] []) (rows_of_links s)
     @ when_ui (rows_of_links s = []) [leaf ''Result'' ''Your payment links will be here'']"

(* src: ui-dashboard/src/pages/payment-links-page/payments-links-page.tsx 162-239 PageContainer *)
definition links_view :: "(string \<Rightarrow> string) \<Rightarrow> (string \<Rightarrow> string) \<Rightarrow> string \<Rightarrow> links_page \<Rightarrow> lks_handler ui list" where
  "links_view local utc code s =
     [leaf ''Title'' ''Payment Links'', El ''Button'' [] [(''onClick'', HNewLink)] [Txt ''New Payment Link''],
      leaf ''Alert'' ''Links are the easy way of accepting payments from your customers.'']
     @ links_table local utc s
     @ [DrawerForm ''Create a link'' (lks_formOpen s) HCloseLinkForm False [PaymentLinkForm code (linkAction s) (lks_submitting s)],
        DrawerForm ''Link details'' (lks_openedCard s \<noteq> []) HCloseLinkCard True
          (PaymentLinkDescCard local utc (case lks_openedCard s of [] \<Rightarrow> None | d # ds \<Rightarrow> Some d))]
     @ map (\<lambda>i. createConfirmPopup ''Delete the link'' ''Are you sure to delete this link?'' (HConfirmDeleteLink i) (HDismissLink i)) (lks_confirms s)"

section \<open>The component\<close>

datatype lks_event =
    LkAct lks_handler | LkFill link_params | LkChoose link_action | LkMerchant "string option" | LkList "dash_link list option" bool bool bool

text \<open>A new drawer mounts a new form, with the first action.\<close>

fun lks_run :: "string \<Rightarrow> lks_handler \<Rightarrow> links_page \<Rightarrow> lks_outcome" where
  "lks_run code HNewLink s = idle (if lks_formOpen s then s else s\<lparr>lks_formOpen := True, lks_form := empty_link code, linkAction := LShowMessage\<rparr>)"
| "lks_run code (HRowLink r) s = idle (s\<lparr>lks_openedCard := [r]\<rparr>)"
| "lks_run code (HCopyLink t) s = (s, [Await (LkCopy t) LkCopied])"
| "lks_run code (HDeleteLink i) s = idle (s\<lparr>lks_confirms := lks_confirms s @ [i]\<rparr>)"
| "lks_run code (HConfirmDeleteLink i) s = deleteSelectedLink i (s\<lparr>lks_confirms := remove1 i (lks_confirms s)\<rparr>)"
| "lks_run code (HDismissLink i) s = idle (s\<lparr>lks_confirms := remove1 i (lks_confirms s)\<rparr>)"
| "lks_run code HSubmitLink s =
     (if lks_submitting s \<or> \<not> link_rules (linkAction s) (lks_form s) then idle s
      else uploadCreatedPaymentLink (link_values (linkAction s) (lks_form s)) s)"
| "lks_run code HCancelLink s = idle (s\<lparr>lks_formOpen := False\<rparr>)"
| "lks_run code HCloseLinkForm s = idle (s\<lparr>lks_formOpen := False\<rparr>)"
| "lks_run code HCloseLinkCard s = idle (s\<lparr>lks_openedCard := []\<rparr>)"
| "lks_run code HChooseAction s = idle s"

fun lks_on :: "string \<Rightarrow> lks_event \<Rightarrow> links_page \<Rightarrow> lks_outcome" where
  "lks_on code (LkAct h) s = (if h \<in> set (handlers_of (links_view id id code s)) then lks_run code h s else idle s)"
| "lks_on code (LkFill v) s = idle (if lks_formOpen s then s\<lparr>lks_form := v\<rparr> else s)"
| "lks_on code (LkChoose a) s = idle (if lks_formOpen s then s\<lparr>linkAction := a\<rparr> else s)"
| "lks_on code (LkMerchant m) s = idle (s\<lparr>lks_merchantId := m\<rparr>)"
| "lks_on code (LkList ls loading c d) s = idle (s\<lparr>lks_data := ls, lks_isLoading := loading, lks_creating := c, lks_deleting := d\<rparr>)"

fun lks_resume :: "lks_cont \<Rightarrow> lks_reply \<Rightarrow> links_page \<Rightarrow> lks_outcome" where
  "lks_resume LkCreateAnswer a s = link_create_answer a s"
| "lks_resume LkDeleteAnswer a s = link_deleted a s"
| "lks_resume LkCopied a s = copy_answer id LkNotify a s"
| "lks_resume k a s = idle s"

(* src: ui-dashboard/src/pages/payment-links-page/payments-links-page.tsx 135-138 remove *)
fun lks_timer :: "string \<Rightarrow> lks_cont \<Rightarrow> links_page \<Rightarrow> lks_outcome" where
  "lks_timer code LkMountRefetch s = (s, [Emit LkRemove, Emit LkRefetch])"
| "lks_timer code LkCreatedWait s = link_created s"
| "lks_timer code LkResetFields s = link_submission_over s"
| "lks_timer code LkDeletedWait s = deletion_over s"
| "lks_timer code k s = idle s"

definition lks_effects :: "links_page \<Rightarrow> links_page \<Rightarrow> lks_outcome" where
  "lks_effects old s = (if lks_merchantId s = lks_merchantId old then idle s else links_merchant_changed s)"

definition fresh_links :: "string \<Rightarrow> string option \<Rightarrow> dash_link list option \<Rightarrow> links_page" where
  "fresh_links code m ls = \<lparr>lks_merchantId = m, lks_data = ls, lks_isLoading = (ls = None), lks_creating = False, lks_deleting = False,
     lks_formOpen = False, lks_openedCard = [], lks_submitting = False, lks_form = empty_link code, linkAction = LShowMessage, lks_confirms = []\<rparr>"

definition links_component where
  "links_component code = \<lparr>c_mount = (\<lambda>s. andThen (links_mounted (fresh_links code (lks_merchantId s) (lks_data s))) links_merchant_changed),
     c_event = lks_on code, c_resume = lks_resume, c_timer = lks_timer code, c_effect = lks_effects,
     c_fits = (\<lambda>(q :: lks_request) (r :: lks_reply). True)\<rparr>"

lemma links_component_simps [simp]:
  "c_mount (links_component code) = (\<lambda>s. andThen (links_mounted (fresh_links code (lks_merchantId s) (lks_data s))) links_merchant_changed)"
  "c_event (links_component code) = lks_on code" "c_resume (links_component code) = lks_resume"
  "c_timer (links_component code) = lks_timer code" "c_effect (links_component code) = lks_effects"
  "c_fits (links_component code) = (\<lambda>q r. True)"
  by (simp_all add: links_component_def)

section \<open>Lemmas\<close>

text \<open>What is stored of a link: its action and what belongs to it, and nothing of the other action.\<close>

definition link_complete :: "link_params \<Rightarrow> bool" where
  "link_complete v \<longleftrightarrow> lk_name v \<noteq> [] \<and> is_finite (lk_price v)
     \<and> (case lk_successAction v of
          LRedirect \<Rightarrow> (\<exists>u. lk_redirectUrl v = Some (linkPrefix @ u) \<and> validateLink True (Some u)) \<and> lk_successMessage v = None
        | LShowMessage \<Rightarrow> lk_redirectUrl v = None \<and> truthy (lk_successMessage v))"

lemma link_values_complete: "link_rules action v \<Longrightarrow> link_complete (link_values action v)"
  by (cases action; cases "lk_redirectUrl v")
    (auto simp: link_rules_def link_values_def link_complete_def validateLink_def template_def)

fun lks_typed :: "lks_request \<Rightarrow> lks_cont \<Rightarrow> bool" where
  "lks_typed (LkScoped m (LinkReq (CreatePaymentLink v))) k = (link_complete v \<and> k = LkCreateAnswer)"
| "lks_typed (LkScoped m (LinkReq (DeletePaymentLink i))) k = (k = LkDeleteAnswer)"
| "lks_typed (LkCopy t) k = (k = LkCopied)"
| "lks_typed q k = False"

abbreviation "lks_asks \<equiv> (\<lambda>k. k = LkCreateAnswer \<or> k = LkDeleteAnswer)"
abbreviation "lks_ticks \<equiv> (\<lambda>k. k = LkCreatedWait \<or> k = LkResetFields \<or> k = LkDeletedWait)"

lemmas lks_pieces = deleteSelectedLink_def deletion_over_def links_mounted_def links_merchant_changed_def
  uploadCreatedPaymentLink_def link_created_def link_submission_over_def idle_def lks_effects_def fresh_links_def
  createPaymentLink_def deletePaymentLink_def changing_def

lemma lks_run_ok: "well lks_typed (\<lambda>k. True) (lks_run code h s) \<and> busy lks_submitting lks_asks lks_ticks (lks_submitting s) (lks_run code h s)"
  using link_values_complete by (cases h) (auto simp: lks_pieces)

lemma lks_on_ok: "well lks_typed (\<lambda>k. True) (lks_on code v s) \<and> busy lks_submitting lks_asks lks_ticks (lks_submitting s) (lks_on code v s)"
  using lks_run_ok by (cases v) (auto simp: idle_def)

lemma lks_resume_ok:
  "well lks_typed (\<lambda>k. True) (lks_resume k a s) \<and> busy lks_submitting lks_asks lks_ticks (lks_submitting s \<and> \<not> lks_asks k) (lks_resume k a s)"
  by (cases k; cases a) (auto simp: lks_pieces)

lemma lks_timer_ok:
  "well lks_typed (\<lambda>k. True) (lks_timer code k s) \<and> busy lks_submitting lks_asks lks_ticks (lks_submitting s \<and> \<not> lks_ticks k) (lks_timer code k s)"
  by (cases k) (auto simp: lks_pieces)

interpretation links: busy_page "links_component code" lks_typed "\<lambda>k. True" lks_submitting lks_asks lks_ticks for code
  by unfold_locales (use lks_on_ok lks_resume_ok lks_timer_ok in \<open>auto simp: lks_pieces\<close>)

section \<open>Properties\<close>

text \<open>C13. What is stored of a payment link is complete and says one thing: in every run each creation under way
  carries a name and a price, and either the action to redirect with an accepted link behind the fixed scheme and
  no message, or the action to show a message with a message and no link.\<close>

theorem link_says_one_thing:
  assumes "areach (links_component code) S w" and "(LkScoped m (LinkReq (CreatePaymentLink v)), k) \<in> set (pending w)"
  shows "lk_name v \<noteq> [] \<and> is_finite (lk_price v)
    \<and> (lk_successAction v = LRedirect \<and> (\<exists>u. lk_redirectUrl v = Some (linkPrefix @ u) \<and> validateLink True (Some u)) \<and> lk_successMessage v = None
     \<or> lk_successAction v = LShowMessage \<and> lk_redirectUrl v = None \<and> truthy (lk_successMessage v))"
  using links.well_typed [OF assms] by (cases "lk_successAction v") (auto simp: link_complete_def)

text \<open>The form is freed: while it is locked, an answer or a timer of a submission or a deletion is under way.\<close>

lemma link_form_freed:
  assumes "areach (links_component code) S w" and "lks_submitting (wst w)"
  shows "(\<exists>(q, k) \<in> set (pending w). lks_asks k) \<or> (\<exists>(t, k) \<in> set (timers w). lks_ticks k)"
  using links.freed [OF assms] .

text \<open>The two renderings of a price agree on the currencies that have a symbol, and on no other: the card writes
  \<open>undefined\<close> there.\<close>

lemma link_prices_agree: "link_price r = card_link_price r \<longleftrightarrow> CURRENCY_SYMBOL (lk_currency r) \<noteq> None"
  by (auto simp: link_price_def card_link_price_def template_def split: option.split)

text \<open>A deletion closes the form in which a new link is being written.\<close>

lemma deletion_closes_form: "\<not> lks_formOpen (fst (lks_timer code LkDeletedWait s))"
  by (simp add: deletion_over_def)

theorem link_says_one_thing_witness:
  "\<exists>w v k. areach (links_component ''USD'') (\<lambda>s. True) w \<and> (LkScoped ''m1'' (LinkReq (CreatePaymentLink v)), k) \<in> set (pending w)
     \<and> lk_name v \<noteq> [] \<and> lk_redirectUrl v = Some ''https://shop.io/a''"
proof -
  let ?c = "links_component ''USD''"
  define v where "v = (empty_link ''USD'')\<lparr>lk_name := ''Tea'', lk_price := Fin 5, lk_redirectUrl := Some ''shop.io/a''\<rparr>"
  define w0 where "w0 = initial ?c (fresh_links ''USD'' (Some ''m1'') (Some []))"
  define w1 where "w1 = do_event ?c (LkAct HNewLink) w0"
  define w2 where "w2 = do_event ?c (LkChoose LRedirect) (do_event ?c (LkFill v) w1)"
  define w3 where "w3 = do_event ?c (LkAct HSubmitLink) w2"
  have r: "areach ?c (\<lambda>s. True) w3"
    unfolding w3_def w2_def w1_def w0_def by (intro event_reach areach.start) simp
  have w0: "wst w0 = fresh_links ''USD'' (Some ''m1'') (Some [])"
    by (simp add: w0_def mount_run links_mounted_def links_merchant_changed_def fresh_links_def)
  have d: "wst (do_event ?c e w) = fst (andThen (lks_on ''USD'' e (wst w)) (lks_effects (wst w)))" for e w
    by (simp add: do_event_def commit_wst)
  have w1: "wst w1 = (wst w0)\<lparr>lks_formOpen := True, linkAction := LShowMessage, lks_form := empty_link ''USD''\<rparr>"
    by (simp add: w1_def d links_view_def w0 lks_effects_def idle_def fresh_links_def)
  have w2: "wst w2 = (wst w1)\<lparr>lks_form := v, linkAction := LRedirect\<rparr>"
    by (simp add: w2_def d w1 w0 lks_effects_def idle_def fresh_links_def)
  have h: "HSubmitLink \<in> set (handlers_of (links_view id id ''USD'' (wst w2)))"
    by (simp add: links_view_def w2 w1 DrawerForm_def PaymentLinkForm_def when_ui_def)
  have "link_rules LRedirect v" using link_example(1) by (simp add: link_rules_def v_def empty_link_def is_finite_def)
  then have p: "(LkScoped ''m1'' (LinkReq (CreatePaymentLink (link_values LRedirect v))), LkCreateAnswer) \<in> set (pending w3)"
    using h by (simp add: w3_def do_event_def pending_commit w2 w1 w0 fresh_links_def uploadCreatedPaymentLink_def
        createPaymentLink_def changing_def merchant_id_text_def)
  have "lk_name (link_values LRedirect v) \<noteq> []" using link_says_one_thing [OF r p] by blast
  then show ?thesis using r p
    by (intro exI [of _ w3] exI [of _ "link_values LRedirect v"]) (auto simp: link_values_def v_def empty_link_def linkPrefix_def template_def)
qed

end
