(* ===== verification/Currencies_Page.thy ===== *)
theory Currencies_Page
  imports Form_Kit JS_Math "HOL-Library.AList" "HOL-Library.Sublist"
begin

text \<open>
  The page of currencies and fees (ui-dashboard/src/pages/currencies-page/currencies-page.tsx), as an
  asynchronous component. The merchant is the one of the shared hook
  (ui-dashboard/src/hooks/use-merchant.ts), whose loading is part of the page's own requests here.
\<close>

section \<open>State\<close>

record fee_settings =
  fs_preferredCurrency :: "string option"
  fs_globalFeePercentage :: "string option"
  fs_perCurrencyFees :: "(string \<times> string) list option"

(* src: ui-dashboard/src/pages/currencies-page/currencies-page.tsx 28-34 CurrencyRow *)
record currency_row =
  cr_ticker :: string
  cr_displayName :: string
  cr_blockchainName :: string
  cr_enabled :: bool
  feeOverride :: string

(* src: ui-dashboard/src/pages/currencies-page/currencies-page.tsx 36-49 CurrenciesPage *)
record fees_page =
  fp_merchant :: "merchant option"
  fp_merchantId :: "string option"
  preferredCurrency :: string
  globalFee :: "jsnum option"
  perCurrencyFees :: "(string \<times> string) list"
  feeSettings :: fee_settings
  fp_saving :: bool
  savingMethods :: bool

datatype fp_cont = MerchantRead "string option" | FeesRead | FeesSaved | MethodsSaved "string option" | MethodsRead

datatype fp_answer = GotMerchant merchant | GotFees fee_settings | FpDone

datatype fp_effect = FpInfo string | FpError string

type_synonym fp_outcome = "(fees_page, string \<times> merchant_request, fp_cont, fp_effect) outcome"

type_synonym fp_reply = "(fp_answer, unit) reply"

section \<open>Operations\<close>

(* src: ui-dashboard/src/pages/currencies-page/currencies-page.tsx 59-61 loadAll *)
definition loadAll :: "fees_page \<Rightarrow> fp_outcome" where
  "loadAll s =
     (if truthy (fp_merchantId s) then (s, [Await (the (fp_merchantId s), ShowMerchant) (MerchantRead (fp_merchantId s))]) else idle s)"

text \<open>\<open>getMerchant\<close>: what arrives becomes the shared merchant. A rejection ends the loading.\<close>

(* src: ui-dashboard/src/hooks/use-merchant.ts 14-18 getMerchant *)
fun merchant_read :: "string option \<Rightarrow> fp_reply \<Rightarrow> fees_page \<Rightarrow> fp_outcome" where
  "merchant_read i (Resolved (GotMerchant m)) s = (s\<lparr>fp_merchant := Some m\<rparr>, [Await (template i, GetFeeSettings) FeesRead])"
| "merchant_read i a s = idle s"

(* src: ui-dashboard/src/pages/currencies-page/currencies-page.tsx 61-67 setFeeSettings *)
fun fees_read :: "fp_reply \<Rightarrow> fees_page \<Rightarrow> fp_outcome" where
  "fees_read (Resolved (GotFees fs)) s =
     idle (s\<lparr>feeSettings := fs, preferredCurrency := or_else (fs_preferredCurrency fs) ''USD'',
       globalFee := (if truthy (fs_globalFeePercentage fs) then Some (parse_float (the (fs_globalFeePercentage fs))) else None)\<rparr>)"
| "fees_read a s = idle s"

text \<open>The overrides that are not empty, in order.\<close>

(* src: ui-dashboard/src/pages/currencies-page/currencies-page.tsx 80-83 fees *)
definition kept_fees :: "(string \<times> string) list \<Rightarrow> (string \<times> string) list" where
  "kept_fees ps = filter (\<lambda>(k, v). v \<noteq> []) ps"

(* src: ui-dashboard/src/pages/currencies-page/currencies-page.tsx 76-88 saveFeeSettings *)
definition saveFeeSettings :: "fees_page \<Rightarrow> fp_outcome" where
  "saveFeeSettings s =
     (if truthy (fp_merchantId s)
      then (s\<lparr>fp_saving := True\<rparr>,
        [Await (the (fp_merchantId s), UpdateFeeSettings (preferredCurrency s) (case globalFee s of None \<Rightarrow> [] | Some n \<Rightarrow> num_str n)
           (Some (kept_fees (perCurrencyFees s)))) FeesSaved])
      else idle s)"

(* src: ui-dashboard/src/pages/currencies-page/currencies-page.tsx 88-94 finally *)
fun fees_saved :: "fp_reply \<Rightarrow> fees_page \<Rightarrow> fp_outcome" where
  "fees_saved (Resolved a) s = (s\<lparr>fp_saving := False\<rparr>, [Emit (FpInfo ''Currencies & fees saved'')])"
| "fees_saved (Rejected e) s = (s\<lparr>fp_saving := False\<rparr>, [Emit (FpError ''Failed to save settings'')])"

(* src: ui-dashboard/src/pages/currencies-page/currencies-page.tsx 100-102 updated *)
definition switched :: "string \<Rightarrow> bool \<Rightarrow> dash_method list \<Rightarrow> dash_method list" where
  "switched ticker on ms = map (\<lambda>m. if dm_ticker m = ticker then m\<lparr>dm_enabled := on\<rparr> else m) ms"

definition enabled_tickers :: "dash_method list \<Rightarrow> string list" where
  "enabled_tickers ms = map dm_ticker (filter dm_enabled ms)"

(* src: ui-dashboard/src/pages/currencies-page/currencies-page.tsx 97-104 toggleCurrency *)
definition toggleCurrency :: "string \<Rightarrow> bool \<Rightarrow> fees_page \<Rightarrow> fp_outcome" where
  "toggleCurrency ticker on s =
     (case fp_merchant s of
        Some m \<Rightarrow>
          if truthy (fp_merchantId s)
          then (s\<lparr>savingMethods := True\<rparr>,
            [Await (the (fp_merchantId s), UpdateSupportedMethods (enabled_tickers (switched ticker on (supportedPaymentMethods m))))
               (MethodsSaved (fp_merchantId s))])
          else idle s
      | None \<Rightarrow> idle s)"

definition toggle_failed :: "fees_page \<Rightarrow> fp_outcome" where
  "toggle_failed s = (s\<lparr>savingMethods := False\<rparr>, [Emit (FpError ''Failed to update currency'')])"

(* src: ui-dashboard/src/pages/currencies-page/currencies-page.tsx 105-112 getMerchant *)
fun methods_saved :: "string option \<Rightarrow> fp_reply \<Rightarrow> fees_page \<Rightarrow> fp_outcome" where
  "methods_saved i (Resolved a) s = (s, [Await (template i, ShowMerchant) MethodsRead])"
| "methods_saved i (Rejected e) s = toggle_failed s"

fun methods_read :: "fp_reply \<Rightarrow> fees_page \<Rightarrow> fp_outcome" where
  "methods_read (Resolved (GotMerchant m)) s = idle (s\<lparr>fp_merchant := Some m, savingMethods := False\<rparr>)"
| "methods_read a s = toggle_failed s"

(* src: ui-dashboard/src/pages/currencies-page/currencies-page.tsx 173-178 setPerCurrencyFees *)
definition set_override :: "string \<Rightarrow> jsnum option \<Rightarrow> fees_page \<Rightarrow> fees_page" where
  "set_override ticker v s =
     s\<lparr>perCurrencyFees := AList.update ticker (case v of None \<Rightarrow> [] | Some n \<Rightarrow> num_str n) (perCurrencyFees s)\<rparr>"

section \<open>What the page shows\<close>

(* src: ui-dashboard/src/pages/currencies-page/currencies-page.tsx 114-120 currencyRows *)
definition currencyRows :: "fees_page \<Rightarrow> currency_row list" where
  "currencyRows s =
     map (\<lambda>m. \<lparr>cr_ticker = dm_ticker m, cr_displayName = dm_displayName m, cr_blockchainName = dm_blockchainName m, cr_enabled = dm_enabled m,
          feeOverride = (case map_of (perCurrencyFees s) (dm_ticker m) of Some v \<Rightarrow> v
            | None \<Rightarrow> (case Option.bind (fs_perCurrencyFees (feeSettings s)) (\<lambda>fs. map_of fs (dm_ticker m)) of None \<Rightarrow> [] | Some v \<Rightarrow> v))\<rparr>)
       (case fp_merchant s of None \<Rightarrow> [] | Some m \<Rightarrow> supportedPaymentMethods m)"

datatype fp_handler = HToggle string bool | HSetOverride string | HPreferred | HGlobalFee | HSaveFees

text \<open>The number that the input of an override shows.\<close>

(* src: ui-dashboard/src/pages/currencies-page/currencies-page.tsx 161-165 parseFloat *)
definition shown_override :: "fees_page \<Rightarrow> string \<Rightarrow> jsnum option" where
  "shown_override s ticker =
     (case map_of (perCurrencyFees s) ticker of None \<Rightarrow> None
      | Some v \<Rightarrow> (let n = parse_float v in if num_truthy n then Some n else None))"

definition number_attr :: "string \<Rightarrow> jsnum option \<Rightarrow> (string \<times> string) list" where
  "number_attr k v = (case v of None \<Rightarrow> [] | Some n \<Rightarrow> [(k, num_str n)])"

(* src: ui-dashboard/src/pages/currencies-page/currencies-page.tsx 122-182 columns *)
definition fee_columns :: "fees_page \<Rightarrow> (currency_row, fp_handler) column list" where
  "fee_columns s =
     [(''Currency'', \<lambda>r. [leaf ''Text'' (cr_displayName r), leaf ''Text'' (cr_blockchainName r)]),
      (''Accept payments'', \<lambda>r. [El ''Switch'' [(''checked'', bool_attr (cr_enabled r)), (''loading'', bool_attr (savingMethods s))]
         (when_ui (\<not> savingMethods s) [(''onChange'', HToggle (cr_ticker r) (\<not> cr_enabled r))]) []]),
      (''Fee override (%)'', \<lambda>r. [El ''InputNumber''
         (number_attr ''value'' (shown_override s (cr_ticker r)) @ [(''min'', ''0''), (''max'', ''100''),
           (''placeholder'', case globalFee s of None \<Rightarrow> ''Use global default'' | Some n \<Rightarrow> ''Default: '' @ num_str n @ ''%'')])
         [(''onChange'', HSetOverride (cr_ticker r))] []])]"

(* src: ui-dashboard/src/pages/currencies-page/currencies-page.tsx 191-238 Card *)
definition fee_cards :: "fees_page \<Rightarrow> fp_handler ui list" where
  "fee_cards s =
     [leaf ''Title'' ''Invoice Currency'',
      El ''Select'' [(''value'', preferredCurrency s)] [(''onChange'', HPreferred)] (map (\<lambda>(v, t). leaf ''option'' t) FIAT_CURRENCY_OPTIONS),
      leaf ''Title'' ''Volatility Buffer (Global)'',
      leaf ''Text'' (fiatSymbol (Some (preferredCurrency s)) @ ''100''), leaf ''Text'' (fiatSymbol (Some (preferredCurrency s)) @ ''100 + fee%''),
      El ''InputNumber'' (number_attr ''value'' (globalFee s) @ [(''min'', ''0''), (''max'', ''100'')]) [(''onChange'', HGlobalFee)] []]"

(* src: ui-dashboard/src/pages/currencies-page/currencies-page.tsx 184-272 PageContainer *)
definition fees_view :: "fees_page \<Rightarrow> fp_handler ui list" where
  "fees_view s =
     leaf ''Title'' ''Currencies & Fees'' # fee_cards s
     @ [leaf ''Title'' ''Per-Currency Settings'', data_table False cr_ticker (fee_columns s) (currencyRows s),
        button ''Save Settings'' (fp_saving s) HSaveFees]"

section \<open>The component\<close>

datatype fp_event =
    FpToggle string bool | FpOverride string "jsnum option" | FpPreferred string | FpGlobal "jsnum option" | FpSave | FpMerchant "string option"

text \<open>A button or switch that loads takes no clicks.\<close>

fun fp_on :: "fp_event \<Rightarrow> fees_page \<Rightarrow> fp_outcome" where
  "fp_on (FpToggle t on) s = (if HToggle t on \<in> set (handlers_of (fees_view s)) then toggleCurrency t on s else idle s)"
| "fp_on (FpOverride t v) s = (if HSetOverride t \<in> set (handlers_of (fees_view s)) then idle (set_override t v s) else idle s)"
| "fp_on (FpPreferred c) s = idle (s\<lparr>preferredCurrency := c\<rparr>)"
| "fp_on (FpGlobal v) s = idle (s\<lparr>globalFee := v\<rparr>)"
| "fp_on FpSave s = (if fp_saving s then idle s else saveFeeSettings s)"
| "fp_on (FpMerchant m) s = idle (s\<lparr>fp_merchantId := m\<rparr>)"

fun fp_resume :: "fp_cont \<Rightarrow> fp_reply \<Rightarrow> fees_page \<Rightarrow> fp_outcome" where
  "fp_resume (MerchantRead i) a s = merchant_read i a s"
| "fp_resume FeesRead a s = fees_read a s"
| "fp_resume FeesSaved a s = fees_saved a s"
| "fp_resume (MethodsSaved i) a s = methods_saved i a s"
| "fp_resume MethodsRead a s = methods_read a s"

(* src: ui-dashboard/src/pages/currencies-page/currencies-page.tsx 71-73 useEffect *)
definition fp_effects :: "fees_page \<Rightarrow> fees_page \<Rightarrow> fp_outcome" where
  "fp_effects old s = (if fp_merchantId s = fp_merchantId old then idle s else loadAll s)"

definition fresh_fees :: "merchant option \<Rightarrow> string option \<Rightarrow> fees_page" where
  "fresh_fees m i = \<lparr>fp_merchant = m, fp_merchantId = i, preferredCurrency = ''USD'', globalFee = None, perCurrencyFees = [],
     feeSettings = \<lparr>fs_preferredCurrency = Some ''USD'', fs_globalFeePercentage = Some [], fs_perCurrencyFees = None\<rparr>,
     fp_saving = False, savingMethods = False\<rparr>"

fun fp_fits :: "string \<times> merchant_request \<Rightarrow> fp_reply \<Rightarrow> bool" where
  "fp_fits q (Rejected e) = True"
| "fp_fits (i, ShowMerchant) (Resolved a) = (\<exists>m. a = GotMerchant m)"
| "fp_fits (i, GetFeeSettings) (Resolved a) = (\<exists>f. a = GotFees f)"
| "fp_fits (i, r) (Resolved a) = (a = FpDone)"

text \<open>Both the mount and the first run of the effect load.\<close>

definition fees_component where
  "fees_component = \<lparr>c_mount = (\<lambda>s. andThen (loadAll (fresh_fees (fp_merchant s) (fp_merchantId s))) loadAll),
     c_event = fp_on, c_resume = fp_resume, c_timer = (\<lambda>k s. idle s), c_effect = fp_effects, c_fits = fp_fits\<rparr>"

lemma fees_component_simps [simp]:
  "c_mount fees_component = (\<lambda>s. andThen (loadAll (fresh_fees (fp_merchant s) (fp_merchantId s))) loadAll)"
  "c_event fees_component = fp_on" "c_resume fees_component = fp_resume" "c_timer fees_component = (\<lambda>k s. idle s)"
  "c_effect fees_component = fp_effects" "c_fits fees_component = fp_fits"
  by (simp_all add: fees_component_def)

section \<open>Lemmas\<close>

fun fp_typed :: "string \<times> merchant_request \<Rightarrow> fp_cont \<Rightarrow> bool" where
  "fp_typed (i, ShowMerchant) k = ((\<exists>j. k = MerchantRead j) \<or> k = MethodsRead)"
| "fp_typed (i, GetFeeSettings) k = (k = FeesRead)"
| "fp_typed (i, UpdateFeeSettings c g p) k = (k = FeesSaved \<and> (\<exists>ps. p = Some ps \<and> (\<forall>(t, v) \<in> set ps. v \<noteq> [])))"
| "fp_typed (i, UpdateSupportedMethods ts) k = (\<exists>j. k = MethodsSaved j)"
| "fp_typed q k = False"

abbreviation "toggling \<equiv> (\<lambda>k. (\<exists>j. k = MethodsSaved j) \<or> k = MethodsRead)"

lemmas fp_pieces = loadAll_def saveFeeSettings_def toggleCurrency_def toggle_failed_def set_override_def idle_def fp_effects_def kept_fees_def

lemma toggle_ok:
  "well fp_typed (\<lambda>k. True) (toggleCurrency t v s) \<and> busy savingMethods toggling (\<lambda>k. False) (savingMethods s) (toggleCurrency t v s)"
  by (simp add: toggleCurrency_def split: option.split)

lemma fp_on_ok: "well fp_typed (\<lambda>k. True) (fp_on v s) \<and> busy savingMethods toggling (\<lambda>k. False) (savingMethods s) (fp_on v s)"
  using toggle_ok by (cases v) (auto simp: loadAll_def saveFeeSettings_def set_override_def kept_fees_def idle_def)

lemma fp_resume_ok:
  "fp_typed q k \<Longrightarrow> fp_fits q r \<Longrightarrow>
     well fp_typed (\<lambda>k. True) (fp_resume k r s) \<and> busy savingMethods toggling (\<lambda>k. False) (savingMethods s \<and> \<not> toggling k) (fp_resume k r s)"
  by (cases "(q, r)" rule: fp_fits.cases; cases k) (auto simp: fp_pieces)

lemma load_ok: "well fp_typed (\<lambda>k. True) (loadAll s) \<and> busy savingMethods toggling (\<lambda>k. False) (savingMethods s) (loadAll s)"
  by (simp add: loadAll_def)

interpretation fees: busy_page fees_component fp_typed "\<lambda>k. True" savingMethods toggling "\<lambda>k. False"
  by unfold_locales (use fp_on_ok fp_resume_ok load_ok in \<open>auto simp: fp_effects_def fresh_fees_def loadAll_def idle_def\<close>)

section \<open>Properties\<close>

text \<open>C25. A switch changes its own currency and no other: the list of tickers that is sent holds exactly the
  other currencies that were accepted, and the switched one if it was switched on, in the order of the merchant;
  the request goes to the selected merchant.\<close>

theorem toggle_changes_one:
  assumes "fp_merchant s = Some m" and "fp_merchantId s = Some i" and "i \<noteq> []"
  shows "\<exists>ts. snd (toggleCurrency t on s) = [Await (i, UpdateSupportedMethods ts) (MethodsSaved (Some i))]
    \<and> set ts = {dm_ticker x | x. x \<in> set (supportedPaymentMethods m) \<and> (if dm_ticker x = t then on else dm_enabled x)}
    \<and> subseq ts (map dm_ticker (supportedPaymentMethods m))"
proof -
  let ?ms = "supportedPaymentMethods m"
  have "enabled_tickers (switched t on xs) = map dm_ticker (filter (\<lambda>x. if dm_ticker x = t then on else dm_enabled x) xs)" for xs
    by (induction xs) (auto simp: enabled_tickers_def switched_def)
  moreover have "subseq (map dm_ticker (filter P ?ms)) (map dm_ticker ?ms)" for P by (intro subseq_map subseq_filter_left)
  ultimately show ?thesis using assms by (auto simp: toggleCurrency_def)
qed

text \<open>The switches are freed: while they load, the answer that ends it is under way.\<close>

lemma switches_freed:
  assumes "areach fees_component S w" and "savingMethods (wst w)"
  shows "\<exists>(q, k) \<in> set (pending w). toggling k"
  using fees.freed [OF assms] by auto

text \<open>Nothing that is read ever fills the overrides, and nothing clears them: those that were typed for one
  merchant are still there, and are sent, when another has been selected.\<close>

lemma reading_keeps_overrides:
  "perCurrencyFees (fst (fp_resume k a s)) = perCurrencyFees s"
proof (cases a)
  case (Resolved x)
  then show ?thesis by (cases k; cases x) (simp_all add: idle_def toggle_failed_def)
qed (cases k, simp_all add: idle_def toggle_failed_def)

lemma overrides_cross_merchants:
  assumes "v \<noteq> []" and "perCurrencyFees s = [(t, v)]" and "i \<noteq> []" and "\<not> fp_saving s"
  shows "\<exists>c g. snd (fp_on FpSave (fst (fp_on (FpMerchant (Some i)) s))) = [Await (i, UpdateFeeSettings c g (Some [(t, v)])) FeesSaved]"
  using assms by (simp add: saveFeeSettings_def kept_fees_def idle_def)

lemma num_str_zero: "num_str (Fin 0) = ''0''"
  by simp

text \<open>An override of zero is stored as a zero and shown as none.\<close>

lemma zero_override_hidden: "shown_override (set_override t (Some (Fin 0)) s) t = None"
  by (simp add: shown_override_def set_override_def update_conv' num_truthy_def parse_float_zero num_str_zero)

definition fee_method :: "string \<Rightarrow> dash_method" where
  "fee_method t = \<lparr>dm_blockchain = t, dm_blockchainName = t, dm_displayName = t, dm_enabled = True, dm_name = t, dm_ticker = t\<rparr>"

definition fee_merchant :: merchant where
  "fee_merchant = \<lparr>mb_name = ''Shop'', mb_website = ''https://shop.io'', m_id = ''m1'', m_settings = [], m_fiatCurrency = [],
     m_fiatCurrencySymbol = [], m_webhookSettings = \<lparr>wh_secret = None, wh_url = []\<rparr>,
     supportedPaymentMethods = [fee_method ''ETH'', fee_method ''BTC'']\<rparr>"

theorem toggle_changes_one_witness:
  "\<exists>ts. snd (toggleCurrency ''BTC'' False ((fresh_fees None (Some ''m1''))\<lparr>fp_merchant := Some fee_merchant\<rparr>))
       = [Await (''m1'', UpdateSupportedMethods ts) (MethodsSaved (Some ''m1''))] \<and> set ts = {''ETH''}"
proof -
  have "{dm_ticker x | x. x \<in> set (supportedPaymentMethods fee_merchant) \<and> (if dm_ticker x = ''BTC'' then False else dm_enabled x)} = {''ETH''}"
    by (rule set_eqI) (auto simp: fee_merchant_def fee_method_def intro: exI [of _ "fee_method ''ETH''"])
  then show ?thesis
    using toggle_changes_one [of "(fresh_fees None (Some ''m1''))\<lparr>fp_merchant := Some fee_merchant\<rparr>" fee_merchant "''m1''" "''BTC''" False]
    by (auto simp: fresh_fees_def)
qed

end
