(* ===== verification/Settings_Page.thy ===== *)
theory Settings_Page
  imports Currencies_Page
begin

text \<open>
  The settings of a merchant (ui-dashboard/src/pages/settings-page/settings-page.tsx) as one asynchronous
  component, since its parts share the merchant: the accepted currencies
  (ui-dashboard/src/components/payment-methods-select/payment-methods-select.tsx and
  ui-dashboard/src/components/payment-method-item/payment-method-item.tsx), the section for developers
  (ui-dashboard/src/components/developers-section/developers-section.tsx), and the tokens and webhooks
  (ui-dashboard/src/components/api-keys-section/api-keys-section.tsx,
  ui-dashboard/src/components/token-create-form/token-create-form.tsx and
  ui-dashboard/src/components/webhook-settings-form/webhook-settings-form.tsx).

  A click on a currency writes into the merchant that the hook shares. What the hooks say of their loading and the
  width of the window are inputs.
\<close>

section \<open>State\<close>

(* src: ui-dashboard/src/components/api-keys-section/api-keys-section.tsx 22-31 ApiKeysSection *)
record settings_page =
  st_merchantId :: "string option"
  st_merchant :: "merchant option"
  st_tokens :: "merchant_token list"
  st_loading :: bool
  isWebhookSettingsFormOpen :: bool
  isCreatingTokenFormOpen :: bool
  st_submitting :: bool
  st_tokenName :: string
  st_hook :: webhook_settings
  st_visible :: "string list"
  st_width :: "nat option"
  availableBlockchains :: "string list"
  methodsCall :: nat
  methodsLoading :: bool
  st_confirms :: "merchant_token list"

datatype st_cont =
    StMerchant | StMethods nat | StTokenAnswer string | StTokenWait string | StTokenReset
  | StHookAnswer "string option" | StHookWait "string option" | StHookMerchant | StDeleteAnswer merchant_token
  | StDeletedWait merchant_token | StCopied

datatype st_request = StScoped string scoped_request | StCopy string

datatype st_answer = StGot merchant | StDone

datatype st_effect = StRefetch | StInvalidate "string list" | StPopup string string

type_synonym st_outcome = "(settings_page, st_request, st_cont, st_effect) outcome"

type_synonym st_reply = "(st_answer, unit) reply"

definition empty_hook :: webhook_settings where
  "empty_hook = \<lparr>wh_secret = None, wh_url = []\<rparr>"

section \<open>The shared merchant\<close>

definition ask_merchant :: "string option \<Rightarrow> st_cont \<Rightarrow> (st_request, st_cont, st_effect) cmd" where
  "ask_merchant i k = Await (StScoped (merchant_id_text i) (MerchantReq ShowMerchant)) k"

text \<open>Each name once, at its first place.\<close>

definition once_each :: "'a list \<Rightarrow> 'a list" where
  "once_each xs = rev (remdups (rev xs))"

(* src: ui-dashboard/src/components/payment-methods-select/payment-methods-select.tsx 69-77 getBlockchainsList *)
definition getBlockchainsList :: "merchant option \<Rightarrow> string list" where
  "getBlockchainsList m = (case m of None \<Rightarrow> [] | Some x \<Rightarrow> once_each (map dm_blockchainName (supportedPaymentMethods x)))"

text \<open>The effect of the form of the webhook: the settings with the link without its scheme.\<close>

(* src: ui-dashboard/src/components/webhook-settings-form/webhook-settings-form.tsx 19-23 useEffect *)
definition hook_fields :: "merchant option \<Rightarrow> webhook_settings \<Rightarrow> webhook_settings" where
  "hook_fields m old =
     (case m of None \<Rightarrow> old | Some x \<Rightarrow> (m_webhookSettings x)\<lparr>wh_url := slice_from (wh_url (m_webhookSettings x)) 8\<rparr>)"

(* src: ui-dashboard/src/components/webhook-settings-form/webhook-settings-form.tsx 25-28 onSubmit *)
definition hook_values :: "webhook_settings \<Rightarrow> webhook_settings" where
  "hook_values v = v\<lparr>wh_url := linkPrefix @ wh_url v\<rparr>"

text \<open>A merchant that arrives is shared; the effects that depend on it run: the networks of the currencies, and the
  fields of the webhook if its form is open.\<close>

(* src: ui-dashboard/src/components/payment-methods-select/payment-methods-select.tsx 95-99 useEffect *)
definition merchant_arrives :: "merchant \<Rightarrow> settings_page \<Rightarrow> settings_page" where
  "merchant_arrives m s =
     s\<lparr>st_merchant := Some m, availableBlockchains := getBlockchainsList (Some m),
       st_hook := (if isWebhookSettingsFormOpen s then hook_fields (Some m) (st_hook s) else st_hook s)\<rparr>"

fun show_merchant :: "st_reply \<Rightarrow> settings_page \<Rightarrow> settings_page" where
  "show_merchant (Resolved (StGot m)) s = merchant_arrives m s"
| "show_merchant a s = s"

section \<open>Operations\<close>

(* src: ui-dashboard/src/components/payment-methods-select/payment-methods-select.tsx 79-85 updateMerchant *)
definition updateMerchant :: "settings_page \<Rightarrow> st_outcome" where
  "updateMerchant s = (if truthy (st_merchantId s) then (s, [ask_merchant (st_merchantId s) StMerchant]) else idle s)"

definition flip_method :: "dash_method \<Rightarrow> dash_method" where
  "flip_method m = m\<lparr>dm_enabled := \<not> dm_enabled m\<rparr>"

text \<open>The copy of the list holds the same objects: the method itself is switched.\<close>

(* src: ui-dashboard/src/components/payment-methods-select/payment-methods-select.tsx 29-31 newPaymentMethods *)
definition flip_first :: "string \<Rightarrow> dash_method list \<Rightarrow> dash_method list" where
  "flip_first ticker ms =
     (let i = length (takeWhile (\<lambda>m. dm_ticker m \<noteq> ticker) ms) in if i < length ms then ms[i := flip_method (ms ! i)] else ms)"

(* src: ui-dashboard/src/components/payment-methods-select/payment-methods-select.tsx 24-36 onChange *)
definition change_method :: "string \<Rightarrow> settings_page \<Rightarrow> st_outcome" where
  "change_method ticker s =
     (case st_merchant s of
        Some m \<Rightarrow>
          if truthy (st_merchantId s) \<and> ticker \<in> dm_ticker ` set (supportedPaymentMethods m)
          then let ms = flip_first ticker (supportedPaymentMethods m)
            in (s\<lparr>st_merchant := Some (m\<lparr>supportedPaymentMethods := ms\<rparr>), methodsCall := Suc (methodsCall s), methodsLoading := True\<rparr>,
                [Await (StScoped (the (st_merchantId s)) (MerchantReq (UpdateSupportedMethods (enabled_tickers ms))))
                   (StMethods (Suc (methodsCall s)))])
          else idle s
      | None \<Rightarrow> idle s)"

text \<open>The hook around the request: the answer of the last call, whatever it is, ends the loading.\<close>

definition methods_answered :: "nat \<Rightarrow> settings_page \<Rightarrow> settings_page" where
  "methods_answered i s = (if i = methodsCall s then s\<lparr>methodsLoading := False\<rparr> else s)"

(* src: ui-dashboard/src/components/api-keys-section/api-keys-section.tsx 35-37 deleteSelectedToken *)
definition deleteSelectedToken :: "merchant_token \<Rightarrow> settings_page \<Rightarrow> st_outcome" where
  "deleteSelectedToken t s =
     (s, [Await (StScoped (merchant_id_text (st_merchantId s)) (mu_request deleteToken (tok_id t))) (StDeleteAnswer t)])"

fun token_deleted :: "merchant_token \<Rightarrow> st_reply \<Rightarrow> settings_page \<Rightarrow> st_outcome" where
  "token_deleted t (Resolved a) s = (s, [After (mu_wait deleteToken) (StDeletedWait t)])"
| "token_deleted t (Rejected e) s = idle s"

(* src: ui-dashboard/src/components/api-keys-section/api-keys-section.tsx 37-42 deleted *)
definition token_gone :: "merchant_token \<Rightarrow> settings_page \<Rightarrow> st_outcome" where
  "token_gone t s =
     (s, [Emit (StInvalidate (mu_invalidates deleteToken)),
          Emit (StPopup ''Token has deleted'' (''Token '' @ tok_name t @ '' has been deleted''))])"

(* src: ui-dashboard/src/components/api-keys-section/api-keys-section.tsx 111-114 uploadCreatedToken *)
definition uploadCreatedToken :: "string \<Rightarrow> settings_page \<Rightarrow> st_outcome" where
  "uploadCreatedToken n s =
     (s\<lparr>st_submitting := True\<rparr>,
      [Await (StScoped (merchant_id_text (st_merchantId s)) (mu_request createToken n)) (StTokenAnswer n)])"

fun token_answer :: "string \<Rightarrow> st_reply \<Rightarrow> settings_page \<Rightarrow> st_outcome" where
  "token_answer n (Resolved a) s = (s, [After (mu_wait createToken) (StTokenWait n)])"
| "token_answer n (Rejected e) s = idle (s\<lparr>st_submitting := False\<rparr>)"

(* src: ui-dashboard/src/components/api-keys-section/api-keys-section.tsx 114-118 setIsCreatingTokenFormOpen *)
definition token_created :: "string \<Rightarrow> settings_page \<Rightarrow> st_outcome" where
  "token_created n s =
     (s\<lparr>isCreatingTokenFormOpen := False\<rparr>,
      [Emit (StInvalidate (mu_invalidates createToken)),
       Emit (StPopup ''Address has created'' (''You have created new address '' @ n)), After 1000 StTokenReset])"

text \<open>The drawer has destroyed the form whose fields are reset; the page is freed.\<close>

(* src: ui-dashboard/src/components/api-keys-section/api-keys-section.tsx 118-125 finally *)
definition settings_freed :: "settings_page \<Rightarrow> st_outcome" where
  "settings_freed s = idle (s\<lparr>st_submitting := False\<rparr>)"

(* src: ui-dashboard/src/components/api-keys-section/api-keys-section.tsx 127-130 updateWebhookSettings *)
definition updateWebhookSettings :: "webhook_settings \<Rightarrow> settings_page \<Rightarrow> st_outcome" where
  "updateWebhookSettings v s =
     (s\<lparr>st_submitting := True\<rparr>,
      [Await (StScoped (merchant_id_text (st_merchantId s)) (MerchantReq (UpdateMerchantWebhookSettings v))) (StHookAnswer (st_merchantId s))])"

(* src: ui-dashboard/src/components/api-keys-section/api-keys-section.tsx 130-134 setIsWebhookSettingsFormOpen *)
fun hook_answer :: "string option \<Rightarrow> st_reply \<Rightarrow> settings_page \<Rightarrow> st_outcome" where
  "hook_answer i (Resolved a) s =
     (s\<lparr>isWebhookSettingsFormOpen := False\<rparr>,
      [Emit (StPopup ''Webhooks settings has updated'' ''You have updated webhook settings''), After 1000 (StHookWait i)])"
| "hook_answer i (Rejected e) s = settings_freed s"

(* src: ui-dashboard/src/components/api-keys-section/api-keys-section.tsx 134-142 getMerchant *)
definition hook_waited :: "string option \<Rightarrow> settings_page \<Rightarrow> st_outcome" where
  "hook_waited i s = (s, [ask_merchant i StHookMerchant])"

text \<open>Answers of the list of tokens.\<close>

(* src: ui-dashboard/src/components/api-keys-section/api-keys-section.tsx 101-104 setTokens *)
definition setTokens :: "merchant_token list option \<Rightarrow> settings_page \<Rightarrow> st_outcome" where
  "setTokens ts s = (s\<lparr>st_tokens := (case ts of None \<Rightarrow> [] | Some xs \<Rightarrow> xs)\<rparr>, [ask_merchant (st_merchantId s) StMerchant])"

(* src: ui-dashboard/src/components/api-keys-section/api-keys-section.tsx 106-109 refetch *)
definition tokens_refetched :: "settings_page \<Rightarrow> st_outcome" where
  "tokens_refetched s = (s, [Emit StRefetch, ask_merchant (st_merchantId s) StMerchant])"

section \<open>What the page shows\<close>

datatype st_handler =
    HMethod string | HCopyMerchantId | HWebhooks | HNewToken | HCopyToken string | HEye string | HDeleteToken merchant_token
  | HConfirmToken merchant_token | HKeepToken merchant_token | HSubmitToken | HCloseToken | HSubmitHook | HCloseHook

(* src: ui-dashboard/src/components/payment-method-item/payment-method-item.tsx 17-40 PaymentMethodsItem *)
definition PaymentMethodsItem :: "bool \<Rightarrow> dash_method list \<Rightarrow> st_handler ui" where
  "PaymentMethodsItem isLoading items =
     El ''Space'' [(''className'', bevis ''payment-methods-select'' None [])] []
       (map (\<lambda>m. El ''Tag'' [(''key'', dm_name m), (''color'', if dm_enabled m then ''#1777ff'' else ''#bebebe'')] []
          ([comp ''Icon'' [(''name'', to_lower (dm_name m)), (''dir'', ''crypto'')], leaf ''span'' (dm_name m),
            El ''div'' [(''className'', bevis ''payment-methods-select'' (Some ''overlay'') [])] [(''onClick'', HMethod (dm_ticker m))] []]
           @ when_ui isLoading [comp ''Spin'' []])) items)"

(* src: ui-dashboard/src/components/payment-methods-select/payment-methods-select.tsx 38-67 paymentMethodsColumns *)
definition method_columns :: "settings_page \<Rightarrow> (string, st_handler) column list" where
  "method_columns s =
     [(''Network'', \<lambda>n. [leaf ''span'' n]),
      (''Currencies'', \<lambda>n. [PaymentMethodsItem (methodsLoading s)
         (case st_merchant s of None \<Rightarrow> [] | Some m \<Rightarrow> filter (\<lambda>x. dm_blockchainName x = n) (supportedPaymentMethods m))])]"

(* src: ui-dashboard/src/components/payment-methods-select/payment-methods-select.tsx 101-124 Table *)
definition methods_view :: "settings_page \<Rightarrow> st_handler ui list" where
  "methods_view s =
     [leaf ''Title'' ''Accepted Currencies'', data_table False id (method_columns s) (availableBlockchains s)]
     @ when_ui (availableBlockchains s = [])
         [leaf ''Result'' ''Accepted currencies will appear there after you add new type of supported currency'']"

(* src: ui-dashboard/src/components/developers-section/developers-section.tsx 11-38 DevelopersSection *)
definition DevelopersSection :: "string option \<Rightarrow> st_handler ui list" where
  "DevelopersSection i =
     [leaf ''Title'' ''Developer section'', leaf ''Text'' ''Merchant ID'',
      El ''Space'' [] [(''onClick'', HCopyMerchantId)] [leaf ''Text'' (case i of None \<Rightarrow> [] | Some m \<Rightarrow> m)],
      El ''Button'' [(''href'', ''https://cryptolink.cc/docs'')] [] [Txt ''API Reference'']]"

(* src: ui-dashboard/src/components/api-keys-section/api-keys-section.tsx 44-99 columns *)
definition token_columns :: "(string \<Rightarrow> string) \<Rightarrow> (string \<Rightarrow> string) \<Rightarrow> settings_page \<Rightarrow> (merchant_token, st_handler) column list" where
  "token_columns local utc s =
     [(''Created at'', \<lambda>t. [TimeLabel local utc (tok_createdAt t)]),
      (''Name'', \<lambda>t. [leaf ''span'' (tok_name t)]),
      (''Token'', \<lambda>t. PasswordLabel (st_width s) (tok_id t \<in> set (st_visible s)) (tok_token t) (HCopyToken (tok_token t)) (HEye (tok_id t))
         @ [El ''Dropdown'' [] [] [El ''Space'' [] [(''onClick'', HDeleteToken t)] [leaf ''span'' ''Delete'']]])]"

(* src: ui-dashboard/src/components/token-create-form/token-create-form.tsx 30-57 Form *)
definition TokenCreateForm :: "bool \<Rightarrow> st_handler ui" where
  "TokenCreateForm isFormSubmitting =
     El ''Form'' [] [(''onFinish'', HSubmitToken)]
       (required_item ''Token name'' ''name'' [comp ''Input'' [(''placeholder'', ''My API token'')]]
        # form_buttons ''Save'' isFormSubmitting HCloseToken)"

(* src: ui-dashboard/src/components/webhook-settings-form/webhook-settings-form.tsx 37-77 Form *)
definition WebhookSettingsForm :: "bool \<Rightarrow> st_handler ui" where
  "WebhookSettingsForm isFormSubmitting =
     El ''Form'' [] [(''onFinish'', HSubmitHook)]
       ([LinkInput ''your-store.com/hook'' ''Webhook URL'' ''url'' True,
         El ''Form.Item'' [(''label'', ''Webhook Secret''), (''name'', ''secret'')] []
           [comp ''Input'' [], leaf ''Text'' ''If provided, we will sign every webhook using HMAC'',
            El ''Link'' [(''href'', ''https://cryptolink.cc/docs#webhooks'')] [] [Txt ''Read more about webhook signatures'']]]
        @ form_buttons ''Save'' isFormSubmitting HCloseHook)"

(* src: ui-dashboard/src/components/api-keys-section/api-keys-section.tsx 144-200 Table *)
definition tokens_view :: "(string \<Rightarrow> string) \<Rightarrow> (string \<Rightarrow> string) \<Rightarrow> settings_page \<Rightarrow> st_handler ui list" where
  "tokens_view local utc s =
     [leaf ''Title'' ''API Tokens'', El ''Button'' [] [(''onClick'', HWebhooks)] [Txt ''Manage webhooks settings''],
      El ''Button'' [] [(''onClick'', HNewToken)] [Txt ''Create a token''],
      data_table (st_loading s) tok_id (token_columns local utc s) (st_tokens s)]
     @ when_ui (st_tokens s = []) [leaf ''Result'' ''Your tokens will be here'']
     @ [DrawerForm ''Create a token'' (isCreatingTokenFormOpen s) HCloseToken False [TokenCreateForm (st_submitting s)],
        DrawerForm ''Webhook settings'' (isWebhookSettingsFormOpen s) HCloseHook False [WebhookSettingsForm (st_submitting s)]]
     @ map (\<lambda>t. createConfirmPopup ''Delete the token'' ''Are you sure to delete this token?'' (HConfirmToken t) (HKeepToken t)) (st_confirms s)"

(* src: ui-dashboard/src/pages/settings-page/settings-page.tsx 9-33 SettingsPage *)
definition settings_view :: "(string \<Rightarrow> string) \<Rightarrow> (string \<Rightarrow> string) \<Rightarrow> settings_page \<Rightarrow> st_handler ui list" where
  "settings_view local utc s =
     leaf ''Title'' ''Settings'' # methods_view s @ [comp ''Divider'' []] @ DevelopersSection (st_merchantId s) @ tokens_view local utc s"

section \<open>The component\<close>

datatype st_event =
    StAct st_handler | StName string | StHookFill webhook_settings | StSelect "string option" | StData "merchant_token list option"
  | StLoading bool | StResize "nat option"

definition hook_rules :: "webhook_settings \<Rightarrow> bool" where
  "hook_rules v \<longleftrightarrow> validateLink True (Some (wh_url v))"

(* src: ui-dashboard/src/components/password-label/password-label.tsx 57-67 setVisible *)
definition switch_eye :: "string \<Rightarrow> settings_page \<Rightarrow> settings_page" where
  "switch_eye i s = s\<lparr>st_visible := (if i \<in> set (st_visible s) then removeAll i (st_visible s) else i # st_visible s)\<rparr>"

fun st_run :: "st_handler \<Rightarrow> settings_page \<Rightarrow> st_outcome" where
  "st_run (HMethod t) s = change_method t s"
| "st_run HCopyMerchantId s = (s, [Await (StCopy (merchant_id_text (st_merchantId s))) StCopied])"
| "st_run HWebhooks s =
     idle (if isWebhookSettingsFormOpen s then s
           else s\<lparr>isWebhookSettingsFormOpen := True, st_hook := hook_fields (st_merchant s) empty_hook\<rparr>)"
| "st_run HNewToken s = idle (if isCreatingTokenFormOpen s then s else s\<lparr>isCreatingTokenFormOpen := True, st_tokenName := []\<rparr>)"
| "st_run (HCopyToken t) s = (s, [Await (StCopy t) StCopied])"
| "st_run (HEye i) s = idle (switch_eye i s)"
| "st_run (HDeleteToken t) s = idle (s\<lparr>st_confirms := st_confirms s @ [t]\<rparr>)"
| "st_run (HConfirmToken t) s = deleteSelectedToken t (s\<lparr>st_confirms := remove1 t (st_confirms s)\<rparr>)"
| "st_run (HKeepToken t) s = idle (s\<lparr>st_confirms := remove1 t (st_confirms s)\<rparr>)"
| "st_run HSubmitToken s = (if st_submitting s \<or> st_tokenName s = [] then idle s else uploadCreatedToken (st_tokenName s) s)"
| "st_run HCloseToken s = idle (s\<lparr>isCreatingTokenFormOpen := False\<rparr>)"
| "st_run HSubmitHook s = (if st_submitting s \<or> \<not> hook_rules (st_hook s) then idle s else updateWebhookSettings (hook_values (st_hook s)) s)"
| "st_run HCloseHook s = idle (s\<lparr>isWebhookSettingsFormOpen := False\<rparr>)"

fun st_on :: "st_event \<Rightarrow> settings_page \<Rightarrow> st_outcome" where
  "st_on (StAct h) s = (if h \<in> set (handlers_of (settings_view id id s)) then st_run h s else idle s)"
| "st_on (StName n) s = idle (if isCreatingTokenFormOpen s then s\<lparr>st_tokenName := n\<rparr> else s)"
| "st_on (StHookFill v) s = idle (if isWebhookSettingsFormOpen s then s\<lparr>st_hook := v\<rparr> else s)"
| "st_on (StSelect m) s = idle (s\<lparr>st_merchantId := m\<rparr>)"
| "st_on (StData ts) s = setTokens ts s"
| "st_on (StLoading b) s = idle (s\<lparr>st_loading := b\<rparr>)"
| "st_on (StResize w) s = idle (s\<lparr>st_width := w\<rparr>)"

fun st_resume :: "st_cont \<Rightarrow> st_reply \<Rightarrow> settings_page \<Rightarrow> st_outcome" where
  "st_resume StMerchant a s = idle (show_merchant a s)"
| "st_resume (StMethods i) a s = idle (methods_answered i s)"
| "st_resume (StTokenAnswer n) a s = token_answer n a s"
| "st_resume (StHookAnswer i) a s = hook_answer i a s"
| "st_resume StHookMerchant a s = settings_freed (show_merchant a s)"
| "st_resume (StDeleteAnswer t) a s = token_deleted t a s"
| "st_resume StCopied a s = copy_answer id StPopup a s"
| "st_resume k a s = idle s"

fun st_timer :: "st_cont \<Rightarrow> settings_page \<Rightarrow> st_outcome" where
  "st_timer (StTokenWait n) s = token_created n s"
| "st_timer StTokenReset s = settings_freed s"
| "st_timer (StHookWait i) s = hook_waited i s"
| "st_timer (StDeletedWait t) s = token_gone t s"
| "st_timer k s = idle s"

text \<open>A new selection: the effects of the currencies and then of the tokens.\<close>

(* src: ui-dashboard/src/components/payment-methods-select/payment-methods-select.tsx 87-93 useMount *)
definition settings_effects :: "settings_page \<Rightarrow> settings_page \<Rightarrow> st_outcome" where
  "settings_effects old s = (if st_merchantId s = st_merchantId old then idle s else andThen (updateMerchant s) tokens_refetched)"

definition settings_mounted :: "merchant_token list option \<Rightarrow> settings_page \<Rightarrow> st_outcome" where
  "settings_mounted ts s =
     andThen (andThen (andThen (updateMerchant (s\<lparr>availableBlockchains := getBlockchainsList (st_merchant s)\<rparr>)) updateMerchant) (setTokens ts))
       tokens_refetched"

definition fresh_settings :: "string option \<Rightarrow> merchant option \<Rightarrow> settings_page" where
  "fresh_settings i m =
     \<lparr>st_merchantId = i, st_merchant = m, st_tokens = [], st_loading = False, isWebhookSettingsFormOpen = False,
      isCreatingTokenFormOpen = False, st_submitting = False, st_tokenName = [], st_hook = empty_hook, st_visible = [], st_width = None,
      availableBlockchains = [], methodsCall = 0, methodsLoading = False, st_confirms = []\<rparr>"

fun st_fits :: "st_request \<Rightarrow> st_reply \<Rightarrow> bool" where
  "st_fits (StScoped i (MerchantReq ShowMerchant)) (Resolved a) = (\<exists>m. a = StGot m)"
| "st_fits q (Resolved a) = (a = StDone)"
| "st_fits q (Rejected e) = True"

definition settings_component where
  "settings_component i m ts = \<lparr>c_mount = (\<lambda>s. settings_mounted ts (fresh_settings i m)), c_event = st_on, c_resume = st_resume,
     c_timer = st_timer, c_effect = settings_effects, c_fits = st_fits\<rparr>"

lemma settings_component_simps [simp]:
  "c_mount (settings_component i m ts) = (\<lambda>s. settings_mounted ts (fresh_settings i m))" "c_event (settings_component i m ts) = st_on"
  "c_resume (settings_component i m ts) = st_resume" "c_timer (settings_component i m ts) = st_timer"
  "c_effect (settings_component i m ts) = settings_effects" "c_fits (settings_component i m ts) = st_fits"
  by (simp_all add: settings_component_def)

section \<open>Lemmas\<close>

fun st_typed :: "st_request \<Rightarrow> st_cont \<Rightarrow> bool" where
  "st_typed (StScoped i (MerchantReq ShowMerchant)) k = (k = StMerchant \<or> k = StHookMerchant)"
| "st_typed (StScoped i (MerchantReq (UpdateSupportedMethods ts))) k = (\<exists>n. k = StMethods n)"
| "st_typed (StScoped i (MerchantReq (UpdateMerchantWebhookSettings v))) k =
     ((\<exists>u. wh_url v = linkPrefix @ u \<and> validateLink True (Some u)) \<and> (\<exists>j. k = StHookAnswer j))"
| "st_typed (StScoped i (TokenReq (CreateToken n))) k = (n \<noteq> [] \<and> k = StTokenAnswer n)"
| "st_typed (StScoped i (TokenReq (DeleteToken t))) k = (\<exists>x. k = StDeleteAnswer x)"
| "st_typed (StCopy t) k = (k = StCopied)"
| "st_typed q k = False"

abbreviation "st_asks \<equiv> (\<lambda>k. (\<exists>n. k = StTokenAnswer n) \<or> (\<exists>i. k = StHookAnswer i) \<or> k = StHookMerchant)"
abbreviation "st_ticks \<equiv> (\<lambda>k. (\<exists>n. k = StTokenWait n) \<or> k = StTokenReset \<or> (\<exists>i. k = StHookWait i))"

lemmas st_pieces = ask_merchant_def updateMerchant_def methods_answered_def deleteSelectedToken_def token_gone_def uploadCreatedToken_def
  token_created_def settings_freed_def updateWebhookSettings_def hook_waited_def setTokens_def tokens_refetched_def switch_eye_def
  settings_effects_def settings_mounted_def fresh_settings_def createToken_def deleteToken_def changing_def idle_def

lemma show_merchant_submitting [simp]: "st_submitting (show_merchant a s) = st_submitting s"
  by (cases "(a, s)" rule: show_merchant.cases) (auto simp: merchant_arrives_def)

lemma change_method_ok:
  "well st_typed (\<lambda>k. True) (change_method t s)" "busy st_submitting st_asks st_ticks (st_submitting s) (change_method t s)"
  by (auto simp: change_method_def Let_def idle_def split: option.split)

lemma st_run_ok:
  "well st_typed (\<lambda>k. True) (st_run h s)" "busy st_submitting st_asks st_ticks (st_submitting s) (st_run h s)"
  using change_method_ok by (cases h; auto simp: st_pieces hook_values_def hook_rules_def)+

lemma st_on_ok:
  "well st_typed (\<lambda>k. True) (st_on v s)" "busy st_submitting st_asks st_ticks (st_submitting s) (st_on v s)"
  using st_run_ok by (cases v; auto simp: st_pieces)+

lemma st_resume_ok:
  "well st_typed (\<lambda>k. True) (st_resume k r s)" "busy st_submitting st_asks st_ticks (st_submitting s \<and> \<not> st_asks k) (st_resume k r s)"
  by (cases k; cases r; auto simp: st_pieces)+

lemma st_timer_ok:
  "well st_typed (\<lambda>k. True) (st_timer k s)" "busy st_submitting st_asks st_ticks (st_submitting s \<and> \<not> st_ticks k) (st_timer k s)"
  by (cases k; auto simp: st_pieces)+

interpretation settings: busy_page "settings_component i m ts" st_typed "\<lambda>k. True" st_submitting st_asks st_ticks for i m ts
  by unfold_locales (use st_on_ok st_resume_ok st_timer_ok in \<open>auto simp: st_pieces\<close>)

text \<open>Switching the first method of a ticker, where each ticker occurs once.\<close>

lemma flip_first_map:
  assumes "distinct (map dm_ticker ms)"
  shows "flip_first t ms = map (\<lambda>m. if dm_ticker m = t then flip_method m else m) ms"
  using assms
proof (induction ms)
  case (Cons m ms)
  have "map (\<lambda>m. if dm_ticker m = t then flip_method m else m) ms = ms" if "dm_ticker m = t"
    using Cons.prems that by (intro map_idI) (auto simp: rev_image_eqI)
  moreover have "flip_first t (m # ms) = m # flip_first t ms" if "dm_ticker m \<noteq> t"
    using that by (simp add: flip_first_def Let_def)
  ultimately show ?case using Cons by (auto simp: flip_first_def Let_def)
qed (simp add: flip_first_def)

lemma flip_is_switch:
  assumes "distinct (map dm_ticker ms)" and "x \<in> set ms"
  shows "flip_first (dm_ticker x) ms = switched (dm_ticker x) (\<not> dm_enabled x) ms"
proof -
  have "y = x" if "y \<in> set ms" "dm_ticker y = dm_ticker x" for y
    using assms that by (auto dest: inj_onD simp: distinct_map)
  then show ?thesis unfolding flip_first_map [OF assms(1)] switched_def by (auto simp: flip_method_def)
qed

section \<open>Properties\<close>

text \<open>C18. The two pages that switch a currency agree: for the same merchant, whose tickers are distinct, a click on
  a currency in the settings and the switch of the same currency on the page of currencies and fees send the server
  the same list of accepted tickers, for the same merchant.\<close>

theorem switches_agree:
  assumes "st_merchant s = Some m" and "fp_merchant f = Some m" and "st_merchantId s = Some i" and "fp_merchantId f = Some i"
    and "i \<noteq> []" and "x \<in> set (supportedPaymentMethods m)" and "distinct (map dm_ticker (supportedPaymentMethods m))"
  shows "\<exists>ts k l. snd (change_method (dm_ticker x) s) = [Await (StScoped i (MerchantReq (UpdateSupportedMethods ts))) k]
    \<and> snd (toggleCurrency (dm_ticker x) (\<not> dm_enabled x) f) = [Await (i, UpdateSupportedMethods ts) l]"
  using assms flip_is_switch [OF assms(7,6)] by (auto simp: change_method_def toggleCurrency_def Let_def)

text \<open>C36. Opening the webhook and saving it as it is stores exactly the settings that the merchant had if and only
  if its link begins with the secure scheme: the form cuts eight letters off, whichever they are, and puts the
  secure scheme back.\<close>

theorem webhook_round_trip:
  assumes "st_merchant s = Some m" and "\<not> isWebhookSettingsFormOpen s" and "\<not> st_submitting s"
    and "hook_rules (hook_fields (Some m) empty_hook)"
  shows "snd (st_run HSubmitHook (fst (st_run HWebhooks s)))
      = [Await (StScoped (merchant_id_text (st_merchantId s)) (MerchantReq (UpdateMerchantWebhookSettings (m_webhookSettings m))))
           (StHookAnswer (st_merchantId s))]
    \<longleftrightarrow> prefix linkPrefix (wh_url (m_webhookSettings m))"
proof -
  have "hook_values (hook_fields (Some m) empty_hook) = m_webhookSettings m \<longleftrightarrow> prefix linkPrefix (wh_url (m_webhookSettings m))"
    using refit_prefix [of "wh_url (m_webhookSettings m)"] by (cases "m_webhookSettings m") (auto simp: hook_values_def hook_fields_def)
  then show ?thesis using assms by (simp add: idle_def updateWebhookSettings_def)
qed

text \<open>The forms are freed: while they are locked, an answer or a timer of a submission is under way.\<close>

lemma settings_form_freed:
  assumes "areach (settings_component i m ts) S w" and "st_submitting (wst w)"
  shows "(\<exists>(q, k) \<in> set (pending w). st_asks k) \<or> (\<exists>(t, k) \<in> set (timers w). st_ticks k)"
  using settings.freed [OF assms] .

text \<open>A link that is stored for a webhook is the secure scheme and an accepted value, in every run.\<close>

lemma webhook_stored_accepted:
  assumes "areach (settings_component i m ts) S w"
    and "(StScoped j (MerchantReq (UpdateMerchantWebhookSettings v)), k) \<in> set (pending w)"
  shows "\<exists>u. wh_url v = linkPrefix @ u \<and> validateLink True (Some u)"
  using settings.well_typed [OF assms] by simp

text \<open>A switch that the server refuses stays switched on the page, in the merchant that all pages share.\<close>

lemma refused_switch_stays:
  "st_merchant (fst (st_resume (StMethods n) (Rejected e) s)) = st_merchant s"
  "snd (st_resume (StMethods n) (Rejected e) s) = []"
  by (simp_all add: idle_def methods_answered_def)

text \<open>What is typed into the form of the webhook is overwritten when the merchant is read again.\<close>

lemma reading_overwrites_hook:
  assumes "isWebhookSettingsFormOpen s"
  shows "st_hook (fst (st_resume StMerchant (Resolved (StGot m)) s)) = hook_fields (Some m) (st_hook s)"
  using assms by (simp add: idle_def merchant_arrives_def)

text \<open>A new token is announced as an address.\<close>

lemma token_announced: "Emit (StPopup ''Address has created'' (''You have created new address '' @ n)) \<in> set (snd (st_timer (StTokenWait n) s))"
  by (simp add: token_created_def)

theorem switches_agree_witness:
  "\<exists>ts k. snd (change_method ''BTC'' (fresh_settings (Some ''m1'') (Some fee_merchant)))
     = [Await (StScoped ''m1'' (MerchantReq (UpdateSupportedMethods ts))) k] \<and> ts = [''ETH'']"
proof -
  have "enabled_tickers (switched ''BTC'' False (supportedPaymentMethods fee_merchant)) = [''ETH'']"
    by (simp add: enabled_tickers_def switched_def fee_merchant_def fee_method_def)
  then show ?thesis
    using switches_agree [of "fresh_settings (Some ''m1'') (Some fee_merchant)" fee_merchant "fresh_fees (Some fee_merchant) (Some ''m1'')" "''m1''"
        "fee_method ''BTC''"]
    by (auto simp: fresh_settings_def fresh_fees_def fee_merchant_def fee_method_def toggleCurrency_def)
qed

definition hooked_merchant :: merchant where
  "hooked_merchant = fee_merchant\<lparr>m_webhookSettings := \<lparr>wh_secret = Some ''s'', wh_url = ''https://shop.io/a''\<rparr>\<rparr>"

theorem webhook_round_trip_witness:
  "snd (st_run HSubmitHook (fst (st_run HWebhooks (fresh_settings (Some ''m1'') (Some hooked_merchant)))))
     = [Await (StScoped ''m1'' (MerchantReq (UpdateMerchantWebhookSettings \<lparr>wh_secret = Some ''s'', wh_url = ''https://shop.io/a''\<rparr>)))
          (StHookAnswer (Some ''m1''))]"
proof -
  have "wh_url (hook_fields (Some hooked_merchant) empty_hook) = ''shop.io/a''"
    using cut_prefix [of "''shop.io/a''"] by (simp add: hook_fields_def hooked_merchant_def linkPrefix_def)
  then have "hook_rules (hook_fields (Some hooked_merchant) empty_hook)" using link_example(1) by (simp add: hook_rules_def)
  then show ?thesis
    using webhook_round_trip [of "fresh_settings (Some ''m1'') (Some hooked_merchant)" hooked_merchant]
    by (simp add: fresh_settings_def merchant_id_text_def hooked_merchant_def linkPrefix_def)
qed

end
