(* ===== verification/Addresses.thy ===== *)
theory Addresses
  imports Form_Kit Async_History
begin

text \<open>
  The withdrawal addresses of a merchant (ui-dashboard/src/components/withdraw-addresses/withdraw-addresses.tsx)
  with the form that creates one (ui-dashboard/src/components/address-create-form/address-create-form.tsx) and the
  form that renames one (ui-dashboard/src/components/address-edit-form/address-edit-form.tsx), as an asynchronous
  component.

  The form that renames writes into the address it was opened for, which is an object of the list: the state has a
  store of addresses, and the list and the selection hold positions in it. A new answer of the list may keep the
  objects that it already had, as the cache of the hook decides, and says so. What the hooks say of their loading
  is an input.
\<close>

section \<open>State\<close>

(* src: ui-dashboard/src/components/withdraw-addresses/withdraw-addresses.tsx 22-31 WithdrawAddresses *)
record addresses_page =
  ad_store :: "merchant_address list"
  ad_rows :: "nat list"
  ad_merchantId :: "string option"
  ad_loading :: bool
  isAddAddressFormOpen :: bool
  openedAddress :: "nat list"
  ad_submitting :: bool
  ad_new :: address_params
  ad_name :: string
  ad_confirms :: "nat list"

datatype row_ref = Kept nat | Fresh merchant_address

datatype ad_cont =
    AdCreateAnswer string | AdCreatedWait string | AdUpdateAnswer nat | AdUpdatedWait nat | AdResetFields
  | AdDeleteAnswer nat | AdDeletedWait nat

type_synonym ad_request = "string \<times> scoped_request"

datatype ad_effect = AdRefetch | AdInvalidate "string list" | AdPopup string string

type_synonym ad_outcome = "(addresses_page, ad_request, ad_cont, ad_effect) outcome"

type_synonym ad_reply = "(unit, unit) reply"

definition empty_address :: address_params where
  "empty_address = \<lparr>ma_address = [], ma_blockchain = [], ma_name = []\<rparr>"

definition address_at :: "addresses_page \<Rightarrow> nat \<Rightarrow> merchant_address" where
  "address_at s a = ad_store s ! a"

section \<open>The forms\<close>

datatype ad_handler =
    HAddAddress | HEditAddress nat | HDeleteAddress nat | HConfirmAddress nat | HKeepAddress nat
  | HSubmitNew | HCancelNew | HCloseNew | HSubmitName | HCancelName | HCloseName

(* src: ui-dashboard/src/components/address-create-form/address-create-form.tsx 28-51 rules *)
definition address_rules :: "address_params \<Rightarrow> bool" where
  "address_rules v \<longleftrightarrow> ma_blockchain v \<noteq> [] \<and> ma_name v \<noteq> [] \<and> ma_address v \<noteq> []"

(* src: ui-dashboard/src/components/address-create-form/address-create-form.tsx 26-67 Form *)
definition AddressCreateForm :: "bool \<Rightarrow> ad_handler ui" where
  "AddressCreateForm isFormSubmitting =
     El ''Form'' [] [(''onFinish'', HSubmitNew)]
       ([required_item ''Blockchain'' ''blockchain'' [wrap ''Select'' (map (leaf ''option'') BLOCKCHAIN)],
         required_item ''Name'' ''name'' [comp ''Input'' [(''placeholder'', ''My TrustWallet'')]],
         required_item ''Blockchain Address'' ''address'' [comp ''Input'' [(''placeholder'', ''0x9cEF7DE49....'')]]]
        @ form_buttons ''Save'' isFormSubmitting HCancelNew)"

text \<open>The button is disabled while the name is empty too.\<close>

(* src: ui-dashboard/src/components/address-edit-form/address-edit-form.tsx 46-72 Form *)
definition AddressEditForm :: "string \<Rightarrow> bool \<Rightarrow> ad_handler ui" where
  "AddressEditForm address isFormSubmitting =
     El ''Form'' [] [(''onFinish'', HSubmitName)]
       [required_item ''Address name'' ''name'' [comp ''Input'' []],
        El ''Button'' [(''loading'', bool_attr isFormSubmitting), (''htmlType'', ''submit''),
          (''disabled'', bool_attr (address = [] \<or> isFormSubmitting))] [] [Txt ''Save''],
        El ''Button'' [] [(''onClick'', HCancelName)] [Txt ''Cancel'']]"

text \<open>The effect of the form: a newly selected address brings its name.\<close>

(* src: ui-dashboard/src/components/address-edit-form/address-edit-form.tsx 21-28 useEffect *)
definition open_address :: "nat \<Rightarrow> addresses_page \<Rightarrow> addresses_page" where
  "open_address a s = (if openedAddress s = [a] then s else s\<lparr>openedAddress := [a], ad_name := ma_name (address_at s a)\<rparr>)"

section \<open>Operations\<close>

definition scoped :: "scoped_request \<Rightarrow> addresses_page \<Rightarrow> ad_request" where
  "scoped r s = (merchant_id_text (ad_merchantId s), r)"

(* src: ui-dashboard/src/components/withdraw-addresses/withdraw-addresses.tsx 40-42 deleteSelectedAddress *)
definition deleteSelectedAddress :: "nat \<Rightarrow> addresses_page \<Rightarrow> ad_outcome" where
  "deleteSelectedAddress a s = (s, [Await (scoped (mu_request deleteAddress (ma_id (address_at s a))) s) (AdDeleteAnswer a)])"

fun address_deleted :: "nat \<Rightarrow> ad_reply \<Rightarrow> addresses_page \<Rightarrow> ad_outcome" where
  "address_deleted a (Resolved x) s = (s, [After (mu_wait deleteAddress) (AdDeletedWait a)])"
| "address_deleted a (Rejected e) s = idle s"

(* src: ui-dashboard/src/components/withdraw-addresses/withdraw-addresses.tsx 42-48 changeOpenedAddress *)
definition address_gone :: "nat \<Rightarrow> addresses_page \<Rightarrow> ad_outcome" where
  "address_gone a s =
     (s\<lparr>openedAddress := []\<rparr>,
      [Emit (AdInvalidate (mu_invalidates deleteAddress)),
       Emit (AdPopup ''Address has deleted'' (''Address '' @ ma_name (address_at s a) @ '' has been deleted''))])"

(* src: ui-dashboard/src/components/withdraw-addresses/withdraw-addresses.tsx 124-127 uploadCreatedAddress *)
definition uploadCreatedAddress :: "address_params \<Rightarrow> addresses_page \<Rightarrow> ad_outcome" where
  "uploadCreatedAddress v s =
     (s\<lparr>ad_submitting := True\<rparr>, [Await (scoped (mu_request createAddress v) s) (AdCreateAnswer (ma_name v))])"

fun address_create_answer :: "string \<Rightarrow> ad_reply \<Rightarrow> addresses_page \<Rightarrow> ad_outcome" where
  "address_create_answer n (Resolved x) s = (s, [After (mu_wait createAddress) (AdCreatedWait n)])"
| "address_create_answer n (Rejected e) s = idle (s\<lparr>ad_submitting := False\<rparr>)"

(* src: ui-dashboard/src/components/withdraw-addresses/withdraw-addresses.tsx 127-131 setIsAddAddressFormOpen *)
definition address_created :: "string \<Rightarrow> addresses_page \<Rightarrow> ad_outcome" where
  "address_created n s =
     (s\<lparr>isAddAddressFormOpen := False\<rparr>,
      [Emit (AdInvalidate (mu_invalidates createAddress)),
       Emit (AdPopup ''Address has created'' (''You have created new address '' @ n)), After 1000 AdResetFields])"

text \<open>The drawer has destroyed the form whose fields are reset; the page is freed.\<close>

(* src: ui-dashboard/src/components/withdraw-addresses/withdraw-addresses.tsx 131-138 finally *)
definition address_stored :: "addresses_page \<Rightarrow> ad_outcome" where
  "address_stored s = idle (s\<lparr>ad_submitting := False\<rparr>)"

text \<open>The form writes the new name into the address first, and only then asks the server.\<close>

(* src: ui-dashboard/src/components/address-edit-form/address-edit-form.tsx 30-37 onSubmit *)
definition rename :: "nat \<Rightarrow> string \<Rightarrow> addresses_page \<Rightarrow> addresses_page" where
  "rename a n s = s\<lparr>ad_store := (ad_store s)[a := (address_at s a)\<lparr>ma_name := n\<rparr>]\<rparr>"

(* src: ui-dashboard/src/components/withdraw-addresses/withdraw-addresses.tsx 140-143 uploadNewAddress *)
definition uploadNewAddress :: "nat \<Rightarrow> addresses_page \<Rightarrow> ad_outcome" where
  "uploadNewAddress a s =
     (s\<lparr>ad_submitting := True\<rparr>, [Await (scoped (mu_request updateAddress (address_at s a)) s) (AdUpdateAnswer a)])"

fun address_update_answer :: "nat \<Rightarrow> ad_reply \<Rightarrow> addresses_page \<Rightarrow> ad_outcome" where
  "address_update_answer a (Resolved x) s = (s, [After (mu_wait updateAddress) (AdUpdatedWait a)])"
| "address_update_answer a (Rejected e) s = idle (s\<lparr>ad_submitting := False\<rparr>)"

(* src: ui-dashboard/src/components/withdraw-addresses/withdraw-addresses.tsx 143-154 updated *)
definition address_updated :: "nat \<Rightarrow> addresses_page \<Rightarrow> ad_outcome" where
  "address_updated a s =
     (s\<lparr>openedAddress := []\<rparr>,
      [Emit (AdInvalidate (mu_invalidates updateAddress)),
       Emit (AdPopup ''Address has updated'' (''You have updated your address to '' @ ma_name (address_at s a))), After 1000 AdResetFields])"

text \<open>A new answer of the list: the rows are objects that the page had, and objects that are new.\<close>

(* src: ui-dashboard/src/components/withdraw-addresses/withdraw-addresses.tsx 116-118 setAddresses *)
fun setAddresses :: "row_ref list \<Rightarrow> addresses_page \<Rightarrow> addresses_page" where
  "setAddresses [] s = s\<lparr>ad_rows := []\<rparr>"
| "setAddresses (Kept a # rs) s =
     (let t = setAddresses rs s in if a < length (ad_store s) then t\<lparr>ad_rows := a # ad_rows t\<rparr> else t)"
| "setAddresses (Fresh m # rs) s =
     (let t = setAddresses rs s in t\<lparr>ad_store := ad_store t @ [m], ad_rows := length (ad_store t) # ad_rows t\<rparr>)"

section \<open>What the page shows\<close>

(* src: ui-dashboard/src/components/withdraw-addresses/withdraw-addresses.tsx 50-114 columns *)
definition address_columns :: "addresses_page \<Rightarrow> (nat, ad_handler) column list" where
  "address_columns s =
     [(''Network'', \<lambda>a. [leaf ''span'' (ma_blockchainName (address_at s a))]),
      (''Name'', \<lambda>a. [leaf ''span'' (ma_name (address_at s a))]),
      (''Address'', \<lambda>a. [leaf ''span'' (ma_address (address_at s a)),
         El ''Dropdown'' [] []
           [El ''Row'' [] [(''onClick'', HEditAddress a)] [leaf ''span'' ''Edit''],
            El ''Space'' [] [(''onClick'', HDeleteAddress a)] [leaf ''span'' ''Delete'']]])]"

(* src: ui-dashboard/src/components/withdraw-addresses/withdraw-addresses.tsx 156-217 Table *)
definition addresses_view :: "addresses_page \<Rightarrow> ad_handler ui list" where
  "addresses_view s =
     [leaf ''Title'' ''Withdrawal Addresses'', El ''Button'' [] [(''onClick'', HAddAddress)] [Txt ''Add address''],
      data_table (ad_loading s) (\<lambda>a. ma_id (address_at s a)) (address_columns s) (ad_rows s)]
     @ when_ui (ad_rows s = []) [leaf ''Result'' ''Your addresses will be here'']
     @ [DrawerForm ''Create an address'' (isAddAddressFormOpen s) HCloseNew False [AddressCreateForm (ad_submitting s)],
        DrawerForm ''Edit withdrawal address'' (openedAddress s \<noteq> []) HCloseName False [AddressEditForm (ad_name s) (ad_submitting s)]]
     @ map (\<lambda>a. createConfirmPopup ''Delete the address'' ''Are you sure to delete this address?'' (HConfirmAddress a) (HKeepAddress a)) (ad_confirms s)"

section \<open>The component\<close>

datatype ad_event =
    AdAct ad_handler | AdFill address_params | AdName string | AdMerchant "string option" | AdList "row_ref list" | AdLoading bool

text \<open>A form is submitted when its rules hold and its button is not disabled.\<close>

definition submit_name :: "addresses_page \<Rightarrow> ad_outcome" where
  "submit_name s =
     (case openedAddress s of
        [] \<Rightarrow> idle s
      | a # as \<Rightarrow> if ad_name s = [] \<or> ad_submitting s then idle s else uploadNewAddress a (rename a (ad_name s) s))"

fun ad_run :: "ad_handler \<Rightarrow> addresses_page \<Rightarrow> ad_outcome" where
  "ad_run HAddAddress s = idle (if isAddAddressFormOpen s then s else s\<lparr>isAddAddressFormOpen := True, ad_new := empty_address\<rparr>)"
| "ad_run (HEditAddress a) s = idle (open_address a s)"
| "ad_run (HDeleteAddress a) s = idle (s\<lparr>ad_confirms := ad_confirms s @ [a]\<rparr>)"
| "ad_run (HConfirmAddress a) s = deleteSelectedAddress a (s\<lparr>ad_confirms := remove1 a (ad_confirms s)\<rparr>)"
| "ad_run (HKeepAddress a) s = idle (s\<lparr>ad_confirms := remove1 a (ad_confirms s)\<rparr>)"
| "ad_run HSubmitNew s = (if ad_submitting s \<or> \<not> address_rules (ad_new s) then idle s else uploadCreatedAddress (ad_new s) s)"
| "ad_run HCancelNew s = idle (s\<lparr>isAddAddressFormOpen := False\<rparr>)"
| "ad_run HCloseNew s = idle (s\<lparr>isAddAddressFormOpen := False\<rparr>)"
| "ad_run HSubmitName s = submit_name s"
| "ad_run HCancelName s = idle (s\<lparr>openedAddress := []\<rparr>)"
| "ad_run HCloseName s = idle (s\<lparr>openedAddress := []\<rparr>)"

fun ad_on :: "ad_event \<Rightarrow> addresses_page \<Rightarrow> ad_outcome" where
  "ad_on (AdAct h) s = (if h \<in> set (handlers_of (addresses_view s)) then ad_run h s else idle s)"
| "ad_on (AdFill v) s = idle (if isAddAddressFormOpen s then s\<lparr>ad_new := v\<rparr> else s)"
| "ad_on (AdName n) s = idle (if openedAddress s = [] then s else s\<lparr>ad_name := n\<rparr>)"
| "ad_on (AdMerchant m) s = idle (s\<lparr>ad_merchantId := m\<rparr>)"
| "ad_on (AdList rs) s = idle (setAddresses rs s)"
| "ad_on (AdLoading b) s = idle (s\<lparr>ad_loading := b\<rparr>)"

fun ad_resume :: "ad_cont \<Rightarrow> ad_reply \<Rightarrow> addresses_page \<Rightarrow> ad_outcome" where
  "ad_resume (AdCreateAnswer n) r s = address_create_answer n r s"
| "ad_resume (AdUpdateAnswer a) r s = address_update_answer a r s"
| "ad_resume (AdDeleteAnswer a) r s = address_deleted a r s"
| "ad_resume k r s = idle s"

fun ad_timer :: "ad_cont \<Rightarrow> addresses_page \<Rightarrow> ad_outcome" where
  "ad_timer (AdCreatedWait n) s = address_created n s"
| "ad_timer (AdUpdatedWait a) s = address_updated a s"
| "ad_timer (AdDeletedWait a) s = address_gone a s"
| "ad_timer AdResetFields s = address_stored s"
| "ad_timer k s = idle s"

(* src: ui-dashboard/src/components/withdraw-addresses/withdraw-addresses.tsx 120-122 useEffect *)
definition ad_effects :: "addresses_page \<Rightarrow> addresses_page \<Rightarrow> ad_outcome" where
  "ad_effects old s = (if ad_merchantId s = ad_merchantId old then idle s else (s, [Emit AdRefetch]))"

definition fresh_addresses :: "string option \<Rightarrow> merchant_address list \<Rightarrow> addresses_page" where
  "fresh_addresses m as = \<lparr>ad_store = as, ad_rows = [0 ..< length as], ad_merchantId = m, ad_loading = False, isAddAddressFormOpen = False,
     openedAddress = [], ad_submitting = False, ad_new = empty_address, ad_name = [], ad_confirms = []\<rparr>"

definition addresses_component where
  "addresses_component start = \<lparr>c_mount = (\<lambda>s. (start, [Emit AdRefetch])), c_event = ad_on, c_resume = ad_resume, c_timer = ad_timer,
     c_effect = ad_effects, c_fits = (\<lambda>(q :: ad_request) (r :: ad_reply). True)\<rparr>"

lemma addresses_component_simps [simp]:
  "c_mount (addresses_component st) = (\<lambda>s. (st, [Emit AdRefetch]))" "c_event (addresses_component st) = ad_on"
  "c_resume (addresses_component st) = ad_resume" "c_timer (addresses_component st) = ad_timer"
  "c_effect (addresses_component st) = ad_effects" "c_fits (addresses_component st) = (\<lambda>q r. True)"
  by (simp_all add: addresses_component_def)

section \<open>Lemmas\<close>

fun ad_typed :: "ad_request \<Rightarrow> ad_cont \<Rightarrow> bool" where
  "ad_typed (m, AddressReq (CreateAddress v)) k = (address_rules v \<and> k = AdCreateAnswer (ma_name v))"
| "ad_typed (m, AddressReq (UpdateAddress i n)) k = (\<exists>a. k = AdUpdateAnswer a)"
| "ad_typed (m, AddressReq (DeleteAddress i)) k = (\<exists>a. k = AdDeleteAnswer a)"
| "ad_typed q k = False"

abbreviation "ad_asks \<equiv> (\<lambda>k. (\<exists>n. k = AdCreateAnswer n) \<or> (\<exists>a. k = AdUpdateAnswer a))"
abbreviation "ad_ticks \<equiv> (\<lambda>k. (\<exists>n. k = AdCreatedWait n) \<or> (\<exists>a. k = AdUpdatedWait a) \<or> k = AdResetFields)"

lemmas ad_pieces = deleteSelectedAddress_def address_gone_def uploadCreatedAddress_def address_created_def address_stored_def
  uploadNewAddress_def address_updated_def open_address_def rename_def idle_def ad_effects_def scoped_def
  createAddress_def updateAddress_def deleteAddress_def changing_def

text \<open>What every operation but a new answer of the list keeps: the rows, and of the objects all but their names.\<close>

definition nameless :: "merchant_address \<Rightarrow> merchant_address" where
  "nameless m = m\<lparr>ma_name := []\<rparr>"

definition kept :: "addresses_page \<Rightarrow> ad_outcome \<Rightarrow> bool" where
  "kept s oc \<longleftrightarrow> map nameless (ad_store (fst oc)) = map nameless (ad_store s) \<and> ad_rows (fst oc) = ad_rows s"

lemma kept_same [simp]: "ad_store (fst oc) = ad_store s \<Longrightarrow> ad_rows (fst oc) = ad_rows s \<Longrightarrow> kept s oc"
  by (simp add: kept_def)

lemma rename_nameless: "map nameless (ad_store (rename a n s)) = map nameless (ad_store s)"
proof (rule nth_equalityI)
  fix i assume "i < length (map nameless (ad_store (rename a n s)))"
  then show "map nameless (ad_store (rename a n s)) ! i = map nameless (ad_store s) ! i"
    by (cases "i = a") (simp_all add: rename_def address_at_def nameless_def)
qed (simp add: rename_def)

lemma rename_rows [simp]: "ad_rows (rename a n s) = ad_rows s"
  by (simp add: rename_def)

lemma submit_name_ok:
  "well ad_typed (\<lambda>k. True) (submit_name s)" "busy ad_submitting ad_asks ad_ticks (ad_submitting s) (submit_name s)" "kept s (submit_name s)"
  by (auto simp: submit_name_def idle_def uploadNewAddress_def scoped_def updateAddress_def changing_def kept_def rename_nameless
      split: list.split)

lemma ad_run_ok:
  "well ad_typed (\<lambda>k. True) (ad_run h s)" "busy ad_submitting ad_asks ad_ticks (ad_submitting s) (ad_run h s)" "kept s (ad_run h s)"
  using submit_name_ok by (cases h; auto simp: ad_pieces)+

lemma ad_on_ok:
  "well ad_typed (\<lambda>k. True) (ad_on v s)" "busy ad_submitting ad_asks ad_ticks (ad_submitting s) (ad_on v s)" "(\<And>rs. v \<noteq> AdList rs) \<Longrightarrow> kept s (ad_on v s)"
proof -
  have l: "ad_submitting (setAddresses rs s) = ad_submitting s" for rs
    by (induction rs s rule: setAddresses.induct) (auto simp: Let_def)
  show "well ad_typed (\<lambda>k. True) (ad_on v s)" using ad_run_ok by (cases v) (auto simp: idle_def)
  show "busy ad_submitting ad_asks ad_ticks (ad_submitting s) (ad_on v s)" using ad_run_ok l by (cases v) (auto simp: idle_def)
  show "kept s (ad_on v s)" if "\<And>rs. v \<noteq> AdList rs" using that ad_run_ok(3) by (cases v) (auto simp: idle_def)
qed

lemma ad_resume_ok:
  "well ad_typed (\<lambda>k. True) (ad_resume k r s)" "busy ad_submitting ad_asks ad_ticks (ad_submitting s \<and> \<not> ad_asks k) (ad_resume k r s)"
  "kept s (ad_resume k r s)"
  by (cases k; cases r; auto simp: ad_pieces)+

lemma ad_timer_ok:
  "well ad_typed (\<lambda>k. True) (ad_timer k s)" "busy ad_submitting ad_asks ad_ticks (ad_submitting s \<and> \<not> ad_ticks k) (ad_timer k s)"
  "kept s (ad_timer k s)"
  by (cases k; auto simp: ad_pieces)+

interpretation addresses: busy_page "addresses_component (fresh_addresses m as)" ad_typed "\<lambda>k. True" ad_submitting ad_asks ad_ticks for m as
  by unfold_locales (use ad_on_ok ad_resume_ok ad_timer_ok in \<open>auto simp: ad_effects_def idle_def fresh_addresses_def\<close>)

lemma step_kept:
  assumes "astep (addresses_component st) w w'"
  shows "(\<exists>rs. w' = do_event (addresses_component st) (AdList rs) w)
    \<or> (map nameless (ad_store (wst w')) = map nameless (ad_store (wst w)) \<and> ad_rows (wst w') = ad_rows (wst w))"
proof -
  have e: "ad_store (fst (andThen oc (ad_effects s))) = ad_store (fst oc)" "ad_rows (fst (andThen oc (ad_effects s))) = ad_rows (fst oc)" for oc s
    by (cases oc; simp add: ad_effects_def idle_def)+
  from assms show ?thesis
  proof cases
    case (event v)
    show ?thesis
    proof (cases "\<exists>rs. v = AdList rs")
      case False
      then have "kept (wst w) (ad_on v (wst w))" by (intro ad_on_ok(3)) auto
      then show ?thesis by (simp add: event do_event_def commit_wst e kept_def)
    qed (use event in auto)
  qed (use ad_resume_ok(3) ad_timer_ok(3) in \<open>auto simp: do_reply_def do_timer_def commit_wst e kept_def\<close>)
qed

section \<open>Where the addresses come from\<close>

text \<open>The addresses that the page has been given: those it started with, and the new objects of each answer.\<close>

definition sent :: "merchant_address list \<Rightarrow> (addresses_page, ad_request, ad_cont, ad_reply, ad_event) history \<Rightarrow> merchant_address \<Rightarrow> bool" where
  "sent as h m \<longleftrightarrow> m \<in> set as \<or> (\<exists>s rs. Acted s (AdList rs) \<in> set h \<and> Fresh m \<in> set rs)"

text \<open>The state over a set \<open>R\<close> of addresses: each object is one of them but for its name, and the rows, the selection
  and the open questions are positions of the store.\<close>

definition ad_known :: "(merchant_address \<Rightarrow> bool) \<Rightarrow> addresses_page \<Rightarrow> bool" where
  "ad_known R s \<longleftrightarrow> (\<forall>x \<in> set (ad_store s). \<exists>m. R m \<and> nameless x = nameless m)
     \<and> (\<forall>a \<in> set (ad_rows s) \<union> set (openedAddress s) \<union> set (ad_confirms s). a < length (ad_store s))"

fun names_known :: "(merchant_address \<Rightarrow> bool) \<Rightarrow> ad_request \<Rightarrow> bool" where
  "names_known R (mid, AddressReq (UpdateAddress i n)) = (\<exists>m. R m \<and> ma_id m = i)"
| "names_known R (mid, AddressReq (DeleteAddress i)) = (\<exists>m. R m \<and> ma_id m = i)"
| "names_known R q = True"

abbreviation "ad_piece R \<equiv> ok_outcome (ad_known R) (\<lambda>q (k :: ad_cont). names_known R q) (\<lambda>k. True) (\<lambda>e. True)"

lemma ad_known_keep [simp]:
  "ad_known R (s\<lparr>ad_merchantId := m\<rparr>) = ad_known R s" "ad_known R (s\<lparr>ad_loading := b\<rparr>) = ad_known R s"
  "ad_known R (s\<lparr>isAddAddressFormOpen := b\<rparr>) = ad_known R s" "ad_known R (s\<lparr>ad_submitting := b\<rparr>) = ad_known R s"
  "ad_known R (s\<lparr>ad_new := v\<rparr>) = ad_known R s" "ad_known R (s\<lparr>ad_name := n\<rparr>) = ad_known R s"
  "ad_known R s \<Longrightarrow> ad_known R (s\<lparr>openedAddress := []\<rparr>)"
  "ad_known R s \<Longrightarrow> ad_known R (s\<lparr>ad_confirms := remove1 a (ad_confirms s)\<rparr>)"
  by (auto simp: ad_known_def dest: set_remove1_subset [THEN subsetD])

lemma known_address:
  "ad_known R s \<Longrightarrow> a < length (ad_store s) \<Longrightarrow> \<exists>m. R m \<and> nameless (address_at s a) = nameless m"
  by (auto simp: ad_known_def address_at_def)

lemma nameless_id: "nameless x = nameless m \<Longrightarrow> ma_id x = ma_id m"
  by (cases x; cases m) (simp add: nameless_def)

lemma known_id: "ad_known R s \<Longrightarrow> a < length (ad_store s) \<Longrightarrow> \<exists>m. R m \<and> ma_id m = ma_id (address_at s a)"
  using known_address nameless_id by metis

lemma known_rename:
  assumes "ad_known R s"
  shows "ad_known R (rename a n s)"
proof -
  have "\<exists>m. R m \<and> nameless x = nameless m" if x: "x \<in> set (ad_store (rename a n s))" for x
  proof -
    have "nameless x \<in> set (map nameless (ad_store s))" using x rename_nameless [of a n s] by (metis image_eqI set_map)
    then obtain y where "y \<in> set (ad_store s)" "nameless x = nameless y" by auto
    then show ?thesis using assms by (fastforce simp: ad_known_def)
  qed
  then show ?thesis using assms by (simp add: ad_known_def rename_def)
qed

lemma setAddresses_known:
  "ad_known R s \<Longrightarrow> (\<And>m. Fresh m \<in> set rs \<Longrightarrow> R m) \<Longrightarrow> ad_known R (setAddresses rs s) \<and> length (ad_store s) \<le> length (ad_store (setAddresses rs s))"
  by (induction rs s rule: setAddresses.induct) (auto simp: ad_known_def Let_def less_Suc_eq)

lemma setAddresses_fresh:
  "map (address_at (setAddresses (map Fresh ms) s)) (ad_rows (setAddresses (map Fresh ms) s)) = ms
    \<and> (\<forall>a \<in> set (ad_rows (setAddresses (map Fresh ms) s)). a < length (ad_store (setAddresses (map Fresh ms) s)))"
proof (induction ms)
  case (Cons m ms)
  let ?t = "setAddresses (map Fresh ms) s"
  have "map (\<lambda>a. (ad_store ?t @ [m]) ! a) (ad_rows ?t) = map (address_at ?t) (ad_rows ?t)"
    using Cons.IH by (auto simp: address_at_def nth_append)
  then show ?case using Cons.IH by (auto simp: Let_def address_at_def less_Suc_eq)
qed (simp add: address_at_def)

text \<open>The view offers the handlers of its rows and of its open questions alone.\<close>

lemma view_rows:
  "HEditAddress a \<in> set (handlers_of (addresses_view s)) \<Longrightarrow> a \<in> set (ad_rows s)"
  "HDeleteAddress a \<in> set (handlers_of (addresses_view s)) \<Longrightarrow> a \<in> set (ad_rows s)"
  "HConfirmAddress a \<in> set (handlers_of (addresses_view s)) \<Longrightarrow> a \<in> set (ad_confirms s)"
  by (auto simp: addresses_view_def table_handlers address_columns_def drawer_handlers AddressCreateForm_def
      AddressEditForm_def handlers_of_map form_buttons_def split: if_splits)

lemma ad_run_known:
  assumes s: "ad_known R s" and h: "h \<in> set (handlers_of (addresses_view s))"
  shows "ad_piece R (ad_run h s)"
proof (cases h)
  case (HEditAddress a)
  then have "a < length (ad_store s)" using view_rows(1) h s by (auto simp: ad_known_def)
  then show ?thesis using HEditAddress s by (auto simp: idle_def open_address_def ad_known_def)
next
  case (HDeleteAddress a)
  then have "a < length (ad_store s)" using view_rows(2) h s by (auto simp: ad_known_def)
  then show ?thesis using HDeleteAddress s by (auto simp: idle_def ad_known_def)
next
  case (HConfirmAddress a)
  then have "a < length (ad_store s)" using view_rows(3) h s by (auto simp: ad_known_def)
  then show ?thesis using HConfirmAddress s known_id [OF s]
    by (auto simp: deleteSelectedAddress_def scoped_def deleteAddress_def changing_def address_at_def)
next
  case HSubmitName
  have "ad_piece R (submit_name s)"
  proof (cases "openedAddress s = [] \<or> ad_name s = [] \<or> ad_submitting s")
    case False
    then obtain a as where a: "openedAddress s = a # as" by (cases "openedAddress s") auto
    then have "a < length (ad_store s)" using s by (auto simp: ad_known_def)
    then show ?thesis using False a known_rename [OF s] known_id [OF known_rename [OF s], of a]
      by (auto simp: submit_name_def uploadNewAddress_def scoped_def updateAddress_def changing_def rename_def)
  qed (use s in \<open>auto simp: submit_name_def idle_def split: list.split\<close>)
  then show ?thesis using HSubmitName by simp
qed (use s in \<open>auto simp: idle_def uploadCreatedAddress_def scoped_def createAddress_def changing_def\<close>)

lemma ad_on_known:
  assumes s: "ad_known R s" and v: "\<And>rs m. v = AdList rs \<Longrightarrow> Fresh m \<in> set rs \<Longrightarrow> R m"
  shows "ad_piece R (ad_on v s)"
proof (cases v)
  case (AdAct h)
  then show ?thesis using s ad_run_known by (auto simp: idle_def)
next
  case (AdList rs)
  then show ?thesis using setAddresses_known [OF s, of rs] v by (auto simp: idle_def)
qed (use s in \<open>auto simp: idle_def\<close>)

lemma ad_known_more: "ad_known R s \<Longrightarrow> (\<And>m. R m \<Longrightarrow> R' m) \<Longrightarrow> ad_known R' s"
  by (auto simp: ad_known_def) metis

lemma sent_later: "sent as h m \<Longrightarrow> sent as (x # h) m"
  by (auto simp: sent_def)

lemma ad_known_later: "ad_known (sent as h) s \<Longrightarrow> ad_known (sent as (x # h)) s"
  by (rule ad_known_more [OF _ sent_later])

lemma names_known_later: "names_known (sent as h) q \<Longrightarrow> names_known (sent as (x # h)) q"
  using sent_later [of as h _ x] by (induction "sent as h" q rule: names_known.induct) auto

interpretation given: traced_component "addresses_component (fresh_addresses m as)" S "\<lambda>h. ad_known (sent as h)"
    "\<lambda>h q (k :: ad_cont). names_known (sent as h) q" "\<lambda>h k. True" "\<lambda>h e. True" for m as S
proof unfold_locales
  fix h :: "(addresses_page, ad_request, ad_cont, ad_reply, ad_event) history" and s
  show "ad_piece (sent as h) (c_mount (addresses_component (fresh_addresses m as)) s)"
    by (auto simp: ad_known_def fresh_addresses_def sent_def)
next
  fix h h' :: "(addresses_page, ad_request, ad_cont, ad_reply, ad_event) history" and s v
  assume "ad_known (sent as h) s" "h' = Acted s v # h"
  then show "ad_piece (sent as h') (c_event (addresses_component (fresh_addresses m as)) v s)"
    using ad_on_known [of "sent as h'" s v] ad_known_later [of as h s "Acted s v"] by (fastforce simp: sent_def simp del: ad_on.simps)
next
  fix h h' :: "(addresses_page, ad_request, ad_cont, ad_reply, ad_event) history" and s q k r
  assume "ad_known (sent as h) s" "h' = Answered q k r # h"
  then have "ad_known (sent as h') s" by (simp add: ad_known_later)
  then show "ad_piece (sent as h') (c_resume (addresses_component (fresh_addresses m as)) k r s)"
    by (cases k; cases r) (auto simp: idle_def)
next
  fix h h' :: "(addresses_page, ad_request, ad_cont, ad_reply, ad_event) history" and s k
  assume "ad_known (sent as h) s" "h' = Fired k # h"
  then have "ad_known (sent as h') s" by (simp add: ad_known_later)
  then show "ad_piece (sent as h') (c_timer (addresses_component (fresh_addresses m as)) k s)"
    by (cases k) (auto simp: ad_pieces)
next
  fix h :: "(addresses_page, ad_request, ad_cont, ad_reply, ad_event) history" and s s'
  assume "ad_known (sent as h) s'"
  then show "ad_piece (sent as h) (c_effect (addresses_component (fresh_addresses m as)) s s')"
    by (auto simp: ad_effects_def idle_def)
qed (simp_all add: names_known_later)

section \<open>Properties\<close>

text \<open>C14. The page never changes what an address is: in every run each row that it shows is, but for its name, an address
  that the page was given, with the identifier, the network and the account that this one had; a request to rename
  or to delete names the identifier of an address that was given; no click, answer or timer changes the rows or
  anything but a name in them, only a new answer of the list does; and when all its objects are new, the rows are
  that answer, in its order.\<close>

theorem only_names_change:
  assumes "arun (addresses_component (fresh_addresses m as)) S h w"
  shows "(\<forall>a \<in> set (ad_rows (wst w)). \<exists>x. sent as h x \<and> nameless (address_at (wst w) a) = nameless x)
    \<and> (\<forall>mid i n k. ((mid, AddressReq (UpdateAddress i n)), k) \<in> set (pending w) \<or> ((mid, AddressReq (DeleteAddress i)), k) \<in> set (pending w)
      \<longrightarrow> (\<exists>x. sent as h x \<and> ma_id x = i))
    \<and> (\<forall>w'. astep (addresses_component (fresh_addresses m as)) w w' \<longrightarrow>
      (\<exists>rs. w' = do_event (addresses_component (fresh_addresses m as)) (AdList rs) w)
      \<or> map (\<lambda>a. nameless (address_at (wst w') a)) (ad_rows (wst w')) = map (\<lambda>a. nameless (address_at (wst w) a)) (ad_rows (wst w)))
    \<and> (\<forall>ms w'. w' = do_event (addresses_component (fresh_addresses m as)) (AdList (map Fresh ms)) w \<longrightarrow>
      map (address_at (wst w')) (ad_rows (wst w')) = ms)"
proof (intro conjI allI impI)
  have known: "ad_known (sent as h) (wst w)" by (rule given.traced(1) [OF assms])
  show "\<forall>a \<in> set (ad_rows (wst w)). \<exists>x. sent as h x \<and> nameless (address_at (wst w) a) = nameless x"
    using known known_address by (fastforce simp: ad_known_def)
  fix mid i n k
  assume "((mid, AddressReq (UpdateAddress i n)), k) \<in> set (pending w) \<or> ((mid, AddressReq (DeleteAddress i)), k) \<in> set (pending w)"
  then show "\<exists>x. sent as h x \<and> ma_id x = i" using given.traced(2) [OF assms] by fastforce
next
  fix w' assume "astep (addresses_component (fresh_addresses m as)) w w'"
  from step_kept [OF this]
  show "(\<exists>rs. w' = do_event (addresses_component (fresh_addresses m as)) (AdList rs) w)
      \<or> map (\<lambda>a. nameless (address_at (wst w') a)) (ad_rows (wst w')) = map (\<lambda>a. nameless (address_at (wst w) a)) (ad_rows (wst w))"
  proof (elim disjE)
    assume k: "map nameless (ad_store (wst w')) = map nameless (ad_store (wst w)) \<and> ad_rows (wst w') = ad_rows (wst w)"
    have "nameless (address_at (wst w') a) = nameless (address_at (wst w) a)" if "a \<in> set (ad_rows (wst w))" for a
    proof -
      have "a < length (ad_store (wst w))" using given.traced(1) [OF assms] that by (auto simp: ad_known_def)
      moreover from this k have "a < length (ad_store (wst w'))" by (metis length_map)
      ultimately show ?thesis using k by (metis address_at_def nth_map)
    qed
    then show ?thesis using k by simp
  qed blast
next
  fix ms w' assume "w' = do_event (addresses_component (fresh_addresses m as)) (AdList (map Fresh ms)) w"
  then show "map (address_at (wst w')) (ad_rows (wst w')) = ms"
    using setAddresses_fresh [of ms "wst w"] by (simp add: do_event_def commit_wst idle_def ad_effects_def address_at_def)
qed

text \<open>A rename asks the server for the name that was typed, for the address that was opened. The list shows that
  name from then on, also when the server has refused it.\<close>

lemma rename_request:
  assumes "openedAddress s = [a]" and "a < length (ad_store s)" and "ad_name s \<noteq> []" and "\<not> ad_submitting s"
  shows "snd (submit_name s) = [Await (scoped (AddressReq (UpdateAddress (ma_id (address_at s a)) (ad_name s))) s) (AdUpdateAnswer a)]"
  using assms by (simp add: submit_name_def uploadNewAddress_def updateAddress_def changing_def scoped_def rename_def address_at_def)

lemma refused_name_shown:
  assumes "openedAddress s = [a]" and "a < length (ad_store s)" and "ad_name s \<noteq> []" and "\<not> ad_submitting s"
  shows "ma_name (address_at (fst (ad_resume (AdUpdateAnswer a) (Rejected e) (fst (submit_name s)))) a) = ad_name s"
  using assms by (simp add: submit_name_def uploadNewAddress_def rename_def address_at_def idle_def)

text \<open>The form is freed: while it is locked, an answer or a timer of a submission is under way.\<close>

lemma address_form_freed:
  assumes "areach (addresses_component (fresh_addresses m as)) S w" and "ad_submitting (wst w)"
  shows "(\<exists>(q, k) \<in> set (pending w). ad_asks k) \<or> (\<exists>(t, k) \<in> set (timers w). ad_ticks k)"
  using addresses.freed [OF assms] .

definition sample_address :: merchant_address where
  "sample_address = \<lparr>ma_address = ''0x1'', ma_blockchain = ''ETH'', ma_name = ''Cold'', ma_blockchainName = ''Ethereum'', ma_id = ''a1''\<rparr>"

text \<open>An address is opened, its name typed and sent.\<close>

theorem only_names_change_witness:
  "\<exists>h w k. arun (addresses_component (fresh_addresses None [sample_address])) (\<lambda>s. True) h w
     \<and> map (\<lambda>a. ma_name (address_at (wst w) a)) (ad_rows (wst w)) = [''Hot'']
     \<and> ((''null'', AddressReq (UpdateAddress ''a1'' ''Hot'')), k) \<in> set (pending w)
     \<and> (\<forall>a \<in> set (ad_rows (wst w)). \<exists>x. sent [sample_address] h x \<and> nameless (address_at (wst w) a) = nameless x)
     \<and> (\<exists>x. sent [sample_address] h x \<and> ma_id x = ''a1'')"
proof -
  let ?c = "addresses_component (fresh_addresses None [sample_address])"
  define w0 where "w0 = initial ?c (fresh_addresses None [sample_address])"
  define w1 where "w1 = do_event ?c (AdAct (HEditAddress 0)) w0"
  define w2 where "w2 = do_event ?c (AdName ''Hot'') w1"
  define w3 where "w3 = do_event ?c (AdAct HSubmitName) w2"
  have "areach ?c (\<lambda>s. True) w3"
    unfolding w3_def w2_def w1_def w0_def by (intro event_reach areach.start) simp
  then obtain h where r: "arun ?c (\<lambda>s. True) h w3" using areach_arun by blast
  have d: "wst (do_event ?c e w) = fst (andThen (ad_on e (wst w)) (ad_effects (wst w)))" for e w
    by (simp add: do_event_def commit_wst)
  have w0: "wst w0 = fresh_addresses None [sample_address]" by (simp add: w0_def mount_run)
  have w1: "wst w1 = (wst w0)\<lparr>openedAddress := [0], ad_name := ''Cold''\<rparr>"
    unfolding w1_def d by (simp add: addresses_view_def w0 data_table_def table_rows_def address_columns_def fresh_addresses_def open_address_def address_at_def
        sample_address_def idle_def ad_effects_def)
  have w2: "wst w2 = (wst w1)\<lparr>ad_name := ''Hot''\<rparr>"
    unfolding w2_def d by (simp add: w1 w0 idle_def ad_effects_def fresh_addresses_def)
  have s: "HSubmitName \<in> set (handlers_of (addresses_view (wst w2)))"
    by (simp add: addresses_view_def w2 w1 DrawerForm_def AddressEditForm_def when_ui_def)
  then have n: "map (\<lambda>a. ma_name (address_at (wst w3) a)) (ad_rows (wst w3)) = [''Hot'']"
    unfolding w3_def d by (simp add: submit_name_def w2 w1 w0 fresh_addresses_def uploadNewAddress_def rename_def address_at_def ad_effects_def idle_def)
  have p: "((''null'', AddressReq (UpdateAddress ''a1'' ''Hot'')), AdUpdateAnswer 0) \<in> set (pending w3)"
    unfolding w3_def using s by (simp add: do_event_def pending_commit submit_name_def w2 w1 w0 fresh_addresses_def uploadNewAddress_def rename_def
        address_at_def scoped_def updateAddress_def changing_def sample_address_def merchant_id_text_def)
  then have "\<exists>x. sent [sample_address] h x \<and> ma_id x = ''a1''" using only_names_change [OF r] by blast
  moreover have "\<forall>a \<in> set (ad_rows (wst w3)). \<exists>x. sent [sample_address] h x \<and> nameless (address_at (wst w3) a) = nameless x"
    using only_names_change [OF r] by blast
  ultimately show ?thesis using r n p by (intro exI [of _ h] exI [of _ w3] exI [of _ "AdUpdateAnswer 0"] conjI)
qed

end
