(* ===== verification/Customers_Page.thy ===== *)
theory Customers_Page
  imports Form_Kit
begin

text \<open>
  The page of customers (ui-dashboard/src/pages/customers-page/customers-page.tsx) with the card of one
  (ui-dashboard/src/components/customer-desc-card/customer-desc-card.tsx), as an asynchronous component. Each
  opening of the drawer mounts a card of its own, with a number; an answer for a card that is gone changes nothing.
  The pages of the list and what the hooks say of their loading are inputs.
\<close>

section \<open>State\<close>

(* src: ui-dashboard/src/pages/customers-page/customers-page.tsx 31-40 CustomersPage *)
record customers_state =
  cus_merchantId :: "string option"
  cus_loading :: bool
  cus_hasNext :: bool
  customers :: "dash_customer list"
  cus_opened :: "dash_customer list"
  cus_card :: nat
  cus_cardLoading :: bool
  cus_customer :: "dash_customer option"
  cus_payment :: "dash_payment list"

datatype cus_cont = CusLoaded nat | CusPayment nat

datatype cus_answer = GotCustomer dash_customer | GotPayment dash_payment

datatype cus_effect = CusRefetch | CusNextPage

type_synonym cus_outcome = "(customers_state, string \<times> scoped_request, cus_cont, cus_effect) outcome"

type_synonym cus_reply = "(cus_answer, unit) reply"

section \<open>Operations\<close>

text \<open>The rows: the results of all pages, in order.\<close>

(* src: ui-dashboard/src/pages/customers-page/customers-page.tsx 42-44 setCustomers *)
definition setCustomers :: "customers_page list option \<Rightarrow> customers_state \<Rightarrow> customers_state" where
  "setCustomers pages s = s\<lparr>customers := concat (map cpg_results (case pages of None \<Rightarrow> [] | Some ps \<Rightarrow> ps))\<rparr>"

(* src: ui-dashboard/src/components/customer-desc-card/customer-desc-card.tsx 68-73 loadUser *)
definition loadUser :: "customers_state \<Rightarrow> cus_outcome" where
  "loadUser s =
     (case cus_opened s of
        d # ds \<Rightarrow> if cu_id d = ''empty'' then idle s
          else (s, [Await (merchant_id_text (cus_merchantId s), mu_request getCustomer (cu_id d)) (CusLoaded (cus_card s))])
      | [] \<Rightarrow> idle s)"

(* src: ui-dashboard/src/components/customer-desc-card/customer-desc-card.tsx 73-75 setCustomer *)
fun customer_loaded :: "nat \<Rightarrow> cus_reply \<Rightarrow> customers_state \<Rightarrow> cus_outcome" where
  "customer_loaded c (Resolved (GotCustomer x)) s = idle (if c = cus_card s then s\<lparr>cus_customer := Some x\<rparr> else s)"
| "customer_loaded c a s = idle s"

(* src: ui-dashboard/src/components/customer-desc-card/customer-desc-card.tsx 28-29 loadPayment *)
definition loadPayment :: "string \<Rightarrow> customers_state \<Rightarrow> cus_outcome" where
  "loadPayment i s = (s, [Await (merchant_id_text (cus_merchantId s), mu_request getPayment i) (CusPayment (cus_card s))])"

(* src: ui-dashboard/src/components/customer-desc-card/customer-desc-card.tsx 29-32 changeOpenedCard *)
fun payment_loaded :: "nat \<Rightarrow> cus_reply \<Rightarrow> customers_state \<Rightarrow> cus_outcome" where
  "payment_loaded c (Resolved (GotPayment p)) s = idle (if c = cus_card s then s\<lparr>cus_payment := [p]\<rparr> else s)"
| "payment_loaded c a s = idle s"

text \<open>A click on a row. The drawer mounts a card if it was closed; the effect of the card runs when its customer
  is another object.\<close>

(* src: ui-dashboard/src/components/customer-desc-card/customer-desc-card.tsx 77-81 useEffect *)
definition open_customer :: "dash_customer \<Rightarrow> customers_state \<Rightarrow> cus_outcome" where
  "open_customer d s =
     (if cus_opened s = []
      then loadUser (s\<lparr>cus_opened := [d], cus_card := Suc (cus_card s), cus_customer := None, cus_payment := []\<rparr>)
      else if cus_opened s = [d] then idle s
      else loadUser (s\<lparr>cus_opened := [d]\<rparr>))"

text \<open>Closing the drawer destroys the card.\<close>

(* src: ui-dashboard/src/pages/customers-page/customers-page.tsx 52-56 changeIsCardOpen *)
definition close_customer :: "customers_state \<Rightarrow> customers_state" where
  "close_customer s = s\<lparr>cus_opened := [], cus_card := Suc (cus_card s), cus_customer := None, cus_payment := []\<rparr>"

section \<open>What the page shows\<close>

datatype cus_handler = HCustomer dash_customer | HMoreCustomers | HCloseCustomer | HViewPayment string | HClosePayment

(* src: ui-dashboard/src/pages/customers-page/customers-page.tsx 15-29 columns *)
definition customer_columns :: "(string \<Rightarrow> string) \<Rightarrow> (string \<Rightarrow> string) \<Rightarrow> (dash_customer, cus_handler) column list" where
  "customer_columns local utc =
     [(''Created At'', \<lambda>c. [TimeLabel local utc (cu_createdAt c)]), (''Email'', \<lambda>c. [CollapseString (cu_email c) 32 (Some (cu_email c))])]"

(* src: ui-dashboard/src/components/customer-desc-card/customer-desc-card.tsx 34-66 columns *)
definition customer_payment_columns :: "(string \<Rightarrow> string) \<Rightarrow> (string \<Rightarrow> string) \<Rightarrow> (customer_payment, cus_handler) column list" where
  "customer_payment_columns local utc =
     [(''Created At'', \<lambda>p. [TimeLabel local utc (cp_createdAt p)]), (''Status'', \<lambda>p. [PaymentStatusLabel (cp_status p)]),
      (''Price'', \<lambda>p. [leaf ''span'' (template (CURRENCY_SYMBOL (cp_currency p)) @ '' '' @ cp_price p)]),
      (''Btn'', \<lambda>p. [El ''Button'' [] [(''onClick'', HViewPayment (cp_id p))] [Txt ''View'']])]"

(* src: ui-dashboard/src/components/customer-desc-card/customer-desc-card.tsx 89-145 Descriptions *)
definition CustomerDescCard :: "(string \<Rightarrow> string) \<Rightarrow> (string \<Rightarrow> string) \<Rightarrow> customers_state \<Rightarrow> cus_handler ui list" where
  "CustomerDescCard local utc s =
     when_ui (cus_cardLoading s) [comp ''Spin'' []]
     @ (case (cus_customer s, Option.bind (cus_customer s) cu_details) of
          (Some c, Some d) \<Rightarrow> when_ui (\<not> cus_cardLoading s)
            ([leaf ''ID'' (cu_id c), leaf ''Email'' (cu_email c), leaf ''Successful Payments'' (show_nat (successfulPayments d))]
             @ when_ui (cd_payments d \<noteq> [])
                 [leaf ''Recent payments'' [], data_table (cus_cardLoading s) cp_id (customer_payment_columns local utc) (cd_payments d)])
        | _ \<Rightarrow> [])
     @ [DrawerForm ''Payment details'' (cus_payment s \<noteq> []) HClosePayment True
          (map (\<lambda>p. comp ''PaymentDescCard'' [(''data'', dp_id p)]) (take 1 (cus_payment s)))]"

(* src: ui-dashboard/src/pages/customers-page/customers-page.tsx 67-111 PageContainer *)
definition customers_view :: "(string \<Rightarrow> string) \<Rightarrow> (string \<Rightarrow> string) \<Rightarrow> customers_state \<Rightarrow> cus_handler ui list" where
  "customers_view local utc s =
     [leaf ''Title'' ''Customers'', data_table (cus_loading s) cu_id (customer_columns local utc) (customers s)]
     @ map (\<lambda>c. El ''tr'' [(''key'', cu_id c)] [(''onClick'', HCustomer c)] []) (customers s)
     @ when_ui (customers s = []) [leaf ''Result'' ''No data provided'']
     @ [El ''Button'' [(''disabled'', bool_attr (\<not> cus_hasNext s))] (when_ui (cus_hasNext s) [(''onClick'', HMoreCustomers)]) [Txt ''Load more''],
        DrawerForm ''Customer details'' (cus_opened s \<noteq> []) HCloseCustomer False (CustomerDescCard local utc s)]"

section \<open>The component\<close>

datatype cus_event = CusAct cus_handler | CusData "customers_page list option" | CusFlags bool bool bool | CusMerchant "string option"

fun cus_run :: "cus_handler \<Rightarrow> customers_state \<Rightarrow> cus_outcome" where
  "cus_run (HCustomer c) s = open_customer c s"
| "cus_run HMoreCustomers s = (s, [Emit CusNextPage])"
| "cus_run HCloseCustomer s = idle (close_customer s)"
| "cus_run (HViewPayment i) s = loadPayment i s"
| "cus_run HClosePayment s = idle (s\<lparr>cus_payment := []\<rparr>)"

fun cus_on :: "cus_event \<Rightarrow> customers_state \<Rightarrow> cus_outcome" where
  "cus_on (CusAct h) s = (if h \<in> set (handlers_of (customers_view id id s)) then cus_run h s else idle s)"
| "cus_on (CusData ps) s = idle (setCustomers ps s)"
| "cus_on (CusFlags l n c) s = idle (s\<lparr>cus_loading := l, cus_hasNext := n, cus_cardLoading := c\<rparr>)"
| "cus_on (CusMerchant m) s = idle (s\<lparr>cus_merchantId := m\<rparr>)"

fun cus_resume :: "cus_cont \<Rightarrow> cus_reply \<Rightarrow> customers_state \<Rightarrow> cus_outcome" where
  "cus_resume (CusLoaded c) a s = customer_loaded c a s"
| "cus_resume (CusPayment c) a s = payment_loaded c a s"

definition merchant_refetch :: "customers_state \<Rightarrow> cus_outcome" where
  "merchant_refetch s = (if truthy (cus_merchantId s) then (s, [Emit CusRefetch]) else idle s)"

(* src: ui-dashboard/src/pages/customers-page/customers-page.tsx 46-50 useEffect *)
definition cus_effects :: "customers_state \<Rightarrow> customers_state \<Rightarrow> cus_outcome" where
  "cus_effects old s = (if cus_merchantId s = cus_merchantId old then idle s else merchant_refetch s)"

definition fresh_customers :: "string option \<Rightarrow> customers_page list option \<Rightarrow> customers_state" where
  "fresh_customers m ps = setCustomers ps \<lparr>cus_merchantId = m, cus_loading = False, cus_hasNext = False, customers = [], cus_opened = [],
     cus_card = 0, cus_cardLoading = False, cus_customer = None, cus_payment = []\<rparr>"

text \<open>The server answers with the customer that was asked for.\<close>

fun cus_fits :: "string \<times> scoped_request \<Rightarrow> cus_reply \<Rightarrow> bool" where
  "cus_fits (m, MerchantReq (GetCustomerDetails i)) (Resolved a) = (\<exists>c. a = GotCustomer c \<and> cu_id c = i)"
| "cus_fits (m, MerchantReq (MerchantGetPayment i)) (Resolved a) = (\<exists>p. a = GotPayment p)"
| "cus_fits q a = True"

definition customers_component where
  "customers_component start = \<lparr>c_mount = (\<lambda>s. merchant_refetch start), c_event = cus_on, c_resume = cus_resume,
     c_timer = (\<lambda>k s. idle s), c_effect = cus_effects, c_fits = cus_fits\<rparr>"

lemma customers_component_simps [simp]:
  "c_mount (customers_component st) = (\<lambda>s. merchant_refetch st)" "c_event (customers_component st) = cus_on"
  "c_resume (customers_component st) = cus_resume" "c_timer (customers_component st) = (\<lambda>k s. idle s)"
  "c_effect (customers_component st) = cus_effects" "c_fits (customers_component st) = cus_fits"
  by (simp_all add: customers_component_def)

section \<open>Lemmas\<close>

text \<open>What each request and its continuation satisfy.\<close>

definition cus_typed :: "string \<times> scoped_request \<Rightarrow> cus_cont \<Rightarrow> bool" where
  "cus_typed q k = (case k of
       CusLoaded c \<Rightarrow> (\<exists>i. snd q = MerchantReq (GetCustomerDetails i) \<and> i \<noteq> ''empty'')
     | CusPayment c \<Rightarrow> (\<exists>i. snd q = MerchantReq (MerchantGetPayment i)))"

abbreviation "cus_ok \<equiv> ok_outcome (\<lambda>s. True) cus_typed (\<lambda>k. False) (\<lambda>e. True)"

lemma loadUser_ok: "cus_ok (loadUser s)"
  by (auto simp: loadUser_def idle_def cus_typed_def getCustomer_def reading_def split: list.split)

lemma cus_run_ok: "cus_ok (cus_run h s)"
  using loadUser_ok by (cases h) (auto simp: open_customer_def idle_def loadPayment_def cus_typed_def getPayment_def reading_def)

lemma cus_resume_ok: "cus_ok (cus_resume k a s)"
proof (cases k)
  case (CusLoaded c)
  then show ?thesis by (cases "(c, a, s)" rule: customer_loaded.cases) (auto simp: idle_def)
next
  case (CusPayment c)
  then show ?thesis by (cases "(c, a, s)" rule: payment_loaded.cases) (auto simp: idle_def)
qed

interpretation customers: safe_component "customers_component st" "\<lambda>s. True" cus_typed "\<lambda>k. False" "\<lambda>e. True" for st
proof unfold_locales
  fix v s show "cus_ok (c_event (customers_component st) v s)"
    using cus_run_ok by (cases v) (auto simp: idle_def)
qed (use cus_resume_ok in \<open>auto simp: merchant_refetch_def cus_effects_def idle_def\<close>)

text \<open>Every run asks for the details of customers only, never of the placeholder of an empty row.\<close>

lemma customers_asked:
  assumes "areach (customers_component st) S w" and "(q, CusLoaded c) \<in> set (pending w)"
  shows "\<exists>i. snd q = MerchantReq (GetCustomerDetails i) \<and> i \<noteq> ''empty''"
  using customers.reachable_ok [OF assms(1)] assms(2) by (fastforce simp: ok_world_def cus_typed_def)

text \<open>A late answer never opens anything: only an answer for the card that is shown changes what is shown.\<close>

lemma late_answer_ignored:
  assumes "c \<noteq> cus_card s"
  shows "cus_resume (CusLoaded c) a s = (s, [])" and "cus_resume (CusPayment c) a s = (s, [])"
proof -
  show "cus_resume (CusLoaded c) a s = (s, [])"
    using assms by (cases "(c, a, s)" rule: customer_loaded.cases) (auto simp: idle_def)
  show "cus_resume (CusPayment c) a s = (s, [])"
    using assms by (cases "(c, a, s)" rule: payment_loaded.cases) (auto simp: idle_def)
qed

text \<open>A price in a currency without a symbol is preceded by the word for a missing value.\<close>

lemma unknown_symbol_written:
  assumes "CURRENCY_SYMBOL (cp_currency p) = None"
  shows "snd (customer_payment_columns local utc ! 2) p = [leaf ''span'' (''undefined '' @ cp_price p)]"
  using assms by (simp add: customer_payment_columns_def template_def)

end
