(* ===== verification/Profile_Page.thy ===== *)
theory Profile_Page
  imports Form_Kit
begin

text \<open>
  The profile of the user (ui-dashboard/src/pages/profile-page/profile-page.tsx) as an asynchronous component: the
  form of the account and the form of the password, each with its own button that loads. A rejection carries the
  message of the server, where it has one. Whether a mail address is accepted is a rule of the component library
  and a parameter of the model.
\<close>

section \<open>State\<close>

record profile_fields =
  pr_name :: string
  pr_email :: string
  pr_companyName :: string
  pr_address :: string
  pr_website :: string
  pr_phone :: string

record password_fields =
  pw_current :: string
  pw_new :: string
  pw_confirm :: string

(* src: ui-dashboard/src/pages/profile-page/profile-page.tsx 7-13 ProfilePage *)
record profile_page =
  pr_form :: profile_fields
  pr_password :: password_fields
  profileLoading :: bool
  passwordLoading :: bool
  pr_verified :: "bool option"

datatype pr_cont = ProfileRead | ProfileUpdated | PasswordUpdated

datatype pr_answer = PrUser user | PrDone

datatype pr_effect = PrSuccess string string | PrError string string

type_synonym pr_outcome = "(profile_page, auth_request, pr_cont, pr_effect) outcome"

type_synonym pr_reply = "(pr_answer, string option) reply"

definition no_password :: password_fields where
  "no_password = \<lparr>pw_current = [], pw_new = [], pw_confirm = []\<rparr>"

section \<open>Operations\<close>

(* src: ui-dashboard/src/pages/profile-page/profile-page.tsx 19-26 setFieldsValue *)
definition profile_of :: "user \<Rightarrow> profile_fields" where
  "profile_of u =
     \<lparr>pr_name = u_name u, pr_email = u_email u, pr_companyName = or_else (u_companyName u) [], pr_address = or_else (u_address u) [],
      pr_website = or_else (u_website u) [], pr_phone = or_else (u_phone u) []\<rparr>"

(* src: ui-dashboard/src/pages/profile-page/profile-page.tsx 15-33 loadProfile *)
fun profile_read :: "pr_reply \<Rightarrow> profile_page \<Rightarrow> pr_outcome" where
  "profile_read (Resolved (PrUser u)) s = idle (s\<lparr>pr_form := profile_of u, pr_verified := emailVerified u\<rparr>)"
| "profile_read a s = idle s"

text \<open>What is sent of the form.\<close>

definition profile_values :: "profile_fields \<Rightarrow> (string \<times> jval) list" where
  "profile_values v =
     [(''name'', JStr (pr_name v)), (''email'', JStr (pr_email v)), (''companyName'', JStr (pr_companyName v)),
      (''address'', JStr (pr_address v)), (''website'', JStr (pr_website v)), (''phone'', JStr (pr_phone v))]"

(* src: ui-dashboard/src/pages/profile-page/profile-page.tsx 35-38 handleProfileUpdate *)
definition handleProfileUpdate :: "profile_fields \<Rightarrow> profile_page \<Rightarrow> pr_outcome" where
  "handleProfileUpdate v s = (s\<lparr>profileLoading := True\<rparr>, [Await (AuthUpdateProfile (profile_values v)) ProfileUpdated])"

(* src: ui-dashboard/src/pages/profile-page/profile-page.tsx 38-63 updated *)
fun profile_updated :: "pr_reply \<Rightarrow> profile_page \<Rightarrow> pr_outcome" where
  "profile_updated (Resolved (PrUser u)) s =
     (s\<lparr>pr_form := profile_of u, pr_verified := emailVerified u, profileLoading := False\<rparr>,
      [Emit (PrSuccess ''Profile updated'' ''Your profile has been updated successfully.'')])"
| "profile_updated (Resolved a) s = idle (s\<lparr>profileLoading := False\<rparr>)"
| "profile_updated (Rejected e) s =
     (s\<lparr>profileLoading := False\<rparr>, [Emit (PrError ''Update failed'' (or_else e ''Failed to update profile.''))])"

(* src: ui-dashboard/src/pages/profile-page/profile-page.tsx 65-80 handlePasswordChange *)
definition handlePasswordChange :: "password_fields \<Rightarrow> profile_page \<Rightarrow> pr_outcome" where
  "handlePasswordChange v s =
     (if pw_new v \<noteq> pw_confirm v
      then (s, [Emit (PrError (''Passwords don'' @ CHR 0x27 # ''t match'') ''New password and confirmation must match.'')])
      else (s\<lparr>passwordLoading := True\<rparr>, [Await (AuthUpdatePassword (pw_current v) (pw_new v)) PasswordUpdated]))"

(* src: ui-dashboard/src/pages/profile-page/profile-page.tsx 81-97 resetFields *)
fun password_updated :: "pr_reply \<Rightarrow> profile_page \<Rightarrow> pr_outcome" where
  "password_updated (Resolved a) s =
     (s\<lparr>pr_password := no_password, passwordLoading := False\<rparr>,
      [Emit (PrSuccess ''Password changed'' ''Your password has been changed successfully.'')])"
| "password_updated (Rejected e) s =
     (s\<lparr>passwordLoading := False\<rparr>, [Emit (PrError ''Password change failed'' (or_else e ''Failed to change password.''))])"

section \<open>What the page shows\<close>

datatype pr_handler = HSaveProfile | HChangePassword

text \<open>The rules of the two forms.\<close>

(* src: ui-dashboard/src/pages/profile-page/profile-page.tsx 114-119 rules *)
definition profile_rules :: "(string \<Rightarrow> bool) \<Rightarrow> profile_fields \<Rightarrow> bool" where
  "profile_rules is_email v \<longleftrightarrow> pr_name v \<noteq> [] \<and> pr_email v \<noteq> [] \<and> is_email (pr_email v)"

(* src: ui-dashboard/src/pages/profile-page/profile-page.tsx 145-171 rules *)
definition password_rules :: "password_fields \<Rightarrow> bool" where
  "password_rules v \<longleftrightarrow> pw_current v \<noteq> [] \<and> pw_new v \<noteq> [] \<and> 8 \<le> length (pw_new v) \<and> pw_confirm v \<noteq> [] \<and> 8 \<le> length (pw_confirm v)"

definition form_item :: "string \<Rightarrow> string \<Rightarrow> 'h ui" where
  "form_item name label = El ''Form.Item'' [(''name'', name), (''label'', label)] [] [comp ''Input'' []]"

lemma form_item_handlers [simp]: "ui_handlers (form_item n l) = []"
  by (simp add: form_item_def)

(* src: ui-dashboard/src/pages/profile-page/profile-page.tsx 106-141 Card *)
definition profile_card :: "profile_page \<Rightarrow> pr_handler ui" where
  "profile_card s =
     El ''Card'' [(''title'', ''Account Information'')] []
       ((case pr_verified s of None \<Rightarrow> [] | Some v \<Rightarrow> [leaf ''Tag'' (if v then ''Email Verified'' else ''Email Not Verified'')])
        @ [El ''Form'' [] [(''onFinish'', HSaveProfile)]
             (map (\<lambda>(n, l). form_item n l)
                [(''name'', ''Display Name''), (''email'', ''Email''), (''companyName'', ''Company / Organization''),
                 (''address'', ''Business Address''), (''website'', ''Website''), (''phone'', ''Phone'')]
              @ [El ''Button'' [(''htmlType'', ''submit''), (''loading'', bool_attr (profileLoading s))] [] [Txt ''Save Changes'']])])"

(* src: ui-dashboard/src/pages/profile-page/profile-page.tsx 143-178 Card *)
definition password_card :: "profile_page \<Rightarrow> pr_handler ui" where
  "password_card s =
     El ''Card'' [(''title'', ''Change Password'')] []
       [El ''Form'' [] [(''onFinish'', HChangePassword)]
          (map (\<lambda>(n, l). form_item n l)
             [(''currentPassword'', ''Current Password''), (''newPassword'', ''New Password''), (''confirmPassword'', ''Confirm New Password'')]
           @ [El ''Button'' [(''htmlType'', ''submit''), (''loading'', bool_attr (passwordLoading s))] [] [Txt ''Change Password'']])]"

(* src: ui-dashboard/src/pages/profile-page/profile-page.tsx 99-105 PageContainer *)
definition profile_view :: "profile_page \<Rightarrow> pr_handler ui list" where
  "profile_view s = [leaf ''Title'' ''Profile'', profile_card s, password_card s]"

section \<open>The component\<close>

text \<open>A button that loads takes no clicks.\<close>

datatype pr_event = PrFill profile_fields | PrPassword password_fields | PrSave | PrChange

fun pr_on :: "(string \<Rightarrow> bool) \<Rightarrow> pr_event \<Rightarrow> profile_page \<Rightarrow> pr_outcome" where
  "pr_on is_email (PrFill v) s = idle (s\<lparr>pr_form := v\<rparr>)"
| "pr_on is_email (PrPassword v) s = idle (s\<lparr>pr_password := v\<rparr>)"
| "pr_on is_email PrSave s = (if profileLoading s \<or> \<not> profile_rules is_email (pr_form s) then idle s else handleProfileUpdate (pr_form s) s)"
| "pr_on is_email PrChange s = (if passwordLoading s \<or> \<not> password_rules (pr_password s) then idle s else handlePasswordChange (pr_password s) s)"

fun pr_resume :: "pr_cont \<Rightarrow> pr_reply \<Rightarrow> profile_page \<Rightarrow> pr_outcome" where
  "pr_resume ProfileRead a s = profile_read a s"
| "pr_resume ProfileUpdated a s = profile_updated a s"
| "pr_resume PasswordUpdated a s = password_updated a s"

definition fresh_profile :: profile_page where
  "fresh_profile = \<lparr>pr_form = \<lparr>pr_name = [], pr_email = [], pr_companyName = [], pr_address = [], pr_website = [], pr_phone = []\<rparr>,
     pr_password = no_password, profileLoading = False, passwordLoading = False, pr_verified = None\<rparr>"

fun pr_fits :: "auth_request \<Rightarrow> pr_reply \<Rightarrow> bool" where
  "pr_fits AuthGetMe (Resolved a) = (\<exists>u. a = PrUser u)"
| "pr_fits (AuthUpdateProfile v) (Resolved a) = (\<exists>u. a = PrUser u)"
| "pr_fits q a = True"

definition profile_component where
  "profile_component is_email = \<lparr>c_mount = (\<lambda>s. (fresh_profile, [Await AuthGetMe ProfileRead])), c_event = pr_on is_email, c_resume = pr_resume,
     c_timer = (\<lambda>k s. idle s), c_effect = (\<lambda>old s. idle s), c_fits = pr_fits\<rparr>"

lemma profile_component_simps [simp]:
  "c_mount (profile_component ok) = (\<lambda>s. (fresh_profile, [Await AuthGetMe ProfileRead]))" "c_event (profile_component ok) = pr_on ok"
  "c_resume (profile_component ok) = pr_resume" "c_timer (profile_component ok) = (\<lambda>k s. idle s)"
  "c_effect (profile_component ok) = (\<lambda>old s. idle s)" "c_fits (profile_component ok) = pr_fits"
  by (simp_all add: profile_component_def)

section \<open>Lemmas\<close>

fun pr_typed :: "auth_request \<Rightarrow> pr_cont \<Rightarrow> bool" where
  "pr_typed AuthGetMe k = (k = ProfileRead)"
| "pr_typed (AuthUpdateProfile v) k = (k = ProfileUpdated)"
| "pr_typed (AuthUpdatePassword c n) k = (c \<noteq> [] \<and> 8 \<le> length n \<and> k = PasswordUpdated)"
| "pr_typed q k = False"

abbreviation "pr_asks \<equiv> (\<lambda>k. k = PasswordUpdated)"

lemmas pr_pieces = handleProfileUpdate_def handlePasswordChange_def idle_def password_rules_def

lemma pr_on_ok:
  "well pr_typed (\<lambda>k. False) (pr_on ok v s)" "busy passwordLoading pr_asks (\<lambda>k. False) (passwordLoading s) (pr_on ok v s)"
  by (cases v; auto simp: pr_pieces)+

lemma pr_resume_ok:
  "pr_typed q k \<Longrightarrow> well pr_typed (\<lambda>k. False) (pr_resume k a s)"
  "pr_typed q k \<Longrightarrow> busy passwordLoading pr_asks (\<lambda>k. False) (passwordLoading s \<and> \<not> pr_asks k) (pr_resume k a s)"
proof -
  have "well pr_typed (\<lambda>k. False) (pr_resume k a s)
      \<and> busy passwordLoading pr_asks (\<lambda>k. False) (passwordLoading s \<and> \<not> pr_asks k) (pr_resume k a s)"
  proof (cases a)
    case (Resolved x)
    then show ?thesis by (cases k; cases x) (auto simp: idle_def)
  qed (cases k; auto simp: idle_def)
  then show "well pr_typed (\<lambda>k. False) (pr_resume k a s)"
    "busy passwordLoading pr_asks (\<lambda>k. False) (passwordLoading s \<and> \<not> pr_asks k) (pr_resume k a s)" by auto
qed

interpretation profile: busy_page "profile_component ok" pr_typed "\<lambda>k. False" passwordLoading pr_asks "\<lambda>k. False" for ok
  by unfold_locales (use pr_on_ok pr_resume_ok in \<open>auto simp: fresh_profile_def\<close>)

text \<open>A new password is sent only if it is confirmed, has eight letters or more, and the old one is given; a
  mismatch sends nothing and says so.\<close>

lemma password_sent_strong:
  assumes "areach (profile_component ok) S w" and "(AuthUpdatePassword c n, k) \<in> set (pending w)"
  shows "c \<noteq> [] \<and> 8 \<le> length n"
  using profile.well_typed [OF assms] by simp

lemma mismatch_sends_nothing:
  assumes "pw_new (pr_password s) \<noteq> pw_confirm (pr_password s)"
  shows "\<not> (\<exists>q k. Await q k \<in> set (snd (pr_on ok PrChange s)))"
  using assms by (simp add: handlePasswordChange_def idle_def)

text \<open>The button of the password is freed: while it loads, the answer is under way.\<close>

lemma password_button_freed:
  assumes "areach (profile_component ok) S w" and "passwordLoading (wst w)"
  shows "\<exists>(q, k) \<in> set (pending w). k = PasswordUpdated"
  using profile.freed [OF assms] by auto

text \<open>A stored profile is shown as it is stored: saving the form of a user whose optional fields are set sends back
  what the server has.\<close>

lemma profile_values_of:
  assumes "u_companyName u = Some c" and "u_address u = Some a" and "u_website u = Some w" and "u_phone u = Some p"
  shows "profile_values (profile_of u) = [(''name'', JStr (u_name u)), (''email'', JStr (u_email u)), (''companyName'', JStr c),
    (''address'', JStr a), (''website'', JStr w), (''phone'', JStr p)]"
  using assms by (simp add: profile_values_def profile_of_def or_else_def)

end
