(* ===== verification/Withdrawals.thy ===== *)
theory Withdrawals
  imports Form_Kit
begin

text \<open>
  The form of a withdrawal (ui-dashboard/src/components/withdraw-form/withdraw-form.tsx), as an asynchronous
  component, and the card of one (ui-dashboard/src/components/withdraw-desc-card/withdraw-desc-card.tsx). No page
  of the repository shows either of them.

  The form computes with the numbers of the package bigfloat.js, which is a parameter of the model: how a text and a
  number are read, sums, the order, and how a number is written, with the number of decimals that was set last.
\<close>

section \<open>Numbers\<close>

record 'b big_floats =
  bf_text :: "string \<Rightarrow> 'b"
  bf_num :: "jsnum \<Rightarrow> 'b"
  bf_plus :: "'b \<Rightarrow> 'b \<Rightarrow> 'b"
  bf_less :: "'b \<Rightarrow> 'b \<Rightarrow> bool"
  bf_show :: "nat option \<Rightarrow> 'b \<Rightarrow> string"

definition digits :: "string \<Rightarrow> bool" where
  "digits t \<longleftrightarrow> t \<noteq> [] \<and> list_all is_digit t"

(* src: ui-dashboard/src/components/withdraw-form/withdraw-form.tsx 94-96 isNumeric *)
definition isNumeric :: "string \<Rightarrow> bool" where
  "isNumeric v \<longleftrightarrow> digits v \<or> v \<noteq> [] \<and> hd v = CHR ''-'' \<and> digits (tl v)"

(* src: ui-dashboard/src/components/withdraw-form/withdraw-form.tsx 102-122 checkCorrectAmount *)
definition checkCorrectAmount :: "string \<Rightarrow> bool" where
  "checkCorrectAmount amount =
     (if amount = [] \<or> hd amount = CHR ''-'' then False
      else case split_on CHR ''.'' amount of
        [p] \<Rightarrow> isNumeric p
      | p # q # ps \<Rightarrow> isNumeric p \<and> isNumeric q \<and> q \<noteq> []
      | [] \<Rightarrow> False)"

section \<open>State\<close>

text \<open>The field of the form holds what was typed; the amount that the form computes with is taken over when the
  input is left, and may be replaced by a bound.\<close>

(* src: ui-dashboard/src/components/withdraw-form/withdraw-form.tsx 71-82 WithdrawForm *)
record withdraw_state =
  wf_balance :: merchant_balance
  wf_addresses :: "merchant_address list"
  wf_merchantId :: "string option"
  wf_typed :: string
  wf_amount :: string
  wf_converted :: string
  wf_available :: string
  wf_fee :: "service_fee option"
  wf_feeLoading :: bool
  wf_addressId :: string
  wf_formOpen :: bool
  wf_submitting :: bool

datatype wf_cont =
    FeeRead bool | ConvertedRead | AvailableRead bool | WfAddressAnswer string | WfAddressWait string | WfReset

datatype wf_answer = WfFee service_fee | WfConverted dash_convert_result | WfDone

datatype wf_effect = WfInvalidate "string list" | WfPopup string string | WfFinish withdrawal

type_synonym wf_outcome = "(withdraw_state, string \<times> scoped_request, wf_cont, wf_effect) outcome"

type_synonym wf_reply = "(wf_answer, unit) reply"

(* src: ui-dashboard/src/components/withdraw-form/withdraw-form.tsx 98-100 displayAmount *)
definition displayAmount :: "bool \<Rightarrow> string \<Rightarrow> string" where
  "displayAmount test amount = (if test then ''0'' else amount)"

section \<open>Operations\<close>

definition wf_ask :: "scoped_request \<Rightarrow> withdraw_state \<Rightarrow> wf_cont \<Rightarrow> (string \<times> scoped_request, wf_cont, wf_effect) cmd" where
  "wf_ask q s k = Await (merchant_id_text (wf_merchantId s), q) k"

text \<open>The fee; the continuation says whether the balance is converted afterwards.\<close>

(* src: ui-dashboard/src/components/withdraw-form/withdraw-form.tsx 88-92 loadServiceFee *)
definition loadServiceFee :: "withdraw_state \<Rightarrow> wf_outcome" where
  "loadServiceFee s =
     (if bal_id (wf_balance s) \<noteq> ''empty'' then (s, [wf_ask (mu_request getServiceFee (bal_id (wf_balance s))) s (FeeRead False)]) else idle s)"

(* src: ui-dashboard/src/components/withdraw-form/withdraw-form.tsx 135-146 loadAvailableBalance *)
definition loadAvailableBalance :: "withdraw_state \<Rightarrow> wf_outcome" where
  "loadAvailableBalance s =
     (if bal_id (wf_balance s) = ''empty'' then idle s
      else (s\<lparr>wf_available := []\<rparr>,
        [wf_ask (mu_request getExchangeRate \<lparr>cv_from = bal_ticker (wf_balance s), cv_amount = bal_amount (wf_balance s), cv_to = ''USD''\<rparr>) s
           (AvailableRead (bal_isTest (wf_balance s)))]))"

(* src: ui-dashboard/src/components/withdraw-form/withdraw-form.tsx 146-148 setAvailableBalance *)
fun available_read :: "bool \<Rightarrow> wf_reply \<Rightarrow> withdraw_state \<Rightarrow> wf_outcome" where
  "available_read test (Resolved (WfConverted c)) s = idle (s\<lparr>wf_available := displayAmount test (convertedAmount c)\<rparr>)"
| "available_read test a s = idle s"

(* src: ui-dashboard/src/components/withdraw-form/withdraw-form.tsx 165-168 useMount *)
definition form_mounted :: "withdraw_state \<Rightarrow> wf_outcome" where
  "form_mounted s =
     (if bal_id (wf_balance s) \<noteq> ''empty'' then (s, [wf_ask (mu_request getServiceFee (bal_id (wf_balance s))) s (FeeRead True)])
      else loadAvailableBalance s)"

fun fee_read :: "bool \<Rightarrow> wf_reply \<Rightarrow> withdraw_state \<Rightarrow> wf_outcome" where
  "fee_read available (Resolved a) s = (if available then loadAvailableBalance s else idle s)"
| "fee_read available (Rejected e) s = idle s"

text \<open>An amount outside the balance is replaced by the nearer bound.\<close>

(* src: ui-dashboard/src/components/withdraw-form/withdraw-form.tsx 150-163 normalizeAmount *)
definition normalizeAmount :: "'b big_floats \<Rightarrow> string \<Rightarrow> string \<Rightarrow> string" where
  "normalizeAmount F balance amount =
     (let x = bf_plus F (bf_num F (Fin 0)) (bf_num F (parse_float amount))
      in if bf_less F x (bf_num F (Fin 0)) then bf_show F None (bf_num F (Fin 0))
         else if bf_less F (bf_text F balance) x then bf_show F None (bf_text F balance) else amount)"

(* src: ui-dashboard/src/components/withdraw-form/withdraw-form.tsx 124-131 loadConvertedAmount *)
definition loadConvertedAmount :: "string \<Rightarrow> withdraw_state \<Rightarrow> wf_outcome" where
  "loadConvertedAmount amount s =
     (if bal_id (wf_balance s) = ''empty'' then idle s
      else (s\<lparr>wf_converted := []\<rparr>,
        [wf_ask (mu_request getExchangeRate \<lparr>cv_from = bal_ticker (wf_balance s), cv_amount = amount, cv_to = ''USD''\<rparr>) s ConvertedRead]))"

(* src: ui-dashboard/src/components/withdraw-form/withdraw-form.tsx 131-133 setConvertedAmount *)
fun converted_read :: "wf_reply \<Rightarrow> withdraw_state \<Rightarrow> wf_outcome" where
  "converted_read (Resolved (WfConverted c)) s = idle (s\<lparr>wf_converted := convertedAmount c\<rparr>)"
| "converted_read a s = idle s"

(* src: ui-dashboard/src/components/withdraw-form/withdraw-form.tsx 182-189 useEffect *)
definition amount_effect :: "'b big_floats \<Rightarrow> withdraw_state \<Rightarrow> wf_outcome" where
  "amount_effect F s =
     (if checkCorrectAmount (wf_amount s)
      then let n = normalizeAmount F (bal_amount (wf_balance s)) (wf_amount s) in loadConvertedAmount n (s\<lparr>wf_amount := n\<rparr>)
      else idle (s\<lparr>wf_converted := []\<rparr>))"

text \<open>A replaced amount is another amount, for which the effect runs again; a bound is not replaced.\<close>

definition amount_changed :: "'b big_floats \<Rightarrow> withdraw_state \<Rightarrow> wf_outcome" where
  "amount_changed F s = (let oc = amount_effect F s in if wf_amount (fst oc) = wf_amount s then oc else andThen oc (amount_effect F))"

(* src: ui-dashboard/src/components/withdraw-form/withdraw-form.tsx 170-180 useEffect *)
definition balance_effect :: "'b big_floats \<Rightarrow> withdraw_state \<Rightarrow> wf_outcome" where
  "balance_effect F s =
     (if bal_id (wf_balance s) = ''empty'' then idle (s\<lparr>wf_converted := [], wf_amount := []\<rparr>)
      else andThen (loadServiceFee s) loadAvailableBalance)"

(* src: ui-dashboard/src/components/withdraw-form/withdraw-form.tsx 219-227 onSubmit *)
definition submit_withdrawal :: "withdraw_state \<Rightarrow> wf_outcome" where
  "submit_withdrawal s =
     (if bal_amount (wf_balance s) = ''empty'' \<or> wf_fee s = None \<or> \<not> checkCorrectAmount (wf_amount s) then idle s
      else (s, [Emit (WfFinish \<lparr>wd_addressId = wf_addressId s, wd_amount = wf_typed s, wd_balanceId = bal_id (wf_balance s)\<rparr>)]))"

(* src: ui-dashboard/src/components/withdraw-form/withdraw-form.tsx 247-249 uploadCreatedAddress *)
definition wf_uploadAddress :: "address_params \<Rightarrow> withdraw_state \<Rightarrow> wf_outcome" where
  "wf_uploadAddress v s = (s, [wf_ask (mu_request createAddress v) s (WfAddressAnswer (ma_name v))])"

fun wf_address_answer :: "string \<Rightarrow> wf_reply \<Rightarrow> withdraw_state \<Rightarrow> wf_outcome" where
  "wf_address_answer n (Resolved a) s = (s, [After (mu_wait createAddress) (WfAddressWait n)])"
| "wf_address_answer n (Rejected e) s = idle s"

(* src: ui-dashboard/src/components/withdraw-form/withdraw-form.tsx 249-258 changeIsFormOpen *)
definition wf_address_created :: "string \<Rightarrow> withdraw_state \<Rightarrow> wf_outcome" where
  "wf_address_created n s =
     (s\<lparr>wf_formOpen := False\<rparr>,
      [Emit (WfInvalidate (mu_invalidates createAddress)),
       Emit (WfPopup ''Address has created'' (''You have created new address '' @ n)), After 1000 WfReset])"

section \<open>What the form shows\<close>

definition decimals_of :: "string \<Rightarrow> nat" where
  "decimals_of t = (case split_on CHR ''.'' t of p # q # ps \<Rightarrow> length q | _ \<Rightarrow> 0)"

(* src: ui-dashboard/src/components/withdraw-form/withdraw-form.tsx 197-217 renderTotalSum *)
definition renderTotalSum :: "'b big_floats \<Rightarrow> withdraw_state \<Rightarrow> string" where
  "renderTotalSum F s =
     (case wf_fee s of
        None \<Rightarrow> ''loading...''
      | Some fee \<Rightarrow>
          if bal_amount (wf_balance s) = ''empty'' then ''loading...''
          else let total = bf_plus F (bf_plus F (bf_num F (Fin 0)) (bf_num F (parse_float (wf_amount s)))) (bf_num F (parse_float (currencyFee fee)));
                   d = max (decimals_of (wf_amount s)) (decimals_of (currencyFee fee))
               in if d = 0 then hd (split_on CHR ''.'' (bf_show F None total)) else bf_show F (Some d) total)"

(* src: ui-dashboard/src/components/withdraw-form/withdraw-form.tsx 229-241 renderTotalConvertedAmount *)
definition renderTotalConvertedAmount :: "'b big_floats \<Rightarrow> withdraw_state \<Rightarrow> string option" where
  "renderTotalConvertedAmount F s =
     (case wf_fee s of
        None \<Rightarrow> None
      | Some fee \<Rightarrow>
          if wf_converted s = [] then None
          else if sf_isTest fee then Some ''0''
          else Some (bf_show F None (bf_plus F (bf_plus F (bf_num F (Fin 0)) (bf_num F (parse_float (wf_converted s)))) (bf_num F (parse_float (usdFee fee))))))"

(* src: ui-dashboard/src/components/withdraw-form/withdraw-form.tsx 243-245 filterAddresses *)
definition filterAddresses :: "withdraw_state \<Rightarrow> merchant_address list" where
  "filterAddresses s = filter (\<lambda>a. ma_blockchain a = bal_blockchain (wf_balance s)) (wf_addresses s)"

(* src: ui-dashboard/src/components/withdraw-form/withdraw-form.tsx 260-304 getPaymentsDetails *)
definition getPaymentsDetails :: "'b big_floats \<Rightarrow> withdraw_state \<Rightarrow> (string \<times> string \<times> string) list" where
  "getPaymentsDetails F s =
     (case wf_fee s of
        Some fee \<Rightarrow>
          if checkCorrectAmount (wf_amount s)
          then let t = bal_ticker (wf_balance s) in
            [(''You will receive'', wf_amount s @ '' '' @ t, ''$'' @ displayAmount (bal_isTest (wf_balance s)) (wf_converted s)),
             (''Withdrawal fee'', currencyFee fee @ '' '' @ sf_currency fee, ''$'' @ usdFee fee),
             (''Total'', renderTotalSum F s @ '' '' @ t, ''$'' @ template (renderTotalConvertedAmount F s))]
          else map (\<lambda>l. (l, ''-'', ''-'')) [''You will receive'', ''Withdrawal fee'', ''Total'']
      | None \<Rightarrow> map (\<lambda>l. (l, ''-'', ''-'')) [''You will receive'', ''Withdrawal fee'', ''Total''])"

(* src: ui-dashboard/src/components/withdraw-form/withdraw-form.tsx 306-307 isLoading *)
definition wf_isLoading :: "withdraw_state \<Rightarrow> bool" where
  "wf_isLoading s \<longleftrightarrow> wf_feeLoading s \<or> wf_available s = []
     \<or> checkCorrectAmount (wf_amount s) \<and> (wf_fee s = None \<or> wf_converted s = [])"

datatype wf_handler = HWfSubmit | HWfAmount | HWfAddress | HWfClose

(* src: ui-dashboard/src/components/withdraw-form/withdraw-form.tsx 49-69 columns *)
definition detail_columns :: "(string \<times> string \<times> string, wf_handler) column list" where
  "detail_columns =
     [(''Label'', \<lambda>(l, p, c). [leaf ''span'' l]), (''Price'', \<lambda>(l, p, c). [leaf ''span'' p]), (''Converted price'', \<lambda>(l, p, c). [leaf ''span'' c])]"

(* src: ui-dashboard/src/components/withdraw-form/withdraw-form.tsx 316-386 Form *)
definition withdraw_fields :: "'b big_floats \<Rightarrow> withdraw_state \<Rightarrow> wf_handler ui list" where
  "withdraw_fields F s =
     (let b = wf_balance s; t = bal_ticker b
      in [comp ''Input'' [(''name'', ''balanceId''), (''disabled'', ''true'')],
          comp ''Statistic'' [(''title'', ''Available balance in '' @ t), (''value'', bal_amount b @ '' '' @ t)],
          comp ''Statistic'' [(''title'', ''Available balance in USD''), (''value'', ''$'' @ wf_available s)],
          required_item ''Address'' ''addressId''
            [wrap ''Select'' (map (\<lambda>a. El ''option'' [(''value'', ma_id a)] [] [Txt (ma_name a @ '' ('' @ ma_address a @ '')'')]) (filterAddresses s))],
          El ''Form.Item'' [(''label'', ''Amount''), (''name'', ''amount'')] []
            [El ''InputNumber'' [(''precision'', ''7''), (''min'', ''0''), (''max'', num_str (parse_float (bal_amount b)))] [(''onBlur'', HWfAmount)] []],
          wrap ''Text'' [Txt (''Note: minimal withdrawal amount for '' @ t @ '' is''), leaf ''Text'' (''$'' @ minimalWithdrawalAmountUSD b)],
          data_table (wf_isLoading s) fst detail_columns (getPaymentsDetails F s),
          El ''Button'' [(''htmlType'', ''submit'')] [] [Txt ''Create Withdrawal'']])"

(* src: ui-dashboard/src/components/withdraw-form/withdraw-form.tsx 387-424 DrawerForm *)
definition withdraw_view :: "'b big_floats \<Rightarrow> withdraw_state \<Rightarrow> wf_handler ui list" where
  "withdraw_view F s =
     [El ''Form'' [] [(''onFinish'', HWfSubmit)]
        (when_ui (wf_isLoading s) [comp ''Spin'' []]
         @ when_ui (\<not> wf_feeLoading s \<and> filterAddresses s \<noteq> [] \<and> wf_available s \<noteq> []) (withdraw_fields F s)
         @ when_ui (filterAddresses s = [] \<and> bal_id (wf_balance s) \<noteq> ''empty'')
             [leaf ''Text'' ''To create a withdrawal, first create an address in settings section or you can do it here'',
              button ''Create an address'' (wf_submitting s) HWfAddress]),
      DrawerForm ''Create an address'' (wf_formOpen s) HWfClose False [comp ''AddressCreateForm'' []]]"

section \<open>The component\<close>

datatype wf_event =
    WfAct wf_handler | WfType string | WfBlur string | WfChoose string | WfBalance merchant_balance | WfAddresses "merchant_address list" | WfCreate address_params
  | WfFeeHook bool "service_fee option"

text \<open>The fee of the hook is taken over when the hook stops loading.\<close>

(* src: ui-dashboard/src/components/withdraw-form/withdraw-form.tsx 191-195 useEffect *)
definition fee_hook :: "bool \<Rightarrow> service_fee option \<Rightarrow> withdraw_state \<Rightarrow> withdraw_state" where
  "fee_hook loading data s = s\<lparr>wf_feeLoading := loading, wf_fee := (if loading = wf_feeLoading s \<or> loading then wf_fee s else data)\<rparr>"

fun wf_run :: "wf_handler \<Rightarrow> withdraw_state \<Rightarrow> wf_outcome" where
  "wf_run HWfSubmit s = (if wf_addressId s = [] then idle s else submit_withdrawal s)"
| "wf_run HWfAddress s = idle (s\<lparr>wf_formOpen := True\<rparr>)"
| "wf_run HWfClose s = idle (s\<lparr>wf_formOpen := False\<rparr>)"
| "wf_run HWfAmount s = idle s"

fun wf_on :: "'b big_floats \<Rightarrow> wf_event \<Rightarrow> withdraw_state \<Rightarrow> wf_outcome" where
  "wf_on F (WfAct h) s = (if h \<in> set (handlers_of (withdraw_view F s)) then wf_run h s else idle s)"
| "wf_on F (WfBlur a) s = (if HWfAmount \<in> set (handlers_of (withdraw_view F s)) then idle (s\<lparr>wf_amount := a\<rparr>) else idle s)"
| "wf_on F (WfType a) s = (if HWfAmount \<in> set (handlers_of (withdraw_view F s)) then idle (s\<lparr>wf_typed := a\<rparr>) else idle s)"
| "wf_on F (WfChoose i) s = idle (s\<lparr>wf_addressId := i\<rparr>)"
| "wf_on F (WfBalance b) s = idle (s\<lparr>wf_balance := b\<rparr>)"
| "wf_on F (WfAddresses as) s = idle (s\<lparr>wf_addresses := as\<rparr>)"
| "wf_on F (WfCreate v) s = (if wf_formOpen s then wf_uploadAddress v s else idle s)"
| "wf_on F (WfFeeHook l d) s = idle (fee_hook l d s)"

fun wf_resume :: "wf_cont \<Rightarrow> wf_reply \<Rightarrow> withdraw_state \<Rightarrow> wf_outcome" where
  "wf_resume (FeeRead b) a s = fee_read b a s"
| "wf_resume ConvertedRead a s = converted_read a s"
| "wf_resume (AvailableRead t) a s = available_read t a s"
| "wf_resume (WfAddressAnswer n) a s = wf_address_answer n a s"
| "wf_resume k a s = idle s"

fun wf_timer :: "wf_cont \<Rightarrow> withdraw_state \<Rightarrow> wf_outcome" where
  "wf_timer (WfAddressWait n) s = wf_address_created n s"
| "wf_timer k s = idle s"

definition wf_effects :: "'b big_floats \<Rightarrow> withdraw_state \<Rightarrow> withdraw_state \<Rightarrow> wf_outcome" where
  "wf_effects F old s =
     (let oc = (if wf_balance s = wf_balance old then idle s else balance_effect F s)
      in if wf_amount (fst oc) = wf_amount old then oc else andThen oc (amount_changed F))"

definition withdraw_component where
  "withdraw_component F start = \<lparr>c_mount = (\<lambda>s. andThen (andThen (form_mounted start) (balance_effect F)) (amount_changed F)),
     c_event = wf_on F, c_resume = wf_resume, c_timer = wf_timer, c_effect = wf_effects F,
     c_fits = (\<lambda>(q :: string \<times> scoped_request) (r :: wf_reply). True)\<rparr>"

lemma withdraw_component_simps [simp]:
  "c_mount (withdraw_component F st) = (\<lambda>s. andThen (andThen (form_mounted st) (balance_effect F)) (amount_changed F))"
  "c_event (withdraw_component F st) = wf_on F" "c_resume (withdraw_component F st) = wf_resume"
  "c_timer (withdraw_component F st) = wf_timer" "c_effect (withdraw_component F st) = wf_effects F"
  "c_fits (withdraw_component F st) = (\<lambda>q r. True)"
  by (simp_all add: withdraw_component_def)

section \<open>Lemmas\<close>

text \<open>The check of the amount looks at its first two parts only, and allows a sign in each.\<close>

lemma odd_amounts_pass: "checkCorrectAmount ''1.2.3''" "checkCorrectAmount ''1.-5''" "\<not> checkCorrectAmount ''1.''" "\<not> checkCorrectAmount ''-1''"
  by (simp_all add: checkCorrectAmount_def isNumeric_def digits_def is_digit_def)

lemma plain_amounts_pass:
  assumes "digits i"
  shows "checkCorrectAmount i" and "digits f \<Longrightarrow> checkCorrectAmount (i @ CHR ''.'' # f)"
proof -
  have s: "CHR ''.'' \<notin> set t" if "digits t" for t using that by (auto simp: digits_def is_digit_def list_all_iff)
  have one: "split_on c t = [t]" if "c \<notin> set t" for c t using that by (induction t) auto
  have two: "split_on c (t @ c # u) = t # split_on c u" if "c \<notin> set t" for c t u
    using that by (induction t) (auto split: list.split)
  have h: "hd i \<noteq> CHR ''-''" "i \<noteq> []" using assms by (cases i; auto simp: digits_def is_digit_def)+
  show "checkCorrectAmount i" using assms h by (simp add: checkCorrectAmount_def one [OF s] isNumeric_def)
  show "checkCorrectAmount (i @ CHR ''.'' # f)" if "digits f"
    using assms h that by (simp add: checkCorrectAmount_def two [OF s] one [OF s] isNumeric_def hd_append) (simp add: digits_def)
qed

text \<open>A withdrawal is finished only with a fee and an accepted amount; what is handed on is what was typed, which
  the amount that was checked may have replaced.\<close>

lemma finished_checked:
  assumes "Emit (WfFinish w) \<in> set (snd (wf_on F v s))"
  shows "wf_fee s \<noteq> None \<and> checkCorrectAmount (wf_amount s) \<and> wd_balanceId w = bal_id (wf_balance s) \<and> wd_addressId w \<noteq> []
    \<and> wd_amount w = wf_typed s"
proof (cases v)
  case (WfAct h)
  then show ?thesis using assms by (cases h) (auto simp: submit_withdrawal_def idle_def split: if_splits)
qed (use assms in \<open>auto simp: idle_def wf_uploadAddress_def wf_ask_def split: if_splits\<close>)

text \<open>The amount that the effect leaves is zero, the balance, or one that is neither below zero nor above the balance.\<close>

lemma amount_clamped:
  assumes "n = normalizeAmount F balance a"
  shows "n = bf_show F None (bf_num F (Fin 0)) \<or> n = bf_show F None (bf_text F balance)
    \<or> n = a \<and> \<not> bf_less F (bf_plus F (bf_num F (Fin 0)) (bf_num F (parse_float a))) (bf_num F (Fin 0))
      \<and> \<not> bf_less F (bf_text F balance) (bf_plus F (bf_num F (Fin 0)) (bf_num F (parse_float a)))"
  using assms by (simp add: normalizeAmount_def Let_def)

section \<open>The card of a withdrawal\<close>

(* src: ui-dashboard/src/components/withdraw-desc-card/withdraw-desc-card.tsx 38-57 WithdrawalDescCard *)
definition withdrawal_parts :: "merchant_address list \<Rightarrow> merchant_balance list \<Rightarrow> dash_payment \<Rightarrow> merchant_address option \<times> merchant_balance option" where
  "withdrawal_parts addresses balances data =
     (let w = Option.bind (additionalInfo data) ai_withdrawal
      in (find_first (\<lambda>a. Some (ma_id a) = map_option aw_addressId w) addresses,
          find_first (\<lambda>b. Some (bal_id b) = map_option aw_balanceId w) balances))"

definition desc :: "string \<Rightarrow> 'h ui list \<Rightarrow> 'h ui" where
  "desc label children = El ''Descriptions.Item'' [(''label'', label)] [] children"

(* src: ui-dashboard/src/components/withdraw-desc-card/withdraw-desc-card.tsx 107-125 Descriptions.Item *)
definition hash_items :: "string option \<Rightarrow> string ui list" where
  "hash_items h =
     (case h of None \<Rightarrow> [Txt ''Transaction hash is not created yet'']
      | Some t \<Rightarrow> [Txt (renderStrippedStr t 24 (- 12)), El ''CopyOutlined'' [] [(''onClick'', t)] []])"

(* src: ui-dashboard/src/components/withdraw-desc-card/withdraw-desc-card.tsx 59-106 Descriptions *)
definition withdrawal_items :: "(string \<Rightarrow> string) \<Rightarrow> (string \<Rightarrow> string) \<Rightarrow> dash_payment \<Rightarrow> additional_withdrawal \<Rightarrow> merchant_balance
    \<Rightarrow> merchant_address option \<Rightarrow> string ui list" where
  "withdrawal_items local utc d w b a =
     [desc ''Balance'' (leaf ''span'' (bal_blockchainName b @ '' '' @ bal_currency b) # when_ui (isTest d) [leaf ''Tag'' ''test balance'']),
      desc ''Status'' [PaymentStatusLabel (dp_status d)], desc ''Created at'' [TimeLabel local utc (dp_createdAt d)],
      desc ''Recipient'' [leaf ''span'' (case a of None \<Rightarrow> ''The address had been deleted'' | Some x \<Rightarrow> ma_name x)]]
     @ (case a of None \<Rightarrow> [] | Some x \<Rightarrow> [desc [] [Txt (ma_address x), El ''CopyOutlined'' [] [(''onClick'', ma_address x)] []]])
     @ [desc [] [comp ''Statistic'' [(''title'', ''Amount''), (''value'', dp_price d @ '' '' @ dp_currency d)],
                 comp ''Statistic'' [(''title'', ''Service fee''), (''value'', aw_serviceFee w @ '' '' @ dp_currency d)]],
        desc ''Transaction ID'' (hash_items (aw_transactionHash w))]"

(* src: ui-dashboard/src/components/withdraw-desc-card/withdraw-desc-card.tsx 126-158 Descriptions *)
definition WithdrawalDescCard :: "(string \<Rightarrow> string) \<Rightarrow> (string \<Rightarrow> string) \<Rightarrow> merchant_address list \<Rightarrow> merchant_balance list \<Rightarrow> dash_payment option
    \<Rightarrow> string ui list" where
  "WithdrawalDescCard local utc addresses balances data =
     (case data of None \<Rightarrow> [comp ''Spin'' []]
      | Some d \<Rightarrow>
          let (a, b) = withdrawal_parts addresses balances d; p = Option.bind (additionalInfo d) ai_payment
          in case (b, Option.bind (additionalInfo d) ai_withdrawal) of
               (Some bal, Some w) \<Rightarrow>
                 withdrawal_items local utc d w bal a
                 @ when_ui (truthy (map_option customerEmail p)) [leaf ''Customer'' (customerEmail (the p))]
                 @ when_ui (truthy (map_option selectedCurrency p)) [leaf ''Selected Payment Method'' (selectedCurrency (the p))]
                 @ (case aw_explorerLink w of None \<Rightarrow> [] | Some l \<Rightarrow> [El ''a'' [(''href'', l)] [] [Txt ''View on blockchain explorer'']])
             | (None, x) \<Rightarrow> [comp ''Spin'' []]
             | (Some y, None) \<Rightarrow> [])"

text \<open>A withdrawal from a balance that is not in the list is never shown: the card goes on loading.\<close>

lemma unknown_balance_loads:
  assumes "\<forall>b \<in> set balances. bal_id b \<noteq> i" and "Option.bind (additionalInfo d) ai_withdrawal = Some w" and "aw_balanceId w = i"
  shows "WithdrawalDescCard local utc addresses balances (Some d) = [comp ''Spin'' []]"
proof -
  have "find_first (\<lambda>b. Some (bal_id b) = Some i) balances = None"
    using assms(1) by (simp add: find_first_def find_None_iff)
  then show ?thesis using assms(2,3) by (simp add: WithdrawalDescCard_def withdrawal_parts_def Let_def)
qed

end
