(* ===== verification/Dashboard_Shell.thy ===== *)
theory Dashboard_Shell
  imports Dashboard_App Admin_App Form_Kit
begin

text \<open>
  What the shells of the dashboard and of the administration console show around their pages
  (the markup of ui-dashboard/src/app.tsx and ui-dashboard/src/admin-app.tsx): the logo, the menu and its items,
  the selection of the merchant, the menu of the user, the switch of the theme
  (ui-dashboard/src/theme/theme-toggle.tsx), the order to verify the mail address, and the form of the support
  (ui-dashboard/src/components/support-form/support-form.tsx); with the toggles
  (ui-dashboard/src/providers/toggles.ts), the state of the analytics (ui-dashboard/src/hooks/use-posthog-status.ts)
  and the path that the pages are served under (ui-dashboard/src/main.tsx). A click is an order to the session.
\<close>

section \<open>Configuration\<close>

(* src: ui-dashboard/src/providers/toggles.ts 11-13 castBool *)
definition dash_castBool :: "string \<Rightarrow> bool" where
  "dash_castBool v = (to_lower v \<in> {''true'', ''t'', ''1'', ''yes''})"

(* src: ui-dashboard/src/providers/toggles.ts 1-9 toggled *)
definition dash_toggled :: "string option \<Rightarrow> string \<Rightarrow> bool" where
  "dash_toggled feedback key = (key = ''feedback'' \<and> dash_castBool (case feedback of None \<Rightarrow> [] | Some v \<Rightarrow> v))"

(* src: ui-dashboard/src/main.tsx 25-37 determineBasename *)
definition dash_basename :: "string \<Rightarrow> string" where
  "dash_basename rootPath =
     (if rootPath = [] \<or> rootPath = ''/'' then ''/'' else if ends_with rootPath ''/'' then slice rootPath 0 (-1) else rootPath)"

(* src: ui-dashboard/src/hooks/use-posthog-status.ts 10-17 usePosthogStatus *)
definition isPosthogActive :: "string option \<Rightarrow> bool" where
  "isPosthogActive apiKey \<longleftrightarrow> truthy apiKey"

text \<open>The user is named to the analytics once it is known.\<close>

(* src: ui-dashboard/src/app.tsx 198-205 identify *)
definition identify :: "string option \<Rightarrow> user option \<Rightarrow> (string \<times> string \<times> string) option" where
  "identify apiKey u = (case u of None \<Rightarrow> None | Some x \<Rightarrow> if isPosthogActive apiKey then Some (u_email x, u_email x, u_uuid x) else None)"

section \<open>Orders\<close>

datatype shell_handler =
    HGo string | HOpenSupport | HLeave string | HLogout | HTheme | HSelectMerchant | HResend | HCloseSupport | HSubmitSupport | HItem string

section \<open>The parts of the layout\<close>

(* src: ui-dashboard/src/theme/theme-toggle.tsx 6-25 ThemeToggle *)
definition ThemeToggle :: "bool \<Rightarrow> shell_handler ui" where
  "ThemeToggle isDark =
     El ''Tooltip'' [(''title'', if isDark then ''Switch to Light Mode'' else ''Switch to Dark Mode'')] []
       [El ''Button'' [(''icon'', if isDark then ''BulbOutlined'' else ''BulbFilled'')] [(''onClick'', HTheme)] []]"

(* src: ui-dashboard/src/app.tsx 316-336 logo *)
definition shell_logo :: "string \<Rightarrow> bool \<Rightarrow> shell_handler ui" where
  "shell_logo version isMobile =
     El ''div'' [(''className'', bevis ''app'' (Some ''logo'') [])] []
       (comp ''img'' [(''src'', ''/logo.svg''), (''alt'', ''logo'')]
        # when_ui (\<not> isMobile) [wrap ''span'' [Txt ''CryptoLink '', leaf ''span'' (''v'' @ version)]])"

(* src: ui-dashboard/src/app.tsx 245-274 userMenu *)
definition userMenu :: "user option \<Rightarrow> shell_handler ui list" where
  "userMenu u =
     [El ''Space'' [(''key'', ''profile'')] [(''onClick'', HGo ''/profile'')] [leaf ''span'' ''Profile'']]
     @ when_ui (case u of None \<Rightarrow> False | Some x \<Rightarrow> isSuperAdmin x)
         [El ''Space'' [(''key'', ''admin'')] [(''onClick'', HLeave ''/admin/dashboard'')] [leaf ''span'' ''Admin Panel'']]
     @ [comp ''Divider'' [], El ''Space'' [(''key'', ''0'')] [(''onClick'', HLogout)] [leaf ''span'' ''Log out'']]"

text \<open>\<open>user?.email || user?.name\<close>\<close>

(* src: ui-dashboard/src/app.tsx 382-403 Dropdown *)
definition user_dropdown :: "user option \<Rightarrow> bool \<Rightarrow> shell_handler ui list \<Rightarrow> shell_handler ui" where
  "user_dropdown u isMobile items =
     El ''Dropdown'' [(''key'', ''user-dropdown'')] []
       (El ''Space'' [(''className'', bevis ''app'' (Some ''user-container'') [(''user-container_selected'', BTrue)])] []
          (comp ''Avatar'' [(''src'', case u of None \<Rightarrow> [] | Some x \<Rightarrow> profileImageUrl x)]
           # when_ui (\<not> isMobile) [leaf ''div'' (case u of None \<Rightarrow> [] | Some x \<Rightarrow> or_else (Some (u_email x)) (u_name x))])
        # items)"

text \<open>The choice of the merchant; its own entry leads to the page that manages them.\<close>

(* src: ui-dashboard/src/app.tsx 342-381 Select *)
definition merchant_select :: "merchant list option \<Rightarrow> string option \<Rightarrow> shell_handler ui" where
  "merchant_select ms i =
     El ''Select'' [(''key'', ''merchant-select''), (''value'', case ms of None \<Rightarrow> ''loading...'' | Some x \<Rightarrow> (case i of None \<Rightarrow> [] | Some m \<Rightarrow> m))]
       [(''onChange'', HSelectMerchant)]
       ((case ms of None \<Rightarrow> [El ''option'' [(''value'', ''loading...'')] [] [Txt ''Loading...'']]
         | Some xs \<Rightarrow> map (\<lambda>m. El ''option'' [(''value'', m_id m)] [] [Txt (mb_name m)]) xs)
        @ [El ''Button'' [] [(''onClick'', HGo ''/manage-merchants'')] [Txt ''Manage merchants'']])"

(* src: ui-dashboard/src/app.tsx 339-341 actionsRender *)
definition shell_actions :: "bool \<Rightarrow> bool \<Rightarrow> string \<Rightarrow> session \<Rightarrow> shell_handler ui list" where
  "shell_actions isDark isMobile path s =
     ThemeToggle isDark
     # when_ui (path \<noteq> ''/manage-merchants'') [merchant_select (merchants s) (merchantId (selection s))]
     @ [user_dropdown (sessionUser s) isMobile (userMenu (sessionUser s))]"

text \<open>An item of the menu: a link to another site, the form of the support, or a page. On a narrow screen the
  item's own \<open>onClick\<close> would run too; no item has one.\<close>

definition is_link :: "menu_item \<Rightarrow> bool" where
  "is_link i = str_includes (mi_path i) ''http''"

(* src: ui-dashboard/src/app.tsx 406-436 menuItemRender *)
definition menuItemRender :: "bool \<Rightarrow> (menu_item \<Rightarrow> bool) \<Rightarrow> menu_item \<Rightarrow> shell_handler ui" where
  "menuItemRender isMobile has_onClick i =
     El ''div'' [] (when_ui (isMobile \<and> has_onClick i) [(''onClick'', HItem (mi_path i))])
       (when_ui (is_link i) [El ''a'' [(''href'', mi_path i), (''target'', ''_blank'')] [] [Txt (mi_name i)]]
        @ when_ui (mi_path i = ''/support'') [El ''div'' [] [(''onClick'', HOpenSupport)] [Txt (mi_name i)]]
        @ when_ui (\<not> is_link i \<and> mi_path i \<noteq> ''/support'')
            [El ''div'' [] [(''onClick'', HGo (or_else (Some (mi_path i)) ''/''))] [Txt (mi_name i)]])"

text \<open>The order to verify the mail address.\<close>

(* src: ui-dashboard/src/app.tsx 444-466 Alert *)
definition verify_alert :: "bool \<Rightarrow> user option \<Rightarrow> shell_handler ui list" where
  "verify_alert resending u =
     when_ui (case u of None \<Rightarrow> False | Some x \<Rightarrow> emailVerified x = Some False)
       [El ''Alert'' [(''type'', ''warning'')] []
          [Txt ''Please verify your email address. Check your inbox or '',
           El ''Button'' [(''loading'', bool_attr resending)] (when_ui (\<not> resending) [(''onClick'', HResend)]) [Txt ''Resend verification email'']]]"

section \<open>The form of the support\<close>

text \<open>The initial value of the topic is an option, with a value and a label, and its field hands it on as it is; a
  topic that was chosen is a text.\<close>

datatype topic_field = TopicOption string string | TopicText string

record support_fields =
  sf_topic :: topic_field
  sf_message :: string

(* src: ui-dashboard/src/components/support-form/support-form.tsx 29-40 initialValue *)
definition fresh_support_form :: support_fields where
  "fresh_support_form = \<lparr>sf_topic = TopicOption ''Support'' ''Support'', sf_message = []\<rparr>"

(* src: ui-dashboard/src/components/support-form/support-form.tsx 15-17 onSubmit *)
definition support_values :: "support_fields \<Rightarrow> (string \<times> jval) list" where
  "support_values v =
     [(''topic'', case sf_topic v of TopicOption x l \<Rightarrow> JObj [(''value'', JStr x), (''label'', JStr l)] | TopicText t \<Rightarrow> JStr t),
      (''message'', JStr (sf_message v))]"

(* src: ui-dashboard/src/components/support-form/support-form.tsx 26-77 Form *)
definition SupportForm :: "bool \<Rightarrow> shell_handler ui" where
  "SupportForm submitting =
     El ''Form'' [] [(''onFinish'', HSubmitSupport)]
       ([required_item ''Topic'' ''topic'' [wrap ''Select'' [leaf ''option'' ''Support'', leaf ''option'' ''Feedback'']],
         required_item ''Message'' ''message'' [comp ''Input.TextArea'' []]]
        @ form_buttons ''Send'' submitting HCloseSupport)"

section \<open>The shells\<close>

(* src: ui-dashboard/src/app.tsx 299-315 ProLayout *)
definition shell_menu :: "bool \<Rightarrow> string \<Rightarrow> menu_item list" where
  "shell_menu feedback path =
     (if path = ''/manage-merchants'' then [\<lparr>mi_path = ''/manage-merchants'', mi_name = ''Manage Merchants''\<rparr>] else defaultMenus feedback)"

(* src: ui-dashboard/src/app.tsx 480-498 DrawerForm *)
definition shell_view :: "string \<Rightarrow> bool \<Rightarrow> bool \<Rightarrow> bool \<Rightarrow> string \<Rightarrow> session \<Rightarrow> shell_handler ui list" where
  "shell_view version feedback isDark isMobile path s =
     (if path = ''/login'' then [comp ''LoginPage'' []]
      else shell_logo version isMobile # shell_actions isDark isMobile path s
        @ map (menuItemRender isMobile (\<lambda>i. False)) (shell_menu feedback path)
        @ verify_alert (resendingVerification s) (sessionUser s)
        @ [DrawerForm ''Contact us'' (isSupportFormOpen s) HCloseSupport False [SupportForm (isFormSubmitting s)]])"

text \<open>The console: its menu, whose items on a narrow screen do nothing.\<close>

(* src: ui-dashboard/src/admin-app.tsx 197-205 menuItemRender *)
definition admin_item :: "bool \<Rightarrow> string \<times> string \<Rightarrow> shell_handler ui" where
  "admin_item isMobile i =
     El ''div'' [] (when_ui (\<not> isMobile) [(''onClick'', HGo (or_else (Some (fst i)) ''/''))]) [Txt (snd i)]"

(* src: ui-dashboard/src/admin-app.tsx 146-212 ProLayout *)
definition admin_view :: "string \<Rightarrow> bool \<Rightarrow> bool \<Rightarrow> admin_app \<Rightarrow> shell_handler ui list" where
  "admin_view version isDark isMobile s =
     [shell_logo version isMobile, ThemeToggle isDark,
      user_dropdown (aa_user s) isMobile
        [El ''Space'' [(''key'', ''merchant'')] [(''onClick'', HLeave ''/merchants/payments'')] [leaf ''span'' ''Merchant Panel''],
         comp ''Divider'' [], El ''Space'' [(''key'', ''logout'')] [(''onClick'', HLogout)] [leaf ''span'' ''Log out'']]]
     @ map (admin_item isMobile) adminMenus"

section \<open>Lemmas\<close>

lemma link_item: "is_link \<lparr>mi_path = ''https://cryptolink.cc/docs'', mi_name = n\<rparr>"
  by (simp add: is_link_def starts_with_def)

text \<open>Every item of the menu leads somewhere: to another site, to the form of the support, or to a page that a
  route shows.\<close>

lemma menu_leads_somewhere:
  "i \<in> set (shell_menu feedback path) \<Longrightarrow> is_link i \<or> mi_path i = ''/support'' \<or> dash_route (mi_path i) \<notin> {DNotFound, DLogin}"
proof -
  define leads where "leads = (\<lambda>i :: menu_item. is_link i \<or> mi_path i = ''/support'' \<or> dash_route (mi_path i) \<notin> {DNotFound, DLogin})"
  have "list_all leads (shell_menu feedback path)"
    by (simp add: shell_menu_def defaultMenus_def when_ui_def leads_def dash_route_def dash_routes_def link_item)
  then show "i \<in> set (shell_menu feedback path) \<Longrightarrow> is_link i \<or> mi_path i = ''/support'' \<or> dash_route (mi_path i) \<notin> {DNotFound, DLogin}"
    by (auto simp: list_all_iff leads_def)
qed

text \<open>The handlers of the parts.\<close>

lemma part_handlers:
  "ui_handlers (shell_logo v m) = []" "ui_handlers (ThemeToggle b) = [HTheme]"
  "ui_handlers (user_dropdown u m items) = handlers_of items"
  "HLeave p \<notin> set (ui_handlers (merchant_select ms i))" "HLeave p \<notin> set (handlers_of (map (menuItemRender m c) xs))"
  "HLeave p \<notin> set (handlers_of (verify_alert b u))" "set (ui_handlers (SupportForm b)) = {HSubmitSupport, HCloseSupport}"
  "HLeave p \<notin> set (ui_handlers (DrawerForm t o1 HCloseSupport False [SupportForm b]))"
  by (auto simp: shell_logo_def ThemeToggle_def user_dropdown_def merchant_select_def menuItemRender_def verify_alert_def
      SupportForm_def DrawerForm_def form_buttons_def handlers_of_def when_ui_def split: option.splits)

text \<open>The way to the console is shown to administrators only, on every path.\<close>

lemma console_link_for_administrators:
  assumes "HLeave p \<in> set (handlers_of (shell_view version feedback isDark isMobile path s))"
  shows "p = ''/admin/dashboard'' \<and> (\<exists>u. sessionUser s = Some u \<and> isSuperAdmin u)"
proof -
  have "HLeave p \<in> set (handlers_of (userMenu (sessionUser s)))"
    using assms part_handlers by (auto simp: shell_view_def shell_actions_def when_ui_def split: if_splits)
  then show ?thesis by (auto simp: userMenu_def when_ui_def split: option.splits if_splits)
qed

text \<open>The menu of the console does nothing on a narrow screen: there no click leads to a page.\<close>

lemma narrow_console_menu_dead: "HGo p \<notin> set (handlers_of (admin_view version isDark True s))"
  by (auto simp: admin_view_def admin_item_def shell_logo_def ThemeToggle_def user_dropdown_def when_ui_def handlers_of_def)

lemma wide_console_menu:
  "HGo p \<in> set (handlers_of (admin_view version isDark False s)) \<longleftrightarrow> p \<in> fst ` set adminMenus"
  by (auto simp: admin_view_def admin_item_def shell_logo_def ThemeToggle_def user_dropdown_def when_ui_def handlers_of_def
      adminMenus_def)

text \<open>The form as it opens does not send a text as its topic.\<close>

lemma default_topic_no_text:
  "map_of (support_values (fresh_support_form\<lparr>sf_message := m\<rparr>)) ''topic'' = Some (JObj [(''value'', JStr ''Support''), (''label'', JStr ''Support'')])"
  by (simp add: support_values_def fresh_support_form_def)

end
