(* ===== verification/Spec2Isabelle.thy ===== *)
theory Spec2Isabelle
  imports Payment_Site Dashboard_App Balance_Page Wallet_Setup Payments_Page
    Subscription_Page Login_Page Admin_Lists Admin_Forms Admin_Support Admin_Contracts Marketing_Page Admin_App
    Merchants_Page Payment_Links Currencies_Page Settings_Page Addresses Customers_Page Profile_Page Withdrawals Dashboard_Shell
begin

text \<open>
  CryptoLink is a payment gateway: a Go server, smart contracts that collect payments, and two
  browser applications in TypeScript. This library models the two applications: the payment page
  that a customer sees (ui-payment/src) and the dashboard of a merchant (ui-dashboard/src).

  \<^bold>\<open>How the parts interact.\<close> Both applications are React components that keep their state in hooks,
  call the server through a client with interceptors, and wait for answers and timers. The payment page
  polls one payment until it is settled. The dashboard loads the account, selects a merchant, and shows
  its balances, wallets, payments, links, customers and settings; withdrawals and deployments go through a browser wallet
  (MetaMask, TronLink) to the contracts.

  \<^bold>\<open>Foundations.\<close> \<open>JS_Prelude\<close> has the strings, options and lists of JavaScript, \<open>JS_Number\<close> its
  numbers (rationals that fit a double, infinities and NaN), their printing, \<open>toFixed\<close>, \<open>parseFloat\<close>
  and \<open>Number\<close>. \<open>Async\<close> is the model of a React component: its code is cut at each \<open>await\<close> and
  each \<open>setTimeout\<close>, a piece is a function from the state to a state and commands, and a world has
  the state, the requests under way with their continuations, the timers and the effects so far.
  Answers and timers come in any order. Its two locales, \<open>safe_component\<close> and
  \<open>live_component\<close>, turn laws of the pieces into invariants and liveness of all runs, and every
  component below interprets them. \<open>Async_History\<close> adds to a run its history, the list of what the user did and of
  what was answered to which request, and the locale \<open>traced_component\<close>, in which a condition on the
  state, the requests and the effects may speak of the history; the properties that say where a value comes from
  rest on it. \<open>Markup\<close> is the rendered tree. \<open>Http\<close> has requests and answers.

  \<^bold>\<open>Payment page.\<close> \<open>Payment_Types\<close> (types/index.ts, providers/paymentProvider.ts),
  \<open>Payment_Page\<close> (state, effects, handlers and timers of pages/PaymentPage.tsx),
  \<open>Payment_View\<close> (what it renders), \<open>Payment_Parts\<close> (components/), \<open>Payment_App\<close> (App.tsx,
  main.tsx and the other pages), \<open>Payment_Site\<close> (App.tsx and the payment page as one component, over the payment
  that they share). Shown: the page navigates only with a payment that the server has reported settled, to the page of
  its status; polling never stops; a payment is confirmed only by a press on the button, after the server has
  stored or reported a customer and a method, and a customer stored only behind its guards; and what the
  screen asks a customer to send.

  \<^bold>\<open>Dashboard.\<close> \<open>Fiat\<close> (utils/format-fiat.ts and the renderers of both applications),
  \<open>Api_Client\<close> (utils/api-request.ts: the guard on URLs, the refresh of the CSRF cookie, the
  swallowing of failures), \<open>Dashboard_Types\<close>, \<open>Dashboard_Providers\<close> (every method of
  providers/ as an HTTP request), \<open>Queries\<close> (queries/), \<open>Local_Storage\<close> (utils/local-storage.ts
  with the JSON of strings, hooks/use-merchant-id.ts, theme), \<open>Dashboard_App\<close> (app.tsx: session,
  selection, routes), \<open>Wallets\<close> (utils/evm-wallet.ts, utils/tron-wallet.ts),
  \<open>Balance_View\<close> and \<open>Balance_Page\<close> (pages/balance-page), \<open>Wallet_Deploy\<close>,
  \<open>Wallet_Tron\<close> and \<open>Wallet_Setup\<close> (the three components of pages/wallet-setup-page),
  \<open>Payments_Table\<close>, \<open>Payment_Card\<close> and \<open>Payments_Page\<close> (pages/payments-page with its form
  and card), \<open>Subscription_Page\<close> (pages/subscription-page) with \<open>JS_Math\<close>, the rest of the
  arithmetic of JavaScript. Shown: requests name a resource of the selected merchant, for identifiers that need no encoding; what the wallet has
  accepted, and through which provider, before a withdrawal is sent, and its account, contract and tokens; a
  registration names the owner, the contract and the factory that the wallet and the node answered in that
  run, for the merchant and the chain of the click; spinners, dialogs and forms end; amounts are printed to the cent;
  the exported table can be read back; decisions on a payment are guarded; a reload finds the selected merchant, as
  long as the session has not ended; a change of plan is asked for only where an answer offered it.

  \<open>Login_Page\<close> (pages/login-page) has the probe of the session, the two forms and their rules. Shown: an
  account is created only on a complete form.

  \<^bold>\<open>The other pages of the dashboard.\<close> \<open>Link_Input\<close> (components/link-input) has the pattern of links as
  a regular expression with a matcher by derivatives; \<open>Form_Kit\<close> what the forms share, and \<open>busy_page\<close>,
  the locale of a page whose form is locked until an answer or a timer frees it, which each page with such a
  form interprets. \<open>Merchants_Page\<close> (pages/manage-merchants-page with its form and card),
  \<open>Payment_Links\<close> (pages/payment-links-page), \<open>Currencies_Page\<close> (pages/currencies-page),
  \<open>Settings_Page\<close> (pages/settings-page: accepted currencies, tokens, webhooks, over the merchant they
  share), \<open>Addresses\<close> (components/withdraw-addresses with its forms), \<open>Customers_Page\<close>
  (pages/customers-page), \<open>Profile_Page\<close> (pages/profile-page), \<open>Withdrawals\<close> (the form and the card of a
  withdrawal, which no page shows) and \<open>Dashboard_Shell\<close> (the layout of app.tsx and admin-app.tsx). Where
  the code writes into an object of a shared list, the state has a store of objects and the list holds
  positions in it. Shown: which links the forms accept; that what is stored of a link of a payment is
  complete; that forms which cut a scheme off put it back, and when; that the two pages which switch a
  currency agree; that the page of addresses shows what it was given, but for names; that a merchant that is opened and saved is
  stored as it was; that forms are freed.

  \<^bold>\<open>Administration console.\<close> \<open>Admin_Kit\<close> has the types of providers/admin-provider.ts, the tables and
  dialogs of the component library, the calendar, and \<open>waiting_page\<close>, the locale of a page that shows that
  it waits; \<open>Admin_App\<close> (admin-app.tsx: session, routes, titles), \<open>Admin_Lists\<close> (users, merchants,
  contacts, figures), \<open>Admin_Forms\<close> (e-mail and plans), \<open>Admin_Support\<close> (payments),
  \<open>Admin_Contracts\<close> (contract factories), \<open>Marketing_Sequences\<close> and \<open>Marketing_Page\<close> (the four tabs
  of pages/admin/marketing-page). Shown: the console is for administrators and never deletes one; an edited
  plan keeps its values, and the limits that it does not have; the factory that is stored is the one that was deployed; campaigns and sequences
  are decided on by their status; limits stay in range; and that the page of payments calls
  methods that its provider does not have.

  \<^bold>\<open>Bounds and fuel.\<close> \<open>api_call\<close> may recurse for ever through its own interceptor, so it is a
  \<open>partial_function\<close> into \<open>option\<close>: it is shown to return when the CSRF request is not itself
  forbidden, and to diverge when it always is. The polls of TronLink and of a TRON transaction are
  bounded by the code (thirty looks at a transaction). Nothing else needs fuel.

  \<^bold>\<open>Parameters.\<close> The server, the wallet and the node behind it, the encoding of contract calls, the
  formatting of dates and of numbers for a locale, and react-query are not in the repository or not in
  its language: they are arguments of the definitions, and hypotheses state what the code relies on.

  \<^bold>\<open>Not modelled.\<close> The Go server and the Solidity contracts (other languages); generated bundles and
  build files; style classes, colours and icons; the calls of the analytics package; entry points that only mount
  the applications; fixed help texts; a collapsing text that nothing imports.
\<close>

end
